(* ===== verification/Umd_Prelude.thy ===== *)
theory Umd_Prelude
  imports Main "HOL-Library.Word"
begin

text \<open>
  Shared vocabulary of the development: the machine integers of the driver, the
  process memory as a function from addresses to bytes, little-endian encodings of
  the structures shared with the firmware, the arithmetic helpers of
  \<open>umd/vpu_driver/include/umd_common.hpp\<close>, and the generic lemmas on byte lists and
  words that the component theories use.
\<close>

unbundle bit_operations_syntax

section \<open>Types\<close>

type_synonym u8 = "8 word"
type_synonym u16 = "16 word"
type_synonym u32 = "32 word"
type_synonym u64 = "64 word"
type_synonym bytes = "u8 list"

text \<open>
  \<open>byte_simps\<close> collects equations that move a statement about the memory to one about
  byte lists, \<open>umd_defs\<close> the definitions of small accessors.
\<close>

named_theorems byte_simps
named_theorems umd_defs

text \<open>C++ exceptions that leave a function of the driver.\<close>

datatype exn = Overflow_error | Runtime_error | Out_of_range | Driver_error nat

section \<open>Arithmetic helpers (umd\_common.hpp)\<close>

text \<open>
  \<open>safe_cast<To>(x)\<close> throws \<open>std::overflow_error\<close> when the value does not fit. The
  template has one branch per signedness of the source and the target type; a value is
  read as the integer it denotes, and the bounds are those of the target type.
\<close>

datatype int_type = Unsigned nat | Signed nat

fun type_min :: "int_type \<Rightarrow> int" where
  "type_min (Unsigned w) = 0"
| "type_min (Signed w) = - (2 ^ (w - 1))"

fun type_max :: "int_type \<Rightarrow> int" where
  "type_max (Unsigned w) = 2 ^ w - 1"
| "type_max (Signed w) = 2 ^ (w - 1) - 1"

fun type_bits :: "int_type \<Rightarrow> nat" where
  "type_bits (Unsigned w) = w"
| "type_bits (Signed w) = w"

fun safe_cast :: "int_type \<Rightarrow> int_type \<Rightarrow> int \<Rightarrow> exn + int" where
  "safe_cast (Signed f) (Signed t) x =
     (if f > t \<and> (x > type_max (Signed t) \<or> x < type_min (Signed t))
      then Inl Overflow_error else Inr x)"
| "safe_cast (Unsigned f) (Unsigned t) x =
     (if f > t \<and> x > type_max (Unsigned t) then Inl Overflow_error else Inr x)"
| "safe_cast (Unsigned f) (Signed t) x =
     (if f \<ge> t \<and> x > type_max (Signed t) then Inl Overflow_error else Inr x)"
| "safe_cast (Signed f) (Unsigned t) x =
     (if x < 0 then Inl Overflow_error
      else if f > t \<and> x > type_max (Unsigned t) then Inl Overflow_error else Inr x)"

definition in_type :: "int_type \<Rightarrow> int \<Rightarrow> bool" where
  "in_type t x \<longleftrightarrow> type_min t \<le> x \<and> x \<le> type_max t"

text \<open>The instance the driver uses most: \<open>safe_cast<uint32_t>\<close> of a \<open>size_t\<close>.\<close>

definition safe_cast_u32 :: "u64 \<Rightarrow> exn + u32" where
  "safe_cast_u32 x =
     (case safe_cast (Unsigned 64) (Unsigned 32) (uint x) of
        Inl e \<Rightarrow> Inl e | Inr v \<Rightarrow> Inr (word_of_int v))"

text \<open>\<open>ALIGN(x, a)\<close> is \<open>(x + (a - 1)) & ~(a - 1)\<close> in the type of \<open>x\<close>.\<close>

definition ALIGN :: "u64 \<Rightarrow> u64 \<Rightarrow> u64" where
  "ALIGN x a = (x + (a - 1)) AND NOT (a - 1)"

definition getFwDataCacheAlign :: "u64 \<Rightarrow> u64" where
  "getFwDataCacheAlign a = ALIGN a 64"

section \<open>Process memory\<close>

type_synonym memory = "u64 \<Rightarrow> u8"

definition read_bytes :: "memory \<Rightarrow> u64 \<Rightarrow> nat \<Rightarrow> bytes" where
  "read_bytes m a n = map (\<lambda>i. m (a + of_nat i)) [0..<n]"

definition write_bytes :: "memory \<Rightarrow> u64 \<Rightarrow> bytes \<Rightarrow> memory" where
  "write_bytes m a bs =
     (\<lambda>x. let i = unat (x - a) in if i < length bs then bs ! i else m x)"

definition overwrite :: "'a list \<Rightarrow> nat \<Rightarrow> 'a list \<Rightarrow> 'a list" where
  "overwrite xs k ys = take k xs @ ys @ drop (k + length ys) xs"

section \<open>Little-endian encodings\<close>

fun le_bytes :: "nat \<Rightarrow> nat \<Rightarrow> bytes" where
  "le_bytes 0 v = []"
| "le_bytes (Suc n) v = word_of_nat v # le_bytes n (v div 256)"

fun le_value :: "bytes \<Rightarrow> nat" where
  "le_value [] = 0"
| "le_value (b # bs) = unat b + 256 * le_value bs"

definition enc16 :: "u16 \<Rightarrow> bytes" where "enc16 w = le_bytes 2 (unat w)"
definition enc32 :: "u32 \<Rightarrow> bytes" where "enc32 w = le_bytes 4 (unat w)"
definition enc64 :: "u64 \<Rightarrow> bytes" where "enc64 w = le_bytes 8 (unat w)"

definition dec16 :: "bytes \<Rightarrow> u16" where "dec16 bs = word_of_nat (le_value (take 2 bs))"
definition dec32 :: "bytes \<Rightarrow> u32" where "dec32 bs = word_of_nat (le_value (take 4 bs))"
definition dec64 :: "bytes \<Rightarrow> u64" where "dec64 bs = word_of_nat (le_value (take 8 bs))"

section \<open>Lemmas on words, memory and encodings\<close>

lemma length_read_bytes [simp]: "length (read_bytes m a n) = n"
  by (simp add: read_bytes_def)

lemma nth_read_bytes [simp]: "i < n \<Longrightarrow> read_bytes m a n ! i = m (a + of_nat i)"
  by (simp add: read_bytes_def)

lemma read_bytes_0 [simp]: "read_bytes m a 0 = []"
  by (simp add: read_bytes_def)

lemma length_overwrite [simp]:
  "k + length ys \<le> length xs \<Longrightarrow> length (overwrite xs k ys) = length xs"
  by (simp add: overwrite_def)

lemma nth_overwrite:
  "k + length ys \<le> length xs \<Longrightarrow> i < length xs \<Longrightarrow>
   overwrite xs k ys ! i = (if k \<le> i \<and> i < k + length ys then ys ! (i - k) else xs ! i)"
  by (auto simp: overwrite_def nth_append min_def)

lemma overwrite_Nil [simp]: "overwrite xs k [] = xs"
  by (simp add: overwrite_def)

lemma take_drop_overwrite_same:
  "k + length ys \<le> length xs \<Longrightarrow> take (length ys) (drop k (overwrite xs k ys)) = ys"
  by (simp add: overwrite_def)

lemma take_drop_overwrite_other:
  assumes "k + length ys \<le> length xs" "j + n \<le> k \<or> k + length ys \<le> j" "j + n \<le> length xs"
  shows "take n (drop j (overwrite xs k ys)) = take n (drop j xs)"
  using assms by (intro nth_equalityI) (auto simp: nth_overwrite)

lemma unat_of_nat_64: "i < 2 ^ 64 \<Longrightarrow> unat (of_nat i :: u64) = i"
  by (simp add: unat_of_nat take_bit_nat_eq_self)

lemma read_write_within [byte_simps]:
  assumes "k + length bs \<le> n" "n \<le> 2 ^ 64"
  shows "read_bytes (write_bytes m (a + of_nat k) bs) a n = overwrite (read_bytes m a n) k bs"
proof (intro nth_equalityI)
  show "length (read_bytes (write_bytes m (a + of_nat k) bs) a n) = length (overwrite (read_bytes m a n) k bs)"
    using assms by simp
next
  fix i assume "i < length (read_bytes (write_bytes m (a + of_nat k) bs) a n)"
  then have i: "i < n" by simp
  define d where "d = (of_nat i - of_nat k :: u64)"
  have d: "unat d = (if k \<le> i then i - k else 2 ^ 64 + i - k)" if "k < 2 ^ 64"
  proof -
    have "unat (of_nat i :: u64) = i" "unat (of_nat k :: u64) = k"
      using i assms that by (simp_all add: unat_of_nat_64)
    then show ?thesis
      unfolding d_def by (auto simp: unat_sub_if' )
  qed
  show "read_bytes (write_bytes m (a + of_nat k) bs) a n ! i = overwrite (read_bytes m a n) k bs ! i"
  proof (cases "bs = []")
    case True then show ?thesis using i by (simp add: write_bytes_def)
  next
    case False
    then have "k < 2 ^ 64" using assms by (cases bs) auto
    with d i assms show ?thesis
      by (auto simp: write_bytes_def nth_overwrite Let_def d_def[symmetric] algebra_simps)
  qed
qed

lemma unat_lt_64: "unat (w :: u64) < 2 ^ 64"
  using unsigned_less[of w, where ?'a = nat] by simp

lemma unat_mask_64:
  assumes "k < 64"
  shows "unat (mask k :: u64) = 2 ^ k - 1"
proof -
  have "(2::nat) ^ k \<le> 2 ^ 64" using assms by (intro power_increasing) auto
  moreover have "(0::nat) < 2 ^ k" by simp
  ultimately have "(2::nat) ^ k - 1 < 2 ^ 64" by linarith
  then have "unat (of_nat (2 ^ k - 1) :: u64) = 2 ^ k - 1" by (rule unat_of_nat_64)
  moreover have "(mask k :: u64) = of_nat (2 ^ k - 1)"
    using of_nat_mask_eq[of k, where ?'a = u64] by (simp only: mask_eq_exp_minus_1)
  ultimately show ?thesis by (simp only:)
qed

lemma unat_clear_low_bits:
  fixes y :: u64
  shows "unat (y AND NOT (mask k)) = unat y div 2 ^ k * 2 ^ k"
proof -
  have e: "y AND NOT (mask k) = push_bit k (drop_bit k y)"
    by (rule bit_word_eqI) (auto simp: bit_simps)
  have "unat y div 2 ^ k * 2 ^ k < 2 ^ 64"
    using unat_lt_64[of y] div_times_less_eq_dividend[of "unat y" "2 ^ k"] by (rule le_less_trans[rotated])
  then have "take_bit 64 (push_bit k (drop_bit k (unat y))) = unat y div 2 ^ k * 2 ^ k"
    by (simp only: push_bit_eq_mult drop_bit_eq_div take_bit_nat_eq_self)
  then show ?thesis
    unfolding e using unat_lt_64[of y] by (simp add: unsigned_push_bit_eq unsigned_drop_bit_eq take_bit_nat_eq_self)
qed

lemma unat_plus_64: "unat x + unat y < 2 ^ 64 \<Longrightarrow> unat (x + y :: u64) = unat x + unat y"
  by (rule unat_add_lem[THEN iffD1]) simp

lemma ALIGN_pow2:
  assumes "k < 64" "unat x + 2 ^ k \<le> 2 ^ 64"
  shows "unat (ALIGN x (2 ^ k)) = (unat x + 2 ^ k - 1) div 2 ^ k * 2 ^ k"
proof -
  have p: "(0::nat) < 2 ^ k" by simp
  have s: "unat x + unat (mask k :: u64) = unat x + 2 ^ k - 1"
    unfolding unat_mask_64[OF assms(1)] using p by linarith
  have "unat (x + mask k) = unat x + 2 ^ k - 1"
    using unat_plus_64[of x "mask k"] assms(2) p unfolding s by linarith
  then show ?thesis
    by (simp only: ALIGN_def mask_eq_exp_minus_1[symmetric] unat_clear_low_bits)
qed

lemma ALIGN_bounds:
  assumes "k < 64" "unat x + 2 ^ k \<le> 2 ^ 64"
  shows "unat x \<le> unat (ALIGN x (2 ^ k)) \<and> 2 ^ k dvd unat (ALIGN x (2 ^ k))
     \<and> unat (ALIGN x (2 ^ k)) < unat x + 2 ^ k"
proof -
  have up: "n \<le> (n + d - 1) div d * d \<and> (n + d - 1) div d * d < n + d" if "d > 0" for n d :: nat
  proof -
    have "(n + d - 1) div d * d + (n + d - 1) mod d = n + d - 1" by (rule div_mult_mod_eq)
    moreover have "(n + d - 1) mod d < d" using that by simp
    ultimately show ?thesis using that by linarith
  qed
  show ?thesis unfolding ALIGN_pow2[OF assms] using up[of "2 ^ k" "unat x"] by simp
qed

lemma ALIGN_down:
  assumes "k < 64" "\<not> 2 ^ k dvd unat p"
  shows "unat (ALIGN (p - 2 ^ k) (2 ^ k)) = unat p div 2 ^ k * 2 ^ k"
proof -
  have "ALIGN (p - 2 ^ k) (2 ^ k) = (p - 1) AND NOT (mask k)"
    unfolding ALIGN_def mask_eq_exp_minus_1 by (simp add: algebra_simps)
  moreover have "unat (p - 1) = unat p - 1"
  proof -
    have "p \<noteq> 0" using assms(2) by auto
    then show ?thesis by (simp add: unat_minus_one)
  qed
  moreover have "(unat p - 1) div 2 ^ k = unat p div 2 ^ k"
  proof -
    have "unat p mod 2 ^ k > 0" using assms(2) by (simp add: dvd_eq_mod_eq_0)
    then obtain r where r: "unat p mod 2 ^ k = Suc r" by (cases "unat p mod 2 ^ k") auto
    then have "unat p - 1 = unat p div 2 ^ k * 2 ^ k + r"
      using div_mult_mod_eq[of "unat p" "2 ^ k"] by linarith
    moreover have "r < 2 ^ k" using r mod_less_divisor[of "2 ^ k" "unat p"] by simp
    ultimately show ?thesis by simp
  qed
  ultimately show ?thesis by (simp add: unat_clear_low_bits)
qed

lemma ALIGN_id_iff:
  assumes "k < 64" "unat p + 2 ^ k \<le> 2 ^ 64"
  shows "ALIGN p (2 ^ k) = p \<longleftrightarrow> 2 ^ k dvd unat p"
proof
  show "2 ^ k dvd unat p" if "ALIGN p (2 ^ k) = p" using ALIGN_bounds[OF assms] that by simp
  assume "2 ^ k dvd unat p"
  then obtain q where q: "unat p = q * 2 ^ k" by (auto simp: dvd_def mult.commute)
  have "unat (ALIGN p (2 ^ k)) = unat p"
  proof -
    have "(q * P + P - 1) div P = q" if "P > 0" for P :: nat
      using that by (intro div_nat_eqI) (simp_all add: mult.commute)
    from this[of "2 ^ k"] have "(q * 2 ^ k + 2 ^ k - 1) div 2 ^ k = q" by simp
    then show ?thesis by (simp add: ALIGN_pow2[OF assms] q)
  qed
  then show "ALIGN p (2 ^ k) = p" by (simp add: word_unat_eq_iff)
qed

lemma length_le_bytes [simp]: "length (le_bytes n v) = n"
  by (induction n arbitrary: v) auto

lemma le_value_le_bytes: "le_value (le_bytes n v) = v mod 256 ^ n"
proof (induction n arbitrary: v)
  case (Suc n)
  have "unat (word_of_nat v :: u8) = v mod 256" by (simp add: unat_of_nat)
  then show ?case using Suc by (simp add: mod_mult2_eq)
qed simp

lemma le_value_lt: "le_value bs < 256 ^ length bs"
proof (induction bs)
  case (Cons b bs)
  have "unat b < 256" using unsigned_less[of b] by simp
  then show ?case using Cons by simp
qed simp

lemma length_enc [simp]: "length (enc16 a) = 2" "length (enc32 b) = 4" "length (enc64 c) = 8"
  by (simp_all add: enc16_def enc32_def enc64_def)

lemma dec_enc_append [simp]:
  "dec16 (enc16 a @ bs) = a" "dec32 (enc32 b @ bs) = b" "dec64 (enc64 c @ bs) = c"
  using unsigned_less[of a, where ?'a=nat] unsigned_less[of b, where ?'a=nat] unsigned_less[of c, where ?'a=nat]
  by (simp_all add: dec16_def dec32_def dec64_def enc16_def enc32_def enc64_def le_value_le_bytes)

lemma dec_enc [simp]: "dec16 (enc16 a) = a" "dec32 (enc32 b) = b" "dec64 (enc64 c) = c"
  using dec_enc_append[where bs = "[]"] by simp_all

lemma enc_inject [simp]:
  "enc16 a = enc16 a' \<longleftrightarrow> a = a'" "enc32 b = enc32 b' \<longleftrightarrow> b = b'" "enc64 c = enc64 c' \<longleftrightarrow> c = c'"
  by (metis dec_enc(1), metis dec_enc(2), metis dec_enc(3))

lemma pow2_mono_int: "m \<le> n \<Longrightarrow> x < 2 ^ m \<Longrightarrow> x < (2::int) ^ n"
  by (meson order_less_le_trans power_increasing one_le_numeral)

lemma pow2_mono_int_neg: "m \<le> n \<Longrightarrow> - (2 ^ m) \<le> x \<Longrightarrow> - ((2::int) ^ n) \<le> x"
  by (meson neg_le_iff_le order_trans power_increasing one_le_numeral)

lemma safe_cast_fits:
  assumes "in_type f x" "type_bits f > 0" "type_bits t > 0"
  shows "safe_cast f t x = (if in_type t x then Inr x else Inl Overflow_error)"
proof (cases f)
  case f: (Unsigned n)
  show ?thesis
    using assms f by (cases t) (auto simp: in_type_def elim: pow2_mono_int[rotated] dest: order_trans[of "- _" 0]
      intro: order_trans[of "- _" 0])
next
  case f: (Signed n)
  show ?thesis
    using assms f by (cases t) (auto simp: in_type_def elim: pow2_mono_int[rotated] pow2_mono_int_neg[rotated])
qed
lemma read_append:
  "read_bytes m a (n + k) = read_bytes m a n @ read_bytes m (a + of_nat n) k"
  by (rule nth_equalityI) (auto simp: nth_append algebra_simps)

lemma write_bytes_apply:
  "write_bytes m a bs x = (if unat (x - a) < length bs then bs ! unat (x - a) else m x)"
  by (simp add: write_bytes_def Let_def)

lemma write_append:
  assumes "length xs + length ys \<le> 2 ^ 64"
  shows "write_bytes (write_bytes m a xs) (a + of_nat (length xs)) ys = write_bytes m a (xs @ ys)"
proof
  fix x
  define d where "d = unat (x - a)"
  have d: "d < 2 ^ 64" unfolding d_def by (rule unat_lt_64)
  show "write_bytes (write_bytes m a xs) (a + of_nat (length xs)) ys x = write_bytes m a (xs @ ys) x"
  proof (cases "ys = []")
    case True then show ?thesis by (simp add: write_bytes_apply)
  next
    case False
    then have l: "length xs < 2 ^ 64" using assms by (cases ys) auto
    have e: "unat (x - (a + of_nat (length xs))) = (if length xs \<le> d then d - length xs else d + 2 ^ 64 - length xs)"
    proof -
      have g: "unat (y - of_nat (length xs)) = (if length xs \<le> unat y then unat y - length xs
          else unat y + 2 ^ 64 - length xs)" for y :: u64
        by (simp add: unat_sub_if' unat_of_nat_64[OF l])
      have "x - (a + of_nat (length xs)) = (x - a) - of_nat (length xs)" by simp
      then show ?thesis unfolding d_def by (simp only: g)
    qed
    show ?thesis
      using assms d l unfolding write_bytes_apply e d_def[symmetric] by (auto simp: nth_append)
  qed
qed

lemma read_write_other:
  assumes "unat a + length bs \<le> 2 ^ 64" "unat b + n \<le> 2 ^ 64"
    "unat b + n \<le> unat a \<or> unat a + length bs \<le> unat b"
  shows "read_bytes (write_bytes m a bs) b n = read_bytes m b n"
proof (rule nth_equalityI)
  fix i assume "i < length (read_bytes (write_bytes m a bs) b n)"
  then have i: "i < n" by simp
  have u: "unat (b + of_nat i) = unat b + i"
  proof -
    have "i < 2 ^ 64" using i assms(2) by linarith
    then show ?thesis using i assms(2) unat_plus_64[of b "of_nat i"] by (simp add: unat_of_nat_64)
  qed
  have "\<not> unat (b + of_nat i - a) < length bs"
    using assms(1,3) i u unat_lt_64[of a] by (auto simp: unat_sub_if')
  then show "read_bytes (write_bytes m a bs) b n ! i = read_bytes m b n ! i"
    using i by (simp add: write_bytes_apply)
qed simp

end
