(* ===== verification/Hw_Info.thy ===== *)
theory Hw_Info
  imports Umd_Prelude
begin

text \<open>
  The hardware description of a device: \<open>VPUHwInfo\<close>
  (\<open>umd/vpu_driver/source/device/hw_info.hpp\<close>), the tables of the three hardware
  generations (\<open>vpu_37xx\<close>, \<open>vpu_40xx\<close>, \<open>vpu_50xx\<close>), the selection of a table by PCI
  device id, and the firmware API version tests. The two function pointers of a table
  are the constructors of \<open>copy_ops\<close>; the functions they point to are defined in the
  theory of the commands.
\<close>

section \<open>The tables\<close>

datatype npu_arch = NPUUNKNOWN | NPU37XX | NPU40XX | NPU50XX

fun arch_code :: "npu_arch \<Rightarrow> nat" where
  "arch_code NPUUNKNOWN = 0"
| "arch_code NPU37XX = 1"
| "arch_code NPU40XX = 2"
| "arch_code NPU50XX = 3"

text \<open>The descriptor routines a table points to; \<open>Copy_none\<close> is the null pointer.\<close>

datatype copy_ops = Copy_none | Copy_37xx | Copy_40xx

definition UINT32_MAX :: u32 where "UINT32_MAX = - 1"
definition UINT16_MAX :: u16 where "UINT16_MAX = - 1"

record hw_info =
  deviceId :: u32
  platformName :: string
  npuArch :: npu_arch
  deviceRevision :: u16
  subdeviceId :: u32
  coreClockRate :: u32
  maxHardwareContexts :: u32
  maxCommandQueuePriority :: u32
  physicalEUSimdWidth :: u32
  nExecUnits :: u32
  platformType :: u32
  tileFuseMask :: u32
  tileConfig :: u32
  timerResolution :: u64
  hw_name :: string
  extraDmaDescriptorSize :: u32
  fwMappedInferenceVersion :: u64
  fwJsmCmdApiVersion :: u64
  fwJsmApiVersion :: u64
  fwTimestampType :: u32
  fwPreemptBufSize :: u64
  metricStreamerCapability :: bool
  dmaMemoryRangeCapability :: bool
  primeBuffersCapability :: bool
  cmdQueueCreationCapability :: bool
  userPtrCapability :: bool
  copyOps :: copy_ops
  fwMappedInferenceIndex :: u32
  fwJsmCmdApiVerIndex :: u32
  fwJsmApiVerIndex :: u32

definition PERF_FREQUENCY_DEFAULT_HZ :: u64 where
  "PERF_FREQUENCY_DEFAULT_HZ = 38400000"

text \<open>The default member initialisers of \<open>struct VPUHwInfo\<close>.\<close>

definition default_hw_info :: hw_info where
  "default_hw_info = \<lparr> deviceId = 0, platformName = [], npuArch = NPUUNKNOWN,
     deviceRevision = UINT16_MAX, subdeviceId = 0, coreClockRate = 0,
     maxHardwareContexts = 1, maxCommandQueuePriority = 2, physicalEUSimdWidth = 0,
     nExecUnits = 0, platformType = 0, tileFuseMask = 0, tileConfig = 0,
     timerResolution = PERF_FREQUENCY_DEFAULT_HZ, hw_name = ''Intel(R) AI Boost'',
     extraDmaDescriptorSize = 0, fwMappedInferenceVersion = 0, fwJsmCmdApiVersion = 0,
     fwJsmApiVersion = 0, fwTimestampType = 0, fwPreemptBufSize = 0,
     metricStreamerCapability = False, dmaMemoryRangeCapability = False,
     primeBuffersCapability = False, cmdQueueCreationCapability = False,
     userPtrCapability = False, copyOps = Copy_none,
     fwMappedInferenceIndex = UINT32_MAX, fwJsmCmdApiVerIndex = UINT32_MAX,
     fwJsmApiVerIndex = UINT32_MAX \<rparr>"

text \<open>Constants of the firmware headers the tables use (\<open>firmware/include/api\<close>).\<close>

definition VPU_NNRT_37XX_API_VER :: u64 where "VPU_NNRT_37XX_API_VER = push_bit 16 7 OR 0"
definition VPU_NNRT_40XX_API_VER :: u64 where "VPU_NNRT_40XX_API_VER = push_bit 16 11 OR 13"
definition VPU_TIME_RAW :: u32 where "VPU_TIME_RAW = 0"
definition VPU_TIME_SYSTIME :: u32 where "VPU_TIME_SYSTIME = 1"
definition VPU_NNRT_API_VER_INDEX :: u32 where "VPU_NNRT_API_VER_INDEX = 7"
definition VPU_JSM_JOB_CMD_API_VER_INDEX :: u32 where "VPU_JSM_JOB_CMD_API_VER_INDEX = 3"
definition VPU_JSM_API_VER_INDEX :: u32 where "VPU_JSM_API_VER_INDEX = 4"

definition PCI_DEVICE_ID_MTL :: u32 where "PCI_DEVICE_ID_MTL = 0x7d1d"
definition PCI_DEVICE_ID_ARL :: u32 where "PCI_DEVICE_ID_ARL = 0xad1d"
definition PCI_DEVICE_ID_LNL :: u32 where "PCI_DEVICE_ID_LNL = 0x643e"
definition PCI_DEVICE_ID_PTL_P :: u32 where "PCI_DEVICE_ID_PTL_P = 0xb03e"
definition PCI_DEVICE_ID_WCL :: u32 where "PCI_DEVICE_ID_WCL = 0xfd3e"

lemmas pci_ids = PCI_DEVICE_ID_MTL_def PCI_DEVICE_ID_ARL_def PCI_DEVICE_ID_LNL_def
  PCI_DEVICE_ID_PTL_P_def PCI_DEVICE_ID_WCL_def

definition getHwInfo37xx :: hw_info where
  "getHwInfo37xx = default_hw_info \<lparr> platformName := ''37xx'', npuArch := NPU37XX,
     physicalEUSimdWidth := 4096, nExecUnits := 4096, tileFuseMask := 0x3,
     extraDmaDescriptorSize := 16, fwMappedInferenceVersion := VPU_NNRT_37XX_API_VER,
     fwTimestampType := VPU_TIME_RAW, copyOps := Copy_37xx,
     fwMappedInferenceIndex := VPU_NNRT_API_VER_INDEX,
     fwJsmCmdApiVerIndex := VPU_JSM_JOB_CMD_API_VER_INDEX,
     fwJsmApiVerIndex := VPU_JSM_API_VER_INDEX \<rparr>"

definition getHwInfo40xx :: hw_info where
  "getHwInfo40xx = default_hw_info \<lparr> platformName := ''40xx'', npuArch := NPU40XX,
     physicalEUSimdWidth := 4096, nExecUnits := 12288, tileFuseMask := 0x3F,
     timerResolution := PERF_FREQUENCY_DEFAULT_HZ div 2,
     fwMappedInferenceVersion := VPU_NNRT_40XX_API_VER,
     fwTimestampType := VPU_TIME_SYSTIME, copyOps := Copy_40xx,
     fwMappedInferenceIndex := VPU_NNRT_API_VER_INDEX,
     fwJsmCmdApiVerIndex := VPU_JSM_JOB_CMD_API_VER_INDEX,
     fwJsmApiVerIndex := VPU_JSM_API_VER_INDEX \<rparr>"

definition getHwInfo50xx :: "u32 \<Rightarrow> hw_info" where
  "getHwInfo50xx devId =
     (let info = default_hw_info \<lparr> platformName := ''50xx'', npuArch := NPU50XX,
        physicalEUSimdWidth := 8192, nExecUnits := 12288, tileFuseMask := 0,
        timerResolution := PERF_FREQUENCY_DEFAULT_HZ div 2,
        fwMappedInferenceVersion := VPU_NNRT_40XX_API_VER,
        fwTimestampType := VPU_TIME_SYSTIME, copyOps := copyOps getHwInfo40xx,
        fwMappedInferenceIndex := VPU_NNRT_API_VER_INDEX,
        fwJsmCmdApiVerIndex := VPU_JSM_JOB_CMD_API_VER_INDEX,
        fwJsmApiVerIndex := VPU_JSM_API_VER_INDEX \<rparr>
      in if devId = PCI_DEVICE_ID_PTL_P then info\<lparr>tileFuseMask := 0x7\<rparr>
         else if devId = PCI_DEVICE_ID_WCL then info\<lparr>tileFuseMask := 0x1\<rparr>
         else info)"

definition getHwInfoByDeviceId :: "u32 \<Rightarrow> exn + hw_info" where
  "getHwInfoByDeviceId devId =
     (if devId = PCI_DEVICE_ID_MTL \<or> devId = PCI_DEVICE_ID_ARL then Inr getHwInfo37xx
      else if devId = PCI_DEVICE_ID_LNL then Inr getHwInfo40xx
      else if devId = PCI_DEVICE_ID_PTL_P \<or> devId = PCI_DEVICE_ID_WCL
      then Inr (getHwInfo50xx devId)
      else Inl Runtime_error)"

section \<open>Firmware API versions\<close>

definition api_version_word :: "u32 \<Rightarrow> u32 \<Rightarrow> u64" where
  "api_version_word major minor = ucast (push_bit 16 major OR (minor AND 0xFFFF))"

definition isJsmCmdApiGreaterThan :: "hw_info \<Rightarrow> u32 \<Rightarrow> u32 \<Rightarrow> bool" where
  "isJsmCmdApiGreaterThan hw major minor \<longleftrightarrow> fwJsmCmdApiVersion hw > api_version_word major minor"

definition isJsmApiGreaterOrEqualThan :: "hw_info \<Rightarrow> u32 \<Rightarrow> u32 \<Rightarrow> bool" where
  "isJsmApiGreaterOrEqualThan hw major minor \<longleftrightarrow> fwJsmApiVersion hw \<ge> api_version_word major minor"

text \<open>The two halves of a version word, as \<open>getFWComponentVersion\<close> prints them.\<close>

definition version_major :: "u64 \<Rightarrow> nat" where "version_major v = unat v div 65536"
definition version_minor :: "u64 \<Rightarrow> nat" where "version_minor v = unat v mod 65536"

section \<open>Lemmas\<close>

lemma hw_info_tables [simp]:
  "npuArch getHwInfo37xx = NPU37XX" "npuArch getHwInfo40xx = NPU40XX"
  "npuArch (getHwInfo50xx d) = NPU50XX"
  "tileFuseMask getHwInfo37xx = 0x3" "tileFuseMask getHwInfo40xx = 0x3F"
  "copyOps getHwInfo37xx = Copy_37xx" "copyOps getHwInfo40xx = Copy_40xx"
  "copyOps (getHwInfo50xx d) = Copy_40xx"
  by (simp_all add: getHwInfo37xx_def getHwInfo40xx_def getHwInfo50xx_def Let_def)

lemma unat_api_version_word:
  assumes "unat major < 65536"
  shows "unat (api_version_word major minor) = unat major * 65536 + unat minor mod 65536"
proof -
  have low: "minor AND 0xFFFF = take_bit 16 minor"
    by (simp add: take_bit_eq_mask mask_eq_exp_minus_1)
  have or: "push_bit 16 major OR take_bit 16 minor = push_bit 16 major + take_bit 16 minor"
    by (rule disjunctive_add[symmetric]) (auto simp: bit_simps)
  have hi: "unat (push_bit 16 major) = unat major * 65536"
    using assms unat_mult_lem[of major 65536] by (simp add: push_bit_eq_mult)
  have lo: "unat (take_bit 16 minor) = unat minor mod 65536"
    by (simp add: take_bit_eq_mod unat_mod)
  have "unat (push_bit 16 major + take_bit 16 minor) = unat major * 65536 + unat minor mod 65536"
  proof -
    have "unat (push_bit 16 major) + unat (take_bit 16 minor) < 2 ^ LENGTH(32)"
      using assms unfolding hi lo by simp
    then show ?thesis unfolding hi[symmetric] lo[symmetric] by (rule unat_add_lem[THEN iffD1])
  qed
  moreover have "unat (ucast w :: u64) = unat w" for w :: u32
    using unsigned_less[of w, where ?'a = nat] by (simp add: unsigned_ucast_eq take_bit_nat_eq_self)
  ultimately show ?thesis
    unfolding api_version_word_def low or by simp
qed

end
