(* ===== verification/Os_Interface.thy ===== *)
theory Os_Interface
  imports Hw_Info
begin

text \<open>
  What the driver sees of the operating system. \<open>'k world\<close> is everything outside the
  objects of the driver: the kernel's state \<open>'k\<close>, the memory of the process, \<open>errno\<close>, and
  the process-wide singletons of the driver (the counter of buffer objects and
  \<open>MemoryStatistics\<close>, \<open>utilities/stats.cpp\<close>). \<open>os_interface\<close> is the abstract class
  \<open>OsInterface\<close> (\<open>os_interface/os_interface.hpp\<close>): a record of functions over a world.
  The argument structures of the ioctls are those of
  \<open>linux/include/uapi/drm/ivpu_accel.h\<close>. \<open>utilities/timer.cpp\<close> is at the end.
\<close>

section \<open>Locations of a buffer object\<close>

datatype location = Internal | Host | Device | Shared
  | ExternalHost | ExternalDevice | ExternalShared | UserPtr

fun location_code :: "location \<Rightarrow> u32" where
  "location_code Internal = 0x1"
| "location_code Host = 0x2"
| "location_code Device = 0x4"
| "location_code Shared = 0x8"
| "location_code ExternalHost = 0x8002"
| "location_code ExternalDevice = 0x8004"
| "location_code ExternalShared = 0x8008"
| "location_code UserPtr = 0x10000"

definition externalMemMask :: u32 where "externalMemMask = 0x8000"

section \<open>MemoryStatistics\<close>

record mem_stats =
  stats_enabled :: bool
  internalAllocSize :: u64
  sharedAllocSize :: u64
  deviceAllocSize :: u64
  hostAllocSize :: u64

definition stats_inc :: "location \<Rightarrow> u64 \<Rightarrow> mem_stats \<Rightarrow> mem_stats" where
  "stats_inc loc sz s =
     (if \<not> stats_enabled s then s
      else case loc of
        Internal \<Rightarrow> s\<lparr>internalAllocSize := internalAllocSize s + sz\<rparr>
      | Host \<Rightarrow> s\<lparr>hostAllocSize := hostAllocSize s + sz\<rparr>
      | ExternalHost \<Rightarrow> s\<lparr>hostAllocSize := hostAllocSize s + sz\<rparr>
      | Device \<Rightarrow> s\<lparr>deviceAllocSize := deviceAllocSize s + sz\<rparr>
      | ExternalDevice \<Rightarrow> s\<lparr>deviceAllocSize := deviceAllocSize s + sz\<rparr>
      | Shared \<Rightarrow> s\<lparr>sharedAllocSize := sharedAllocSize s + sz\<rparr>
      | ExternalShared \<Rightarrow> s\<lparr>sharedAllocSize := sharedAllocSize s + sz\<rparr>
      | UserPtr \<Rightarrow> s)"

definition stats_dec :: "location \<Rightarrow> u64 \<Rightarrow> mem_stats \<Rightarrow> mem_stats" where
  "stats_dec loc sz s =
     (if \<not> stats_enabled s then s
      else case loc of
        Internal \<Rightarrow> s\<lparr>internalAllocSize := internalAllocSize s - sz\<rparr>
      | Host \<Rightarrow> s\<lparr>hostAllocSize := hostAllocSize s - sz\<rparr>
      | ExternalHost \<Rightarrow> s\<lparr>hostAllocSize := hostAllocSize s - sz\<rparr>
      | Device \<Rightarrow> s\<lparr>deviceAllocSize := deviceAllocSize s - sz\<rparr>
      | ExternalDevice \<Rightarrow> s\<lparr>deviceAllocSize := deviceAllocSize s - sz\<rparr>
      | Shared \<Rightarrow> s\<lparr>sharedAllocSize := sharedAllocSize s - sz\<rparr>
      | ExternalShared \<Rightarrow> s\<lparr>sharedAllocSize := sharedAllocSize s - sz\<rparr>
      | UserPtr \<Rightarrow> s)"

section \<open>The world\<close>

record 'k world =
  kern :: 'k
  mem :: memory
  errno :: int
  bo_counter :: u64
  stats :: mem_stats

section \<open>Arguments of the ioctls\<close>

record drm_version =
  version_major :: int
  version_minor :: int
  name_len :: u64
  drm_name :: "string option"
  date_len :: u64
  desc_len :: u64

record drm_ivpu_param =
  param :: u32
  param_index :: u32
  param_value :: u64

record drm_ivpu_bo_create =
  boc_size :: u64
  boc_flags :: u32
  boc_handle :: u32
  boc_vpu_addr :: u64

record drm_ivpu_bo_create_from_userptr =
  bou_user_ptr :: u64
  bou_size :: u64
  bou_flags :: u32
  bou_handle :: u32
  bou_vpu_addr :: u64

record drm_ivpu_bo_info =
  boi_handle :: u32
  boi_flags :: u32
  boi_vpu_addr :: u64
  boi_mmap_offset :: u64
  boi_size :: u64

text \<open>
  The array at \<open>buffers_ptr\<close>, with \<open>buffer_count\<close> elements, is the list of handles.
\<close>

record drm_ivpu_submit =
  sub_buffers :: "u32 list"
  sub_engine :: u32
  sub_flags :: u32
  sub_commands_offset :: u32
  sub_priority :: u32

record drm_ivpu_cmdq_submit =
  cqs_buffers :: "u32 list"
  cqs_cmdq_id :: u32
  cqs_flags :: u32
  cqs_commands_offset :: u32
  cqs_preempt_buffer_index :: u32

record drm_ivpu_bo_wait =
  bow_handle :: u32
  bow_flags :: u32
  bow_timeout_ns :: int
  bow_job_status :: u32

record drm_ivpu_cmdq_create =
  cqc_cmdq_id :: u32
  cqc_priority :: u32
  cqc_flags :: u32

record drm_prime_handle =
  prime_handle :: u32
  prime_flags :: u32
  prime_fd :: int

record drm_get_cap =
  cap_capability :: u64
  cap_value :: u64

record drm_ivpu_metric_streamer_start =
  mss_metric_group_mask :: u64
  mss_sampling_period_ns :: u64
  mss_read_period_samples :: u32
  mss_sample_size :: u32
  mss_max_data_size :: u32

record drm_ivpu_metric_streamer_get_data =
  msd_metric_group_mask :: u64
  msd_buffer_ptr :: u64
  msd_buffer_size :: u64
  msd_data_size :: u64

text \<open>A request together with the structure its argument points to.\<close>

datatype ioctl =
    Io_version (the_version: drm_version)
  | Io_get_cap (the_cap: drm_get_cap)
  | Io_get_param (the_param: drm_ivpu_param)
  | Io_set_param drm_ivpu_param
  | Io_bo_create (the_bo_create: drm_ivpu_bo_create)
  | Io_bo_create_from_userptr (the_userptr: drm_ivpu_bo_create_from_userptr)
  | Io_bo_info (the_bo_info: drm_ivpu_bo_info)
  | Io_bo_wait (the_bo_wait: drm_ivpu_bo_wait)
  | Io_submit drm_ivpu_submit
  | Io_cmdq_create (the_cmdq_create: drm_ivpu_cmdq_create)
  | Io_cmdq_destroy u32
  | Io_cmdq_submit drm_ivpu_cmdq_submit
  | Io_metric_start (the_metric_start: drm_ivpu_metric_streamer_start)
  | Io_metric_stop u64
  | Io_metric_get_data (the_metric_data: drm_ivpu_metric_streamer_get_data)
  | Io_metric_get_info (the_metric_info: drm_ivpu_metric_streamer_get_data)
  | Io_gem_close u32
  | Io_prime_handle_to_fd (the_prime: drm_prime_handle)
  | Io_prime_fd_to_handle (the_prime_import: drm_prime_handle)

text \<open>
  The number of a request (\<open>DRM_COMMAND_BASE\<close> is 0x40). The kernel writes into the
  structure it was given, so a request keeps its number.
\<close>

primrec request_nr :: "ioctl \<Rightarrow> nat" where
  "request_nr (Io_version _) = 0x00"
| "request_nr (Io_get_cap _) = 0x0c"
| "request_nr (Io_get_param _) = 0x40"
| "request_nr (Io_set_param _) = 0x41"
| "request_nr (Io_bo_create _) = 0x42"
| "request_nr (Io_bo_create_from_userptr _) = 0x4e"
| "request_nr (Io_bo_info _) = 0x43"
| "request_nr (Io_bo_wait _) = 0x46"
| "request_nr (Io_submit _) = 0x45"
| "request_nr (Io_cmdq_create _) = 0x4b"
| "request_nr (Io_cmdq_destroy _) = 0x4c"
| "request_nr (Io_cmdq_submit _) = 0x4d"
| "request_nr (Io_metric_start _) = 0x47"
| "request_nr (Io_metric_stop _) = 0x48"
| "request_nr (Io_metric_get_data _) = 0x49"
| "request_nr (Io_metric_get_info _) = 0x4a"
| "request_nr (Io_gem_close _) = 0x09"
| "request_nr (Io_prime_handle_to_fd _) = 0x2d"
| "request_nr (Io_prime_fd_to_handle _) = 0x2e"

section \<open>OsInterface\<close>

record 'k os_interface =
  osiOpen :: "string \<Rightarrow> 'k world \<Rightarrow> int \<times> 'k world"
  osiClose :: "int \<Rightarrow> 'k world \<Rightarrow> int \<times> 'k world"
  osiIoctl :: "int \<Rightarrow> ioctl option \<Rightarrow> 'k world \<Rightarrow> int \<times> ioctl option \<times> 'k world"
  osiGetSystemPageSize :: u64
  osiMmap :: "u64 \<Rightarrow> int \<Rightarrow> u64 \<Rightarrow> 'k world \<Rightarrow> u64 \<times> 'k world"
  osiMunmap :: "u64 \<Rightarrow> u64 \<Rightarrow> 'k world \<Rightarrow> int \<times> 'k world"

definition EINVAL :: int where "EINVAL = 22"
definition EAGAIN :: int where "EAGAIN = 11"
definition EINTR :: int where "EINTR = 4"
definition EBUSY :: int where "EBUSY = 16"
definition ENOSPC :: int where "ENOSPC = 28"

lemmas errno_defs = EINVAL_def EAGAIN_def EINTR_def EBUSY_def ENOSPC_def

definition MAP_FAILED :: u64 where "MAP_FAILED = - 1"

section \<open>Timer\<close>

definition INT64_MAX :: int where "INT64_MAX = 2 ^ 63 - 1"

text \<open>
  \<open>now\<close> is \<open>steady_clock::now()\<close> in nanoseconds since the epoch. The sum of the timeout
  and \<open>now\<close> is computed in \<open>int64_t\<close>; \<open>wrap_s64\<close> is what two's complement arithmetic
  makes of it.
\<close>

definition wrap_s64 :: "int \<Rightarrow> int" where
  "wrap_s64 x = (x + 2 ^ 63) mod 2 ^ 64 - 2 ^ 63"

definition getAbsoluteTimeoutNanoseconds :: "int \<Rightarrow> u64 \<Rightarrow> int" where
  "getAbsoluteTimeoutNanoseconds now userTimeout =
     (let timeout = (if uint userTimeout > INT64_MAX then INT64_MAX else uint userTimeout)
      in if \<not> (timeout \<ge> INT64_MAX)
         then if \<not> (wrap_s64 (timeout + now) \<ge> INT64_MAX) then wrap_s64 (now + timeout) else INT64_MAX
         else INT64_MAX)"

section \<open>Lemmas\<close>

lemma stats_dec_inc [simp]: "stats_dec loc n (stats_inc loc n s) = s"
  by (cases loc; cases s) (auto simp: stats_inc_def stats_dec_def)

lemma stats_inc_enabled [simp]: "stats_enabled (stats_inc loc n s) = stats_enabled s"
  by (cases loc) (auto simp: stats_inc_def)

lemma stats_dec_enabled [simp]: "stats_enabled (stats_dec loc n s) = stats_enabled s"
  by (cases loc) (auto simp: stats_dec_def)

lemma external_location [simp]:
  "location_code loc AND externalMemMask \<noteq> 0 \<longleftrightarrow>
     loc \<in> {ExternalHost, ExternalDevice, ExternalShared}"
  by (cases loc) (simp_all add: externalMemMask_def)

lemma same_request_selectors:
  "request_nr r = 0x42 \<longleftrightarrow> (\<exists>b. r = Io_bo_create b)"
  "request_nr r = 0x40 \<longleftrightarrow> (\<exists>q. r = Io_get_param q)"
  "request_nr r = 0x46 \<longleftrightarrow> (\<exists>v. r = Io_bo_wait v)"
  "request_nr r = 0x43 \<longleftrightarrow> (\<exists>i. r = Io_bo_info i)"
  by (cases r; simp)+

end
