(* ===== verification/Driver_Api.thy ===== *)
theory Driver_Api
  imports Os_Interface
begin

text \<open>
  \<open>VPUDriverApi\<close> (\<open>os_interface/vpu_driver_api.cpp\<close>, \<open>vpu_driver_api.hpp\<close>): the wrappers of
  the ioctls. \<open>doIoctl\<close> repeats a request while its retry condition holds, so it may not
  return: it and every wrapper is a partial function, \<open>None\<close> standing for a call that
  never returns. \<open>drv_api\<close> is the class as its clients see it, and \<open>mk_drv_api\<close> builds it
  from an \<open>OsInterface\<close> and a file descriptor. Under the contract \<open>posix_os\<close> every
  wrapper returns, after exactly one request to the kernel.
\<close>

section \<open>doIoctl\<close>

text \<open>The retry condition compares \<open>errno\<close> with negated error numbers, as the source does.\<close>

definition retry_cond :: "int \<Rightarrow> 'k world \<Rightarrow> bool" where
  "retry_cond ret w \<longleftrightarrow> ret = -1 \<and> (errno w = - EAGAIN \<or> errno w = - EINTR)"

partial_function (option) doIoctl_loop ::
  "'k os_interface \<Rightarrow> int \<Rightarrow> ioctl option \<Rightarrow> 'k world \<Rightarrow> (int \<times> ioctl option \<times> 'k world) option" where
  "doIoctl_loop os fd arg w =
     (case osiIoctl os fd arg w of
        (ret, arg', w') \<Rightarrow>
          if retry_cond ret w' then doIoctl_loop os fd arg' w' else Some (ret, arg', w'))"

definition doIoctl ::
  "'k os_interface \<Rightarrow> int \<Rightarrow> ioctl option \<Rightarrow> 'k world \<Rightarrow> (int \<times> ioctl option \<times> 'k world) option" where
  "doIoctl os fd arg w =
     (if fd < 0 \<or> arg = None then Some (- EINVAL, arg, w) else doIoctl_loop os fd arg w)"

text \<open>A request whose argument is read back only after success, as the wrappers do.\<close>

definition request ::
  "'k os_interface \<Rightarrow> int \<Rightarrow> ioctl \<Rightarrow> (ioctl \<Rightarrow> 'a) \<Rightarrow> 'k world \<Rightarrow> ((int + 'a) \<times> 'k world) option" where
  "request os fd arg get w =
     (case doIoctl os fd (Some arg) w of
        None \<Rightarrow> None
      | Some (ret, arg', w') \<Rightarrow>
          Some (if ret \<noteq> 0 then (Inl ret, w') else (Inr (get (the arg')), w')))"

section \<open>Opening and closing\<close>

definition openDevice :: "'k os_interface \<Rightarrow> string \<Rightarrow> 'k world \<Rightarrow> (bool \<times> int) \<times> 'k world" where
  "openDevice os devPath w =
     (case osiOpen os devPath w of (vpuFd, w') \<Rightarrow> ((vpuFd \<ge> 0, vpuFd), w'))"

definition closeDevice :: "'k os_interface \<Rightarrow> int \<Rightarrow> 'k world \<Rightarrow> (bool \<times> int) \<times> 'k world" where
  "closeDevice os vpuFd w =
     (case (if vpuFd > 0 then osiClose os vpuFd w else (0, w)) of
        (ret, w') \<Rightarrow> ((ret = 0, - 1), w'))"

definition openDriverApi :: "'k os_interface \<Rightarrow> string \<Rightarrow> 'k world \<Rightarrow> int option \<times> 'k world" where
  "openDriverApi os devPath w =
     (case openDevice os devPath w of
        ((ok, vpuFd), w') \<Rightarrow> (if ok then (Some vpuFd, w') else (None, w')))"

definition destroyDriverApi :: "'k os_interface \<Rightarrow> int \<Rightarrow> 'k world \<Rightarrow> 'k world" where
  "destroyDriverApi os vpuFd w = (if vpuFd > 0 then snd (closeDevice os vpuFd w) else w)"

definition umdIoctlVersionMajor :: int where "umdIoctlVersionMajor = 1"
definition umdIoctlDeviceName1 :: string where "umdIoctlDeviceName1 = ''intel_vpu''"
definition umdIoctlDeviceName2 :: string where "umdIoctlDeviceName2 = ''intel_npu''"

definition empty_version :: drm_version where
  "empty_version = \<lparr>version_major = 0, version_minor = 0, name_len = 0, drm_name = None,
                    date_len = 0, desc_len = 0\<rparr>"

definition isVpuDevice :: "'k os_interface \<Rightarrow> int \<Rightarrow> 'k world \<Rightarrow> (bool \<times> 'k world) option" where
  "isVpuDevice os fd w =
     (case doIoctl os fd (Some (Io_version empty_version)) w of
        None \<Rightarrow> None
      | Some (ret, arg, w1) \<Rightarrow>
          if ret < 0 then Some (False, w1)
          else if umdIoctlVersionMajor \<noteq> version_major (the_version (the arg)) then Some (False, w1)
          else
            let v = the_version (the arg);
                v' = v\<lparr>drm_name := Some (replicate (unat (name_len v)) (CHR 0x00)),
                       date_len := 0, desc_len := 0\<rparr>
            in (case doIoctl os fd (Some (Io_version v')) w1 of
                  None \<Rightarrow> None
                | Some (ret2, arg2, w2) \<Rightarrow>
                    if ret2 < 0 then Some (False, w2)
                    else
                      let kmdVersion = the (drm_name (the_version (the arg2)))
                      in Some (\<not> (kmdVersion \<noteq> umdIoctlDeviceName1 \<and> kmdVersion \<noteq> umdIoctlDeviceName2), w2)))"

section \<open>Command queues and jobs\<close>

definition DRM_IVPU_CMDQ_FLAG_TURBO :: u32 where "DRM_IVPU_CMDQ_FLAG_TURBO = 1"

definition commandQueueCreate ::
  "'k os_interface \<Rightarrow> int \<Rightarrow> u32 \<Rightarrow> bool \<Rightarrow> 'k world \<Rightarrow> ((int + u32) \<times> 'k world) option" where
  "commandQueueCreate os fd priority isTurboMode w =
     request os fd (Io_cmdq_create \<lparr>cqc_cmdq_id = 0, cqc_priority = priority,
         cqc_flags = (if isTurboMode then DRM_IVPU_CMDQ_FLAG_TURBO else 0)\<rparr>)
       (\<lambda>a. cqc_cmdq_id (the_cmdq_create a)) w"

text \<open>The result of the calls that return the code of the ioctl itself.\<close>

definition request_code ::
  "'k os_interface \<Rightarrow> int \<Rightarrow> ioctl \<Rightarrow> 'k world \<Rightarrow> (int \<times> 'k world) option" where
  "request_code os fd arg w =
     (case doIoctl os fd (Some arg) w of None \<Rightarrow> None | Some (ret, _, w') \<Rightarrow> Some (ret, w'))"

definition commandQueueSubmit where
  "commandQueueSubmit os fd arg w = request_code os fd (Io_cmdq_submit arg) w"

definition commandQueueDestroy where
  "commandQueueDestroy os fd queueId w = request_code os fd (Io_cmdq_destroy queueId) w"

definition submitCommandBuffer where
  "submitCommandBuffer os fd arg w = request_code os fd (Io_submit arg) w"

text \<open>\<open>wait\<close> returns its argument too: the caller reads \<open>job_status\<close> from it.\<close>

definition drv_wait ::
  "'k os_interface \<Rightarrow> int \<Rightarrow> drm_ivpu_bo_wait \<Rightarrow> 'k world \<Rightarrow> ((int \<times> drm_ivpu_bo_wait) \<times> 'k world) option" where
  "drv_wait os fd args w =
     (case doIoctl os fd (Some (Io_bo_wait args)) w of
        None \<Rightarrow> None
      | Some (ret, arg', w') \<Rightarrow> Some ((ret, the_bo_wait (the arg')), w'))"

section \<open>Parameters and capabilities\<close>

definition DRM_IVPU_PARAM_DEVICE_ID :: u32 where "DRM_IVPU_PARAM_DEVICE_ID = 0"
definition DRM_IVPU_PARAM_DEVICE_REVISION :: u32 where "DRM_IVPU_PARAM_DEVICE_REVISION = 1"
definition DRM_IVPU_PARAM_PLATFORM_TYPE :: u32 where "DRM_IVPU_PARAM_PLATFORM_TYPE = 2"
definition DRM_IVPU_PARAM_CORE_CLOCK_RATE :: u32 where "DRM_IVPU_PARAM_CORE_CLOCK_RATE = 3"
definition DRM_IVPU_PARAM_NUM_CONTEXTS :: u32 where "DRM_IVPU_PARAM_NUM_CONTEXTS = 4"
definition DRM_IVPU_PARAM_FW_API_VERSION :: u32 where "DRM_IVPU_PARAM_FW_API_VERSION = 8"
definition DRM_IVPU_PARAM_ENGINE_HEARTBEAT :: u32 where "DRM_IVPU_PARAM_ENGINE_HEARTBEAT = 9"
definition DRM_IVPU_PARAM_UNIQUE_INFERENCE_ID :: u32 where "DRM_IVPU_PARAM_UNIQUE_INFERENCE_ID = 10"
definition DRM_IVPU_PARAM_TILE_CONFIG :: u32 where "DRM_IVPU_PARAM_TILE_CONFIG = 11"
definition DRM_IVPU_PARAM_CAPABILITIES :: u32 where "DRM_IVPU_PARAM_CAPABILITIES = 13"
definition DRM_IVPU_PARAM_PREEMPT_BUFFER_SIZE :: u32 where "DRM_IVPU_PARAM_PREEMPT_BUFFER_SIZE = 14"
definition DRM_IVPU_CAP_METRIC_STREAMER :: u32 where "DRM_IVPU_CAP_METRIC_STREAMER = 1"
definition DRM_IVPU_CAP_DMA_MEMORY_RANGE :: u32 where "DRM_IVPU_CAP_DMA_MEMORY_RANGE = 2"
definition DRM_IVPU_CAP_MANAGE_CMDQ :: u32 where "DRM_IVPU_CAP_MANAGE_CMDQ = 3"
definition DRM_IVPU_CAP_BO_CREATE_FROM_USERPTR :: u32 where "DRM_IVPU_CAP_BO_CREATE_FROM_USERPTR = 4"

lemmas drm_params = DRM_IVPU_PARAM_DEVICE_ID_def DRM_IVPU_PARAM_DEVICE_REVISION_def
  DRM_IVPU_PARAM_PLATFORM_TYPE_def DRM_IVPU_PARAM_CORE_CLOCK_RATE_def
  DRM_IVPU_PARAM_NUM_CONTEXTS_def DRM_IVPU_PARAM_FW_API_VERSION_def
  DRM_IVPU_PARAM_ENGINE_HEARTBEAT_def DRM_IVPU_PARAM_UNIQUE_INFERENCE_ID_def
  DRM_IVPU_PARAM_TILE_CONFIG_def DRM_IVPU_PARAM_CAPABILITIES_def
  DRM_IVPU_PARAM_PREEMPT_BUFFER_SIZE_def DRM_IVPU_CAP_METRIC_STREAMER_def
  DRM_IVPU_CAP_DMA_MEMORY_RANGE_def DRM_IVPU_CAP_MANAGE_CMDQ_def
  DRM_IVPU_CAP_BO_CREATE_FROM_USERPTR_def

text \<open>
  The template \<open>getDeviceParam<T>\<close>: the value as \<open>uint64_t\<close>, and its instances for the
  narrower types, which go through \<open>safe_cast\<close>.
\<close>

definition getDeviceParam ::
  "'k os_interface \<Rightarrow> int \<Rightarrow> u32 \<Rightarrow> u32 \<Rightarrow> bool \<Rightarrow> 'k world \<Rightarrow> ((exn + u64) \<times> 'k world) option" where
  "getDeviceParam os fd p index ignoreError w =
     (case doIoctl os fd (Some (Io_get_param \<lparr>param = p, param_index = index, param_value = 0\<rparr>)) w of
        None \<Rightarrow> None
      | Some (ret, arg', w') \<Rightarrow>
          Some (if ret \<noteq> 0
                then (if ignoreError then (Inr 0, w') else (Inl Runtime_error, w'))
                else (Inr (param_value (the_param (the arg'))), w')))"

definition narrow_param :: "nat \<Rightarrow> exn + u64 \<Rightarrow> exn + u64" where
  "narrow_param bits r =
     (case r of Inl e \<Rightarrow> Inl e
      | Inr v \<Rightarrow> (case safe_cast (Unsigned 64) (Unsigned bits) (uint v) of
                   Inl e \<Rightarrow> Inl e | Inr x \<Rightarrow> Inr (word_of_int x)))"

definition checkDeviceCapability ::
  "'k os_interface \<Rightarrow> int \<Rightarrow> u32 \<Rightarrow> 'k world \<Rightarrow> (bool \<times> 'k world) option" where
  "checkDeviceCapability os fd index w =
     (case doIoctl os fd (Some (Io_get_param \<lparr>param = DRM_IVPU_PARAM_CAPABILITIES,
                param_index = index, param_value = 0\<rparr>)) w of
        None \<Rightarrow> None
      | Some (ret, arg', w') \<Rightarrow>
          Some (if ret \<noteq> 0 then (False, w')
                else if param_value (the_param (the arg')) = 0 then (False, w')
                else (True, w')))"

definition DRM_CAP_PRIME :: u64 where "DRM_CAP_PRIME = 5"
definition DRM_PRIME_CAP_IMPORT :: u64 where "DRM_PRIME_CAP_IMPORT = 1"
definition DRM_PRIME_CAP_EXPORT :: u64 where "DRM_PRIME_CAP_EXPORT = 2"

definition checkPrimeBuffersCapability ::
  "'k os_interface \<Rightarrow> int \<Rightarrow> 'k world \<Rightarrow> (bool \<times> 'k world) option" where
  "checkPrimeBuffersCapability os fd w =
     (case doIoctl os fd (Some (Io_get_cap \<lparr>cap_capability = DRM_CAP_PRIME, cap_value = 0\<rparr>)) w of
        None \<Rightarrow> None
      | Some (ret, arg', w') \<Rightarrow>
          Some (if ret \<noteq> 0 then (False, w')
                else let primeMask = DRM_PRIME_CAP_IMPORT OR DRM_PRIME_CAP_EXPORT
                     in (cap_value (the_cap (the arg')) AND primeMask = primeMask, w')))"

text \<open>Decimal printing of \<open>std::to_string\<close>.\<close>

fun to_string_aux :: "nat \<Rightarrow> string \<Rightarrow> string" where
  "to_string_aux n acc =
     (let acc' = char_of (48 + n mod 10) # acc
      in if n < 10 then acc' else to_string_aux (n div 10) acc')"

definition to_string :: "nat \<Rightarrow> string" where "to_string n = to_string_aux n []"

definition getFWComponentVersion ::
  "'k os_interface \<Rightarrow> int \<Rightarrow> u32 \<Rightarrow> 'k world \<Rightarrow> (string \<times> 'k world) option" where
  "getFWComponentVersion os fd componentVerIndex w =
     (case getDeviceParam os fd DRM_IVPU_PARAM_FW_API_VERSION componentVerIndex False w of
        None \<Rightarrow> None
      | Some (r, w') \<Rightarrow>
          Some (case narrow_param 32 r of
                  Inl e \<Rightarrow> (''not available'', w')
                | Inr ver \<Rightarrow> (to_string (unat ver div 65536) @ ''.'' @ to_string (unat ver mod 65536), w')))"

section \<open>Buffers\<close>

definition closeBuffer where
  "closeBuffer os fd handle w = request_code os fd (Io_gem_close handle) w"

definition createBuffer ::
  "'k os_interface \<Rightarrow> int \<Rightarrow> u64 \<Rightarrow> u32 \<Rightarrow> 'k world \<Rightarrow> ((int + u32 \<times> u64) \<times> 'k world) option" where
  "createBuffer os fd sz flags w =
     request os fd (Io_bo_create \<lparr>boc_size = sz, boc_flags = flags, boc_handle = 0, boc_vpu_addr = 0\<rparr>)
       (\<lambda>a. (boc_handle (the_bo_create a), boc_vpu_addr (the_bo_create a))) w"

definition empty_bo_info :: "u32 \<Rightarrow> drm_ivpu_bo_info" where
  "empty_bo_info h = \<lparr>boi_handle = h, boi_flags = 0, boi_vpu_addr = 0, boi_mmap_offset = 0, boi_size = 0\<rparr>"

definition getBufferInfo ::
  "'k os_interface \<Rightarrow> int \<Rightarrow> u32 \<Rightarrow> 'k world \<Rightarrow> ((int + u64) \<times> 'k world) option" where
  "getBufferInfo os fd handle w =
     request os fd (Io_bo_info (empty_bo_info handle)) (\<lambda>a. boi_mmap_offset (the_bo_info a)) w"

definition getExtBufferInfo ::
  "'k os_interface \<Rightarrow> int \<Rightarrow> u32 \<Rightarrow> 'k world \<Rightarrow> ((int + u32 \<times> u64 \<times> u64 \<times> u64) \<times> 'k world) option" where
  "getExtBufferInfo os fd handle w =
     request os fd (Io_bo_info (empty_bo_info handle))
       (\<lambda>a. let i = the_bo_info a in (boi_flags i, boi_vpu_addr i, boi_size i, boi_mmap_offset i)) w"

definition exportBuffer ::
  "'k os_interface \<Rightarrow> int \<Rightarrow> u32 \<Rightarrow> u32 \<Rightarrow> 'k world \<Rightarrow> ((int + int) \<times> 'k world) option" where
  "exportBuffer os fd handle flags w =
     request os fd (Io_prime_handle_to_fd \<lparr>prime_handle = handle, prime_flags = flags, prime_fd = - 1\<rparr>)
       (\<lambda>a. prime_fd (the_prime a)) w"

definition importBuffer ::
  "'k os_interface \<Rightarrow> int \<Rightarrow> int \<Rightarrow> u32 \<Rightarrow> 'k world \<Rightarrow> ((int + u32) \<times> 'k world) option" where
  "importBuffer os fd bufFd flags w =
     request os fd (Io_prime_fd_to_handle \<lparr>prime_handle = 0, prime_flags = flags, prime_fd = bufFd\<rparr>)
       (\<lambda>a. prime_handle (the_prime_import a)) w"

definition createBufferFromUserPtr ::
  "'k os_interface \<Rightarrow> int \<Rightarrow> drm_ivpu_bo_create_from_userptr \<Rightarrow> 'k world
     \<Rightarrow> ((int + drm_ivpu_bo_create_from_userptr) \<times> 'k world) option" where
  "createBufferFromUserPtr os fd args w =
     request os fd (Io_bo_create_from_userptr args) the_userptr w"

definition drv_mmap :: "'k os_interface \<Rightarrow> int \<Rightarrow> u64 \<Rightarrow> u64 \<Rightarrow> 'k world \<Rightarrow> u64 \<times> 'k world" where
  "drv_mmap os fd sz offset w =
     (case osiMmap os sz fd offset w of
        (ptr, w') \<Rightarrow> (if ptr = MAP_FAILED then 0 else ptr, w'))"

definition drv_unmap :: "'k os_interface \<Rightarrow> u64 \<Rightarrow> u64 \<Rightarrow> 'k world \<Rightarrow> int \<times> 'k world" where
  "drv_unmap os ptr sz w = osiMunmap os ptr sz w"

section \<open>Metric streamer\<close>

definition metricStreamerStart where
  "metricStreamerStart os fd d w = request os fd (Io_metric_start d) the_metric_start w"
definition metricStreamerStop where
  "metricStreamerStop os fd m w = request_code os fd (Io_metric_stop m) w"
definition metricStreamerGetData where
  "metricStreamerGetData os fd d w = request os fd (Io_metric_get_data d) the_metric_data w"
definition metricStreamerGetInfo where
  "metricStreamerGetInfo os fd d w = request os fd (Io_metric_get_info d) the_metric_info w"

section \<open>The class as its clients see it\<close>

record 'k drv_api =
  da_createBuffer :: "u64 \<Rightarrow> u32 \<Rightarrow> 'k world \<Rightarrow> (int + u32 \<times> u64) \<times> 'k world"
  da_getBufferInfo :: "u32 \<Rightarrow> 'k world \<Rightarrow> (int + u64) \<times> 'k world"
  da_getExtBufferInfo :: "u32 \<Rightarrow> 'k world \<Rightarrow> (int + u32 \<times> u64 \<times> u64 \<times> u64) \<times> 'k world"
  da_mmap :: "u64 \<Rightarrow> u64 \<Rightarrow> 'k world \<Rightarrow> u64 \<times> 'k world"
  da_unmap :: "u64 \<Rightarrow> u64 \<Rightarrow> 'k world \<Rightarrow> int \<times> 'k world"
  da_closeBuffer :: "u32 \<Rightarrow> 'k world \<Rightarrow> int \<times> 'k world"
  da_exportBuffer :: "u32 \<Rightarrow> u32 \<Rightarrow> 'k world \<Rightarrow> (int + int) \<times> 'k world"
  da_importBuffer :: "int \<Rightarrow> u32 \<Rightarrow> 'k world \<Rightarrow> (int + u32) \<times> 'k world"
  da_createBufferFromUserPtr ::
    "drm_ivpu_bo_create_from_userptr \<Rightarrow> 'k world \<Rightarrow> (int + drm_ivpu_bo_create_from_userptr) \<times> 'k world"
  da_getPageSize :: u64
  da_wait :: "drm_ivpu_bo_wait \<Rightarrow> 'k world \<Rightarrow> (int \<times> drm_ivpu_bo_wait) \<times> 'k world"
  da_getDeviceParam :: "u32 \<Rightarrow> u32 \<Rightarrow> bool \<Rightarrow> 'k world \<Rightarrow> (exn + u64) \<times> 'k world"
  da_commandQueueCreate :: "u32 \<Rightarrow> bool \<Rightarrow> 'k world \<Rightarrow> (int + u32) \<times> 'k world"
  da_commandQueueSubmit :: "drm_ivpu_cmdq_submit \<Rightarrow> 'k world \<Rightarrow> int \<times> 'k world"
  da_commandQueueDestroy :: "u32 \<Rightarrow> 'k world \<Rightarrow> int \<times> 'k world"
  da_submitCommandBuffer :: "drm_ivpu_submit \<Rightarrow> 'k world \<Rightarrow> int \<times> 'k world"
  da_metricStreamerStart ::
    "drm_ivpu_metric_streamer_start \<Rightarrow> 'k world \<Rightarrow> (int + drm_ivpu_metric_streamer_start) \<times> 'k world"
  da_metricStreamerStop :: "u64 \<Rightarrow> 'k world \<Rightarrow> int \<times> 'k world"
  da_metricStreamerGetData ::
    "drm_ivpu_metric_streamer_get_data \<Rightarrow> 'k world \<Rightarrow> (int + drm_ivpu_metric_streamer_get_data) \<times> 'k world"

definition mk_drv_api :: "'k os_interface \<Rightarrow> int \<Rightarrow> 'k drv_api" where
  "mk_drv_api os fd = \<lparr>
     da_createBuffer = (\<lambda>sz flags w. the (createBuffer os fd sz flags w)),
     da_getBufferInfo = (\<lambda>h w. the (getBufferInfo os fd h w)),
     da_getExtBufferInfo = (\<lambda>h w. the (getExtBufferInfo os fd h w)),
     da_mmap = drv_mmap os fd,
     da_unmap = drv_unmap os,
     da_closeBuffer = (\<lambda>h w. the (closeBuffer os fd h w)),
     da_exportBuffer = (\<lambda>h flags w. the (exportBuffer os fd h flags w)),
     da_importBuffer = (\<lambda>bfd flags w. the (importBuffer os fd bfd flags w)),
     da_createBufferFromUserPtr = (\<lambda>a w. the (createBufferFromUserPtr os fd a w)),
     da_getPageSize = osiGetSystemPageSize os,
     da_wait = (\<lambda>a w. the (drv_wait os fd a w)),
     da_getDeviceParam = (\<lambda>p i ign w. the (getDeviceParam os fd p i ign w)),
     da_commandQueueCreate = (\<lambda>p t w. the (commandQueueCreate os fd p t w)),
     da_commandQueueSubmit = (\<lambda>a w. the (commandQueueSubmit os fd a w)),
     da_commandQueueDestroy = (\<lambda>q w. the (commandQueueDestroy os fd q w)),
     da_submitCommandBuffer = (\<lambda>a w. the (submitCommandBuffer os fd a w)),
     da_metricStreamerStart = (\<lambda>a w. the (metricStreamerStart os fd a w)),
     da_metricStreamerStop = (\<lambda>m w. the (metricStreamerStop os fd m w)),
     da_metricStreamerGetData = (\<lambda>a w. the (metricStreamerGetData os fd a w)) \<rparr>"

section \<open>The contract of the operating system\<close>

text \<open>
  POSIX: a failing call sets \<open>errno\<close> to a positive number. The kernel answers in the
  structure of the request.
\<close>

locale posix_os =
  fixes os :: "'k os_interface"
  assumes errno_positive: "osiIoctl os fd arg w = (r, arg', w') \<Longrightarrow> r = - 1 \<Longrightarrow> errno w' > 0"
    and request_kept: "osiIoctl os fd (Some a) w = (r, arg', w') \<Longrightarrow>
          \<exists>a'. arg' = Some a' \<and> request_nr a' = request_nr a"
begin

lemma no_retry: "osiIoctl os fd arg w = (r, arg', w') \<Longrightarrow> \<not> retry_cond r w'"
  using errno_positive by (fastforce simp: retry_cond_def errno_defs)

lemma doIoctl_once: "0 \<le> fd \<Longrightarrow> doIoctl os fd (Some a) w = Some (osiIoctl os fd (Some a) w)"
  using no_retry by (auto simp: doIoctl_def doIoctl_loop.simps split: prod.splits)

lemma doIoctl_returns: "doIoctl os fd arg w \<noteq> None"
  using no_retry by (auto simp: doIoctl_def doIoctl_loop.simps split: prod.splits)

lemma request_returns: "request os fd a get w \<noteq> None"
  using doIoctl_returns by (fastforce simp: request_def split: option.splits prod.splits)

lemma request_code_returns: "request_code os fd a w \<noteq> None"
  using doIoctl_returns by (fastforce simp: request_code_def split: option.splits prod.splits)

lemma wrappers_return:
  "createBuffer os fd sz flags w \<noteq> None" "getBufferInfo os fd h w \<noteq> None"
  "getExtBufferInfo os fd h w \<noteq> None" "closeBuffer os fd h w \<noteq> None"
  "exportBuffer os fd h flags w \<noteq> None" "importBuffer os fd bfd flags w \<noteq> None"
  "createBufferFromUserPtr os fd up w \<noteq> None" "commandQueueCreate os fd prio turbo w \<noteq> None"
  "commandQueueSubmit os fd cqs w \<noteq> None" "commandQueueDestroy os fd q w \<noteq> None"
  "submitCommandBuffer os fd sub w \<noteq> None"
  unfolding createBuffer_def getBufferInfo_def getExtBufferInfo_def closeBuffer_def
    exportBuffer_def importBuffer_def createBufferFromUserPtr_def commandQueueCreate_def
    commandQueueSubmit_def commandQueueDestroy_def submitCommandBuffer_def
  by (rule request_returns request_code_returns)+

lemma wait_returns: "drv_wait os fd a w \<noteq> None"
  using doIoctl_returns by (fastforce simp: drv_wait_def split: option.splits prod.splits)

lemma getDeviceParam_returns: "getDeviceParam os fd p i ign w \<noteq> None"
  using doIoctl_returns by (fastforce simp: getDeviceParam_def split: option.splits prod.splits)

end

section \<open>The contract of the driver API\<close>

text \<open>
  What the buffer management relies on. \<open>mapped w x\<close> says that the address \<open>x\<close> of the
  process may be in use in the world \<open>w\<close>. Mapping hands out addresses that were not in use,
  unmapping releases only the range it is given, and no call touches the singletons of the
  driver. A mapping of size zero, where the system grants one, takes its base address.
\<close>

definition spans :: "u64 \<Rightarrow> u64 \<Rightarrow> u64 \<Rightarrow> bool" where
  "spans p sz x \<longleftrightarrow> unat p \<le> unat x \<and> unat x < unat p + max 1 (unat sz)"

definition world_frame :: "('k world \<Rightarrow> u64 \<Rightarrow> bool) \<Rightarrow> 'k world \<Rightarrow> 'k world \<Rightarrow> bool" where
  "world_frame mapped w w' \<longleftrightarrow> bo_counter w' = bo_counter w \<and> (\<forall>x. mapped w x \<longrightarrow> mapped w' x)"

locale driver_contract =
  fixes drv :: "'k drv_api" and mapped :: "'k world \<Rightarrow> u64 \<Rightarrow> bool"
  assumes createBuffer_frame: "da_createBuffer drv sz flags w = (r, w') \<Longrightarrow> world_frame mapped w w'"
    and getBufferInfo_frame: "da_getBufferInfo drv h w = (r1, w') \<Longrightarrow> world_frame mapped w w'"
    and getExtBufferInfo_frame: "da_getExtBufferInfo drv h w = (r2, w') \<Longrightarrow> world_frame mapped w w'"
    and closeBuffer_frame: "da_closeBuffer drv h w = (r3, w') \<Longrightarrow> world_frame mapped w w'"
    and importBuffer_frame: "da_importBuffer drv fd flags w = (r4, w') \<Longrightarrow> world_frame mapped w w'"
    and userptr_frame: "da_createBufferFromUserPtr drv a w = (r5, w') \<Longrightarrow> world_frame mapped w w'"
    and mmap_frame: "da_mmap drv sz off w = (p, w') \<Longrightarrow> world_frame mapped w w'"
    and mmap_fresh: "da_mmap drv sz off w = (p, w') \<Longrightarrow> p \<noteq> 0 \<Longrightarrow>
          unat p + max 1 (unat sz) < 2 ^ 64 \<and> (\<forall>x. spans p sz x \<longrightarrow> \<not> mapped w x \<and> mapped w' x)"
    and unmap_counter: "da_unmap drv p sz w = (r6, w') \<Longrightarrow> bo_counter w' = bo_counter w"
    and unmap_others: "da_unmap drv p sz w = (r6, w') \<Longrightarrow> mapped w x \<Longrightarrow> \<not> spans p sz x \<Longrightarrow> mapped w' x"
    and mapped_singletons: "mapped (w\<lparr>bo_counter := n, stats := s\<rparr>) x = mapped w x"

end
