(* ===== verification/Buffer_Object.thy ===== *)
theory Buffer_Object
  imports Driver_Api
begin

text \<open>
  \<open>VPUBufferObject\<close> (\<open>umd/vpu_driver/source/memory/vpu_buffer_object.cpp\<close> and \<open>.hpp\<close>): a
  piece of memory with a host address, a device address and a kernel handle. Creation,
  import and destruction go through the driver API and return the new world; the content
  of a buffer is a range of the process memory.
\<close>

section \<open>The object\<close>

definition DRM_IVPU_BO_HIGH_MEM :: u32 where "DRM_IVPU_BO_HIGH_MEM = 0x1"
definition DRM_IVPU_BO_MAPPABLE :: u32 where "DRM_IVPU_BO_MAPPABLE = 0x2"
definition DRM_IVPU_BO_DMA_MEM :: u32 where "DRM_IVPU_BO_DMA_MEM = 0x4"
definition DRM_IVPU_BO_READ_ONLY :: u32 where "DRM_IVPU_BO_READ_ONLY = 0x8"
definition DRM_IVPU_BO_CACHED :: u32 where "DRM_IVPU_BO_CACHED = 0"
definition DRM_IVPU_BO_UNCACHED :: u32 where "DRM_IVPU_BO_UNCACHED = 0x10000"
definition DRM_IVPU_BO_WC :: u32 where "DRM_IVPU_BO_WC = 0x20000"

lemmas bo_flag_defs [umd_defs] = DRM_IVPU_BO_HIGH_MEM_def DRM_IVPU_BO_MAPPABLE_def
  DRM_IVPU_BO_DMA_MEM_def DRM_IVPU_BO_READ_ONLY_def DRM_IVPU_BO_CACHED_def
  DRM_IVPU_BO_UNCACHED_def DRM_IVPU_BO_WC_def

text \<open>
  \<open>enum class Type\<close>: each enumerator is a set of flags, and the conversions below make
  values that are no enumerator, so a type is its flag word.
\<close>

type_synonym bo_flags = u32

definition CachedFw :: bo_flags where
  "CachedFw = DRM_IVPU_BO_CACHED OR DRM_IVPU_BO_MAPPABLE"
definition CachedShave :: bo_flags where
  "CachedShave = DRM_IVPU_BO_CACHED OR DRM_IVPU_BO_MAPPABLE OR DRM_IVPU_BO_HIGH_MEM"
definition CachedDma :: bo_flags where
  "CachedDma = DRM_IVPU_BO_CACHED OR DRM_IVPU_BO_MAPPABLE OR DRM_IVPU_BO_DMA_MEM"
definition CachedDmaUnmappable :: bo_flags where
  "CachedDmaUnmappable = DRM_IVPU_BO_CACHED OR DRM_IVPU_BO_DMA_MEM"
definition UncachedDma :: bo_flags where
  "UncachedDma = DRM_IVPU_BO_UNCACHED OR DRM_IVPU_BO_DMA_MEM"
definition WriteCombineFw :: bo_flags where
  "WriteCombineFw = DRM_IVPU_BO_WC OR DRM_IVPU_BO_MAPPABLE"
definition WriteCombineFwUnmappable :: bo_flags where
  "WriteCombineFwUnmappable = DRM_IVPU_BO_WC"
definition WriteCombineShave :: bo_flags where
  "WriteCombineShave = DRM_IVPU_BO_WC OR DRM_IVPU_BO_MAPPABLE OR DRM_IVPU_BO_HIGH_MEM"
definition WriteCombineDma :: bo_flags where
  "WriteCombineDma = DRM_IVPU_BO_WC OR DRM_IVPU_BO_MAPPABLE OR DRM_IVPU_BO_DMA_MEM"
definition WriteCombineDmaUnmappable :: bo_flags where
  "WriteCombineDmaUnmappable = DRM_IVPU_BO_WC OR DRM_IVPU_BO_DMA_MEM"
definition ImportedMemory :: bo_flags where "ImportedMemory = 0"

lemmas bo_type_defs [umd_defs] = CachedFw_def CachedShave_def CachedDma_def CachedDmaUnmappable_def
  UncachedDma_def WriteCombineFw_def WriteCombineFwUnmappable_def WriteCombineShave_def WriteCombineDma_def
  WriteCombineDmaUnmappable_def ImportedMemory_def

record buffer_object =
  bo_location :: location
  bo_type :: bo_flags
  basePtr :: u64
  allocSize :: u64
  vpuAddr :: u64
  handle :: u32
  bo_id :: u64

definition make_buffer_object ::
  "location \<Rightarrow> bo_flags \<Rightarrow> u64 \<Rightarrow> u64 \<Rightarrow> u32 \<Rightarrow> u64 \<Rightarrow> 'k world \<Rightarrow> buffer_object \<times> 'k world" where
  "make_buffer_object loc ty ptr sz h va w =
     (let n = bo_counter w + 1 in
      (\<lparr>bo_location = loc, bo_type = ty, basePtr = ptr, allocSize = sz, vpuAddr = va,
        handle = h, bo_id = n\<rparr>, w\<lparr>bo_counter := n\<rparr>))"

definition allowDeleteExternalHandle :: "buffer_object \<Rightarrow> buffer_object" where
  "allowDeleteExternalHandle bo =
     (case bo_location bo of
        ExternalHost \<Rightarrow> bo\<lparr>bo_location := Host\<rparr>
      | ExternalDevice \<Rightarrow> bo\<lparr>bo_location := Device\<rparr>
      | ExternalShared \<Rightarrow> bo\<lparr>bo_location := Shared\<rparr>
      | _ \<Rightarrow> bo)"

definition isInRange :: "buffer_object \<Rightarrow> u64 \<Rightarrow> bool" where
  "isInRange bo ptr \<longleftrightarrow> (let upperBound = basePtr bo + allocSize bo in ptr \<ge> basePtr bo \<and> ptr < upperBound)"

definition getVPUAddr :: "buffer_object \<Rightarrow> u64 \<Rightarrow> u64" where
  "getVPUAddr bo ptr =
     (if \<not> isInRange bo ptr then 0 else let offset = ptr - basePtr bo in vpuAddr bo + offset)"

definition convertDmaToShaveRange :: "bo_flags \<Rightarrow> bo_flags" where
  "convertDmaToShaveRange ty =
     (if ty AND DRM_IVPU_BO_DMA_MEM = 0 then ty
      else (ty AND NOT DRM_IVPU_BO_DMA_MEM) OR DRM_IVPU_BO_HIGH_MEM)"

definition convertToUnmappable :: "bo_flags \<Rightarrow> bo_flags" where
  "convertToUnmappable ty = ty AND NOT DRM_IVPU_BO_MAPPABLE"

section \<open>Creation and destruction\<close>

text \<open>\<open>safe_cast<off_t>\<close> of an \<open>uint64_t\<close> offset; the value is read as a 64-bit word again.\<close>

definition safe_cast_off :: "u64 \<Rightarrow> exn + u64" where
  "safe_cast_off x =
     (case safe_cast (Unsigned 64) (Signed 64) (uint x) of Inl e \<Rightarrow> Inl e | Inr v \<Rightarrow> Inr (word_of_int v))"

definition page_aligned_size :: "'k drv_api \<Rightarrow> u64 \<Rightarrow> u64" where
  "page_aligned_size drv sz = ALIGN sz (da_getPageSize drv)"

definition bo_create ::
  "'k drv_api \<Rightarrow> location \<Rightarrow> bo_flags \<Rightarrow> u64 \<Rightarrow> 'k world \<Rightarrow> (exn + buffer_object option) \<times> 'k world" where
  "bo_create drv loc ty sz w =
     (case da_createBuffer drv sz ty w of
        (Inl _, w1) \<Rightarrow> (Inr None, w1)
      | (Inr (h, va), w1) \<Rightarrow>
          (case da_getBufferInfo drv h w1 of
             (Inl _, w2) \<Rightarrow> (Inr None, snd (da_closeBuffer drv h w2))
           | (Inr offset, w2) \<Rightarrow>
               (let finish = (\<lambda>ptr w3.
                      let w4 = (if stats_enabled (stats w3)
                                then w3\<lparr>stats := stats_inc loc (page_aligned_size drv sz) (stats w3)\<rparr>
                                else w3)
                      in case make_buffer_object loc ty ptr sz h va w4 of (bo, w5) \<Rightarrow> (Inr (Some bo), w5))
                in if ty AND DRM_IVPU_BO_MAPPABLE \<noteq> 0
                   then (case safe_cast_off offset of
                           Inl e \<Rightarrow> (Inl e, w2)
                         | Inr off \<Rightarrow>
                             (case da_mmap drv sz off w2 of
                                (ptr, w3) \<Rightarrow>
                                  if ptr = 0 then (Inr None, snd (da_closeBuffer drv h w3))
                                  else finish ptr w3))
                   else finish 0 w2)))"

definition bo_importFromFd ::
  "'k drv_api \<Rightarrow> location \<Rightarrow> int \<Rightarrow> 'k world \<Rightarrow> (exn + buffer_object option) \<times> 'k world" where
  "bo_importFromFd drv loc fd w =
     (case da_importBuffer drv fd 0 w of
        (Inl _, w1) \<Rightarrow> (Inr None, w1)
      | (Inr h, w1) \<Rightarrow>
          (case da_getExtBufferInfo drv h w1 of
             (Inl _, w2) \<Rightarrow> (Inr None, w2)
           | (Inr (flags, va, sz, offset), w2) \<Rightarrow>
               (case safe_cast_off offset of
                  Inl e \<Rightarrow> (Inl e, w2)
                | Inr off \<Rightarrow>
                    (case da_mmap drv sz off w2 of
                       (ptr, w3) \<Rightarrow>
                         if ptr = 0 then (Inr None, w3)
                         else (case make_buffer_object loc ImportedMemory ptr sz h va w3 of
                                 (bo, w4) \<Rightarrow> (Inr (Some bo), w4))))))"

definition bo_createFromUserPtr ::
  "'k drv_api \<Rightarrow> u64 \<Rightarrow> u64 \<Rightarrow> bool \<Rightarrow> 'k world \<Rightarrow> buffer_object option \<times> 'k world" where
  "bo_createFromUserPtr drv userPtr sz readOnly w =
     (let ty = (if readOnly then CachedDmaUnmappable OR DRM_IVPU_BO_READ_ONLY else CachedDmaUnmappable);
          args = \<lparr>bou_user_ptr = userPtr, bou_size = sz, bou_flags = ty, bou_handle = 0, bou_vpu_addr = 0\<rparr>
      in case da_createBufferFromUserPtr drv args w of
           (Inl _, w1) \<Rightarrow> (None, w1)
         | (Inr a, w1) \<Rightarrow>
             (case make_buffer_object UserPtr ty userPtr sz (bou_handle a) (bou_vpu_addr a) w1 of
                (bo, w2) \<Rightarrow> (Some bo, w2)))"

text \<open>The destructor; failures of the kernel calls are only logged.\<close>

definition bo_destroy :: "'k drv_api \<Rightarrow> buffer_object \<Rightarrow> 'k world \<Rightarrow> 'k world" where
  "bo_destroy drv bo w =
     (let w1 = (if bo_location bo \<noteq> UserPtr \<and> basePtr bo \<noteq> 0
                then snd (da_unmap drv (basePtr bo) (allocSize bo) w) else w)
      in if location_code (bo_location bo) AND externalMemMask \<noteq> 0 then w1
         else let w2 = (if stats_enabled (stats w1)
                        then w1\<lparr>stats := stats_dec (bo_location bo)
                                 (page_aligned_size drv (allocSize bo)) (stats w1)\<rparr>
                        else w1)
              in snd (da_closeBuffer drv (handle bo) w2))"

section \<open>Access\<close>

text \<open>\<open>data\<close> is the bytes at the source pointer, \<open>None\<close> for a null pointer.\<close>

definition copyToBuffer ::
  "buffer_object \<Rightarrow> bytes option \<Rightarrow> u64 \<Rightarrow> u64 \<Rightarrow> 'k world \<Rightarrow> bool \<times> 'k world" where
  "copyToBuffer bo data sz offset w =
     (if basePtr bo = 0 then (False, w)
      else if offset + sz > allocSize bo then (False, w)
      else (case data of
              None \<Rightarrow> (False, w)
            | Some d \<Rightarrow>
                if sz = 0 then (False, w)
                else let dstPtr = basePtr bo + offset
                     in (True, w\<lparr>mem := write_bytes (mem w) dstPtr (take (unat sz) d)\<rparr>)))"

definition fillBuffer :: "buffer_object \<Rightarrow> bytes option \<Rightarrow> u64 \<Rightarrow> 'k world \<Rightarrow> bool \<times> 'k world" where
  "fillBuffer bo pattern patternSize w =
     (if basePtr bo = 0 then (False, w)
      else (case pattern of
              None \<Rightarrow> (False, w)
            | Some p \<Rightarrow>
                if patternSize \<in> {4, 2, 1}
                then let n = unat (allocSize bo div patternSize)
                     in (True, w\<lparr>mem := write_bytes (mem w) (basePtr bo)
                                   (concat (replicate n (take (unat patternSize) p)))\<rparr>)
                else (False, w)))"

definition O_RDWR :: u32 where "O_RDWR = 2"

definition exportToFd :: "'k drv_api \<Rightarrow> buffer_object \<Rightarrow> 'k world \<Rightarrow> int option \<times> 'k world" where
  "exportToFd drv bo w =
     (if location_code (bo_location bo) AND externalMemMask \<noteq> externalMemMask then (None, w)
      else (case da_exportBuffer drv (handle bo) O_RDWR w of
              (Inl err, w1) \<Rightarrow> (None, w1)
            | (Inr fd, w1) \<Rightarrow> (Some fd, w1)))"

definition contents :: "'k world \<Rightarrow> buffer_object \<Rightarrow> bytes" where
  "contents w bo = read_bytes (mem w) (basePtr bo) (unat (allocSize bo))"

text \<open>A buffer object whose host range does not wrap around the address space.\<close>

definition bo_ok :: "buffer_object \<Rightarrow> bool" where
  "bo_ok bo \<longleftrightarrow> unat (basePtr bo) + unat (allocSize bo) < 2 ^ 64"

section \<open>Lemmas\<close>

lemma length_contents [simp]: "length (contents w bo) = unat (allocSize bo)"
  by (simp add: contents_def)

lemma isInRange_iff:
  assumes "bo_ok bo"
  shows "isInRange bo p \<longleftrightarrow> unat (basePtr bo) \<le> unat p \<and> unat p < unat (basePtr bo) + unat (allocSize bo)"
  using assms by (simp add: isInRange_def Let_def bo_ok_def word_le_nat_alt word_less_nat_alt unat_plus_64)

lemma getVPUAddr_inside:
  assumes "bo_ok bo" "isInRange bo p" "unat (vpuAddr bo) + unat (allocSize bo) < 2 ^ 64"
  shows "unat (getVPUAddr bo p) = unat (vpuAddr bo) + (unat p - unat (basePtr bo))"
proof -
  have p: "unat (basePtr bo) \<le> unat p" "unat p < unat (basePtr bo) + unat (allocSize bo)"
    using assms by (auto simp: isInRange_iff)
  then have d: "unat (p - basePtr bo) = unat p - unat (basePtr bo)"
    by (simp add: unat_sub word_le_nat_alt)
  show ?thesis
    using assms p unfolding getVPUAddr_def by (simp add: Let_def d unat_plus_64)
qed

lemma copyToBuffer_fail [simp]: "copyToBuffer bo data sz offset w = (False, w') \<Longrightarrow> w' = w"
  by (auto simp: copyToBuffer_def Let_def split: if_splits option.splits)

lemma copyToBuffer_ok:
  assumes "basePtr bo \<noteq> 0" "d \<noteq> []" "unat offset + length d \<le> unat (allocSize bo)"
  shows "copyToBuffer bo (Some d) (of_nat (length d)) offset w
           = (True, w\<lparr>mem := write_bytes (mem w) (basePtr bo + offset) d\<rparr>)"
proof -
  have l: "length d < 2 ^ 64" "unat offset + length d < 2 ^ 64"
    using assms(3) unat_lt_64[of "allocSize bo"] by linarith+
  then have u: "unat (of_nat (length d) :: u64) = length d" by (simp only: unat_of_nat_64)
  have "(of_nat (length d) :: u64) \<noteq> 0" using assms(2) u by (metis length_0_conv unat_0)
  moreover have "\<not> offset + of_nat (length d) > allocSize bo"
    using l assms(3) u by (simp add: word_less_nat_alt unat_plus_64)
  ultimately show ?thesis using assms u by (simp add: copyToBuffer_def Let_def)
qed

lemma copyToBuffer_contents:
  assumes "unat offset + length d \<le> unat (allocSize bo)"
  shows "contents (w\<lparr>mem := write_bytes (mem w) (basePtr bo + offset) d\<rparr>) bo
           = overwrite (contents w bo) (unat offset) d"
  using read_write_within[of "unat offset" d "unat (allocSize bo)" "mem w" "basePtr bo"] assms
    unat_lt_64[of "allocSize bo"] by (simp add: contents_def)

end
