(* ===== verification/Ptr_Map.thy ===== *)
theory Ptr_Map
  imports Umd_Prelude
begin

text \<open>
  The ordered map from host addresses that \<open>VPUDeviceContext\<close> keeps its tracked buffers in
  (\<open>std::map<const void *, T, std::greater<const void *>>\<close>): the operations the driver
  uses, the contract it relies on as the locale \<open>ordered_map\<close>, the search for the range
  that contains a pointer, proved from the contract alone, and the interpretation.
\<close>

section \<open>The map\<close>

text \<open>
  \<open>std::map<const void *, T, std::greater<>>\<close> as its sequence of entries: keys strictly
  descending.
\<close>

type_synonym 'v ptr_map = "(u64 \<times> 'v) list"

fun map_emplace :: "u64 \<Rightarrow> 'v \<Rightarrow> 'v ptr_map \<Rightarrow> 'v ptr_map \<times> bool" where
  "map_emplace k v [] = ([(k, v)], True)"
| "map_emplace k v ((k', v') # m) =
     (if k' < k then ((k, v) # (k', v') # m, True)
      else if k' = k then ((k', v') # m, False)
      else (case map_emplace k v m of (m', ok) \<Rightarrow> ((k', v') # m', ok)))"

text \<open>\<open>lower_bound\<close>: the first entry in map order whose key is not greater than \<open>k\<close>.\<close>

fun map_lower_bound :: "u64 \<Rightarrow> 'v ptr_map \<Rightarrow> (u64 \<times> 'v) option" where
  "map_lower_bound k [] = None"
| "map_lower_bound k ((k', v) # m) = (if k' \<le> k then Some (k', v) else map_lower_bound k m)"

fun map_erase :: "u64 \<Rightarrow> 'v ptr_map \<Rightarrow> 'v ptr_map \<times> nat" where
  "map_erase k [] = ([], 0)"
| "map_erase k ((k', v) # m) =
     (if k' = k then (m, 1) else (case map_erase k m of (m', n) \<Rightarrow> ((k', v) # m', n)))"

definition keys :: "'v ptr_map \<Rightarrow> u64 set" where "keys m = fst ` set m"

definition descending :: "'v ptr_map \<Rightarrow> bool" where
  "descending m \<longleftrightarrow> sorted_wrt (>) (map fst m)"

text \<open>The interface the context relies on.\<close>

locale ordered_map =
  fixes inv :: "'m \<Rightarrow> bool"
    and entries :: "'m \<Rightarrow> (u64 \<times> 'v) set"
    and emplace :: "u64 \<Rightarrow> 'v \<Rightarrow> 'm \<Rightarrow> 'm \<times> bool"
    and lower_bound :: "u64 \<Rightarrow> 'm \<Rightarrow> (u64 \<times> 'v) option"
    and erase :: "u64 \<Rightarrow> 'm \<Rightarrow> 'm \<times> nat"
  assumes unique: "inv m \<Longrightarrow> (k, v) \<in> entries m \<Longrightarrow> (k, v') \<in> entries m \<Longrightarrow> v = v'"
    and emplace_inv: "inv m \<Longrightarrow> inv (fst (emplace k v m))"
    and emplace_ok: "inv m \<Longrightarrow> snd (emplace k v m) \<longleftrightarrow> k \<notin> fst ` entries m"
    and emplace_entries: "inv m \<Longrightarrow> entries (fst (emplace k v m)) =
          (if k \<in> fst ` entries m then entries m else insert (k, v) (entries m))"
    and lower_bound_None: "inv m \<Longrightarrow> lower_bound k m = None \<longleftrightarrow> (\<forall>(k', v) \<in> entries m. k < k')"
    and lower_bound_Some: "inv m \<Longrightarrow> lower_bound k m = Some (k', v) \<longleftrightarrow>
          (k', v) \<in> entries m \<and> k' \<le> k \<and> (\<forall>(k2, v2) \<in> entries m. k2 \<le> k \<longrightarrow> k2 \<le> k')"
    and erase_inv: "inv m \<Longrightarrow> inv (fst (erase k m))"
    and erase_entries: "inv m \<Longrightarrow> entries (fst (erase k m)) = {e \<in> entries m. fst e \<noteq> k}"
    and erase_count: "inv m \<Longrightarrow> snd (erase k m) = (if k \<in> fst ` entries m then 1 else 0)"
begin

text \<open>
  The search the context makes: when the half-open ranges \<open>[k, k + len v)\<close> of the entries
  do not overlap, the entry with the greatest key below a pointer is the only one whose
  range can contain it.
\<close>

definition containing :: "('v \<Rightarrow> nat) \<Rightarrow> u64 \<Rightarrow> 'm \<Rightarrow> (u64 \<times> 'v) set" where
  "containing len p m = {(k, v) \<in> entries m. unat k \<le> unat p \<and> unat p < unat k + len v}"

definition apart :: "('v \<Rightarrow> nat) \<Rightarrow> 'm \<Rightarrow> bool" where
  "apart len m \<longleftrightarrow> (\<forall>(k1, v1) \<in> entries m. \<forall>(k2, v2) \<in> entries m.
      unat k1 < unat k2 \<longrightarrow> unat k1 + len v1 \<le> unat k2)"

lemma containing_lower_bound:
  assumes "inv m" "apart len m" "(k, v) \<in> containing len p m"
  shows "lower_bound p m = Some (k, v)"
proof -
  have kv: "(k, v) \<in> entries m" "unat k \<le> unat p" "unat p < unat k + len v"
    using assms(3) by (auto simp: containing_def)
  have "k2 \<le> k" if "(k2, v2) \<in> entries m" "k2 \<le> p" for k2 v2
  proof (rule ccontr)
    assume "\<not> k2 \<le> k"
    then have "unat k < unat k2" by (simp add: word_le_nat_alt)
    then have "unat k + len v \<le> unat k2"
      using assms(2) kv(1) that(1) unfolding apart_def by blast
    then show False using kv(3) that(2) by (simp add: word_le_nat_alt)
  qed
  then show ?thesis
    using kv assms(1) by (subst lower_bound_Some) (auto simp: word_le_nat_alt)
qed

lemma search_exact:
  assumes "inv m" "apart len m"
  shows "(k, v) \<in> containing len p m \<longleftrightarrow>
         lower_bound p m = Some (k, v) \<and> unat p < unat k + len v"
  using containing_lower_bound[OF assms] lower_bound_Some[OF assms(1), of p k v]
  by (auto simp: containing_def word_le_nat_alt)

lemma containing_unique:
  assumes "inv m" "apart len m" "(k, v) \<in> containing len p m" "(k', v') \<in> containing len p m"
  shows "k = k' \<and> v = v'"
proof -
  have "lower_bound p m = Some (k, v)" "lower_bound p m = Some (k', v')"
    using assms by (blast intro: containing_lower_bound)+
  then show ?thesis by simp
qed

lemma apart_erase: "inv m \<Longrightarrow> apart len m \<Longrightarrow> apart len (fst (erase k m))"
  by (auto simp: apart_def erase_entries)

lemma apart_emplace:
  assumes "inv m" "apart len m"
    and "\<forall>(k', v') \<in> entries m. unat k + len v \<le> unat k' \<or> unat k' + len v' \<le> unat k"
  shows "apart len (fst (emplace k v m))"
proof (cases "k \<in> fst ` entries m")
  case True then show ?thesis using assms by (simp add: apart_def emplace_entries)
next
  case False
  have e: "entries (fst (emplace k v m)) = insert (k, v) (entries m)"
    using False assms(1) by (simp add: emplace_entries)
  show ?thesis unfolding apart_def e using assms(2,3) unfolding apart_def by fastforce
qed

end

section \<open>The map is an ordered map\<close>

lemma keys_simps [simp]:
  "keys [] = {}" "keys ((k, v) # m) = insert k (keys m)"
  by (auto simp: keys_def)

lemma keysI: "(k, v) \<in> set m \<Longrightarrow> k \<in> keys m"
  by (force simp: keys_def)

lemma descending_Cons [simp]:
  "descending ((k, v) # m) \<longleftrightarrow> (\<forall>k' \<in> keys m. k' < k) \<and> descending m"
  by (auto simp: descending_def keys_def)

lemma descending_Nil [simp]: "descending []"
  by (simp add: descending_def)

lemma map_emplace_props:
  "descending m \<Longrightarrow> map_emplace k v m = (m', ok) \<Longrightarrow>
     ok = (k \<notin> keys m) \<and> set m' = (if k \<in> keys m then set m else insert (k, v) (set m)) \<and> descending m'"
proof (induction m arbitrary: m' ok)
  case (Cons e m)
  obtain k' v' where e: "e = (k', v')" by force
  obtain m1 ok1 where r: "map_emplace k v m = (m1, ok1)" by force
  have d: "\<forall>k1 \<in> keys m. k1 < k'" "descending m" using Cons.prems(1) by (simp_all add: e)
  note IH = Cons.IH[OF d(2) r]
  consider "k' < k" | "k' = k" | "k < k'" by (meson linorder_less_linear)
  then show ?case
  proof cases
    case 1
    then have "\<forall>k1 \<in> keys m. k1 < k" using d(1) by (blast intro: less_trans)
    then show ?thesis using 1 Cons.prems d unfolding e by auto
  next
    case 2
    then show ?thesis using Cons.prems d unfolding e by auto
  next
    case 3
    then have "\<not> k' < k" "k' \<noteq> k" by auto
    then have res: "m' = (k', v') # m1" "ok = ok1" using Cons.prems(2) unfolding e by (simp_all add: r)
    have "keys m1 \<subseteq> insert k (keys m)" using IH by (auto simp: keys_def split: if_splits)
    then have "\<forall>k1 \<in> keys m1. k1 < k'" using d(1) 3 by blast
    then show ?thesis using 3 IH less_imp_neq[OF 3] unfolding res e by (simp add: insert_commute)
  qed
qed auto

lemma map_erase_props:
  "descending m \<Longrightarrow> map_erase k m = (m', n) \<Longrightarrow>
     set m' = {e \<in> set m. fst e \<noteq> k} \<and> n = (if k \<in> keys m then 1 else 0) \<and> descending m'"
proof (induction m arbitrary: m' n)
  case (Cons e m)
  obtain k' v' where e: "e = (k', v')" by force
  obtain m1 n1 where r: "map_erase k m = (m1, n1)" by force
  have d: "\<forall>k1 \<in> keys m. k1 < k'" "descending m" using Cons.prems(1) by (simp_all add: e)
  note IH = Cons.IH[OF d(2) r]
  have "keys m1 \<subseteq> keys m" using IH by (auto simp: keys_def)
  then have lt: "\<forall>k1 \<in> keys m1. k1 < k'" using d(1) by blast
  show ?case
  proof (cases "k' = k")
    case True
    then have "m' = m" "n = 1" using Cons.prems(2) unfolding e by auto
    moreover have "\<forall>e' \<in> set m. fst e' \<noteq> k" using d(1) True by (auto dest: keysI)
    ultimately show ?thesis using True d unfolding e by auto
  next
    case False
    then have "m' = (k', v') # m1" "n = n1" using Cons.prems(2) unfolding e by (auto simp: r)
    then show ?thesis using False IH lt unfolding e by auto
  qed
qed auto

lemma map_lower_bound_None: "map_lower_bound k m = None \<longleftrightarrow> (\<forall>(k', v) \<in> set m. k < k')"
proof (induction m)
  case (Cons e m)
  then show ?case by (cases e) (auto simp: not_le intro: less_le_trans)
qed simp

lemma descending_unique: "descending m \<Longrightarrow> (k, v) \<in> set m \<Longrightarrow> (k, v') \<in> set m \<Longrightarrow> v = v'"
proof (induction m)
  case (Cons e m)
  then show ?case by (cases e) (auto dest: keysI)
qed simp

lemma map_lower_bound_Some:
  "descending m \<Longrightarrow> map_lower_bound k m = Some (k', v) \<longleftrightarrow>
     (k', v) \<in> set m \<and> k' \<le> k \<and> (\<forall>(k2, v2) \<in> set m. k2 \<le> k \<longrightarrow> k2 \<le> k')"
proof (induction m)
  case (Cons e m)
  obtain k1 v1 where e: "e = (k1, v1)" by force
  show ?case
  proof (cases "k1 \<le> k")
    case True
    have "k2 < k1" if "(k2, v2) \<in> set m" for k2 v2
      using Cons.prems keysI[OF that] by (auto simp: e)
    then show ?thesis using True unfolding e by (auto dest: leD less_imp_le)
  next
    case False
    then show ?thesis using Cons unfolding e by auto
  qed
qed simp

lemmas map_emplace_facts = map_emplace_props[OF _ prod.collapse[symmetric]]
lemmas map_erase_facts = map_erase_props[OF _ prod.collapse[symmetric]]

interpretation tracked: ordered_map descending set map_emplace map_lower_bound map_erase
  by (unfold_locales, erule (2) descending_unique)
    (simp_all add: map_emplace_facts map_erase_facts map_lower_bound_None map_lower_bound_Some
      keys_def[symmetric])

end
