(* ===== verification/Device_Context.thy ===== *)
theory Device_Context
  imports Buffer_Object Ptr_Map
begin

text \<open>
  \<open>VPUDeviceContext\<close> (\<open>umd/vpu_driver/source/device/vpu_device_context.cpp\<close> and \<open>.hpp\<close>)
  with its two caches: the map of tracked buffers ordered by host address, the list of
  untracked ones, the scratch cache and the preemption cache.

  A buffer object is a shared object. \<open>owners\<close> counts, per object, the strong references
  held outside the context (by commands, command buffers and the like); the references of
  the context itself are its map and its two caches, and \<open>use_count\<close> is the sum. The
  destructor runs when the sum becomes zero. An object that was taken out of the map while
  someone else still refers to it is kept in \<open>detached\<close> until that reference goes. The
  references that live only inside one call (the result of \<open>findBufferObject\<close>, say) are
  not counted.
\<close>

section \<open>The state\<close>

record 'k dev_ctx =
  drvApi :: "'k drv_api"
  ctx_world :: "'k world"
  hwInfo :: hw_info
  trackedBuffers :: "buffer_object ptr_map"
  untrackedBuffers :: "buffer_object list"
  scratchBuffers :: "buffer_object list"
  preemptionBuffers :: "buffer_object list"
  numQueues :: nat
  owners :: "u64 \<Rightarrow> nat"
  detached :: "buffer_object list"

definition new_ctx :: "'k drv_api \<Rightarrow> 'k world \<Rightarrow> hw_info \<Rightarrow> 'k dev_ctx" where
  "new_ctx drv w hw = \<lparr>drvApi = drv, ctx_world = w, hwInfo = hw, trackedBuffers = [],
     untrackedBuffers = [], scratchBuffers = [], preemptionBuffers = [], numQueues = 0,
     owners = (\<lambda>_. 0), detached = []\<rparr>"

section \<open>Reference counts\<close>

definition id_count :: "u64 \<Rightarrow> buffer_object list \<Rightarrow> nat" where
  "id_count i bos = length (filter (\<lambda>bo. bo_id bo = i) bos)"

definition use_count :: "'k dev_ctx \<Rightarrow> u64 \<Rightarrow> nat" where
  "use_count c i = owners c i + id_count i (map snd (trackedBuffers c))
      + id_count i (scratchBuffers c) + id_count i (preemptionBuffers c)"

definition take_ref :: "u64 \<Rightarrow> 'k dev_ctx \<Rightarrow> 'k dev_ctx" where
  "take_ref i c = c\<lparr>owners := (owners c)(i := owners c i + 1)\<rparr>"

definition destroy_bo :: "buffer_object \<Rightarrow> 'k dev_ctx \<Rightarrow> 'k dev_ctx" where
  "destroy_bo bo c = c\<lparr>ctx_world := bo_destroy (drvApi c) bo (ctx_world c)\<rparr>"

text \<open>
  One external reference is dropped. When it was the last one the destructor runs on the
  object itself: the location \<open>freeMemAlloc\<close> may have changed is that of \<open>detached\<close>.
\<close>

definition the_object :: "'k dev_ctx \<Rightarrow> buffer_object \<Rightarrow> buffer_object" where
  "the_object c bo = (case find (\<lambda>d. bo_id d = bo_id bo) (detached c) of Some d \<Rightarrow> d | None \<Rightarrow> bo)"

definition drop_ref :: "buffer_object \<Rightarrow> 'k dev_ctx \<Rightarrow> 'k dev_ctx" where
  "drop_ref bo c =
     (let i = bo_id bo; c' = c\<lparr>owners := (owners c)(i := owners c i - 1)\<rparr>
      in if use_count c' i = 0
         then destroy_bo (the_object c bo) (c'\<lparr>detached := filter (\<lambda>d. bo_id d \<noteq> i) (detached c)\<rparr>)
         else c')"

definition drop_refs :: "buffer_object list \<Rightarrow> 'k dev_ctx \<Rightarrow> 'k dev_ctx" where
  "drop_refs bos c = fold drop_ref bos c"

section \<open>Lookup\<close>

definition findBufferObject :: "'k dev_ctx \<Rightarrow> u64 \<Rightarrow> buffer_object option" where
  "findBufferObject c ptr =
     (if ptr = 0 then None
      else (case map_lower_bound ptr (trackedBuffers c) of
              None \<Rightarrow> None
            | Some (k, bo) \<Rightarrow> if \<not> isInRange bo ptr then None else Some bo))"

definition getPageAlignedSize :: "'k dev_ctx \<Rightarrow> u64 \<Rightarrow> u64" where
  "getPageAlignedSize c reqSize = ALIGN reqSize (da_getPageSize (drvApi c))"

definition getNumSlices :: "'k dev_ctx \<Rightarrow> nat" where
  "getNumSlices c = length (filter (bit (tileConfig (hwInfo c))) [0..<32])"

definition isPreemptionBufferSupported :: "'k dev_ctx \<Rightarrow> bool" where
  "isPreemptionBufferSupported c \<longleftrightarrow>
     fwPreemptBufSize (hwInfo c) > 0 \<and> cmdQueueCreationCapability (hwInfo c)"

definition getBuffersCount :: "'k dev_ctx \<Rightarrow> nat" where
  "getBuffersCount c =
     length (trackedBuffers c) + length (filter (\<lambda>bo. use_count c (bo_id bo) > 0) (untrackedBuffers c))"

definition getAllocatedSize :: "'k dev_ctx \<Rightarrow> u64" where
  "getAllocatedSize c =
     sum_list (map allocSize (filter (\<lambda>bo. use_count c (bo_id bo) > 0) (untrackedBuffers c)))
     + sum_list (map (allocSize \<circ> snd) (trackedBuffers c))"

definition removeExpiredInternalBuffers :: "'k dev_ctx \<Rightarrow> 'k dev_ctx" where
  "removeExpiredInternalBuffers c =
     c\<lparr>untrackedBuffers := filter (\<lambda>bo. use_count c (bo_id bo) > 0) (untrackedBuffers c)\<rparr>"

definition getUniqueInferenceId :: "'k dev_ctx \<Rightarrow> u64 option \<times> 'k dev_ctx" where
  "getUniqueInferenceId c =
     (case da_getDeviceParam (drvApi c) DRM_IVPU_PARAM_UNIQUE_INFERENCE_ID 0 False (ctx_world c) of
        (Inl _, w) \<Rightarrow> (None, c\<lparr>ctx_world := w\<rparr>)
      | (Inr i, w) \<Rightarrow> (Some i, c\<lparr>ctx_world := w\<rparr>))"

section \<open>Allocation\<close>

text \<open>A device without a DMA range gets its DMA buffers in the shave range.\<close>

definition effective_type :: "hw_info \<Rightarrow> bo_flags \<Rightarrow> bo_flags" where
  "effective_type hw ty =
     (if \<not> dmaMemoryRangeCapability hw \<and> ty AND DRM_IVPU_BO_DMA_MEM \<noteq> 0
      then convertDmaToShaveRange ty else ty)"

text \<open>
  \<open>trackedBuffers.emplace\<close>: when the key is taken the new object is dropped with the node
  the map had built for it.
\<close>

definition track :: "buffer_object \<Rightarrow> 'k dev_ctx \<Rightarrow> buffer_object option \<times> 'k dev_ctx" where
  "track bo c =
     (case map_emplace (basePtr bo) bo (trackedBuffers c) of
        (m, success) \<Rightarrow>
          if \<not> success then (None, destroy_bo bo c)
          else (Some bo, c\<lparr>trackedBuffers := m\<rparr>))"

definition createBufferObject ::
  "'k dev_ctx \<Rightarrow> u64 \<Rightarrow> bo_flags \<Rightarrow> location \<Rightarrow> (exn + buffer_object option) \<times> 'k dev_ctx" where
  "createBufferObject c sz ty loc =
     (case bo_create (drvApi c) loc (effective_type (hwInfo c) ty) sz (ctx_world c) of
        (Inl e, w) \<Rightarrow> (Inl e, c\<lparr>ctx_world := w\<rparr>)
      | (Inr None, w) \<Rightarrow> (Inr None, c\<lparr>ctx_world := w\<rparr>)
      | (Inr (Some bo), w) \<Rightarrow>
          (case track bo (c\<lparr>ctx_world := w\<rparr>) of (r, c') \<Rightarrow> (Inr r, c')))"

definition createMemAlloc ::
  "'k dev_ctx \<Rightarrow> u64 \<Rightarrow> bo_flags \<Rightarrow> location \<Rightarrow> (exn + u64) \<times> 'k dev_ctx" where
  "createMemAlloc c sz ty loc =
     (case createBufferObject c sz ty loc of
        (Inl e, c') \<Rightarrow> (Inl e, c')
      | (Inr None, c') \<Rightarrow> (Inr 0, c')
      | (Inr (Some bo), c') \<Rightarrow> (Inr (basePtr bo), c'))"

definition importBufferObject ::
  "'k dev_ctx \<Rightarrow> location \<Rightarrow> int \<Rightarrow> (exn + buffer_object option) \<times> 'k dev_ctx" where
  "importBufferObject c loc fd =
     (case bo_importFromFd (drvApi c) loc fd (ctx_world c) of
        (Inl e, w) \<Rightarrow> (Inl e, c\<lparr>ctx_world := w\<rparr>)
      | (Inr None, w) \<Rightarrow> (Inr None, c\<lparr>ctx_world := w\<rparr>)
      | (Inr (Some bo), w) \<Rightarrow>
          (case track bo (c\<lparr>ctx_world := w\<rparr>) of (r, c') \<Rightarrow> (Inr r, c')))"

text \<open>The new object is returned to the caller, who is its only owner.\<close>

definition adopt_untracked :: "buffer_object \<Rightarrow> 'k dev_ctx \<Rightarrow> 'k dev_ctx" where
  "adopt_untracked bo c =
     take_ref (bo_id bo) (c\<lparr>untrackedBuffers := untrackedBuffers c @ [bo]\<rparr>)"

definition createUntrackedBufferObject ::
  "'k dev_ctx \<Rightarrow> u64 \<Rightarrow> bo_flags \<Rightarrow> (exn + buffer_object option) \<times> 'k dev_ctx" where
  "createUntrackedBufferObject c sz ty =
     (if sz = 0 then (Inr None, c)
      else (case bo_create (drvApi c) Internal (effective_type (hwInfo c) ty) sz (ctx_world c) of
              (Inl e, w) \<Rightarrow> (Inl e, c\<lparr>ctx_world := w\<rparr>)
            | (Inr None, w) \<Rightarrow> (Inr None, c\<lparr>ctx_world := w\<rparr>)
            | (Inr (Some bo), w) \<Rightarrow> (Inr (Some bo), adopt_untracked bo (c\<lparr>ctx_world := w\<rparr>))))"

section \<open>Release\<close>

definition freeMemAlloc_bo :: "'k dev_ctx \<Rightarrow> buffer_object option \<Rightarrow> bool \<times> 'k dev_ctx" where
  "freeMemAlloc_bo c obo =
     (case obo of None \<Rightarrow> (False, c)
      | Some bo \<Rightarrow>
          (case map_erase (basePtr bo) (trackedBuffers c) of
             (m, n) \<Rightarrow>
               if n = 0 then (False, c)
               else let c' = c\<lparr>trackedBuffers := m\<rparr>
                    in (True, if use_count c' (bo_id bo) = 0 then destroy_bo bo c'
                              else c'\<lparr>detached := bo # detached c\<rparr>)))"

definition freeMemAlloc :: "'k dev_ctx \<Rightarrow> u64 \<Rightarrow> bool \<times> 'k dev_ctx" where
  "freeMemAlloc c ptr =
     (if ptr = 0 then (False, c)
      else (case findBufferObject c ptr of
              None \<Rightarrow> (False, c)
            | Some bo \<Rightarrow>
                if basePtr bo \<noteq> ptr \<and> bo_location bo \<noteq> UserPtr then (False, c)
                else freeMemAlloc_bo c (Some (allowDeleteExternalHandle bo))))"

section \<open>Buffers over user memory\<close>

text \<open>The page-aligned range that is handed to the kernel for a user range.\<close>

definition userptr_range :: "'k dev_ctx \<Rightarrow> u64 \<Rightarrow> u64 \<Rightarrow> u64 \<times> u64" where
  "userptr_range c userPtr sz =
     (let alignSize = getPageAlignedSize c sz; alignPtr = userPtr
      in if getPageAlignedSize c alignPtr \<noteq> alignPtr
         then let alignPtr' = getPageAlignedSize c (alignPtr - da_getPageSize (drvApi c));
                  alignSize' = (if alignSize < sz + (userPtr - alignPtr')
                                then alignSize + da_getPageSize (drvApi c) else alignSize)
              in (alignPtr', alignSize')
         else (alignPtr, alignSize))"

definition createBufferObjectFromUserPtr ::
  "'k dev_ctx \<Rightarrow> u64 \<Rightarrow> u64 \<Rightarrow> bool \<Rightarrow> buffer_object option \<times> 'k dev_ctx" where
  "createBufferObjectFromUserPtr c userPtr sz readOnly =
     (if userPtr = 0 then (None, c)
      else if sz = 0 then (None, c)
      else if \<not> userPtrCapability (hwInfo c) then (None, c)
      else (case userptr_range c userPtr sz of
              (alignPtr, alignSize) \<Rightarrow>
                (case bo_createFromUserPtr (drvApi c) alignPtr alignSize readOnly (ctx_world c) of
                   (r, w) \<Rightarrow> (r, c\<lparr>ctx_world := w\<rparr>))))"

definition createTrackedBufferObjectFromUserPtr ::
  "'k dev_ctx \<Rightarrow> u64 \<Rightarrow> u64 \<Rightarrow> bool \<Rightarrow> buffer_object option \<times> 'k dev_ctx" where
  "createTrackedBufferObjectFromUserPtr c userPtr sz readOnly =
     (case createBufferObjectFromUserPtr c userPtr sz readOnly of
        (None, c') \<Rightarrow> (None, c')
      | (Some bo, c') \<Rightarrow> track bo c')"

definition createUntrackedBufferObjectFromUserPtr ::
  "'k dev_ctx \<Rightarrow> u64 \<Rightarrow> u64 \<Rightarrow> bool \<Rightarrow> buffer_object option \<times> 'k dev_ctx" where
  "createUntrackedBufferObjectFromUserPtr c userPtr sz readOnly =
     (case findBufferObject c userPtr of
        Some _ \<Rightarrow> (None, c)
      | None \<Rightarrow>
          (case createBufferObjectFromUserPtr c userPtr sz readOnly of
             (None, c') \<Rightarrow> (None, c')
           | (Some bo, c') \<Rightarrow> (Some bo, adopt_untracked bo c')))"

section \<open>The scratch cache\<close>

text \<open>The loop over the cached buffers: an idle buffer of the exact size ends it.\<close>

fun scratch_search ::
  "(u64 \<Rightarrow> nat) \<Rightarrow> u64 \<Rightarrow> buffer_object list \<Rightarrow> buffer_object option \<Rightarrow> buffer_object option" where
  "scratch_search uses sz [] hit = hit"
| "scratch_search uses sz (bo # bos) hit =
     (if uses (bo_id bo) \<noteq> 1 then scratch_search uses sz bos hit
      else if allocSize bo = sz then Some bo
      else if allocSize bo > sz
      then (if (case hit of None \<Rightarrow> False | Some h \<Rightarrow> allocSize h < allocSize bo)
            then scratch_search uses sz bos hit
            else scratch_search uses sz bos (Some bo))
      else scratch_search uses sz bos hit)"

definition scratchCacheAcquire ::
  "'k dev_ctx \<Rightarrow> u64 \<Rightarrow> (exn + buffer_object option) \<times> 'k dev_ctx" where
  "scratchCacheAcquire c sz =
     (if sz = 0 then (Inr None, c)
      else (case scratch_search (use_count c) sz (scratchBuffers c) None of
              Some hit \<Rightarrow> (Inr (Some hit), take_ref (bo_id hit) c)
            | None \<Rightarrow>
                (case createUntrackedBufferObject c sz WriteCombineDmaUnmappable of
                   (Inl e, c') \<Rightarrow> (Inl e, c')
                 | (Inr None, c') \<Rightarrow> (Inr None, c')
                 | (Inr (Some bo), c') \<Rightarrow>
                     (Inr (Some bo), c'\<lparr>scratchBuffers := scratchBuffers c' @ [bo]\<rparr>))))"

definition destroy_all :: "buffer_object list \<Rightarrow> 'k dev_ctx \<Rightarrow> 'k dev_ctx" where
  "destroy_all bos c = fold destroy_bo bos c"

definition scratchCachePrune :: "u64 \<Rightarrow> 'k dev_ctx \<Rightarrow> 'k dev_ctx" where
  "scratchCachePrune sz c =
     (if sz = 0 then c
      else let victim = (\<lambda>bo. use_count c (bo_id bo) = 1 \<and> allocSize bo \<le> sz)
           in destroy_all (filter victim (scratchBuffers c))
                (c\<lparr>scratchBuffers := filter (\<lambda>bo. \<not> victim bo) (scratchBuffers c)\<rparr>))"

text \<open>\<open>scratchCachePreload\<close> discards the buffer \<open>acquire\<close> returns.\<close>

definition scratchCachePreload :: "'k dev_ctx \<Rightarrow> u64 \<Rightarrow> (exn + unit) \<times> 'k dev_ctx" where
  "scratchCachePreload c sz =
     (if sz = 0 then (Inr (), c)
      else (case scratchCacheAcquire (scratchCachePrune (sz - 1) c) sz of
              (Inl e, c') \<Rightarrow> (Inl e, c')
            | (Inr None, c') \<Rightarrow> (Inr (), c')
            | (Inr (Some bo), c') \<Rightarrow> (Inr (), drop_ref bo c')))"

section \<open>The preemption cache\<close>

definition preemptionCacheLoad :: "'k dev_ctx \<Rightarrow> 'k dev_ctx" where
  "preemptionCacheLoad c = c\<lparr>numQueues := numQueues c + 1\<rparr>"

definition preemptionCacheAcquire ::
  "'k dev_ctx \<Rightarrow> (exn + buffer_object option) \<times> 'k dev_ctx" where
  "preemptionCacheAcquire c =
     (let sz = fwPreemptBufSize (hwInfo c) in
      if sz = 0 then (Inr None, c)
      else (case find (\<lambda>bo. use_count c (bo_id bo) = 1) (preemptionBuffers c) of
              Some bo \<Rightarrow> (Inr (Some bo), take_ref (bo_id bo) c)
            | None \<Rightarrow>
                (case createUntrackedBufferObject c sz WriteCombineFwUnmappable of
                   (Inl e, c') \<Rightarrow> (Inl e, c')
                 | (Inr None, c') \<Rightarrow> (Inr None, c')
                 | (Inr (Some bo), c') \<Rightarrow>
                     (Inr (Some bo), c'\<lparr>preemptionBuffers := preemptionBuffers c' @ [bo]\<rparr>))))"

text \<open>\<open>remove_if\<close> with a predicate that counts down: the first idle buffers are removed.\<close>

fun prune_split :: "(u64 \<Rightarrow> nat) \<Rightarrow> nat \<Rightarrow> buffer_object list \<Rightarrow> buffer_object list \<times> buffer_object list" where
  "prune_split uses n [] = ([], [])"
| "prune_split uses n (bo # bos) =
     (if n > 0 \<and> uses (bo_id bo) = 1
      then (case prune_split uses (n - 1) bos of (kept, gone) \<Rightarrow> (kept, bo # gone))
      else (case prune_split uses n bos of (kept, gone) \<Rightarrow> (bo # kept, gone)))"

definition preemptionCachePrune :: "'k dev_ctx \<Rightarrow> 'k dev_ctx" where
  "preemptionCachePrune c =
     (let nq = (if numQueues c > 0 then numQueues c - 1 else numQueues c);
          n = length (preemptionBuffers c);
          numQueuesToRemove = (if n > nq then n - nq else n)
      in case prune_split (use_count c) numQueuesToRemove (preemptionBuffers c) of
           (kept, gone) \<Rightarrow> destroy_all gone (c\<lparr>numQueues := nq, preemptionBuffers := kept\<rparr>))"

section \<open>Lemmas\<close>

text \<open>A tracked map whose entries are keyed by their base and do not overlap.\<close>

definition tracked_ok :: "buffer_object ptr_map \<Rightarrow> bool" where
  "tracked_ok m \<longleftrightarrow> descending m \<and> (\<forall>(k, bo) \<in> set m. k = basePtr bo \<and> bo_ok bo)
     \<and> tracked.apart (\<lambda>bo. unat (allocSize bo)) m"

lemma findBufferObject_exact:
  assumes "tracked_ok (trackedBuffers c)" "ptr \<noteq> 0"
  shows "findBufferObject c ptr = Some bo \<longleftrightarrow>
         (basePtr bo, bo) \<in> set (trackedBuffers c) \<and> isInRange bo ptr"
proof -
  let ?m = "trackedBuffers c" and ?len = "\<lambda>bo. unat (allocSize bo)"
  have ok: "descending ?m" "tracked.apart ?len ?m" and
    e: "\<And>k b. (k, b) \<in> set ?m \<Longrightarrow> k = basePtr b \<and> bo_ok b"
    using assms(1) by (auto simp: tracked_ok_def)
  have in_iff: "isInRange b p \<longleftrightarrow> unat k \<le> unat p \<and> unat p < unat k + unat (allocSize b)"
    if "(k, b) \<in> set ?m" for k b p
    using e[OF that] by (simp add: isInRange_iff)
  have cont: "(k, b) \<in> tracked.containing ?len ptr ?m \<longleftrightarrow> (k, b) \<in> set ?m \<and> isInRange b ptr" for k b
    using in_iff[of k b ptr] by (auto simp: tracked.containing_def)
  show ?thesis
  proof (cases "map_lower_bound ptr ?m")
    case None
    have "\<not> isInRange b ptr" if "(k, b) \<in> set ?m" for k b
      using None that in_iff[OF that] unfolding map_lower_bound_None
      by (auto simp: word_less_nat_alt)
    then show ?thesis using None assms(2) by (auto simp: findBufferObject_def)
  next
    case (Some kb)
    obtain k b where kb: "kb = (k, b)" by force
    have mem: "(k, b) \<in> set ?m" using Some ok(1) by (simp add: kb map_lower_bound_Some)
    have uniq: "(k', b') = (k, b)" if "(k', b') \<in> set ?m" "isInRange b' ptr" for k' b'
    proof -
      have "(k', b') \<in> tracked.containing ?len ptr ?m" using that cont by blast
      from tracked.containing_lower_bound[OF ok this] show ?thesis using Some kb by simp
    qed
    have f: "findBufferObject c ptr = (if isInRange b ptr then Some b else None)"
      using Some assms(2) by (simp add: findBufferObject_def kb)
    have bk: "k = basePtr b" using e[OF mem] by simp
    show ?thesis
    proof (cases "isInRange b ptr")
      case True
      then show ?thesis using f mem bk uniq[of "basePtr bo" bo] by auto
    next
      case False
      then show ?thesis using f uniq[of "basePtr bo" bo] by auto
    qed
  qed
qed

lemma findBufferObject_null [simp]: "findBufferObject c 0 = None"
  by (simp add: findBufferObject_def)

lemma scratch_search_hit:
  "scratch_search uses sz bos hit = Some b \<Longrightarrow>
     b \<in> set bos \<and> uses (bo_id b) = 1 \<and> sz \<le> allocSize b \<or> hit = Some b"
  by (induction uses sz bos hit rule: scratch_search.induct) (auto split: if_splits)

lemma scratch_search_least:
  assumes "\<forall>h. hit = Some h \<longrightarrow> sz < allocSize h"
  shows "(\<forall>b. scratch_search uses sz bos hit = Some b \<longrightarrow>
            (\<forall>h. hit = Some h \<longrightarrow> allocSize b \<le> allocSize h) \<and>
            (\<forall>b' \<in> set bos. uses (bo_id b') = 1 \<longrightarrow> sz \<le> allocSize b' \<longrightarrow> allocSize b \<le> allocSize b'))
       \<and> (scratch_search uses sz bos hit = None \<longrightarrow>
            hit = None \<and> (\<forall>b' \<in> set bos. uses (bo_id b') = 1 \<longrightarrow> allocSize b' < sz))"
  using assms
proof (induction bos arbitrary: hit)
  case (Cons b bos)
  show ?case
  proof (cases "uses (bo_id b) = 1 \<and> sz < allocSize b \<and> (\<forall>h. hit = Some h \<longrightarrow> allocSize b \<le> allocSize h)")
    case True
    then show ?thesis using Cons.IH[of "Some b"]
      by (auto split: option.splits)
  next
    case False
    then show ?thesis using Cons.IH[of hit] Cons.prems
      by (auto split: option.splits) 
  qed
qed auto

end
