(* ===== verification/Commands.thy ===== *)
theory Commands
  imports Device_Context
begin

text \<open>
  The commands of a job (\<open>umd/vpu_driver/source/command\<close>: \<open>command.cpp\<close>,
  \<open>event_command.cpp\<close>, \<open>copy_command.cpp\<close>, \<open>fill_command.cpp\<close>, \<open>ts_command.cpp\<close>,
  \<open>barrier_command.cpp\<close>, \<open>nop_command.cpp\<close>, \<open>query_command.cpp\<close>,
  \<open>inference_execute.cpp\<close>) and the byte layout of the firmware structures they carry
  (\<open>firmware/include/api/vpu_jsm_job_cmd_api.h\<close>, packed). The ELF parser of an inference
  belongs to a third-party loader: it is a record of functions.
\<close>

section \<open>Firmware structures\<close>

definition VPU_CMD_UNKNOWN :: u16 where "VPU_CMD_UNKNOWN = 0"
definition VPU_CMD_NOP :: u16 where "VPU_CMD_NOP = 0x0001"
definition VPU_CMD_TIMESTAMP :: u16 where "VPU_CMD_TIMESTAMP = 0x0100"
definition VPU_CMD_FENCE_WAIT :: u16 where "VPU_CMD_FENCE_WAIT = 0x0101"
definition VPU_CMD_FENCE_SIGNAL :: u16 where "VPU_CMD_FENCE_SIGNAL = 0x0102"
definition VPU_CMD_BARRIER :: u16 where "VPU_CMD_BARRIER = 0x0103"
definition VPU_CMD_METRIC_QUERY_BEGIN :: u16 where "VPU_CMD_METRIC_QUERY_BEGIN = 0x0104"
definition VPU_CMD_METRIC_QUERY_END :: u16 where "VPU_CMD_METRIC_QUERY_END = 0x0105"
definition VPU_CMD_MEMORY_FILL :: u16 where "VPU_CMD_MEMORY_FILL = 0x0202"
definition VPU_CMD_COPY :: u16 where "VPU_CMD_COPY = 0x0302"
definition VPU_CMD_INFERENCE_EXECUTE :: u16 where "VPU_CMD_INFERENCE_EXECUTE = 0x0306"

lemmas cmd_type_defs [umd_defs] = VPU_CMD_UNKNOWN_def VPU_CMD_NOP_def VPU_CMD_TIMESTAMP_def
  VPU_CMD_FENCE_WAIT_def VPU_CMD_FENCE_SIGNAL_def VPU_CMD_BARRIER_def
  VPU_CMD_METRIC_QUERY_BEGIN_def VPU_CMD_METRIC_QUERY_END_def VPU_CMD_MEMORY_FILL_def
  VPU_CMD_COPY_def VPU_CMD_INFERENCE_EXECUTE_def

text \<open>
  The structure a command holds (\<open>std::any command\<close>). \<open>vpu_cmd_nop\<close> is 8 bytes long but
  may claim a larger size in its header; \<open>nop_tail\<close> is what lies behind it in the process
  memory, up to the claimed size.
\<close>

datatype cmd_body =
    Fence (fence_type: u16) (fence_offset: u64) (fence_value: u64)
  | Copy_buffer (desc_start_offset: u64) (desc_count: u32)
  | Memory_fill (fill_start: u64) (fill_size: u64) (fill_pattern: u32)
  | Inference_execute (inference_id: u64) (hmi_address: u64) (hmi_width: u32)
  | Timestamp (ts_type: u32) (ts_address: u64)
  | Barrier
  | Nop (nop_type: u16) (nop_size: u16) (nop_tail: bytes)
  | Metric_query (query_type: u16) (query_group: u32) (query_address: u64)

fun body_type :: "cmd_body \<Rightarrow> u16" where
  "body_type (Fence t _ _) = t"
| "body_type (Copy_buffer _ _) = VPU_CMD_COPY"
| "body_type (Memory_fill _ _ _) = VPU_CMD_MEMORY_FILL"
| "body_type (Inference_execute _ _ _) = VPU_CMD_INFERENCE_EXECUTE"
| "body_type (Timestamp _ _) = VPU_CMD_TIMESTAMP"
| "body_type Barrier = VPU_CMD_BARRIER"
| "body_type (Nop t _ _) = t"
| "body_type (Metric_query t _ _) = t"

text \<open>The \<open>sizeof\<close> each constructor of a command writes into its header.\<close>

fun body_size :: "cmd_body \<Rightarrow> u16" where
  "body_size (Fence _ _ _) = 24"
| "body_size (Copy_buffer _ _) = 24"
| "body_size (Memory_fill _ _ _) = 32"
| "body_size (Inference_execute _ _ _) = 32"
| "body_size (Timestamp _ _) = 16"
| "body_size Barrier = 8"
| "body_size (Nop _ s _) = s"
| "body_size (Metric_query _ _ _) = 16"

definition zeros :: "nat \<Rightarrow> bytes" where "zeros n = replicate n 0"

definition cmd_header :: "u16 \<Rightarrow> u16 \<Rightarrow> bytes" where
  "cmd_header t s = enc16 t @ enc16 s"

fun payload :: "cmd_body \<Rightarrow> bytes" where
  "payload (Fence _ off val) = zeros 4 @ enc64 off @ enc64 val"
| "payload (Copy_buffer off cnt) = zeros 4 @ enc64 off @ enc32 cnt @ zeros 4"
| "payload (Memory_fill a s p) = zeros 4 @ enc64 a @ enc64 s @ enc32 p @ zeros 4"
| "payload (Inference_execute i a w) = zeros 4 @ enc64 i @ enc64 a @ enc32 w @ zeros 4"
| "payload (Timestamp t a) = enc32 t @ enc64 a"
| "payload Barrier = zeros 4"
| "payload (Nop _ _ tail) = zeros 4 @ tail"
| "payload (Metric_query _ g a) = enc32 g @ enc64 a"

definition encode :: "cmd_body \<Rightarrow> bytes" where
  "encode b = cmd_header (body_type b) (body_size b) @ payload b"

section \<open>Commands\<close>

datatype schedule_type = Generic | Synchronize

record vpu_descriptor =
  desc_data :: bytes
  numDescriptors :: u32

text \<open>An argument update: a new pointer, new strides, both or none.\<close>

type_synonym strides = "u32 list"
type_synonym strides_map = "u32 \<rightharpoonup> strides"

record argument_update =
  upd_ptr :: "u64 option"
  upd_strides :: "strides option"

text \<open>
  The parser of a compiled model (\<open>L0::ElfParser\<close>) as an inference uses it; \<open>'h\<close> is the
  parsed inference it writes to.
\<close>

record 'h elf_parser =
  applyInputOutputs :: "'h \<Rightarrow> u64 list \<Rightarrow> u64 list \<Rightarrow> strides_map \<Rightarrow> strides_map
     \<Rightarrow> (buffer_object list \<times> 'h) option"
  sharedScratchSize :: u64
  updateSharedScratchBuffers :: "'h \<Rightarrow> buffer_object \<Rightarrow> 'h"

record 'h inference =
  parser :: "'h elf_parser"
  hpi :: 'h
  inputs :: "u64 list"
  outputs :: "u64 list"
  inputStrides :: strides_map
  outputStrides :: strides_map
  userArgIndex :: nat
  userArgHandles :: "u32 list"
  lastScratchBoHandle :: u32

record 'h command =
  body :: cmd_body
  sType :: schedule_type
  bufferObjects :: "buffer_object list"
  descriptor :: "vpu_descriptor option"
  cmdNeedsUpdate :: bool
  inference :: "'h inference option"

definition new_command :: "schedule_type \<Rightarrow> cmd_body \<Rightarrow> 'h command" where
  "new_command st b = \<lparr>body = b, sType = st, bufferObjects = [], descriptor = None,
     cmdNeedsUpdate = False, inference = None\<rparr>"

definition getCommitSize :: "'h command \<Rightarrow> nat" where
  "getCommitSize cmd = unat (body_size (body cmd))"

definition getCommitStream :: "'h command \<Rightarrow> bytes" where
  "getCommitStream cmd = encode (body cmd)"

definition getCommandType :: "'h command \<Rightarrow> u16" where
  "getCommandType cmd = body_type (body cmd)"

definition getDescriptorSize :: "'h command \<Rightarrow> nat" where
  "getDescriptorSize cmd = (case descriptor cmd of None \<Rightarrow> 0 | Some d \<Rightarrow> length (desc_data d))"

definition getDescriptorData :: "'h command \<Rightarrow> bytes option" where
  "getDescriptorData cmd = map_option desc_data (descriptor cmd)"

definition isSynchronizeCommand :: "'h command \<Rightarrow> bool" where
  "isSynchronizeCommand cmd \<longleftrightarrow> sType cmd = Synchronize"

text \<open>Only a copy command implements \<open>patchDescriptorAddress\<close>; the others log an error.\<close>

fun patch_body :: "u64 \<Rightarrow> cmd_body \<Rightarrow> cmd_body" where
  "patch_body a (Copy_buffer _ cnt) = Copy_buffer a cnt"
| "patch_body a b = b"

definition patchDescriptorAddress :: "u64 \<Rightarrow> 'h command \<Rightarrow> 'h command" where
  "patchDescriptorAddress a cmd = cmd\<lparr>body := patch_body a (body cmd)\<rparr>"

definition appendAssociateBufferObject :: "buffer_object \<Rightarrow> 'h command \<Rightarrow> 'h command" where
  "appendAssociateBufferObject bo cmd =
     (if bo_id bo \<in> bo_id ` set (bufferObjects cmd) then cmd
      else cmd\<lparr>bufferObjects := bufferObjects cmd @ [bo]\<rparr>)"

definition appendAssociateBufferObjects :: "buffer_object list \<Rightarrow> 'h command \<Rightarrow> 'h command" where
  "appendAssociateBufferObjects bos cmd = fold appendAssociateBufferObject bos cmd"

definition eraseAssociatedBufferObjects :: "nat \<Rightarrow> 'h command \<Rightarrow> 'h command" where
  "eraseAssociatedBufferObjects pos cmd = cmd\<lparr>bufferObjects := take pos (bufferObjects cmd)\<rparr>"

section \<open>Event commands\<close>

definition STATE_EVENT_INITIAL :: u64 where "STATE_EVENT_INITIAL = 0"
definition STATE_DEVICE_RESET :: u64 where "STATE_DEVICE_RESET = 1"
definition STATE_HOST_RESET :: u64 where "STATE_HOST_RESET = 2"
definition STATE_WAIT :: u64 where "STATE_WAIT = 3"
definition STATE_DEVICE_SIGNAL :: u64 where "STATE_DEVICE_SIGNAL = 4"
definition STATE_HOST_SIGNAL :: u64 where "STATE_HOST_SIGNAL = 5"

lemmas event_state_defs [umd_defs] = STATE_EVENT_INITIAL_def STATE_DEVICE_RESET_def
  STATE_HOST_RESET_def STATE_WAIT_def STATE_DEVICE_SIGNAL_def STATE_HOST_SIGNAL_def

definition VPUEventCommand_create ::
  "schedule_type \<Rightarrow> u16 \<Rightarrow> u64 \<Rightarrow> buffer_object option \<Rightarrow> u64 \<Rightarrow> 'h command option" where
  "VPUEventCommand_create st cmdType eventHeapPtr eventHeapBo eventState =
     (case eventHeapBo of None \<Rightarrow> None
      | Some bo \<Rightarrow>
          if eventHeapPtr = 0 then None
          else if \<not> isInRange bo eventHeapPtr then None
          else Some (appendAssociateBufferObject bo
                 (new_command st (Fence cmdType (getVPUAddr bo eventHeapPtr) eventState))))"

definition VPUEventResetCommand_create :: "u64 \<Rightarrow> buffer_object option \<Rightarrow> 'h command option" where
  "VPUEventResetCommand_create p bo =
     VPUEventCommand_create Generic VPU_CMD_FENCE_SIGNAL p bo STATE_DEVICE_RESET"

definition VPUEventSignalCommand_create :: "u64 \<Rightarrow> buffer_object option \<Rightarrow> 'h command option" where
  "VPUEventSignalCommand_create p bo =
     VPUEventCommand_create Synchronize VPU_CMD_FENCE_SIGNAL p bo STATE_DEVICE_SIGNAL"

definition VPUEventWaitCommand_create :: "u64 \<Rightarrow> buffer_object option \<Rightarrow> 'h command option" where
  "VPUEventWaitCommand_create p bo =
     VPUEventCommand_create Generic VPU_CMD_FENCE_WAIT p bo STATE_WAIT"

section \<open>Copy commands\<close>

definition COPY_SIZE_LIMIT :: u64 where "COPY_SIZE_LIMIT = push_bit 20 8"

text \<open>The loop over the descriptors: source, destination and size of each.\<close>

fun copy_chunks :: "nat \<Rightarrow> u64 \<Rightarrow> u64 \<Rightarrow> u64 \<Rightarrow> (u64 \<times> u64 \<times> u32) list" where
  "copy_chunks 0 srcAddr dstAddr sizeLeft = []"
| "copy_chunks (Suc n) srcAddr dstAddr sizeLeft =
     (if sizeLeft < COPY_SIZE_LIMIT
      then (srcAddr, dstAddr, ucast sizeLeft)
             # copy_chunks n (srcAddr + COPY_SIZE_LIMIT) (dstAddr + COPY_SIZE_LIMIT) sizeLeft
      else (srcAddr, dstAddr, ucast COPY_SIZE_LIMIT)
             # copy_chunks n (srcAddr + COPY_SIZE_LIMIT) (dstAddr + COPY_SIZE_LIMIT)
                 (sizeLeft - COPY_SIZE_LIMIT))"

text \<open>\<open>vpu_cmd_copy_descriptor_37xx_t\<close> (64 bytes) and \<open>_40xx_t\<close> (192 bytes).\<close>

fun encode_desc :: "copy_ops \<Rightarrow> u64 \<times> u64 \<times> u32 \<Rightarrow> bytes" where
  "encode_desc Copy_37xx (src, dst, sz) = zeros 16 @ enc64 src @ enc64 dst @ enc32 sz @ zeros 28"
| "encode_desc Copy_40xx (src, dst, sz) =
     zeros 24 @ enc32 sz @ zeros 4 @ zeros 8 @ enc64 src @ enc64 dst @ zeros 136"
| "encode_desc Copy_none _ = []"

text \<open>\<open>fillDescriptor\<close>: \<open>None\<close> is the return value false.\<close>

definition fillDescriptor ::
  "copy_ops \<Rightarrow> u64 \<Rightarrow> u64 \<Rightarrow> u64 \<Rightarrow> exn + vpu_descriptor option" where
  "fillDescriptor ops srcAddr dstAddr sz =
     (if srcAddr = 0 \<or> dstAddr = 0 then Inr None
      else (case safe_cast_u32 ((sz + COPY_SIZE_LIMIT - 1) div COPY_SIZE_LIMIT) of
              Inl e \<Rightarrow> Inl e
            | Inr n \<Rightarrow> Inr (Some \<lparr>desc_data = concat (map (encode_desc ops)
                                (copy_chunks (unat n) srcAddr dstAddr sz)),
                             numDescriptors = n\<rparr>)))"

definition getCopyCommandDescriptor ::
  "'k dev_ctx \<Rightarrow> u64 \<Rightarrow> u64 \<Rightarrow> u64 \<Rightarrow> exn + vpu_descriptor option" where
  "getCopyCommandDescriptor c srcAddr dstAddr sz =
     (if copyOps (hwInfo c) = Copy_none then Inr None
      else fillDescriptor (copyOps (hwInfo c)) srcAddr dstAddr sz)"

definition VPUCopyCommand_create ::
  "'k dev_ctx \<Rightarrow> u64 \<Rightarrow> buffer_object option \<Rightarrow> u64 \<Rightarrow> buffer_object option \<Rightarrow> u64
     \<Rightarrow> exn + 'h command option" where
  "VPUCopyCommand_create c srcPtr srcBo dstPtr dstBo sz =
     (case (srcBo, dstBo) of
        (Some sbo, Some dbo) \<Rightarrow>
          if srcPtr = 0 \<or> dstPtr = 0 then Inr None
          else if \<not> isInRange dbo dstPtr then Inr None
          else if \<not> isInRange sbo srcPtr then Inr None
          else (case getCopyCommandDescriptor c (getVPUAddr sbo srcPtr) (getVPUAddr dbo dstPtr) sz of
                  Inl e \<Rightarrow> Inl e
                | Inr None \<Rightarrow> Inr None
                | Inr (Some d) \<Rightarrow>
                    Inr (Some (appendAssociateBufferObject dbo (appendAssociateBufferObject sbo
                      ((new_command Generic (Copy_buffer 0 (numDescriptors d)))\<lparr>descriptor := Some d\<rparr>)))))
      | _ \<Rightarrow> Inr None)"

section \<open>Fill, timestamp, barrier, NOP, metric query\<close>

definition VPUFillCommand_create ::
  "u64 \<Rightarrow> buffer_object \<Rightarrow> u64 \<Rightarrow> u32 \<Rightarrow> 'h command option" where
  "VPUFillCommand_create dstPtr dstBo sz pattern =
     (if \<not> isInRange dstBo dstPtr then None
      else if \<not> isInRange dstBo (dstPtr + sz - 1) then None
      else Some (appendAssociateBufferObject dstBo
             (new_command Generic (Memory_fill (getVPUAddr dstBo dstPtr) sz pattern))))"

definition VPUTimeStampCommand_create ::
  "u64 \<Rightarrow> buffer_object option \<Rightarrow> u32 \<Rightarrow> 'h command option" where
  "VPUTimeStampCommand_create dstPtr dstBo ty =
     (case dstBo of None \<Rightarrow> None
      | Some bo \<Rightarrow>
          if \<not> isInRange bo dstPtr then None
          else Some (appendAssociateBufferObject bo
                 (new_command Generic (Timestamp ty (getVPUAddr bo dstPtr)))))"

definition VPUBarrierCommand_create :: "'h command" where
  "VPUBarrierCommand_create = new_command Generic Barrier"

text \<open>
  \<open>tail\<close>: the bytes behind the 8-byte structure in the process memory. \<open>None\<close> is the null
  pointer for a size that is not allowed.
\<close>

definition VPUNopCommand_create :: "hw_info \<Rightarrow> u64 \<Rightarrow> bytes \<Rightarrow> 'h command option" where
  "VPUNopCommand_create hw sz tail =
     (if sz < 8 \<or> sz > 0xFFFF then None
      else Some (new_command Generic
             (Nop (if isJsmCmdApiGreaterThan hw 4 9 then VPU_CMD_NOP else VPU_CMD_BARRIER)
                  (ucast sz) tail)))"

definition VPUQueryCommand_create :: "u16 \<Rightarrow> u32 \<Rightarrow> u64 \<Rightarrow> buffer_object option \<Rightarrow> 'h command option" where
  "VPUQueryCommand_create cmdType groupMask dataAddress dataBo =
     (case dataBo of None \<Rightarrow> None
      | Some bo \<Rightarrow>
          if dataAddress = 0 then None
          else let metricDataAddr = getVPUAddr bo dataAddress in
               if metricDataAddr = 0 then None
               else Some (appendAssociateBufferObject bo
                      (new_command Generic (Metric_query cmdType groupMask metricDataAddr))))"

definition VPUQueryBeginCommand_create where
  "VPUQueryBeginCommand_create g p bo = VPUQueryCommand_create VPU_CMD_METRIC_QUERY_BEGIN g p bo"

definition VPUQueryEndCommand_create where
  "VPUQueryEndCommand_create g p bo = VPUQueryCommand_create VPU_CMD_METRIC_QUERY_END g p bo"

section \<open>Reading descriptors back\<close>

text \<open>
  \<open>printCopyDesc\<close>: the walk over \<open>desc_count\<close> descriptors, reading source, destination and
  size of each at its place in the structure.
\<close>

definition desc_size :: "copy_ops \<Rightarrow> nat" where
  "desc_size ops = (case ops of Copy_37xx \<Rightarrow> 64 | Copy_40xx \<Rightarrow> 192 | Copy_none \<Rightarrow> 0)"

fun decode_desc :: "copy_ops \<Rightarrow> bytes \<Rightarrow> u64 \<times> u64 \<times> u32" where
  "decode_desc Copy_37xx bs = (dec64 (drop 16 bs), dec64 (drop 24 bs), dec32 (drop 32 bs))"
| "decode_desc Copy_40xx bs = (dec64 (drop 40 bs), dec64 (drop 48 bs), dec32 (drop 24 bs))"
| "decode_desc Copy_none bs = (0, 0, 0)"

fun decode_descs :: "copy_ops \<Rightarrow> nat \<Rightarrow> bytes \<Rightarrow> (u64 \<times> u64 \<times> u32) list" where
  "decode_descs ops 0 bs = []"
| "decode_descs ops (Suc n) bs = decode_desc ops bs # decode_descs ops n (drop (desc_size ops) bs)"

section \<open>Lemmas\<close>

lemma zeros_length [simp]: "length (zeros n) = n"
  by (simp add: zeros_def)

fun body_ok :: "cmd_body \<Rightarrow> bool" where
  "body_ok (Nop _ s tail) \<longleftrightarrow> unat s = 8 + length tail"
| "body_ok _ \<longleftrightarrow> True"

lemma length_encode: "body_ok b \<Longrightarrow> length (encode b) = unat (body_size b)"
  by (cases b) (simp_all add: encode_def cmd_header_def)

lemma encode_header:
  "dec16 (encode b) = body_type b" "dec16 (drop 2 (encode b)) = body_size b"
  by (simp_all add: encode_def cmd_header_def)

lemma COPY_SIZE_LIMIT_unat: "unat COPY_SIZE_LIMIT = 8388608"
  by (simp add: COPY_SIZE_LIMIT_def)

definition copy_effect :: "(u64 \<times> u64 \<times> u32) list \<Rightarrow> memory \<Rightarrow> memory" where
  "copy_effect chunks m =
     fold (\<lambda>(src, dst, n) m. write_bytes m dst (read_bytes m src (unat n))) chunks m"

lemma copy_chunks_sizes:
  assumes "unat left \<le> n * 8388608" "n * 8388608 < unat left + 8388608"
  shows "length (copy_chunks n src dst left) = n \<and>
    (\<forall>(s, d, k) \<in> set (copy_chunks n src dst left). 0 < unat k \<and> unat k \<le> 8388608) \<and>
    sum_list (map (\<lambda>(s, d, k). unat k) (copy_chunks n src dst left)) = unat left"
  using assms
proof (induction n arbitrary: src dst left)
  case (Suc n)
  show ?case
  proof (cases "left < COPY_SIZE_LIMIT")
    case True
    then have l: "unat left < 8388608" by (simp add: word_less_nat_alt COPY_SIZE_LIMIT_unat)
    then have "n = 0" using Suc.prems by simp
    moreover have "unat (ucast left :: u32) = unat left"
      using l by (simp add: unsigned_ucast_eq take_bit_nat_eq_self)
    ultimately show ?thesis using True Suc.prems by simp
  next
    case False
    then have l: "8388608 \<le> unat left" by (simp add: word_less_nat_alt COPY_SIZE_LIMIT_unat)
    have s: "unat (left - COPY_SIZE_LIMIT) = unat left - 8388608"
      using False by (simp add: unat_sub COPY_SIZE_LIMIT_unat)
    have "unat (ucast COPY_SIZE_LIMIT :: u32) = 8388608"
      by (simp add: COPY_SIZE_LIMIT_def)
    then show ?thesis
      using False l s Suc.prems Suc.IH[of "left - COPY_SIZE_LIMIT" "src + COPY_SIZE_LIMIT" "dst + COPY_SIZE_LIMIT"]
      by simp
  qed
qed simp

lemma copy_chunks_effect:
  assumes "unat left \<le> n * 8388608" "n * 8388608 < unat left + 8388608"
    "unat src + unat left < 2 ^ 64" "unat dst + unat left < 2 ^ 64"
    "unat src + unat left \<le> unat dst \<or> unat dst + unat left \<le> unat src"
  shows "copy_effect (copy_chunks n src dst left) m = write_bytes m dst (read_bytes m src (unat left))"
  using assms
proof (induction n arbitrary: src dst left m)
  case 0
  then show ?case by (simp add: copy_effect_def write_bytes_def)
next
  case (Suc n)
  show ?case
  proof (cases "left < COPY_SIZE_LIMIT")
    case True
    then have l: "unat left < 8388608" by (simp add: word_less_nat_alt COPY_SIZE_LIMIT_unat)
    then have "n = 0" using Suc.prems by simp
    moreover have "unat (ucast left :: u32) = unat left"
      using l by (simp add: unsigned_ucast_eq take_bit_nat_eq_self)
    ultimately show ?thesis using True by (simp add: copy_effect_def)
  next
    case False
    let ?L = "8388608 :: nat" and ?m1 = "write_bytes m dst (read_bytes m src 8388608)"
    let ?s = "src + COPY_SIZE_LIMIT" and ?d = "dst + COPY_SIZE_LIMIT" and ?l = "left - COPY_SIZE_LIMIT"
    have l: "?L \<le> unat left" using False by (simp add: word_less_nat_alt COPY_SIZE_LIMIT_unat)
    have u: "unat ?l = unat left - ?L" "unat ?s = unat src + ?L" "unat ?d = unat dst + ?L"
      using False l Suc.prems
      by (simp_all add: unat_sub COPY_SIZE_LIMIT_unat unat_plus_64)
    have lim: "COPY_SIZE_LIMIT = of_nat ?L" by (simp add: COPY_SIZE_LIMIT_def)
    have "copy_effect (copy_chunks n ?s ?d ?l) ?m1 = write_bytes ?m1 ?d (read_bytes ?m1 ?s (unat ?l))"
      using Suc.prems l by (intro Suc.IH) (simp_all add: u, linarith+)
    also have "read_bytes ?m1 ?s (unat ?l) = read_bytes m ?s (unat ?l)"
      using Suc.prems l by (intro read_write_other) (auto simp: u)
    also have "write_bytes ?m1 ?d (read_bytes m ?s (unat ?l))
        = write_bytes m dst (read_bytes m src ?L @ read_bytes m ?s (unat ?l))"
    proof -
      have "length (read_bytes m src ?L) + length (read_bytes m ?s (unat ?l)) \<le> 2 ^ 64"
        using Suc.prems(4) l by (simp add: u)
      from write_append[OF this, of m dst] show ?thesis by (simp add: lim)
    qed
    also have "read_bytes m src ?L @ read_bytes m ?s (unat ?l) = read_bytes m src (unat left)"
    proof -
      have "unat left = ?L + unat ?l" using l by (simp only: u)
      then show ?thesis using read_append[of m src ?L "unat ?l"] by (simp only: lim)
    qed
    finally show ?thesis using False by (simp add: copy_effect_def COPY_SIZE_LIMIT_def)
  qed
qed

lemma decode_encode_desc: "ops \<noteq> Copy_none \<Longrightarrow> decode_desc ops (encode_desc ops e @ bs) = e"
  by (cases ops; cases e) simp_all

lemma length_encode_desc: "length (encode_desc ops e) = desc_size ops"
  by (cases ops; cases e) (simp_all add: desc_size_def)

lemma decode_encode_descs:
  "ops \<noteq> Copy_none \<Longrightarrow> decode_descs ops (length es) (concat (map (encode_desc ops) es) @ bs) = es"
  by (induction es) (simp_all add: decode_encode_desc length_encode_desc)

lemma safe_cast_u32_Inr:
  assumes "safe_cast_u32 x = Inr v"
  shows "unat v = unat x"
proof -
  have u: "uint x \<ge> 0" by simp
  have "uint x \<le> 2 ^ 32 - 1" "v = word_of_int (uint x)"
    using assms by (auto simp: safe_cast_u32_def split: if_splits)
  then have "uint v = uint x" using u by (simp add: unsigned_ucast_eq take_bit_int_eq_self)
  then show ?thesis by (metis unat_eq_nat_uint)
qed

lemma round_up_div:
  fixes x :: nat
  shows "x \<le> (x + 8388607) div 8388608 * 8388608" "(x + 8388607) div 8388608 * 8388608 < x + 8388608"
proof -
  have "(x + 8388607) div 8388608 * 8388608 + (x + 8388607) mod 8388608 = x + 8388607"
    by (rule div_mult_mod_eq)
  moreover have "(x + 8388607) mod 8388608 < 8388608" by simp
  ultimately show "x \<le> (x + 8388607) div 8388608 * 8388608"
    "(x + 8388607) div 8388608 * 8388608 < x + 8388608" by linarith+
qed

lemma unat_div_limit: "unat (w div COPY_SIZE_LIMIT) = unat w div 8388608"
  by (simp add: unat_div COPY_SIZE_LIMIT_def)

text \<open>C9: Copying in pieces is copying: the descriptors that \<open>fillDescriptor\<close> writes, decoded from
  their bytes as the firmware reads them and executed in order, move exactly the requested bytes to
  the destination; each descriptor moves between 1 byte and 8 MB.\<close>

theorem copy_descriptors_effect:
  assumes "ops \<noteq> Copy_none" "fillDescriptor ops src dst sz = Inr (Some d)"
    "unat sz + 8388608 < 2 ^ 64" "unat src + unat sz < 2 ^ 64" "unat dst + unat sz < 2 ^ 64"
    "unat src + unat sz \<le> unat dst \<or> unat dst + unat sz \<le> unat src"
  shows "copy_effect (decode_descs ops (unat (numDescriptors d)) (desc_data d)) m
           = write_bytes m dst (read_bytes m src (unat sz)) \<and>
         (\<forall>(s, t, k) \<in> set (decode_descs ops (unat (numDescriptors d)) (desc_data d)).
            0 < unat k \<and> unat k \<le> 8388608) \<and>
         length (desc_data d) = unat (numDescriptors d) * desc_size ops"
proof -
  define q where "q = (sz + COPY_SIZE_LIMIT - 1) div COPY_SIZE_LIMIT"
  obtain n where n: "safe_cast_u32 q = Inr n"
    and d: "numDescriptors d = n" "desc_data d = concat (map (encode_desc ops) (copy_chunks (unat n) src dst sz))"
    using assms(2) by (auto simp: fillDescriptor_def q_def split: if_splits sum.splits)
  have e1: "sz + COPY_SIZE_LIMIT - 1 = sz + 8388607" by (simp add: COPY_SIZE_LIMIT_def)
  have e2: "unat (sz + 8388607) = unat sz + 8388607"
    using assms(3) by (subst unat_plus_64) auto
  have "unat q = (unat sz + 8388607) div 8388608"
    unfolding q_def unat_div_limit e1 e2 by (rule refl)
  then have nn: "unat n = (unat sz + 8388607) div 8388608" using safe_cast_u32_Inr[OF n] by simp
  have r: "unat sz \<le> unat n * 8388608" "unat n * 8388608 < unat sz + 8388608"
    unfolding nn by (rule round_up_div)+
  have len: "length (copy_chunks (unat n) src dst sz) = unat n" using copy_chunks_sizes[OF r] by blast
  have dec: "decode_descs ops (unat n) (desc_data d) = copy_chunks (unat n) src dst sz"
    using decode_encode_descs[OF assms(1), of "copy_chunks (unat n) src dst sz" "[]"] by (simp add: d len)
  have "length (concat (map (encode_desc ops) cs)) = length cs * desc_size ops" for cs
    by (induction cs) (simp_all add: length_encode_desc)
  then show ?thesis
    using copy_chunks_sizes[OF r] copy_chunks_effect[OF r assms(4-6)] by (simp add: dec d(1)) (simp add: d(2) len)
qed

theorem copy_descriptors_effect_witness:
  "\<exists>d. fillDescriptor Copy_40xx 0x1000000 0x4000000 9000000 = Inr (Some d) \<and>
     copy_effect (decode_descs Copy_40xx (unat (numDescriptors d)) (desc_data d)) (\<lambda>_. 0)
       = write_bytes (\<lambda>_. 0) 0x4000000 (read_bytes (\<lambda>_. 0) 0x1000000 9000000)"
proof -
  have "\<exists>d. fillDescriptor Copy_40xx 0x1000000 0x4000000 9000000 = Inr (Some d)"
    by (simp add: fillDescriptor_def COPY_SIZE_LIMIT_def safe_cast_u32_def)
  then obtain d where d: "fillDescriptor Copy_40xx 0x1000000 0x4000000 9000000 = Inr (Some d)" ..
  show ?thesis
    using copy_descriptors_effect[OF _ d, of "\<lambda>_. 0"] d by simp
qed

end
