(* ===== verification/Command_Buffer.thy ===== *)
theory Command_Buffer
  imports Commands
begin

text \<open>
  \<open>VPUCommandBuffer\<close> (\<open>umd/vpu_driver/source/command/command_buffer.cpp\<close> and \<open>.hpp\<close>) and
  the operations of \<open>VPUInferenceExecute\<close> that change a command buffer
  (\<open>inference_execute.cpp\<close>).

  The buffer object starts with \<open>CommandHeader\<close>: the context save area (64 bytes), the
  fence value (offset 64), the firmware's header (offset 128, 48 bytes), two slots of 24
  bytes for internal synchronisation (offset 176), and the command list (offset 224); the
  descriptors follow at the next multiple of 64.
\<close>

section \<open>The layout\<close>

abbreviation off_fenceValue :: u64 where "off_fenceValue \<equiv> 64"
abbreviation off_header :: u64 where "off_header \<equiv> 128"
abbreviation off_internalSync :: u64 where "off_internalSync \<equiv> 176"
abbreviation off_commandList :: u64 where "off_commandList \<equiv> 224"
abbreviation sizeof_fence :: u64 where "sizeof_fence \<equiv> 24"

text \<open>\<open>vpu_cmd_buffer_header_t\<close>: size, offset of the first command, API version, save area.\<close>

definition api_version :: u32 where "api_version = push_bit 16 4 OR 15"

definition encode_cb_header :: "u32 \<Rightarrow> u32 \<Rightarrow> u64 \<Rightarrow> bytes" where
  "encode_cb_header sz off csa =
     enc32 sz @ enc32 off @ enc32 api_version @ zeros 4 @ zeros 24 @ enc64 csa"

section \<open>The state\<close>

text \<open>
  The iterators of the job's command vector are indices into it. \<open>getPreemptionBufferIndex\<close>
  is 0 without a preemption buffer.
\<close>

record cmd_buffer =
  cb_buffer :: buffer_object
  waitBoGuard :: "buffer_object option"
  jobStatus :: u32
  commandsBegin :: nat
  commandsEnd :: nat
  syncFenceVpuAddr :: u64
  bufferHandles :: "u32 list"
  inferenceScratchSize :: u64
  inferenceScratchBuffer :: "buffer_object option"
  preemptionBuffer :: "buffer_object option"
  preemptionBufferIndex :: "nat option"
  useBusyWaitFlag :: bool

definition new_cmd_buffer :: "buffer_object \<Rightarrow> nat \<Rightarrow> nat \<Rightarrow> cmd_buffer" where
  "new_cmd_buffer bo b e = \<lparr>cb_buffer = bo, waitBoGuard = None, jobStatus = UINT32_MAX,
     commandsBegin = b, commandsEnd = e, syncFenceVpuAddr = 0, bufferHandles = [handle bo],
     inferenceScratchSize = 0, inferenceScratchBuffer = None, preemptionBuffer = None,
     preemptionBufferIndex = None, useBusyWaitFlag = False\<rparr>"

definition DRM_IVPU_JOB_STATUS_SUCCESS :: u32 where "DRM_IVPU_JOB_STATUS_SUCCESS = 0"

definition cb_isSuccess :: "cmd_buffer \<Rightarrow> bool" where
  "cb_isSuccess cb \<longleftrightarrow> jobStatus cb = DRM_IVPU_JOB_STATUS_SUCCESS"

definition getCommandBufferOffset :: "cmd_buffer \<Rightarrow> u32" where
  "getCommandBufferOffset cb = 128"

definition getPreemptionBufferIndex :: "cmd_buffer \<Rightarrow> u32" where
  "getPreemptionBufferIndex cb = (case preemptionBufferIndex cb of None \<Rightarrow> 0 | Some i \<Rightarrow> of_nat i)"

definition addUniqueBoHandle :: "u32 \<Rightarrow> cmd_buffer \<Rightarrow> cmd_buffer" where
  "addUniqueBoHandle h cb =
     (if h \<in> set (bufferHandles cb) then cb else cb\<lparr>bufferHandles := bufferHandles cb @ [h]\<rparr>)"

section \<open>Building a buffer\<close>

definition getSharedScratchSize :: "'h command \<Rightarrow> u64" where
  "getSharedScratchSize cmd = (case inference cmd of None \<Rightarrow> 0 | Some i \<Rightarrow> sharedScratchSize (parser i))"

text \<open>
  \<open>addCommand\<close> in its two steps, the descriptor and the command itself. The two offsets are
  reference parameters; the command is patched in place. On failure what was changed so far
  stays changed.
\<close>

definition put_command ::
  "cmd_buffer \<Rightarrow> 'h command \<Rightarrow> u64 \<Rightarrow> u64 \<Rightarrow> 'k world
     \<Rightarrow> bool \<times> 'h command \<times> cmd_buffer \<times> u64 \<times> u64 \<times> 'k world" where
  "put_command cb cmd cmdOffset descOffset w =
     (case copyToBuffer (cb_buffer cb) (Some (getCommitStream cmd)) (of_nat (getCommitSize cmd)) cmdOffset w of
        (False, w1) \<Rightarrow> (False, cmd, cb, cmdOffset, descOffset, w1)
      | (True, w1) \<Rightarrow>
          (True, cmd,
           (if getCommandType cmd = VPU_CMD_INFERENCE_EXECUTE
            then cb\<lparr>inferenceScratchSize := max (inferenceScratchSize cb) (getSharedScratchSize cmd)\<rparr>
            else cb),
           cmdOffset + of_nat (getCommitSize cmd), descOffset, w1))"

definition addCommand ::
  "cmd_buffer \<Rightarrow> 'h command option \<Rightarrow> u64 \<Rightarrow> u64 \<Rightarrow> 'k world
     \<Rightarrow> bool \<times> 'h command option \<times> cmd_buffer \<times> u64 \<times> u64 \<times> 'k world" where
  "addCommand cb ocmd cmdOffset descOffset w =
     (case ocmd of
        None \<Rightarrow> (False, None, cb, cmdOffset, descOffset, w)
      | Some cmd \<Rightarrow>
          if descOffset \<noteq> 0 \<and> cmdOffset \<ge> descOffset then (False, ocmd, cb, cmdOffset, descOffset, w)
          else
            let cb1 = fold addUniqueBoHandle (map handle (bufferObjects cmd)) cb;
                n = getDescriptorSize cmd
            in if descOffset \<noteq> 0 \<and> n > 0
               then (case copyToBuffer (cb_buffer cb1) (getDescriptorData cmd) (of_nat n) descOffset w of
                       (False, w1) \<Rightarrow> (False, ocmd, cb1, cmdOffset, descOffset, w1)
                     | (True, w1) \<Rightarrow>
                         (case put_command cb1
                                 (patchDescriptorAddress (vpuAddr (cb_buffer cb1) + descOffset) cmd)
                                 cmdOffset (descOffset + getFwDataCacheAlign (of_nat n)) w1 of
                            (ok, cmd', rest) \<Rightarrow> (ok, Some cmd', rest)))
               else (case put_command cb1 cmd cmdOffset descOffset w of
                       (ok, cmd', rest) \<Rightarrow> (ok, Some cmd', rest)))"

definition setSyncFenceAddr :: "'h command \<Rightarrow> cmd_buffer \<Rightarrow> bool \<times> cmd_buffer" where
  "setSyncFenceAddr cmd cb =
     (if syncFenceVpuAddr cb \<noteq> 0 then (False, cb)
      else if getCommandType cmd \<noteq> VPU_CMD_FENCE_SIGNAL then (False, cb)
      else (True, cb\<lparr>syncFenceVpuAddr := dec64 (drop 8 (getCommitStream cmd))\<rparr>))"

text \<open>The loop over the commands; the commands not reached stay as they are.\<close>

fun addCommands ::
  "cmd_buffer \<Rightarrow> 'h command list \<Rightarrow> u64 \<Rightarrow> u64 \<Rightarrow> 'k world
     \<Rightarrow> bool \<times> 'h command list \<times> cmd_buffer \<times> u64 \<times> u64 \<times> 'k world" where
  "addCommands cb [] cmdOffset descOffset w = (True, [], cb, cmdOffset, descOffset, w)"
| "addCommands cb (cmd # cmds) cmdOffset descOffset w =
     (case (if isSynchronizeCommand cmd then setSyncFenceAddr cmd cb else (True, cb)) of
        (False, cb1) \<Rightarrow> (False, cmd # cmds, cb1, cmdOffset, descOffset, w)
      | (True, cb1) \<Rightarrow>
          (case addCommand cb1 (Some cmd) cmdOffset descOffset w of
             (False, cmd', cb2, co, d, w1) \<Rightarrow> (False, the cmd' # cmds, cb2, co, d, w1)
           | (True, cmd', cb2, co, d, w1) \<Rightarrow>
               (case addCommands cb2 cmds co d w1 of
                  (ok, cmds', rest) \<Rightarrow> (ok, the cmd' # cmds', rest))))"

definition initHeader :: "buffer_object \<Rightarrow> u64 \<Rightarrow> 'k world \<Rightarrow> (exn + unit) \<times> 'k world" where
  "initHeader bo cmdSize w =
     (let base = basePtr bo;
          m0 = write_bytes (mem w) base (replicate (unat (allocSize bo)) 0);
          m1 = write_bytes m0 (base + off_header + 4) (enc32 96)
      in case safe_cast_u32 (96 + cmdSize) of
           Inl e \<Rightarrow> (Inl e, w\<lparr>mem := m1\<rparr>)
         | Inr n \<Rightarrow>
             let m2 = write_bytes m1 (base + off_header) (enc32 n);
                 m3 = write_bytes m2 (base + off_header + 40) (enc64 (vpuAddr bo + 0));
                 m4 = write_bytes m3 (base + off_header + 8) (enc32 api_version)
             in (Inr (), w\<lparr>mem := m4\<rparr>))"

definition total_commit_size :: "'h command list \<Rightarrow> u64" where
  "total_commit_size cmds = fold (\<lambda>cmd n. n + of_nat (getCommitSize cmd)) cmds 0"

definition total_desc_size :: "'h command list \<Rightarrow> u64" where
  "total_desc_size cmds =
     fold (\<lambda>cmd n. n + getFwDataCacheAlign (of_nat (getDescriptorSize cmd))) cmds 0"

text \<open>
  \<open>allocateCommandBuffer\<close> on the commands with indices from \<open>b\<close> to before \<open>e\<close> of the job.
  The result is the buffer (or null, or the exception) and the commands of the job, patched.
  A buffer that is not returned loses its only owner. \<open>tail\<close>: the bytes behind the NOP
  structure in the process memory.
\<close>

definition fill_buffer ::
  "bytes \<Rightarrow> buffer_object \<Rightarrow> nat \<Rightarrow> 'h command list \<Rightarrow> u64 \<Rightarrow> u64 \<Rightarrow> u64 \<Rightarrow> 'k dev_ctx
     \<Rightarrow> ((exn + cmd_buffer option) \<times> 'h command list) \<times> 'k dev_ctx" where
  "fill_buffer tail bo b cmds cmdSize descOffset descriptorSize c =
     (let cb = new_cmd_buffer bo b (b + length cmds) in
      case initHeader bo cmdSize (ctx_world c) of
        (Inl e, w1) \<Rightarrow> ((Inl e, cmds), drop_ref bo (c\<lparr>ctx_world := w1\<rparr>))
      | (Inr _, w1) \<Rightarrow>
          (case addCommands cb cmds off_commandList descOffset w1 of
             (False, cmds', cb2, co, d, w2) \<Rightarrow> ((Inr None, cmds'), drop_ref bo (c\<lparr>ctx_world := w2\<rparr>))
           | (True, cmds', cb2, co, d, w2) \<Rightarrow>
               (case addCommand cb2 (VPUNopCommand_create (hwInfo c) sizeof_fence tail :: 'h command option) co d w2 of
                  (False, _, cb3, co3, d3, w3) \<Rightarrow> ((Inr None, cmds'), drop_ref bo (c\<lparr>ctx_world := w3\<rparr>))
                | (True, _, cb3, co3, d3, w3) \<Rightarrow>
                    if co3 \<noteq> off_commandList + cmdSize
                       \<or> d3 \<noteq> getFwDataCacheAlign (off_commandList + cmdSize) + descriptorSize
                    then ((Inr None, cmds'), drop_ref bo (c\<lparr>ctx_world := w3\<rparr>))
                    else ((Inr (Some cb3), cmds'), c\<lparr>ctx_world := w3\<rparr>))))"

definition allocateCommandBuffer ::
  "bytes \<Rightarrow> 'h command list \<Rightarrow> nat \<Rightarrow> nat \<Rightarrow> 'k dev_ctx
     \<Rightarrow> ((exn + cmd_buffer option) \<times> 'h command list) \<times> 'k dev_ctx" where
  "allocateCommandBuffer tail commands b e c =
     (if b = e then ((Inr None, commands), c)
      else
        let cmds = take (e - b) (drop b commands);
            cmdSize = total_commit_size cmds + sizeof_fence;
            descriptorSize = total_desc_size cmds;
            descOffset = getFwDataCacheAlign (off_commandList + cmdSize);
            cmdBufferSize = descOffset + descriptorSize + ucast (extraDmaDescriptorSize (hwInfo c))
        in case createUntrackedBufferObject c cmdBufferSize CachedFw of
             (Inl x, c1) \<Rightarrow> ((Inl x, commands), c1)
           | (Inr None, c1) \<Rightarrow> ((Inr None, commands), c1)
           | (Inr (Some bo), c1) \<Rightarrow>
               (case fill_buffer tail bo b cmds cmdSize descOffset descriptorSize c1 of
                  ((r, cmds'), c2) \<Rightarrow> ((r, take b commands @ cmds' @ drop e commands), c2)))"

section \<open>Synchronisation between buffers\<close>

definition set_cmd_offset :: "cmd_buffer \<Rightarrow> u32 \<Rightarrow> 'k world \<Rightarrow> 'k world" where
  "set_cmd_offset cb off w =
     w\<lparr>mem := write_bytes (mem w) (basePtr (cb_buffer cb) + off_header + 4) (enc32 off)\<rparr>"

definition drop_opt :: "buffer_object option \<Rightarrow> 'k dev_ctx \<Rightarrow> 'k dev_ctx" where
  "drop_opt obo c = (case obo of None \<Rightarrow> c | Some bo \<Rightarrow> drop_ref bo c)"

text \<open>The two commands in front: a wait for the fence of \<open>waitBo\<close>, and its reset or a NOP.\<close>

definition sync_commands ::
  "hw_info \<Rightarrow> bytes \<Rightarrow> buffer_object \<Rightarrow> bool \<Rightarrow> 'h command option \<times> 'h command option" where
  "sync_commands hw tail bo resetFence =
     (let waitFence = basePtr bo + off_fenceValue
      in (VPUEventWaitCommand_create waitFence (Some bo),
          if resetFence then VPUEventResetCommand_create waitFence (Some bo)
          else VPUNopCommand_create hw sizeof_fence tail))"

definition addWaitAtHead ::
  "'h itself \<Rightarrow> bytes \<Rightarrow> buffer_object option \<Rightarrow> bool \<Rightarrow> cmd_buffer \<Rightarrow> 'k dev_ctx
     \<Rightarrow> (bool \<times> cmd_buffer) \<times> 'k dev_ctx" where
  "addWaitAtHead _ tail waitBo resetFence cb c =
     (case waitBo of
        None \<Rightarrow>
          ((True, cb\<lparr>waitBoGuard := None\<rparr>),
           drop_opt (waitBoGuard cb) (c\<lparr>ctx_world := set_cmd_offset cb 96 (ctx_world c)\<rparr>))
      | Some bo \<Rightarrow>
          (case sync_commands (hwInfo c) tail bo resetFence of
             (waitCmd :: 'h command option, secondCmd) \<Rightarrow>
               if waitCmd = None then ((False, cb), c)
               else
                 (case addCommand cb waitCmd off_internalSync 0 (ctx_world c) of
                    (False, _, cb1, co, d, w1) \<Rightarrow> ((False, cb1), c\<lparr>ctx_world := w1\<rparr>)
                  | (True, _, cb1, co, d, w1) \<Rightarrow>
                      (case addCommand cb1 secondCmd co d w1 of
                         (False, _, cb2, co2, d2, w2) \<Rightarrow> ((False, cb2), c\<lparr>ctx_world := w2\<rparr>)
                       | (True, _, cb2, co2, d2, w2) \<Rightarrow>
                           ((True, cb2\<lparr>waitBoGuard := Some bo\<rparr>),
                            drop_opt (waitBoGuard cb)
                              (take_ref (bo_id bo) (c\<lparr>ctx_world := set_cmd_offset cb 48 w2\<rparr>)))))))"

definition addSelfSignalAtTail ::
  "'h itself \<Rightarrow> cmd_buffer \<Rightarrow> 'k world \<Rightarrow> (bool \<times> cmd_buffer) \<times> 'k world" where
  "addSelfSignalAtTail _ cb w =
     (let base = basePtr (cb_buffer cb);
          cmd_buffer_size = dec32 (read_bytes (mem w) (base + off_header) 4);
          cmdOffset = off_header + ucast cmd_buffer_size - sizeof_fence;
          signalCmd = (VPUEventSignalCommand_create (base + off_fenceValue) (Some (cb_buffer cb)) :: 'h command option)
      in case addCommand cb signalCmd cmdOffset 0 w of
           (ok, _, cb1, _, _, w1) \<Rightarrow> ((ok, cb1), w1))"

definition resetFenceValue :: "cmd_buffer \<Rightarrow> 'k world \<Rightarrow> 'k world" where
  "resetFenceValue cb w =
     (if basePtr (cb_buffer cb) = 0 then w
      else w\<lparr>mem := write_bytes (mem w) (basePtr (cb_buffer cb) + off_fenceValue) (enc64 STATE_HOST_RESET)\<rparr>)"

definition useBusyWait :: "'h itself \<Rightarrow> cmd_buffer \<Rightarrow> 'k world \<Rightarrow> cmd_buffer \<times> 'k world" where
  "useBusyWait ty cb w =
     (case addSelfSignalAtTail ty cb w of
        ((False, cb1), w1) \<Rightarrow> (cb1, w1)
      | ((True, cb1), w1) \<Rightarrow> (cb1\<lparr>useBusyWaitFlag := True\<rparr>, resetFenceValue cb1 w1))"

section \<open>Waiting\<close>

definition cb_wait :: "int \<Rightarrow> cmd_buffer \<Rightarrow> 'k dev_ctx \<Rightarrow> (bool \<times> cmd_buffer) \<times> 'k dev_ctx" where
  "cb_wait timeout_abs_ns cb c =
     (case da_wait (drvApi c) \<lparr>bow_handle = handle (cb_buffer cb), bow_flags = 0, bow_timeout_ns = timeout_abs_ns,
             bow_job_status = UINT32_MAX\<rparr> (ctx_world c) of
        ((ret, args), w) \<Rightarrow>
          if ret \<noteq> 0 then ((False, cb), c\<lparr>ctx_world := w\<rparr>)
          else ((True, cb\<lparr>jobStatus := bow_job_status args\<rparr>), c\<lparr>ctx_world := w\<rparr>))"

definition erase_at :: "nat \<Rightarrow> 'a list \<Rightarrow> 'a list" where
  "erase_at i xs = take i xs @ drop (Suc i) xs"

text \<open>The busy wait before it only reads the fence value until a deadline.\<close>

definition waitForCompletion ::
  "int \<Rightarrow> cmd_buffer \<Rightarrow> 'k dev_ctx \<Rightarrow> (bool \<times> cmd_buffer) \<times> 'k dev_ctx" where
  "waitForCompletion timeout_abs_ns cb c =
     (case cb_wait timeout_abs_ns cb c of
        ((False, cb1), c1) \<Rightarrow> ((False, cb1), c1)
      | ((True, cb1), c1) \<Rightarrow>
          let c2 = drop_opt (inferenceScratchBuffer cb1) c1;
              cb2 = cb1\<lparr>useBusyWaitFlag := False, inferenceScratchBuffer := None\<rparr>
          in (case (preemptionBuffer cb2, preemptionBufferIndex cb2) of
                (Some bo, Some i) \<Rightarrow>
                  ((True, cb2\<lparr>bufferHandles := erase_at i (bufferHandles cb2),
                              preemptionBufferIndex := None, preemptionBuffer := None\<rparr>),
                   drop_ref bo c2)
              | _ \<Rightarrow> ((True, cb2), c2)))"

section \<open>Changing a buffer before a submission\<close>

definition replaceBufferHandles :: "u32 list \<Rightarrow> u32 list \<Rightarrow> cmd_buffer \<Rightarrow> bool \<times> cmd_buffer" where
  "replaceBufferHandles oldHandles newHandles cb =
     (if length oldHandles \<noteq> length newHandles then (False, cb)
      else (True, fold addUniqueBoHandle newHandles
                    (cb\<lparr>bufferHandles := filter (\<lambda>x. x \<notin> set oldHandles) (bufferHandles cb)\<rparr>)))"

definition addPreemptionBuffer :: "buffer_object option \<Rightarrow> cmd_buffer \<Rightarrow> 'k dev_ctx \<Rightarrow> cmd_buffer \<times> 'k dev_ctx" where
  "addPreemptionBuffer obo cb c =
     (if preemptionBuffer cb \<noteq> None then (cb, c)
      else (case obo of None \<Rightarrow> (cb, c)
            | Some bo \<Rightarrow>
                (cb\<lparr>preemptionBuffer := Some bo, preemptionBufferIndex := Some (length (bufferHandles cb)),
                    bufferHandles := bufferHandles cb @ [handle bo]\<rparr>,
                 take_ref (bo_id bo) c)))"

text \<open>
  \<open>VPUInferenceExecute\<close>. The references its command holds move with the list of its
  buffer objects.
\<close>

definition take_refs :: "buffer_object list \<Rightarrow> 'k dev_ctx \<Rightarrow> 'k dev_ctx" where
  "take_refs bos c = fold (\<lambda>bo. take_ref (bo_id bo)) bos c"

definition VPUInferenceExecute_create ::
  "'h elf_parser \<Rightarrow> 'h \<Rightarrow> u64 list \<Rightarrow> u64 list \<Rightarrow> strides_map \<Rightarrow> strides_map \<Rightarrow> u64
     \<Rightarrow> buffer_object list \<Rightarrow> exn + 'h command option" where
  "VPUInferenceExecute_create prs cmdHpi inputPtrs outputPtrs inStrides outStrides inferenceId bos =
     (case applyInputOutputs prs cmdHpi inputPtrs outputPtrs inStrides outStrides of
        None \<Rightarrow> Inr None
      | Some (userBos, hpi') \<Rightarrow>
          (case bos of [] \<Rightarrow> Inl Out_of_range
           | bo0 # _ \<Rightarrow>
               (case safe_cast_u32 (allocSize bo0) of Inl e \<Rightarrow> Inl e
                | Inr width \<Rightarrow>
                    let cmd = appendAssociateBufferObjects bos
                                (new_command Generic (Inference_execute inferenceId (vpuAddr bo0) width));
                        n = length (bufferObjects cmd);
                        cmd' = appendAssociateBufferObjects userBos cmd
                    in Inr (Some (cmd'\<lparr>inference := Some \<lparr>parser = prs, hpi = hpi', inputs = inputPtrs,
                         outputs = outputPtrs, inputStrides = inStrides, outputStrides = outStrides,
                         userArgIndex = n, userArgHandles = map handle userBos,
                         lastScratchBoHandle = UINT32_MAX\<rparr>\<rparr>)))))"

text \<open>One argument update; an update without strides erases those set before.\<close>

definition set_update ::
  "nat \<Rightarrow> u32 \<Rightarrow> argument_update \<Rightarrow> 'h inference \<Rightarrow> 'h inference" where
  "set_update numInputArgs argIndex u i =
     (if unat argIndex < numInputArgs
      then i\<lparr>inputs := (case upd_ptr u of None \<Rightarrow> inputs i | Some p \<Rightarrow> (inputs i)[unat argIndex := p]),
             inputStrides := (inputStrides i)(argIndex := upd_strides u)\<rparr>
      else let outputIndex = argIndex - of_nat numInputArgs
           in i\<lparr>outputs := (case upd_ptr u of None \<Rightarrow> outputs i | Some p \<Rightarrow> (outputs i)[unat outputIndex := p]),
                outputStrides := (outputStrides i)(outputIndex := upd_strides u)\<rparr>)"

fun set_updates ::
  "nat \<Rightarrow> u32 \<Rightarrow> (u32 \<times> argument_update) list \<Rightarrow> 'h inference \<Rightarrow> bool \<times> 'h inference" where
  "set_updates numInputArgs numArgs [] i = (True, i)"
| "set_updates numInputArgs numArgs ((argIndex, u) # us) i =
     (if argIndex \<ge> numArgs then (False, i)
      else set_updates numInputArgs numArgs us (set_update numInputArgs argIndex u i))"

definition setUpdates :: "(u32 \<times> argument_update) list \<Rightarrow> 'h command \<Rightarrow> exn + bool \<times> 'h command" where
  "setUpdates updatesMap cmd =
     (case inference cmd of
        None \<Rightarrow> Inr (False, cmd)
      | Some i \<Rightarrow>
          if length (inputs i) > unat UINT32_MAX \<or> length (outputs i) > unat UINT32_MAX then Inl Overflow_error
          else let numInputArgs = length (inputs i);
                   numArgs = of_nat numInputArgs + of_nat (length (outputs i)) :: u32
               in (case set_updates numInputArgs numArgs updatesMap i of
                     (False, i') \<Rightarrow> Inr (False, cmd\<lparr>inference := Some i'\<rparr>)
                   | (True, i') \<Rightarrow> Inr (True, cmd\<lparr>inference := Some i', cmdNeedsUpdate := True\<rparr>)))"

definition update_command ::
  "'h command \<Rightarrow> cmd_buffer \<Rightarrow> 'k dev_ctx \<Rightarrow> bool \<times> 'h command \<times> cmd_buffer \<times> 'k dev_ctx" where
  "update_command cmd cb c =
     (case inference cmd of
        None \<Rightarrow> (True, cmd, cb, c)
      | Some i \<Rightarrow>
          if \<not> cmdNeedsUpdate cmd then (True, cmd, cb, c)
          else (case applyInputOutputs (parser i) (hpi i) (inputs i) (outputs i) (inputStrides i) (outputStrides i) of
                  None \<Rightarrow> (False, cmd\<lparr>cmdNeedsUpdate := False\<rparr>, cb, c)
                | Some (userArgs, hpi') \<Rightarrow>
                    let newHandles = map handle userArgs;
                        cb' = snd (replaceBufferHandles (userArgHandles i) newHandles cb);
                        cmd' = appendAssociateBufferObjects userArgs
                                 (eraseAssociatedBufferObjects (userArgIndex i)
                                   (cmd\<lparr>cmdNeedsUpdate := False,
                                        inference := Some (i\<lparr>hpi := hpi', userArgHandles := newHandles\<rparr>)\<rparr>))
                    in (True, cmd', cb',
                        drop_refs (bufferObjects cmd) (take_refs (bufferObjects cmd') c))))"

definition updateScratchBuffer ::
  "buffer_object option \<Rightarrow> 'h command \<Rightarrow> cmd_buffer \<Rightarrow> 'h command \<times> cmd_buffer" where
  "updateScratchBuffer scratch cmd cb =
     (case (inference cmd, scratch) of
        (Some i, Some bo) \<Rightarrow>
          if sharedScratchSize (parser i) = 0 then (cmd, cb)
          else (cmd\<lparr>inference := Some (i\<lparr>hpi := updateSharedScratchBuffers (parser i) (hpi i) bo,
                                        lastScratchBoHandle := handle bo\<rparr>)\<rparr>,
                snd (replaceBufferHandles [lastScratchBoHandle i] [handle bo] cb))
      | _ \<Rightarrow> (cmd, cb))"

fun update_all ::
  "buffer_object option \<Rightarrow> 'h command list \<Rightarrow> cmd_buffer \<Rightarrow> 'k dev_ctx
     \<Rightarrow> bool \<times> 'h command list \<times> cmd_buffer \<times> 'k dev_ctx" where
  "update_all scratch [] cb c = (True, [], cb, c)"
| "update_all scratch (cmd # cmds) cb c =
     (case (if getCommandType cmd = VPU_CMD_INFERENCE_EXECUTE then updateScratchBuffer scratch cmd cb
            else (cmd, cb)) of
        (cmd1, cb1) \<Rightarrow>
          (case update_command cmd1 cb1 c of
             (False, cmd2, cb2, c2) \<Rightarrow> (False, cmd2 # cmds, cb2, c2)
           | (True, cmd2, cb2, c2) \<Rightarrow>
               (case update_all scratch cmds cb2 c2 of
                  (ok, cmds', rest) \<Rightarrow> (ok, cmd2 # cmds', rest))))"

text \<open>The scratch buffer of the last submission is released when the new one is assigned.\<close>

definition updateCommands ::
  "'h command list \<Rightarrow> cmd_buffer \<Rightarrow> 'k dev_ctx
     \<Rightarrow> ((exn + bool) \<times> 'h command list \<times> cmd_buffer) \<times> 'k dev_ctx" where
  "updateCommands commands cb c =
     (let run = (\<lambda>cb c. (let b = commandsBegin cb; e = commandsEnd cb in
                  case update_all (inferenceScratchBuffer cb) (take (e - b) (drop b commands)) cb c of
                    (ok, cmds', cb', c') \<Rightarrow>
                      ((Inr ok, take b commands @ cmds' @ drop e commands, cb'), c')))
      in if inferenceScratchSize cb \<noteq> 0
         then (case scratchCacheAcquire c (inferenceScratchSize cb) of
                 (Inl x, c1) \<Rightarrow> ((Inl x, commands, cb), c1)
               | (Inr None, c1) \<Rightarrow>
                   ((Inr False, commands, cb\<lparr>inferenceScratchBuffer := None\<rparr>),
                    drop_opt (inferenceScratchBuffer cb) c1)
               | (Inr (Some bo), c1) \<Rightarrow>
                   run (cb\<lparr>inferenceScratchBuffer := Some bo\<rparr>) (drop_opt (inferenceScratchBuffer cb) c1))
         else run cb c)"

section \<open>Reading a buffer back\<close>

text \<open>
  \<open>printCommandBuffer\<close>: the walk from the first command to the end of the buffer, as the
  list of what it prints and whether it came to the end. A copy command is printed with
  its descriptors. The offset is a \<open>uint32_t\<close> that might wrap around, so the loop is a
  partial function.
\<close>

datatype printed =
    P_timestamp u64
  | P_fence_wait u64 u64
  | P_fence_signal u64 u64
  | P_barrier
  | P_query_begin u32 u64
  | P_query_end u32 u64
  | P_copy u64 u32 "(u64 \<times> u64 \<times> u32) list"
  | P_inference u64 u64 u32
  | P_fill u32 u64
  | P_nop

definition read64 :: "memory \<Rightarrow> u64 \<Rightarrow> u64" where "read64 m p = dec64 (read_bytes m p 8)"
definition read32 :: "memory \<Rightarrow> u64 \<Rightarrow> u32" where "read32 m p = dec32 (read_bytes m p 4)"
definition read16 :: "memory \<Rightarrow> u64 \<Rightarrow> u16" where "read16 m p = dec16 (read_bytes m p 2)"

definition printCopyDescriptor :: "copy_ops \<Rightarrow> memory \<Rightarrow> u64 \<Rightarrow> u32 \<Rightarrow> (u64 \<times> u64 \<times> u32) list" where
  "printCopyDescriptor ops m desc cnt =
     (if ops = Copy_none then []
      else decode_descs ops (unat cnt) (read_bytes m desc (unat cnt * desc_size ops)))"

definition print_command :: "copy_ops \<Rightarrow> memory \<Rightarrow> buffer_object \<Rightarrow> u64 \<Rightarrow> printed option" where
  "print_command ops m bo p =
     (let ty = read16 m p in
      if ty = VPU_CMD_TIMESTAMP then Some (P_timestamp (read64 m (p + 8)))
      else if ty = VPU_CMD_FENCE_WAIT then Some (P_fence_wait (read64 m (p + 8)) (read64 m (p + 16)))
      else if ty = VPU_CMD_FENCE_SIGNAL then Some (P_fence_signal (read64 m (p + 8)) (read64 m (p + 16)))
      else if ty = VPU_CMD_BARRIER then Some P_barrier
      else if ty = VPU_CMD_METRIC_QUERY_BEGIN then Some (P_query_begin (read32 m (p + 4)) (read64 m (p + 8)))
      else if ty = VPU_CMD_METRIC_QUERY_END then Some (P_query_end (read32 m (p + 4)) (read64 m (p + 8)))
      else if ty = VPU_CMD_COPY then
        (let start = read64 m (p + 8); cnt = read32 m (p + 16)
         in Some (P_copy start cnt (printCopyDescriptor ops m (basePtr bo + (start - vpuAddr bo)) cnt)))
      else if ty = VPU_CMD_INFERENCE_EXECUTE then
        Some (P_inference (read64 m (p + 8)) (read64 m (p + 16)) (read32 m (p + 24)))
      else if ty = VPU_CMD_MEMORY_FILL then Some (P_fill (read32 m (p + 24)) (read64 m (p + 8)))
      else if ty = VPU_CMD_NOP then Some P_nop
      else None)"

partial_function (option) print_walk ::
  "copy_ops \<Rightarrow> memory \<Rightarrow> buffer_object \<Rightarrow> u32 \<Rightarrow> u32 \<Rightarrow> ((u16 \<times> printed) list \<times> bool) option" where
  "print_walk ops m bo cmd_buffer_size cmdOffset =
     (if cmdOffset < cmd_buffer_size
      then let cmd = basePtr bo + off_header + ucast cmdOffset; sz = read16 m (cmd + 2)
           in if sz = 0 \<or> ucast sz \<ge> cmd_buffer_size then Some ([], False)
              else (case print_command ops m bo cmd of
                      None \<Rightarrow> Some ([], False)
                    | Some v \<Rightarrow>
                        Option.bind (print_walk ops m bo cmd_buffer_size (cmdOffset + ucast sz))
                          (\<lambda>(vs, fin). Some ((sz, v) # vs, fin)))
      else Some ([], True))"

definition printCommandBuffer ::
  "copy_ops \<Rightarrow> cmd_buffer \<Rightarrow> memory \<Rightarrow> ((u16 \<times> printed) list \<times> bool) option" where
  "printCommandBuffer ops cb m =
     (let bo = cb_buffer cb; hdr = basePtr bo + off_header
      in print_walk ops m bo (read32 m hdr) (read32 m (hdr + 4)))"

end
