(* ===== verification/Null_Device.thy ===== *)
theory Null_Device
  imports Driver_Api
begin

text \<open>
  \<open>NullOsInterfaceImp\<close> (\<open>os_interface/null_interface_imp.cpp\<close>): the operating system of
  the null device, which is selected and configured through environment variables and
  answers the ioctls itself. \<open>std::stoul\<close> is modelled as the C++17 standard defines it, and
  \<open>posix_memalign\<close> as an allocator that never reuses memory. The theory interprets the
  contract \<open>posix_os\<close> on it.
\<close>

section \<open>std::stoul\<close>

definition is_space :: "char \<Rightarrow> bool" where
  "is_space c \<longleftrightarrow> of_char c \<in> {9, 10, 11, 12, 13, 32 :: nat}"

text \<open>The value of a digit; 36 for a character that is not one.\<close>

definition digit_value :: "char \<Rightarrow> nat" where
  "digit_value c =
     (let n = of_char c :: nat in
      if 48 \<le> n \<and> n \<le> 57 then n - 48
      else if 97 \<le> n \<and> n \<le> 122 then n - 87
      else if 65 \<le> n \<and> n \<le> 90 then n - 55
      else 36)"

definition digits_value :: "nat \<Rightarrow> string \<Rightarrow> nat" where
  "digits_value base ds = foldl (\<lambda>v c. v * base + digit_value c) 0 ds"

definition detect_base :: "string \<Rightarrow> nat \<times> nat" where
  "detect_base s =
     (if s = [] \<or> s ! 0 \<noteq> CHR ''0'' then (10, 0)
      else if length s > 2 \<and> s ! 1 \<in> {CHR ''x'', CHR ''X''} \<and> digit_value (s ! 2) < 16 then (16, 2)
      else (8, 0))"

text \<open>
  The number and the count of characters used, or \<open>None\<close> for the exceptions
  \<open>std::invalid_argument\<close> and \<open>std::out_of_range\<close>.
\<close>

definition stoul :: "nat \<Rightarrow> string \<Rightarrow> (u64 \<times> nat) option" where
  "stoul base s =
     (let sp = length (takeWhile is_space s);
          s1 = drop sp s;
          sign = (if s1 \<noteq> [] \<and> hd s1 \<in> {CHR ''-'', CHR ''+''} then 1 else 0);
          neg = (s1 \<noteq> [] \<and> hd s1 = CHR ''-'');
          s2 = drop sign s1;
          (b, pre) = (if base = 0 then detect_base s2 else (base, 0));
          ds = takeWhile (\<lambda>c. digit_value c < b) (drop pre s2);
          v = digits_value b ds
      in if ds = [] then None
         else if v \<ge> 2 ^ 64 then None
         else Some (if neg then - word_of_nat v else word_of_nat v, sp + sign + pre + length ds))"

section \<open>The state\<close>

text \<open>
  The members of the class, and two parts of the C library it calls: the descriptor
  \<open>open("/dev/null")\<close> returns, and the top of the heap of \<open>posix_memalign\<close>.
\<close>

record null_dev =
  nullHwInfo :: hw_info
  unique_id :: u32
  deviceAddress :: u64
  devnull_fd :: int
  heap_top :: u64

section \<open>Configuration\<close>

definition platform_of_name :: "string \<Rightarrow> u32 option" where
  "platform_of_name env =
     (if env = ''INPU_MTL'' \<or> env = ''METEORLAKE'' then Some PCI_DEVICE_ID_MTL
      else if env = ''INPU_LNL'' \<or> env = ''LUNARLAKE'' then Some PCI_DEVICE_ID_LNL
      else if env = ''INPU_PTL'' \<or> env = ''PANTHERLAKE'' then Some PCI_DEVICE_ID_PTL_P
      else if env = ''INPU_WCL'' \<or> env = ''WILDCATLAKE'' then Some PCI_DEVICE_ID_WCL
      else if env = ''ARROWLAKE'' then Some PCI_DEVICE_ID_ARL
      else None)"

text \<open>Each of the three overrides: the new table, or \<open>None\<close> for \<open>return false\<close>.\<close>

definition parse_whole :: "nat \<Rightarrow> string \<Rightarrow> u64 option" where
  "parse_whole base s =
     (case stoul base s of None \<Rightarrow> None
      | Some (v, charsParsed) \<Rightarrow> if charsParsed \<noteq> length s then None else Some v)"

definition override_revision :: "string option \<Rightarrow> hw_info \<Rightarrow> hw_info option" where
  "override_revision env hw =
     (case env of None \<Rightarrow> Some hw
      | Some s \<Rightarrow> map_option (\<lambda>v. hw\<lparr>deviceRevision := ucast v\<rparr>) (parse_whole 0 s))"

definition override_disabled_tiles :: "string option \<Rightarrow> hw_info \<Rightarrow> hw_info option" where
  "override_disabled_tiles env hw =
     (case env of None \<Rightarrow> Some hw
      | Some s \<Rightarrow> map_option (\<lambda>v. hw\<lparr>tileConfig := ucast v\<rparr>)
                   (if s \<noteq> [] \<and> hd s = CHR ''b'' then parse_whole 2 (tl s) else parse_whole 0 s))"

definition bit_count :: "u32 \<Rightarrow> nat" where
  "bit_count v = length (filter (bit v) [0..<32])"

definition override_tile_count :: "string option \<Rightarrow> hw_info \<Rightarrow> hw_info option" where
  "override_tile_count env hw =
     (case env of None \<Rightarrow> Some hw
      | Some s \<Rightarrow>
          (case parse_whole 0 s of None \<Rightarrow> None
           | Some enabledTiles \<Rightarrow>
               let maxTiles = bit_count (tileFuseMask hw) in
               if enabledTiles = 0 then None
               else if unat enabledTiles > maxTiles then None
               else let disabledTiles = maxTiles - unat enabledTiles in
                    Some (if disabledTiles \<noteq> 0
                          then hw\<lparr>tileConfig := push_bit disabledTiles 1 - 1\<rparr> else hw)))"

definition configureNullDevice :: "(string \<Rightarrow> string option) \<Rightarrow> null_dev \<Rightarrow> null_dev option" where
  "configureNullDevice getenv st =
     (case getenv ''ZE_INTEL_NPU_PLATFORM_OVERRIDE'' of None \<Rightarrow> None
      | Some env \<Rightarrow>
          (case platform_of_name env of None \<Rightarrow> None
           | Some devId \<Rightarrow>
               (case getHwInfoByDeviceId devId of Inl e \<Rightarrow> None
                | Inr table \<Rightarrow>
                    let hw = table\<lparr>deviceId := devId\<rparr>;
                        st' = st\<lparr>deviceAddress := 0xc0000000\<rparr>
                    in map_option (\<lambda>hw'. st'\<lparr>nullHwInfo := hw'\<rparr>)
                         (Option.bind (override_revision (getenv ''ZE_INTEL_NPU_REVISION_OVERRIDE'') hw)
                            (\<lambda>hw1. Option.bind
                               (override_disabled_tiles (getenv ''ZE_INTEL_NPU_DISABLED_TILE_OVERRIDE'') hw1)
                               (override_tile_count (getenv ''ZE_INTEL_NPU_TILE_COUNT_OVERRIDE'')))))))"

section \<open>The operations\<close>

definition null_open :: "string \<Rightarrow> null_dev world \<Rightarrow> int \<times> null_dev world" where
  "null_open pathname w =
     (if pathname \<noteq> ''/dev/accel/accel0'' then (- 1, w)
      else if devnull_fd (kern w) = - 1 then (- 1, w)
      else (devnull_fd (kern w), w))"

definition fail_EINVAL :: "null_dev world \<Rightarrow> null_dev world" where
  "fail_EINVAL w = w\<lparr>errno := EINVAL\<rparr>"

definition getParamValue ::
  "drm_ivpu_param \<Rightarrow> null_dev world \<Rightarrow> int \<times> drm_ivpu_param \<times> null_dev world" where
  "getParamValue p w =
     (let hw = nullHwInfo (kern w);
          val = (\<lambda>v. (0, p\<lparr>param_value := v\<rparr>, w))
      in if param p = DRM_IVPU_PARAM_DEVICE_ID then val (ucast (deviceId hw))
         else if param p = DRM_IVPU_PARAM_DEVICE_REVISION then val (ucast (deviceRevision hw))
         else if param p = DRM_IVPU_PARAM_CORE_CLOCK_RATE then val 0
         else if param p = DRM_IVPU_PARAM_NUM_CONTEXTS then val 64
         else if param p = DRM_IVPU_PARAM_CAPABILITIES then
           (if param_index p = DRM_IVPU_CAP_METRIC_STREAMER then val 0
            else if param_index p = DRM_IVPU_CAP_DMA_MEMORY_RANGE then val 1
            else val 0)
         else if param p = DRM_IVPU_PARAM_UNIQUE_INFERENCE_ID then
           (0, p\<lparr>param_value := ucast (unique_id (kern w))\<rparr>,
            w\<lparr>kern := (kern w)\<lparr>unique_id := unique_id (kern w) + 1\<rparr>\<rparr>)
         else if param p = DRM_IVPU_PARAM_FW_API_VERSION then
           (if param_index p = fwMappedInferenceIndex hw then val (fwMappedInferenceVersion hw)
            else (0, p, w))
         else if param p = DRM_IVPU_PARAM_PLATFORM_TYPE then val 0
         else if param p = DRM_IVPU_PARAM_TILE_CONFIG then val (ucast (tileConfig hw))
         else (- 1, p, fail_EINVAL w))"

definition null_page_size :: u64 where "null_page_size = 4096"

definition strncpy :: "string \<Rightarrow> string \<Rightarrow> nat \<Rightarrow> string" where
  "strncpy dst src n = take n (src @ replicate (n - length src) (CHR 0x00)) @ drop n dst"

fun null_ioctl ::
  "int \<Rightarrow> ioctl option \<Rightarrow> null_dev world \<Rightarrow> int \<times> ioctl option \<times> null_dev world" where
  "null_ioctl fd None w = (- 1, None, fail_EINVAL w)"
| "null_ioctl fd (Some req) w =
     (case req of
        Io_version v \<Rightarrow>
          (let v1 = v\<lparr>version_major := 1, version_minor := 0\<rparr> in
           if unat (name_len v1) < length ''intel_npu''
           then (0, Some (Io_version (v1\<lparr>name_len := word_of_nat (length ''intel_npu'')\<rparr>)), w)
           else (0, Some (Io_version (v1\<lparr>drm_name :=
                   map_option (\<lambda>d. strncpy d ''intel_npu'' (unat (name_len v1))) (drm_name v1)\<rparr>)), w))
      | Io_get_param p \<Rightarrow> (case getParamValue p w of (r, p', w') \<Rightarrow> (r, Some (Io_get_param p'), w'))
      | Io_bo_create b \<Rightarrow>
          (0, Some (Io_bo_create (b\<lparr>boc_vpu_addr := deviceAddress (kern w)\<rparr>)),
           w\<lparr>kern := (kern w)\<lparr>deviceAddress :=
               deviceAddress (kern w) + ALIGN (boc_size b) null_page_size\<rparr>\<rparr>)
      | Io_bo_info i \<Rightarrow> (0, Some (Io_bo_info (i\<lparr>boi_mmap_offset := 100\<rparr>)), w)
      | Io_bo_wait b \<Rightarrow> (0, Some (Io_bo_wait (b\<lparr>bow_job_status := 0\<rparr>)), w)
      | Io_set_param _ \<Rightarrow> (0, Some req, w)
      | Io_submit _ \<Rightarrow> (0, Some req, w)
      | Io_metric_start _ \<Rightarrow> (0, Some req, w)
      | Io_metric_stop _ \<Rightarrow> (0, Some req, w)
      | Io_metric_get_data _ \<Rightarrow> (0, Some req, w)
      | Io_metric_get_info _ \<Rightarrow> (0, Some req, w)
      | Io_gem_close _ \<Rightarrow> (0, Some req, w)
      | Io_prime_handle_to_fd _ \<Rightarrow> (0, Some req, w)
      | Io_prime_fd_to_handle _ \<Rightarrow> (0, Some req, w)
      | _ \<Rightarrow> (- 1, Some req, fail_EINVAL w))"

text \<open>
  \<open>posix_memalign\<close> with the page size, of an allocator that hands out the addresses from
  \<open>heap_top\<close> upwards and fails at the end of the 47-bit user address space.
\<close>

definition null_mmap :: "u64 \<Rightarrow> int \<Rightarrow> u64 \<Rightarrow> null_dev world \<Rightarrow> u64 \<times> null_dev world" where
  "null_mmap sz fd offset w =
     (let p = heap_top (kern w) in
      if unat p + unat sz + 4096 > 2 ^ 47 then (0, w)
      else (p, w\<lparr>kern := (kern w)\<lparr>heap_top := p + ALIGN (sz + 1) null_page_size\<rparr>\<rparr>))"

definition null_munmap :: "u64 \<Rightarrow> u64 \<Rightarrow> null_dev world \<Rightarrow> int \<times> null_dev world" where
  "null_munmap addr sz w = (0, w)"

definition null_os :: "null_dev os_interface" where
  "null_os = \<lparr> osiOpen = null_open, osiClose = (\<lambda>fd w. (0, w)), osiIoctl = null_ioctl,
     osiGetSystemPageSize = null_page_size, osiMmap = null_mmap, osiMunmap = null_munmap \<rparr>"

section \<open>The contract holds\<close>

lemma getParamValue_errno: "getParamValue p w = (r, p', w') \<Longrightarrow> r = - 1 \<Longrightarrow> errno w' > 0"
  by (auto simp: getParamValue_def Let_def fail_EINVAL_def EINVAL_def split: if_splits)

lemma null_ioctl_errno: "null_ioctl fd arg w = (r, arg', w') \<Longrightarrow> r = - 1 \<Longrightarrow> errno w' > 0"
  using getParamValue_errno
  by (cases arg) (auto simp: fail_EINVAL_def EINVAL_def Let_def split: ioctl.splits if_splits prod.splits)

lemma null_ioctl_request:
  "null_ioctl fd (Some a) w = (r, arg', w') \<Longrightarrow> \<exists>a'. arg' = Some a' \<and> request_nr a' = request_nr a"
  by (cases a) (auto simp: Let_def split: if_splits prod.splits)

interpretation null_os: posix_os null_os
proof (unfold_locales, goal_cases)
  case 1 then show ?case using null_ioctl_errno by (simp add: null_os_def)
next
  case 2 then show ?case using null_ioctl_request by (simp add: null_os_def)
qed

section \<open>The null device keeps the contract of the driver API\<close>

text \<open>The allocator's heap is the addresses below its top, which is page aligned.\<close>

definition null_mapped :: "null_dev world \<Rightarrow> u64 \<Rightarrow> bool" where
  "null_mapped w x \<longleftrightarrow> unat x < unat (heap_top (kern w))"

lemma null_ioctl_frame:
  "null_ioctl fd arg w = (r, arg', w') \<Longrightarrow> world_frame null_mapped w w' \<and> stats w' = stats w"
  by (cases arg)
    (auto simp: Let_def world_frame_def null_mapped_def getParamValue_def fail_EINVAL_def
      split: ioctl.splits if_splits prod.splits)

lemma null_doIoctl_frame:
  "doIoctl null_os fd (Some a) w = Some (r, arg', w') \<Longrightarrow> world_frame null_mapped w w'"
proof (cases "fd < 0")
  case False
  assume "doIoctl null_os fd (Some a) w = Some (r, arg', w')"
  then have "null_ioctl fd (Some a) w = (r, arg', w')"
    using False null_os.doIoctl_once[of fd a w] by (simp add: null_os_def)
  then show ?thesis using null_ioctl_frame by blast
qed (simp add: doIoctl_def world_frame_def)

lemma null_request_frame:
  "the (request null_os fd a get w) = (r, w') \<Longrightarrow> world_frame null_mapped w w'"
  using null_os.request_returns[of fd a get w]
  by (auto simp: request_def split: option.splits prod.splits if_splits dest: null_doIoctl_frame)

lemma null_request_code_frame:
  "the (request_code null_os fd a w) = (r, w') \<Longrightarrow> world_frame null_mapped w w'"
  using null_os.request_code_returns[of fd a w]
  by (auto simp: request_code_def split: option.splits prod.splits dest: null_doIoctl_frame)

lemma null_mmap_spec:
  assumes "drv_mmap null_os fd sz off w = (p, w')"
  shows "world_frame null_mapped w w' \<and> (p \<noteq> 0 \<longrightarrow>
     unat p + max 1 (unat sz) < 2 ^ 64 \<and> (\<forall>x. spans p sz x \<longrightarrow> \<not> null_mapped w x \<and> null_mapped w' x))"
proof (cases "unat (heap_top (kern w)) + unat sz + 4096 > 2 ^ 47")
  case True
  then show ?thesis
    using assms by (simp add: drv_mmap_def null_os_def null_mmap_def Let_def MAP_FAILED_def world_frame_def)
next
  case False
  let ?h = "heap_top (kern w)"
  have sz1: "unat (sz + 1) = unat sz + 1" using False by (subst unat_plus_64) auto
  have al: "unat sz + 1 \<le> unat (ALIGN (sz + 1) (2 ^ 12))" "unat (ALIGN (sz + 1) (2 ^ 12)) < unat sz + 1 + 4096"
    using ALIGN_bounds[of 12 "sz + 1"] False unfolding sz1 by auto
  have top: "unat (?h + ALIGN (sz + 1) null_page_size) = unat ?h + unat (ALIGN (sz + 1) (2 ^ 12))"
    using al False by (subst unat_plus_64) (auto simp: null_page_size_def)
  have "unat MAP_FAILED = 2 ^ 64 - 1"
    by (simp add: MAP_FAILED_def unsigned_minus_1_eq_mask mask_eq_exp_minus_1)
  then have "?h \<noteq> MAP_FAILED" using False by auto
  then have r: "p = ?h" "kern w' = (kern w)\<lparr>heap_top := ?h + ALIGN (sz + 1) null_page_size\<rparr>"
    "bo_counter w' = bo_counter w"
    using assms False by (auto simp: drv_mmap_def null_os_def null_mmap_def Let_def)
  show ?thesis
    using False al unfolding world_frame_def null_mapped_def spans_def r
    by (auto simp: top)
qed

interpretation null_drv: driver_contract "mk_drv_api null_os fd" null_mapped for fd
proof (unfold_locales, goal_cases)
  case 7 then show ?case using null_mmap_spec by (fastforce simp: mk_drv_api_def)
next
  case 8 then show ?case using null_mmap_spec by (fastforce simp: mk_drv_api_def)
next
  case 9 then show ?case by (simp add: mk_drv_api_def drv_unmap_def null_os_def null_munmap_def)
next
  case 10 then show ?case by (simp add: mk_drv_api_def drv_unmap_def null_os_def null_munmap_def)
next
  case 11 then show ?case by (simp add: null_mapped_def)
qed (auto simp: mk_drv_api_def createBuffer_def getBufferInfo_def getExtBufferInfo_def closeBuffer_def
    importBuffer_def createBufferFromUserPtr_def dest: null_request_frame null_request_code_frame)

end
