(* ===== verification/Context_Invariant.thy ===== *)
theory Context_Invariant
  imports Device_Context Null_Device
begin

text \<open>
  The invariant of a device context. The objects that hold a range of the process memory
  (\<open>claims\<close>) never overlap, their ranges are mapped, and no two of them share an identity;
  the cached buffers have no host mapping. Every operation of the context keeps it, given
  the contract of the driver API; the operations are collected in the step relation
  \<open>ctx_step\<close>, and the invariant holds in every context reachable from a new one.
\<close>

section \<open>The invariant\<close>

text \<open>What an object holds: its identity and its host range. The location is no part of it.\<close>

type_synonym claim = "u64 \<times> u64 \<times> u64"

definition claim_of :: "buffer_object \<Rightarrow> claim" where
  "claim_of b = (bo_id b, basePtr b, allocSize b)"

fun claim_spans :: "claim \<Rightarrow> u64 \<Rightarrow> bool" where
  "claim_spans (i, p, s) x = spans p s x"

definition objects :: "'k dev_ctx \<Rightarrow> buffer_object set" where
  "objects c = snd ` set (trackedBuffers c) \<union> set (detached c) \<union> set (untrackedBuffers c)
     \<union> set (scratchBuffers c) \<union> set (preemptionBuffers c)"

definition alive_objects :: "'k dev_ctx \<Rightarrow> buffer_object set" where
  "alive_objects c = snd ` set (trackedBuffers c) \<union> set (detached c)
     \<union> {b \<in> set (untrackedBuffers c). use_count c (bo_id b) > 0}"

definition claims :: "'k dev_ctx \<Rightarrow> claim set" where
  "claims c = claim_of ` {b \<in> alive_objects c. basePtr b \<noteq> 0}"

definition tracked_keys :: "buffer_object ptr_map \<Rightarrow> bool" where
  "tracked_keys m \<longleftrightarrow> descending m \<and> (\<forall>(k, b) \<in> set m. k = basePtr b \<and> k \<noteq> 0)"

fun held :: "('k world \<Rightarrow> u64 \<Rightarrow> bool) \<Rightarrow> 'k world \<Rightarrow> claim \<Rightarrow> bool" where
  "held mapped w (i, p, s) \<longleftrightarrow>
     unat p + max 1 (unat s) < 2 ^ 64 \<and> (\<forall>x. spans p s x \<longrightarrow> mapped w x)"

definition disjoint_claims :: "claim set \<Rightarrow> bool" where
  "disjoint_claims S \<longleftrightarrow>
     (\<forall>r1 \<in> S. \<forall>r2 \<in> S. fst r1 \<noteq> fst r2 \<longrightarrow> (\<forall>x. \<not> (claim_spans r1 x \<and> claim_spans r2 x)))"

definition ids_below :: "'k dev_ctx \<Rightarrow> bool" where
  "ids_below c \<longleftrightarrow> (\<forall>b \<in> objects c. bo_id b \<le> bo_counter (ctx_world c))
     \<and> (\<forall>i. owners c i > 0 \<longrightarrow> i \<le> bo_counter (ctx_world c))"

definition detached_ok :: "'k dev_ctx \<Rightarrow> bool" where
  "detached_ok c \<longleftrightarrow> (\<forall>d \<in> set (detached c). owners c (bo_id d) > 0 \<and> basePtr d \<noteq> 0
     \<and> bo_id d \<notin> bo_id ` snd ` set (trackedBuffers c))"

definition ctx_ok :: "('k world \<Rightarrow> u64 \<Rightarrow> bool) \<Rightarrow> 'k dev_ctx \<Rightarrow> bool" where
  "ctx_ok mapped c \<longleftrightarrow>
     tracked_keys (trackedBuffers c)
     \<and> (\<forall>r \<in> claims c. held mapped (ctx_world c) r)
     \<and> disjoint_claims (claims c) \<and> inj_on fst (claim_of ` objects c)
     \<and> ids_below c
     \<and> detached_ok c
     \<and> (\<forall>b \<in> set (scratchBuffers c) \<union> set (preemptionBuffers c). basePtr b = 0)"

section \<open>What the calls on one buffer do to the world\<close>

context driver_contract
begin

lemma frame_refl: "world_frame mapped w w"
  by (simp add: world_frame_def)

lemma frame_trans: "world_frame mapped w w1 \<Longrightarrow> world_frame mapped w1 w2 \<Longrightarrow> world_frame mapped w w2"
  by (auto simp: world_frame_def)

lemma closeBuffer_snd: "world_frame mapped w (snd (da_closeBuffer drv h w))"
  by (rule closeBuffer_frame) (rule prod.collapse[symmetric])

lemma mapped_counter [simp]: "mapped (w\<lparr>bo_counter := n\<rparr>) x = mapped w x"
  using mapped_singletons[where w = w and n = n and s = "stats w"] by simp

lemma mapped_stats [simp]: "mapped (w\<lparr>stats := s\<rparr>) x = mapped w x"
  using mapped_singletons[where w = w and n = "bo_counter w" and s = s] by simp

lemma frame_stats: "world_frame mapped w (w\<lparr>stats := s\<rparr>)"
  by (simp add: world_frame_def)

lemma bo_destroy_frame:
  "bo_counter (bo_destroy drv b w) = bo_counter w"
  "mapped w x \<Longrightarrow> basePtr b \<noteq> 0 \<longrightarrow> \<not> claim_spans (claim_of b) x \<Longrightarrow> mapped (bo_destroy drv b w) x"
proof -
  define w1 where "w1 = (if bo_location b \<noteq> UserPtr \<and> basePtr b \<noteq> 0
      then snd (da_unmap drv (basePtr b) (allocSize b) w) else w)"
  have 1: "bo_counter w1 = bo_counter w"
    using unmap_counter[OF prod.collapse[symmetric]] by (simp add: w1_def)
  have 2: "mapped w1 x" if "mapped w x" "basePtr b \<noteq> 0 \<longrightarrow> \<not> claim_spans (claim_of b) x" for x
    using unmap_others[OF prod.collapse[symmetric]] that by (auto simp: w1_def claim_of_def)
  have 3: "world_frame mapped w1 (bo_destroy drv b w)"
    unfolding bo_destroy_def w1_def[symmetric] Let_def
    using closeBuffer_snd[of w1] frame_trans[OF frame_stats closeBuffer_snd] frame_refl
    by (simp split: if_split)
  show "bo_counter (bo_destroy drv b w) = bo_counter w"
    using 1 3 by (simp add: world_frame_def)
  show "mapped w x \<Longrightarrow> basePtr b \<noteq> 0 \<longrightarrow> \<not> claim_spans (claim_of b) x \<Longrightarrow> mapped (bo_destroy drv b w) x"
    using 2 3 by (simp add: world_frame_def)
qed

text \<open>A created object: a new identity, and a fresh range if it is mapped at all.\<close>

definition new_object :: "'k world \<Rightarrow> buffer_object \<Rightarrow> 'k world \<Rightarrow> bool" where
  "new_object w b w' \<longleftrightarrow> bo_id b = bo_counter w + 1 \<and> bo_counter w' = bo_id b
     \<and> (\<forall>x. mapped w x \<longrightarrow> mapped w' x)
     \<and> (basePtr b \<noteq> 0 \<longrightarrow> held mapped w' (claim_of b) \<and> (\<forall>x. claim_spans (claim_of b) x \<longrightarrow> \<not> mapped w x))"

lemma make_new_object:
  assumes "world_frame mapped w w1" "make_buffer_object loc ty ptr sz h va w1 = (b, w')"
    "ptr \<noteq> 0 \<Longrightarrow> unat ptr + max 1 (unat sz) < 2 ^ 64 \<and> (\<forall>x. spans ptr sz x \<longrightarrow> \<not> mapped w x \<and> mapped w1 x)"
  shows "new_object w b w' \<and> basePtr b = ptr \<and> allocSize b = sz"
  using assms by (auto simp: make_buffer_object_def Let_def new_object_def world_frame_def claim_of_def)

lemma mmap_after:
  assumes "world_frame mapped w w2" "da_mmap drv sz off w2 = (ptr, w3)" "ptr \<noteq> 0"
  shows "unat ptr + max 1 (unat sz) < 2 ^ 64 \<and> (\<forall>x. spans ptr sz x \<longrightarrow> \<not> mapped w x \<and> mapped w3 x)"
  using mmap_fresh[OF assms(2,3)] assms(1) by (auto simp: world_frame_def)

lemma bo_create_spec:
  assumes "bo_create drv loc ty sz w = (r, w')"
  shows "case r of
      Inr (Some b) \<Rightarrow> new_object w b w' \<and> allocSize b = sz \<and> (basePtr b \<noteq> 0 \<longleftrightarrow> ty AND DRM_IVPU_BO_MAPPABLE \<noteq> 0)
    | _ \<Rightarrow> world_frame mapped w w'"
proof -
  obtain r1 w1 where c1: "da_createBuffer drv sz ty w = (r1, w1)" by force
  note f1 = createBuffer_frame[OF c1]
  show ?thesis
  proof (cases r1)
    case (Inl e)
    then show ?thesis using assms f1 by (auto simp: bo_create_def c1)
  next
    case (Inr hv)
    obtain h va where hv: "hv = (h, va)" by force
    obtain r2 w2 where c2: "da_getBufferInfo drv h w1 = (r2, w2)" by force
    have f2: "world_frame mapped w w2" using f1 getBufferInfo_frame[OF c2] frame_trans by blast
    show ?thesis
    proof (cases r2)
      case Inl2: (Inl e)
      then show ?thesis using assms frame_trans[OF f2 closeBuffer_snd[of w2]]
        by (auto simp: bo_create_def c1 c2 Inr hv)
    next
      case Inr2: (Inr offset)
      define fin where "fin = (\<lambda>ptr (w3 :: 'k world).
          let w4 = (if stats_enabled (stats w3)
                    then w3\<lparr>stats := stats_inc loc (page_aligned_size drv sz) (stats w3)\<rparr> else w3)
          in case make_buffer_object loc ty ptr sz h va w4 of (bo, w5) \<Rightarrow> (Inr (Some bo) :: exn + buffer_object option, w5))"
      have fin_spec: "\<exists>b w5. fin ptr w3 = (Inr (Some b), w5) \<and> new_object w b w5 \<and> basePtr b = ptr \<and> allocSize b = sz"
        if "world_frame mapped w w3" "ptr \<noteq> 0 \<Longrightarrow> unat ptr + max 1 (unat sz) < 2 ^ 64
              \<and> (\<forall>x. spans ptr sz x \<longrightarrow> \<not> mapped w x \<and> mapped w3 x)" for ptr w3
      proof -
        define w4 where "w4 = (if stats_enabled (stats w3)
                    then w3\<lparr>stats := stats_inc loc (page_aligned_size drv sz) (stats w3)\<rparr> else w3)"
        have "world_frame mapped w w4" "\<And>x. mapped w4 x = mapped w3 x"
          using frame_trans[OF that(1) frame_stats] that(1) by (auto simp: w4_def)
        moreover obtain b w5 where mk: "make_buffer_object loc ty ptr sz h va w4 = (b, w5)" by force
        ultimately show ?thesis using make_new_object[OF _ mk, of w] that(2)
          by (simp add: fin_def w4_def[symmetric] mk)
      qed
      have body: "bo_create drv loc ty sz w =
          (if ty AND DRM_IVPU_BO_MAPPABLE \<noteq> 0
           then (case safe_cast_off offset of Inl e \<Rightarrow> (Inl e, w2)
                 | Inr off \<Rightarrow> (case da_mmap drv sz off w2 of (ptr, w3) \<Rightarrow>
                     if ptr = 0 then (Inr None, snd (da_closeBuffer drv h w3)) else fin ptr w3))
           else fin 0 w2)"
        by (simp add: bo_create_def c1 c2 Inr hv Inr2 fin_def Let_def split: sum.split prod.split)
      show ?thesis
      proof (cases "ty AND DRM_IVPU_BO_MAPPABLE = 0")
        case True
        then show ?thesis using fin_spec[OF f2, of 0] assms body by auto
      next
        case False
        show ?thesis
        proof (cases "safe_cast_off offset")
          case (Inl e) then show ?thesis using False assms body f2 by auto
        next
          case Inr3: (Inr off)
          obtain ptr w3 where c3: "da_mmap drv sz off w2 = (ptr, w3)" by force
          have f3: "world_frame mapped w w3" using frame_trans[OF f2 mmap_frame[OF c3]] .
          show ?thesis
          proof (cases "ptr = 0")
            case True
            then show ?thesis using False assms body Inr3 c3 frame_trans[OF f3 closeBuffer_snd[of w3]] by auto
          next
            case p: False
            then show ?thesis
              using False assms body Inr3 c3 fin_spec[OF f3 mmap_after[OF f2 c3]] by auto
          qed
        qed
      qed
    qed
  qed
qed

lemma bo_import_spec:
  assumes "bo_importFromFd drv loc fd w = (r, w')"
  shows "case r of
      Inr (Some b) \<Rightarrow> new_object w b w' \<and> basePtr b \<noteq> 0
    | _ \<Rightarrow> world_frame mapped w w'"
proof -
  obtain r1 w1 where c1: "da_importBuffer drv fd 0 w = (r1, w1)" by force
  note f1 = importBuffer_frame[OF c1]
  show ?thesis
  proof (cases r1)
    case (Inl e) then show ?thesis using assms f1 by (auto simp: bo_importFromFd_def c1)
  next
    case (Inr h)
    obtain r2 w2 where c2: "da_getExtBufferInfo drv h w1 = (r2, w2)" by force
    have f2: "world_frame mapped w w2" using f1 getExtBufferInfo_frame[OF c2] frame_trans by blast
    show ?thesis
    proof (cases r2)
      case Inl2: (Inl e)
      then show ?thesis using assms f2 by (auto simp: bo_importFromFd_def c1 c2 Inr)
    next
      case Inr2: (Inr info)
      obtain flags va sz offset where info: "info = (flags, va, sz, offset)" by (cases info)
      show ?thesis
      proof (cases "safe_cast_off offset")
        case Inl3: (Inl e)
        then show ?thesis using assms f2 by (auto simp: bo_importFromFd_def c1 c2 Inr Inr2 info)
      next
        case Inr3: (Inr off)
        obtain ptr w3 where c3: "da_mmap drv sz off w2 = (ptr, w3)" by force
        have f3: "world_frame mapped w w3" using frame_trans[OF f2 mmap_frame[OF c3]] .
        obtain b w4 where mk: "make_buffer_object loc ImportedMemory ptr sz h va w3 = (b, w4)" by force
        show ?thesis
          using assms f3 make_new_object[OF f3 mk mmap_after[OF f2 c3]]
          by (auto simp: bo_importFromFd_def c1 c2 Inr Inr2 info Inr3 c3 mk split: if_splits)
      qed
    qed
  qed
qed

end

section \<open>Changes of a context that keep the invariant\<close>

lemma claim_mem: "b \<in> alive_objects c \<Longrightarrow> basePtr b \<noteq> 0 \<Longrightarrow> claim_of b \<in> claims c"
  by (auto simp: claims_def)

lemma alive_objects_subset: "alive_objects c \<subseteq> objects c"
  by (auto simp: alive_objects_def objects_def)

lemma claims_id_below: "ids_below c \<Longrightarrow> r \<in> claims c \<Longrightarrow> fst r \<le> bo_counter (ctx_world c)"
  using alive_objects_subset[of c] by (auto simp: ids_below_def claims_def claim_of_def)

lemma held_spans: "held mapped w r \<Longrightarrow> claim_spans r x \<Longrightarrow> mapped w x"
  by (cases r) auto

lemma ctx_ok_shrink:
  assumes "ctx_ok mapped c" "tracked_keys (trackedBuffers c')"
    and "claims c' \<subseteq> claims c"
    and "\<And>r x. r \<in> claims c' \<Longrightarrow> claim_spans r x \<Longrightarrow> mapped (ctx_world c) x \<Longrightarrow> mapped (ctx_world c') x"
    and "claim_of ` objects c' \<subseteq> claim_of ` objects c"
    and "bo_counter (ctx_world c) \<le> bo_counter (ctx_world c')"
    and "\<And>i. owners c' i > 0 \<Longrightarrow> owners c i > 0 \<or> i \<in> bo_id ` objects c"
    and "detached_ok c'"
    and "\<And>b. b \<in> set (scratchBuffers c') \<union> set (preemptionBuffers c') \<Longrightarrow> basePtr b = 0"
  shows "ctx_ok mapped c'"
proof -
  have c: "\<forall>r \<in> claims c. held mapped (ctx_world c) r" "disjoint_claims (claims c)"
    "inj_on fst (claim_of ` objects c)" "ids_below c"
    using assms(1) by (auto simp: ctx_ok_def)
  have "held mapped (ctx_world c') r" if "r \<in> claims c'" for r
  proof -
    have "held mapped (ctx_world c) r" using that assms(3) c(1) by blast
    then show ?thesis using assms(4)[OF that] by (cases r) auto
  qed
  moreover have "disjoint_claims (claims c')"
    using c(2) assms(3) by (meson disjoint_claims_def subsetD)
  moreover have "inj_on fst (claim_of ` objects c')" using c(3) assms(5) by (rule inj_on_subset)
  moreover have "ids_below c'"
  proof -
    have old: "i \<le> bo_counter (ctx_world c')" if "owners c i > 0 \<or> i \<in> bo_id ` objects c" for i
    proof -
      have "i \<le> bo_counter (ctx_world c)" using that c(4) by (auto simp: ids_below_def)
      then show ?thesis using assms(6) by (rule order_trans)
    qed
    have "bo_id b \<in> bo_id ` objects c" if "b \<in> objects c'" for b
      using that assms(5) by (force simp: claim_of_def)
    then have "bo_id b \<le> bo_counter (ctx_world c')" if "b \<in> objects c'" for b
      using that old by blast
    moreover have "i \<le> bo_counter (ctx_world c')" if "owners c' i > 0" for i
      using that assms(7) old by blast
    ultimately show ?thesis by (simp add: ids_below_def)
  qed
  ultimately show ?thesis using assms(2,8,9) by (auto simp: ctx_ok_def)
qed

text \<open>An object that joins a context: its range overlaps no other.\<close>

definition joins :: "('k world \<Rightarrow> u64 \<Rightarrow> bool) \<Rightarrow> 'k dev_ctx \<Rightarrow> buffer_object \<Rightarrow> 'k world \<Rightarrow> bool" where
  "joins mapped c b w' \<longleftrightarrow> bo_id b = bo_counter (ctx_world c) + 1 \<and> bo_counter w' = bo_id b
     \<and> unat (bo_counter (ctx_world c)) + 1 < 2 ^ 64
     \<and> (\<forall>x. mapped (ctx_world c) x \<longrightarrow> mapped w' x)
     \<and> (basePtr b \<noteq> 0 \<longrightarrow> held mapped w' (claim_of b)
          \<and> (\<forall>r \<in> claims c. \<forall>x. \<not> (claim_spans r x \<and> claim_spans (claim_of b) x)))"

lemma ctx_ok_add:
  assumes "ctx_ok mapped c" "tracked_keys (trackedBuffers c')"
    and new: "joins mapped c b (ctx_world c')"
    and cl: "claims c' \<subseteq> (if basePtr b \<noteq> 0 then insert (claim_of b) (claims c) else claims c)"
    and obj: "claim_of ` objects c' \<subseteq> insert (claim_of b) (claim_of ` objects c)"
    and own: "\<And>i. owners c' i > 0 \<Longrightarrow> owners c i > 0 \<or> i = bo_id b"
    and det: "detached_ok c'"
    and cache: "\<And>b. b \<in> set (scratchBuffers c') \<union> set (preemptionBuffers c') \<Longrightarrow> basePtr b = 0"
  shows "ctx_ok mapped c'"
proof -
  let ?w = "ctx_world c" and ?w' = "ctx_world c'"
  have c: "\<forall>r \<in> claims c. held mapped ?w r" "disjoint_claims (claims c)"
    "inj_on fst (claim_of ` objects c)" "ids_below c"
    using assms(1) by (auto simp: ctx_ok_def)
  have cnt: "bo_counter ?w < bo_id b" "bo_counter ?w' = bo_id b"
    using new by (auto simp: joins_def word_less_nat_alt unat_plus_64)
  have old_id: "bo_id o1 < bo_id b" if "o1 \<in> objects c" for o1
  proof -
    have "bo_id o1 \<le> bo_counter ?w" using that c(4) by (simp add: ids_below_def)
    then show ?thesis using cnt(1) by (rule le_less_trans)
  qed
  have mono: "mapped ?w' x" if "mapped ?w x" for x using new that by (auto simp: joins_def)
  have old_held: "held mapped ?w' r" if "r \<in> claims c" for r
    using c(1) that mono by (cases r) auto
  have apart: "\<not> (claim_spans r x \<and> claim_spans (claim_of b) x)" if "r \<in> claims c" "basePtr b \<noteq> 0" for r x
    using that new by (auto simp: joins_def)
  have m: "r \<in> claims c \<or> r = claim_of b \<and> basePtr b \<noteq> 0" if "r \<in> claims c'" for r
    using that cl by (auto split: if_splits)
  have "held mapped ?w' r" if "r \<in> claims c'" for r
    using m[OF that] old_held[of r] new unfolding joins_def by blast
  moreover have "disjoint_claims (claims c')"
    unfolding disjoint_claims_def
  proof (intro ballI impI allI)
    fix r1 r2 x assume r: "r1 \<in> claims c'" "r2 \<in> claims c'" "fst r1 \<noteq> fst r2"
    show "\<not> (claim_spans r1 x \<and> claim_spans r2 x)"
      using m[OF r(1)] m[OF r(2)] apart r(3) c(2) unfolding disjoint_claims_def by blast
  qed
  moreover have "inj_on fst (claim_of ` objects c')"
  proof (rule inj_on_subset[OF _ obj])
    have "fst (claim_of b) \<notin> fst ` (claim_of ` objects c)"
      using old_id by (force simp: claim_of_def)
    then show "inj_on fst (insert (claim_of b) (claim_of ` objects c))"
      using c(3) by (auto simp: inj_on_insert)
  qed
  moreover have "ids_below c'"
  proof -
    have old: "i \<le> bo_counter ?w'" if "owners c i > 0 \<or> i \<in> bo_id ` objects c" for i
    proof -
      have "i \<le> bo_counter ?w" using that c(4) by (auto simp: ids_below_def)
      also have "\<dots> \<le> bo_counter ?w'" using cnt by simp
      finally show ?thesis .
    qed
    have bid: "bo_id b' = bo_id b \<or> bo_id b' \<in> bo_id ` objects c" if "b' \<in> objects c'" for b'
      using that obj by (force simp: claim_of_def)
    have "bo_id b' \<le> bo_counter ?w'" if "b' \<in> objects c'" for b'
      using bid[OF that] old[of "bo_id b'"] cnt(2) by auto
    moreover have "i \<le> bo_counter ?w'" if "owners c' i > 0" for i
      using own[OF that] old[of i] cnt(2) by auto
    ultimately show ?thesis by (simp add: ids_below_def)
  qed
  ultimately show ?thesis using assms(2) det cache by (auto simp: ctx_ok_def)
qed

lemma use_count_world [simp]: "use_count (c\<lparr>ctx_world := w\<rparr>) i = use_count c i"
  by (simp add: use_count_def)

lemma objects_world [simp]: "objects (c\<lparr>ctx_world := w\<rparr>) = objects c"
  by (simp add: objects_def)

lemma claims_world [simp]: "claims (c\<lparr>ctx_world := w\<rparr>) = claims c"
  by (simp add: claims_def alive_objects_def)

lemma detached_ok_world [simp]: "detached_ok (c\<lparr>ctx_world := w\<rparr>) = detached_ok c"
  by (simp add: detached_ok_def)

lemma tracked_keys_of: "ctx_ok mapped c \<Longrightarrow> tracked_keys (trackedBuffers c)"
  by (simp add: ctx_ok_def)

lemma ctx_ok_world:
  assumes "ctx_ok mapped c" "bo_counter (ctx_world c) \<le> bo_counter w"
    "\<And>r x. r \<in> claims c \<Longrightarrow> claim_spans r x \<Longrightarrow> mapped (ctx_world c) x \<Longrightarrow> mapped w x"
  shows "ctx_ok mapped (c\<lparr>ctx_world := w\<rparr>)"
  using assms by (intro ctx_ok_shrink[OF assms(1)]) (auto simp: ctx_ok_def)

lemma ctx_ok_frame:
  assumes "ctx_ok mapped c" "world_frame mapped (ctx_world c) w"
  shows "ctx_ok mapped (c\<lparr>ctx_world := w\<rparr>)"
  using assms(2) by (intro ctx_ok_world[OF assms(1)]) (auto simp: world_frame_def)

lemma id_count_pos: "id_count i bos > 0 \<longleftrightarrow> i \<in> bo_id ` set bos"
  by (auto simp: id_count_def filter_empty_conv)

lemma id_count_append [simp]: "id_count i (xs @ ys) = id_count i xs + id_count i ys"
  by (simp add: id_count_def)

lemma use_count_pos:
  "use_count c i > 0 \<longleftrightarrow> owners c i > 0
     \<or> i \<in> bo_id ` (snd ` set (trackedBuffers c) \<union> set (scratchBuffers c) \<union> set (preemptionBuffers c))"
  unfolding use_count_def image_Un Un_iff id_count_pos[symmetric]
  by (auto simp: id_count_pos)

text \<open>No counted reference has an identity above the counter.\<close>

lemma use_count_fresh:
  assumes "ctx_ok mapped c" "bo_counter (ctx_world c) < i"
  shows "use_count c i = 0" "i \<notin> bo_id ` objects c" "owners c i = 0"
proof -
  have b: "ids_below c" using assms(1) by (simp add: ctx_ok_def)
  show o: "owners c i = 0" using b assms(2) by (force simp: ids_below_def)
  show n: "i \<notin> bo_id ` objects c" using b assms(2) by (force simp: ids_below_def)
  have "\<not> use_count c i > 0" using o n unfolding use_count_pos objects_def by auto
  then show "use_count c i = 0" by simp
qed

lemma joins_fresh_id:
  "joins mapped c b w \<Longrightarrow> bo_counter (ctx_world c) < bo_id b"
  by (auto simp: joins_def word_less_nat_alt unat_plus_64)

context driver_contract
begin

lemma new_object_joins:
  assumes "ctx_ok mapped c" "new_object (ctx_world c) b w'" "unat (bo_counter (ctx_world c)) + 1 < 2 ^ 64"
  shows "joins mapped c b w'"
proof -
  have h: "held mapped (ctx_world c) r" if "r \<in> claims c" for r
    using that assms(1) by (simp add: ctx_ok_def)
  show ?thesis
    using assms(2,3) held_spans[OF h] unfolding joins_def new_object_def by blast
qed

lemma ctx_ok_destroy:
  assumes "ctx_ok mapped c" "drvApi c = drv"
    and "basePtr b \<noteq> 0 \<Longrightarrow> \<forall>r \<in> claims c. \<forall>x. \<not> (claim_spans r x \<and> claim_spans (claim_of b) x)"
  shows "ctx_ok mapped (destroy_bo b c)"
  unfolding destroy_bo_def assms(2)
  using assms(3) by (intro ctx_ok_world[OF assms(1)]) (auto simp: bo_destroy_frame)

text \<open>The object enters the map of tracked buffers; the map never has its key already.\<close>

lemma track_joins:
  assumes "ctx_ok mapped c" "joins mapped c b w'" "basePtr b \<noteq> 0"
  shows "\<exists>m. track b (c\<lparr>ctx_world := w'\<rparr>) = (Some b, c\<lparr>ctx_world := w', trackedBuffers := m\<rparr>)
     \<and> set m = insert (basePtr b, b) (set (trackedBuffers c))
     \<and> ctx_ok mapped (c\<lparr>ctx_world := w', trackedBuffers := m\<rparr>)"
proof -
  let ?T = "trackedBuffers c"
  have T: "descending ?T" "\<forall>(k, b) \<in> set ?T. k = basePtr b \<and> k \<noteq> 0"
    using tracked_keys_of[OF assms(1)] by (auto simp: tracked_keys_def)
  have new_key: "basePtr b \<notin> keys ?T"
  proof
    assume "basePtr b \<in> keys ?T"
    then obtain b' where b': "(basePtr b, b') \<in> set ?T" by (auto simp: keys_def)
    then have e: "basePtr b' = basePtr b" using T(2) by auto
    have "b' \<in> alive_objects c" using b' by (force simp: alive_objects_def)
    then have "claim_of b' \<in> claims c" using assms(3) e by (intro claim_mem) auto
    moreover have "claim_spans (claim_of b') (basePtr b)" "claim_spans (claim_of b) (basePtr b)"
      by (auto simp: claim_of_def spans_def e)
    ultimately show False using assms(2,3) unfolding joins_def by blast
  qed
  obtain m ok where r: "map_emplace (basePtr b) b ?T = (m, ok)" by force
  have m: "ok" "set m = insert (basePtr b, b) (set ?T)" "descending m"
    using map_emplace_props[OF T(1) r] new_key by auto
  let ?c' = "c\<lparr>ctx_world := w', trackedBuffers := m\<rparr>"
  have uc: "use_count ?c' i > 0 \<Longrightarrow> use_count c i > 0" if "i \<noteq> bo_id b" for i
    using that m(2) by (auto simp: use_count_pos)
  have fresh: "bo_id b \<notin> bo_id ` objects c"
    using use_count_fresh[OF assms(1) joins_fresh_id[OF assms(2)]] by simp
  have alive: "alive_objects ?c' \<subseteq> insert b (alive_objects c)"
  proof
    fix o1 assume "o1 \<in> alive_objects ?c'"
    then consider "o1 \<in> snd ` set m" | "o1 \<in> set (detached c)"
      | "o1 \<in> set (untrackedBuffers c)" "use_count ?c' (bo_id o1) > 0"
      by (auto simp: alive_objects_def)
    then show "o1 \<in> insert b (alive_objects c)"
    proof cases
      case 3
      then have "o1 \<in> objects c" by (simp add: objects_def)
      then have "bo_id o1 \<noteq> bo_id b" using fresh by (metis imageI)
      then show ?thesis using 3 uc by (auto simp: alive_objects_def)
    qed (use m(2) in \<open>auto simp: alive_objects_def\<close>)
  qed
  have "ctx_ok mapped ?c'"
  proof (rule ctx_ok_add[OF assms(1)])
    show "tracked_keys (trackedBuffers ?c')"
      using m T(2) assms(3) by (auto simp: tracked_keys_def)
    show "joins mapped c b (ctx_world ?c')" using assms(2) by simp
    show "claims ?c' \<subseteq> (if basePtr b \<noteq> 0 then insert (claim_of b) (claims c) else claims c)"
      using alive assms(3) by (auto simp: claims_def)
    show "claim_of ` objects ?c' \<subseteq> insert (claim_of b) (claim_of ` objects c)"
      using m(2) by (auto simp: objects_def)
    have "d \<in> objects c" if "d \<in> set (detached c)" for d using that by (simp add: objects_def)
    then show "detached_ok ?c'"
      using assms(1) fresh m(2) by (auto simp: ctx_ok_def detached_ok_def) (metis imageI)
  qed (use assms(1) in \<open>auto simp: ctx_ok_def\<close>)
  then show ?thesis using m r by (auto simp: track_def)
qed

end

end
