(* ===== verification/Context_Steps.thy ===== *)
theory Context_Steps
  imports Context_Invariant
begin

text \<open>
  Every operation of the device context keeps the invariant \<open>ctx_ok\<close>. The operations are
  the rules of \<open>ctx_step\<close>; the invariant, and with it the exactness of the pointer lookup,
  holds in every reachable context.
\<close>

section \<open>Consequences of the invariant\<close>

lemma ctx_ok_parts:
  assumes "ctx_ok mapped c"
  shows "descending (trackedBuffers c)" "\<And>k b. (k, b) \<in> set (trackedBuffers c) \<Longrightarrow> k = basePtr b \<and> k \<noteq> 0"
    "disjoint_claims (claims c)" "inj_on fst (claim_of ` objects c)" "detached_ok c" "ids_below c"
    "\<And>b. b \<in> set (scratchBuffers c) \<union> set (preemptionBuffers c) \<Longrightarrow> basePtr b = 0"
    "\<And>r. r \<in> claims c \<Longrightarrow> held mapped (ctx_world c) r"
  using assms by (auto simp: ctx_ok_def tracked_keys_def)

lemma same_id_same_claim:
  assumes "ctx_ok mapped c" "b1 \<in> objects c" "b2 \<in> objects c" "bo_id b1 = bo_id b2"
  shows "claim_of b1 = claim_of b2"
proof (rule inj_onD[OF ctx_ok_parts(4)[OF assms(1)]])
  show "fst (claim_of b1) = fst (claim_of b2)" using assms(4) by (simp add: claim_of_def)
qed (use assms(2,3) in auto)

lemma tracked_in_objects: "(k, b) \<in> set (trackedBuffers c) \<Longrightarrow> b \<in> objects c \<and> b \<in> alive_objects c"
  by (force simp: objects_def alive_objects_def)

lemma alive_use_count:
  assumes "ctx_ok mapped c" "b \<in> alive_objects c"
  shows "use_count c (bo_id b) > 0"
  using assms ctx_ok_parts(5)[OF assms(1)]
  by (auto simp: alive_objects_def use_count_pos detached_ok_def)

text \<open>A pointer lies in the range of an object exactly when the lookup finds the object.\<close>

lemma ctx_ok_tracked_ok:
  assumes "ctx_ok mapped c"
  shows "tracked_ok (trackedBuffers c)"
proof -
  let ?T = "trackedBuffers c"
  note parts = ctx_ok_parts[OF assms]
  have cl: "claim_of b \<in> claims c \<and> k = basePtr b" if "(k, b) \<in> set ?T" for k b
    using parts(2)[OF that] tracked_in_objects[OF that] claim_mem by auto
  have ok: "bo_ok b" if "(k, b) \<in> set ?T" for k b
    using parts(8) cl[OF that] by (fastforce simp: bo_ok_def claim_of_def)
  have "unat k1 + unat (allocSize b1) \<le> unat k2"
    if "(k1, b1) \<in> set ?T" "(k2, b2) \<in> set ?T" "unat k1 < unat k2" for k1 b1 k2 b2
  proof (rule ccontr)
    assume n: "\<not> unat k1 + unat (allocSize b1) \<le> unat k2"
    have k: "k1 = basePtr b1" "k2 = basePtr b2" using cl[OF that(1)] cl[OF that(2)] by auto
    have "bo_id b1 \<noteq> bo_id b2"
      using same_id_same_claim[OF assms, of b1 b2] tracked_in_objects[OF that(1)]
        tracked_in_objects[OF that(2)] that(3) k by (auto simp: claim_of_def)
    then have "\<not> (claim_spans (claim_of b1) k2 \<and> claim_spans (claim_of b2) k2)"
      using parts(3) cl[OF that(1)] cl[OF that(2)] unfolding disjoint_claims_def claim_of_def
      by fastforce
    then show False using n that(3) by (auto simp: claim_of_def spans_def k)
  qed
  then show ?thesis
    using parts(1) ok cl by (fastforce simp: tracked_ok_def tracked.apart_def)
qed

section \<open>Conditions of the operations\<close>

text \<open>Operations that create an object. \<open>room\<close>: the counter of identities does not wrap.\<close>

definition room :: "'k dev_ctx \<Rightarrow> bool" where
  "room c \<longleftrightarrow> unat (bo_counter (ctx_world c)) + 1 < 2 ^ 64"

text \<open>
  User memory: the caller must not hand over a range that the context already uses.
\<close>

definition userptr_free :: "('k world \<Rightarrow> u64 \<Rightarrow> bool) \<Rightarrow> 'k dev_ctx \<Rightarrow> u64 \<Rightarrow> u64 \<Rightarrow> bool" where
  "userptr_free mapped c p sz \<longleftrightarrow> (case userptr_range c p sz of (base, len) \<Rightarrow>
     base \<noteq> 0 \<and> unat base + max 1 (unat len) < 2 ^ 64
     \<and> (\<forall>x. spans base len x \<longrightarrow> mapped (ctx_world c) x \<and> (\<forall>r \<in> claims c. \<not> claim_spans r x)))"

section \<open>Taking and dropping references\<close>

lemma use_count_take_ref: "use_count (take_ref i c) j > 0 \<longleftrightarrow> use_count c j > 0 \<or> j = i"
  by (auto simp: use_count_pos take_ref_def)

lemma take_ref_fields [simp]:
  "trackedBuffers (take_ref i c) = trackedBuffers c" "untrackedBuffers (take_ref i c) = untrackedBuffers c"
  "scratchBuffers (take_ref i c) = scratchBuffers c" "preemptionBuffers (take_ref i c) = preemptionBuffers c"
  "detached (take_ref i c) = detached c" "ctx_world (take_ref i c) = ctx_world c"
  "drvApi (take_ref i c) = drvApi c" "hwInfo (take_ref i c) = hwInfo c"
  by (simp_all add: take_ref_def)

lemma ctx_ok_take_ref:
  assumes "ctx_ok mapped c" "b \<in> objects c" "use_count c (bo_id b) > 0"
  shows "ctx_ok mapped (take_ref (bo_id b) c)"
proof (rule ctx_ok_shrink[OF assms(1)])
  show "claims (take_ref (bo_id b) c) \<subseteq> claims c"
    using assms(3) by (auto simp: claims_def alive_objects_def use_count_take_ref)
  show "claim_of ` objects (take_ref (bo_id b) c) \<subseteq> claim_of ` objects c" by (simp add: objects_def)
  show "owners c i > 0 \<or> i \<in> bo_id ` objects c" if "owners (take_ref (bo_id b) c) i > 0" for i
    using that assms(2) by (auto simp: take_ref_def split: if_splits)
  show "detached_ok (take_ref (bo_id b) c)"
    using ctx_ok_parts(5)[OF assms(1)] by (auto simp: detached_ok_def take_ref_def)
qed (use tracked_keys_of[OF assms(1)] ctx_ok_parts(7)[OF assms(1)] in auto)

lemma untracked_append_fields:
  "objects (adopt_untracked b c) = insert b (objects c)"
  by (auto simp: objects_def adopt_untracked_def)

lemma ctx_ok_adopt:
  assumes "ctx_ok mapped c" "joins mapped c b w'"
  shows "ctx_ok mapped (adopt_untracked b (c\<lparr>ctx_world := w'\<rparr>))"
proof (rule ctx_ok_add[OF assms(1)])
  let ?c' = "adopt_untracked b (c\<lparr>ctx_world := w'\<rparr>)"
  have uc: "use_count ?c' i > 0 \<longleftrightarrow> use_count c i > 0 \<or> i = bo_id b" for i
    by (auto simp: adopt_untracked_def use_count_take_ref) (auto simp: use_count_pos)
  have fresh: "bo_id b \<notin> bo_id ` objects c"
    using use_count_fresh[OF assms(1) joins_fresh_id[OF assms(2)]] by simp
  have alive: "alive_objects ?c' \<subseteq> insert b (alive_objects c)"
  proof
    fix o1 assume "o1 \<in> alive_objects ?c'"
    then consider "o1 \<in> snd ` set (trackedBuffers c) \<union> set (detached c)" | "o1 = b"
      | "o1 \<in> set (untrackedBuffers c)" "use_count ?c' (bo_id o1) > 0"
      by (auto simp: alive_objects_def adopt_untracked_def)
    then show "o1 \<in> insert b (alive_objects c)"
    proof cases
      case 3
      then have "o1 \<in> objects c" by (simp add: objects_def)
      then have "bo_id o1 \<noteq> bo_id b" using fresh by (metis imageI)
      then show ?thesis using 3 uc by (auto simp: alive_objects_def)
    qed (auto simp: alive_objects_def)
  qed
  show "tracked_keys (trackedBuffers ?c')"
    using tracked_keys_of[OF assms(1)] by (simp add: adopt_untracked_def)
  show "joins mapped c b (ctx_world ?c')" using assms(2) by (simp add: adopt_untracked_def)
  show "claims ?c' \<subseteq> (if basePtr b \<noteq> 0 then insert (claim_of b) (claims c) else claims c)"
    using alive by (auto simp: claims_def)
  show "claim_of ` objects ?c' \<subseteq> insert (claim_of b) (claim_of ` objects c)"
    by (simp add: untracked_append_fields)
  show "owners c i > 0 \<or> i = bo_id b" if "owners ?c' i > 0" for i
    using that by (auto simp: adopt_untracked_def take_ref_def split: if_splits)
  show "detached_ok ?c'"
    using ctx_ok_parts(5)[OF assms(1)] by (auto simp: detached_ok_def adopt_untracked_def take_ref_def)
  show "basePtr b' = 0" if "b' \<in> set (scratchBuffers ?c') \<union> set (preemptionBuffers ?c')" for b'
    using ctx_ok_parts(7)[OF assms(1)] that by (auto simp: adopt_untracked_def)
qed

context driver_contract
begin

text \<open>The destructor of an object nobody refers to any more.\<close>

lemma ctx_ok_destroy_dead:
  assumes "ctx_ok mapped c" "drvApi c = drv" "use_count c (bo_id b) = 0"
    "disjoint_claims S" "claims c \<subseteq> S" "basePtr b \<noteq> 0 \<Longrightarrow> claim_of b \<in> S"
  shows "ctx_ok mapped (destroy_bo b c)"
proof (rule ctx_ok_destroy[OF assms(1,2)], intro ballI allI)
  fix r x assume "basePtr b \<noteq> 0" "r \<in> claims c"
  then obtain a where a: "a \<in> alive_objects c" "r = claim_of a" by (auto simp: claims_def)
  then have "bo_id a \<noteq> bo_id b" using alive_use_count[OF assms(1) a(1)] assms(3) by auto
  then have "fst r \<noteq> fst (claim_of b)" by (simp add: a(2) claim_of_def)
  then show "\<not> (claim_spans r x \<and> claim_spans (claim_of b) x)"
    using assms(4-6) \<open>basePtr b \<noteq> 0\<close> \<open>r \<in> claims c\<close> unfolding disjoint_claims_def by blast
qed

lemma destroy_bo_drvApi [simp]: "drvApi (destroy_bo b c) = drvApi c"
  by (simp add: destroy_bo_def)

lemma ctx_ok_drop_ref:
  assumes "ctx_ok mapped c" "drvApi c = drv" "b \<in> objects c" "owners c (bo_id b) > 0"
  shows "ctx_ok mapped (drop_ref b c)"
proof -
  let ?i = "bo_id b"
  note parts = ctx_ok_parts[OF assms(1)]
  define c1 where "c1 = c\<lparr>owners := (owners c)(?i := owners c ?i - 1)\<rparr>"
  define c2 where "c2 = c1\<lparr>detached := filter (\<lambda>d. bo_id d \<noteq> ?i) (detached c)\<rparr>"
  have body: "drop_ref b c = (if use_count c1 ?i = 0 then destroy_bo (the_object c b) c2 else c1)"
    by (simp add: drop_ref_def Let_def c1_def c2_def)
  have pos: "use_count c j > 0" if "use_count c1 j > 0" for j
    using that by (auto simp: use_count_pos c1_def split: if_splits)
  have same: "use_count c2 j = use_count c1 j" for j by (simp add: use_count_def c2_def)
  show ?thesis
  proof (cases "use_count c1 ?i = 0")
    case False
    have "detached_ok c1"
    proof -
      have "owners c1 (bo_id d) > 0" if d: "d \<in> set (detached c)" for d
      proof (cases "bo_id d = ?i")
        case True
        have do: "d \<in> objects c" using d by (simp add: objects_def)
        have "?i \<notin> bo_id ` snd ` set (trackedBuffers c)"
          using parts(5) d True unfolding detached_ok_def by metis
        moreover have "b' \<notin> set (scratchBuffers c) \<union> set (preemptionBuffers c)" if "bo_id b' = ?i" for b'
        proof
          assume b': "b' \<in> set (scratchBuffers c) \<union> set (preemptionBuffers c)"
          then have "b' \<in> objects c" by (auto simp: objects_def)
          then have "claim_of b' = claim_of d" using same_id_same_claim[OF assms(1) _ do] that True by simp
          then show False using parts(5,7) b' d by (auto simp: claim_of_def detached_ok_def)
        qed
        ultimately have "\<not> use_count (c1\<lparr>owners := \<lambda>_. 0\<rparr>) ?i > 0"
          unfolding use_count_pos by (force simp: c1_def)
        then have "use_count c1 ?i = owners c1 ?i" by (simp add: use_count_def)
        then show ?thesis using False True by simp
      next
        case n: False
        then show ?thesis using parts(5) d by (auto simp: c1_def detached_ok_def)
      qed
      then show ?thesis using parts(5) by (auto simp: detached_ok_def c1_def)
    qed
    then have "ctx_ok mapped c1"
      using pos parts tracked_keys_of[OF assms(1)]
      by (intro ctx_ok_shrink[OF assms(1)])
        (auto simp: claims_def alive_objects_def objects_def c1_def split: if_splits)
    then show ?thesis using False by (simp add: body)
  next
    case True
    have det: "detached_ok c2"
      using parts(5) by (auto simp: detached_ok_def c1_def c2_def)
    have sub: "claims c2 \<subseteq> claims c"
      using pos same by (auto simp: claims_def alive_objects_def c1_def c2_def)
    have ok: "ctx_ok mapped c2"
      using pos parts tracked_keys_of[OF assms(1)] det sub
      by (intro ctx_ok_shrink[OF assms(1)]) (auto simp: objects_def c1_def c2_def split: if_splits)
    let ?o = "the_object c b"
    have o: "bo_id ?o = ?i \<and> (basePtr ?o \<noteq> 0 \<longrightarrow> claim_of ?o \<in> claims c)"
    proof (cases "find (\<lambda>d. bo_id d = ?i) (detached c)")
      case None
      then have e: "?o = b" by (simp add: the_object_def)
      have "b \<in> alive_objects c" if "basePtr b \<noteq> 0"
        using assms(3,4) parts(7) that by (auto simp: objects_def alive_objects_def use_count_pos)
      then show ?thesis using e claim_mem by auto
    next
      case (Some d)
      then have "d \<in> set (detached c)" "bo_id d = ?i" by (auto simp: find_Some_iff)
      then show ?thesis using Some claim_mem[of d c] by (auto simp: the_object_def alive_objects_def)
    qed
    have "ctx_ok mapped (destroy_bo ?o c2)"
      using o True same assms(2)
      by (intro ctx_ok_destroy_dead[OF ok _ _ parts(3) sub]) (auto simp: c1_def c2_def)
    then show ?thesis using True by (simp add: body)
  qed
qed

lemma track_drvApi [simp]: "drvApi (snd (track b c)) = drvApi c"
  by (auto simp: track_def split: prod.splits)

lemma ctx_ok_createBufferObject:
  assumes "ctx_ok mapped c" "drvApi c = drv" "room c"
    "effective_type (hwInfo c) ty AND DRM_IVPU_BO_MAPPABLE \<noteq> 0"
  shows "ctx_ok mapped (snd (createBufferObject c sz ty loc))"
proof -
  obtain r w' where r: "bo_create drv loc (effective_type (hwInfo c) ty) sz (ctx_world c) = (r, w')" by force
  note spec = bo_create_spec[OF r]
  show ?thesis
  proof (cases "\<exists>b. r = Inr (Some b)")
    case True
    then obtain b where b: "r = Inr (Some b)" by auto
    then have n: "new_object (ctx_world c) b w'" "basePtr b \<noteq> 0" using spec assms(4) by auto
    have j: "joins mapped c b w'"
      using new_object_joins[OF assms(1) n(1)] assms(3) by (simp add: room_def)
    show ?thesis
      using track_joins[OF assms(1) j n(2)] by (auto simp: createBufferObject_def assms(2) r b)
  next
    case False
    then have "world_frame mapped (ctx_world c) w'" using spec by (auto split: sum.splits option.splits)
    then show ?thesis
      using False ctx_ok_frame[OF assms(1)]
      by (auto simp: createBufferObject_def assms(2) r split: sum.splits option.splits)
  qed
qed

lemma ctx_ok_importBufferObject:
  assumes "ctx_ok mapped c" "drvApi c = drv" "room c"
  shows "ctx_ok mapped (snd (importBufferObject c loc fd))"
proof -
  obtain r w' where r: "bo_importFromFd drv loc fd (ctx_world c) = (r, w')" by force
  note spec = bo_import_spec[OF r]
  show ?thesis
  proof (cases "\<exists>b. r = Inr (Some b)")
    case True
    then obtain b where b: "r = Inr (Some b)" by auto
    then have n: "new_object (ctx_world c) b w'" "basePtr b \<noteq> 0" using spec by auto
    have j: "joins mapped c b w'"
      using new_object_joins[OF assms(1) n(1)] assms(3) by (simp add: room_def)
    show ?thesis
      using track_joins[OF assms(1) j n(2)] by (auto simp: importBufferObject_def assms(2) r b)
  next
    case False
    then have "world_frame mapped (ctx_world c) w'" using spec by (auto split: sum.splits option.splits)
    then show ?thesis
      using False ctx_ok_frame[OF assms(1)]
      by (auto simp: importBufferObject_def assms(2) r split: sum.splits option.splits)
  qed
qed

lemma createUntracked_cases:
  assumes "ctx_ok mapped c" "drvApi c = drv" "room c"
    "createUntrackedBufferObject c sz ty = (r, c')"
  shows "ctx_ok mapped c' \<and> drvApi c' = drv \<and> (\<forall>b. r = Inr (Some b) \<longrightarrow>
     b \<in> objects c' \<and> owners c' (bo_id b) > 0 \<and> allocSize b = sz
     \<and> (basePtr b \<noteq> 0 \<longleftrightarrow> effective_type (hwInfo c) ty AND DRM_IVPU_BO_MAPPABLE \<noteq> 0))"
proof -
  obtain r1 w' where r1: "bo_create drv Internal (effective_type (hwInfo c) ty) sz (ctx_world c) = (r1, w')" by force
  note spec = bo_create_spec[OF r1]
  consider "sz = 0" | b where "sz \<noteq> 0" "r1 = Inr (Some b)" | "sz \<noteq> 0" "\<nexists>b. r1 = Inr (Some b)" by blast
  then show ?thesis
  proof cases
    case 1 then show ?thesis using assms by (auto simp: createUntrackedBufferObject_def)
  next
    case 2
    then have n: "new_object (ctx_world c) b w'" using spec by simp
    have "joins mapped c b w'" using new_object_joins[OF assms(1) n] assms(3) by (simp add: room_def)
    note ok = ctx_ok_adopt[OF assms(1) this]
    have res: "r = Inr (Some b)" "c' = adopt_untracked b (c\<lparr>ctx_world := w'\<rparr>)"
      using assms(4) 2 by (auto simp: createUntrackedBufferObject_def assms(2) r1)
    show ?thesis using ok spec 2 assms(2) unfolding res
      by (auto simp: untracked_append_fields adopt_untracked_def take_ref_def objects_def)
  next
    case 3
    then have "world_frame mapped (ctx_world c) w'" using spec by (auto split: sum.splits option.splits)
    then have "ctx_ok mapped (c\<lparr>ctx_world := w'\<rparr>)" by (rule ctx_ok_frame[OF assms(1)])
    then show ?thesis
      using 3 assms(2,4) by (auto simp: createUntrackedBufferObject_def r1 split: sum.splits option.splits)
  qed
qed

lemma createFromUserPtr_cases:
  assumes "ctx_ok mapped c" "drvApi c = drv" "room c" "userptr_free mapped c p sz"
    "createBufferObjectFromUserPtr c p sz ro = (r, c')"
  shows "\<exists>w'. c' = c\<lparr>ctx_world := w'\<rparr> \<and>
     (case r of None \<Rightarrow> world_frame mapped (ctx_world c) w' | Some b \<Rightarrow> joins mapped c b w' \<and> basePtr b \<noteq> 0)"
proof -
  obtain base len where ur: "userptr_range c p sz = (base, len)" by force
  have free: "base \<noteq> 0" "unat base + max 1 (unat len) < 2 ^ 64"
    "\<And>x. spans base len x \<Longrightarrow> mapped (ctx_world c) x \<and> (\<forall>r \<in> claims c. \<not> claim_spans r x)"
    using assms(4) by (auto simp: userptr_free_def ur)
  have maps: "\<And>x. spans base len x \<Longrightarrow> mapped (ctx_world c) x" using free(3) by blast
  have dis: "\<forall>r \<in> claims c. \<forall>x. \<not> (claim_spans r x \<and> spans base len x)" using free(3) by blast
  obtain r1 w1 where r1: "bo_createFromUserPtr drv base len ro (ctx_world c) = (r1, w1)" by force
  have spec: "case r1 of None \<Rightarrow> world_frame mapped (ctx_world c) w1
      | Some b \<Rightarrow> joins mapped c b w1 \<and> basePtr b \<noteq> 0"
    using r1 free(1,2) maps dis assms(3)
    by (auto simp: bo_createFromUserPtr_def make_buffer_object_def Let_def joins_def room_def
        claim_of_def world_frame_def split: prod.splits sum.splits dest!: userptr_frame)
  have "world_frame mapped (ctx_world c) (ctx_world c)" by (simp add: world_frame_def)
  then show ?thesis
    using assms(5) spec
    by (auto simp: createBufferObjectFromUserPtr_def ur assms(2) r1 split: if_splits
        intro: exI[of _ "ctx_world c"] exI[of _ w1])
qed

lemma ctx_ok_trackedUserPtr:
  assumes "ctx_ok mapped c" "drvApi c = drv" "room c" "userptr_free mapped c p sz"
  shows "ctx_ok mapped (snd (createTrackedBufferObjectFromUserPtr c p sz ro))"
proof -
  obtain r c' where r: "createBufferObjectFromUserPtr c p sz ro = (r, c')" by force
  obtain w' where w: "c' = c\<lparr>ctx_world := w'\<rparr>"
    "case r of None \<Rightarrow> world_frame mapped (ctx_world c) w' | Some b \<Rightarrow> joins mapped c b w' \<and> basePtr b \<noteq> 0"
    using createFromUserPtr_cases[OF assms r] by blast
  show ?thesis
  proof (cases r)
    case None
    then show ?thesis using w ctx_ok_frame[OF assms(1)]
      by (simp add: createTrackedBufferObjectFromUserPtr_def r)
  next
    case (Some b)
    then show ?thesis using w track_joins[OF assms(1), of b w']
      by (auto simp: createTrackedBufferObjectFromUserPtr_def r)
  qed
qed

lemma ctx_ok_untrackedUserPtr:
  assumes "ctx_ok mapped c" "drvApi c = drv" "room c" "userptr_free mapped c p sz"
  shows "ctx_ok mapped (snd (createUntrackedBufferObjectFromUserPtr c p sz ro))"
proof -
  obtain r c' where r: "createBufferObjectFromUserPtr c p sz ro = (r, c')" by force
  obtain w' where w: "c' = c\<lparr>ctx_world := w'\<rparr>"
    "case r of None \<Rightarrow> world_frame mapped (ctx_world c) w' | Some b \<Rightarrow> joins mapped c b w' \<and> basePtr b \<noteq> 0"
    using createFromUserPtr_cases[OF assms r] by blast
  show ?thesis
    using w ctx_ok_frame[OF assms(1)] ctx_ok_adopt[OF assms(1)] assms(1)
    by (auto simp: createUntrackedBufferObjectFromUserPtr_def r split: option.splits)
qed

section \<open>Freeing\<close>

lemma allowDelete_fields [simp]:
  "bo_id (allowDeleteExternalHandle b) = bo_id b" "basePtr (allowDeleteExternalHandle b) = basePtr b"
  "claim_of (allowDeleteExternalHandle b) = claim_of b"
  by (auto simp: allowDeleteExternalHandle_def claim_of_def split: location.splits)

lemma ctx_ok_freeMemAlloc:
  assumes "ctx_ok mapped c" "drvApi c = drv"
  shows "ctx_ok mapped (snd (freeMemAlloc c ptr))"
proof (cases "findBufferObject c ptr")
  case None
  then show ?thesis using assms by (simp add: freeMemAlloc_def)
next
  case (Some b)
  note parts = ctx_ok_parts[OF assms(1)]
  have mem: "(basePtr b, b) \<in> set (trackedBuffers c)" and p: "ptr \<noteq> 0"
    using Some findBufferObject_exact[OF ctx_ok_tracked_ok[OF assms(1)]] by (cases "ptr = 0"; auto)+
  let ?i = "bo_id b" and ?b = "allowDeleteExternalHandle b"
  obtain m n where er: "map_erase (basePtr b) (trackedBuffers c) = (m, n)" by force
  have m: "set m = {e \<in> set (trackedBuffers c). fst e \<noteq> basePtr b}" "n = 1" "descending m"
    using map_erase_props[OF parts(1) er] keysI[OF mem] by auto
  have bo: "b \<in> objects c" "basePtr b \<noteq> 0" "claim_of b \<in> claims c"
    using tracked_in_objects[OF mem] parts(2)[OF mem] claim_mem by auto
  define c1 where "c1 = c\<lparr>trackedBuffers := m\<rparr>"
  have pos: "use_count c j > 0" if "use_count c1 j > 0" for j
    using that m(1) by (auto simp: use_count_pos c1_def)
  have sub: "claims c1 \<subseteq> claims c"
    using m(1) pos by (auto simp: claims_def alive_objects_def c1_def)
  have ok1: "ctx_ok mapped c1"
  proof (rule ctx_ok_shrink[OF assms(1) _ sub])
    show "tracked_keys (trackedBuffers c1)" using m parts(2) by (auto simp: tracked_keys_def c1_def)
    show "detached_ok c1" using parts(5) m(1) by (auto simp: detached_ok_def c1_def)
  qed (use m(1) parts(7) in \<open>auto simp: objects_def c1_def\<close>)
  have gone: "?i \<notin> bo_id ` snd ` set m"
  proof
    assume "?i \<in> bo_id ` snd ` set m"
    then obtain k b' where b': "(k, b') \<in> set m" "bo_id b' = ?i" by force
    then have "claim_of b' = claim_of b"
      using same_id_same_claim[OF assms(1) _ bo(1)] tracked_in_objects m(1) by auto
    then show False using b' m(1) parts(2) by (auto simp: claim_of_def)
  qed
  have cached: "?i \<notin> bo_id ` (set (scratchBuffers c) \<union> set (preemptionBuffers c))"
  proof
    assume "?i \<in> bo_id ` (set (scratchBuffers c) \<union> set (preemptionBuffers c))"
    then obtain b' where b': "b' \<in> set (scratchBuffers c) \<union> set (preemptionBuffers c)" "bo_id b' = ?i" by force
    then have "b' \<in> objects c" by (auto simp: objects_def)
    then have "claim_of b' = claim_of b" using same_id_same_claim[OF assms(1) _ bo(1)] b'(2) by simp
    then show False using parts(7)[OF b'(1)] bo(2) by (simp add: claim_of_def)
  qed
  have own: "owners c ?i > 0" if "use_count c1 ?i \<noteq> 0"
  proof -
    have "use_count c1 ?i > 0" using that by simp
    then have "owners c ?i > 0 \<or> ?i \<in> bo_id ` (snd ` set m \<union> set (scratchBuffers c) \<union> set (preemptionBuffers c))"
      unfolding use_count_pos by (simp add: c1_def)
    then show ?thesis using gone cached by (simp only: image_Un Un_iff) blast
  qed
  let ?c2 = "c1\<lparr>detached := ?b # detached c1\<rparr>"
  have ok2: "ctx_ok mapped ?c2" if "use_count c1 ?i \<noteq> 0"
  proof (rule ctx_ok_shrink[OF assms(1)])
    have uc: "use_count ?c2 j = use_count c1 j" for j by (simp add: use_count_def)
    have al: "alive_objects ?c2 = insert ?b (alive_objects c1)"
      using uc by (auto simp: alive_objects_def)
    have "claims ?c2 \<subseteq> insert (claim_of b) (claims c1)"
      unfolding claims_def al by (auto simp: bo(2))
    then show "claims ?c2 \<subseteq> claims c" using sub bo(3) by blast
    show "detached_ok ?c2"
      using parts(5) own[OF that] bo(2) gone m(1) by (auto simp: detached_ok_def c1_def)
    show "tracked_keys (trackedBuffers ?c2)" using tracked_keys_of[OF ok1] by simp
    show "claim_of ` objects ?c2 \<subseteq> claim_of ` objects c"
      using bo(1) m(1) by (auto simp: objects_def c1_def)
  qed (use parts(7) in \<open>auto simp: c1_def\<close>)
  have ok3: "ctx_ok mapped (destroy_bo ?b c1)" if "use_count c1 ?i = 0"
    using that assms(2) bo(3) by (intro ctx_ok_destroy_dead[OF ok1 _ _ parts(3) sub]) (auto simp: c1_def)
  show ?thesis
    using p Some ok2 ok3 assms(1) er m(2)
    by (auto simp: freeMemAlloc_def freeMemAlloc_bo_def Let_def c1_def)
qed

section \<open>The caches\<close>

lemma ctx_ok_caches:
  assumes "ctx_ok mapped c" "b \<in> objects c" "basePtr b = 0" "owners c (bo_id b) > 0"
  shows "ctx_ok mapped (c\<lparr>scratchBuffers := scratchBuffers c @ [b]\<rparr>)"
    "ctx_ok mapped (c\<lparr>preemptionBuffers := preemptionBuffers c @ [b]\<rparr>)"
proof -
  let ?c1 = "c\<lparr>scratchBuffers := scratchBuffers c @ [b]\<rparr>"
  let ?c2 = "c\<lparr>preemptionBuffers := preemptionBuffers c @ [b]\<rparr>"
  note parts = ctx_ok_parts[OF assms(1)]
  have pos: "use_count c i > 0" if "use_count ?c1 i > 0 \<or> use_count ?c2 i > 0" for i
    using that assms(4) by (auto simp: use_count_pos)
  show "ctx_ok mapped ?c1"
    using pos parts(5,7) tracked_keys_of[OF assms(1)] assms(2,3)
    by (intro ctx_ok_shrink[OF assms(1)])
      (auto simp: claims_def alive_objects_def objects_def detached_ok_def)
  show "ctx_ok mapped ?c2"
    using pos parts(5,7) tracked_keys_of[OF assms(1)] assms(2,3)
    by (intro ctx_ok_shrink[OF assms(1)])
      (auto simp: claims_def alive_objects_def objects_def detached_ok_def)
qed

lemma objects_cached:
  "objects (c\<lparr>scratchBuffers := scratchBuffers c @ [b]\<rparr>) = insert b (objects c)"
  "objects (c\<lparr>preemptionBuffers := preemptionBuffers c @ [b]\<rparr>) = insert b (objects c)"
  by (auto simp: objects_def)

lemma effective_type_unmappable:
  "effective_type hw WriteCombineDmaUnmappable AND DRM_IVPU_BO_MAPPABLE = 0"
  "effective_type hw WriteCombineFwUnmappable AND DRM_IVPU_BO_MAPPABLE = 0"
  by (simp_all add: effective_type_def convertDmaToShaveRange_def umd_defs)

definition got_object :: "'k dev_ctx \<Rightarrow> exn + buffer_object option \<Rightarrow> bool" where
  "got_object c r \<longleftrightarrow> (\<forall>b. r = Inr (Some b) \<longrightarrow> b \<in> objects c \<and> owners c (bo_id b) > 0)"

lemma ctx_ok_hit:
  assumes "ctx_ok mapped c" "b \<in> objects c" "use_count c (bo_id b) > 0"
  shows "ctx_ok mapped (take_ref (bo_id b) c) \<and> got_object (take_ref (bo_id b) c) (Inr (Some b))"
  using ctx_ok_take_ref[OF assms] assms(2) by (auto simp: got_object_def objects_def take_ref_def)

lemma ctx_ok_scratchCacheAcquire:
  assumes "ctx_ok mapped c" "drvApi c = drv" "room c" "scratchCacheAcquire c sz = (r, c')"
  shows "ctx_ok mapped c' \<and> drvApi c' = drv \<and> got_object c' r"
proof (cases "scratch_search (use_count c) sz (scratchBuffers c) None")
  case (Some b)
  then have b: "b \<in> objects c" "use_count c (bo_id b) > 0"
    using scratch_search_hit[OF Some] by (auto simp: objects_def)
  show ?thesis
    using ctx_ok_hit[OF assms(1) b] assms Some
    by (auto simp: scratchCacheAcquire_def got_object_def split: if_splits)
next
  case None
  obtain r1 c1 where r1: "createUntrackedBufferObject c sz WriteCombineDmaUnmappable = (r1, c1)" by force
  note c1 = createUntracked_cases[OF assms(1-3) r1]
  show ?thesis
    using assms None c1 effective_type_unmappable(1)
    by (auto simp: scratchCacheAcquire_def r1 got_object_def objects_cached
        split: if_splits sum.splits option.splits intro!: ctx_ok_caches(1))
qed

lemma ctx_ok_preemptionCacheAcquire:
  assumes "ctx_ok mapped c" "drvApi c = drv" "room c" "preemptionCacheAcquire c = (r, c')"
  shows "ctx_ok mapped c' \<and> drvApi c' = drv \<and> got_object c' r"
proof (cases "find (\<lambda>bo. use_count c (bo_id bo) = 1) (preemptionBuffers c)")
  case (Some b)
  then have "b \<in> set (preemptionBuffers c) \<and> use_count c (bo_id b) = 1"
    unfolding find_Some_iff by auto
  then have b: "b \<in> objects c" "use_count c (bo_id b) > 0" by (auto simp: objects_def)
  show ?thesis
    using ctx_ok_hit[OF assms(1) b] assms Some
    by (auto simp: preemptionCacheAcquire_def got_object_def Let_def split: if_splits)
next
  case None
  obtain r1 c1 where
    r1: "createUntrackedBufferObject c (fwPreemptBufSize (hwInfo c)) WriteCombineFwUnmappable = (r1, c1)" by force
  note c1 = createUntracked_cases[OF assms(1-3) r1]
  show ?thesis
    using assms None c1 effective_type_unmappable(2)
    by (auto simp: preemptionCacheAcquire_def r1 got_object_def objects_cached Let_def
        split: if_splits sum.splits option.splits intro!: ctx_ok_caches(2))
qed

lemma ctx_ok_destroy_all:
  assumes "ctx_ok mapped c" "drvApi c = drv" "\<forall>b \<in> set bos. basePtr b = 0"
  shows "ctx_ok mapped (destroy_all bos c) \<and> drvApi (destroy_all bos c) = drv"
  using assms unfolding destroy_all_def
proof (induction bos arbitrary: c)
  case (Cons b bos)
  then have "ctx_ok mapped (destroy_bo b c)" by (intro ctx_ok_destroy) auto
  then show ?case using Cons by simp
qed simp

text \<open>Buffers taken out of the caches; nothing else changes.\<close>

lemma ctx_ok_uncache:
  assumes "ctx_ok mapped c" "set sb \<subseteq> set (scratchBuffers c)" "set pb \<subseteq> set (preemptionBuffers c)"
  shows "ctx_ok mapped (c\<lparr>scratchBuffers := sb, preemptionBuffers := pb, numQueues := n\<rparr>)"
proof -
  let ?c' = "c\<lparr>scratchBuffers := sb, preemptionBuffers := pb, numQueues := n\<rparr>"
  note parts = ctx_ok_parts[OF assms(1)]
  have pos: "use_count c i > 0" if "use_count ?c' i > 0" for i
    using that assms(2,3) by (auto simp: use_count_pos)
  show ?thesis
    using pos parts(5,7) tracked_keys_of[OF assms(1)] assms(2,3)
    by (intro ctx_ok_shrink[OF assms(1)])
      (auto simp: claims_def alive_objects_def objects_def detached_ok_def)
qed

lemma ctx_ok_scratchCachePrune:
  assumes "ctx_ok mapped c" "drvApi c = drv"
  shows "ctx_ok mapped (scratchCachePrune sz c) \<and> drvApi (scratchCachePrune sz c) = drv"
proof -
  have u: "ctx_ok mapped (c\<lparr>scratchBuffers := filter P (scratchBuffers c)\<rparr>)" for P
    using ctx_ok_uncache[OF assms(1), of "filter P (scratchBuffers c)" "preemptionBuffers c" "numQueues c"] by simp
  show ?thesis
    using ctx_ok_destroy_all[OF u] ctx_ok_parts(7)[OF assms(1)] assms
    by (simp add: scratchCachePrune_def Let_def)
qed

lemma prune_split_sets:
  "prune_split u n bos = (kept, gone) \<Longrightarrow> set kept \<subseteq> set bos \<and> set gone \<subseteq> set bos"
  by (induction u n bos arbitrary: kept gone rule: prune_split.induct) (fastforce split: if_splits prod.splits)+

lemma ctx_ok_preemptionCachePrune:
  assumes "ctx_ok mapped c" "drvApi c = drv"
  shows "ctx_ok mapped (preemptionCachePrune c)"
proof -
  define nq where "nq = (if numQueues c > 0 then numQueues c - 1 else numQueues c)"
  define n where "n = length (preemptionBuffers c)"
  obtain kept gone where ps:
    "prune_split (use_count c) (if n > nq then n - nq else n) (preemptionBuffers c) = (kept, gone)" by force
  have u: "ctx_ok mapped (c\<lparr>numQueues := nq, preemptionBuffers := kept\<rparr>)"
  proof -
    have "ctx_ok mapped (c\<lparr>scratchBuffers := scratchBuffers c, preemptionBuffers := kept, numQueues := nq\<rparr>)"
      using prune_split_sets[OF ps] by (intro ctx_ok_uncache[OF assms(1)]) auto
    also have "c\<lparr>scratchBuffers := scratchBuffers c, preemptionBuffers := kept, numQueues := nq\<rparr>
        = c\<lparr>numQueues := nq, preemptionBuffers := kept\<rparr>" by simp
    finally show ?thesis .
  qed
  have "preemptionCachePrune c = destroy_all gone (c\<lparr>numQueues := nq, preemptionBuffers := kept\<rparr>)"
    unfolding preemptionCachePrune_def Let_def nq_def[symmetric] n_def[symmetric] ps by simp
  moreover have "\<forall>b \<in> set gone. basePtr b = 0"
    using prune_split_sets[OF ps] ctx_ok_parts(7)[OF assms(1)] by auto
  ultimately show ?thesis using ctx_ok_destroy_all[OF u, of gone] assms(2) by simp
qed

lemma ctx_ok_removeExpired:
  assumes "ctx_ok mapped c"
  shows "ctx_ok mapped (removeExpiredInternalBuffers c)"
proof -
  have uc: "use_count (removeExpiredInternalBuffers c) i = use_count c i" for i
    by (simp add: use_count_def removeExpiredInternalBuffers_def)
  show ?thesis
    using ctx_ok_parts(5,7)[OF assms] tracked_keys_of[OF assms]
    by (intro ctx_ok_shrink[OF assms])
      (auto simp: claims_def alive_objects_def uc objects_def detached_ok_def removeExpiredInternalBuffers_def)
qed

end

section \<open>The operations as steps\<close>

text \<open>
  \<open>share\<close> is a client keeping a reference it got from the context, \<open>drop\<close> a client letting
  one go. The callers of \<open>createMemAlloc\<close> pass mappable types (\<open>ze_memory.cpp\<close>), except for an uncached
  host allocation, which never succeeds (theory \<open>L0_Memory_Props\<close>) and is no step.
\<close>

inductive ctx_step :: "('k world \<Rightarrow> u64 \<Rightarrow> bool) \<Rightarrow> 'k dev_ctx \<Rightarrow> 'k dev_ctx \<Rightarrow> bool" for mapped where
  create: "room c \<Longrightarrow> effective_type (hwInfo c) ty AND DRM_IVPU_BO_MAPPABLE \<noteq> 0 \<Longrightarrow>
     createBufferObject c sz ty loc = (r, c') \<Longrightarrow> ctx_step mapped c c'"
| import: "room c \<Longrightarrow> importBufferObject c loc fd = (r, c') \<Longrightarrow> ctx_step mapped c c'"
| free: "freeMemAlloc c ptr = (ok, c') \<Longrightarrow> ctx_step mapped c c'"
| untracked: "room c \<Longrightarrow> createUntrackedBufferObject c sz ty = (r, c') \<Longrightarrow> ctx_step mapped c c'"
| user: "room c \<Longrightarrow> userptr_free mapped c p sz \<Longrightarrow>
     createTrackedBufferObjectFromUserPtr c p sz ro = (ob, c') \<Longrightarrow> ctx_step mapped c c'"
| user_untracked: "room c \<Longrightarrow> userptr_free mapped c p sz \<Longrightarrow>
     createUntrackedBufferObjectFromUserPtr c p sz ro = (ob, c') \<Longrightarrow> ctx_step mapped c c'"
| share: "b \<in> objects c \<Longrightarrow> use_count c (bo_id b) > 0 \<Longrightarrow> ctx_step mapped c (take_ref (bo_id b) c)"
| drop: "b \<in> objects c \<Longrightarrow> owners c (bo_id b) > 0 \<Longrightarrow> ctx_step mapped c (drop_ref b c)"
| scratch: "room c \<Longrightarrow> scratchCacheAcquire c sz = (r, c') \<Longrightarrow> ctx_step mapped c c'"
| prune: "ctx_step mapped c (scratchCachePrune sz c)"
| preempt: "room c \<Longrightarrow> preemptionCacheAcquire c = (r, c') \<Longrightarrow> ctx_step mapped c c'"
| preempt_load: "ctx_step mapped c (preemptionCacheLoad c)"
| preempt_prune: "ctx_step mapped c (preemptionCachePrune c)"
| expire: "ctx_step mapped c (removeExpiredInternalBuffers c)"

inductive_cases ctx_stepE: "ctx_step mapped c c'"

lemma destroy_all_drvApi [simp]: "drvApi (destroy_all bos c) = drvApi c"
  unfolding destroy_all_def by (induction bos arbitrary: c) (auto simp: destroy_bo_def)

lemma step_drvApi: "ctx_step mapped c c' \<Longrightarrow> drvApi c' = drvApi c"
  by (induction rule: ctx_step.induct)
    (auto simp: createBufferObject_def importBufferObject_def freeMemAlloc_def freeMemAlloc_bo_def
      createUntrackedBufferObject_def createTrackedBufferObjectFromUserPtr_def
      createUntrackedBufferObjectFromUserPtr_def createBufferObjectFromUserPtr_def
      scratchCacheAcquire_def scratchCachePrune_def preemptionCacheAcquire_def
      preemptionCacheLoad_def preemptionCachePrune_def removeExpiredInternalBuffers_def
      track_def adopt_untracked_def drop_ref_def destroy_bo_def Let_def
      split: if_splits prod.splits sum.splits option.splits)

lemma ctx_ok_step:
  assumes "driver_contract (drvApi c) mapped" "ctx_step mapped c c'" "ctx_ok mapped c"
  shows "ctx_ok mapped c'"
  using assms(2)
proof cases
  case create then show ?thesis using driver_contract.ctx_ok_createBufferObject[OF assms(1,3) refl] by (metis snd_conv)
next
  case import then show ?thesis using driver_contract.ctx_ok_importBufferObject[OF assms(1,3) refl] by (metis snd_conv)
next
  case free then show ?thesis using driver_contract.ctx_ok_freeMemAlloc[OF assms(1,3) refl] by (metis snd_conv)
next
  case untracked then show ?thesis using driver_contract.createUntracked_cases[OF assms(1,3) refl] by blast
next
  case user then show ?thesis using driver_contract.ctx_ok_trackedUserPtr[OF assms(1,3) refl] by (metis snd_conv)
next
  case user_untracked
  then show ?thesis using driver_contract.ctx_ok_untrackedUserPtr[OF assms(1,3) refl] by (metis snd_conv)
next
  case share then show ?thesis using ctx_ok_take_ref[OF assms(3)] by simp
next
  case drop then show ?thesis using driver_contract.ctx_ok_drop_ref[OF assms(1,3) refl] by simp
next
  case scratch then show ?thesis using driver_contract.ctx_ok_scratchCacheAcquire[OF assms(1,3) refl] by blast
next
  case prune then show ?thesis using driver_contract.ctx_ok_scratchCachePrune[OF assms(1,3) refl] by simp
next
  case preempt then show ?thesis using driver_contract.ctx_ok_preemptionCacheAcquire[OF assms(1,3) refl] by blast
next
  case preempt_load
  then show ?thesis
    using driver_contract.ctx_ok_uncache[OF assms(1,3), of "scratchBuffers c" "preemptionBuffers c" "numQueues c + 1"]
    by (simp add: preemptionCacheLoad_def)
next
  case preempt_prune then show ?thesis using driver_contract.ctx_ok_preemptionCachePrune[OF assms(1,3) refl] by simp
next
  case expire then show ?thesis using driver_contract.ctx_ok_removeExpired[OF assms(1,3)] by simp
qed

definition ctx_reachable :: "('k world \<Rightarrow> u64 \<Rightarrow> bool) \<Rightarrow> 'k dev_ctx \<Rightarrow> 'k dev_ctx \<Rightarrow> bool" where
  "ctx_reachable mapped = (ctx_step mapped)\<^sup>*\<^sup>*"

lemma ctx_ok_new: "ctx_ok mapped (new_ctx drv w hw)"
  by (simp add: ctx_ok_def new_ctx_def tracked_keys_def claims_def alive_objects_def
      disjoint_claims_def ids_below_def objects_def detached_ok_def)

lemma ctx_ok_reachable:
  assumes "driver_contract drv mapped" "ctx_reachable mapped (new_ctx drv w hw) c"
  shows "ctx_ok mapped c \<and> drvApi c = drv"
  using assms(2) unfolding ctx_reachable_def
proof (induction rule: rtranclp_induct)
  case base
  then show ?case using ctx_ok_new by (simp add: new_ctx_def)
next
  case (step y z)
  then show ?case using ctx_ok_step[of y mapped z] step_drvApi assms(1) by metis
qed

end
