(* ===== verification/Context_Props.thy ===== *)
theory Context_Props
  imports Context_Steps
begin

text \<open>
  The properties of the device context: allocation, lookup and release of tracked buffers,
  user memory, and the scratch cache; each with a run of the null device as its witness.
\<close>

section \<open>A concrete context\<close>

text \<open>The null device of a Meteor Lake platform, with an empty heap at 0x10000.\<close>

definition demo_world :: "null_dev world" where
  "demo_world = \<lparr>kern = \<lparr>nullHwInfo = getHwInfo37xx, unique_id = 0, deviceAddress = 0xc0000000,
        devnull_fd = 3, heap_top = 0x10000\<rparr>,
     mem = (\<lambda>_. 0), errno = 0, bo_counter = 0,
     stats = \<lparr>stats_enabled = False, internalAllocSize = 0, sharedAllocSize = 0,
              deviceAllocSize = 0, hostAllocSize = 0\<rparr>\<rparr>"

definition demo_drv :: "null_dev drv_api" where
  "demo_drv = mk_drv_api null_os 3"

definition demo_ctx :: "null_dev dev_ctx" where
  "demo_ctx = new_ctx demo_drv demo_world (getHwInfo40xx\<lparr>dmaMemoryRangeCapability := True\<rparr>)"

lemma demo_contract: "driver_contract demo_drv null_mapped"
  unfolding demo_drv_def by (rule null_drv.driver_contract_axioms)

lemma demo_calls:
  "da_createBuffer demo_drv sz flags w =
     (Inr (0, deviceAddress (kern w)),
      w\<lparr>kern := (kern w)\<lparr>deviceAddress := deviceAddress (kern w) + ALIGN sz null_page_size\<rparr>\<rparr>)"
  "da_getBufferInfo demo_drv h w = (Inr 100, w)"
  "da_mmap demo_drv sz off w = drv_mmap null_os 3 sz off w"
  "da_unmap demo_drv p sz w = (0, w)"
  "da_closeBuffer demo_drv h w = (0, w)"
  "da_getPageSize demo_drv = 4096"
  by (simp_all add: demo_drv_def mk_drv_api_def createBuffer_def getBufferInfo_def closeBuffer_def
      request_def request_code_def null_os.doIoctl_once drv_unmap_def)
    (simp_all add: null_os_def empty_bo_info_def null_munmap_def null_page_size_def)

definition demo_bo :: buffer_object where
  "demo_bo = \<lparr>bo_location = Host, bo_type = CachedFw, basePtr = 0x10000, allocSize = 4096,
     vpuAddr = 0xc0000000, handle = 0, bo_id = 1\<rparr>"

definition demo_ctx1 :: "null_dev dev_ctx" where
  "demo_ctx1 = snd (createMemAlloc demo_ctx 4096 CachedFw Host)"

lemmas demo_eval = createMemAlloc_def createBufferObject_def demo_ctx_def new_ctx_def bo_create_def
  demo_calls effective_type_def safe_cast_off_def umd_defs demo_world_def
  drv_mmap_def null_os_def null_mmap_def null_page_size_def MAP_FAILED_def Let_def
  make_buffer_object_def track_def demo_bo_def

lemma demo_alloc: "createMemAlloc demo_ctx 4096 CachedFw Host = (Inr 0x10000, demo_ctx1)"
  unfolding demo_ctx1_def by (simp add: demo_eval)

lemma demo_ctx1_fields:
  "trackedBuffers demo_ctx1 = [(0x10000, demo_bo)]" "drvApi demo_ctx1 = demo_drv"
  "hwInfo demo_ctx1 = hwInfo demo_ctx" "owners demo_ctx1 = (\<lambda>_. 0)"
  "scratchBuffers demo_ctx1 = []" "preemptionBuffers demo_ctx1 = []" "detached demo_ctx1 = []"
  "untrackedBuffers demo_ctx1 = []" "bo_counter (ctx_world demo_ctx1) = 1"
  unfolding demo_ctx1_def by (simp_all add: demo_eval)

lemma demo_room: "room demo_ctx" "room demo_ctx1"
  by (simp_all add: room_def demo_ctx1_fields) (simp add: demo_ctx_def new_ctx_def demo_world_def)

lemma demo_reachable: "ctx_reachable null_mapped demo_ctx demo_ctx1"
proof -
  obtain r where r: "createBufferObject demo_ctx 4096 CachedFw Host = (r, demo_ctx1)"
    using demo_alloc by (auto simp: createMemAlloc_def split: prod.splits sum.splits option.splits)
  have "ctx_step null_mapped demo_ctx demo_ctx1"
    by (rule ctx_step.create[OF demo_room(1) _ r])
      (simp add: demo_ctx_def new_ctx_def effective_type_def umd_defs)
  then show ?thesis by (simp add: ctx_reachable_def)
qed

section \<open>Allocation, lookup, release\<close>

lemma findBufferObject_in:
  assumes "ctx_ok mapped c" "(k, b) \<in> set (trackedBuffers c)" "isInRange b p"
  shows "findBufferObject c p = Some b"
proof -
  have k: "k = basePtr b" "k \<noteq> 0" using ctx_ok_parts(2)[OF assms(1,2)] by auto
  have "bo_ok b" using ctx_ok_tracked_ok[OF assms(1)] assms(2) by (auto simp: tracked_ok_def)
  then have "p \<noteq> 0" using assms(3) k by (auto simp: isInRange_iff unat_eq_0)
  then show ?thesis
    using findBufferObject_exact[OF ctx_ok_tracked_ok[OF assms(1)]] assms(2,3) k by auto
qed

lemma findBufferObject_Some:
  assumes "ctx_ok mapped c" "findBufferObject c p = Some b"
  shows "(basePtr b, b) \<in> set (trackedBuffers c)" "isInRange b p"
proof -
  have "p \<noteq> 0" using assms(2) by (cases "p = 0") auto
  then show "(basePtr b, b) \<in> set (trackedBuffers c)" "isInRange b p"
    using findBufferObject_exact[OF ctx_ok_tracked_ok[OF assms(1)]] assms(2) by auto
qed

text \<open>Two contexts whose maps agree except for one object that covers no pointer of interest.\<close>

lemma findBufferObject_cong:
  assumes "ctx_ok mapped c" "ctx_ok mapped c'"
    "\<And>k b. isInRange b p \<Longrightarrow> (k, b) \<in> set (trackedBuffers c) \<longleftrightarrow> (k, b) \<in> set (trackedBuffers c')"
  shows "findBufferObject c' p = findBufferObject c p"
proof -
  have "findBufferObject c' p = Some b \<longleftrightarrow> findBufferObject c p = Some b" for b
    using findBufferObject_in findBufferObject_Some assms by metis
  then show ?thesis by (cases "findBufferObject c p"; cases "findBufferObject c' p") auto
qed

context driver_contract
begin

lemma createBufferObject_success:
  assumes "ctx_ok mapped c" "drvApi c = drv" "room c"
    "effective_type (hwInfo c) ty AND DRM_IVPU_BO_MAPPABLE \<noteq> 0"
    "createBufferObject c sz ty loc = (Inr (Some b), c')"
  shows "set (trackedBuffers c') = insert (basePtr b, b) (set (trackedBuffers c))
     \<and> allocSize b = sz \<and> basePtr b \<noteq> 0 \<and> ctx_ok mapped c'"
proof -
  obtain r w' where r: "bo_create drv loc (effective_type (hwInfo c) ty) sz (ctx_world c) = (r, w')" by force
  note spec = bo_create_spec[OF r]
  have "\<exists>b0. r = Inr (Some b0)"
    using assms(5) by (auto simp: createBufferObject_def assms(2) r split: sum.splits option.splits)
  then obtain b0 where b0: "r = Inr (Some b0)" by blast
  then have n: "new_object (ctx_world c) b0 w'" "basePtr b0 \<noteq> 0" "allocSize b0 = sz"
    using spec assms(4) by auto
  have j: "joins mapped c b0 w'" using new_object_joins[OF assms(1) n(1)] assms(3) by (simp add: room_def)
  show ?thesis
    using track_joins[OF assms(1) j n(2)] assms(5) n
    by (auto simp: createBufferObject_def assms(2) r b0)
qed

end



text \<open>Allocation round trip: after a successful \<open>createMemAlloc\<close> the lookup of any pointer in
  the returned range finds the new buffer, of the requested size, and the lookup of every other
  pointer is what it was before.\<close>

theorem alloc_lookup:
  assumes "driver_contract (drvApi c) mapped" "ctx_ok mapped c" "room c"
    "effective_type (hwInfo c) ty AND DRM_IVPU_BO_MAPPABLE \<noteq> 0"
    "createMemAlloc c sz ty loc = (Inr p, c')" "p \<noteq> 0"
  shows "\<exists>bo. basePtr bo = p \<and> allocSize bo = sz \<and> bo_ok bo \<and>
    (\<forall>q. isInRange bo q \<longrightarrow> findBufferObject c' q = Some bo) \<and>
    (\<forall>q. \<not> isInRange bo q \<longrightarrow> findBufferObject c' q = findBufferObject c q)"
proof -
  obtain bo where bo: "createBufferObject c sz ty loc = (Inr (Some bo), c')" "p = basePtr bo"
    using assms(5,6) by (auto simp: createMemAlloc_def split: prod.splits sum.splits option.splits)
  note new = driver_contract.createBufferObject_success[OF assms(1,2) refl assms(3,4) bo(1)]
  have ok: "bo_ok bo" using new ctx_ok_tracked_ok[of mapped c'] by (auto simp: tracked_ok_def)
  have "findBufferObject c' q = Some bo" if "isInRange bo q" for q
    using findBufferObject_in[of mapped c' "basePtr bo" bo q] new that by simp
  moreover have "findBufferObject c' q = findBufferObject c q" if "\<not> isInRange bo q" for q
    using new that by (intro findBufferObject_cong[OF assms(2)]) auto
  ultimately show ?thesis using new bo(2) ok by blast
qed

theorem alloc_lookup_witness:
  "\<exists>bo. basePtr bo = 0x10000 \<and> allocSize bo = 4096 \<and> bo_ok bo \<and>
    (\<forall>q. isInRange bo q \<longrightarrow> findBufferObject demo_ctx1 q = Some bo) \<and>
    (\<forall>q. \<not> isInRange bo q \<longrightarrow> findBufferObject demo_ctx1 q = findBufferObject demo_ctx q)"
proof (rule alloc_lookup)
  show "driver_contract (drvApi demo_ctx) null_mapped"
    using demo_contract by (simp add: demo_ctx_def new_ctx_def)
  show "ctx_ok null_mapped demo_ctx" unfolding demo_ctx_def by (rule ctx_ok_new)
  show "effective_type (hwInfo demo_ctx) CachedFw AND DRM_IVPU_BO_MAPPABLE \<noteq> 0"
    by (simp add: demo_ctx_def new_ctx_def effective_type_def umd_defs)
qed (use demo_room demo_alloc in auto)

text \<open>Release: \<open>freeMemAlloc\<close> on the base pointer of a tracked buffer (or, for user memory, on
  any pointer into it) succeeds; afterwards no pointer into the buffer is found, and the lookup of
  every other pointer is unchanged. A pointer into the middle of a driver allocation is refused and
  nothing changes.\<close>

theorem free_lookup:
  assumes "driver_contract (drvApi c) mapped" "ctx_ok mapped c" "findBufferObject c p = Some bo"
    "freeMemAlloc c p = (ok, c')"
  shows "(ok \<longleftrightarrow> basePtr bo = p \<or> bo_location bo = UserPtr) \<and>
    (ok \<longrightarrow> (\<forall>q. isInRange bo q \<longrightarrow> findBufferObject c' q = None) \<and>
            (\<forall>q. \<not> isInRange bo q \<longrightarrow> findBufferObject c' q = findBufferObject c q)) \<and>
    (\<not> ok \<longrightarrow> c' = c)"
proof -
  have p: "p \<noteq> 0" using assms(3) by (cases "p = 0") auto
  note mem = findBufferObject_Some[OF assms(2,3)]
  have ok': "ctx_ok mapped c'"
    using driver_contract.ctx_ok_freeMemAlloc[OF assms(1,2) refl, of p] assms(4) by simp
  obtain m n where er: "map_erase (basePtr bo) (trackedBuffers c) = (m, n)" by force
  have m: "set m = {e \<in> set (trackedBuffers c). fst e \<noteq> basePtr bo}" "n = 1"
    using map_erase_props[OF ctx_ok_parts(1)[OF assms(2)] er] keysI[OF mem(1)] by auto
  show ?thesis
  proof (cases "basePtr bo = p \<or> bo_location bo = UserPtr")
    case True
    then have ok: "ok" "trackedBuffers c' = m"
      using assms(3,4) p er m(2)
      by (auto simp: freeMemAlloc_def freeMemAlloc_bo_def destroy_bo_def Let_def split: if_splits)
    have key: "k = basePtr b" if "(k, b) \<in> set (trackedBuffers c)" for k b
      using ctx_ok_parts(2)[OF assms(2) that] by simp
    have gone: "findBufferObject c' q = None" if q: "isInRange bo q" for q
    proof (cases "findBufferObject c' q")
      case (Some b)
      then have "(basePtr b, b) \<in> set m" "isInRange b q"
        using findBufferObject_Some[OF ok'] ok(2) by auto
      then have "findBufferObject c q = Some b" "basePtr b \<noteq> basePtr bo"
        using findBufferObject_in[OF assms(2)] m(1) by auto
      then show ?thesis using findBufferObject_in[OF assms(2) mem(1) q] by simp
    qed
    have "findBufferObject c' q = findBufferObject c q" if q: "\<not> isInRange bo q" for q
    proof (rule findBufferObject_cong[OF assms(2) ok'])
      fix k b assume "isInRange b q"
      then have "b \<noteq> bo" using q by auto
      then have "(k, b) \<in> set (trackedBuffers c) \<Longrightarrow> k \<noteq> basePtr bo"
        using descending_unique[OF ctx_ok_parts(1)[OF assms(2)] mem(1)] by auto
      then show "(k, b) \<in> set (trackedBuffers c) \<longleftrightarrow> (k, b) \<in> set (trackedBuffers c')"
        using ok(2) m(1) by auto
    qed
    then show ?thesis using True ok gone by simp
  next
    case False
    then show ?thesis using assms(3,4) p by (simp add: freeMemAlloc_def)
  qed
qed

theorem free_lookup_witness:
  "fst (freeMemAlloc demo_ctx1 0x10000) \<and>
    findBufferObject (snd (freeMemAlloc demo_ctx1 0x10000)) 0x10000 = None \<and>
    findBufferObject (snd (freeMemAlloc demo_ctx1 0x10000)) 0x20000 = findBufferObject demo_ctx1 0x20000"
proof -
  have c: "driver_contract (drvApi demo_ctx1) null_mapped" using demo_contract by (simp add: demo_ctx1_fields)
  have ok: "ctx_ok null_mapped demo_ctx1"
    using ctx_ok_reachable[OF demo_contract] demo_reachable unfolding demo_ctx_def by blast
  have f: "findBufferObject demo_ctx1 0x10000 = Some demo_bo"
    by (simp add: findBufferObject_def demo_ctx1_fields isInRange_def demo_bo_def)
  have r: "basePtr demo_bo = 0x10000" "isInRange demo_bo 0x10000" "\<not> isInRange demo_bo 0x20000"
    by (simp_all add: isInRange_def demo_bo_def Let_def)
  show ?thesis using free_lookup[OF c ok f prod.collapse[symmetric]] r by simp
qed

section \<open>User memory\<close>

text \<open>The range handed to the kernel for user memory is page aligned at both ends, contains the
  whole user range, and is the least such range (it begins in the page of the pointer and is less
  than one page too long).\<close>

theorem userptr_range_least:
  assumes "da_getPageSize (drvApi c) = 2 ^ k" "k < 63" "unat p + unat sz + 2 * 2 ^ k \<le> 2 ^ 64"
    "userptr_range c p sz = (base, len)"
  shows "2 ^ k dvd unat base \<and> 2 ^ k dvd unat len \<and> unat base \<le> unat p
     \<and> unat p + unat sz \<le> unat base + unat len \<and> unat base + unat len < unat p + unat sz + 2 ^ k
     \<and> unat p < unat base + 2 ^ k"
proof -
  define P where "P = (2::nat) ^ k"
  define up where "up = ALIGN sz (2 ^ k)"
  have P: "P > 0" "2 * P = 2 ^ (k + 1)" by (simp_all add: P_def)
  have page: "unat (2 ^ k :: u64) = P"
  proof -
    have "(2::nat) ^ k < 2 ^ 64" using assms(2) by (intro power_strict_increasing) auto
    then show ?thesis using unat_of_nat_64[of "2 ^ k"] by (simp add: P_def)
  qed
  have up: "unat sz \<le> unat up" "P dvd unat up" "unat up < unat sz + P"
    using ALIGN_bounds[of k sz] assms(2,3) by (auto simp: up_def P_def)
  have al: "getPageAlignedSize c x = ALIGN x (2 ^ k)" for x
    by (simp add: getPageAlignedSize_def assms(1))
  have id: "getPageAlignedSize c p = p \<longleftrightarrow> P dvd unat p"
    unfolding al P_def using assms(2,3) by (intro ALIGN_id_iff) auto
  show ?thesis
  proof (cases "P dvd unat p")
    case True
    then have "base = p" "len = up"
      using assms(4) id by (auto simp: userptr_range_def Let_def al up_def)
    then show ?thesis using up True P(1) by (auto simp: P_def)
  next
    case False
    define d where "d = unat p mod P"
    have d: "d < P" "unat p = unat p div P * P + d" using P(1) by (simp_all add: d_def)
    have b: "base = ALIGN (p - 2 ^ k) (2 ^ k)"
      using assms(1,4) id False by (auto simp: userptr_range_def Let_def al split: if_splits)
    then have ub: "unat base = unat p div P * P"
      using ALIGN_down[of k p] False assms(2) by (simp add: P_def)
    have off: "unat (p - base) = d"
      using ub d(2) by (simp add: unat_sub word_le_nat_alt)
    have tot: "unat (sz + (p - base)) = unat sz + d"
      using assms(3) d by (subst unat_plus_64) (auto simp: off P_def)
    have up2: "unat (up + 2 ^ k) = unat up + P"
      using assms(3) up(3) by (subst unat_plus_64) (auto simp: page P_def[symmetric])
    have l: "len = (if unat up < unat sz + d then up + 2 ^ k else up)"
      using assms(1,4) id False b tot
      by (auto simp: userptr_range_def Let_def al up_def word_less_nat_alt split: if_splits)
    have "P dvd unat len" "unat sz + d \<le> unat len" "unat len < unat sz + d + P"
      using l up up2 d(1) by (auto split: if_splits)
    then show ?thesis
      using ub d unfolding P_def[symmetric] by (simp add: dvd_def)
  qed
qed

theorem userptr_range_least_witness:
  "2 ^ 12 dvd unat (0x1000 :: u64) \<and> 2 ^ 12 dvd unat (0x2000 :: u64) \<and> unat (0x1000 :: u64) \<le> unat (0x1f00 :: u64)
     \<and> unat (0x1f00 :: u64) + unat (0x200 :: u64) \<le> unat (0x1000 :: u64) + unat (0x2000 :: u64)
     \<and> unat (0x1000 :: u64) + unat (0x2000 :: u64) < unat (0x1f00 :: u64) + unat (0x200 :: u64) + 2 ^ 12
     \<and> unat (0x1f00 :: u64) < unat (0x1000 :: u64) + 2 ^ 12"
proof (rule userptr_range_least)
  show "da_getPageSize (drvApi demo_ctx) = 2 ^ 12" by (simp add: demo_ctx_def new_ctx_def demo_calls)
  show "userptr_range demo_ctx 0x1f00 0x200 = (0x1000, 0x2000)"
    by (simp add: userptr_range_def getPageAlignedSize_def demo_ctx_def new_ctx_def demo_calls ALIGN_def Let_def)
qed simp_all

section \<open>The scratch cache\<close>

text \<open>C28: A scratch buffer is never handed to two holders: in a reachable context the buffer that
  \<open>scratchCacheAcquire\<close> returns had no owner outside the context, and has exactly one afterwards.
  It is large enough, and no smaller idle buffer of the cache would have been.\<close>

theorem scratch_exclusive:
  assumes "driver_contract drv mapped" "ctx_reachable mapped (new_ctx drv w hw) c" "room c"
    "scratchCacheAcquire c sz = (Inr (Some b), c')"
  shows "owners c (bo_id b) = 0 \<and> owners c' (bo_id b) = 1 \<and> sz \<le> allocSize b \<and>
    (\<forall>b' \<in> set (scratchBuffers c). use_count c (bo_id b') = 1 \<longrightarrow> sz \<le> allocSize b'
       \<longrightarrow> allocSize b \<le> allocSize b')"
proof -
  note ok = ctx_ok_reachable[OF assms(1,2)]
  have nz: "sz \<noteq> 0" using assms(4) by (auto simp: scratchCacheAcquire_def)
  show ?thesis
  proof (cases "scratch_search (use_count c) sz (scratchBuffers c) None")
    case (Some hit)
    then have h: "b = hit" "c' = take_ref (bo_id hit) c"
      using assms(4) nz by (auto simp: scratchCacheAcquire_def)
    have hs: "hit \<in> set (scratchBuffers c)" "use_count c (bo_id hit) = 1" "sz \<le> allocSize hit"
      using scratch_search_hit[OF Some] by auto
    have "id_count (bo_id hit) (scratchBuffers c) > 0" using hs(1) by (auto simp: id_count_pos)
    then have "owners c (bo_id hit) = 0" using hs(2) by (simp add: use_count_def)
    moreover have "\<forall>b' \<in> set (scratchBuffers c). use_count c (bo_id b') = 1 \<longrightarrow> sz \<le> allocSize b'
       \<longrightarrow> allocSize hit \<le> allocSize b'"
      using scratch_search_least[of None sz "use_count c" "scratchBuffers c"] Some by auto
    ultimately show ?thesis using hs(3) by (simp add: h take_ref_def)
  next
    case None
    have small: "\<forall>b' \<in> set (scratchBuffers c). use_count c (bo_id b') = 1 \<longrightarrow> allocSize b' < sz"
      using scratch_search_least[of None sz "use_count c" "scratchBuffers c"] None by auto
    obtain r w' where
      r: "bo_create (drvApi c) Internal (effective_type (hwInfo c) WriteCombineDmaUnmappable) sz (ctx_world c) = (r, w')"
      by force
    have rb: "r = Inr (Some b)" "c' = (adopt_untracked b (c\<lparr>ctx_world := w'\<rparr>))\<lparr>scratchBuffers := scratchBuffers c @ [b]\<rparr>"
      using assms(4) nz None r
      by (auto simp: scratchCacheAcquire_def createUntrackedBufferObject_def adopt_untracked_def
          split: sum.splits option.splits)
    have n: "driver_contract.new_object mapped (ctx_world c) b w'" "allocSize b = sz"
      using driver_contract.bo_create_spec[OF assms(1)] r ok rb(1) by force+
    have "joins mapped c b w'"
      using driver_contract.new_object_joins[OF assms(1) _ n(1)] ok assms(3) by (simp add: room_def)
    then have "owners c (bo_id b) = 0" using use_count_fresh(3) joins_fresh_id ok by blast
    then show ?thesis using n(2) small by (auto simp: rb(2) adopt_untracked_def take_ref_def)
  qed
qed

theorem scratch_exclusive_witness:
  "\<exists>b c'. scratchCacheAcquire demo_ctx 8192 = (Inr (Some b), c') \<and> owners demo_ctx (bo_id b) = 0
     \<and> owners c' (bo_id b) = 1 \<and> 8192 \<le> allocSize b"
proof -
  have "\<exists>b c'. scratchCacheAcquire demo_ctx 8192 = (Inr (Some b), c')"
    by (simp add: scratchCacheAcquire_def createUntrackedBufferObject_def demo_eval)
  then obtain b c' where r: "scratchCacheAcquire demo_ctx 8192 = (Inr (Some b), c')" by blast
  have "ctx_reachable null_mapped demo_ctx demo_ctx" by (simp add: ctx_reachable_def)
  then show ?thesis
    using scratch_exclusive[OF demo_contract _ demo_room(1) r] r unfolding demo_ctx_def by blast
qed

end
