(* ===== verification/Command_Buffer_Layout.thy ===== *)
theory Command_Buffer_Layout
  imports Command_Buffer Context_Props
begin

text \<open>
  What a built command buffer contains. The contents of its buffer object are followed as
  a concatenation of pieces, each operation replacing one piece of the same length.
\<close>

section \<open>Pieces of a buffer\<close>

lemma overwrite_piece:
  "length ys = length d \<Longrightarrow> overwrite (xs @ ys @ zs) (length xs) d = xs @ d @ zs"
  by (simp add: overwrite_def)

lemma contents_write:
  assumes "contents w bo = xs @ ys @ zs" "length ys = length d" "a = basePtr bo + of_nat (length xs)"
  shows "contents (w\<lparr>mem := write_bytes (mem w) a d\<rparr>) bo = xs @ d @ zs"
proof -
  have "length xs + length d \<le> unat (allocSize bo)"
    using arg_cong[OF assms(1), of length] assms(2) by simp
  then have "contents (w\<lparr>mem := write_bytes (mem w) a d\<rparr>) bo = overwrite (contents w bo) (length xs) d"
    using read_write_within[of "length xs" d "unat (allocSize bo)" "mem w" "basePtr bo"]
      unat_lt_64[of "allocSize bo"] by (simp add: contents_def assms(3))
  then show ?thesis by (simp add: assms(1) overwrite_piece[OF assms(2)])
qed

text \<open>Only the memory of the process differs.\<close>

definition only_mem :: "'k world \<Rightarrow> 'k world \<Rightarrow> bool" where
  "only_mem w w' \<longleftrightarrow> (\<exists>m. w' = w\<lparr>mem := m\<rparr>)"

lemma only_mem_simps [simp]: "only_mem w w" "only_mem w (w\<lparr>mem := m\<rparr>)"
proof -
  have "w = w\<lparr>mem := mem w\<rparr>" by simp
  then show "only_mem w w" unfolding only_mem_def by (rule exI[of _ "mem w"])
qed (auto simp: only_mem_def)

lemma only_mem_trans: "only_mem w w1 \<Longrightarrow> only_mem w1 w2 \<Longrightarrow> only_mem w w2"
  by (auto simp: only_mem_def)

lemma copyToBuffer_piece:
  assumes "basePtr bo \<noteq> 0" "contents w bo = xs @ ys @ zs" "length ys = length d" "d \<noteq> []"
    "unat off = length xs" "n = of_nat (length d)"
  shows "\<exists>w'. copyToBuffer bo (Some d) n off w = (True, w') \<and>
     only_mem w w' \<and> contents w' bo = xs @ d @ zs"
proof -
  have "unat off + length d \<le> unat (allocSize bo)"
    using arg_cong[OF assms(2), of length] assms(3,5) by simp
  from copyToBuffer_ok[OF assms(1,4) this]
  have c: "copyToBuffer bo (Some d) n off w = (True, w\<lparr>mem := write_bytes (mem w) (basePtr bo + off) d\<rparr>)"
    by (simp add: assms(6))
  have "off = of_nat (length xs)" by (simp flip: assms(5))
  then have "contents (w\<lparr>mem := write_bytes (mem w) (basePtr bo + off) d\<rparr>) bo = xs @ d @ zs"
    by (intro contents_write[OF assms(2,3)]) simp
  then show ?thesis using c only_mem_simps(2) by metis
qed

lemma read_piece:
  assumes "contents w bo = xs @ ys @ zs" "a = basePtr bo + of_nat (length xs)" "n = length ys"
  shows "read_bytes (mem w) a n = ys"
proof -
  have l: "unat (allocSize bo) = length xs + (length ys + length zs)"
    using arg_cong[OF assms(1), of length] by simp
  have "contents w bo = read_bytes (mem w) (basePtr bo) (length xs) @
      (read_bytes (mem w) a n @ read_bytes (mem w) (a + of_nat n) (length zs))"
    unfolding contents_def l read_append assms(2,3) by (rule refl)
  then show ?thesis using assms(1,3) by simp
qed

lemma zeros_split: "a \<le> n \<Longrightarrow> zeros n = zeros a @ zeros (n - a)"
  by (simp add: zeros_def flip: replicate_add)

section \<open>Handles\<close>

lemma addUnique_fields [simp]:
  "cb_buffer (fold addUniqueBoHandle hs cb) = cb_buffer cb"
  "syncFenceVpuAddr (fold addUniqueBoHandle hs cb) = syncFenceVpuAddr cb"
  "commandsBegin (fold addUniqueBoHandle hs cb) = commandsBegin cb"
  "commandsEnd (fold addUniqueBoHandle hs cb) = commandsEnd cb"
  by (induction hs arbitrary: cb) (simp_all add: addUniqueBoHandle_def)

definition add_handles :: "u32 list \<Rightarrow> u32 list \<Rightarrow> u32 list" where
  "add_handles hs l = fold (\<lambda>h l. if h \<in> set l then l else l @ [h]) hs l"

lemma addUnique_handles [simp]:
  "bufferHandles (fold addUniqueBoHandle hs cb) = add_handles hs (bufferHandles cb)"
  by (induction hs arbitrary: cb) (simp_all add: addUniqueBoHandle_def add_handles_def)

lemma add_handles_simps [simp]:
  "add_handles [] l = l" "add_handles hs' (add_handles hs l) = add_handles (hs @ hs') l"
  by (simp_all add: add_handles_def)

lemma add_handles_set:
  "set (add_handles hs l) = set l \<union> set hs" "distinct l \<Longrightarrow> distinct (add_handles hs l)"
  by (induction hs arbitrary: l) (auto simp: add_handles_def)

section \<open>Descriptors and their places\<close>

definition desc_of :: "'h command \<Rightarrow> bytes" where
  "desc_of cmd = (case descriptor cmd of None \<Rightarrow> [] | Some d \<Rightarrow> desc_data d)"

definition desc_room :: "'h command \<Rightarrow> nat" where
  "desc_room cmd = unat (getFwDataCacheAlign (of_nat (getDescriptorSize cmd)))"

definition desc_piece :: "'h command \<Rightarrow> bytes" where
  "desc_piece cmd = desc_of cmd @ zeros (desc_room cmd - length (desc_of cmd))"

definition csize :: "'h command list \<Rightarrow> nat" where "csize cmds = sum_list (map getCommitSize cmds)"
definition dsize :: "'h command list \<Rightarrow> nat" where "dsize cmds = sum_list (map desc_room cmds)"

definition cmd_area :: "'h command list \<Rightarrow> bytes" where
  "cmd_area cmds = concat (map getCommitStream cmds)"

definition desc_area :: "'h command list \<Rightarrow> bytes" where
  "desc_area cmds = concat (map desc_piece cmds)"

text \<open>The commands with their descriptors at \<open>va + off\<close> and on.\<close>

fun patched :: "u64 \<Rightarrow> u64 \<Rightarrow> 'h command list \<Rightarrow> 'h command list" where
  "patched va off [] = []"
| "patched va off (cmd # cmds) =
     (if getDescriptorSize cmd > 0 then patchDescriptorAddress (va + off) cmd else cmd)
       # patched va (off + of_nat (desc_room cmd)) cmds"

text \<open>A command as the constructors build it; a descriptor is far below the address space.\<close>

definition cmd_ok :: "'h command \<Rightarrow> bool" where
  "cmd_ok cmd \<longleftrightarrow> body_ok (body cmd) \<and> getDescriptorSize cmd < 2 ^ 63"

lemma length_desc_of: "length (desc_of cmd) = getDescriptorSize cmd"
  by (simp add: desc_of_def getDescriptorSize_def split: option.split)

lemma getDescriptorData_Some: "getDescriptorSize cmd > 0 \<Longrightarrow> getDescriptorData cmd = Some (desc_of cmd)"
  by (auto simp: desc_of_def getDescriptorSize_def getDescriptorData_def split: option.splits)

lemma fw_align:
  assumes "n < 2 ^ 63"
  shows "n \<le> unat (getFwDataCacheAlign (of_nat n)) \<and> unat (getFwDataCacheAlign (of_nat n)) < n + 64
     \<and> 64 dvd unat (getFwDataCacheAlign (of_nat n))"
proof -
  have u: "unat (of_nat n :: u64) = n" using assms by (intro unat_of_nat_64) simp
  show ?thesis
    using ALIGN_bounds[of 6 "of_nat n"] assms u unfolding getFwDataCacheAlign_def by simp
qed

lemma desc_room_ge: "cmd_ok cmd \<Longrightarrow> getDescriptorSize cmd \<le> desc_room cmd"
  using fw_align[of "getDescriptorSize cmd"] by (simp add: desc_room_def cmd_ok_def)

lemma desc_room_0: "getDescriptorSize cmd = 0 \<Longrightarrow> desc_room cmd = 0"
  by (simp add: desc_room_def getFwDataCacheAlign_def ALIGN_def)

lemma length_desc_piece: "cmd_ok cmd \<Longrightarrow> length (desc_piece cmd) = desc_room cmd"
  using desc_room_ge[of cmd] by (simp add: desc_piece_def length_desc_of)

lemma patch_fields [simp]:
  "bufferObjects (patchDescriptorAddress a cmd) = bufferObjects cmd"
  "descriptor (patchDescriptorAddress a cmd) = descriptor cmd"
  "inference (patchDescriptorAddress a cmd) = inference cmd"
  "sType (patchDescriptorAddress a cmd) = sType cmd"
  "body_type (body (patchDescriptorAddress a cmd)) = body_type (body cmd)"
  "body_size (body (patchDescriptorAddress a cmd)) = body_size (body cmd)"
  "body_ok (body (patchDescriptorAddress a cmd)) = body_ok (body cmd)"
  by (simp_all add: patchDescriptorAddress_def) (cases "body cmd"; simp)+

lemma patch_sizes [simp]:
  "getCommitSize (patchDescriptorAddress a cmd) = getCommitSize cmd"
  "getDescriptorSize (patchDescriptorAddress a cmd) = getDescriptorSize cmd"
  "getCommandType (patchDescriptorAddress a cmd) = getCommandType cmd"
  "getSharedScratchSize (patchDescriptorAddress a cmd) = getSharedScratchSize cmd"
  by (simp_all add: getCommitSize_def getDescriptorSize_def getCommandType_def getSharedScratchSize_def)

lemma length_stream: "body_ok (body cmd) \<Longrightarrow> length (getCommitStream cmd) = getCommitSize cmd"
  by (simp add: getCommitStream_def getCommitSize_def length_encode)

lemma commit_size_pos: "body_ok (body cmd) \<Longrightarrow> 8 \<le> getCommitSize cmd"
  by (cases "body cmd") (auto simp: getCommitSize_def)

section \<open>Adding commands\<close>

lemma put_command_piece:
  assumes "basePtr (cb_buffer cb) \<noteq> 0" "body_ok (body cmd)"
    "contents w (cb_buffer cb) = xs @ ys @ zs" "length ys = getCommitSize cmd" "unat co = length xs"
  shows "\<exists>cb' w'. put_command cb cmd co d w
      = (True, cmd, cb', co + of_nat (getCommitSize cmd), d, w') \<and>
     only_mem w w' \<and> contents w' (cb_buffer cb) = xs @ getCommitStream cmd @ zs \<and>
     cb_buffer cb' = cb_buffer cb \<and> bufferHandles cb' = bufferHandles cb \<and>
     syncFenceVpuAddr cb' = syncFenceVpuAddr cb \<and> commandsBegin cb' = commandsBegin cb \<and>
     commandsEnd cb' = commandsEnd cb"
proof -
  have l: "length ys = length (getCommitStream cmd)" "getCommitStream cmd \<noteq> []"
    using assms(4) length_stream[OF assms(2)] commit_size_pos[OF assms(2)] by auto
  from copyToBuffer_piece[OF assms(1,3) l assms(5) refl] show ?thesis
    using length_stream[OF assms(2)] by (auto simp: put_command_def)
qed

text \<open>
  One command: the buffer is a prefix up to the command offset, room for commands, the
  descriptors so far, and room for descriptors.
\<close>

lemma addCommand_piece:
  assumes "basePtr bo \<noteq> 0" "cb_buffer cb = bo" "cmd_ok cmd"
    "contents w bo = xs @ zeros n @ ds @ zeros m"
    "unat co = length xs" "unat d = length xs + n + length ds"
    "0 < n" "getCommitSize cmd \<le> n" "desc_room cmd \<le> m"
  shows "\<exists>cb' w'. addCommand cb (Some cmd) co d w
      = (True, Some (hd (patched (vpuAddr bo) d [cmd])), cb', co + of_nat (getCommitSize cmd),
         d + of_nat (desc_room cmd), w') \<and>
     only_mem w w' \<and> contents w' bo = (xs @ getCommitStream (hd (patched (vpuAddr bo) d [cmd])))
        @ zeros (n - getCommitSize cmd) @ (ds @ desc_piece cmd) @ zeros (m - desc_room cmd) \<and>
     cb_buffer cb' = bo \<and> bufferHandles cb' = add_handles (map handle (bufferObjects cmd)) (bufferHandles cb) \<and>
     syncFenceVpuAddr cb' = syncFenceVpuAddr cb \<and> commandsBegin cb' = commandsBegin cb \<and>
     commandsEnd cb' = commandsEnd cb"
proof -
  let ?cb1 = "fold addUniqueBoHandle (map handle (bufferObjects cmd)) cb"
    and ?sz = "getCommitSize cmd" and ?k = "getDescriptorSize cmd"
  have guard: "d \<noteq> 0" "\<not> co \<ge> d" using assms(5,6,7) by (auto simp: word_le_nat_alt)
  have zn: "zeros n = zeros ?sz @ zeros (n - ?sz)" using assms(8) by (rule zeros_split)
  have b1: "cb_buffer ?cb1 = bo" by (simp add: assms(2))
  show ?thesis
  proof (cases "?k > 0")
    case False
    then have e: "desc_room cmd = 0" "desc_piece cmd = []" "getDescriptorSize cmd = 0"
      using desc_room_0[of cmd] length_desc_of[of cmd] by (auto simp: desc_piece_def zeros_def)
    have c: "contents w (cb_buffer ?cb1) = xs @ zeros ?sz @ (zeros (n - ?sz) @ ds @ zeros m)"
      using assms(2,4) by (simp add: zn)
    have "body_ok (body cmd)" using assms(3) by (simp add: cmd_ok_def)
    from put_command_piece[OF _ this c _ assms(5), of d] assms(1) b1
    obtain cb' w' where "put_command ?cb1 cmd co d w = (True, cmd, cb', co + of_nat ?sz, d, w')" "only_mem w w'"
      "contents w' bo = xs @ getCommitStream cmd @ zeros (n - ?sz) @ ds @ zeros m"
      "cb_buffer cb' = bo" "bufferHandles cb' = bufferHandles ?cb1" "syncFenceVpuAddr cb' = syncFenceVpuAddr cb"
      "commandsBegin cb' = commandsBegin cb" "commandsEnd cb' = commandsEnd cb"
      by auto
    then show ?thesis using guard e assms(2) by (simp add: addCommand_def Let_def)
  next
    case True
    let ?dd = "desc_of cmd" and ?r = "desc_room cmd"
    have r: "length ?dd = ?k" "?k \<le> ?r" "?dd \<noteq> []"
      using desc_room_ge[OF assms(3)] length_desc_of[of cmd] True by auto
    have zm: "zeros m = zeros ?k @ zeros (?r - ?k) @ zeros (m - ?r)"
      using r(2) assms(9) by (simp add: zeros_def flip: replicate_add)
    have c: "contents w bo = (xs @ zeros n @ ds) @ zeros ?k @ (zeros (?r - ?k) @ zeros (m - ?r))"
      using assms(4) by (simp add: zm)
    from copyToBuffer_piece[OF assms(1) c _ r(3), of d "of_nat ?k"] r(1) assms(6)
    obtain w1 where m1: "copyToBuffer bo (Some ?dd) (of_nat ?k) d w = (True, w1)" "only_mem w w1"
      "contents w1 bo = (xs @ zeros n @ ds) @ ?dd @ (zeros (?r - ?k) @ zeros (m - ?r))"
      by auto
    let ?cmd = "patchDescriptorAddress (vpuAddr bo + d) cmd"
    have c2: "contents w1 (cb_buffer ?cb1)
        = xs @ zeros ?sz @ (zeros (n - ?sz) @ (ds @ desc_piece cmd) @ zeros (m - ?r))"
      using m1(3) r(1) assms(2) by (simp add: zn desc_piece_def)
    have ok: "body_ok (body ?cmd)" using assms(3) by (simp add: cmd_ok_def)
    from put_command_piece[OF _ ok c2 _ assms(5), of "d + of_nat ?r"] assms(1) b1
    obtain cb' w' where "put_command ?cb1 ?cmd co (d + of_nat ?r) w1
          = (True, ?cmd, cb', co + of_nat ?sz, d + of_nat ?r, w')" "only_mem w1 w'"
      "contents w' bo = xs @ getCommitStream ?cmd @ zeros (n - ?sz) @ (ds @ desc_piece cmd) @ zeros (m - ?r)"
      "cb_buffer cb' = bo" "bufferHandles cb' = bufferHandles ?cb1" "syncFenceVpuAddr cb' = syncFenceVpuAddr cb"
      "commandsBegin cb' = commandsBegin cb" "commandsEnd cb' = commandsEnd cb"
      by auto
    moreover have "of_nat ?r = getFwDataCacheAlign (of_nat ?k)" by (simp add: desc_room_def)
    ultimately show ?thesis
      using guard True assms(2) m1(1) only_mem_trans[OF m1(2)] getDescriptorData_Some[OF True]
      by (simp add: addCommand_def Let_def)
  qed
qed

text \<open>A synchronize command is a fence signal and ends the list; then the loop always succeeds.\<close>

definition sync_last :: "'h command list \<Rightarrow> bool" where
  "sync_last cmds \<longleftrightarrow> (\<forall>c \<in> set (butlast cmds). \<not> isSynchronizeCommand c)
     \<and> (cmds \<noteq> [] \<and> isSynchronizeCommand (last cmds) \<longrightarrow> getCommandType (last cmds) = VPU_CMD_FENCE_SIGNAL)"

definition handles_of :: "'h command list \<Rightarrow> u32 list" where
  "handles_of cmds = concat (map (\<lambda>c. map handle (bufferObjects c)) cmds)"

lemma sync_step:
  assumes "sync_last (cmd # cmds)" "syncFenceVpuAddr cb = 0"
  shows "\<exists>cb1. (if isSynchronizeCommand cmd then setSyncFenceAddr cmd cb else (True, cb)) = (True, cb1) \<and>
    cb_buffer cb1 = cb_buffer cb \<and> bufferHandles cb1 = bufferHandles cb \<and> commandsBegin cb1 = commandsBegin cb \<and>
    commandsEnd cb1 = commandsEnd cb \<and> (cmds \<noteq> [] \<longrightarrow> syncFenceVpuAddr cb1 = 0)"
  using assms by (cases cmds) (auto simp: sync_last_def setSyncFenceAddr_def)

lemma sync_last_tl: "sync_last (cmd # cmds) \<Longrightarrow> sync_last cmds"
  by (cases cmds) (auto simp: sync_last_def)

lemma addCommands_piece:
  assumes "basePtr bo \<noteq> 0" "cb_buffer cb = bo" "\<forall>c \<in> set cmds. cmd_ok c" "sync_last cmds"
    "syncFenceVpuAddr cb = 0" "contents w bo = xs @ zeros n @ ds @ zeros m"
    "unat co = length xs" "unat d = length xs + n + length ds" "csize cmds < n" "dsize cmds \<le> m"
  shows "\<exists>cb' w'. addCommands cb cmds co d w
      = (True, patched (vpuAddr bo) d cmds, cb', co + of_nat (csize cmds), d + of_nat (dsize cmds), w') \<and>
     only_mem w w' \<and> contents w' bo = (xs @ cmd_area (patched (vpuAddr bo) d cmds))
        @ zeros (n - csize cmds) @ (ds @ desc_area cmds) @ zeros (m - dsize cmds) \<and>
     cb_buffer cb' = bo \<and> bufferHandles cb' = add_handles (handles_of cmds) (bufferHandles cb) \<and>
     commandsBegin cb' = commandsBegin cb \<and> commandsEnd cb' = commandsEnd cb"
  using assms(2-)
proof (induction cmds arbitrary: cb w xs n ds m co d)
  case Nil
  then show ?case by (simp add: csize_def dsize_def cmd_area_def desc_area_def handles_of_def)
next
  case (Cons cmd cmds)
  obtain cb1 where sync: "(if isSynchronizeCommand cmd then setSyncFenceAddr cmd cb else (True, cb)) = (True, cb1)"
    and cb1: "cb_buffer cb1 = bo" "bufferHandles cb1 = bufferHandles cb" "commandsBegin cb1 = commandsBegin cb"
      "commandsEnd cb1 = commandsEnd cb" "cmds \<noteq> [] \<longrightarrow> syncFenceVpuAddr cb1 = 0"
    using sync_step[OF Cons.prems(3,4)] Cons.prems(1) by auto
  have ok: "cmd_ok cmd" "\<forall>c \<in> set cmds. cmd_ok c" using Cons.prems(2) by auto
  have sz: "getCommitSize cmd + csize cmds < n" "desc_room cmd + dsize cmds \<le> m"
    using Cons.prems(8,9) by (auto simp: csize_def dsize_def)
  let ?cmd' = "hd (patched (vpuAddr bo) d [cmd])"
  from addCommand_piece[OF assms(1) cb1(1) ok(1) Cons.prems(5,6,7)] sz
  obtain cb2 w2 where s: "addCommand cb1 (Some cmd) co d w = (True, Some ?cmd', cb2, co + of_nat (getCommitSize cmd),
         d + of_nat (desc_room cmd), w2)"
     "only_mem w w2" "contents w2 bo = (xs @ getCommitStream ?cmd')
        @ zeros (n - getCommitSize cmd) @ (ds @ desc_piece cmd) @ zeros (m - desc_room cmd)"
     and cb2: "cb_buffer cb2 = bo" "bufferHandles cb2 = add_handles (map handle (bufferObjects cmd)) (bufferHandles cb1)"
     "syncFenceVpuAddr cb2 = syncFenceVpuAddr cb1" "commandsBegin cb2 = commandsBegin cb1"
     "commandsEnd cb2 = commandsEnd cb1"
    by auto
  show ?case
  proof (cases "cmds = []")
    case True
    then show ?thesis using s cb2 sync cb1 only_mem_trans[OF s(2)]
      by (simp add: csize_def dsize_def cmd_area_def desc_area_def handles_of_def)
  next
    case False
    let ?n = "n - getCommitSize cmd" and ?m = "m - desc_room cmd"
      and ?co = "co + of_nat (getCommitSize cmd)" and ?d = "d + of_nat (desc_room cmd)"
    have len: "length xs + n + length ds + m = unat (allocSize bo)"
      using arg_cong[OF Cons.prems(5), of length] by simp
    have l: "length (getCommitStream ?cmd') = getCommitSize cmd" "length (desc_piece cmd) = desc_room cmd"
      using ok(1) length_desc_piece[OF ok(1)] by (auto simp: cmd_ok_def length_stream)
    have u: "unat ?co = length xs + getCommitSize cmd" "unat ?d = length xs + n + (length ds + desc_room cmd)"
    proof -
      have plus: "unat (x + of_nat k) = unat x + k" if "unat x + k \<le> unat (allocSize bo)" for x :: u64 and k
      proof -
        have "k < 2 ^ 64" "unat x + k < 2 ^ 64" using that unat_lt_64[of "allocSize bo"] by linarith+
        then show ?thesis using unat_plus_64[of x "of_nat k"] by (simp add: unat_of_nat_64)
      qed
      show "unat ?co = length xs + getCommitSize cmd"
        using plus[of co "getCommitSize cmd"] Cons.prems(6) sz len by linarith
      show "unat ?d = length xs + n + (length ds + desc_room cmd)"
        using plus[of d "desc_room cmd"] Cons.prems(7) sz len by linarith
    qed
    have p: "syncFenceVpuAddr cb2 = 0" using cb1(5) cb2(3) False by simp
    have q: "unat ?co = length (xs @ getCommitStream ?cmd')"
      "unat ?d = length (xs @ getCommitStream ?cmd') + ?n + length (ds @ desc_piece cmd)"
      "csize cmds < ?n" "dsize cmds \<le> ?m"
      using u sz by (simp_all only: length_append l)
    from Cons.IH[OF cb2(1) ok(2) sync_last_tl[OF Cons.prems(3)] p s(3) q]
    obtain cb' w' where "addCommands cb2 cmds ?co ?d w2
      = (True, patched (vpuAddr bo) ?d cmds, cb', ?co + of_nat (csize cmds), ?d + of_nat (dsize cmds), w')"
     "only_mem w2 w' \<and> contents w' bo = ((xs @ getCommitStream ?cmd') @ cmd_area (patched (vpuAddr bo) ?d cmds))
        @ zeros (?n - csize cmds) @ ((ds @ desc_piece cmd) @ desc_area cmds) @ zeros (?m - dsize cmds)"
     "cb_buffer cb' = bo" "bufferHandles cb' = add_handles (handles_of cmds) (bufferHandles cb2)"
     "commandsBegin cb' = commandsBegin cb2" "commandsEnd cb' = commandsEnd cb2"
      by blast
    then show ?thesis using s cb2 sync cb1 only_mem_trans[OF s(2)]
      by (simp add: csize_def dsize_def cmd_area_def desc_area_def handles_of_def)
  qed
qed

lemma length_cmd_area: "\<forall>c \<in> set cmds. cmd_ok c \<Longrightarrow> length (cmd_area (patched va d cmds)) = csize cmds"
  by (induction cmds arbitrary: d) (simp_all add: cmd_area_def csize_def length_stream cmd_ok_def)

lemma length_desc_area: "\<forall>c \<in> set cmds. cmd_ok c \<Longrightarrow> length (desc_area cmds) = dsize cmds"
  by (induction cmds) (simp_all add: desc_area_def dsize_def length_desc_piece)

section \<open>The header\<close>

lemma length_cb_header [simp]: "length (encode_cb_header sz off csa) = 48"
  by (simp add: encode_cb_header_def)

lemma initHeader_piece:
  assumes "176 \<le> unat (allocSize bo)" "safe_cast_u32 (96 + cmdSize) = Inr n"
  shows "\<exists>w'. initHeader bo cmdSize w = (Inr (), w') \<and> only_mem w w' \<and>
    contents w' bo = zeros 128 @ encode_cb_header n 96 (vpuAddr bo) @ zeros (unat (allocSize bo) - 176)"
proof -
  let ?b = "basePtr bo" and ?r = "unat (allocSize bo) - 176"
  define w0 where "w0 = w\<lparr>mem := write_bytes (mem w) ?b (replicate (unat (allocSize bo)) 0)\<rparr>"
  define w1 where "w1 = w0\<lparr>mem := write_bytes (mem w0) (?b + 132) (enc32 96)\<rparr>"
  define w2 where "w2 = w1\<lparr>mem := write_bytes (mem w1) (?b + 128) (enc32 n)\<rparr>"
  define w3 where "w3 = w2\<lparr>mem := write_bytes (mem w2) (?b + 168) (enc64 (vpuAddr bo))\<rparr>"
  define w4 where "w4 = w3\<lparr>mem := write_bytes (mem w3) (?b + 136) (enc32 api_version)\<rparr>"
  have "contents w0 bo = [] @ replicate (unat (allocSize bo)) 0 @ []"
    unfolding w0_def by (rule contents_write[where ys = "contents w bo"]) simp_all
  also have "\<dots> = zeros 132 @ zeros 4 @ (zeros (32 + 8) @ zeros ?r)"
    using assms(1) by (simp add: zeros_def flip: replicate_add)
  finally have c0: "contents w0 bo = zeros 132 @ zeros 4 @ (zeros (32 + 8) @ zeros ?r)" .
  have "contents w1 bo = zeros 132 @ enc32 96 @ (zeros (32 + 8) @ zeros ?r)"
    unfolding w1_def by (rule contents_write[OF c0]) simp_all
  also have "\<dots> = zeros 128 @ zeros 4 @ (enc32 96 @ zeros (32 + 8) @ zeros ?r)"
    by (simp add: zeros_def flip: replicate_add append_assoc)
  finally have c1: "contents w1 bo = zeros 128 @ zeros 4 @ (enc32 96 @ zeros (32 + 8) @ zeros ?r)" .
  have "contents w2 bo = zeros 128 @ enc32 n @ (enc32 96 @ zeros (32 + 8) @ zeros ?r)"
    unfolding w2_def by (rule contents_write[OF c1]) simp_all
  also have "\<dots> = (zeros 128 @ enc32 n @ enc32 96 @ zeros 32) @ zeros 8 @ zeros ?r"
    using zeros_split[of 32 40] by simp
  finally have c2: "contents w2 bo = (zeros 128 @ enc32 n @ enc32 96 @ zeros 32) @ zeros 8 @ zeros ?r" .
  have "contents w3 bo = (zeros 128 @ enc32 n @ enc32 96 @ zeros 32) @ enc64 (vpuAddr bo) @ zeros ?r"
    unfolding w3_def by (rule contents_write[OF c2]) simp_all
  also have "\<dots> = (zeros 128 @ enc32 n @ enc32 96) @ zeros 4 @ (zeros 4 @ zeros 24 @ enc64 (vpuAddr bo) @ zeros ?r)"
    by (simp add: zeros_def flip: replicate_add append_assoc)
  finally have c3: "contents w3 bo = (zeros 128 @ enc32 n @ enc32 96) @ zeros 4 @ (zeros 4 @ zeros 24 @ enc64 (vpuAddr bo) @ zeros ?r)" .
  have "contents w4 bo = (zeros 128 @ enc32 n @ enc32 96) @ enc32 api_version @ (zeros 4 @ zeros 24 @ enc64 (vpuAddr bo) @ zeros ?r)"
    unfolding w4_def by (rule contents_write[OF c3]) simp_all
  then have "contents w4 bo = zeros 128 @ encode_cb_header n 96 (vpuAddr bo) @ zeros ?r"
    by (simp add: encode_cb_header_def)
  moreover have "initHeader bo cmdSize w = (Inr (), w4)"
    by (simp add: initHeader_def Let_def assms(2) assms(2)[unfolded add.commute[of 96]] w4_def w3_def w2_def w1_def w0_def ac_simps)
  moreover have "only_mem w w4" by (auto simp: only_mem_def w4_def w3_def w2_def w1_def w0_def)
  ultimately show ?thesis by blast
qed

section \<open>A whole buffer\<close>

lemma total_commit: "total_commit_size cmds = of_nat (csize cmds)"
proof -
  have "fold (\<lambda>cmd n. n + of_nat (getCommitSize cmd)) cmds x = x + of_nat (csize cmds)" for x :: u64
    by (induction cmds arbitrary: x) (simp_all add: csize_def)
  then show ?thesis by (simp add: total_commit_size_def)
qed

lemma total_desc: "total_desc_size cmds = of_nat (dsize cmds)"
proof -
  have "fold (\<lambda>cmd n. n + getFwDataCacheAlign (of_nat (getDescriptorSize cmd))) cmds x
      = x + of_nat (dsize cmds)" for x :: u64
    by (induction cmds arbitrary: x) (simp_all add: dsize_def desc_room_def)
  then show ?thesis by (simp add: total_desc_size_def)
qed

text \<open>
  The image of a buffer: context save area and fence, header, the two slots in front, the
  commands with the last slot of 24 bytes, the gap to the next multiple of 64, descriptors.
\<close>

definition nop_body :: "hw_info \<Rightarrow> bytes \<Rightarrow> cmd_body" where
  "nop_body hw tail = Nop (if isJsmCmdApiGreaterThan hw 4 9 then VPU_CMD_NOP else VPU_CMD_BARRIER) 24 tail"

definition desc_start :: "'h command list \<Rightarrow> u64" where
  "desc_start cmds = getFwDataCacheAlign (off_commandList + (of_nat (csize cmds) + sizeof_fence))"

text \<open>The sizes a buffer of \<open>allocateCommandBuffer\<close> needs.\<close>

definition fits :: "'h command list \<Rightarrow> buffer_object \<Rightarrow> bool" where
  "fits cmds bo \<longleftrightarrow> basePtr bo \<noteq> 0 \<and> csize cmds + 120 < 2 ^ 32
     \<and> unat (desc_start cmds) + dsize cmds \<le> unat (allocSize bo)"

lemma desc_start_bounds:
  assumes "csize cmds + 120 < 2 ^ 32"
  shows "csize cmds + 248 \<le> unat (desc_start cmds)" "unat (desc_start cmds) < csize cmds + 312"
    "64 dvd unat (desc_start cmds)"
proof -
  have "off_commandList + (of_nat (csize cmds) + sizeof_fence) = of_nat (csize cmds + 248)" by simp
  then have "desc_start cmds = getFwDataCacheAlign (of_nat (csize cmds + 248))"
    by (simp only: desc_start_def)
  moreover have "csize cmds + 248 < 2 ^ 63" using assms by simp
  ultimately show "csize cmds + 248 \<le> unat (desc_start cmds)" "unat (desc_start cmds) < csize cmds + 312"
    "64 dvd unat (desc_start cmds)"
    using fw_align[of "csize cmds + 248"] by auto
qed

lemma fill_buffer_image:
  fixes cmds :: "'h command list"
  assumes "fits cmds bo" "\<forall>c \<in> set cmds. cmd_ok c" "sync_last cmds" "length tail = 16"
  defines "d0 \<equiv> unat (desc_start cmds)"
  shows "\<exists>cb w'. fill_buffer tail bo b cmds (total_commit_size cmds + sizeof_fence) (desc_start cmds)
        (total_desc_size cmds) c
      = ((Inr (Some cb), patched (vpuAddr bo) (desc_start cmds) cmds), c\<lparr>ctx_world := w'\<rparr>)
     \<and> only_mem (ctx_world c) w' \<and> cb_buffer cb = bo \<and> commandsBegin cb = b \<and> commandsEnd cb = b + length cmds
     \<and> bufferHandles cb = add_handles (handles_of cmds) [handle bo]
     \<and> contents w' bo = zeros 128 @ encode_cb_header (of_nat (csize cmds + 120)) 96 (vpuAddr bo) @ zeros 48
         @ cmd_area (patched (vpuAddr bo) (desc_start cmds) cmds) @ encode (nop_body (hwInfo c) tail)
         @ zeros (d0 - (csize cmds + 248)) @ desc_area cmds
         @ zeros (unat (allocSize bo) - d0 - dsize cmds)"
proof -
  let ?al = "unat (allocSize bo)" and ?va = "vpuAddr bo" and ?ds = "desc_start cmds" and ?n = "csize cmds"
  have b: "basePtr bo \<noteq> 0" "?n + 120 < 2 ^ 32" "d0 + dsize cmds \<le> ?al"
    using assms(1) by (auto simp: fits_def d0_def)
  note s = desc_start_bounds[OF b(2), folded d0_def]
  let ?h = "encode_cb_header (of_nat (?n + 120)) 96 ?va"
  have cast: "safe_cast_u32 (96 + (total_commit_size cmds + sizeof_fence)) = Inr (of_nat (?n + 120))"
  proof -
    have e: "96 + (total_commit_size cmds + sizeof_fence) = of_nat (?n + 120)" by (simp add: total_commit)
    have "uint (of_nat (?n + 120) :: u64) = int (?n + 120)"
      using unat_of_nat_64[OF order.strict_trans[OF b(2)]] by (simp add: uint_nat)
    then show ?thesis unfolding e safe_cast_u32_def using b(2) by simp
  qed
  have "176 \<le> ?al" using s b(3) by linarith
  from initHeader_piece[OF this cast, of "ctx_world c"] obtain w1 where
    w1: "initHeader bo (total_commit_size cmds + sizeof_fence) (ctx_world c) = (Inr (), w1)"
      "only_mem (ctx_world c) w1" "contents w1 bo = zeros 128 @ ?h @ zeros (?al - 176)"
    by blast
  let ?cb = "new_cmd_buffer bo b (b + length cmds)" and ?xs = "zeros 128 @ ?h @ zeros 48"
  have "zeros (?al - 176) = zeros 48 @ zeros (d0 - 224) @ [] @ zeros (?al - d0)"
    using s b(3) by (simp add: zeros_def flip: replicate_add)
  then have c1: "contents w1 bo = ?xs @ zeros (d0 - 224) @ [] @ zeros (?al - d0)" using w1(3) by simp
  have lens: "unat off_commandList = length ?xs" "unat ?ds = length ?xs + (d0 - 224) + length ([] :: bytes)"
    "?n < d0 - 224" "dsize cmds \<le> ?al - d0"
    using s b(3) by (simp_all add: d0_def)
  have f: "cb_buffer ?cb = bo" "syncFenceVpuAddr ?cb = 0" by (simp_all add: new_cmd_buffer_def)
  from addCommands_piece[OF b(1) f(1) assms(2,3) f(2) c1 lens] obtain cb2 w2 where
    w2: "addCommands ?cb cmds off_commandList ?ds w1 = (True, patched ?va ?ds cmds, cb2,
          off_commandList + of_nat ?n, ?ds + of_nat (dsize cmds), w2)" "only_mem w1 w2"
     "contents w2 bo = (?xs @ cmd_area (patched ?va ?ds cmds)) @ zeros (d0 - 224 - ?n) @ ([] @ desc_area cmds)
        @ zeros (?al - d0 - dsize cmds)"
     and cb2: "cb_buffer cb2 = bo" "bufferHandles cb2 = add_handles (handles_of cmds) (bufferHandles ?cb)"
     "commandsBegin cb2 = commandsBegin ?cb" "commandsEnd cb2 = commandsEnd ?cb"
    by blast
  let ?nop = "new_command Generic (nop_body (hwInfo c) tail) :: 'h command"
    and ?co = "off_commandList + of_nat ?n :: u64" and ?d = "?ds + of_nat (dsize cmds)"
  let ?cs = "cmd_area (patched ?va ?ds cmds)"
  have nop: "VPUNopCommand_create (hwInfo c) sizeof_fence tail = Some ?nop"
    by (simp add: VPUNopCommand_create_def nop_body_def)
  have nopf: "cmd_ok ?nop" "getCommitSize ?nop = 24" "getDescriptorSize ?nop = 0" "desc_room ?nop = 0"
    "desc_piece ?nop = []" "bufferObjects ?nop = []" "getCommitStream ?nop = encode (nop_body (hwInfo c) tail)"
    "patched ?va ?d [?nop] = [?nop]"
    using assms(4) by (simp_all add: cmd_ok_def nop_body_def new_command_def getCommitSize_def
        getDescriptorSize_def desc_room_def getFwDataCacheAlign_def ALIGN_def desc_piece_def desc_of_def
        getCommitStream_def zeros_def)
  have lcs: "length ?cs = ?n" by (rule length_cmd_area[OF assms(2)])
  have c2: "contents w2 bo = (?xs @ ?cs) @ zeros (d0 - 224 - ?n) @ desc_area cmds @ zeros (?al - d0 - dsize cmds)"
    using w2(3) by simp
  have lda: "length (desc_area cmds) = dsize cmds" by (rule length_desc_area[OF assms(2)])
  have q: "unat ?co = length (?xs @ ?cs)"
    "unat ?d = length (?xs @ ?cs) + (d0 - 224 - ?n) + length (desc_area cmds)"
  proof -
    have n: "224 + ?n < 2 ^ 64" "?n < 2 ^ 64" "dsize cmds < 2 ^ 64" "d0 + dsize cmds < 2 ^ 64"
      using b(2,3) unat_lt_64[of "allocSize bo"] by simp_all
    show "unat ?co = length (?xs @ ?cs)"
      using n(1) unat_plus_64[of off_commandList "of_nat ?n"] by (simp add: lcs unat_of_nat_64[OF n(2)])
    show "unat ?d = length (?xs @ ?cs) + (d0 - 224 - ?n) + length (desc_area cmds)"
      using n(4) s unat_plus_64[of ?ds "of_nat (dsize cmds)"]
      by (simp add: lcs lda unat_of_nat_64[OF n(3)] d0_def)
  qed
  have r: "0 < d0 - 224 - ?n" "getCommitSize ?nop \<le> d0 - 224 - ?n" "desc_room ?nop \<le> ?al - d0 - dsize cmds"
    using s by (simp_all add: nopf)
  from addCommand_piece[OF b(1) cb2(1) nopf(1) c2 q r] obtain cb3 w3 where
    w3: "addCommand cb2 (Some ?nop) ?co ?d w2 = (True, Some ?nop, cb3, ?co + 24, ?d, w3)" "only_mem w2 w3"
     "contents w3 bo = ((?xs @ ?cs) @ encode (nop_body (hwInfo c) tail)) @ zeros (d0 - 224 - ?n - 24)
        @ desc_area cmds @ zeros (?al - d0 - dsize cmds)"
     and cb3: "cb_buffer cb3 = bo" "bufferHandles cb3 = bufferHandles cb2"
     "commandsBegin cb3 = commandsBegin cb2" "commandsEnd cb3 = commandsEnd cb2"
    by (auto simp: nopf)
  have om: "only_mem (ctx_world c) w3" using w1(2) w2(2) w3(2) only_mem_trans by blast
  have "fill_buffer tail bo b cmds (total_commit_size cmds + sizeof_fence) ?ds (total_desc_size cmds) c
      = ((Inr (Some cb3), patched ?va ?ds cmds), c\<lparr>ctx_world := w3\<rparr>)"
    using w1(1) w2(1) w3(1) by (simp add: fill_buffer_def nop total_commit total_desc desc_start_def)
  moreover have "d0 - 224 - ?n - 24 = d0 - (?n + 248)" by simp
  ultimately show ?thesis
    using w3(3) cb2 cb3 om by (auto simp: new_cmd_buffer_def)
qed

section \<open>Reading a buffer back\<close>

lemma dec_take [simp]: "dec64 (take 8 bs) = dec64 bs" "dec32 (take 4 bs) = dec32 bs" "dec16 (take 2 bs) = dec16 bs"
  by (simp_all add: dec64_def dec32_def dec16_def)

lemma read_within:
  assumes "contents w bo = xs @ ys @ zs" "p = basePtr bo + of_nat (length xs)" "k + n \<le> length ys"
  shows "read_bytes (mem w) (p + of_nat k) n = take n (drop k ys)"
proof -
  have e: "take k ys @ take n (drop k ys) @ drop n (drop k ys) = ys" by (simp only: append_take_drop_id)
  have "contents w bo = xs @ (take k ys @ take n (drop k ys) @ drop n (drop k ys)) @ zs"
    unfolding e by (rule assms(1))
  then have "contents w bo = (xs @ take k ys) @ take n (drop k ys) @ (drop n (drop k ys) @ zs)" by simp
  moreover have "p + of_nat k = basePtr bo + of_nat (length (xs @ take k ys))"
    using assms(2,3) by (simp add: ac_simps min_def)
  moreover have "n = length (take n (drop k ys))" using assms(3) by simp
  ultimately show ?thesis by (rule read_piece)
qed

text \<open>What a command is printed as, given the bytes of its descriptors.\<close>

fun view :: "copy_ops \<Rightarrow> bytes \<Rightarrow> cmd_body \<Rightarrow> printed" where
  "view ops ds (Fence t off val) = (if t = VPU_CMD_FENCE_WAIT then P_fence_wait off val else P_fence_signal off val)"
| "view ops ds (Copy_buffer start cnt) =
     P_copy start cnt (if ops = Copy_none then [] else decode_descs ops (unat cnt) ds)"
| "view ops ds (Memory_fill a s p) = P_fill p a"
| "view ops ds (Inference_execute i a w) = P_inference i a w"
| "view ops ds (Timestamp t a) = P_timestamp a"
| "view ops ds Barrier = P_barrier"
| "view ops ds (Nop t s tail) = (if t = VPU_CMD_NOP then P_nop else P_barrier)"
| "view ops ds (Metric_query t g a) = (if t = VPU_CMD_METRIC_QUERY_BEGIN then P_query_begin g a else P_query_end g a)"

fun body_typed :: "cmd_body \<Rightarrow> bool" where
  "body_typed (Fence t _ _) \<longleftrightarrow> t = VPU_CMD_FENCE_WAIT \<or> t = VPU_CMD_FENCE_SIGNAL"
| "body_typed (Nop t _ _) \<longleftrightarrow> t = VPU_CMD_NOP \<or> t = VPU_CMD_BARRIER"
| "body_typed (Metric_query t _ _) \<longleftrightarrow> t = VPU_CMD_METRIC_QUERY_BEGIN \<or> t = VPU_CMD_METRIC_QUERY_END"
| "body_typed _ \<longleftrightarrow> True"

lemma print_command_piece:
  assumes "contents w bo = xs @ encode b @ zs" "p = basePtr bo + of_nat (length xs)" "body_ok b" "body_typed b"
    "\<And>s k. b = Copy_buffer s k \<Longrightarrow> ops \<noteq> Copy_none \<Longrightarrow>
        read_bytes (mem w) (basePtr bo + (s - vpuAddr bo)) (unat k * desc_size ops) = ds"
  shows "print_command ops (mem w) bo p = Some (view ops ds b)" "read16 (mem w) (p + 2) = body_size b"
proof -
  have n: "8 \<le> unat (body_size b)" using assms(3) by (cases b) auto
  have len: "length (encode b) = unat (body_size b)" by (rule length_encode[OF assms(3)])
  note rd = read_within[OF assms(1,2), unfolded len]
  have r0: "read16 (mem w) p = body_type b"
    using rd[of 0 2] n encode_header(1)[of b] by (simp add: read16_def)
  show "read16 (mem w) (p + 2) = body_size b"
    using rd[of 2 2] n encode_header(2)[of b] by (simp add: read16_def)
  have r64: "read64 (mem w) (p + of_nat k) = dec64 (drop k (encode b))" if "k + 8 \<le> unat (body_size b)" for k
    using rd[OF that] by (simp add: read64_def)
  have r32: "read32 (mem w) (p + of_nat k) = dec32 (drop k (encode b))" if "k + 4 \<le> unat (body_size b)" for k
    using rd[OF that] by (simp add: read32_def)
  note ev = print_command_def Let_def r0 r32[of 4, simplified] r32[of 16, simplified] r32[of 24, simplified]
    r64[of 8, simplified] r64[of 16, simplified] cmd_type_defs
  show "print_command ops (mem w) bo p = Some (view ops ds b)"
  proof (cases b)
    case (Copy_buffer s k)
    then show ?thesis using assms(5)[OF Copy_buffer]
      by (simp add: ev encode_def cmd_header_def printCopyDescriptor_def)
  next
    case (Fence t off v)
    then show ?thesis using assms(4) by (auto simp: ev encode_def cmd_header_def)
  next
    case (Metric_query t g a)
    then show ?thesis using assms(4) by (auto simp: ev encode_def cmd_header_def)
  next
    case (Nop t sz tl)
    then show ?thesis using assms(4) by (auto simp: ev encode_def cmd_header_def)
  qed (simp_all add: ev encode_def cmd_header_def)
qed

lemma unat_ucast_16: "unat (ucast (x :: u16) :: u32) = unat x"
  using unsigned_less[of x, where ?'a = nat] by (simp add: unsigned_ucast_eq take_bit_nat_eq_self)

lemma print_walk_pieces:
  assumes "contents w bo = xs @ concat (map encode bs) @ zs" "\<forall>b \<in> set bs. body_ok b \<and> body_typed b \<and> unat (body_size b) < unat bufsz"
    "length xs = 128 + unat off" "unat off + sum_list (map (unat \<circ> body_size) bs) = unat bufsz"
    "length dss = length bs"
    "\<And>i s k. i < length bs \<Longrightarrow> bs ! i = Copy_buffer s k \<Longrightarrow> ops \<noteq> Copy_none \<Longrightarrow>
        read_bytes (mem w) (basePtr bo + (s - vpuAddr bo)) (unat k * desc_size ops) = dss ! i"
  shows "print_walk ops (mem w) bo bufsz off = Some (map2 (\<lambda>b ds. (body_size b, view ops ds b)) bs dss, True)"
  using assms
proof (induction bs arbitrary: xs off dss)
  case Nil
  then have "off = bufsz" by (simp add: word_unat_eq_iff)
  then show ?case by (subst print_walk.simps) simp
next
  case (Cons b bs)
  obtain ds dss' where dss: "dss = ds # dss'" using Cons.prems(5) by (cases dss) auto
  let ?p = "basePtr bo + off_header + ucast off" and ?off = "off + ucast (body_size b) :: u32"
  have b: "body_ok b" "body_typed b" "unat (body_size b) < unat bufsz" using Cons.prems(2) by auto
  have pos: "8 \<le> unat (body_size b)" using b(1) by (cases b) auto
  have c: "contents w bo = xs @ encode b @ (concat (map encode bs) @ zs)" using Cons.prems(1) by simp
  have "(ucast off :: u64) = of_nat (unat off)" by (simp add: unsigned_ucast_eq)
  then have p: "?p = basePtr bo + of_nat (length xs)" using Cons.prems(3) by (simp add: ac_simps)
  have d: "read_bytes (mem w) (basePtr bo + (s - vpuAddr bo)) (unat k * desc_size ops) = ds"
    if "b = Copy_buffer s k" "ops \<noteq> Copy_none" for s k
    using Cons.prems(6)[of 0] that dss by simp
  note pc = print_command_piece[OF c p b(1,2) d]
  have lt: "off < bufsz" using Cons.prems(4) pos by (simp add: word_less_nat_alt)
  have g: "body_size b \<noteq> 0" "\<not> ucast (body_size b) \<ge> bufsz"
  proof -
    show "body_size b \<noteq> 0" using pos by auto
    show "\<not> ucast (body_size b) \<ge> bufsz" using b(3) by (simp add: word_le_nat_alt unat_ucast_16)
  qed
  have off: "unat ?off = unat off + unat (body_size b)"
  proof -
    have "unat off + unat (ucast (body_size b) :: u32) < 2 ^ 32"
      using Cons.prems(4) unsigned_less[of bufsz, where ?'a = nat] by (simp add: unat_ucast_16)
    then show ?thesis using unat_add_lem[of off "ucast (body_size b)"] by (simp add: unat_ucast_16)
  qed
  have "print_walk ops (mem w) bo bufsz ?off = Some (map2 (\<lambda>b ds. (body_size b, view ops ds b)) bs dss', True)"
  proof (rule Cons.IH[of "xs @ encode b"])
    show "contents w bo = (xs @ encode b) @ concat (map encode bs) @ zs" using c by simp
    show "\<forall>b\<in>set bs. body_ok b \<and> body_typed b \<and> unat (body_size b) < unat bufsz" using Cons.prems(2) by simp
    show "length (xs @ encode b) = 128 + unat ?off" using Cons.prems(3) off length_encode[OF b(1)] by simp
    show "unat ?off + sum_list (map (unat \<circ> body_size) bs) = unat bufsz" using Cons.prems(4) off by (simp add: comp_def)
    show "length dss' = length bs" using Cons.prems(5) dss by simp
    show "read_bytes (mem w) (basePtr bo + (s - vpuAddr bo)) (unat k * desc_size ops) = dss' ! i"
      if "i < length bs" "bs ! i = Copy_buffer s k" "ops \<noteq> Copy_none" for i s k
      using Cons.prems(6)[of "Suc i"] that dss by simp
  qed
  then show ?case
    using lt g pc by (subst print_walk.simps) (simp add: dss Let_def)
qed

text \<open>Every copy command points at its own descriptors.\<close>

lemma desc_located:
  assumes "contents w bo = ps @ desc_area cmds @ qs" "unat d = length ps" "\<forall>c \<in> set cmds. cmd_ok c"
    "unat d + dsize cmds \<le> unat (allocSize bo)"
    "cmd \<in> set (patched (vpuAddr bo) d cmds)" "body cmd = Copy_buffer s k"
  shows "read_bytes (mem w) (basePtr bo + (s - vpuAddr bo)) (length (desc_of cmd)) = desc_of cmd"
  using assms
proof (induction cmds arbitrary: ps d)
  case (Cons c cmds)
  let ?d = "d + of_nat (desc_room c)"
  have ok: "cmd_ok c" "\<forall>c \<in> set cmds. cmd_ok c" using Cons.prems(3) by auto
  have area: "desc_area (c # cmds) = desc_piece c @ desc_area cmds" by (simp add: desc_area_def)
  have ds: "dsize (c # cmds) = desc_room c + dsize cmds" by (simp add: dsize_def)
  show ?case
  proof (cases "cmd \<in> set (patched (vpuAddr bo) ?d cmds)")
    case True
    have "desc_room c < 2 ^ 64" "unat d + desc_room c < 2 ^ 64"
      using Cons.prems(4) ds unat_lt_64[of "allocSize bo"] by linarith+
    then have u: "unat ?d = unat d + desc_room c"
      using unat_plus_64[of d "of_nat (desc_room c)"] by (simp add: unat_of_nat_64)
    show ?thesis
    proof (rule Cons.IH[of "ps @ desc_piece c"])
      show "contents w bo = (ps @ desc_piece c) @ desc_area cmds @ qs" using Cons.prems(1) area by simp
      show "unat ?d = length (ps @ desc_piece c)" using u Cons.prems(2) length_desc_piece[OF ok(1)] by simp
      show "unat ?d + dsize cmds \<le> unat (allocSize bo)" using u Cons.prems(4) ds by simp
    qed (use ok True Cons.prems(6) in simp_all)
  next
    case False
    then have c: "cmd = (if getDescriptorSize c > 0 then patchDescriptorAddress (vpuAddr bo + d) c else c)"
      using Cons.prems(5) by auto
    show ?thesis
    proof (cases "getDescriptorSize c > 0")
      case True
      then have c': "cmd = patchDescriptorAddress (vpuAddr bo + d) c" using c by simp
      then have "patch_body (vpuAddr bo + d) (body c) = Copy_buffer s k"
        using Cons.prems(6) by (simp add: patchDescriptorAddress_def)
      then have "s = vpuAddr bo + d" by (cases "body c") simp_all
      then have s: "s - vpuAddr bo = d" "desc_of cmd = desc_of c"
        by (simp_all add: c' desc_of_def)
      have "of_nat (unat d) = d" by simp
      then have "d = of_nat (length ps)" unfolding Cons.prems(2) by (rule sym)
      then show ?thesis
        unfolding s using Cons.prems(1) unfolding area desc_piece_def
        by (intro read_piece[of w bo ps _ "zeros (desc_room c - length (desc_of c)) @ desc_area cmds @ qs"]) simp_all
    next
      case False
      then have "desc_of cmd = []" using c length_desc_of[of c] by simp
      then show ?thesis by simp
    qed
  qed
qed (simp)

end
