(* ===== verification/Command_Buffer_Props.thy ===== *)
theory Command_Buffer_Props
  imports Command_Buffer_Layout
begin

text \<open>
  The properties of command buffers: what \<open>allocateCommandBuffer\<close> builds, what a reader of
  the buffer finds, and how synchronisation is patched in.
\<close>

section \<open>The buffer that is built\<close>

definition buffer_size :: "hw_info \<Rightarrow> 'h command list \<Rightarrow> u64" where
  "buffer_size hw cmds = desc_start cmds + of_nat (dsize cmds) + ucast (extraDmaDescriptorSize hw)"

definition cb_image :: "hw_info \<Rightarrow> bytes \<Rightarrow> buffer_object \<Rightarrow> 'h command list \<Rightarrow> bytes" where
  "cb_image hw tail bo cmds =
     zeros 128 @ encode_cb_header (of_nat (csize cmds + 120)) 96 (vpuAddr bo) @ zeros 48
       @ cmd_area (patched (vpuAddr bo) (desc_start cmds) cmds) @ encode (nop_body hw tail)
       @ zeros (unat (desc_start cmds) - (csize cmds + 248)) @ desc_area cmds
       @ zeros (unat (allocSize bo) - unat (desc_start cmds) - dsize cmds)"

text \<open>The buffer object a context creates for a command buffer is mapped and of the size asked for.\<close>

lemma untracked_object:
  assumes "driver_contract (drvApi c) mapped" "createUntrackedBufferObject c sz CachedFw = (Inr (Some bo), c1)"
  shows "basePtr bo \<noteq> 0 \<and> allocSize bo = sz \<and> hwInfo c1 = hwInfo c"
proof -
  have ty: "effective_type (hwInfo c) CachedFw = CachedFw" "CachedFw AND DRM_IVPU_BO_MAPPABLE \<noteq> 0"
    by (simp_all add: effective_type_def umd_defs)
  from assms(2) obtain w where cr: "bo_create (drvApi c) Internal CachedFw sz (ctx_world c) = (Inr (Some bo), w)"
    and c1: "c1 = adopt_untracked bo (c\<lparr>ctx_world := w\<rparr>)"
    by (auto simp: createUntrackedBufferObject_def ty split: if_splits prod.splits sum.splits option.splits)
  show ?thesis
    using driver_contract.bo_create_spec[OF assms(1) cr] ty(2) by (simp add: c1 adopt_untracked_def take_ref_def)
qed

lemma buffer_fits:
  assumes "basePtr bo \<noteq> 0" "allocSize bo = buffer_size hw cmds" "csize cmds + 120 < 2 ^ 32" "dsize cmds < 2 ^ 62"
  shows "fits cmds bo"
proof -
  let ?d = "desc_start cmds" and ?x = "extraDmaDescriptorSize hw"
  note s = desc_start_bounds[OF assms(3)]
  have x: "unat (ucast ?x :: u64) < 2 ^ 32"
    using unsigned_less[of ?x, where ?'a = nat] by (simp add: unsigned_ucast_eq take_bit_nat_eq_self)
  have n: "unat (of_nat (dsize cmds) :: u64) = dsize cmds" using assms(4) by (intro unat_of_nat_64) simp
  have 1: "unat (?d + of_nat (dsize cmds)) = unat ?d + dsize cmds"
    using s assms(3,4) unat_plus_64[of ?d "of_nat (dsize cmds)"] by (simp add: n)
  have "unat (allocSize bo) = unat ?d + dsize cmds + unat (ucast ?x :: u64)"
    using s assms(3,4) x unat_plus_64[of "?d + of_nat (dsize cmds)" "ucast ?x"]
    by (simp add: assms(2) buffer_size_def 1)
  then show ?thesis using assms(1,3) by (simp add: fits_def)
qed

lemma allocate_image:
  fixes cmds :: "'h command list"
  assumes "driver_contract (drvApi c) mapped" "b < e" "cmds = take (e - b) (drop b commands)"
    "e \<le> length commands"
    "\<forall>x \<in> set cmds. cmd_ok x" "sync_last cmds" "length tail = 16"
    "csize cmds + 120 < 2 ^ 32" "dsize cmds < 2 ^ 62"
    "createUntrackedBufferObject c (buffer_size (hwInfo c) cmds) CachedFw = (Inr (Some bo), c1)"
  shows "\<exists>cb w'. allocateCommandBuffer tail commands b e c =
      ((Inr (Some cb), take b commands @ patched (vpuAddr bo) (desc_start cmds) cmds @ drop e commands),
       c1\<lparr>ctx_world := w'\<rparr>)
    \<and> only_mem (ctx_world c1) w' \<and> contents w' bo = cb_image (hwInfo c) tail bo cmds
    \<and> cb_buffer cb = bo \<and> commandsBegin cb = b \<and> commandsEnd cb = e
    \<and> bufferHandles cb = add_handles (handles_of cmds) [handle bo]"
proof -
  note o = untracked_object[OF assms(1,10)]
  have "fits cmds bo" using buffer_fits o assms(8,9) by blast
  from fill_buffer_image[OF this assms(5,6,7), of b c1] obtain cb w' where
    f: "fill_buffer tail bo b cmds (total_commit_size cmds + sizeof_fence) (desc_start cmds)
        (total_desc_size cmds) c1 = ((Inr (Some cb), patched (vpuAddr bo) (desc_start cmds) cmds), c1\<lparr>ctx_world := w'\<rparr>)"
    "only_mem (ctx_world c1) w'" "cb_buffer cb = bo" "commandsBegin cb = b" "commandsEnd cb = b + length cmds"
    "bufferHandles cb = add_handles (handles_of cmds) [handle bo]" "contents w' bo = cb_image (hwInfo c) tail bo cmds"
    using o by (auto simp: cb_image_def)
  have "b + length cmds = e" using assms(2,3,4) by simp
  moreover have "allocateCommandBuffer tail commands b e c =
      ((Inr (Some cb), take b commands @ patched (vpuAddr bo) (desc_start cmds) cmds @ drop e commands),
       c1\<lparr>ctx_world := w'\<rparr>)"
    using assms(2,10) f(1)
    by (simp add: allocateCommandBuffer_def assms(3)[symmetric] buffer_size_def desc_start_def
        total_commit total_desc Let_def add.assoc)
  ultimately show ?thesis using f by blast
qed

section \<open>What a reader finds\<close>

definition shown :: "copy_ops \<Rightarrow> 'h command \<Rightarrow> u16 \<times> printed" where
  "shown ops cmd = (body_size (body cmd), view ops (desc_of cmd) (body cmd))"

text \<open>A command of a known type whose descriptors are those its structure counts.\<close>

definition readable :: "copy_ops \<Rightarrow> 'h command \<Rightarrow> bool" where
  "readable ops cmd \<longleftrightarrow> cmd_ok cmd \<and> body_typed (body cmd)
     \<and> (case body cmd of Copy_buffer _ cnt \<Rightarrow> ops = Copy_none \<or> length (desc_of cmd) = unat cnt * desc_size ops
        | _ \<Rightarrow> True)"

lemma patched_readable:
  "\<forall>c \<in> set cmds. readable ops c \<Longrightarrow> \<forall>c \<in> set (patched va d cmds). readable ops c"
proof (induction cmds arbitrary: d)
  case (Cons c cmds)
  have "readable ops (patchDescriptorAddress a c)" for a
    using Cons.prems by (cases "body c") (simp_all add: readable_def cmd_ok_def patchDescriptorAddress_def
        desc_of_def getDescriptorSize_def)
  then show ?case using Cons by auto
qed simp

lemma patched_sizes: "sum_list (map (\<lambda>c. unat (body_size (body c))) (patched va d cmds)) = csize cmds"
proof (induction cmds arbitrary: d)
  case (Cons c cmds)
  then show ?case by (simp add: csize_def getCommitSize_def)
qed (simp add: csize_def)

lemma header_reads:
  assumes "contents w bo = ps @ encode_cb_header n off csa @ zs" "length ps = 128"
  shows "read32 (mem w) (basePtr bo + off_header) = n" "read32 (mem w) (basePtr bo + off_header + 4) = off"
  using read_within[OF assms(1), of "basePtr bo + off_header" 0 4] assms(2)
    read_within[OF assms(1), of "basePtr bo + off_header" 4 4]
  by (simp_all add: read32_def encode_cb_header_def)

text \<open>
  A region of commands: those in front (the synchronisation slots, if they are in use), the
  commands of the segment, and the last slot.
\<close>

definition plain :: "cmd_body \<Rightarrow> bool" where
  "plain b \<longleftrightarrow> body_ok b \<and> body_typed b \<and> (\<forall>s k. b \<noteq> Copy_buffer s k)"

definition region :: "cmd_body list \<Rightarrow> 'h command list \<Rightarrow> cmd_body \<Rightarrow> cmd_body list" where
  "region fr cmds slot = fr @ map body cmds @ [slot]"

lemma length_region:
  "\<forall>b \<in> set bs. body_ok b \<Longrightarrow> length (concat (map encode bs)) = sum_list (map (unat \<circ> body_size) bs)"
  by (induction bs) (simp_all add: length_encode)

lemma region_printed:
  fixes cmds :: "'h command list" and bo :: buffer_object
  defines "cmds' \<equiv> patched (vpuAddr bo) (desc_start cmds) cmds"
  assumes c: "contents w bo = pre @ concat (map encode (region fr cmds' slot)) @ gap @ desc_area cmds @ zs"
    and l: "length pre = 128 + unat off"
      "unat (desc_start cmds) = length pre + length (concat (map encode (region fr cmds' slot))) + length gap"
      "unat (desc_start cmds) + dsize cmds \<le> unat (allocSize bo)"
    and h: "read32 (mem w) (basePtr bo + off_header) = n" "read32 (mem w) (basePtr bo + off_header + 4) = off"
    and n: "unat n = unat off + sum_list (map (unat \<circ> body_size) (region fr cmds' slot))" "0 < unat off"
    and ok: "\<forall>x \<in> set cmds. readable ops x" "\<forall>b \<in> set fr. plain b" "plain slot"
    and cb: "cb_buffer cb = bo"
  shows "printCommandBuffer ops cb (mem w) = Some (map (\<lambda>b. (body_size b, view ops [] b)) fr @ map (shown ops) cmds'
      @ [(body_size slot, view ops [] slot)], True)"
proof -
  let ?bs = "region fr cmds' slot" and ?d = "desc_start cmds"
  define dss where "dss = map (\<lambda>_. []) fr @ map desc_of cmds' @ [[]]"
  have rd: "\<forall>x \<in> set cmds'. readable ops x" unfolding cmds'_def by (rule patched_readable[OF ok(1)])
  have cok: "\<forall>x \<in> set cmds. cmd_ok x" using ok(1) by (simp add: readable_def)
  have bsok: "\<forall>b \<in> set ?bs. body_ok b \<and> body_typed b \<and> unat (body_size b) < unat n"
  proof
    fix b assume b: "b \<in> set ?bs"
    then have "unat (body_size b) \<le> sum_list (map (unat \<circ> body_size) ?bs)"
      by (intro member_le_sum_list) auto
    moreover have "body_ok b \<and> body_typed b"
      using b rd ok(2,3) by (auto simp: region_def plain_def readable_def cmd_ok_def)
    ultimately show "body_ok b \<and> body_typed b \<and> unat (body_size b) < unat n" using n by simp
  qed
  have copies: "read_bytes (mem w) (basePtr bo + (st - vpuAddr bo)) (unat k * desc_size ops) = dss ! i"
    if i: "i < length ?bs" "?bs ! i = Copy_buffer st k" "ops \<noteq> Copy_none" for i st k
  proof -
    have "\<not> i < length fr" using i ok(2) by (auto simp: region_def nth_append plain_def)
    moreover have "i \<noteq> length fr + length cmds'" using i ok(3) by (auto simp: region_def nth_append plain_def)
    ultimately have j: "i - length fr < length cmds'" "length fr \<le> i" using i(1) by (auto simp: region_def)
    let ?c = "cmds' ! (i - length fr)"
    have x: "?c \<in> set cmds'" "body ?c = Copy_buffer st k" "dss ! i = desc_of ?c"
      using i(2) j by (auto simp: region_def dss_def nth_append)
    have len: "length (desc_of ?c) = unat k * desc_size ops"
      using rd x(1,2) i(3) by (auto simp: readable_def)
    have "contents w bo = (pre @ concat (map encode ?bs) @ gap) @ desc_area cmds @ zs" using c by simp
    moreover have "unat ?d = length (pre @ concat (map encode ?bs) @ gap)" using l(2) by simp
    ultimately show ?thesis
      using desc_located[OF _ _ cok l(3) x(1)[unfolded cmds'_def] x(2)[unfolded cmds'_def]] x(3) len
      unfolding cmds'_def by metis
  qed
  have walk: "print_walk ops (mem w) bo n off = Some (map2 (\<lambda>b ds. (body_size b, view ops ds b)) ?bs dss, True)"
    by (rule print_walk_pieces[OF c bsok l(1) n(1)[symmetric] _ copies]) (simp_all add: region_def dss_def)
  have m1: "map2 (\<lambda>b ds. (body_size b, view ops ds b)) bs (map (\<lambda>_. []) bs) = map (\<lambda>b. (body_size b, view ops [] b)) bs" for bs
    by (induction bs) simp_all
  have m2: "map2 (\<lambda>b ds. (body_size b, view ops ds b)) (map body cs) (map desc_of cs) = map (shown ops) cs"
    for cs :: "'h command list"
    by (induction cs) (simp_all add: shown_def)
  show ?thesis
    using walk h cb by (simp add: m1 m2 printCommandBuffer_def Let_def region_def dss_def zip_append1)
qed

text \<open>A buffer in use: any save area, and what follows the header in its pieces.\<close>

definition buffer_shape ::
  "'k world \<Rightarrow> buffer_object \<Rightarrow> u32 \<Rightarrow> bytes \<Rightarrow> 'h command list \<Rightarrow> cmd_body \<Rightarrow> bool" where
  "buffer_shape w bo off front cmds slot \<longleftrightarrow>
     (\<exists>ps gap zs. contents w bo = ps @ encode_cb_header (of_nat (csize cmds + 120)) off (vpuAddr bo) @ front
         @ concat (map encode (region [] (patched (vpuAddr bo) (desc_start cmds) cmds) slot)) @ gap @ desc_area cmds @ zs
       \<and> length ps = 128 \<and> unat (desc_start cmds) = csize cmds + 248 + length gap) \<and>
     length front = 48 \<and> plain slot \<and> body_size slot = 24 \<and> csize cmds + 120 < 2 ^ 32 \<and> basePtr bo \<noteq> 0
     \<and> unat (desc_start cmds) + dsize cmds \<le> unat (allocSize bo)"

lemma nop_plain: "length tail = 16 \<Longrightarrow> plain (nop_body hw tail)" "body_size (nop_body hw tail) = 24"
  by (auto simp: nop_body_def plain_def)

lemma image_shape:
  assumes "contents w bo = cb_image hw tail bo cmds" "length tail = 16" "fits cmds bo"
  shows "buffer_shape w bo 96 (zeros 48) cmds (nop_body hw tail)"
proof -
  have s: "csize cmds + 248 \<le> unat (desc_start cmds)"
    using assms(3) by (intro desc_start_bounds(1)) (simp add: fits_def)
  have e: "concat (map encode (region [] cs slot)) = cmd_area cs @ encode slot" for cs :: "'h command list" and slot
    by (simp add: region_def cmd_area_def getCommitStream_def[abs_def] comp_def)
  have img: "contents w bo = zeros 128 @ encode_cb_header (of_nat (csize cmds + 120)) 96 (vpuAddr bo) @ zeros 48
         @ concat (map encode (region [] (patched (vpuAddr bo) (desc_start cmds) cmds) (nop_body hw tail)))
         @ zeros (unat (desc_start cmds) - (csize cmds + 248)) @ desc_area cmds
         @ zeros (unat (allocSize bo) - unat (desc_start cmds) - dsize cmds)"
    using assms(1) by (simp only: cb_image_def append_assoc e)
  show ?thesis
    unfolding buffer_shape_def
  proof (intro conjI exI)
    show "contents w bo = zeros 128 @ encode_cb_header (of_nat (csize cmds + 120)) 96 (vpuAddr bo) @ zeros 48
         @ concat (map encode (region [] (patched (vpuAddr bo) (desc_start cmds) cmds) (nop_body hw tail)))
         @ zeros (unat (desc_start cmds) - (csize cmds + 248)) @ desc_area cmds
         @ zeros (unat (allocSize bo) - unat (desc_start cmds) - dsize cmds)" by (rule img)
  qed (use assms(2,3) s nop_plain in \<open>simp_all add: fits_def\<close>)
qed

lemma unat_header_size: "csize cmds + 120 < 2 ^ 32 \<Longrightarrow> unat (of_nat (csize cmds + 120) :: u32) = csize cmds + 120"
proof -
  have "unat (of_nat k :: u32) = k" if "k < 2 ^ 32" for k
    using that by (simp add: unat_of_nat take_bit_nat_eq_self)
  then show "csize cmds + 120 < 2 ^ 32 \<Longrightarrow> unat (of_nat (csize cmds + 120) :: u32) = csize cmds + 120" .
qed

lemma region_sizes:
  "sum_list (map (unat \<circ> body_size) (region fr (patched va d cmds) slot))
     = sum_list (map (unat \<circ> body_size) fr) + csize cmds + unat (body_size slot)"
  using patched_sizes[of va d cmds] by (simp add: region_def comp_def)

lemma region_ok:
  "\<forall>x \<in> set cmds. cmd_ok x \<Longrightarrow> \<forall>b \<in> set fr. plain b \<Longrightarrow> plain slot \<Longrightarrow>
     \<forall>b \<in> set (region fr (patched va d cmds) slot). body_ok b"
proof -
  have "\<forall>x \<in> set cmds. cmd_ok x \<Longrightarrow> \<forall>b \<in> set (patched va d cmds). body_ok (body b)"
    by (induction cmds arbitrary: d) (auto simp: cmd_ok_def)
  then show "\<forall>x \<in> set cmds. cmd_ok x \<Longrightarrow> \<forall>b \<in> set fr. plain b \<Longrightarrow> plain slot \<Longrightarrow>
     \<forall>b \<in> set (region fr (patched va d cmds) slot). body_ok b" by (auto simp: region_def plain_def)
qed

text \<open>The two readings: from the command list, or from the slots in front of it.\<close>

lemma shape_printed:
  assumes "buffer_shape w bo off front cmds slot" "\<forall>x \<in> set cmds. readable ops x" "cb_buffer cb = bo"
    "off = 96 \<and> fr = [] \<or> off = 48 \<and> front = concat (map encode fr) \<and> (\<forall>b \<in> set fr. plain b)"
  shows "printCommandBuffer ops cb (mem w) = Some (map (\<lambda>b. (body_size b, view ops [] b)) fr
      @ map (shown ops) (patched (vpuAddr bo) (desc_start cmds) cmds) @ [(24, view ops [] slot)], True)"
proof -
  let ?cs = "patched (vpuAddr bo) (desc_start cmds) cmds"
  define n where "n = (of_nat (csize cmds + 120) :: u32)"
  obtain ps gap zs where c: "contents w bo = ps @ encode_cb_header n off (vpuAddr bo) @ front
         @ concat (map encode (region [] ?cs slot)) @ gap @ desc_area cmds @ zs"
    and l: "length ps = 128" "unat (desc_start cmds) = csize cmds + 248 + length gap" "length front = 48"
      "body_size slot = 24" "plain slot" "csize cmds + 120 < 2 ^ 32"
      "unat (desc_start cmds) + dsize cmds \<le> unat (allocSize bo)"
    using assms(1) unfolding buffer_shape_def n_def[symmetric] by blast
  note h = header_reads[OF c l(1)]
  have cok: "\<forall>x \<in> set cmds. cmd_ok x" using assms(2) by (simp add: readable_def)
  note len = length_region[OF region_ok[OF cok _ l(5)], unfolded region_sizes]
  note un = unat_header_size[OF l(6), folded n_def]
  from assms(4) show ?thesis
  proof
    assume o: "off = 96 \<and> fr = []"
    have c': "contents w bo = (ps @ encode_cb_header n off (vpuAddr bo) @ front)
         @ concat (map encode (region [] ?cs slot)) @ gap @ desc_area cmds @ zs" using c by simp
    show ?thesis
      using region_printed[OF c' _ _ l(7) h _ _ assms(2) _ l(5) assms(3)] l o len[of "[]"]
      by (simp add: region_sizes un)
  next
    assume o: "off = 48 \<and> front = concat (map encode fr) \<and> (\<forall>b \<in> set fr. plain b)"
    have c': "contents w bo = (ps @ encode_cb_header n off (vpuAddr bo))
         @ concat (map encode (region fr ?cs slot)) @ gap @ desc_area cmds @ zs"
      using c o by (simp add: region_def)
    have "sum_list (map (unat \<circ> body_size) fr) = 48"
      using o l(3) length_region[of fr] by (simp add: plain_def)
    then show ?thesis
      using region_printed[OF c' _ _ l(7) h _ _ assms(2) _ l(5) assms(3)] l o len[of fr]
      by (simp add: region_sizes un)
  qed
qed

text \<open>C1: A command buffer reads back as the job: \<open>allocateCommandBuffer\<close> succeeds whenever its buffer
  object is allocated, and the reader of \<open>printCommandBuffer\<close> then finds exactly the commands of the
  segment, in order, each copy with its own descriptors, followed by the reserved slot of 24 bytes; the
  buffer handles passed to the kernel are those of the buffer and of the commands, each once.\<close>

theorem allocated_buffer_reads_back:
  fixes cmds :: "'h command list"
  assumes "driver_contract (drvApi c) mapped" "b < e" "cmds = take (e - b) (drop b commands)"
    "e \<le> length commands"
    "\<forall>x \<in> set cmds. readable (copyOps (hwInfo c)) x" "sync_last cmds" "length tail = 16"
    "csize cmds + 120 < 2 ^ 32" "dsize cmds < 2 ^ 62"
    "createUntrackedBufferObject c (buffer_size (hwInfo c) cmds) CachedFw = (Inr (Some bo), c1)"
  shows "\<exists>cb w'. allocateCommandBuffer tail commands b e c =
      ((Inr (Some cb), take b commands @ patched (vpuAddr bo) (desc_start cmds) cmds @ drop e commands),
       c1\<lparr>ctx_world := w'\<rparr>)
    \<and> printCommandBuffer (copyOps (hwInfo c)) cb (mem w')
       = Some (map (shown (copyOps (hwInfo c))) (patched (vpuAddr bo) (desc_start cmds) cmds)
           @ [(24, if isJsmCmdApiGreaterThan (hwInfo c) 4 9 then P_nop else P_barrier)], True)
    \<and> set (bufferHandles cb) = insert (handle bo) (set (handles_of cmds)) \<and> distinct (bufferHandles cb)"
proof -
  have ok: "\<forall>x \<in> set cmds. cmd_ok x" using assms(5) by (simp add: readable_def)
  from allocate_image[OF assms(1-4) ok assms(6-10)] obtain cb w' where
    a: "allocateCommandBuffer tail commands b e c =
      ((Inr (Some cb), take b commands @ patched (vpuAddr bo) (desc_start cmds) cmds @ drop e commands),
       c1\<lparr>ctx_world := w'\<rparr>)" "contents w' bo = cb_image (hwInfo c) tail bo cmds" "cb_buffer cb = bo"
      "bufferHandles cb = add_handles (handles_of cmds) [handle bo]"
    by blast
  have "fits cmds bo" using buffer_fits untracked_object[OF assms(1,10)] assms(8,9) by blast
  from shape_printed[OF image_shape[OF a(2) assms(7) this] assms(5) a(3), of "[]"] a(1,4) show ?thesis
    by (auto simp: add_handles_set nop_body_def cmd_type_defs)
qed

definition demo_copy :: "unit command" where
  "demo_copy = (new_command Generic (Copy_buffer 0 1))\<lparr>
     descriptor := Some \<lparr>desc_data = encode_desc Copy_40xx (0x1000, 0x2000, 64), numDescriptors = 1\<rparr>\<rparr>"

definition demo_cmds :: "unit command list" where
  "demo_cmds = [VPUBarrierCommand_create, demo_copy]"

lemma demo_cmds_facts:
  "\<forall>x \<in> set demo_cmds. readable Copy_40xx x" "sync_last demo_cmds" "csize demo_cmds = 32" "dsize demo_cmds = 192"
  "desc_start demo_cmds = 320" "copyOps (hwInfo demo_ctx) = Copy_40xx" "buffer_size (hwInfo demo_ctx) demo_cmds = 512"
  "drvApi demo_ctx = demo_drv" "\<not> isJsmCmdApiGreaterThan (hwInfo demo_ctx) 4 9"
proof -
  show c: "csize demo_cmds = 32"
    by (simp add: demo_cmds_def demo_copy_def csize_def VPUBarrierCommand_create_def new_command_def getCommitSize_def)
  show d: "dsize demo_cmds = 192"
    by (simp add: demo_cmds_def demo_copy_def dsize_def VPUBarrierCommand_create_def new_command_def desc_room_def
        getDescriptorSize_def getFwDataCacheAlign_def ALIGN_def)
  show s: "desc_start demo_cmds = 320" by (simp add: desc_start_def c getFwDataCacheAlign_def ALIGN_def)
  show "\<forall>x \<in> set demo_cmds. readable Copy_40xx x" "sync_last demo_cmds"
    by (simp_all add: demo_cmds_def demo_copy_def readable_def cmd_ok_def VPUBarrierCommand_create_def new_command_def
        getDescriptorSize_def desc_of_def desc_size_def sync_last_def isSynchronizeCommand_def)
  show "copyOps (hwInfo demo_ctx) = Copy_40xx" "drvApi demo_ctx = demo_drv"
    "\<not> isJsmCmdApiGreaterThan (hwInfo demo_ctx) 4 9"
    by (simp_all add: demo_ctx_def new_ctx_def getHwInfo40xx_def default_hw_info_def isJsmCmdApiGreaterThan_def)
  show "buffer_size (hwInfo demo_ctx) demo_cmds = 512"
    by (simp add: buffer_size_def s d demo_ctx_def new_ctx_def getHwInfo40xx_def default_hw_info_def)
qed

lemma demo_untracked:
  "\<exists>bo c1. createUntrackedBufferObject demo_ctx 512 CachedFw = (Inr (Some bo), c1) \<and> vpuAddr bo = 0xc0000000"
  by (simp add: createUntrackedBufferObject_def demo_eval)

theorem allocated_buffer_reads_back_witness:
  "\<exists>cb c'. allocateCommandBuffer (replicate 16 0) demo_cmds 0 2 demo_ctx
        = ((Inr (Some cb), patched 0xc0000000 320 demo_cmds), c')
     \<and> printCommandBuffer Copy_40xx cb (mem (ctx_world c'))
        = Some ([(8, P_barrier), (24, P_copy 0xc0000140 1 [(0x1000, 0x2000, 64)]), (24, P_barrier)], True)"
proof -
  obtain bo c1 where bo: "createUntrackedBufferObject demo_ctx 512 CachedFw = (Inr (Some bo), c1)"
    "vpuAddr bo = 0xc0000000"
    using demo_untracked by blast
  have contract: "driver_contract (drvApi demo_ctx) null_mapped" by (simp add: demo_cmds_facts demo_contract)
  have cmds: "demo_cmds = take (2 - 0) (drop 0 demo_cmds)" "2 \<le> length demo_cmds" "length demo_cmds = 2"
    by (simp_all add: demo_cmds_def)
  have "map (shown Copy_40xx) (patched 0xc0000000 320 demo_cmds)
      = [(8, P_barrier), (24, P_copy 0xc0000140 1 [(0x1000, 0x2000, 64)])]"
    by (simp add: demo_cmds_def demo_copy_def VPUBarrierCommand_create_def new_command_def shown_def
        getDescriptorSize_def desc_of_def patchDescriptorAddress_def desc_room_def getFwDataCacheAlign_def ALIGN_def)
  then show ?thesis
    using allocated_buffer_reads_back[OF contract _ cmds(1,2) _ demo_cmds_facts(2), of "replicate 16 0" bo c1] bo
      demo_cmds_facts cmds(2,3)
    by (auto simp: demo_cmds_def[symmetric])
qed

end
