(* ===== verification/Command_Buffer_Sync.thy ===== *)
theory Command_Buffer_Sync
  imports Command_Buffer_Props
begin

text \<open>
  Synchronisation patched into a command buffer: \<open>addSelfSignalAtTail\<close> and \<open>addWaitAtHead\<close>
  keep the shape of the buffer and change only the slots they own.
\<close>

lemma addCommand_slot:
  assumes "basePtr (cb_buffer cb) \<noteq> 0" "body_ok (body cmd)"
    "contents w (cb_buffer cb) = xs @ ys @ zs" "length ys = getCommitSize cmd" "unat co = length xs"
  shows "\<exists>cb' w'. addCommand cb (Some cmd) co 0 w
      = (True, Some cmd, cb', co + of_nat (getCommitSize cmd), 0, w') \<and> only_mem w w' \<and>
     contents w' (cb_buffer cb) = xs @ getCommitStream cmd @ zs \<and> cb_buffer cb' = cb_buffer cb \<and>
     bufferHandles cb' = add_handles (map handle (bufferObjects cmd)) (bufferHandles cb)"
proof -
  let ?cb1 = "fold addUniqueBoHandle (map handle (bufferObjects cmd)) cb"
  have "basePtr (cb_buffer ?cb1) \<noteq> 0" "contents w (cb_buffer ?cb1) = xs @ ys @ zs" using assms by simp_all
  from put_command_piece[OF this(1) assms(2) this(2) assms(4,5), of 0] show ?thesis
    by (auto simp: addCommand_def Let_def)
qed

lemma event_command_fields:
  assumes "bo_ok bo" "basePtr bo \<noteq> 0" "64 < unat (allocSize bo)"
  shows "VPUEventCommand_create st ty (basePtr bo + 64) (Some bo) v
    = Some ((new_command st (Fence ty (vpuAddr bo + 64) v))\<lparr>bufferObjects := [bo]\<rparr>)"
proof -
  have u: "unat (basePtr bo + 64) = unat (basePtr bo) + 64"
    using assms unat_plus_64[of "basePtr bo" 64] by (simp add: bo_ok_def)
  then have "isInRange bo (basePtr bo + 64)" "basePtr bo + 64 \<noteq> 0"
    using assms by (auto simp: isInRange_iff unat_eq_0[symmetric])
  then show ?thesis
    by (simp add: VPUEventCommand_create_def getVPUAddr_def Let_def appendAssociateBufferObject_def new_command_def)
qed

lemma fence_plain:
  "t = VPU_CMD_FENCE_WAIT \<or> t = VPU_CMD_FENCE_SIGNAL \<Longrightarrow> plain (Fence t a v)" "body_size (Fence t a v) = 24"
  by (auto simp: plain_def)

lemma shape_small:
  assumes "buffer_shape w bo off front cmds slot"
  shows "basePtr bo \<noteq> 0" "csize cmds + 248 \<le> unat (allocSize bo)" "csize cmds + 120 < 2 ^ 32"
  using assms by (auto simp: buffer_shape_def)

lemma addSelfSignal_shape:
  fixes cmds :: "'h command list"
  assumes "buffer_shape w bo off front cmds slot" "cb_buffer cb = bo" "bo_ok bo"
    "\<forall>x \<in> set cmds. cmd_ok x"
  shows "\<exists>cb' w'. addSelfSignalAtTail TYPE('h) cb w = ((True, cb'), w') \<and> only_mem w w' \<and>
    buffer_shape w' bo off front cmds (Fence VPU_CMD_FENCE_SIGNAL (vpuAddr bo + 64) STATE_DEVICE_SIGNAL) \<and>
    cb_buffer cb' = bo \<and> bufferHandles cb' = add_handles [handle bo] (bufferHandles cb)"
proof -
  let ?cs = "patched (vpuAddr bo) (desc_start cmds) cmds"
    and ?f = "Fence VPU_CMD_FENCE_SIGNAL (vpuAddr bo + 64) STATE_DEVICE_SIGNAL"
  define n where "n = (of_nat (csize cmds + 120) :: u32)"
  obtain ps gap zs where c: "contents w bo = ps @ encode_cb_header n off (vpuAddr bo) @ front
         @ concat (map encode (region [] ?cs slot)) @ gap @ desc_area cmds @ zs"
    and l: "length ps = 128" "unat (desc_start cmds) = csize cmds + 248 + length gap" "length front = 48"
      "body_size slot = 24" "plain slot" "csize cmds + 120 < 2 ^ 32"
      "unat (desc_start cmds) + dsize cmds \<le> unat (allocSize bo)"
    using assms(1) unfolding buffer_shape_def n_def[symmetric] by blast
  note sm = shape_small[OF assms(1)]
  note un = unat_header_size[OF l(6), folded n_def]
  let ?sig = "(new_command Synchronize ?f)\<lparr>bufferObjects := [bo]\<rparr> :: 'h command"
  let ?xs = "ps @ encode_cb_header n off (vpuAddr bo) @ front @ cmd_area ?cs"
  have sig: "VPUEventSignalCommand_create (basePtr bo + off_fenceValue) (Some bo) = Some ?sig"
    using event_command_fields[OF assms(3) sm(1)] sm(2) by (simp add: VPUEventSignalCommand_create_def)
  have f: "getCommitSize ?sig = 24" "body_ok (body ?sig)" "getCommitStream ?sig = encode ?f" "bufferObjects ?sig = [bo]"
    by (simp_all add: new_command_def getCommitSize_def getCommitStream_def)
  have reg: "concat (map encode (region [] cs s)) = cmd_area cs @ encode s" for cs :: "'h command list" and s
    by (simp add: region_def cmd_area_def getCommitStream_def[abs_def] comp_def)
  have c': "contents w (cb_buffer cb) = ?xs @ encode slot @ (gap @ desc_area cmds @ zs)"
    using c assms(2) by (simp add: reg)
  have co: "unat (off_header + ucast n - sizeof_fence) = length ?xs"
  proof -
    have "(ucast n :: u64) = of_nat (unat n)" by (simp add: unsigned_ucast_eq)
    then have "off_header + ucast n - sizeof_fence = of_nat (csize cmds + 224)" unfolding un by simp
    moreover have "csize cmds + 224 < 2 ^ 64" using l(6) by simp
    ultimately show ?thesis
      using l(1,3) length_cmd_area[OF assms(4)] by (simp only: unat_of_nat_64) simp
  qed
  have slot: "length (encode slot) = getCommitSize ?sig"
    using l(4,5) f(1) by (simp add: plain_def length_encode)
  have "basePtr (cb_buffer cb) \<noteq> 0" using sm(1) assms(2) by simp
  from addCommand_slot[OF this f(2) c' slot co] obtain cb' w' where
    a: "addCommand cb (Some ?sig) (off_header + ucast n - sizeof_fence) 0 w
          = (True, Some ?sig, cb', off_header + ucast n - sizeof_fence + 24, 0, w')" "only_mem w w'"
      "contents w' bo = ?xs @ encode ?f @ (gap @ desc_area cmds @ zs)" "cb_buffer cb' = bo"
      "bufferHandles cb' = add_handles [handle bo] (bufferHandles cb)"
    using f assms(2) by auto
  have "addSelfSignalAtTail TYPE('h) cb w = ((True, cb'), w')"
    using a(1) sig header_reads(1)[OF c l(1)] assms(2)
    by (simp add: addSelfSignalAtTail_def Let_def read32_def)
  moreover have "buffer_shape w' bo off front cmds ?f"
    unfolding buffer_shape_def n_def[symmetric]
  proof (intro conjI exI)
    show "contents w' bo = ps @ encode_cb_header n off (vpuAddr bo) @ front
         @ concat (map encode (region [] ?cs ?f)) @ gap @ desc_area cmds @ zs"
      using a(3) by (simp add: reg)
  qed (use l sm fence_plain in simp_all)
  ultimately show ?thesis using a by blast
qed

text \<open>The second command in front: the reset of the fence just waited for, or a NOP.\<close>

definition second_body :: "hw_info \<Rightarrow> bytes \<Rightarrow> buffer_object \<Rightarrow> bool \<Rightarrow> cmd_body" where
  "second_body hw tail bo resetFence =
     (if resetFence then Fence VPU_CMD_FENCE_SIGNAL (vpuAddr bo + 64) STATE_DEVICE_RESET else nop_body hw tail)"

lemma second_plain:
  "length tail = 16 \<Longrightarrow> plain (second_body hw tail bo resetFence)"
  "body_size (second_body hw tail bo resetFence) = 24"
  by (auto simp: second_body_def fence_plain nop_plain)

lemma sync_commands_eval:
  assumes "bo_ok bo" "basePtr bo \<noteq> 0" "64 < unat (allocSize bo)"
  shows "sync_commands hw tail bo resetFence =
    (Some ((new_command Generic (Fence VPU_CMD_FENCE_WAIT (vpuAddr bo + 64) STATE_WAIT))\<lparr>bufferObjects := [bo]\<rparr>),
     Some ((new_command Generic (second_body hw tail bo resetFence))\<lparr>bufferObjects := if resetFence then [bo] else []\<rparr>))"
  by (simp add: event_command_fields[OF assms] sync_commands_def Let_def VPUEventWaitCommand_create_def VPUEventResetCommand_create_def
      VPUNopCommand_create_def second_body_def nop_body_def new_command_def)

lemma addWaitAtHead_shape:
  fixes cmds :: "'h command list" and c :: "'k dev_ctx" and tail :: bytes and wbo :: buffer_object
    and resetFence :: bool
  assumes "buffer_shape (ctx_world c) bo off front cmds slot" "cb_buffer cb = bo" "waitBoGuard cb = None"
    "bo_ok wbo" "basePtr wbo \<noteq> 0" "64 < unat (allocSize wbo)" "length tail = 16"
  defines "front' \<equiv> encode (Fence VPU_CMD_FENCE_WAIT (vpuAddr wbo + 64) STATE_WAIT)
      @ encode (second_body (hwInfo c) tail wbo resetFence)"
  shows "\<exists>cb' w'. addWaitAtHead TYPE('h) tail (Some wbo) resetFence cb c
      = ((True, cb'), take_ref (bo_id wbo) (c\<lparr>ctx_world := w'\<rparr>)) \<and> only_mem (ctx_world c) w' \<and>
    buffer_shape w' bo 48 front' cmds slot \<and> cb_buffer cb' = bo \<and> waitBoGuard cb' = Some wbo \<and>
    bufferHandles cb' = add_handles (handle wbo # (if resetFence then [handle wbo] else [])) (bufferHandles cb)"
proof -
  let ?cs = "patched (vpuAddr bo) (desc_start cmds) cmds" and ?w = "ctx_world c"
  let ?b1 = "Fence VPU_CMD_FENCE_WAIT (vpuAddr wbo + 64) STATE_WAIT"
    and ?b2 = "second_body (hwInfo c) tail wbo resetFence"
  let ?c1 = "(new_command Generic ?b1)\<lparr>bufferObjects := [wbo]\<rparr> :: 'h command"
    and ?c2 = "(new_command Generic ?b2)\<lparr>bufferObjects := if resetFence then [wbo] else []\<rparr> :: 'h command"
  define n where "n = (of_nat (csize cmds + 120) :: u32)"
  obtain ps gap zs where c: "contents ?w bo = ps @ encode_cb_header n off (vpuAddr bo) @ front
         @ concat (map encode (region [] ?cs slot)) @ gap @ desc_area cmds @ zs"
    and l: "length ps = 128" "unat (desc_start cmds) = csize cmds + 248 + length gap" "length front = 48"
      "body_size slot = 24" "plain slot" "csize cmds + 120 < 2 ^ 32"
      "unat (desc_start cmds) + dsize cmds \<le> unat (allocSize bo)"
    using assms(1) unfolding buffer_shape_def n_def[symmetric] by blast
  define zs' where "zs' = concat (map encode (region [] ?cs slot)) @ gap @ desc_area cmds @ zs"
  note sm = shape_small[OF assms(1)]
  have b: "basePtr (cb_buffer cb) \<noteq> 0" using sm(1) assms(2) by simp
  have p: "plain ?b1" "plain ?b2" "body_size ?b2 = 24" using second_plain(1)[OF assms(7)] second_plain(2) fence_plain by auto
  have f: "getCommitSize ?c1 = 24" "body_ok (body ?c1)" "getCommitStream ?c1 = encode ?b1" "bufferObjects ?c1 = [wbo]"
    "getCommitSize ?c2 = 24" "body_ok (body ?c2)" "getCommitStream ?c2 = encode ?b2"
    "bufferObjects ?c2 = (if resetFence then [wbo] else [])"
    using p by (simp_all add: new_command_def getCommitSize_def getCommitStream_def plain_def)
  let ?hd = "ps @ encode_cb_header n off (vpuAddr bo)"
  have s1: "contents ?w (cb_buffer cb) = ?hd @ take 24 front @ (drop 24 front @ zs')"
    using c assms(2) by (simp add: zs'_def flip: append_assoc)
  have u1: "length (take 24 front) = getCommitSize ?c1" "unat off_internalSync = length ?hd" using l f by simp_all
  from addCommand_slot[OF b f(2) s1 u1] f obtain cb1 w1 where
    a1: "addCommand cb (Some ?c1) off_internalSync 0 ?w = (True, Some ?c1, cb1, off_internalSync + 24, 0, w1)"
      "only_mem ?w w1" "contents w1 bo = ?hd @ encode ?b1 @ (drop 24 front @ zs')" "cb_buffer cb1 = bo"
      "bufferHandles cb1 = add_handles [handle wbo] (bufferHandles cb)"
    using assms(2) by auto
  have s2: "contents w1 (cb_buffer cb1) = (?hd @ encode ?b1) @ drop 24 front @ zs'" using a1(3,4) by simp
  have l1: "length (encode ?b1) = 24" by (simp add: length_encode)
  have u2: "length (drop 24 front) = getCommitSize ?c2" "unat (off_internalSync + 24) = length (?hd @ encode ?b1)"
    using l f l1 by simp_all
  have "basePtr (cb_buffer cb1) \<noteq> 0" using a1(4) sm(1) by simp
  from addCommand_slot[OF this f(6) s2 u2] f a1(4) obtain cb2 w2 where
    a2: "addCommand cb1 (Some ?c2) (off_internalSync + 24) 0 w1 = (True, Some ?c2, cb2, off_internalSync + 24 + 24, 0, w2)"
      "only_mem w1 w2" "contents w2 bo = (?hd @ encode ?b1) @ encode ?b2 @ zs'" "cb_buffer cb2 = bo"
      "bufferHandles cb2 = add_handles (map handle (if resetFence then [wbo] else [])) (bufferHandles cb1)"
    by auto
  define w3 where "w3 = set_cmd_offset cb 48 w2"
  have "contents w3 bo = (ps @ enc32 n) @ enc32 48 @ (drop 8 (encode_cb_header n 48 (vpuAddr bo)) @ front' @ zs')"
    unfolding w3_def set_cmd_offset_def assms(2)
  proof (rule contents_write)
    show "contents w2 bo = (ps @ enc32 n) @ enc32 off @ (drop 8 (encode_cb_header n 48 (vpuAddr bo)) @ front' @ zs')"
      using a2(3) by (simp add: encode_cb_header_def front'_def)
  qed (use l(1) in simp_all)
  then have c3: "contents w3 bo = ps @ encode_cb_header n 48 (vpuAddr bo) @ front' @ zs'"
    by (simp add: encode_cb_header_def)
  have om: "only_mem ?w w3"
    using only_mem_trans[OF only_mem_trans[OF a1(2) a2(2)], of w3] by (simp add: w3_def set_cmd_offset_def)
  have "buffer_shape w3 bo 48 front' cmds slot"
    unfolding buffer_shape_def n_def[symmetric]
  proof (intro conjI exI)
    show "contents w3 bo = ps @ encode_cb_header n 48 (vpuAddr bo) @ front'
         @ concat (map encode (region [] ?cs slot)) @ gap @ desc_area cmds @ zs"
      using c3 by (simp add: zs'_def)
    show "length front' = 48" using p by (simp add: front'_def l1 length_encode plain_def)
  qed (use l sm in simp_all)
  moreover have "addWaitAtHead TYPE('h) tail (Some wbo) resetFence cb c
      = ((True, cb2\<lparr>waitBoGuard := Some wbo\<rparr>), take_ref (bo_id wbo) (c\<lparr>ctx_world := w3\<rparr>))"
    using a1(1) a2(1) assms(3)
    by (simp add: addWaitAtHead_def sync_commands_eval[OF assms(4-6)] w3_def drop_opt_def)
  ultimately show ?thesis
    using om a2(4,5) a1(5) by (intro exI[of _ "cb2\<lparr>waitBoGuard := Some wbo\<rparr>"] exI[of _ w3]) (simp add: add_handles_def)
qed

end
