(* ===== verification/Job.thy ===== *)
theory Job
  imports Command_Buffer_Sync
begin

text \<open>
  \<open>VPUJob\<close> (\<open>umd/vpu_driver/source/command/job.cpp\<close> and \<open>job.hpp\<close>): the list of commands, the
  command buffers they are split into at synchronize commands, and the changes made to them
  for in-order submission. \<open>tail\<close> is the memory behind the NOP structures (see \<open>Commands\<close>).
\<close>

section \<open>The state\<close>

record 'h job =
  cmdBuffers :: "cmd_buffer list"
  commands :: "'h command list"
  closed :: bool
  hasInOrderWorkload :: bool

definition new_job :: "'h job" where
  "new_job = \<lparr>cmdBuffers = [], commands = [], closed = False, hasInOrderWorkload = False\<rparr>"

definition getNumCommands :: "'h job \<Rightarrow> nat" where
  "getNumCommands j = length (commands j)"

definition getCommand :: "'h job \<Rightarrow> nat \<Rightarrow> 'h command option" where
  "getCommand j index = (if index \<ge> length (commands j) then None else Some (commands j ! index))"

definition job_appendCommand :: "'h command \<Rightarrow> 'h job \<Rightarrow> 'k dev_ctx \<Rightarrow> (bool \<times> 'h job) \<times> 'k dev_ctx" where
  "job_appendCommand cmd j c =
     (if closed j then ((False, j), c)
      else if cmdBuffers j \<noteq> [] then ((False, j), c)
      else if getCommitSize cmd = 0 then ((True, j), c)
      else ((True, j\<lparr>commands := commands j @ [cmd]\<rparr>), take_refs (bufferObjects cmd) c))"

section \<open>Closing\<close>

text \<open>The end of the segment that starts at \<open>b\<close>: after the next synchronize command.\<close>

fun segment_length :: "'h command list \<Rightarrow> nat" where
  "segment_length [] = 0"
| "segment_length (cmd # cmds) = (if isSynchronizeCommand cmd then 1 else Suc (segment_length cmds))"

definition scheduleCommands :: "'h command list \<Rightarrow> nat \<Rightarrow> nat" where
  "scheduleCommands cmds b = b + segment_length (drop b cmds)"

text \<open>
  \<open>createCommandBuffer\<close>; the results of the two patches are ignored. The second value is the
  job's commands, then the buffer, then the new \<open>lastEventBo\<close>.
\<close>

definition createCommandBuffer ::
  "bytes \<Rightarrow> 'h command list \<Rightarrow> nat \<Rightarrow> nat \<Rightarrow> buffer_object option \<Rightarrow> bool \<Rightarrow> 'k dev_ctx
     \<Rightarrow> ((exn + cmd_buffer option) \<times> 'h command list \<times> buffer_object option) \<times> 'k dev_ctx" where
  "createCommandBuffer tail cmds b e lastEventBo isLast c =
     (case allocateCommandBuffer tail cmds b e c of
        ((Inl x, cmds'), c1) \<Rightarrow> ((Inl x, cmds', lastEventBo), c1)
      | ((Inr None, cmds'), c1) \<Rightarrow> ((Inr None, cmds', lastEventBo), c1)
      | ((Inr (Some cb), cmds'), c1) \<Rightarrow>
          (case (if lastEventBo \<noteq> None
                 then (case addWaitAtHead TYPE('h) tail lastEventBo False cb c1 of ((_, cb1), c2) \<Rightarrow> (cb1, c2))
                 else (cb, c1)) of
             (cb1, c2) \<Rightarrow>
               if \<not> isLast
               then (case addSelfSignalAtTail TYPE('h) cb1 (ctx_world c2) of
                       ((_, cb2), w3) \<Rightarrow>
                         ((Inr (Some cb2), cmds', Some (cb_buffer cb1)), c2\<lparr>ctx_world := w3\<rparr>))
               else ((Inr (Some cb1), cmds', lastEventBo), c2)))"

text \<open>The commands keep their number, so the loop over the segments ends.\<close>

lemma addCommands_length:
  "addCommands cb cmds co d w = (ok, cmds', rest) \<Longrightarrow> length cmds' = length cmds"
proof (induction cmds arbitrary: cb co d w ok cmds' rest)
  case (Cons cmd cmds)
  then show ?case by (auto split: prod.splits bool.splits if_splits)
qed simp

lemma allocate_length:
  assumes "allocateCommandBuffer tail cmds b e c = ((r, cmds'), c')" "b \<le> e" "e \<le> length cmds"
  shows "length cmds' = length cmds"
proof (cases "b = e")
  case True
  then show ?thesis using assms(1) by (simp add: allocateCommandBuffer_def)
next
  case False
  have fb: "length cs' = length cs"
    if "fill_buffer tail bo b cs n d m c1 = ((r, cs'), c2)" for bo cs n d m c1 r cs' c2
    using that addCommands_length
    by (auto simp: fill_buffer_def Let_def split: prod.splits sum.splits bool.splits if_splits)
  show ?thesis
    using assms False fb
    by (fastforce simp: allocateCommandBuffer_def Let_def split: prod.splits sum.splits option.splits)
qed

lemma segment_length_le: "segment_length cmds \<le> length cmds"
  by (induction cmds) auto

lemma segment_length_pos: "cmds \<noteq> [] \<Longrightarrow> 0 < segment_length cmds"
  by (cases cmds) auto

lemma scheduleCommands_bounds:
  "b < length cmds \<Longrightarrow> b < scheduleCommands cmds b \<and> scheduleCommands cmds b \<le> length cmds"
  using segment_length_le[of "drop b cmds"] segment_length_pos[of "drop b cmds"]
  by (auto simp: scheduleCommands_def)

lemma create_length:
  "createCommandBuffer tail cmds b e ev isLast c = ((r, cmds', ev'), c') \<Longrightarrow> b \<le> e \<Longrightarrow> e \<le> length cmds \<Longrightarrow>
     length cmds' = length cmds"
  using allocate_length
  by (fastforce simp: createCommandBuffer_def split: prod.splits sum.splits option.splits if_splits)

function close_loop ::
  "bytes \<Rightarrow> nat \<Rightarrow> buffer_object option \<Rightarrow> 'h command list \<Rightarrow> cmd_buffer list \<Rightarrow> 'k dev_ctx
     \<Rightarrow> ((exn + bool) \<times> 'h command list \<times> cmd_buffer list) \<times> 'k dev_ctx" where
  "close_loop tail it lastEventBo cmds bufs c =
     (if it < length cmds
      then let nxt = scheduleCommands cmds it in
           (case createCommandBuffer tail cmds it nxt lastEventBo (nxt = length cmds) c of
              ((Inl x, cmds', ev), c') \<Rightarrow> ((Inl x, cmds', bufs), c')
            | ((Inr None, cmds', ev), c') \<Rightarrow> ((Inr False, cmds', bufs), c')
            | ((Inr (Some cb), cmds', ev), c') \<Rightarrow> close_loop tail nxt ev cmds' (bufs @ [cb]) c')
      else ((Inr True, cmds, bufs), c))"
  by pat_completeness auto

termination
proof (relation "measure (\<lambda>(tail, it, ev, cmds, bufs, c). length cmds - it)", goal_cases)
  case 1
  then show ?case by simp
next
  case (2 tail it ev cmds bufs c nxt x c1 r xb r' cb cmds' ev')
  then have "createCommandBuffer tail cmds it nxt ev (nxt = length cmds) c = ((Inr (Some cb), cmds', ev'), c1)"
    by simp
  moreover have "it < nxt" "nxt \<le> length cmds" using 2 scheduleCommands_bounds by auto
  ultimately have "length cmds' = length cmds" using create_length by (metis less_imp_le)
  then show ?case using \<open>it < nxt\<close> 2(1) by simp
qed

declare close_loop.simps [simp del]

definition closeCommands :: "bytes \<Rightarrow> 'h job \<Rightarrow> 'k dev_ctx \<Rightarrow> ((exn + bool) \<times> 'h job) \<times> 'k dev_ctx" where
  "closeCommands tail j c =
     (if closed j then ((Inr True, j), c)
      else if cmdBuffers j \<noteq> [] then ((Inr False, j), c)
      else (case close_loop tail 0 None (commands j) [] c of
              ((r, cmds', bufs), c') \<Rightarrow>
                ((r, j\<lparr>commands := cmds', cmdBuffers := bufs,
                       closed := (if r = Inr True then True else closed j)\<rparr>), c')))"

section \<open>In-order submission\<close>

text \<open>The destructor of a command buffer releases the objects it holds.\<close>

definition destroy_cmd_buffer :: "cmd_buffer \<Rightarrow> 'k dev_ctx \<Rightarrow> 'k dev_ctx" where
  "destroy_cmd_buffer cb c =
     drop_ref (cb_buffer cb) (drop_opt (waitBoGuard cb)
       (drop_opt (inferenceScratchBuffer cb) (drop_opt (preemptionBuffer cb) c)))"

text \<open>
  \<open>makeInOrder\<close>: \<open>waitFor\<close> is the queue's last buffer, a reference parameter. The job's
  first buffer waits for it and its last buffer signals; they may be the same.
\<close>

definition same_object :: "buffer_object option \<Rightarrow> buffer_object \<Rightarrow> bool" where
  "same_object obo bo \<longleftrightarrow> (case obo of None \<Rightarrow> False | Some b \<Rightarrow> bo_id b = bo_id bo)"

definition set_last :: "'a \<Rightarrow> 'a list \<Rightarrow> 'a list" where
  "set_last x xs = butlast xs @ [x]"

definition makeInOrder ::
  "bytes \<Rightarrow> buffer_object option \<Rightarrow> 'h job \<Rightarrow> 'k dev_ctx \<Rightarrow> (bool \<times> buffer_object option \<times> 'h job) \<times> 'k dev_ctx" where
  "makeInOrder tail waitFor j c =
     (case cmdBuffers j of [] \<Rightarrow> ((False, waitFor, j), c)
      | front # rest \<Rightarrow>
          (case (if same_object waitFor (cb_buffer front)
                 then (case Command_Buffer.waitForCompletion INT64_MAX front c of
                         ((False, f1), c1) \<Rightarrow> (False, waitFor, f1, c1)
                       | ((True, f1), c1) \<Rightarrow>
                           (True, None, f1,
                            drop_opt waitFor (c1\<lparr>ctx_world := resetFenceValue f1 (ctx_world c1)\<rparr>)))
                 else (True, waitFor, front, c)) of
             (False, waitFor1, f1, c1) \<Rightarrow> ((False, waitFor1, j\<lparr>cmdBuffers := f1 # rest\<rparr>), c1)
           | (True, waitFor1, f1, c1) \<Rightarrow>
               (case addWaitAtHead TYPE('h) tail waitFor1 True f1 c1 of
                  ((False, f2), c2) \<Rightarrow> ((False, waitFor1, j\<lparr>cmdBuffers := f2 # rest\<rparr>), c2)
                | ((True, f2), c2) \<Rightarrow>
                    let bufs = f2 # rest in
                    (case addSelfSignalAtTail TYPE('h) (last bufs) (ctx_world c2) of
                       ((False, l), w3) \<Rightarrow>
                         ((False, waitFor1, j\<lparr>cmdBuffers := set_last l bufs\<rparr>), c2\<lparr>ctx_world := w3\<rparr>)
                     | ((True, l), w3) \<Rightarrow>
                         ((True, Some (cb_buffer l),
                           j\<lparr>cmdBuffers := set_last l bufs, hasInOrderWorkload := True\<rparr>),
                          drop_opt waitFor1
                            (take_ref (bo_id (cb_buffer l)) (c2\<lparr>ctx_world := w3\<rparr>)))))))"

definition stripInOrder :: "bytes \<Rightarrow> 'h job \<Rightarrow> 'k dev_ctx \<Rightarrow> ((exn + bool) \<times> 'h job) \<times> 'k dev_ctx" where
  "stripInOrder tail j c =
     (if \<not> closed j then ((Inr False, j), c)
      else closeCommands tail (j\<lparr>cmdBuffers := [], hasInOrderWorkload := False, closed := False\<rparr>)
             (fold destroy_cmd_buffer (cmdBuffers j) c))"

section \<open>Submission and completion\<close>

fun update_buffers ::
  "cmd_buffer list \<Rightarrow> 'h command list \<Rightarrow> 'k dev_ctx
     \<Rightarrow> ((exn + bool) \<times> cmd_buffer list \<times> 'h command list) \<times> 'k dev_ctx" where
  "update_buffers [] cmds c = ((Inr True, [], cmds), c)"
| "update_buffers (cb # bufs) cmds c =
     (case updateCommands cmds cb c of
        ((Inr True, cmds1, cb1), c1) \<Rightarrow>
          (case update_buffers bufs cmds1 c1 of ((r, bufs', cmds2), c2) \<Rightarrow> ((r, cb1 # bufs', cmds2), c2))
      | ((r, cmds1, cb1), c1) \<Rightarrow> ((r, cb1 # bufs, cmds1), c1))"

definition updateOnSubmit :: "'h job \<Rightarrow> 'k dev_ctx \<Rightarrow> ((exn + bool) \<times> 'h job) \<times> 'k dev_ctx" where
  "updateOnSubmit j c =
     (case update_buffers (cmdBuffers j) (commands j) c of
        ((r, bufs, cmds), c') \<Rightarrow> ((r, j\<lparr>cmdBuffers := bufs, commands := cmds\<rparr>), c'))"

fun add_preemption :: "buffer_object option \<Rightarrow> cmd_buffer list \<Rightarrow> 'k dev_ctx \<Rightarrow> cmd_buffer list \<times> 'k dev_ctx" where
  "add_preemption bo [] c = ([], c)"
| "add_preemption bo (cb # bufs) c =
     (case addPreemptionBuffer bo cb c of (cb1, c1) \<Rightarrow>
        (case add_preemption bo bufs c1 of (bufs', c2) \<Rightarrow> (cb1 # bufs', c2)))"

definition job_addPreemptionBuffer :: "buffer_object option \<Rightarrow> 'h job \<Rightarrow> 'k dev_ctx \<Rightarrow> 'h job \<times> 'k dev_ctx" where
  "job_addPreemptionBuffer bo j c =
     (case add_preemption bo (cmdBuffers j) c of (bufs, c') \<Rightarrow> (j\<lparr>cmdBuffers := bufs\<rparr>, c'))"

fun wait_buffers :: "int \<Rightarrow> cmd_buffer list \<Rightarrow> 'k dev_ctx \<Rightarrow> (bool \<times> cmd_buffer list) \<times> 'k dev_ctx" where
  "wait_buffers timeout [] c = ((True, []), c)"
| "wait_buffers timeout (cb # bufs) c =
     (case Command_Buffer.waitForCompletion timeout cb c of
        ((False, cb1), c1) \<Rightarrow> ((False, cb1 # bufs), c1)
      | ((True, cb1), c1) \<Rightarrow>
          (case wait_buffers timeout bufs c1 of ((ok, bufs'), c2) \<Rightarrow> ((ok, cb1 # bufs'), c2)))"

definition job_waitForCompletion :: "int \<Rightarrow> 'h job \<Rightarrow> 'k dev_ctx \<Rightarrow> (bool \<times> 'h job) \<times> 'k dev_ctx" where
  "job_waitForCompletion timeout j c =
     (case wait_buffers timeout (cmdBuffers j) c of
        ((ok, bufs), c') \<Rightarrow> ((ok, j\<lparr>cmdBuffers := bufs\<rparr>), c'))"

definition job_isSuccess :: "'h job \<Rightarrow> bool" where
  "job_isSuccess j \<longleftrightarrow> list_all cb_isSuccess (cmdBuffers j)"

fun first_failure :: "cmd_buffer list \<Rightarrow> u32" where
  "first_failure [] = DRM_IVPU_JOB_STATUS_SUCCESS"
| "first_failure (cb # bufs) =
     (if jobStatus cb \<noteq> DRM_IVPU_JOB_STATUS_SUCCESS then jobStatus cb else first_failure bufs)"

definition getStatus :: "'h job \<Rightarrow> u32" where
  "getStatus j = first_failure (cmdBuffers j)"

end
