(* ===== verification/Job_Props.thy ===== *)
theory Job_Props
  imports Job
begin

text \<open>
  The properties of jobs: how closing splits the commands, and what an in-order submission
  makes of the command buffers.
\<close>

section \<open>Closing splits at synchronize commands\<close>

lemma put_command_fields:
  "put_command cb cmd co d w = (ok, cmd', cb', rest) \<Longrightarrow>
     commandsBegin cb' = commandsBegin cb \<and> commandsEnd cb' = commandsEnd cb \<and> cb_buffer cb' = cb_buffer cb
     \<and> waitBoGuard cb' = waitBoGuard cb \<and> cmd' = cmd"
  by (auto simp: put_command_def split: prod.splits bool.splits)

lemma addUnique_guard [simp]: "waitBoGuard (fold addUniqueBoHandle hs cb) = waitBoGuard cb"
  by (induction hs arbitrary: cb) (simp_all add: addUniqueBoHandle_def)

lemma addCommand_fields:
  assumes "addCommand cb ocmd co d w = (ok, ocmd', cb', rest)"
  shows "commandsBegin cb' = commandsBegin cb \<and> commandsEnd cb' = commandsEnd cb \<and> cb_buffer cb' = cb_buffer cb
     \<and> waitBoGuard cb' = waitBoGuard cb \<and> map_option sType ocmd' = map_option sType ocmd"
proof (cases ocmd)
  case None
  then show ?thesis using assms by (auto simp: addCommand_def)
next
  case (Some cmd)
  let ?cb1 = "fold addUniqueBoHandle (map handle (bufferObjects cmd)) cb"
    and ?cmd1 = "patchDescriptorAddress (vpuAddr (cb_buffer cb) + d) cmd"
  obtain cp w1 where cp: "copyToBuffer (cb_buffer cb) (getDescriptorData cmd) (of_nat (getDescriptorSize cmd)) d w = (cp, w1)"
    by force
  obtain o1 m1 b1 r1 where p1: "put_command ?cb1 ?cmd1 co (d + getFwDataCacheAlign (of_nat (getDescriptorSize cmd))) w1
      = (o1, m1, b1, r1)" using prod_cases4 by blast
  obtain o2 m2 b2 r2 where p2: "put_command ?cb1 cmd co d w = (o2, m2, b2, r2)" using prod_cases4 by blast
  show ?thesis
    using assms put_command_fields[OF p1] put_command_fields[OF p2] unfolding Some
    by (cases cp) (simp add: addCommand_def Let_def cp p1 p2 split: if_splits; auto)+
qed

lemma setSyncFenceAddr_fields:
  "setSyncFenceAddr cmd cb = (ok, cb') \<Longrightarrow> commandsBegin cb' = commandsBegin cb \<and> commandsEnd cb' = commandsEnd cb
     \<and> cb_buffer cb' = cb_buffer cb \<and> waitBoGuard cb' = waitBoGuard cb"
  by (auto simp: setSyncFenceAddr_def split: if_splits)

lemma addCommands_fields:
  "addCommands cb cmds co d w = (ok, cmds', cb', rest) \<Longrightarrow>
     commandsBegin cb' = commandsBegin cb \<and> commandsEnd cb' = commandsEnd cb \<and> cb_buffer cb' = cb_buffer cb
     \<and> waitBoGuard cb' = waitBoGuard cb \<and> map sType cmds' = map sType cmds"
proof (induction cmds arbitrary: cb co d w ok cmds' cb' rest)
  case (Cons cmd cmds)
  obtain s cb1 where s: "(if isSynchronizeCommand cmd then setSyncFenceAddr cmd cb else (True, cb)) = (s, cb1)"
    by force
  then have f1: "commandsBegin cb1 = commandsBegin cb \<and> commandsEnd cb1 = commandsEnd cb
     \<and> cb_buffer cb1 = cb_buffer cb \<and> waitBoGuard cb1 = waitBoGuard cb"
    using setSyncFenceAddr_fields by (auto split: if_splits)
  obtain ok2 ocmd cb2 co2 d2 w2 where a: "addCommand cb1 (Some cmd) co d w = (ok2, ocmd, cb2, co2, d2, w2)"
    using prod_cases6 by blast
  note f2 = addCommand_fields[OF a]
  then obtain cmd2 where c2: "ocmd = Some cmd2" "sType cmd2 = sType cmd" by (cases ocmd) auto
  obtain ok3 cmds3 cb3 rest3 where r: "addCommands cb2 cmds co2 d2 w2 = (ok3, cmds3, cb3, rest3)"
    using prod_cases4 by blast
  show ?case
    using Cons.prems Cons.IH[OF r] s a r f1 f2 c2 by (cases s; cases ok2) auto
qed simp

lemma new_cmd_buffer_fields [simp]:
  "commandsBegin (new_cmd_buffer bo b e) = b" "commandsEnd (new_cmd_buffer bo b e) = e"
  "waitBoGuard (new_cmd_buffer bo b e) = None"
  by (simp_all add: new_cmd_buffer_def)

lemma splice_segment:
  assumes "b \<le> e" shows "take b xs @ take (e - b) (drop b xs) @ drop e xs = xs"
proof -
  have "drop e xs = drop (e - b) (drop b xs)" using assms by simp
  then show ?thesis by (simp only: append_take_drop_id)
qed

lemma allocate_cases:
  assumes "allocateCommandBuffer tail cmds b e c = ((r, cmds'), c')"
  shows "cmds' = cmds \<and> (\<forall>cb. r \<noteq> Inr (Some cb)) \<or>
    (\<exists>bo n d m c1 cs'. fill_buffer tail bo b (take (e - b) (drop b cmds)) n d m c1 = ((r, cs'), c')
       \<and> cmds' = take b cmds @ cs' @ drop e cmds)"
proof (cases "b = e")
  case True
  then show ?thesis using assms by (auto simp: allocateCommandBuffer_def)
next
  case False
  define cs where "cs = take (e - b) (drop b cmds)"
  define d where "d = getFwDataCacheAlign (off_commandList + (total_commit_size cs + sizeof_fence))"
  define sz where "sz = d + total_desc_size cs + ucast (extraDmaDescriptorSize (hwInfo c))"
  obtain u c1 where u: "createUntrackedBufferObject c sz CachedFw = (u, c1)" by force
  have "allocateCommandBuffer tail cmds b e c =
    (case u of Inl x \<Rightarrow> ((Inl x, cmds), c1) | Inr None \<Rightarrow> ((Inr None, cmds), c1)
     | Inr (Some bo) \<Rightarrow> (case fill_buffer tail bo b cs (total_commit_size cs + sizeof_fence) d (total_desc_size cs) c1 of
                  ((r, cmds'), c2) \<Rightarrow> ((r, take b cmds @ cmds' @ drop e cmds), c2)))"
    using False u unfolding allocateCommandBuffer_def Let_def cs_def[symmetric] d_def[symmetric] sz_def[symmetric]
    by simp
  then show ?thesis
    using assms unfolding cs_def[symmetric] by (auto split: sum.splits option.splits prod.splits)
qed

lemma allocate_fields:
  assumes "allocateCommandBuffer tail cmds b e c = ((r, cmds'), c')" "b \<le> e" "e \<le> length cmds"
  shows "map sType cmds' = map sType cmds"
    "r = Inr (Some cb) \<Longrightarrow> commandsBegin cb = b \<and> commandsEnd cb = e \<and> waitBoGuard cb = None"
proof -
  have fb: "map sType cs' = map sType cs \<and>
      (r = Inr (Some cb) \<longrightarrow> commandsBegin cb = b \<and> commandsEnd cb = b + length cs \<and> waitBoGuard cb = None)"
    if "fill_buffer tail bo b cs n d m c1 = ((r, cs'), c2)" for bo n d m c1 r c2 cs' and cs :: "'a command list"
  proof -
    obtain hr w1 where h: "initHeader bo n (ctx_world c1) = (hr, w1)" by force
    obtain ok cs2 cb2 co d2 w2 where a: "addCommands (new_cmd_buffer bo b (b + length cs)) cs off_commandList d w1
        = (ok, cs2, cb2, co, d2, w2)" using prod_cases6 by blast
    obtain ok3 oc cb3 co3 d3 w3 where
      n: "addCommand cb2 (VPUNopCommand_create (hwInfo c1) sizeof_fence tail :: 'a command option) co d2 w2
        = (ok3, oc, cb3, co3, d3, w3)" using prod_cases6 by blast
    show ?thesis
      using that addCommands_fields[OF a] addCommand_fields[OF n]
      by (auto simp: fill_buffer_def Let_def h a n split: sum.splits bool.splits if_splits)
  qed
  note cs = allocate_cases[OF assms(1)]
  show "map sType cmds' = map sType cmds"
    using cs
  proof
    assume "\<exists>bo n d m c1 cs'. fill_buffer tail bo b (take (e - b) (drop b cmds)) n d m c1 = ((r, cs'), c')
       \<and> cmds' = take b cmds @ cs' @ drop e cmds"
    then obtain cs' where "map sType cs' = map sType (take (e - b) (drop b cmds))"
      "cmds' = take b cmds @ cs' @ drop e cmds" using fb by blast
    then show ?thesis using arg_cong[OF splice_segment[OF assms(2), of cmds], of "map sType"] by simp
  qed simp
  show "commandsBegin cb = b \<and> commandsEnd cb = e \<and> waitBoGuard cb = None" if "r = Inr (Some cb)"
    using cs fb that assms(2,3) by (auto dest!: fb)
qed

lemma addWaitAtHead_fields:
  assumes "addWaitAtHead TYPE('h) tail obo rf cb c = ((ok, cb'), c')"
  shows "commandsBegin cb' = commandsBegin cb \<and> commandsEnd cb' = commandsEnd cb \<and> cb_buffer cb' = cb_buffer cb"
proof (cases obo)
  case None
  then show ?thesis using assms by (auto simp: addWaitAtHead_def)
next
  case (Some bo)
  obtain wc sc where sc: "sync_commands (hwInfo c) tail bo rf = (wc :: 'h command option, sc)" by force
  obtain o1 m1 b1 co d w1 where a1: "addCommand cb wc off_internalSync 0 (ctx_world c) = (o1, m1, b1, co, d, w1)"
    using prod_cases6 by blast
  obtain o2 m2 b2 co2 d2 w2 where a2: "addCommand b1 sc co d w1 = (o2, m2, b2, co2, d2, w2)"
    using prod_cases6 by blast
  show ?thesis
    using assms addCommand_fields[OF a1] addCommand_fields[OF a2]
    by (auto simp: addWaitAtHead_def Some sc a1 a2 split: bool.splits if_splits)
qed

lemma addSelfSignal_fields:
  assumes "addSelfSignalAtTail TYPE('h) cb w = ((ok, cb'), w')"
  shows "commandsBegin cb' = commandsBegin cb \<and> commandsEnd cb' = commandsEnd cb \<and> cb_buffer cb' = cb_buffer cb"
proof -
  obtain o1 m1 b1 co d w1 where a1: "addCommand cb (VPUEventSignalCommand_create (basePtr (cb_buffer cb) + off_fenceValue)
      (Some (cb_buffer cb)) :: 'h command option) (off_header +
      ucast (dec32 (read_bytes (mem w) (basePtr (cb_buffer cb) + off_header) 4)) - sizeof_fence) 0 w
      = (o1, m1, b1, co, d, w1)" using prod_cases6 by blast
  then show ?thesis using assms addCommand_fields[OF a1] by (simp add: addSelfSignalAtTail_def Let_def)
qed

lemma create_fields:
  fixes cmds :: "'h command list"
  assumes "createCommandBuffer tail cmds b e ev isLast c = ((r, cmds', ev'), c')" "b \<le> e" "e \<le> length cmds"
  shows "map sType cmds' = map sType cmds" "r = Inr (Some cb) \<Longrightarrow> commandsBegin cb = b \<and> commandsEnd cb = e"
proof -
  obtain r0 cmds0 c0 where a: "allocateCommandBuffer tail cmds b e c = ((r0, cmds0), c0)" by (metis prod.collapse)
  note f = allocate_fields[OF a assms(2,3)]
  show "map sType cmds' = map sType cmds"
    using assms(1) f(1) by (auto simp: createCommandBuffer_def a split: sum.splits option.splits prod.splits if_splits)
  assume r: "r = Inr (Some cb)"
  then obtain cb0 where r0: "r0 = Inr (Some cb0)"
    using assms(1) by (auto simp: createCommandBuffer_def a split: sum.splits option.splits)
  obtain ow cbw cw where w: "addWaitAtHead TYPE('h) tail ev False cb0 c0 = ((ow, cbw), cw)" by (metis prod.collapse)
  define cb1 c1 where "cb1 = (if ev \<noteq> None then cbw else cb0)" and "c1 = (if ev \<noteq> None then cw else c0)"
  have b: "commandsBegin cb1 = b \<and> commandsEnd cb1 = e"
    using f(2)[OF r0] addWaitAtHead_fields[OF w] by (simp add: cb1_def)
  obtain o2 cb2 w2 where s: "addSelfSignalAtTail TYPE('h) cb1 (ctx_world c1) = ((o2, cb2), w2)"
    by (metis prod.collapse)
  have "r = Inr (Some (if isLast then cb1 else cb2))"
    using assms(1) s w by (cases "ev = None") (auto simp: createCommandBuffer_def a r0 cb1_def c1_def split: if_splits)
  then show "commandsBegin cb = b \<and> commandsEnd cb = e"
    using r b addSelfSignal_fields[OF s] by (auto split: if_splits)
qed

text \<open>The segments of a list of command buffers.\<close>

fun ranges :: "nat \<Rightarrow> cmd_buffer list \<Rightarrow> nat \<Rightarrow> bool" where
  "ranges b [] e \<longleftrightarrow> b = e"
| "ranges b (cb # bufs) e \<longleftrightarrow> commandsBegin cb = b \<and> b < commandsEnd cb \<and> ranges (commandsEnd cb) bufs e"

definition splits_at_sync :: "schedule_type list \<Rightarrow> cmd_buffer \<Rightarrow> bool" where
  "splits_at_sync ts cb \<longleftrightarrow>
     (\<forall>i. commandsBegin cb \<le> i \<and> Suc i < commandsEnd cb \<longrightarrow> ts ! i \<noteq> Synchronize)
     \<and> (commandsEnd cb < length ts \<longrightarrow> ts ! (commandsEnd cb - 1) = Synchronize)"

lemma ranges_append: "ranges b (xs @ [cb]) e \<longleftrightarrow> ranges b xs (commandsBegin cb) \<and> commandsBegin cb < commandsEnd cb \<and> commandsEnd cb = e"
  by (induction xs arbitrary: b) auto

lemma segment_length_spec:
  "(\<forall>i. Suc i < segment_length cmds \<longrightarrow> sType (cmds ! i) \<noteq> Synchronize) \<and>
   (segment_length cmds < length cmds \<longrightarrow> sType (cmds ! (segment_length cmds - 1)) = Synchronize)"
proof (induction cmds)
  case (Cons c cmds)
  show ?case
  proof (cases "isSynchronizeCommand c")
    case False
    have "sType ((c # cmds) ! i) \<noteq> Synchronize" if "Suc i < segment_length (c # cmds)" for i
      using that False Cons.IH by (cases i) (auto simp: isSynchronizeCommand_def)
    moreover have "sType ((c # cmds) ! (segment_length (c # cmds) - 1)) = Synchronize"
      if "segment_length (c # cmds) < length (c # cmds)"
      using that False Cons.IH segment_length_pos[of cmds] by (cases cmds) auto
    ultimately show ?thesis by blast
  qed (auto simp: isSynchronizeCommand_def)
qed simp

lemma schedule_splits:
  assumes "commandsBegin cb = b" "commandsEnd cb = scheduleCommands cmds b" "b < length cmds"
  shows "splits_at_sync (map sType cmds) cb"
proof -
  let ?n = "segment_length (drop b cmds)"
  note spec = segment_length_spec[of "drop b cmds"] and le = scheduleCommands_bounds[OF assms(3)]
  have "map sType cmds ! i \<noteq> Synchronize" if "b \<le> i" "Suc i < b + ?n" for i
    using that spec[THEN conjunct1, rule_format, of "i - b"] le assms(3) by (auto simp: scheduleCommands_def)
  moreover have "map sType cmds ! (b + ?n - 1) = Synchronize" if "b + ?n < length cmds"
    using that spec segment_length_pos[of "drop b cmds"] assms(3) by (auto simp: Suc_le_eq add_diff_assoc)
  ultimately show ?thesis using assms by (auto simp: splits_at_sync_def scheduleCommands_def)
qed

lemma close_loop_spec:
  assumes "close_loop tail it ev cmds bufs c = ((Inr True, cmds', bufs'), c')"
    "it \<le> length cmds" "ranges 0 bufs it" "\<forall>cb \<in> set bufs. splits_at_sync (map sType cmds) cb"
  shows "ranges 0 bufs' (length cmds) \<and> (\<forall>cb \<in> set bufs'. splits_at_sync (map sType cmds) cb)
    \<and> map sType cmds' = map sType cmds"
  using assms
proof (induction tail it ev cmds bufs c rule: close_loop.induct)
  case (1 tail it ev cmds bufs c)
  show ?case
  proof (cases "it < length cmds")
    case False
    then show ?thesis using 1(2-) unfolding close_loop.simps[of tail it ev cmds bufs c] by simp
  next
    case True
    let ?nxt = "scheduleCommands cmds it"
    obtain r cmds1 ev1 c1 where cr: "createCommandBuffer tail cmds it ?nxt ev (?nxt = length cmds) c = ((r, cmds1, ev1), c1)"
      by (metis prod.collapse)
    note le = scheduleCommands_bounds[OF True]
    obtain cb where r: "r = Inr (Some cb)"
      using 1(2) True cr unfolding close_loop.simps[of tail it ev cmds bufs c]
      by (auto simp: Let_def split: sum.splits option.splits)
    note f = create_fields(1)[OF cr] create_fields(2)[OF cr _ _ r]
    have b: "commandsBegin cb = it" "commandsEnd cb = ?nxt" "map sType cmds1 = map sType cmds" using f le by auto
    have len: "length cmds1 = length cmds" using b(3) by (metis length_map)
    have "ranges 0 bufs' (length cmds1) \<and> (\<forall>cb \<in> set bufs'. splits_at_sync (map sType cmds1) cb)
        \<and> map sType cmds' = map sType cmds1"
    proof (rule "1.IH"[OF True refl])
      show "close_loop tail ?nxt ev1 cmds1 (bufs @ [cb]) c1 = ((Inr True, cmds', bufs'), c')"
        using 1(2) True cr r unfolding close_loop.simps[of tail it ev cmds bufs c] by (simp add: Let_def)
      show "ranges 0 (bufs @ [cb]) ?nxt" using 1(4) b le by (simp add: ranges_append)
      show "\<forall>cb \<in> set (bufs @ [cb]). splits_at_sync (map sType cmds1) cb"
        using 1(5) schedule_splits[OF b(1,2) True] b(3) by auto
    qed (use cr r le len in auto)
    then show ?thesis by (simp add: b(3) len)
  qed
qed

lemma demo_untracked_full:
  "\<exists>bo c1. createUntrackedBufferObject demo_ctx 512 CachedFw = (Inr (Some bo), c1) \<and> vpuAddr bo = 0xc0000000
     \<and> bo_ok bo \<and> bo_id bo = 1 \<and> basePtr bo \<noteq> 0 \<and> allocSize bo = 512"
  by (simp add: createUntrackedBufferObject_def demo_eval bo_ok_def)

lemma demo_allocate:
  "\<exists>cb cmds' c'. allocateCommandBuffer (replicate 16 0) demo_cmds 0 2 demo_ctx = ((Inr (Some cb), cmds'), c')"
proof -
  obtain bo c1 where bo: "createUntrackedBufferObject demo_ctx 512 CachedFw = (Inr (Some bo), c1)"
    using demo_untracked by blast
  have ok: "\<forall>x \<in> set demo_cmds. cmd_ok x" using demo_cmds_facts(1) by (simp add: readable_def)
  have "driver_contract (drvApi demo_ctx) null_mapped" by (simp add: demo_cmds_facts demo_contract)
  from allocate_image[OF this _ _ _ ok demo_cmds_facts(2), of 0 2 demo_cmds "replicate 16 0" bo c1] bo show ?thesis
    by (fastforce simp: demo_cmds_facts demo_cmds_def[THEN arg_cong[where f = length]])
qed

definition demo_job :: "unit job" where
  "demo_job = new_job\<lparr>commands := demo_cmds\<rparr>"

lemma demo_close:
  "\<exists>j' c'. closeCommands (replicate 16 0) demo_job demo_ctx = ((Inr True, j'), c')"
proof -
  obtain cb cmds' c' where a: "allocateCommandBuffer (replicate 16 0) demo_cmds 0 2 demo_ctx = ((Inr (Some cb), cmds'), c')"
    using demo_allocate by blast
  have l: "length demo_cmds = 2" by (simp add: demo_cmds_def)
  have "scheduleCommands demo_cmds 0 = 2"
    by (simp add: scheduleCommands_def demo_cmds_def isSynchronizeCommand_def VPUBarrierCommand_create_def
        demo_copy_def new_command_def)
  moreover have "length cmds' = 2" using allocate_length[OF a] l by simp
  ultimately have "close_loop (replicate 16 0) 0 None demo_cmds [] demo_ctx = ((Inr True, cmds', [cb]), c')"
    using a l by (subst close_loop.simps) (simp add: createCommandBuffer_def close_loop.simps)
  then show ?thesis by (simp add: closeCommands_def demo_job_def new_job_def)
qed

text \<open>C10: Closing a job splits its commands into command buffers: the segments are consecutive, not
  empty and cover all commands; within a segment only the last command may be a synchronize command, and
  every segment but the last ends with one.\<close>

theorem close_splits_commands:
  assumes "\<not> closed j" "closeCommands tail j c = ((Inr True, j'), c')"
  shows "closed j' \<and> ranges 0 (cmdBuffers j') (length (commands j)) \<and>
    (\<forall>cb \<in> set (cmdBuffers j'). splits_at_sync (map sType (commands j)) cb) \<and>
    map sType (commands j') = map sType (commands j)"
proof -
  obtain r cmds' bufs c1 where l: "close_loop tail 0 None (commands j) [] c = ((r, cmds', bufs), c1)"
    by (metis prod.collapse)
  have "r = Inr True" "j' = j\<lparr>commands := cmds', cmdBuffers := bufs, closed := True\<rparr>"
    using assms l by (auto simp: closeCommands_def split: if_splits)
  then show ?thesis using close_loop_spec[of tail 0 None "commands j" "[]" c cmds' bufs c1] l by simp
qed

theorem close_splits_commands_witness:
  "\<exists>j' c'. closeCommands (replicate 16 0) demo_job demo_ctx = ((Inr True, j'), c') \<and>
     ranges 0 (cmdBuffers j') 2"
proof -
  obtain j' c' where r: "closeCommands (replicate 16 0) demo_job demo_ctx = ((Inr True, j'), c')"
    using demo_close by blast
  have "\<not> closed demo_job" "length (commands demo_job) = 2"
    by (simp_all add: demo_job_def new_job_def demo_cmds_def)
  then show ?thesis using close_splits_commands[OF _ r] r by auto
qed

section \<open>In-order submission\<close>

lemma shape_take_ref [simp]: "ctx_world (take_ref i c) = ctx_world c" "hwInfo (take_ref i c) = hwInfo c"
  by (simp_all add: take_ref_def)

text \<open>Dropping one of at least two references does not run the destructor.\<close>

lemma drop_ref_shared:
  assumes "2 \<le> owners c (bo_id bo)"
  shows "ctx_world (drop_ref bo c) = ctx_world c"
proof -
  have "use_count (c\<lparr>owners := (owners c)(bo_id bo := owners c (bo_id bo) - 1)\<rparr>) (bo_id bo) \<noteq> 0"
    using assms by (simp add: use_count_def)
  then show ?thesis by (simp add: drop_ref_def Let_def)
qed


definition demo_wait_bo :: buffer_object where
  "demo_wait_bo = \<lparr>bo_location = Internal, bo_type = CachedFw, basePtr = 0x900000, allocSize = 4096,
     vpuAddr = 0xd0000000, handle = 7, bo_id = 99\<rparr>"


end
