(* ===== verification/Device_Queue.thy ===== *)
theory Device_Queue
  imports Job_Props
begin

text \<open>
  \<open>VPUDeviceQueue\<close> (\<open>umd/vpu_driver/source/device/vpu_command_queue.cpp\<close>,
  \<open>vpu_command_queue.hpp\<close>): the two kinds of command queue, their creation, the submission of
  jobs, and the switch between the background and the default priority. The abstract class is
  the locale \<open>device_queue_class\<close>, interpreted on both kinds. \<open>submitWithWait\<close> polls a full
  queue: \<open>clock n\<close> is the value of reading number \<open>n\<close> of the steady clock, and a loop that
  never ends is \<open>None\<close>.
\<close>

section \<open>The state\<close>

datatype priority = IDLE | NORMAL | FOCUS | REALTIME

primrec priority_code :: "priority \<Rightarrow> u32" where
  "priority_code IDLE = 1"
| "priority_code NORMAL = 2"
| "priority_code FOCUS = 3"
| "priority_code REALTIME = 4"

definition TURBO :: u32 where "TURBO = 1"
definition IN_ORDER :: u32 where "IN_ORDER = 2"

record legacy_queue =
  lq_priority :: priority
  lq_defaultPriority :: priority

record managed_queue =
  currentId :: u32
  defaultId :: u32
  backgroundId :: u32
  modeFlags :: u32
  lastWaitBo :: "buffer_object option"

definition new_legacy_queue :: "priority \<Rightarrow> legacy_queue" where
  "new_legacy_queue p = \<lparr>lq_priority = p, lq_defaultPriority = p\<rparr>"

definition new_managed_queue :: "u32 \<Rightarrow> u32 \<Rightarrow> managed_queue" where
  "new_managed_queue defaultQueue mode =
     \<lparr>currentId = defaultQueue, defaultId = defaultQueue, backgroundId = defaultQueue,
      modeFlags = mode, lastWaitBo = None\<rparr>"

datatype device_queue = Legacy_queue legacy_queue | Managed_queue managed_queue

definition isInOrder :: "managed_queue \<Rightarrow> bool" where
  "isInOrder q \<longleftrightarrow> modeFlags q AND IN_ORDER \<noteq> 0"

definition isTurbo :: "managed_queue \<Rightarrow> bool" where
  "isTurbo q \<longleftrightarrow> modeFlags q AND TURBO \<noteq> 0"

section \<open>Creation and destruction\<close>

text \<open>\<open>None\<close>: the null pointer; a null context is \<open>None\<close> too.\<close>

definition queue_create ::
  "priority \<Rightarrow> u32 \<Rightarrow> 'k dev_ctx option \<Rightarrow> device_queue option \<times> 'k dev_ctx option" where
  "queue_create queuePriority mode VPUContext =
     (case VPUContext of None \<Rightarrow> (None, None)
      | Some c \<Rightarrow>
          if cmdQueueCreationCapability (hwInfo c)
          then (case da_commandQueueCreate (drvApi c) (priority_code queuePriority)
                       (mode AND TURBO \<noteq> 0) (ctx_world c) of
                  (Inl _, w') \<Rightarrow> (None, Some (c\<lparr>ctx_world := w'\<rparr>))
                | (Inr defaultQueue, w') \<Rightarrow>
                    (Some (Managed_queue (new_managed_queue defaultQueue mode)), Some (c\<lparr>ctx_world := w'\<rparr>)))
          else if mode AND IN_ORDER \<noteq> 0 then (None, Some c)
          else (Some (Legacy_queue (new_legacy_queue queuePriority)), Some c))"

text \<open>The destructor of a managed queue also releases \<open>lastWaitBo\<close>.\<close>

definition managed_destroy :: "managed_queue \<Rightarrow> 'k dev_ctx \<Rightarrow> 'k dev_ctx" where
  "managed_destroy q c =
     (let w1 = (if backgroundId q \<noteq> defaultId q
                then snd (da_commandQueueDestroy (drvApi c) (backgroundId q) (ctx_world c))
                else ctx_world c);
          w2 = snd (da_commandQueueDestroy (drvApi c) (defaultId q) w1)
      in drop_opt (lastWaitBo q) (c\<lparr>ctx_world := w2\<rparr>))"

section \<open>Priorities\<close>

definition legacy_toBackgroundPriority :: "legacy_queue \<Rightarrow> 'k dev_ctx \<Rightarrow> (bool \<times> legacy_queue) \<times> 'k dev_ctx" where
  "legacy_toBackgroundPriority q c = ((True, q\<lparr>lq_priority := IDLE\<rparr>), c)"

definition legacy_toDefaultPriority :: "legacy_queue \<Rightarrow> bool \<times> legacy_queue" where
  "legacy_toDefaultPriority q = (True, q\<lparr>lq_priority := lq_defaultPriority q\<rparr>)"

definition managed_toBackgroundPriority :: "managed_queue \<Rightarrow> 'k dev_ctx \<Rightarrow> (bool \<times> managed_queue) \<times> 'k dev_ctx" where
  "managed_toBackgroundPriority q c =
     (if backgroundId q = defaultId q
      then (case da_commandQueueCreate (drvApi c) (priority_code IDLE) (modeFlags q AND TURBO \<noteq> 0) (ctx_world c) of
              (Inl _, w') \<Rightarrow> ((False, q), c\<lparr>ctx_world := w'\<rparr>)
            | (Inr i, w') \<Rightarrow> ((True, q\<lparr>backgroundId := i, currentId := i\<rparr>), c\<lparr>ctx_world := w'\<rparr>))
      else ((True, q\<lparr>currentId := backgroundId q\<rparr>), c))"

definition managed_toDefaultPriority :: "managed_queue \<Rightarrow> bool \<times> managed_queue" where
  "managed_toDefaultPriority q = (True, q\<lparr>currentId := defaultId q\<rparr>)"

section \<open>Submission\<close>

definition DRM_IVPU_ENGINE_COMPUTE :: u32 where "DRM_IVPU_ENGINE_COMPUTE = 0"

text \<open>The arguments of the two ioctls; the number of handles is a checked conversion.\<close>

definition legacy_args :: "legacy_queue \<Rightarrow> cmd_buffer \<Rightarrow> drm_ivpu_submit" where
  "legacy_args q cb = \<lparr>sub_buffers = bufferHandles cb, sub_engine = DRM_IVPU_ENGINE_COMPUTE,
     sub_flags = 0, sub_commands_offset = getCommandBufferOffset cb, sub_priority = priority_code (lq_priority q)\<rparr>"

definition managed_args :: "managed_queue \<Rightarrow> cmd_buffer \<Rightarrow> drm_ivpu_cmdq_submit" where
  "managed_args q cb = \<lparr>cqs_buffers = bufferHandles cb, cqs_cmdq_id = currentId q, cqs_flags = 0,
     cqs_commands_offset = getCommandBufferOffset cb, cqs_preempt_buffer_index = getPreemptionBufferIndex cb\<rparr>"

definition legacy_submitCommandBuffer ::
  "legacy_queue \<Rightarrow> cmd_buffer \<Rightarrow> 'k dev_ctx \<Rightarrow> ((exn + int) \<times> cmd_buffer) \<times> 'k dev_ctx" where
  "legacy_submitCommandBuffer q cb c =
     (if length (bufferHandles cb) \<ge> 2 ^ 32 then ((Inl Overflow_error, cb), c)
      else (case da_submitCommandBuffer (drvApi c) (legacy_args q cb) (ctx_world c) of
              (r, w') \<Rightarrow> ((Inr r, cb), c\<lparr>ctx_world := w'\<rparr>)))"

definition managed_submitCommandBuffer ::
  "'h itself \<Rightarrow> managed_queue \<Rightarrow> cmd_buffer \<Rightarrow> 'k dev_ctx \<Rightarrow> ((exn + int) \<times> cmd_buffer) \<times> 'k dev_ctx" where
  "managed_submitCommandBuffer ty q cb c =
     (if length (bufferHandles cb) \<ge> 2 ^ 32 then ((Inl Overflow_error, cb), c)
      else (case (if isTurbo q then useBusyWait ty cb (ctx_world c) else (cb, ctx_world c)) of
              (cb1, w1) \<Rightarrow>
                (case da_commandQueueSubmit (drvApi c) (managed_args q cb) w1 of
                   (r, w') \<Rightarrow> ((Inr r, cb1), c\<lparr>ctx_world := w'\<rparr>))))"

text \<open>
  The polling of one buffer: the result, and the number of the next clock reading.
  \<open>pollTime\<close> is two seconds in nanoseconds.
\<close>

definition pollTime :: int where "pollTime = 2000000000"

partial_function (option) submit_poll ::
  "(cmd_buffer \<Rightarrow> 'k dev_ctx \<Rightarrow> ((exn + int) \<times> cmd_buffer) \<times> 'k dev_ctx) \<Rightarrow> (nat \<Rightarrow> int) \<Rightarrow> int \<Rightarrow> nat
     \<Rightarrow> cmd_buffer \<Rightarrow> 'k dev_ctx \<Rightarrow> (((exn + bool) \<times> cmd_buffer) \<times> nat \<times> 'k dev_ctx) option" where
  "submit_poll submitFunc clock timeoutPoint n cb c =
     (case submitFunc cb c of
        ((Inl e, cb1), c1) \<Rightarrow> Some ((Inl e, cb1), n, c1)
      | ((Inr r, cb1), c1) \<Rightarrow>
          if \<not> r < 0 then Some ((Inr True, cb1), n, c1)
          else if errno (ctx_world c1) \<noteq> EBUSY then Some ((Inr False, cb1), n, c1)
          else if clock n > timeoutPoint then Some ((Inr False, cb1), Suc n, c1)
          else submit_poll submitFunc clock timeoutPoint (Suc n) cb1 c1)"

fun submit_buffers ::
  "(cmd_buffer \<Rightarrow> 'k dev_ctx \<Rightarrow> ((exn + int) \<times> cmd_buffer) \<times> 'k dev_ctx) \<Rightarrow> (nat \<Rightarrow> int) \<Rightarrow> nat
     \<Rightarrow> cmd_buffer list \<Rightarrow> 'k dev_ctx \<Rightarrow> (((exn + bool) \<times> cmd_buffer list) \<times> nat \<times> 'k dev_ctx) option" where
  "submit_buffers submitFunc clock n [] c = Some ((Inr True, []), n, c)"
| "submit_buffers submitFunc clock n (cb # bufs) c =
     (case submit_poll submitFunc clock (clock n + pollTime) (Suc n) cb c of
        None \<Rightarrow> None
      | Some ((Inr True, cb1), n1, c1) \<Rightarrow>
          (case submit_buffers submitFunc clock n1 bufs c1 of
             None \<Rightarrow> None
           | Some ((r, bufs'), n2, c2) \<Rightarrow> Some ((r, cb1 # bufs'), n2, c2))
      | Some ((r, cb1), n1, c1) \<Rightarrow> Some ((r, cb1 # bufs), n1, c1))"

text \<open>\<open>submitWithWait\<close>; the job is a pointer.\<close>

definition submitWithWait ::
  "(cmd_buffer \<Rightarrow> 'k dev_ctx \<Rightarrow> ((exn + int) \<times> cmd_buffer) \<times> 'k dev_ctx) \<Rightarrow> (nat \<Rightarrow> int) \<Rightarrow> 'h job option
     \<Rightarrow> 'k dev_ctx \<Rightarrow> (((exn + bool) \<times> 'h job option) \<times> 'k dev_ctx) option" where
  "submitWithWait submitFunc clock jb c =
     (case jb of None \<Rightarrow> Some ((Inr False, None), c)
      | Some j \<Rightarrow>
          if cmdBuffers j = [] then Some ((Inr False, Some j), c)
          else (case submit_buffers submitFunc clock 0 (cmdBuffers j) c of
                  None \<Rightarrow> None
                | Some ((r, bufs), n, c') \<Rightarrow> Some ((r, Some (j\<lparr>cmdBuffers := bufs\<rparr>)), c')))"

definition legacy_submit ::
  "(nat \<Rightarrow> int) \<Rightarrow> legacy_queue \<Rightarrow> 'h job option \<Rightarrow> 'k dev_ctx
     \<Rightarrow> (((exn + bool) \<times> 'h job option) \<times> 'k dev_ctx) option" where
  "legacy_submit clock q jb c =
     (if (case jb of None \<Rightarrow> True | Some j \<Rightarrow> hasInOrderWorkload j) then Some ((Inr False, jb), c)
      else submitWithWait (legacy_submitCommandBuffer q) clock jb c)"

definition managed_submit ::
  "bytes \<Rightarrow> (nat \<Rightarrow> int) \<Rightarrow> managed_queue \<Rightarrow> 'h job option \<Rightarrow> 'k dev_ctx
     \<Rightarrow> (((exn + bool) \<times> managed_queue \<times> 'h job option) \<times> 'k dev_ctx) option" where
  "managed_submit tail clock q jb c =
     (case jb of None \<Rightarrow> Some ((Inr False, q, None), c)
      | Some j \<Rightarrow>
          (case (if isInOrder q
                 then (case makeInOrder tail (lastWaitBo q) j c of
                         ((ok, wait', j1), c1) \<Rightarrow> ((Inr ok, q\<lparr>lastWaitBo := wait'\<rparr>, j1), c1))
                 else if hasInOrderWorkload j
                 then (case stripInOrder tail j c of ((r, j1), c1) \<Rightarrow> ((r, q, j1), c1))
                 else ((Inr True, q, j), c)) of
             ((Inr True, q1, j1), c1) \<Rightarrow>
               map_option (\<lambda>((r, jb'), c'). ((r, q1, jb'), c'))
                 (submitWithWait (managed_submitCommandBuffer TYPE('h) q1) clock (Some j1) c1)
           | ((r, q1, j1), c1) \<Rightarrow> Some ((r, q1, Some j1), c1)))"

section \<open>The abstract class\<close>

text \<open>
  What the clients of \<open>VPUDeviceQueue\<close> rely on: \<open>route\<close> is where the kernel is told to run a
  submission. A null job is refused, a submission does not change the route, a failed switch
  changes nothing, and switching back undoes a switch to the background.
\<close>

locale device_queue_class =
  fixes submit :: "'q \<Rightarrow> 'h job option \<Rightarrow> 'k dev_ctx \<Rightarrow> (((exn + bool) \<times> 'q \<times> 'h job option) \<times> 'k dev_ctx) option"
    and toBackground :: "'q \<Rightarrow> 'k dev_ctx \<Rightarrow> (bool \<times> 'q) \<times> 'k dev_ctx"
    and toDefault :: "'q \<Rightarrow> bool \<times> 'q"
    and route :: "'q \<Rightarrow> 'r"
  assumes null_job: "submit q None c = Some ((Inr False, q, None), c)"
    and submit_route: "submit q jb c = Some ((r, q', jb'), c') \<Longrightarrow> route q' = route q"
    and submit_default: "submit q jb c = Some ((r, q', jb'), c') \<Longrightarrow> route (snd (toDefault q')) = route (snd (toDefault q))"
    and background_fails: "toBackground q c = ((False, q'), c') \<Longrightarrow> q' = q"
    and background_default: "toBackground q c = ((ok, q'), c') \<Longrightarrow> route (snd (toDefault q')) = route (snd (toDefault q))"
    and default_ok: "fst (toDefault q)"
    and default_idem: "toDefault (snd (toDefault q)) = toDefault q"
begin

inductive used :: "'q \<Rightarrow> 'q \<Rightarrow> bool" where
  used_refl: "used q q"
| used_submit: "used q q1 \<Longrightarrow> submit q1 jb c = Some ((r, q2, jb'), c') \<Longrightarrow> used q q2"
| used_background: "used q q1 \<Longrightarrow> toBackground q1 c = ((ok, q2), c') \<Longrightarrow> used q q2"
| used_default: "used q q1 \<Longrightarrow> toDefault q1 = (ok, q2) \<Longrightarrow> used q q2"

lemma default_route_kept: "used q q' \<Longrightarrow> route (snd (toDefault q')) = route (snd (toDefault q))"
proof (induction rule: used.induct)
  case used_submit then show ?case using submit_default by metis
next
  case used_background then show ?case using background_default by metis
next
  case used_default then show ?case using default_idem by (metis snd_conv)
qed simp

end

lemma submitWithWait_job:
  "submitWithWait f clock (Some j) c = Some ((r, jb'), c') \<Longrightarrow> jb' \<noteq> None"
  by (auto simp: submitWithWait_def split: if_splits option.splits)

lemma managed_submit_queue:
  assumes "managed_submit tail clock q jb c = Some ((r, q', jb'), c')"
  shows "\<exists>b. q' = q\<lparr>lastWaitBo := b\<rparr>"
proof -
  have "\<exists>b. q = q\<lparr>lastWaitBo := b\<rparr>" by (rule exI[of _ "lastWaitBo q"]) simp
  then show ?thesis
    using assms
    by (auto simp: managed_submit_def split: option.splits prod.splits if_splits sum.splits bool.splits)
qed

interpretation legacy: device_queue_class
  "\<lambda>q jb c. map_option (\<lambda>((r, jb'), c'). ((r, q, jb'), c')) (legacy_submit clock q jb c)"
  legacy_toBackgroundPriority legacy_toDefaultPriority lq_priority for clock
  by unfold_locales
    (auto simp: legacy_submit_def legacy_toBackgroundPriority_def legacy_toDefaultPriority_def)

interpretation managed: device_queue_class "managed_submit tail clock"
  managed_toBackgroundPriority managed_toDefaultPriority currentId for tail clock
proof (unfold_locales, goal_cases)
  case 1 then show ?case by (simp add: managed_submit_def)
next
  case 2 then show ?case using managed_submit_queue by fastforce
next
  case 3 then show ?case using managed_submit_queue by (fastforce simp: managed_toDefaultPriority_def)
next
  case 4 then show ?case by (auto simp: managed_toBackgroundPriority_def split: if_splits prod.splits sum.splits)
next
  case 5 then show ?case
    by (auto simp: managed_toBackgroundPriority_def managed_toDefaultPriority_def
        split: if_splits prod.splits sum.splits)
qed (simp_all add: managed_toDefaultPriority_def)

end
