(* ===== verification/Device_Queue_Props.thy ===== *)
theory Device_Queue_Props
  imports Device_Queue
begin

text \<open>
  Properties of the command queues: the contracts of the kernel they rely on (its command queues, the
  log of its submissions), the invariant of a managed queue, and the order, the termination and the
  failures of submission. A small kernel with command queues serves the witnesses.
\<close>

section \<open>The kernel's command queues\<close>

text \<open>
  What a managed queue relies on: \<open>live w\<close> are the command queues of the process in the kernel.
  A created queue gets an id that was not live, destroying a live queue removes it, and the calls
  that release a buffer do not touch the queues.
\<close>

locale cmdq_kernel =
  fixes drv :: "'k drv_api" and live :: "'k world \<Rightarrow> u32 set"
  assumes create_fresh: "da_commandQueueCreate drv p t w = (Inr i, w') \<Longrightarrow> i \<notin> live w \<and> live w' = insert i (live w)"
    and create_failed: "da_commandQueueCreate drv p t w = (Inl e, w') \<Longrightarrow> live w' = live w"
    and destroy_live: "da_commandQueueDestroy drv i w = (r, w') \<Longrightarrow> i \<in> live w \<Longrightarrow> live w' = live w - {i}"
    and unmap_live: "da_unmap drv p' sz w = (r, w') \<Longrightarrow> live w' = live w"
    and close_live: "da_closeBuffer drv h w = (r, w') \<Longrightarrow> live w' = live w"
    and live_stats: "live (w\<lparr>stats := st\<rparr>) = live w"

text \<open>
  A run of a managed queue: the switches of priority, and any other activity, submissions
  included, that leaves the kernel's command queues alone.
\<close>

inductive queue_run :: "('k world \<Rightarrow> u32 set) \<Rightarrow> managed_queue \<Rightarrow> 'k dev_ctx \<Rightarrow> managed_queue \<Rightarrow> 'k dev_ctx \<Rightarrow> bool"
  for live q0 c0 where
  run_start: "queue_run live q0 c0 q0 c0"
| run_background: "queue_run live q0 c0 q c \<Longrightarrow> managed_toBackgroundPriority q c = ((ok, q'), c')
    \<Longrightarrow> queue_run live q0 c0 q' c'"
| run_default: "queue_run live q0 c0 q c \<Longrightarrow> managed_toDefaultPriority q = (ok, q') \<Longrightarrow> queue_run live q0 c0 q' c"
| run_other: "queue_run live q0 c0 q c \<Longrightarrow> drvApi c' = drvApi c \<Longrightarrow> live (ctx_world c') = live (ctx_world c)
    \<Longrightarrow> queue_run live q0 c0 (q\<lparr>lastWaitBo := b\<rparr>) c'"

definition queue_ok :: "('k world \<Rightarrow> u32 set) \<Rightarrow> 'k drv_api \<Rightarrow> u32 set \<Rightarrow> managed_queue \<Rightarrow> 'k dev_ctx \<Rightarrow> bool" where
  "queue_ok live drv others q c \<longleftrightarrow> drvApi c = drv \<and> currentId q \<in> {defaultId q, backgroundId q} \<and>
     live (ctx_world c) = others \<union> {defaultId q, backgroundId q} \<and>
     defaultId q \<notin> others \<and> backgroundId q \<notin> others"

context cmdq_kernel
begin

lemma background_ok:
  assumes "queue_ok live drv others q c" "managed_toBackgroundPriority q c = ((ok, q'), c')"
  shows "queue_ok live drv others q' c'"
proof (cases "backgroundId q = defaultId q")
  case True
  obtain r w' where r: "da_commandQueueCreate drv (priority_code IDLE) (modeFlags q AND TURBO \<noteq> 0) (ctx_world c) = (r, w')"
    by force
  have q: "drvApi c = drv" "live (ctx_world c) = others \<union> {defaultId q}" "defaultId q \<notin> others"
    "currentId q = defaultId q" using assms(1) True by (auto simp: queue_ok_def)
  show ?thesis
  proof (cases r)
    case (Inl e)
    then have "q' = q" "c' = c\<lparr>ctx_world := w'\<rparr>"
      using assms(2) True r q(1) by (simp_all add: managed_toBackgroundPriority_def)
    then show ?thesis using q True create_failed[OF r[unfolded Inl]] by (simp add: queue_ok_def)
  next
    case (Inr i)
    then have "q' = q\<lparr>backgroundId := i, currentId := i\<rparr>" "c' = c\<lparr>ctx_world := w'\<rparr>"
      using assms(2) True r q(1) by (simp_all add: managed_toBackgroundPriority_def)
    moreover have "live w' = insert i (others \<union> {defaultId q})" "i \<notin> others"
      using create_fresh[OF r[unfolded Inr]] by (simp_all add: q(2))
    moreover have "insert i (others \<union> {defaultId q}) = others \<union> {defaultId q, i}" by blast
    ultimately show ?thesis unfolding queue_ok_def using q(1,3) by simp
  qed
next
  case False
  then have "q' = q\<lparr>currentId := backgroundId q\<rparr>" "c' = c" using assms(2) by (simp_all add: managed_toBackgroundPriority_def)
  then show ?thesis using assms(1) by (simp add: queue_ok_def)
qed

lemma run_ok: "queue_run live q0 c0 q c \<Longrightarrow> queue_ok live drv others q0 c0 \<Longrightarrow> queue_ok live drv others q c"
proof (induction rule: queue_run.induct)
  case (run_background q c ok q' c')
  then show ?case using background_ok by blast
next
  case (run_default q c ok q')
  then show ?case by (auto simp: queue_ok_def managed_toDefaultPriority_def)
next
  case (run_other q c c' b)
  then show ?case by (auto simp: queue_ok_def)
qed

lemma create_ok:
  assumes "queue_create p mode (Some c) = (Some (Managed_queue q), Some c')" "drvApi c = drv"
  shows "queue_ok live drv (live (ctx_world c)) q c' \<and> currentId q = defaultId q"
  using assms create_fresh
  by (fastforce simp: queue_create_def new_managed_queue_def queue_ok_def split: if_splits prod.splits sum.splits)

lemma destroy_bo_live: "drvApi c = drv \<Longrightarrow> live (ctx_world (destroy_bo b c)) = live (ctx_world c)"
  using unmap_live close_live live_stats
  by (auto simp: destroy_bo_def bo_destroy_def Let_def) (metis prod.collapse)+

lemma drop_opt_live: "drvApi c = drv \<Longrightarrow> live (ctx_world (drop_opt ob c)) = live (ctx_world c)"
  using destroy_bo_live by (cases ob) (auto simp: drop_opt_def drop_ref_def Let_def)

lemma destroy_all_ids:
  assumes "queue_ok live drv others q c"
  shows "live (ctx_world (managed_destroy q c)) = others"
proof -
  let ?w1 = "if backgroundId q \<noteq> defaultId q then snd (da_commandQueueDestroy drv (backgroundId q) (ctx_world c)) else ctx_world c"
  have q: "drvApi c = drv" "live (ctx_world c) = others \<union> {defaultId q, backgroundId q}"
    "defaultId q \<notin> others" "backgroundId q \<notin> others" using assms by (auto simp: queue_ok_def)
  have "live ?w1 = others \<union> {defaultId q}"
    using q destroy_live[OF prod.collapse[symmetric], of "backgroundId q" "ctx_world c"] by auto
  then have "live (snd (da_commandQueueDestroy drv (defaultId q) ?w1)) = others"
    using q destroy_live[OF prod.collapse[symmetric], of "defaultId q" ?w1] by auto
  then show ?thesis unfolding managed_destroy_def Let_def q(1) by (simp add: drop_opt_live q(1))
qed

end

text \<open>The null device refuses to create command queues.\<close>

interpretation null_queues: cmdq_kernel "mk_drv_api null_os fd" "\<lambda>_. {}" for fd
proof (unfold_locales, goal_cases)
  case (1 p t w i w')
  then have "the (commandQueueCreate null_os fd p t w) = (Inr i, w')" by (simp add: mk_drv_api_def)
  then show ?case
  proof (cases "fd < 0")
    case False
    then have "doIoctl null_os fd (Some a) w = Some (null_ioctl fd (Some a) w)" for a
      using null_os.doIoctl_once[of fd a w] by (simp add: null_os_def)
    then show ?thesis using 1 by (simp add: mk_drv_api_def commandQueueCreate_def request_def)
  qed (simp add: commandQueueCreate_def request_def doIoctl_def EINVAL_def)
qed auto

section \<open>The log of submissions\<close>

text \<open>A self signal adds nothing to a buffer that already names its own object.\<close>

definition names_itself :: "cmd_buffer \<Rightarrow> bool" where
  "names_itself cb \<longleftrightarrow> handle (cb_buffer cb) \<in> set (bufferHandles cb)"

lemma addUnique_known: "h \<in> set (bufferHandles cb) \<Longrightarrow> addUniqueBoHandle h cb = cb"
  by (simp add: addUniqueBoHandle_def)

lemma put_fence_same:
  assumes "put_command cb cmd co d w = (ok, cmd', cb1, rest1, rest2, w1)" "getCommandType cmd \<noteq> VPU_CMD_INFERENCE_EXECUTE"
  shows "cb1 = cb \<and> (\<exists>m. w1 = w\<lparr>mem := m\<rparr>)"
proof -
  obtain b w2 where c: "copyToBuffer (cb_buffer cb) (Some (getCommitStream cmd)) (of_nat (getCommitSize cmd)) co w = (b, w2)"
    by force
  have same: "\<exists>m. w = w\<lparr>mem := m\<rparr>" by (rule exI[of _ "mem w"]) simp
  have "\<exists>m. snd (copyToBuffer bo (Some d) sz off w) = w\<lparr>mem := m\<rparr>" for bo d sz off
    unfolding copyToBuffer_def Let_def option.case
    by (simp only: snd_conv same ex_simps simp_thms split: if_split) blast
  from this[of "cb_buffer cb"] have "\<exists>m. w2 = w\<lparr>mem := m\<rparr>" using c by (metis snd_conv)
  moreover have "cb1 = cb \<and> w1 = w2" using assms c by (cases b) (auto simp: put_command_def)
  ultimately show ?thesis by blast
qed

lemma addSelfSignal_same:
  assumes "names_itself cb" "addSelfSignalAtTail (ty :: 'h itself) cb w = ((ok, cb1), w1)"
  shows "cb1 = cb \<and> (\<exists>m. w1 = w\<lparr>mem := m\<rparr>)"
proof -
  define sc where "sc = (VPUEventSignalCommand_create (basePtr (cb_buffer cb) + off_fenceValue) (Some (cb_buffer cb)) :: 'h command option)"
  define co where "co = off_header + ucast (dec32 (read_bytes (mem w) (basePtr (cb_buffer cb) + off_header) 4)) - sizeof_fence"
  have a: "addCommand cb sc co 0 w = (ok, snd (addCommand cb sc co 0 w))"
    "cb1 = fst (snd (snd (addCommand cb sc co 0 w)))" "w1 = snd (snd (snd (snd (snd (addCommand cb sc co 0 w)))))"
    using assms(2) unfolding addSelfSignalAtTail_def Let_def sc_def[symmetric] co_def[symmetric]
    by (auto split: prod.splits)
  show ?thesis
  proof (cases sc)
    case None
    then have "cb1 = cb" "w1 = w" using a by (simp_all add: addCommand_def)
    moreover have "w = w\<lparr>mem := mem w\<rparr>" by simp
    ultimately show ?thesis by blast
  next
    case (Some cmd)
    then have cmd: "bufferObjects cmd = [cb_buffer cb]" "getCommandType cmd = VPU_CMD_FENCE_SIGNAL"
      by (auto simp: sc_def VPUEventSignalCommand_create_def VPUEventCommand_create_def new_command_def
          appendAssociateBufferObject_def getCommandType_def split: if_splits)
    obtain ok' cmd' cb' r1 r2 w' where p: "put_command cb cmd co 0 w = (ok', cmd', cb', r1, r2, w')"
      by (metis prod.collapse)
    have "cb' = cb \<and> (\<exists>m. w' = w\<lparr>mem := m\<rparr>)" using put_fence_same[OF p] cmd(2) by (simp add: cmd_type_defs)
    moreover have "cb1 = cb'" "w1 = w'"
      using a Some cmd(1) p assms(1) by (simp_all add: addCommand_def Let_def addUnique_known names_itself_def)
    ultimately show ?thesis by blast
  qed
qed

lemma useBusyWait_same:
  assumes "names_itself cb" "useBusyWait ty cb w = (cb1, w1)"
  shows "\<exists>b m. cb1 = cb\<lparr>useBusyWaitFlag := b\<rparr> \<and> w1 = w\<lparr>mem := m\<rparr>"
proof -
  obtain ok cb2 w2 where r: "addSelfSignalAtTail ty cb w = ((ok, cb2), w2)" by (metis prod.collapse)
  obtain m where m: "cb2 = cb" "w2 = w\<lparr>mem := m\<rparr>" using addSelfSignal_same[OF assms(1) r] by blast
  show ?thesis
  proof (cases ok)
    case True
    then have "cb1 = cb\<lparr>useBusyWaitFlag := True\<rparr>" "w1 = resetFenceValue cb w2"
      using assms(2) r m(1) by (simp_all add: useBusyWait_def)
    moreover have "\<exists>m. resetFenceValue cb w2 = w\<lparr>mem := m\<rparr>" by (auto simp: resetFenceValue_def m(2))
    ultimately show ?thesis by blast
  next
    case False
    then have "cb1 = cb" "w1 = w2" using assms(2) r m(1) by (simp_all add: useBusyWait_def)
    moreover have "cb = cb\<lparr>useBusyWaitFlag := useBusyWaitFlag cb\<rparr>" by simp
    ultimately show ?thesis using m(2) by metis
  qed
qed

text \<open>\<open>log w\<close>: the submissions the kernel has accepted, in order.\<close>

locale submission_log =
  fixes drv :: "'k drv_api" and log :: "'k world \<Rightarrow> drm_ivpu_cmdq_submit list"
  assumes submit_logged: "da_commandQueueSubmit drv a w = (r, w') \<Longrightarrow> log w' = (if r < 0 then log w else log w @ [a])"
    and log_mem: "log (w\<lparr>mem := m\<rparr>) = log w"
begin

lemma submit_once:
  assumes "managed_submitCommandBuffer ty q cb c = ((r, cb1), c1)" "names_itself cb" "drvApi c = drv"
  shows "managed_args q cb1 = managed_args q cb \<and> names_itself cb1 \<and> drvApi c1 = drv \<and>
    log (ctx_world c1) = log (ctx_world c) @
      (case r of Inl e \<Rightarrow> [] | Inr x \<Rightarrow> if x < 0 then [] else [managed_args q cb])"
proof (cases "length (bufferHandles cb) \<ge> 2 ^ 32")
  case True then show ?thesis using assms by (auto simp: managed_submitCommandBuffer_def)
next
  case False
  obtain cb2 w2 where b: "(if isTurbo q then useBusyWait ty cb (ctx_world c) else (cb, ctx_world c)) = (cb2, w2)"
    by force
  have "\<exists>x m. cb2 = cb\<lparr>useBusyWaitFlag := x\<rparr> \<and> w2 = (ctx_world c)\<lparr>mem := m\<rparr>"
  proof (cases "isTurbo q")
    case True then show ?thesis using b useBusyWait_same[OF assms(2)] by simp
  next
    case False
    then have "cb2 = cb\<lparr>useBusyWaitFlag := useBusyWaitFlag cb\<rparr>" "w2 = (ctx_world c)\<lparr>mem := mem (ctx_world c)\<rparr>"
      using b by simp_all
    then show ?thesis by blast
  qed
  then obtain x m where x: "cb2 = cb\<lparr>useBusyWaitFlag := x\<rparr>" "w2 = (ctx_world c)\<lparr>mem := m\<rparr>" by blast
  have l: "log w2 = log (ctx_world c)" unfolding x(2) by (rule log_mem)
  obtain v w3 where k: "da_commandQueueSubmit drv (managed_args q cb) w2 = (v, w3)" by force
  have "r = Inr v" "cb1 = cb2" "c1 = c\<lparr>ctx_world := w3\<rparr>"
    using assms(1,3) False b k by (auto simp: managed_submitCommandBuffer_def)
  then show ?thesis using submit_logged[OF k] l assms(2,3) x(1)
    by (auto simp: managed_args_def names_itself_def getCommandBufferOffset_def getPreemptionBufferIndex_def)
qed

lemma poll_logged:
  assumes "submit_poll (managed_submitCommandBuffer ty q) clock t n cb c = Some y" "names_itself cb" "drvApi c = drv"
  shows "\<exists>r cb1 n1 c1. y = ((r, cb1), n1, c1) \<and> managed_args q cb1 = managed_args q cb \<and> drvApi c1 = drv \<and>
    log (ctx_world c1) = log (ctx_world c) @ (if r = Inr True then [managed_args q cb] else [])"
proof -
  have "names_itself cb \<longrightarrow> drvApi c = drv \<longrightarrow> (\<exists>r cb1 n1 c1. y = ((r, cb1), n1, c1) \<and>
      managed_args q cb1 = managed_args q cb \<and> drvApi c1 = drv \<and>
      log (ctx_world c1) = log (ctx_world c) @ (if r = Inr True then [managed_args q cb] else []))"
    if "f = managed_submitCommandBuffer ty q" "submit_poll f clock t n cb c = Some y" for f
    using that(2,1)
  proof (induction rule: submit_poll.raw_induct[rotated, consumes 1])
    case (1 self f clock t n cb c y)
    obtain r cb1 c1 where s: "managed_submitCommandBuffer ty q cb c = ((r, cb1), c1)" by (metis prod.collapse)
    show ?case
    proof (intro impI)
      assume a: "names_itself cb" "drvApi c = drv"
      note once = submit_once[OF s a]
      show "\<exists>r cb1 n1 c1. y = ((r, cb1), n1, c1) \<and>
        managed_args q cb1 = managed_args q cb \<and> drvApi c1 = drv \<and>
        log (ctx_world c1) = log (ctx_world c) @ (if r = Inr True then [managed_args q cb] else [])"
      proof (cases "\<exists>v. r = Inr v \<and> v < 0 \<and> errno (ctx_world c1) = EBUSY \<and> \<not> clock n > t")
        case True
        then obtain v where v: "r = Inr v" "v < 0" "errno (ctx_world c1) = EBUSY" "\<not> t < clock n" by blast
        then have "self f clock t (Suc n) cb1 c1 = Some y" using 1(2,3) s by simp
        from 1(1)[OF this 1(3)] once obtain r2 cb2 n2 c2 where "y = ((r2, cb2), n2, c2)"
          "managed_args q cb2 = managed_args q cb1" "drvApi c2 = drv"
          "log (ctx_world c2) = log (ctx_world c1) @ (if r2 = Inr True then [managed_args q cb1] else [])" by blast
        then show ?thesis using once v(1,2)
          by (intro exI[of _ r2] exI[of _ cb2] exI[of _ n2] exI[of _ c2]) simp
      next
        case False
        then have "y = ((case r of Inl e \<Rightarrow> Inl e | Inr v \<Rightarrow> Inr (\<not> v < 0), cb1),
            (if (\<exists>v. r = Inr v \<and> v < 0 \<and> errno (ctx_world c1) = EBUSY) then Suc n else n), c1)"
          using 1(2,3) s by (cases r) (auto split: if_splits)
        then show ?thesis using once by (cases r) auto
      qed
    qed
  qed
  then show ?thesis using assms by blast
qed

lemma buffers_logged:
  assumes "submit_buffers (managed_submitCommandBuffer ty q) clock n bufs c = Some ((r, bufs'), n', c')"
    "\<forall>cb \<in> set bufs. names_itself cb" "drvApi c = drv"
  shows "\<exists>k \<le> length bufs. log (ctx_world c') = log (ctx_world c) @ map (managed_args q) (take k bufs) \<and>
    (r = Inr True \<longleftrightarrow> k = length bufs)"
  using assms
proof (induction bufs arbitrary: n c bufs' r)
  case Nil then show ?case by simp
next
  case (Cons cb bufs)
  obtain r1 cb1 n1 c1 where p:
    "submit_poll (managed_submitCommandBuffer ty q) clock (clock n + pollTime) (Suc n) cb c = Some ((r1, cb1), n1, c1)"
    using Cons.prems(1) by (auto split: option.splits)
  have a: "names_itself cb" using Cons.prems(2) by simp
  from poll_logged[OF p a Cons.prems(3)] have l: "drvApi c1 = drv"
    "log (ctx_world c1) = log (ctx_world c) @ (if r1 = Inr True then [managed_args q cb] else [])" by auto
  show ?case
  proof (cases "r1 = Inr True")
    case True
    then obtain bufs1 where "submit_buffers (managed_submitCommandBuffer ty q) clock n1 bufs c1 = Some ((r, bufs1), n', c')"
      using Cons.prems(1) p by (auto split: option.splits)
    from Cons.IH[OF this _ l(1)] Cons.prems(2) obtain k where
      "k \<le> length bufs" "log (ctx_world c') = log (ctx_world c1) @ map (managed_args q) (take k bufs)"
      "r = Inr True \<longleftrightarrow> k = length bufs" by auto
    then show ?thesis using l True by (intro exI[of _ "Suc k"]) auto
  next
    case False
    then have "r = r1 \<and> c' = c1" using Cons.prems(1) p by (auto split: sum.splits bool.splits)
    then show ?thesis using l False by (intro exI[of _ 0]) auto
  qed
qed

end

text \<open>The null device accepts no submission to a managed queue.\<close>

interpretation null_log: submission_log "mk_drv_api null_os fd" "\<lambda>_. []" for fd
proof (unfold_locales, goal_cases)
  case (1 a w r w')
  then have r: "the (commandQueueSubmit null_os fd a w) = (r, w')" by (simp add: mk_drv_api_def)
  have "r < 0"
  proof (cases "fd < 0")
    case False
    then have "doIoctl null_os fd (Some a) w = Some (null_ioctl fd (Some a) w)" for a
      using null_os.doIoctl_once[of fd a w] by (simp add: null_os_def)
    then show ?thesis using r by (auto simp: commandQueueSubmit_def request_code_def)
  next
    case True
    then show ?thesis using r by (auto simp: commandQueueSubmit_def request_code_def doIoctl_def EINVAL_def)
  qed
  then show ?case by simp
qed simp

section \<open>The properties\<close>

lemma poll_returns:
  assumes "timeoutPoint < clock m" "n \<le> m"
  shows "submit_poll f clock timeoutPoint n cb c \<noteq> None"
  using assms(2)
proof (induction "m - n" arbitrary: n cb c)
  case 0
  then show ?case using assms(1) by (subst submit_poll.simps) (auto split: prod.splits sum.splits)
next
  case (Suc d)
  have "submit_poll f clock timeoutPoint (Suc n) cb1 c1 \<noteq> None" for cb1 c1
    by (rule Suc.hyps(1)) (use Suc.hyps(2) in linarith)+
  then show ?case by (subst submit_poll.simps) (auto split: prod.splits sum.splits)
qed

lemma submit_buffers_returns:
  assumes "\<forall>t n. \<exists>m \<ge> n. t < clock m"
  shows "submit_buffers f clock n bufs c \<noteq> None"
proof (induction bufs arbitrary: n c)
  case (Cons cb bufs)
  obtain m where "Suc n \<le> m" "clock n + pollTime < clock m" using assms by blast
  then have "submit_poll f clock (clock n + pollTime) (Suc n) cb c \<noteq> None" by (rule poll_returns[rotated])
  then show ?case using Cons by (auto split: option.splits sum.splits bool.splits simp del: not_None_eq)
qed simp

lemma submitWithWait_returns:
  assumes "\<forall>t n. \<exists>m \<ge> n. t < clock m"
  shows "submitWithWait f clock jb c \<noteq> None"
  using submit_buffers_returns[OF assms, of f 0]
  by (auto simp: submitWithWait_def simp del: not_None_eq split: option.splits)

text \<open>C21: Submission always returns: on a clock that advances without bound, \<open>submit\<close> of a managed
  queue ends for every job and every behaviour of the kernel; a full queue is polled for two seconds
  at most per command buffer.\<close>

theorem submit_returns:
  assumes "\<forall>t n. \<exists>m. n \<le> m \<and> t < clock m"
  shows "managed_submit tail clock q jb c \<noteq> None \<and> legacy_submit clock lq jb c \<noteq> None"
proof -
  note r = submitWithWait_returns[OF assms]
  show ?thesis
    by (simp add: managed_submit_def legacy_submit_def r del: not_None_eq split: option.splits prod.splits sum.splits bool.splits)
qed

theorem submit_returns_witness:
  "managed_submit [] int (new_managed_queue 5 0) (Some demo_job) demo_ctx \<noteq> None"
proof -
  have "\<forall>t n. \<exists>m. n \<le> m \<and> t < int m"
  proof (intro allI)
    fix t :: int and n :: nat
    show "\<exists>m. n \<le> m \<and> t < int m" by (rule exI[of _ "max n (nat (t + 1))"]) auto
  qed
  then show ?thesis using submit_returns by blast
qed

text \<open>
  A small kernel with command queues: its state is the next id, the live ids and the accepted
  submissions; it refuses a submission to a queue that is not live.
\<close>

record queue_kernel =
  next_id :: u32
  live_ids :: "u32 set"
  accepted :: "drm_ivpu_cmdq_submit list"

fun queue_ioctl :: "int \<Rightarrow> ioctl option \<Rightarrow> queue_kernel world \<Rightarrow> int \<times> ioctl option \<times> queue_kernel world" where
  "queue_ioctl fd None w = (- 1, None, w\<lparr>errno := EINVAL\<rparr>)"
| "queue_ioctl fd (Some (Io_cmdq_create a)) w =
     (if next_id (kern w) \<in> live_ids (kern w) then (- 1, Some (Io_cmdq_create a), w\<lparr>errno := ENOSPC\<rparr>)
      else (0, Some (Io_cmdq_create (a\<lparr>cqc_cmdq_id := next_id (kern w)\<rparr>)),
            w\<lparr>kern := (kern w)\<lparr>next_id := next_id (kern w) + 1,
                live_ids := insert (next_id (kern w)) (live_ids (kern w))\<rparr>\<rparr>))"
| "queue_ioctl fd (Some (Io_cmdq_destroy i)) w =
     (0, Some (Io_cmdq_destroy i), w\<lparr>kern := (kern w)\<lparr>live_ids := live_ids (kern w) - {i}\<rparr>\<rparr>)"
| "queue_ioctl fd (Some (Io_cmdq_submit a)) w =
     (if cqs_cmdq_id a \<in> live_ids (kern w)
      then (0, Some (Io_cmdq_submit a), w\<lparr>kern := (kern w)\<lparr>accepted := accepted (kern w) @ [a]\<rparr>\<rparr>)
      else (- 1, Some (Io_cmdq_submit a), w\<lparr>errno := EINVAL\<rparr>))"
| "queue_ioctl fd (Some a) w = (0, Some a, w)"

definition queue_os :: "queue_kernel os_interface" where
  "queue_os = \<lparr> osiOpen = (\<lambda>p w. (3, w)), osiClose = (\<lambda>fd w. (0, w)), osiIoctl = queue_ioctl,
     osiGetSystemPageSize = 4096, osiMmap = (\<lambda>sz fd off w. (MAP_FAILED, w)), osiMunmap = (\<lambda>a sz w. (0, w)) \<rparr>"

interpretation queue_os: posix_os queue_os
proof (unfold_locales, goal_cases)
  case (1 fd arg w r arg' w')
  then show ?case
    by (cases "(fd, arg, w)" rule: queue_ioctl.cases)
      (auto simp: queue_os_def errno_defs split: if_splits)
next
  case (2 fd a w r arg' w')
  then show ?case by (cases a) (auto simp: queue_os_def split: if_splits)
qed

abbreviation queue_drv :: "queue_kernel drv_api" where
  "queue_drv \<equiv> mk_drv_api queue_os 3"

lemma queue_calls:
  "da_commandQueueCreate queue_drv p t w =
     (if next_id (kern w) \<in> live_ids (kern w) then (Inl (- 1), w\<lparr>errno := ENOSPC\<rparr>)
      else (Inr (next_id (kern w)), w\<lparr>kern := (kern w)\<lparr>next_id := next_id (kern w) + 1,
                live_ids := insert (next_id (kern w)) (live_ids (kern w))\<rparr>\<rparr>))"
  "da_commandQueueDestroy queue_drv i w = (0, w\<lparr>kern := (kern w)\<lparr>live_ids := live_ids (kern w) - {i}\<rparr>\<rparr>)"
  "da_commandQueueSubmit queue_drv a w =
     (if cqs_cmdq_id a \<in> live_ids (kern w)
      then (0, w\<lparr>kern := (kern w)\<lparr>accepted := accepted (kern w) @ [a]\<rparr>\<rparr>) else (- 1, w\<lparr>errno := EINVAL\<rparr>))"
  "da_closeBuffer queue_drv h w = (0, w)" "da_unmap queue_drv p' sz w = (0, w)"
  by (simp_all add: mk_drv_api_def commandQueueCreate_def commandQueueDestroy_def commandQueueSubmit_def
      closeBuffer_def drv_unmap_def request_def request_code_def queue_os.doIoctl_once)
    (simp_all add: queue_os_def)

interpretation queue_os_queues: cmdq_kernel queue_drv "\<lambda>w. live_ids (kern w)"
  by unfold_locales (auto simp: queue_calls split: if_splits)

interpretation queue_os_log: submission_log queue_drv "\<lambda>w. accepted (kern w)"
  by unfold_locales (auto simp: queue_calls split: if_splits)

text \<open>The context and a closed job of one command buffer that the witnesses use.\<close>

definition queue_ctx :: "queue_kernel dev_ctx" where
  "queue_ctx = new_ctx queue_drv \<lparr>kern = \<lparr>next_id = 4, live_ids = {3}, accepted = []\<rparr>, mem = (\<lambda>_. 0),
       errno = 0, bo_counter = 0, stats = stats demo_world\<rparr>
     (getHwInfo40xx\<lparr>cmdQueueCreationCapability := True\<rparr>)"

definition queue_cb :: cmd_buffer where
  "queue_cb = (new_cmd_buffer (demo_bo\<lparr>handle := 21\<rparr>) 0 1)\<lparr>bufferHandles := [21, 22]\<rparr>"

definition queue_job :: "u32 job" where
  "queue_job = new_job\<lparr>cmdBuffers := [queue_cb], closed := True\<rparr>"

text \<open>C20: A managed queue leaks no command queue of the kernel: after its creation, any run of
  priority switches and other activity, and its destruction, the live command queues are those there
  were before; while it lives, submissions go to one of its own queues.\<close>

theorem queue_ids_released:
  assumes "cmdq_kernel drv live" "drvApi c0 = drv"
    "queue_create p mode (Some c0) = (Some (Managed_queue q0), Some c1)" "queue_run live q0 c1 q c"
  shows "live (ctx_world (managed_destroy q c)) = live (ctx_world c0) \<and>
    currentId q \<in> live (ctx_world c) - live (ctx_world c0)"
proof -
  have ok: "queue_ok live drv (live (ctx_world c0)) q c"
    using cmdq_kernel.run_ok[OF assms(1,4)] cmdq_kernel.create_ok[OF assms(1,3,2)] by blast
  then have "currentId q \<in> live (ctx_world c) - live (ctx_world c0)" by (auto simp: queue_ok_def)
  then show ?thesis using cmdq_kernel.destroy_all_ids[OF assms(1) ok] by blast
qed

theorem queue_ids_released_witness:
  "\<exists>q0 c1 q2 c2. queue_create NORMAL 0 (Some queue_ctx) = (Some (Managed_queue q0), Some c1) \<and>
     managed_toBackgroundPriority q0 c1 = ((True, q2), c2) \<and> currentId q2 = 5 \<and>
     live_ids (kern (ctx_world c2)) = {3, 4, 5} \<and> live_ids (kern (ctx_world (managed_destroy q2 c2))) = {3}"
proof -
  obtain q0 c1 where r: "queue_create NORMAL 0 (Some queue_ctx) = (Some (Managed_queue q0), Some c1)"
    and q0: "q0 = new_managed_queue 4 0" "drvApi c1 = queue_drv" "kern (ctx_world c1) = \<lparr>next_id = 5, live_ids = {3, 4}, accepted = []\<rparr>"
    by (auto simp: queue_create_def queue_ctx_def new_ctx_def queue_calls)
  obtain q2 c2 where b: "managed_toBackgroundPriority q0 c1 = ((True, q2), c2)"
    and q2: "currentId q2 = 5" "live_ids (kern (ctx_world c2)) = {3, 4, 5}"
    by (auto simp: managed_toBackgroundPriority_def q0 new_managed_queue_def queue_calls)
  have "queue_run (\<lambda>w. live_ids (kern w)) q0 c1 q2 c2" by (rule run_background[OF run_start b])
  from queue_ids_released[OF queue_os_queues.cmdq_kernel_axioms _ r this]
  have "live_ids (kern (ctx_world (managed_destroy q2 c2))) = {3}" by (simp add: queue_ctx_def new_ctx_def)
  then show ?thesis using r b q2 by blast
qed



text \<open>When the kernel refuses the first buffer of an in-order job, \<open>submit\<close> fails, but the queue
  has already made the job's last buffer the one the next job waits for; and nothing was submitted
  that could signal its fence.\<close>

theorem refused_in_order_remembered:
  assumes "isInOrder q" "makeInOrder tail (lastWaitBo q) j c = ((True, Some b, j1), c1)"
    "cmdBuffers j1 = cb # bufs"
    "managed_submitCommandBuffer TYPE('h) (q\<lparr>lastWaitBo := Some b\<rparr>) cb c1 = ((Inr e, cb2), c2)"
    "e < 0" "errno (ctx_world c2) \<noteq> EBUSY"
  shows "\<exists>j2. managed_submit tail clock q (Some (j :: 'h job)) c =
    Some ((Inr False, q\<lparr>lastWaitBo := Some b\<rparr>, Some j2), c2)"
  using assms by (simp add: managed_submit_def submitWithWait_def submit_poll.simps[of _ _ _ _ cb])

lemma queue_signal:
  defines "w \<equiv> set_cmd_offset queue_cb 96 (ctx_world queue_ctx)"
  shows "\<exists>w1. addSelfSignalAtTail TYPE(u32) queue_cb w = ((True, queue_cb), w1) \<and> only_mem w w1"
proof -
  let ?bo = "demo_bo\<lparr>handle := 21\<rparr>"
  let ?cmd = "(new_command Synchronize (Fence VPU_CMD_FENCE_SIGNAL (vpuAddr ?bo + 64) STATE_DEVICE_SIGNAL) :: u32 command)
     \<lparr>bufferObjects := [?bo]\<rparr>"
  have b: "cb_buffer queue_cb = ?bo" "names_itself queue_cb" "basePtr ?bo = 0x10000"
    by (simp_all add: queue_cb_def new_cmd_buffer_def names_itself_def demo_bo_def)
  have "mem w = write_bytes (\<lambda>_. 0) 65668 (enc32 96)"
    by (simp add: w_def set_cmd_offset_def b queue_ctx_def new_ctx_def)
  then have "read_bytes (mem w) 65664 4 = read_bytes (\<lambda>_. 0) 65664 4"
    by (simp add: read_write_other)
  moreover have "dec32 (read_bytes (\<lambda>_. 0) 65664 4) = 0" by code_simp
  ultimately have m: "dec32 (read_bytes (mem w) 65664 4) = 0" by simp
  define cmd where "cmd = ?cmd"
  have ev: "VPUEventSignalCommand_create (65536 + off_fenceValue) (Some ?bo) = Some cmd"
    using event_command_fields[of ?bo Synchronize VPU_CMD_FENCE_SIGNAL STATE_DEVICE_SIGNAL]
    by (simp add: VPUEventSignalCommand_create_def demo_bo_def bo_ok_def cmd_def)
  have n: "length (getCommitStream cmd) = 24" "getCommitSize cmd = 24" "getDescriptorSize cmd = 0"
    "bufferObjects cmd = [?bo]" "getCommandType cmd \<noteq> VPU_CMD_INFERENCE_EXECUTE"
    by (simp_all add: cmd_def getCommitStream_def getCommitSize_def new_command_def encode_def cmd_header_def
        getDescriptorSize_def getCommandType_def cmd_type_defs)
  have "\<exists>m. copyToBuffer ?bo (Some (getCommitStream cmd)) (of_nat (length (getCommitStream cmd))) 104 w
      = (True, w\<lparr>mem := m\<rparr>)"
    by (subst copyToBuffer_ok) (use n in \<open>auto simp: demo_bo_def\<close>)
  then have "\<exists>x m. put_command queue_cb cmd 104 0 w = (True, cmd, queue_cb, x, 0, w\<lparr>mem := m\<rparr>)"
    using n by (auto simp: put_command_def b(1))
  then have "\<exists>x m. addCommand queue_cb (Some cmd) 104 0 w = (True, Some cmd, queue_cb, x, 0, w\<lparr>mem := m\<rparr>)"
    using n(3,4) b by (auto simp: addCommand_def Let_def addUnique_known names_itself_def)
  then show ?thesis
    by (auto simp: addSelfSignalAtTail_def b m ev[simplified] only_mem_def Let_def)
qed

lemma queue_job_in_order:
  "\<exists>c1. makeInOrder [] None queue_job queue_ctx
     = ((True, Some (demo_bo\<lparr>handle := 21\<rparr>), queue_job\<lparr>hasInOrderWorkload := True\<rparr>), c1) \<and>
     only_mem (ctx_world queue_ctx) (ctx_world c1) \<and> drvApi c1 = queue_drv"
proof -
  obtain w1 where s: "addSelfSignalAtTail TYPE(u32) queue_cb (set_cmd_offset queue_cb 96 (ctx_world queue_ctx))
      = ((True, queue_cb), w1)" "only_mem (set_cmd_offset queue_cb 96 (ctx_world queue_ctx)) w1"
    using queue_signal by blast
  have "only_mem (ctx_world queue_ctx) w1"
    by (rule only_mem_trans[OF _ s(2)]) (simp add: set_cmd_offset_def)
  moreover have "waitBoGuard queue_cb = None" "queue_cb\<lparr>waitBoGuard := None\<rparr> = queue_cb"
    by (simp_all add: queue_cb_def new_cmd_buffer_def)
  ultimately show ?thesis
    using s(1) by (auto simp: makeInOrder_def queue_job_def new_job_def same_object_def addWaitAtHead_def drop_opt_def
        Let_def set_last_def take_ref_def queue_ctx_def new_ctx_def queue_cb_def new_cmd_buffer_def)
qed

theorem refused_in_order_remembered_witness:
  "\<exists>q' j2 c2. managed_submit [] int (new_managed_queue 9 IN_ORDER) (Some queue_job) queue_ctx = Some ((Inr False, q', Some j2), c2) \<and>
     lastWaitBo q' = Some (demo_bo\<lparr>handle := 21\<rparr>) \<and> accepted (kern (ctx_world c2)) = []"
proof -
  let ?q = "new_managed_queue 9 IN_ORDER" and ?b = "demo_bo\<lparr>handle := 21\<rparr>"
  have q: "isInOrder ?q" "lastWaitBo ?q = None" "\<not> isTurbo (?q\<lparr>lastWaitBo := Some ?b\<rparr>)"
    by (simp_all add: isInOrder_def isTurbo_def IN_ORDER_def TURBO_def new_managed_queue_def)
  obtain c1 where m: "makeInOrder [] None queue_job queue_ctx
     = ((True, Some ?b, queue_job\<lparr>hasInOrderWorkload := True\<rparr>), c1)"
     "only_mem (ctx_world queue_ctx) (ctx_world c1)" "drvApi c1 = queue_drv"
    using queue_job_in_order by blast
  have k: "kern (ctx_world c1) = \<lparr>next_id = 4, live_ids = {3}, accepted = []\<rparr>"
    using m(2) by (auto simp: only_mem_def queue_ctx_def new_ctx_def)
  have "managed_submitCommandBuffer TYPE(u32) (?q\<lparr>lastWaitBo := Some ?b\<rparr>) queue_cb c1
      = ((Inr (- 1), queue_cb), c1\<lparr>ctx_world := (ctx_world c1)\<lparr>errno := EINVAL\<rparr>\<rparr>)"
    using q(3) by (simp add: managed_submitCommandBuffer_def m(3) queue_calls managed_args_def k
        new_managed_queue_def queue_cb_def new_cmd_buffer_def)
  from refused_in_order_remembered[where j = queue_job, OF q(1) m(1)[folded q(2)] _ this]
  obtain j2 where "managed_submit [] int ?q (Some queue_job) queue_ctx = Some ((Inr False, ?q\<lparr>lastWaitBo := Some ?b\<rparr>, Some j2),
      c1\<lparr>ctx_world := (ctx_world c1)\<lparr>errno := EINVAL\<rparr>\<rparr>)"
    by (auto simp: queue_job_def errno_defs)
  then show ?thesis using k by auto
qed

end
