(* ===== verification/Umd_Props.thy ===== *)
theory Umd_Props
  imports Context_Props Commands
begin

text \<open>
  Properties of the lower components: checked conversions, firmware versions, timeouts, the
  ioctl wrappers, the null device, buffer objects, and the NOP command.
\<close>

section \<open>Conversions, versions, timeouts\<close>

text \<open>C15: \<open>safe_cast\<close> is exact: it returns the value when the target type holds it, and throws
  otherwise; it never truncates.\<close>

theorem safe_cast_exact:
  assumes "in_type f x" "0 < type_bits f" "0 < type_bits t"
  shows "safe_cast f t x = (if in_type t x then Inr x else Inl Overflow_error)"
  using assms by (rule safe_cast_fits)

theorem safe_cast_exact_witness:
  "safe_cast (Unsigned 64) (Unsigned 16) 65536 = Inl Overflow_error \<and> safe_cast (Signed 64) (Unsigned 32) 7 = Inr 7"
  using safe_cast_exact[of "Unsigned 64" 65536 "Unsigned 16"] safe_cast_exact[of "Signed 64" 7 "Unsigned 32"]
  by (simp add: in_type_def)

text \<open>The firmware version tests compare versions as pairs: \<open>isJsmCmdApiGreaterThan\<close> is the strict
  lexicographic order of (major, minor), \<open>isJsmApiGreaterOrEqualThan\<close> its reflexive companion.\<close>

theorem version_tests_lexicographic:
  assumes "unat major < 65536" "unat minor < 65536"
  shows "(isJsmCmdApiGreaterThan hw major minor \<longleftrightarrow>
      unat major < Hw_Info.version_major (fwJsmCmdApiVersion hw) \<or>
      unat major = Hw_Info.version_major (fwJsmCmdApiVersion hw) \<and> unat minor < Hw_Info.version_minor (fwJsmCmdApiVersion hw)) \<and>
    (isJsmApiGreaterOrEqualThan hw major minor \<longleftrightarrow>
      unat major < Hw_Info.version_major (fwJsmApiVersion hw) \<or>
      unat major = Hw_Info.version_major (fwJsmApiVersion hw) \<and> unat minor \<le> Hw_Info.version_minor (fwJsmApiVersion hw))"
proof -
  have lex: "a * 65536 + b < v \<longleftrightarrow> a < v div 65536 \<or> a = v div 65536 \<and> b < v mod 65536"
    "a * 65536 + b \<le> v \<longleftrightarrow> a < v div 65536 \<or> a = v div 65536 \<and> b \<le> v mod 65536"
    if "b < 65536" for a b v :: nat
  proof -
    define q r where "q = v div 65536" and "r = v mod 65536"
    have v: "v = q * 65536 + r" "r < 65536" by (simp_all add: q_def r_def)
    have "a * 65536 + b < q * 65536 + r \<longleftrightarrow> a < q \<or> a = q \<and> b < r"
      "a * 65536 + b \<le> q * 65536 + r \<longleftrightarrow> a < q \<or> a = q \<and> b \<le> r"
      using that v(2) by (cases "a < q"; cases "a = q"; simp)+
    then show "a * 65536 + b < v \<longleftrightarrow> a < v div 65536 \<or> a = v div 65536 \<and> b < v mod 65536"
      "a * 65536 + b \<le> v \<longleftrightarrow> a < v div 65536 \<or> a = v div 65536 \<and> b \<le> v mod 65536"
      using v(1) unfolding q_def r_def by metis+
  qed
  have w: "unat (api_version_word major minor) = unat major * 65536 + unat minor"
    using unat_api_version_word[OF assms(1)] assms(2) by simp
  have "isJsmCmdApiGreaterThan hw major minor \<longleftrightarrow>
      unat major < Hw_Info.version_major (fwJsmCmdApiVersion hw) \<or>
      unat major = Hw_Info.version_major (fwJsmCmdApiVersion hw) \<and> unat minor < Hw_Info.version_minor (fwJsmCmdApiVersion hw)"
    using lex(1)[OF assms(2)] by (simp add: isJsmCmdApiGreaterThan_def word_less_nat_alt w Hw_Info.version_major_def Hw_Info.version_minor_def)
  moreover have "isJsmApiGreaterOrEqualThan hw major minor \<longleftrightarrow>
      unat major < Hw_Info.version_major (fwJsmApiVersion hw) \<or>
      unat major = Hw_Info.version_major (fwJsmApiVersion hw) \<and> unat minor \<le> Hw_Info.version_minor (fwJsmApiVersion hw)"
    using lex(2)[OF assms(2)] by (simp add: isJsmApiGreaterOrEqualThan_def word_le_nat_alt w Hw_Info.version_major_def Hw_Info.version_minor_def)
  ultimately show ?thesis by blast
qed

theorem version_tests_lexicographic_witness:
  "isJsmCmdApiGreaterThan (default_hw_info\<lparr>fwJsmCmdApiVersion := 0x4000a\<rparr>) 4 9"
  using version_tests_lexicographic[of 4 9 "default_hw_info\<lparr>fwJsmCmdApiVersion := 0x4000a\<rparr>"]
  by (simp add: Hw_Info.version_major_def Hw_Info.version_minor_def)

text \<open>A relative timeout becomes an absolute one: the time now plus the timeout, and the largest
  representable time for the timeouts that mean "forever"; the sum never overflows into the past as long
  as it is representable.\<close>

theorem absolute_timeout_saturates:
  assumes "0 \<le> now" "now + uint t < 2 ^ 63 \<or> INT64_MAX \<le> uint t"
  shows "getAbsoluteTimeoutNanoseconds now t = (if INT64_MAX \<le> uint t then INT64_MAX else now + uint t)"
proof -
  have u: "0 \<le> uint t" by simp
  have "wrap_s64 (uint t + now) = now + uint t" if "now + uint t < 2 ^ 63"
    using that assms(1) u by (simp add: wrap_s64_def mod_pos_pos_trivial algebra_simps)
  moreover have "wrap_s64 (now + uint t) = wrap_s64 (uint t + now)" by (simp add: add.commute)
  ultimately show ?thesis
    using assms u by (auto simp: getAbsoluteTimeoutNanoseconds_def Let_def INT64_MAX_def)
qed

theorem absolute_timeout_saturates_witness:
  "getAbsoluteTimeoutNanoseconds 1000 500 = 1500 \<and> getAbsoluteTimeoutNanoseconds 1000 0xFFFFFFFFFFFFFFFF = INT64_MAX"
  using absolute_timeout_saturates[of 1000 500] absolute_timeout_saturates[of 1000 "0xFFFFFFFFFFFFFFFF"]
  by (simp add: INT64_MAX_def)

text \<open>A timeout that is finite but so large that its sum with the time now is not representable
  gives, in two's complement, a point in the past: the wait returns at once instead of never.\<close>

theorem absolute_timeout_wraps:
  assumes "0 < now" "now < 2 ^ 62" "uint t < INT64_MAX" "INT64_MAX < now + uint t"
  shows "getAbsoluteTimeoutNanoseconds now t < 0"
proof -
  have "wrap_s64 (now + uint t) = now + uint t - 2 ^ 64"
  proof -
    have "(now + uint t + 2 ^ 63) mod 2 ^ 64 = (now + uint t + 2 ^ 63 - 2 ^ 64) mod 2 ^ 64"
      by (metis minus_mod_self2)
    also have "\<dots> = now + uint t + 2 ^ 63 - 2 ^ 64"
      using assms by (intro mod_pos_pos_trivial) (auto simp: INT64_MAX_def)
    finally show ?thesis by (simp add: wrap_s64_def)
  qed
  then show ?thesis
    using assms by (simp add: getAbsoluteTimeoutNanoseconds_def Let_def INT64_MAX_def add.commute[of "uint t"])
qed

theorem absolute_timeout_wraps_witness:
  "getAbsoluteTimeoutNanoseconds 1000 0x7FFFFFFFFFFFFFF0 < 0"
  using absolute_timeout_wraps[of 1000 "0x7FFFFFFFFFFFFFF0"] by (simp add: INT64_MAX_def)

section \<open>The ioctl wrappers\<close>

text \<open>An ioctl that the kernel interrupts or answers with "try again" is not repeated: \<open>doIoctl\<close>
  returns -1 after the first request, because its condition compares \<open>errno\<close> with the negated numbers.\<close>

theorem doIoctl_interrupted:
  assumes "0 \<le> fd" "osiIoctl os fd (Some a) w = (- 1, arg', w')" "errno w' = EINTR \<or> errno w' = EAGAIN"
  shows "doIoctl os fd (Some a) w = Some (- 1, arg', w')"
  using assms by (auto simp: doIoctl_def doIoctl_loop.simps retry_cond_def errno_defs)

definition busy_os :: "unit os_interface" where
  "busy_os = \<lparr> osiOpen = (\<lambda>p w. (3, w)), osiClose = (\<lambda>fd w. (0, w)),
     osiIoctl = (\<lambda>fd a w. (- 1, a, w\<lparr>errno := EINTR\<rparr>)), osiGetSystemPageSize = 4096,
     osiMmap = (\<lambda>sz fd off w. (MAP_FAILED, w)), osiMunmap = (\<lambda>a sz w. (0, w)) \<rparr>"

theorem doIoctl_interrupted_witness:
  "\<forall>w. doIoctl busy_os 3 (Some (Io_gem_close 1)) w = Some (- 1, Some (Io_gem_close 1), w\<lparr>errno := EINTR\<rparr>)"
proof
  fix w
  show "doIoctl busy_os 3 (Some (Io_gem_close 1)) w = Some (- 1, Some (Io_gem_close 1), w\<lparr>errno := EINTR\<rparr>)"
    by (rule doIoctl_interrupted) (simp_all add: busy_os_def)
qed

text \<open>Under the contract of the system calls (a failed call leaves a positive \<open>errno\<close>), reading a
  device parameter always returns, after one request: it throws exactly when the request fails and errors
  are not ignored, and gives zero when it fails and they are.\<close>

theorem getDeviceParam_total:
  assumes "posix_os os" "0 \<le> fd"
    "osiIoctl os fd (Some (Io_get_param \<lparr>param = p, param_index = i, param_value = 0\<rparr>)) w = (r, Some (Io_get_param q), w')"
  shows "getDeviceParam os fd p i ign w =
    Some ((if r = 0 then Inr (param_value q) else if ign then Inr 0 else Inl Runtime_error), w')"
  using posix_os.doIoctl_once[OF assms(1), of fd "Io_get_param \<lparr>param = p, param_index = i, param_value = 0\<rparr>" w] assms(2,3)
  by (auto simp: getDeviceParam_def)

theorem getDeviceParam_total_witness:
  "\<forall>w. getDeviceParam null_os 3 DRM_IVPU_PARAM_NUM_CONTEXTS 0 False w = Some (Inr 64, w)"
proof
  fix w
  show "getDeviceParam null_os 3 DRM_IVPU_PARAM_NUM_CONTEXTS 0 False w = Some (Inr 64, w)"
    using getDeviceParam_total[OF null_os.posix_os_axioms, where fd = 3 and p = DRM_IVPU_PARAM_NUM_CONTEXTS
      and i = 0 and w = w and ign = False]
    by (simp add: null_os_def getParamValue_def drm_params Let_def)
qed

section \<open>Buffer access\<close>

text \<open>C14: \<open>copyToBuffer\<close> succeeds exactly for a non-empty range inside a mapped buffer; it then
  replaces that range of the contents and nothing else of the memory, and otherwise changes nothing.\<close>

theorem copyToBuffer_exact:
  assumes "bo_ok bo" "unat offset + unat sz < 2 ^ 64" "unat sz \<le> length d"
    "copyToBuffer bo (Some d) sz offset w = (ok, w')"
  shows "(ok \<longleftrightarrow> basePtr bo \<noteq> 0 \<and> sz \<noteq> 0 \<and> unat offset + unat sz \<le> unat (allocSize bo)) \<and>
    (ok \<longrightarrow> contents w' bo = overwrite (contents w bo) (unat offset) (take (unat sz) d) \<and>
            (\<forall>a. \<not> isInRange bo a \<longrightarrow> mem w' a = mem w a)) \<and>
    (\<not> ok \<longrightarrow> w' = w)"
proof -
  have iff: "offset + sz > allocSize bo \<longleftrightarrow> unat (allocSize bo) < unat offset + unat sz"
    using assms(2) by (simp add: word_less_nat_alt unat_plus_64)
  let ?P = "basePtr bo \<noteq> 0 \<and> sz \<noteq> 0 \<and> unat offset + unat sz \<le> unat (allocSize bo)"
  have "copyToBuffer bo (Some d) sz offset w =
    (if ?P then (True, w\<lparr>mem := write_bytes (mem w) (basePtr bo + offset) (take (unat sz) d)\<rparr>) else (False, w))"
    unfolding copyToBuffer_def Let_def iff by (simp only: option.case not_le[symmetric] split: if_split) blast
  then have r: "ok \<longleftrightarrow> ?P" "\<not> ?P \<Longrightarrow> w' = w"
    "?P \<Longrightarrow> w' = w\<lparr>mem := write_bytes (mem w) (basePtr bo + offset) (take (unat sz) d)\<rparr>"
    unfolding assms(4) by (simp_all split: if_splits)
  have len: "length (take (unat sz) d) = unat sz" using assms(3) by simp
  have out: "mem w' a = mem w a" if P: ?P and n: "\<not> isInRange bo a" for a
  proof -
    have b: "unat (basePtr bo + offset) = unat (basePtr bo) + unat offset"
      using assms(1) P by (intro unat_plus_64) (auto simp: bo_ok_def)
    define e where "e = a - (basePtr bo + offset)"
    have "\<not> unat e < unat sz"
    proof
      assume l: "unat e < unat sz"
      have "basePtr bo + offset + e = a" by (simp add: e_def)
      moreover have "unat (basePtr bo + offset + e) = unat (basePtr bo) + unat offset + unat e"
        using unat_plus_64[of "basePtr bo + offset" e] l P assms(1) unfolding b bo_ok_def by simp
      ultimately have "unat a = unat (basePtr bo) + unat offset + unat e" by simp
      moreover have "unat offset + unat sz \<le> unat (allocSize bo)" using P by blast
      ultimately have "isInRange bo a" using l unfolding isInRange_iff[OF assms(1)] by linarith
      then show False using n by blast
    qed
    then have "\<not> unat (a - (basePtr bo + offset)) < unat sz" by (simp only: e_def not_False_eq_True)
    then show ?thesis using r(3)[OF P] len by (simp add: write_bytes_apply)
  qed
  show ?thesis
  proof (cases ?P)
    case True
    have "contents w' bo = overwrite (contents w bo) (unat offset) (take (unat sz) d)"
      unfolding r(3)[OF True] by (rule copyToBuffer_contents) (use True len in simp)
    then show ?thesis using r(1) out[OF True] True by blast
  next
    case False then show ?thesis using r(1) r(2)[OF False] by blast
  qed
qed

theorem copyToBuffer_exact_witness:
  "\<exists>w'. copyToBuffer demo_bo (Some [1, 2]) 2 4094 demo_world = (True, w') \<and>
     contents w' demo_bo = overwrite (contents demo_world demo_bo) 4094 [1, 2]"
proof -
  obtain ok w' where r: "copyToBuffer demo_bo (Some [1, 2]) 2 4094 demo_world = (ok, w')" by force
  have b: "bo_ok demo_bo" "basePtr demo_bo = 0x10000" "allocSize demo_bo = 4096"
    by (simp_all add: demo_bo_def bo_ok_def)
  show ?thesis using copyToBuffer_exact[OF b(1) _ _ r] r by (simp add: b)
qed

text \<open>The range check of \<open>copyToBuffer\<close> adds offset and size in 64 bits: when the sum wraps below
  the size of the buffer the call succeeds, and writes at an address outside the buffer.\<close>

theorem copyToBuffer_wraps:
  assumes "bo_ok bo" "basePtr bo \<noteq> 0" "2 ^ 64 \<le> unat offset + unat sz"
    "unat offset + unat sz \<le> 2 ^ 64 + unat (allocSize bo)" "unat sz \<le> length d" "unat (allocSize bo) \<le> unat offset"
  shows "\<exists>w'. copyToBuffer bo (Some d) sz offset w = (True, w') \<and>
    \<not> isInRange bo (basePtr bo + offset) \<and> mem w' (basePtr bo + offset) = d ! 0"
proof -
  have nz: "sz \<noteq> 0" using assms(3) unat_lt_64[of offset] by auto
  have s: "unat (offset + sz) = unat offset + unat sz - 2 ^ 64"
    using assms(3) unat_lt_64[of offset] unat_lt_64[of sz]
    by (simp add: unat_word_ariths(1) mod_if)
  have c: "\<not> offset + sz > allocSize bo"
    using s assms(4) by (simp add: word_less_nat_alt)
  have "\<not> isInRange bo (basePtr bo + offset)"
  proof
    assume "isInRange bo (basePtr bo + offset)"
    then have "unat (basePtr bo) \<le> unat (basePtr bo + offset)"
      "unat (basePtr bo + offset) < unat (basePtr bo) + unat (allocSize bo)"
      by (simp_all add: isInRange_iff[OF assms(1)])
    then show False
      using assms(6) unat_lt_64[of offset] unat_lt_64[of "basePtr bo"]
      unfolding unat_plus_if' by (simp split: if_splits)
  qed
  moreover have "0 < unat sz" using nz by (simp add: unat_gt_0)
  moreover have "copyToBuffer bo (Some d) sz offset w =
    (True, w\<lparr>mem := write_bytes (mem w) (basePtr bo + offset) (take (unat sz) d)\<rparr>)"
    unfolding copyToBuffer_def Let_def using nz c assms(2) by (simp only: if_False option.case)
  moreover have "write_bytes (mem w) (basePtr bo + offset) (take (unat sz) d) (basePtr bo + offset) = d ! 0"
    if "0 < unat sz" using that assms(5) by (simp add: write_bytes_apply)
  ultimately show ?thesis by simp
qed

theorem copyToBuffer_wraps_witness:
  "\<exists>w'. copyToBuffer demo_bo (Some (replicate 32 7)) 32 0xFFFFFFFFFFFFFFF0 demo_world = (True, w') \<and>
     \<not> isInRange demo_bo 0xFFF0 \<and> mem w' 0xFFF0 = 7"
proof -
  have b: "bo_ok demo_bo" "basePtr demo_bo = 0x10000" "allocSize demo_bo = 4096"
    by (simp_all add: demo_bo_def bo_ok_def)
  have a: "(0x10000 + 0xFFFFFFFFFFFFFFF0 :: u64) = 0xFFF0" by code_simp
  show ?thesis
    using copyToBuffer_wraps[OF b(1), of "0xFFFFFFFFFFFFFFF0" 32 "replicate 32 7" demo_world]
    unfolding b a by simp
qed

section \<open>The NOP command\<close>

text \<open>What a NOP command copies into the command buffer behind its 8-byte structure is the memory
  that follows the structure in the process.\<close>

theorem nop_commit_tail:
  assumes "VPUNopCommand_create hw sz tail = Some cmd"
  shows "drop 8 (getCommitStream cmd) = tail \<and> getCommitSize cmd = unat sz"
proof -
  have "unat (ucast sz :: u16) = unat sz" if "\<not> sz > 0xFFFF"
    using that by (simp add: unsigned_ucast_eq take_bit_nat_eq_self_iff word_less_nat_alt)
  then show ?thesis
    using assms by (auto simp: VPUNopCommand_create_def new_command_def getCommitStream_def getCommitSize_def
      encode_def cmd_header_def split: if_splits)
qed

theorem nop_commit_tail_witness:
  "\<exists>cmd :: u32 command. VPUNopCommand_create getHwInfo40xx 24 (replicate 16 0xAB) = Some cmd \<and>
     drop 8 (getCommitStream cmd) = replicate 16 0xAB"
proof -
  obtain cmd :: "u32 command" where "VPUNopCommand_create getHwInfo40xx 24 (replicate 16 0xAB) = Some cmd"
    by (simp add: VPUNopCommand_create_def)
  then show ?thesis using nop_commit_tail by blast
qed

section \<open>The null device\<close>

text \<open>The tile count override of the null device disables exactly as many tiles as are left over.\<close>

theorem tile_count_override:
  assumes "override_tile_count (Some s) hw = Some hw'" "parse_whole 0 s = Some n"
    "unat n < bit_count (tileFuseMask hw)"
  shows "0 < unat n \<and> bit_count (tileConfig hw') + unat n = bit_count (tileFuseMask hw)"
proof -
  define k where "k = bit_count (tileFuseMask hw) - unat n"
  have "bit_count (tileFuseMask hw) \<le> 32"
    unfolding bit_count_def by (rule order_trans[OF length_filter_le]) simp
  moreover have n: "n \<noteq> 0" using assms(1,2) by (auto simp: override_tile_count_def)
  moreover have "0 < unat n" using n by (simp add: unat_gt_0)
  ultimately have k: "0 < k" "k < 32" using assms(3) unfolding k_def by linarith+
  have "hw' = hw\<lparr>tileConfig := push_bit k 1 - 1\<rparr>"
    using assms n k by (auto simp: override_tile_count_def Let_def k_def split: if_splits)
  moreover have "bit_count (push_bit k 1 - 1) = k"
  proof -
    have "push_bit k 1 - 1 = (mask k :: u32)" by (simp add: mask_eq_exp_minus_1 push_bit_eq_mult)
    moreover have "filter (bit (mask k :: u32)) [0..<32] = [0..<k]"
    proof -
      have "[0..<32] = [0..<k] @ [k..<32]" using k upt_add_eq_append[of 0 k "32 - k"] by simp
      then show ?thesis using k by (auto simp: bit_mask_iff filter_id_conv filter_empty_conv)
    qed
    ultimately show ?thesis by (simp add: bit_count_def)
  qed
  ultimately show ?thesis using assms(3) n by (simp add: k_def unat_gt_0)
qed

theorem tile_count_override_witness:
  "\<exists>hw'. override_tile_count (Some ''2'') getHwInfo40xx = Some hw' \<and> bit_count (tileConfig hw') = 4"
proof -
  have p: "parse_whole 0 ''2'' = Some 2"
    by (simp add: parse_whole_def stoul_def detect_base_def digit_value_def digits_value_def is_space_def)
  have c: "bit_count (tileFuseMask getHwInfo40xx) = 6" by code_simp
  obtain hw' where h: "override_tile_count (Some ''2'') getHwInfo40xx = Some hw'"
    by (auto simp: override_tile_count_def p c[simplified] Let_def)
  show ?thesis using tile_count_override[OF h p] c h by simp
qed

text \<open>Two buffers created one after the other on the null device have disjoint device addresses,
  the second above the first.\<close>

theorem null_buffers_apart:
  assumes "da_createBuffer (mk_drv_api null_os 3) sz1 f1 w = (Inr (h1, a1), w1)"
    "da_createBuffer (mk_drv_api null_os 3) sz2 f2 w1 = (Inr (h2, a2), w2)"
    "unat (deviceAddress (kern w)) + unat sz1 + 4096 \<le> 2 ^ 64" "unat sz1 + 4096 \<le> 2 ^ 64"
  shows "unat a1 + unat sz1 \<le> unat a2"
proof -
  have e: "a1 = deviceAddress (kern w)" "a2 = a1 + ALIGN sz1 4096"
    using assms(1,2) by (auto simp: demo_calls[unfolded demo_drv_def] null_page_size_def)
  have al: "unat sz1 \<le> unat (ALIGN sz1 (2 ^ 12))" "unat (ALIGN sz1 (2 ^ 12)) < unat sz1 + 4096"
    using ALIGN_bounds[of 12 sz1] assms(4) by auto
  then have "unat (a1 + ALIGN sz1 (2 ^ 12)) = unat a1 + unat (ALIGN sz1 (2 ^ 12))"
    using assms(3) e(1) by (intro unat_plus_64) auto
  then show ?thesis using al e by simp
qed

theorem null_buffers_apart_witness:
  "\<exists>h1 a1 w1 h2 a2 w2. da_createBuffer (mk_drv_api null_os 3) 5000 0 demo_world = (Inr (h1, a1), w1) \<and>
    da_createBuffer (mk_drv_api null_os 3) 64 0 w1 = (Inr (h2, a2), w2) \<and> unat a1 + 5000 \<le> unat a2"
proof -
  obtain h1 a1 w1 where r1: "da_createBuffer (mk_drv_api null_os 3) 5000 0 demo_world = (Inr (h1, a1), w1)"
    by (simp add: demo_calls[unfolded demo_drv_def])
  obtain h2 a2 w2 where r2: "da_createBuffer (mk_drv_api null_os 3) 64 0 w1 = (Inr (h2, a2), w2)"
    by (simp add: demo_calls[unfolded demo_drv_def])
  have "unat a1 + unat (5000 :: u64) \<le> unat a2"
    by (rule null_buffers_apart[OF r1 r2]) (simp_all add: demo_world_def)
  then show ?thesis using r1 r2 by auto
qed

end
