(* ===== verification/Vpu_Device.thy ===== *)
theory Vpu_Device
  imports Driver_Api Hw_Info
begin

text \<open>
  \<open>VPUDevice\<close> (\<open>umd/vpu_driver/source/device/vpu_device.cpp\<close>, \<open>metric_info.hpp\<close>): the
  initialisation of the hardware description from the device parameters, the walk over the
  metric descriptors the firmware writes (\<open>firmware/include/api/vpu_jsm_api.h\<close>), and the PCI
  address in the link of the device node. A call may throw, and may not return (\<open>None\<close>). The walk
  follows the offsets of the descriptors without comparing them with the size of the buffer, so it
  is a partial function.
\<close>

section \<open>Calls in sequence\<close>

type_synonym ('k, 'a) dev_op = "'k world \<Rightarrow> ((exn + 'a) \<times> 'k world) option"

definition dev_bind :: "('k, 'a) dev_op \<Rightarrow> ('a \<Rightarrow> ('k, 'b) dev_op) \<Rightarrow> ('k, 'b) dev_op" where
  "dev_bind m f w =
     (case m w of None \<Rightarrow> None
      | Some (Inl e, w') \<Rightarrow> Some (Inl e, w')
      | Some (Inr x, w') \<Rightarrow> f x w')"

definition dev_return :: "'a \<Rightarrow> ('k, 'a) dev_op" where
  "dev_return x w = Some (Inr x, w)"

definition dev_pure :: "exn + 'a \<Rightarrow> ('k, 'a) dev_op" where
  "dev_pure r w = Some (r, w)"

text \<open>A call that does not throw.\<close>

definition dev_call :: "('k world \<Rightarrow> ('a \<times> 'k world) option) \<Rightarrow> ('k, 'a) dev_op" where
  "dev_call f w = map_option (\<lambda>(x, w'). (Inr x, w')) (f w)"

section \<open>The hardware description\<close>

definition device_param :: "'k os_interface \<Rightarrow> int \<Rightarrow> u32 \<Rightarrow> u32 \<Rightarrow> bool \<Rightarrow> ('k, u64) dev_op" where
  "device_param os fd p index ign = getDeviceParam os fd p index ign"

definition narrow_device_param :: "nat \<Rightarrow> 'k os_interface \<Rightarrow> int \<Rightarrow> u32 \<Rightarrow> ('k, u64) dev_op" where
  "narrow_device_param bits os fd p =
     dev_bind (getDeviceParam os fd p 0 False) (\<lambda>v. dev_pure (narrow_param bits (Inr v)))"

text \<open>The block that reads the parameters; an exception leaves it.\<close>

definition read_caps :: "'k os_interface \<Rightarrow> int \<Rightarrow> ('k, hw_info) dev_op" where
  "read_caps os fd =
     dev_bind (narrow_device_param 32 os fd DRM_IVPU_PARAM_DEVICE_ID) (\<lambda>devId.
     dev_bind (dev_pure (getHwInfoByDeviceId (ucast devId))) (\<lambda>hw.
     dev_bind (narrow_device_param 16 os fd DRM_IVPU_PARAM_DEVICE_REVISION) (\<lambda>rev.
     dev_bind (narrow_device_param 32 os fd DRM_IVPU_PARAM_NUM_CONTEXTS) (\<lambda>nctx.
     dev_bind (narrow_device_param 32 os fd DRM_IVPU_PARAM_CORE_CLOCK_RATE) (\<lambda>clk.
     dev_bind (narrow_device_param 32 os fd DRM_IVPU_PARAM_PLATFORM_TYPE) (\<lambda>plat.
     dev_bind (device_param os fd DRM_IVPU_PARAM_FW_API_VERSION (fwMappedInferenceIndex hw) False) (\<lambda>vmi.
     dev_bind (device_param os fd DRM_IVPU_PARAM_FW_API_VERSION (fwJsmCmdApiVerIndex hw) False) (\<lambda>vcmd.
     dev_bind (device_param os fd DRM_IVPU_PARAM_FW_API_VERSION (fwJsmApiVerIndex hw) False) (\<lambda>vjsm.
     dev_bind (narrow_device_param 32 os fd DRM_IVPU_PARAM_TILE_CONFIG) (\<lambda>tile.
     dev_bind (device_param os fd DRM_IVPU_PARAM_PREEMPT_BUFFER_SIZE 0 True) (\<lambda>pre.
       dev_return (hw\<lparr>deviceId := ucast devId, deviceRevision := ucast rev,
         maxHardwareContexts := ucast nctx, coreClockRate := ucast clk, platformType := ucast plat,
         fwMappedInferenceVersion := vmi, fwJsmCmdApiVersion := vcmd, fwJsmApiVersion := vjsm,
         tileConfig := NOT (ucast tile) AND tileFuseMask hw, fwPreemptBufSize := pre\<rparr>))))))))))))"

definition read_capabilities :: "'k os_interface \<Rightarrow> int \<Rightarrow> hw_info \<Rightarrow> ('k, hw_info) dev_op" where
  "read_capabilities os fd hw =
     dev_bind (dev_call (checkPrimeBuffersCapability os fd)) (\<lambda>prime.
     dev_bind (dev_call (checkDeviceCapability os fd DRM_IVPU_CAP_METRIC_STREAMER)) (\<lambda>metric.
     dev_bind (dev_call (checkDeviceCapability os fd DRM_IVPU_CAP_DMA_MEMORY_RANGE)) (\<lambda>dma.
     dev_bind (dev_call (checkDeviceCapability os fd DRM_IVPU_CAP_MANAGE_CMDQ)) (\<lambda>cmdq.
     dev_bind (if arch_code (npuArch hw) > arch_code NPU37XX
               then dev_call (checkDeviceCapability os fd DRM_IVPU_CAP_BO_CREATE_FROM_USERPTR)
               else dev_return False) (\<lambda>user.
       dev_return (hw\<lparr>primeBuffersCapability := (if prime then True else primeBuffersCapability hw),
         metricStreamerCapability := (if metric then True else metricStreamerCapability hw),
         dmaMemoryRangeCapability := (if dma then True else dmaMemoryRangeCapability hw),
         cmdQueueCreationCapability := (if cmdq then True else cmdQueueCreationCapability hw),
         userPtrCapability := (if user then True else userPtrCapability hw)\<rparr>))))))"

text \<open>
  \<open>initializeCaps\<close>: \<open>None\<close> inside is the result false; the strings are the versions of the JSM
  API, of the JSM command API and of the mapped inference.
\<close>

definition initializeCaps ::
  "'k os_interface \<Rightarrow> int \<Rightarrow> 'k world \<Rightarrow> ((hw_info \<times> string \<times> string \<times> string) option \<times> 'k world) option" where
  "initializeCaps os fd w =
     (case read_caps os fd w of
        None \<Rightarrow> None
      | Some (Inl e, w1) \<Rightarrow> Some (None, w1)
      | Some (Inr hw, w1) \<Rightarrow>
          map_option (\<lambda>(r, w2). (case r of Inl e \<Rightarrow> None | Inr x \<Rightarrow> Some x, w2))
            (dev_bind (read_capabilities os fd hw) (\<lambda>hw1.
             dev_bind (dev_call (getFWComponentVersion os fd (fwJsmApiVerIndex hw1))) (\<lambda>v1.
             dev_bind (dev_call (getFWComponentVersion os fd (fwJsmCmdApiVerIndex hw1))) (\<lambda>v2.
             dev_bind (dev_call (getFWComponentVersion os fd (fwMappedInferenceIndex hw1))) (\<lambda>v3.
               dev_return (hw1, v1, v2, v3))))) w1))"

section \<open>Metric descriptors\<close>

record counter_info =
  tier :: u32
  metricType :: u32
  valueType :: u32
  metricName :: bytes
  metricDescription :: bytes
  component :: bytes
  units :: bytes

record group_info =
  groupIndex :: u32
  metricGroupName :: bytes
  metricGroupDescription :: bytes
  domain :: u32
  metricCount :: u32
  samplingType :: u32
  counterInfo :: "counter_info list"

definition read32 :: "memory \<Rightarrow> u64 \<Rightarrow> u32" where
  "read32 m p = dec32 (read_bytes m p 4)"

text \<open>\<open>std::string\<close> of a character pointer: up to the next zero byte.\<close>

partial_function (option) c_string :: "memory \<Rightarrow> u64 \<Rightarrow> bytes option" where
  "c_string m p =
     (if m p = 0 then Some []
      else Option.bind (c_string m (p + 1)) (\<lambda>s. Some (m p # s)))"

definition sized_string :: "memory \<Rightarrow> u64 \<Rightarrow> u32 \<Rightarrow> bytes option" where
  "sized_string m p n = (if n \<noteq> 0 then c_string m p else Some [])"

definition sizeof_group_descriptor :: u64 where "sizeof_group_descriptor = 40"
definition sizeof_counter_descriptor :: u64 where "sizeof_counter_descriptor = 48"

definition parse_counter :: "memory \<Rightarrow> u64 \<Rightarrow> counter_info option" where
  "parse_counter m p =
     (let nameSize = read32 m (p + 24); descSize = read32 m (p + 28);
          compSize = read32 m (p + 32); unitsSize = read32 m (p + 36);
          s = p + sizeof_counter_descriptor
      in case sized_string m s nameSize of None \<Rightarrow> None | Some name \<Rightarrow>
         (case sized_string m (s + ucast nameSize) descSize of None \<Rightarrow> None | Some desc \<Rightarrow>
         (case sized_string m (s + ucast nameSize + ucast descSize) compSize of None \<Rightarrow> None | Some cmpn \<Rightarrow>
         (case sized_string m (s + ucast nameSize + ucast descSize + ucast compSize) unitsSize of
            None \<Rightarrow> None
          | Some un \<Rightarrow>
              Some \<lparr>tier = read32 m (p + 12), metricType = read32 m (p + 16), valueType = read32 m (p + 20),
                metricName = name, metricDescription = desc, component = cmpn, units = un\<rparr>))))"

text \<open>The loop over \<open>num_counters\<close> descriptors.\<close>

fun parse_counters :: "memory \<Rightarrow> u64 \<Rightarrow> nat \<Rightarrow> counter_info list option" where
  "parse_counters m p 0 = Some []"
| "parse_counters m p (Suc n) =
     (case parse_counter m p of None \<Rightarrow> None
      | Some ci \<Rightarrow>
          (case parse_counters m (p + ucast (read32 m p)) n of None \<Rightarrow> None | Some cs \<Rightarrow> Some (ci # cs)))"

definition parse_group :: "memory \<Rightarrow> u64 \<Rightarrow> group_info option" where
  "parse_group m p =
     (let first = read32 m (p + 4); nameSize = read32 m (p + 24); descSize = read32 m (p + 28)
      in case sized_string m (p + sizeof_group_descriptor) nameSize of None \<Rightarrow> None | Some name \<Rightarrow>
         (case sized_string m (p + sizeof_group_descriptor + ucast nameSize) descSize of None \<Rightarrow> None | Some desc \<Rightarrow>
         (case parse_counters m (p + ucast first) (unat (read32 m (p + 12))) of None \<Rightarrow> None | Some cs \<Rightarrow>
            Some \<lparr>groupIndex = read32 m (p + 8), metricGroupName = name, metricGroupDescription = desc,
              domain = read32 m (p + 20), metricCount = read32 m (p + 12), samplingType = read32 m (p + 32),
              counterInfo = cs\<rparr>)))"

partial_function (option) parse_groups :: "memory \<Rightarrow> u64 \<Rightarrow> group_info list option" where
  "parse_groups m p =
     (case parse_group m p of None \<Rightarrow> None
      | Some g \<Rightarrow>
          if read32 m p \<noteq> 0
          then Option.bind (parse_groups m (p + ucast (read32 m p))) (\<lambda>gs. Some (g # gs))
          else Some [g])"

text \<open>
  \<open>initializeMetricGroups\<close>; \<open>vec\<close> is the address of the vector that receives the
  descriptors, which starts filled with zeros.
\<close>

definition initializeMetricGroups ::
  "'k os_interface \<Rightarrow> int \<Rightarrow> u64 \<Rightarrow> 'k world \<Rightarrow> (group_info list option \<times> 'k world) option" where
  "initializeMetricGroups os fd vec w =
     (let req = \<lparr>msd_metric_group_mask = - 1, msd_buffer_ptr = 0, msd_buffer_size = 0, msd_data_size = 0\<rparr>
      in case metricStreamerGetInfo os fd req w of
           None \<Rightarrow> None
         | Some (Inl e, w1) \<Rightarrow> Some (None, w1)
         | Some (Inr d, w1) \<Rightarrow>
             let sz = msd_data_size d in
             if sz = 0 then Some (None, w1)
             else (case metricStreamerGetInfo os fd (req\<lparr>msd_buffer_ptr := vec, msd_buffer_size := sz\<rparr>)
                          (w1\<lparr>mem := write_bytes (mem w1) vec (replicate (unat sz) 0)\<rparr>) of
                     None \<Rightarrow> None
                   | Some (Inl e, w2) \<Rightarrow> Some (None, w2)
                   | Some (Inr d2, w2) \<Rightarrow>
                       (case parse_groups (mem w2) vec of None \<Rightarrow> None | Some gs \<Rightarrow> Some (Some gs, w2))))"

section \<open>Initialisation\<close>

record vpu_device =
  dev_hwInfo :: hw_info
  groupsInfo :: "group_info list"
  jsmApiVersion :: string
  jsmCmdApiVersion :: string
  mappedInferenceVersion :: string

text \<open>\<open>init\<close>; the driver API of the call is destroyed at its end. \<open>None\<close> inside is false.\<close>

definition init_opened ::
  "'k os_interface \<Rightarrow> int \<Rightarrow> bool \<Rightarrow> u64 \<Rightarrow> 'k world \<Rightarrow> (vpu_device option \<times> 'k world) option" where
  "init_opened os fd enableMetrics vec w =
     (case isVpuDevice os fd w of
        None \<Rightarrow> None
      | Some (False, w1) \<Rightarrow> Some (None, w1)
      | Some (True, w1) \<Rightarrow>
          (case initializeCaps os fd w1 of
             None \<Rightarrow> None
           | Some (None, w2) \<Rightarrow> Some (None, w2)
           | Some (Some (hw, v1, v2, v3), w2) \<Rightarrow>
               let dev = \<lparr>dev_hwInfo = hw, groupsInfo = [], jsmApiVersion = v1, jsmCmdApiVersion = v2,
                          mappedInferenceVersion = v3\<rparr>
               in if enableMetrics \<and> metricStreamerCapability hw
                  then (case initializeMetricGroups os fd vec w2 of
                          None \<Rightarrow> None
                        | Some (None, w3) \<Rightarrow> Some (None, w3)
                        | Some (Some gs, w3) \<Rightarrow> Some (Some (dev\<lparr>groupsInfo := gs\<rparr>), w3))
                  else Some (Some dev, w2)))"

definition device_init ::
  "'k os_interface \<Rightarrow> string \<Rightarrow> bool \<Rightarrow> u64 \<Rightarrow> 'k world \<Rightarrow> (vpu_device option \<times> 'k world) option" where
  "device_init os devPath enableMetrics vec w =
     (if devPath = [] then Some (None, w)
      else (case openDriverApi os devPath w of
              (None, w1) \<Rightarrow> Some (None, w1)
            | (Some fd, w1) \<Rightarrow>
                map_option (\<lambda>(r, w2). (r, destroyDriverApi os fd w2)) (init_opened os fd enableMetrics vec w1)))"

definition isConnected :: "'k os_interface \<Rightarrow> string \<Rightarrow> 'k world \<Rightarrow> (bool \<times> 'k world) option" where
  "isConnected os devPath w =
     (case openDriverApi os devPath w of
        (None, w1) \<Rightarrow> Some (False, w1)
      | (Some fd, w1) \<Rightarrow>
          map_option (\<lambda>(r, w2). (r, destroyDriverApi os fd w2))
            (case isVpuDevice os fd w1 of
               None \<Rightarrow> None
             | Some (False, w2) \<Rightarrow> Some (False, w2)
             | Some (True, w2) \<Rightarrow>
                 map_option (\<lambda>(r, w3). (case r of Inl e \<Rightarrow> False | Inr v \<Rightarrow> True, w3))
                   (narrow_device_param 32 os fd DRM_IVPU_PARAM_ENGINE_HEARTBEAT w2)))"

section \<open>The PCI address\<close>

definition digit_value :: "nat \<Rightarrow> char \<Rightarrow> nat option" where
  "digit_value base ch =
     (let n = of_char ch;
          v = (if 48 \<le> n \<and> n \<le> (57 :: nat) then n - 48
               else if 97 \<le> n \<and> n \<le> 122 then n - 87
               else if 65 \<le> n \<and> n \<le> 90 then n - 55 else base)
      in if v < base then Some v else None)"

text \<open>\<open>std::from_chars\<close>: the digits at the front; an error leaves the variable.\<close>

fun digits :: "nat \<Rightarrow> string \<Rightarrow> nat list" where
  "digits base [] = []"
| "digits base (ch # s) = (case digit_value base ch of None \<Rightarrow> [] | Some v \<Rightarrow> v # digits base s)"

definition from_chars :: "nat \<Rightarrow> nat \<Rightarrow> string \<Rightarrow> nat option" where
  "from_chars width base s =
     (let ds = digits base s; v = foldl (\<lambda>n d. n * base + d) 0 ds
      in if ds = [] then None else if v < 2 ^ width then Some v else None)"

fun find_sub :: "string \<Rightarrow> string \<Rightarrow> nat option" where
  "find_sub sub [] = (if sub = [] then Some 0 else None)"
| "find_sub sub (ch # s) =
     (if take (length sub) (ch # s) = sub then Some 0 else map_option Suc (find_sub sub s))"

definition between :: "nat \<Rightarrow> nat \<Rightarrow> string \<Rightarrow> string" where
  "between a b s = take (b - a) (drop a s)"

definition parse_field :: "u32 \<Rightarrow> string \<Rightarrow> u32" where
  "parse_field old s = (case from_chars 32 16 s of None \<Rightarrow> old | Some v \<Rightarrow> of_nat v)"

text \<open>\<open>getBDF\<close> of the link of the device node: domain, bus, device and function; \<open>None\<close> is -1.\<close>

definition getBDF_of_link :: "string \<Rightarrow> u32 \<times> u32 \<times> u32 \<times> u32 \<Rightarrow> (u32 \<times> u32 \<times> u32 \<times> u32) option" where
  "getBDF_of_link devLink old =
     (case old of (pcid, bus, dev, func) \<Rightarrow>
        if devLink = [] then None
        else (case find_sub ''accel'' devLink of
                None \<Rightarrow> None
              | Some pos \<Rightarrow>
                  if pos < 13 then None
                  else Some (parse_field pcid (between (pos - 13) (pos - 9) devLink),
                             parse_field bus (between (pos - 8) (pos - 6) devLink),
                             parse_field dev (between (pos - 5) (pos - 3) devLink),
                             parse_field func (between (pos - 2) (pos - 1) devLink))))"

text \<open>\<open>getActiveTime\<close> of the contents of \<open>npu_busy_time_us\<close>; \<open>None\<close> is false.\<close>

definition getActiveTime_of_file :: "string \<Rightarrow> u64 option" where
  "getActiveTime_of_file s = (if s = [] then None else map_option of_nat (from_chars 64 10 s))"

end
