(* ===== verification/Vpu_Device_Props.thy ===== *)
theory Vpu_Device_Props
  imports Vpu_Device
begin

text \<open>
  The metric descriptors as the firmware lays them out, and the proof that the driver's walk over
  them returns the groups; the PCI address of a device link.
\<close>

section \<open>Bytes at an address\<close>

definition holds_at :: "memory \<Rightarrow> u64 \<Rightarrow> bytes \<Rightarrow> bool" where
  "holds_at m p bs \<longleftrightarrow> read_bytes m p (length bs) = bs"

lemma holds_append [simp]:
  "holds_at m p (xs @ ys) \<longleftrightarrow> holds_at m p xs \<and> holds_at m (p + of_nat (length xs)) ys"
  by (auto simp: holds_at_def read_append)

lemma holds_Cons [simp]: "holds_at m p (b # bs) \<longleftrightarrow> m p = b \<and> holds_at m (p + 1) bs"
  using holds_append[of m p "[b]" bs] by (simp add: holds_at_def read_bytes_def)

lemma holds_Nil [simp]: "holds_at m p []"
  by (simp add: holds_at_def)

lemma holds_read32: "holds_at m p (enc32 v) \<Longrightarrow> read32 m p = v"
  by (simp add: holds_at_def read32_def)

section \<open>Strings\<close>

lemma c_string_holds: "holds_at m p (s @ [0]) \<Longrightarrow> 0 \<notin> set s \<Longrightarrow> c_string m p = Some s"
proof (induction s arbitrary: p)
  case Nil
  then show ?case by (subst c_string.simps) simp
next
  case (Cons b s)
  then have "c_string m (p + 1) = Some s" by (intro Cons.IH) (simp_all add: algebra_simps)
  then show ?case using Cons.prems by (subst c_string.simps) auto
qed

text \<open>A string with its terminator, or nothing for an absent one.\<close>

definition string_field :: "bytes \<Rightarrow> bytes" where
  "string_field s = (if s = [] then [] else s @ [0])"

definition field_len :: "bytes \<Rightarrow> u32" where
  "field_len s = of_nat (length (string_field s))"

definition string_ok :: "bytes \<Rightarrow> bool" where
  "string_ok s \<longleftrightarrow> 0 \<notin> set s \<and> length s < 65536"

lemma field_len_64: "string_ok s \<Longrightarrow> (ucast (field_len s) :: u64) = of_nat (length (string_field s))"
  by (simp add: field_len_def string_field_def string_ok_def unsigned_ucast_eq word_unat_eq_iff
      unat_of_nat take_bit_nat_eq_self)

lemma sized_string_holds:
  assumes "holds_at m p (string_field s)" "string_ok s"
  shows "sized_string m p (field_len s) = Some s"
proof (cases "s = []")
  case True
  then show ?thesis by (simp add: sized_string_def field_len_def string_field_def)
next
  case False
  have "unat (field_len s) = length (string_field s)"
    unfolding field_len_def using assms(2)
    by (simp add: unat_of_nat take_bit_nat_eq_self string_field_def string_ok_def)
  then have "field_len s \<noteq> 0" using False by (auto simp: string_field_def)
  moreover have "c_string m p = Some s"
    using assms False by (intro c_string_holds) (auto simp: string_field_def string_ok_def)
  ultimately show ?thesis by (simp add: sized_string_def)
qed

section \<open>The layout of the descriptors\<close>

definition pad8 :: "bytes \<Rightarrow> bytes" where
  "pad8 bs = bs @ replicate ((8 - length bs mod 8) mod 8) 0"

definition counter_strings :: "counter_info \<Rightarrow> bytes" where
  "counter_strings ci = string_field (metricName ci) @ string_field (metricDescription ci)
     @ string_field (component ci) @ string_field (units ci)"

text \<open>\<open>off\<close> and \<open>sz\<close> are the two fields of a counter the driver does not read.\<close>

definition encode_counter :: "u32 \<Rightarrow> u32 \<Rightarrow> counter_info \<Rightarrow> bytes" where
  "encode_counter off sz ci =
     (let strs = pad8 (counter_strings ci) in
      enc32 (of_nat (48 + length strs)) @ enc32 off @ enc32 sz @ enc32 (tier ci) @ enc32 (metricType ci)
        @ enc32 (valueType ci) @ enc32 (field_len (metricName ci)) @ enc32 (field_len (metricDescription ci))
        @ enc32 (field_len (component ci)) @ enc32 (field_len (units ci)) @ enc64 0 @ strs)"

definition counter_ok :: "counter_info \<Rightarrow> bool" where
  "counter_ok ci \<longleftrightarrow> string_ok (metricName ci) \<and> string_ok (metricDescription ci)
     \<and> string_ok (component ci) \<and> string_ok (units ci)"

definition group_strings :: "group_info \<Rightarrow> bytes" where
  "group_strings g = string_field (metricGroupName g) @ string_field (metricGroupDescription g)"

definition encode_counters :: "counter_info list \<Rightarrow> bytes" where
  "encode_counters cs = concat (map (encode_counter 0 0) cs)"

definition encode_group :: "bool \<Rightarrow> group_info \<Rightarrow> bytes" where
  "encode_group isLast g =
     (let strs = pad8 (group_strings g); cs = encode_counters (counterInfo g) in
      enc32 (if isLast then 0 else of_nat (40 + length strs + length cs)) @ enc32 (of_nat (40 + length strs))
        @ enc32 (groupIndex g) @ enc32 (metricCount g) @ enc32 0 @ enc32 (domain g)
        @ enc32 (field_len (metricGroupName g)) @ enc32 (field_len (metricGroupDescription g))
        @ enc32 (samplingType g) @ enc32 0 @ strs @ cs)"

fun encode_groups :: "group_info list \<Rightarrow> bytes" where
  "encode_groups [] = []"
| "encode_groups [g] = encode_group True g"
| "encode_groups (g # gs) = encode_group False g @ encode_groups gs"

definition group_ok :: "group_info \<Rightarrow> bool" where
  "group_ok g \<longleftrightarrow> string_ok (metricGroupName g) \<and> string_ok (metricGroupDescription g)
     \<and> list_all counter_ok (counterInfo g) \<and> length (counterInfo g) < 4096
     \<and> metricCount g = of_nat (length (counterInfo g))"

lemma string_field_le: "string_ok s \<Longrightarrow> length (string_field s) \<le> 65536"
  by (simp add: string_ok_def string_field_def)

lemma pad8_le: "length (pad8 bs) \<le> length bs + 7"
  by (simp add: pad8_def)

lemma encode_counter_length: "length (encode_counter a b ci) = 48 + length (pad8 (counter_strings ci))"
  by (simp add: encode_counter_def Let_def)

lemma counter_strings_le: "counter_ok ci \<Longrightarrow> length (pad8 (counter_strings ci)) \<le> 262151"
  using pad8_le[of "counter_strings ci"]
  by (auto simp: counter_strings_def counter_ok_def dest!: string_field_le)

lemma ucast_of_nat_small: "n < 2 ^ 32 \<Longrightarrow> (ucast (of_nat n :: u32) :: u64) = of_nat n"
  by (simp add: unsigned_ucast_eq word_unat_eq_iff unat_of_nat take_bit_nat_eq_self)

lemma counter_fields:
  assumes "holds_at m p (encode_counter a b ci)"
  shows "read32 m (p + 12) = tier ci" "read32 m (p + 16) = metricType ci"
    "read32 m (p + 20) = valueType ci" "read32 m (p + 24) = field_len (metricName ci)"
    "read32 m (p + 28) = field_len (metricDescription ci)" "read32 m (p + 32) = field_len (component ci)"
    "read32 m (p + 36) = field_len (units ci)" "holds_at m (p + 48) (counter_strings ci)"
  using assms by (simp_all add: encode_counter_def Let_def holds_read32 pad8_def ac_simps)

lemma group_fields:
  assumes "holds_at m p (encode_group b g)"
  shows "read32 m (p + 8) = groupIndex g" "read32 m (p + 12) = metricCount g" "read32 m (p + 20) = domain g"
    "read32 m (p + 24) = field_len (metricGroupName g)"
    "read32 m (p + 28) = field_len (metricGroupDescription g)" "read32 m (p + 32) = samplingType g"
    "holds_at m (p + 40) (group_strings g)"
  using assms by (simp_all add: encode_group_def Let_def holds_read32 pad8_def ac_simps)

lemma parse_counter_encoded:
  assumes "holds_at m p (encode_counter a b ci)" "counter_ok ci"
  shows "parse_counter m p = Some ci" "p + ucast (read32 m p) = p + of_nat (length (encode_counter a b ci))"
proof -
  have "read32 m p = of_nat (length (encode_counter a b ci))"
    using assms by (simp add: encode_counter_length) (simp add: encode_counter_def Let_def holds_read32)
  moreover have "length (encode_counter a b ci) < 2 ^ 32"
    using counter_strings_le[OF assms(2)] by (simp add: encode_counter_length)
  ultimately show "p + ucast (read32 m p) = p + of_nat (length (encode_counter a b ci))"
    by (simp only: ucast_of_nat_small)
  show "parse_counter m p = Some ci"
    using assms(2) counter_fields[OF assms(1)]
    by (simp add: parse_counter_def Let_def counter_strings_def counter_ok_def
        sizeof_counter_descriptor_def sized_string_holds field_len_64)
qed

lemma parse_counters_encoded:
  assumes "holds_at m p (encode_counters cs)" "list_all counter_ok cs"
  shows "parse_counters m p (length cs) = Some cs"
  using assms
proof (induction cs arbitrary: p)
  case (Cons ci cs)
  then have h: "holds_at m p (encode_counter 0 0 ci)" and ok: "counter_ok ci"
    and r: "holds_at m (p + of_nat (length (encode_counter 0 0 ci))) (encode_counters cs)"
    by (simp_all add: encode_counters_def)
  show ?case
    using parse_counter_encoded[OF h ok] Cons.IH[OF r] Cons.prems(2) by simp
qed (simp add: encode_counters_def)

lemma encode_counters_le:
  "list_all counter_ok cs \<Longrightarrow> length (encode_counters cs) \<le> length cs * 262199"
proof (induction cs)
  case (Cons ci cs)
  then show ?case
    using counter_strings_le[of ci] by (simp add: encode_counters_def encode_counter_length)
qed (simp add: encode_counters_def)

lemma group_strings_le: "group_ok g \<Longrightarrow> length (pad8 (group_strings g)) \<le> 131079"
  using pad8_le[of "group_strings g"]
  by (auto simp: group_strings_def group_ok_def dest!: string_field_le)

lemma encode_group_length:
  "length (encode_group b g) = 40 + length (pad8 (group_strings g)) + length (encode_counters (counterInfo g))"
  by (simp add: encode_group_def Let_def)

lemma encode_group_small:
  assumes "group_ok g"
  shows "length (encode_group b g) < 2 ^ 32"
proof -
  have "length (encode_counters (counterInfo g)) \<le> length (counterInfo g) * 262199"
    using assms by (intro encode_counters_le) (simp add: group_ok_def)
  also have "\<dots> \<le> 4096 * 262199" using assms by (intro mult_le_mono1) (simp add: group_ok_def)
  finally show ?thesis using group_strings_le[OF assms] by (simp add: encode_group_length)
qed

lemma parse_group_encoded:
  assumes h: "holds_at m p (encode_group b g)" and ok: "group_ok g"
  shows "parse_group m p = Some g"
proof -
  let ?first = "40 + length (pad8 (group_strings g))"
  have first: "p + ucast (read32 m (p + 4)) = p + of_nat ?first"
  proof -
    have "read32 m (p + 4) = of_nat ?first"
      using h by (simp add: encode_group_def Let_def) (simp add: holds_read32)
    moreover have "?first < 2 ^ 32" using group_strings_le[OF ok] by simp
    ultimately show ?thesis by (simp only: ucast_of_nat_small)
  qed
  have n: "unat (metricCount g) = length (counterInfo g)"
    using ok by (simp add: group_ok_def unat_of_nat take_bit_nat_eq_self)
  have "parse_counters m (p + of_nat ?first) (length (counterInfo g)) = Some (counterInfo g)"
    using h ok by (intro parse_counters_encoded)
      (simp_all add: encode_group_def Let_def group_ok_def ac_simps)
  then show ?thesis
    using ok first n group_fields[OF h]
    by (simp add: parse_group_def Let_def group_strings_def group_ok_def
        sizeof_group_descriptor_def sized_string_holds field_len_64)
qed

lemma next_group:
  assumes "holds_at m p (encode_group False g)" "group_ok g"
  shows "p + ucast (read32 m p) = p + of_nat (length (encode_group False g))" "read32 m p \<noteq> 0"
proof -
  have r: "read32 m p = of_nat (length (encode_group False g))"
    using assms by (simp add: encode_group_length) (simp add: encode_group_def Let_def holds_read32)
  then show "p + ucast (read32 m p) = p + of_nat (length (encode_group False g))"
    using encode_group_small[OF assms(2)] by (simp only: ucast_of_nat_small)
  have "unat (read32 m p) = length (encode_group False g)"
    unfolding r using encode_group_small[OF assms(2)] by (simp add: unat_of_nat take_bit_nat_eq_self)
  then show "read32 m p \<noteq> 0" by (auto simp: encode_group_length)
qed

text \<open>C27: The walk over the metric descriptors returns exactly the groups that the firmware laid out:
  whatever the memory, if it holds at the buffer's address the descriptors of a non-empty list of
  groups (names without a zero byte, sizes within the stated limits, every offset the distance to the
  next descriptor, zero in the last group), the walk ends and yields those groups with
  their counters.\<close>

theorem metric_descriptors_roundtrip:
  assumes "holds_at m p (encode_groups gs)" "gs \<noteq> []" "list_all group_ok gs"
  shows "parse_groups m p = Some gs"
  using assms
proof (induction gs arbitrary: p rule: encode_groups.induct)
  case (2 g)
  then have "read32 m p = 0" by (simp add: encode_group_def Let_def holds_read32)
  then show ?case using 2 by (subst parse_groups.simps) (simp add: parse_group_encoded)
next
  case (3 g g' gs)
  then have h: "holds_at m p (encode_group False g)" "group_ok g"
    and "holds_at m (p + of_nat (length (encode_group False g))) (encode_groups (g' # gs))"
    by simp_all
  then have "parse_groups m (p + ucast (read32 m p)) = Some (g' # gs)"
    using 3 next_group(1)[OF h] by simp
  then show ?case
    using parse_group_encoded[OF h] next_group(2)[OF h] by (subst parse_groups.simps) simp
qed simp

definition sample_groups :: "group_info list" where
  "sample_groups =
     [\<lparr>groupIndex = 2, metricGroupName = [76, 50], metricGroupDescription = [], domain = 1, metricCount = 2,
       samplingType = 3, counterInfo =
         [\<lparr>tier = 1, metricType = 1, valueType = 1, metricName = [72, 105, 116], metricDescription = [104],
           component = [], units = [110]\<rparr>,
          \<lparr>tier = 2, metricType = 4, valueType = 0, metricName = [], metricDescription = [],
           component = [67], units = []\<rparr>]\<rparr>,
      \<lparr>groupIndex = 5, metricGroupName = [], metricGroupDescription = [100], domain = 2, metricCount = 0,
       samplingType = 1, counterInfo = []\<rparr>]"

lemma write_holds:
  assumes "length bs < 2 ^ 64"
  shows "holds_at (write_bytes m p bs) p bs"
  unfolding holds_at_def
  by (rule nth_equalityI) (use assms in \<open>simp_all add: write_bytes_apply unat_of_nat take_bit_nat_eq_self\<close>)

lemma metric_descriptors_roundtrip_witness:
  "length (encode_groups sample_groups) = 208 \<and>
   parse_groups (write_bytes (\<lambda>_. 7) 4096 (encode_groups sample_groups)) 4096 = Some sample_groups"
proof
  show l: "length (encode_groups sample_groups) = 208" by code_simp
  have "holds_at (write_bytes (\<lambda>_. 7) 4096 (encode_groups sample_groups)) 4096 (encode_groups sample_groups)"
    by (rule write_holds) (simp add: l)
  moreover have "list_all group_ok sample_groups"
    by (simp add: sample_groups_def group_ok_def counter_ok_def string_ok_def)
  ultimately show "parse_groups (write_bytes (\<lambda>_. 7) 4096 (encode_groups sample_groups)) 4096 = Some sample_groups"
    by (intro metric_descriptors_roundtrip) (simp_all add: sample_groups_def)
qed

section \<open>The PCI address\<close>

definition hex_char :: "nat \<Rightarrow> char" where
  "hex_char d = char_of (if d < 10 then 48 + d else 87 + d)"

fun hex :: "nat \<Rightarrow> nat \<Rightarrow> string" where
  "hex 0 n = []"
| "hex (Suc k) n = hex k (n div 16) @ [hex_char (n mod 16)]"

lemma length_hex [simp]: "length (hex k n) = k"
  by (induction k arbitrary: n) auto

lemma digit_hex_char: "d < 16 \<Longrightarrow> digit_value 16 (hex_char d) = Some d"
  by (auto simp: digit_value_def hex_char_def Let_def)

lemma digits_append: "length (digits b s) = length s \<Longrightarrow> digits b (s @ t) = digits b s @ digits b t"
proof (induction s)
  case (Cons ch s)
  then show ?case by (cases "digit_value b ch") auto
qed simp

lemma digits_hex:
  "n < 16 ^ k \<Longrightarrow> length (digits 16 (hex k n)) = k \<and> foldl (\<lambda>n d. n * 16 + d) 0 (digits 16 (hex k n)) = n"
proof (induction k arbitrary: n)
  case (Suc k)
  then have "n div 16 < 16 ^ k" by (simp add: div_less_iff_less_mult mult.commute)
  then show ?case using Suc.IH[of "n div 16"] by (simp add: digits_append digit_hex_char)
qed simp

lemma parse_hex:
  assumes "n < 16 ^ k" "0 < k" "k \<le> 8"
  shows "parse_field old (hex k n) = of_nat n"
proof -
  have "(16 :: nat) ^ k \<le> 16 ^ 8" using assms(3) by (intro power_increasing) auto
  then have "n < 2 ^ 32" using assms(1) by simp
  moreover have "digits 16 (hex k n) \<noteq> []" using digits_hex[OF assms(1)] assms(2) by auto
  ultimately show ?thesis using digits_hex[OF assms(1)] by (simp add: parse_field_def from_chars_def Let_def)
qed

lemma find_sub_after:
  assumes "find_sub ''accel'' xs = None"
  shows "find_sub ''accel'' (xs @ ''/accel'' @ t) = Some (length xs + 1)"
  using assms
proof (induction xs)
  case (Cons ch xs)
  then have no: "take 5 (ch # xs) \<noteq> ''accel''" and s: "find_sub ''accel'' xs = None"
    by (auto simp: numeral_eq_Suc split: if_splits)
  have "take 5 (ch # xs @ ''/accel'' @ t) \<noteq> ''accel''"
  proof (cases "length xs \<ge> 4")
    case True
    then show ?thesis using no by simp
  next
    case False
    then have "(ch # xs @ ''/accel'' @ t) ! Suc (length xs) = CHR ''/''" by (simp add: nth_append)
    moreover have "take 5 (ch # xs @ ''/accel'' @ t) ! Suc (length xs) = (ch # xs @ ''/accel'' @ t) ! Suc (length xs)"
      using False by (intro nth_take) simp
    ultimately have "take 5 (ch # xs @ ''/accel'' @ t) ! Suc (length xs) = CHR ''/''" by metis
    moreover have "''accel'' ! Suc (length xs) \<noteq> CHR ''/''"
      using False by (auto simp: less_Suc_eq numeral_eq_Suc not_le)
    ultimately show ?thesis by metis
  qed
  then show ?case using Cons.IH[OF s] by (auto simp: numeral_eq_Suc)
qed simp

text \<open>The link of a device node: the path, the PCI address, the name of the node.\<close>

definition pci_link :: "string \<Rightarrow> nat \<Rightarrow> nat \<Rightarrow> nat \<Rightarrow> nat \<Rightarrow> string" where
  "pci_link path d b v f =
     path @ hex 4 d @ '':'' @ hex 2 b @ '':'' @ hex 2 v @ ''.'' @ hex 1 f"

text \<open>C35: \<open>getBDF\<close> reads back the PCI address of the device: for every path and every domain, bus,
  device and function number that fits its field, the address printed in the link of the device node
  before the component that starts with \<open>accel\<close> is returned, unless \<open>accel\<close> occurs earlier in
  the path.\<close>

theorem pci_address_roundtrip:
  assumes "d < 16 ^ 4" "b < 16 ^ 2" "v < 16 ^ 2" "f < 16"
    and "find_sub ''accel'' (pci_link path d b v f) = None"
  shows "getBDF_of_link (pci_link path d b v f @ ''/accel'' @ rest) old
    = Some (of_nat d, of_nat b, of_nat v, of_nat f)"
proof -
  let ?n = "length path"
  define lk where "lk = pci_link path d b v f @ ''/accel'' @ rest"
  have l: "length (pci_link path d b v f) = ?n + 12" by (simp add: pci_link_def)
  have p: "find_sub ''accel'' lk = Some (13 + ?n)"
    using find_sub_after[OF assms(5)] l by (simp add: lk_def)
  have f: "between ?n (4 + ?n) lk = hex 4 d" "between (5 + ?n) (7 + ?n) lk = hex 2 b"
    "between (8 + ?n) (10 + ?n) lk = hex 2 v" "between (11 + ?n) (12 + ?n) lk = hex 1 f"
    by (simp_all add: lk_def between_def pci_link_def)
  have "parse_field x (hex 1 f) = of_nat f" for x using assms(4) by (intro parse_hex) auto
  moreover have "lk \<noteq> []" by (simp add: lk_def)
  ultimately show ?thesis
    unfolding lk_def[symmetric] using p f assms(1-3)
    by (cases old) (simp add: getBDF_of_link_def parse_hex del: hex.simps One_nat_def)
qed

lemma pci_address_roundtrip_witness:
  "getBDF_of_link ''../../devices/pci0000:00/0000:00:0b.0/accel/accel0'' (7, 7, 7, 7) = Some (0, 0, 11, 0)"
proof -
  have "pci_link ''../../devices/pci0000:00/'' 0 0 11 0 = ''../../devices/pci0000:00/0000:00:0b.0''"
    "find_sub ''accel'' ''../../devices/pci0000:00/0000:00:0b.0'' = None"
    by code_simp+
  then show ?thesis
    using pci_address_roundtrip[of 0 0 11 0 "''../../devices/pci0000:00/''" "''/accel0''" "(7, 7, 7, 7)"] by simp
qed

end
