(* ===== verification/L0_Base.thy ===== *)
theory L0_Base
  imports Device_Queue
begin

text \<open>
  The state of the Level Zero layer (\<open>umd/level_zero_driver/source\<close>) for one \<open>Context\<close>: its
  \<open>VPUDeviceContext\<close>, and the objects the application sees as handles: event pools, command
  lists and command queues. A handle is a number, \<open>None\<close> for the null pointer; a handle of a
  destroyed object is outside of the model. Jobs are shared between command lists, queues, fences and
  (weakly) events, so they are kept in a store with a count of their owners. An operation may throw,
  and may not return (\<open>None\<close>) because submission polls; \<open>l0_ok\<close> is the source's
  ``if the result is not success, return it''.
\<close>

section \<open>Results\<close>

datatype ze_result =
    ZE_RESULT_SUCCESS | ZE_RESULT_NOT_READY | ZE_RESULT_ERROR_DEVICE_LOST
  | ZE_RESULT_ERROR_OUT_OF_HOST_MEMORY | ZE_RESULT_ERROR_OUT_OF_DEVICE_MEMORY
  | ZE_RESULT_ERROR_DEPENDENCY_UNAVAILABLE | ZE_RESULT_ERROR_NOT_AVAILABLE
  | ZE_RESULT_ERROR_UNINITIALIZED | ZE_RESULT_ERROR_UNSUPPORTED_FEATURE
  | ZE_RESULT_ERROR_INVALID_ARGUMENT | ZE_RESULT_ERROR_INVALID_NULL_HANDLE
  | ZE_RESULT_ERROR_INVALID_NULL_POINTER | ZE_RESULT_ERROR_INVALID_SIZE
  | ZE_RESULT_ERROR_INVALID_ENUMERATION | ZE_RESULT_ERROR_INVALID_SYNCHRONIZATION_OBJECT
  | ZE_RESULT_ERROR_HANDLE_OBJECT_IN_USE | ZE_RESULT_ERROR_UNKNOWN
  | ZE_RESULT_ERROR_UNSUPPORTED_SIZE | ZE_RESULT_ERROR_UNSUPPORTED_ALIGNMENT
  | ZE_RESULT_ERROR_UNSUPPORTED_ENUMERATION | ZE_RESULT_ERROR_UNSUPPORTED_VERSION
  | ZE_RESULT_ERROR_INVALID_NATIVE_BINARY | ZE_RESULT_ERROR_MODULE_BUILD_FAILURE

section \<open>Objects\<close>

text \<open>\<open>Event\<close>: \<open>eventState\<close> is the host address of its 64-bit state.\<close>

record event_obj =
  eventState :: u64
  eventBase :: buffer_object
  eventVpuAddr :: u64
  associatedJobs :: "nat list"
  msExpectedDataSize :: u64
  msGroupMask :: u64

record event_pool =
  pEventPool :: buffer_object
  pool_events :: "event_obj option list"

text \<open>\<open>CommandList\<close>; \<open>pCommandQueue\<close> is the queue of an \<open>ImmediateCommandList\<close>.\<close>

record cmd_list =
  isMutable :: bool
  vpuJob :: nat
  commandIdMap :: "nat \<Rightarrow> nat option"
  pCommandQueue :: "nat option"

record fence =
  signaled :: bool
  fenceJobs :: "nat list"

record cmd_queue =
  vpuQueue :: device_queue
  queueJobs :: "nat list"
  fences :: "(nat \<times> fence) list"
  next_fence :: nat
  synchronous :: bool
  cq_preemption :: "buffer_object option"

record ('h, 'k) l0 =
  dctx :: "'k dev_ctx"
  jobs :: "nat \<Rightarrow> 'h job"
  job_refs :: "nat \<Rightarrow> nat"
  next_job :: nat
  pools :: "nat \<Rightarrow> event_pool option"
  next_pool :: nat
  lists :: "nat \<Rightarrow> cmd_list option"
  next_list :: nat
  queues :: "nat \<Rightarrow> cmd_queue option"
  next_queue :: nat

text \<open>
  What a call takes from its environment: the memory behind a NOP structure, the time of its first
  clock reading, and the later readings, in rows: one row per submitted list.
\<close>

record l0_env =
  nop_tail :: bytes
  now :: int
  clock :: "nat \<Rightarrow> nat \<Rightarrow> int"

section \<open>Operations\<close>

type_synonym ('h, 'k, 'a) l0_op = "('h, 'k) l0 \<Rightarrow> ((exn + 'a) \<times> ('h, 'k) l0) option"

definition l0_ret :: "'a \<Rightarrow> ('h, 'k, 'a) l0_op" where
  "l0_ret x st = Some (Inr x, st)"

definition l0_bind :: "('h, 'k, 'a) l0_op \<Rightarrow> ('a \<Rightarrow> ('h, 'k, 'b) l0_op) \<Rightarrow> ('h, 'k, 'b) l0_op" where
  "l0_bind m f st =
     (case m st of None \<Rightarrow> None
      | Some (Inl e, st') \<Rightarrow> Some (Inl e, st')
      | Some (Inr x, st') \<Rightarrow> f x st')"

definition l0_ok :: "('h, 'k, ze_result) l0_op \<Rightarrow> ('h, 'k, ze_result) l0_op \<Rightarrow> ('h, 'k, ze_result) l0_op" where
  "l0_ok m k = l0_bind m (\<lambda>r. if r \<noteq> ZE_RESULT_SUCCESS then l0_ret r else k)"

definition l0_with :: "(('h, 'k) l0 \<Rightarrow> ('h, 'k, 'a) l0_op) \<Rightarrow> ('h, 'k, 'a) l0_op" where
  "l0_with f st = f st st"

definition l0_modify :: "(('h, 'k) l0 \<Rightarrow> ('h, 'k) l0) \<Rightarrow> ('h, 'k, unit) l0_op" where
  "l0_modify f st = Some (Inr (), f st)"

definition on_ctx :: "('k dev_ctx \<Rightarrow> 'a \<times> 'k dev_ctx) \<Rightarrow> ('h, 'k, 'a) l0_op" where
  "on_ctx f st = (case f (dctx st) of (x, c) \<Rightarrow> Some (Inr x, st\<lparr>dctx := c\<rparr>))"

definition on_ctx_throws :: "('k dev_ctx \<Rightarrow> (exn + 'a) \<times> 'k dev_ctx) \<Rightarrow> ('h, 'k, 'a) l0_op" where
  "on_ctx_throws f st = (case f (dctx st) of (x, c) \<Rightarrow> Some (x, st\<lparr>dctx := c\<rparr>))"

text \<open>An operation of a job.\<close>

definition on_job :: "nat \<Rightarrow> ('h job \<Rightarrow> 'k dev_ctx \<Rightarrow> ('a \<times> 'h job) \<times> 'k dev_ctx) \<Rightarrow> ('h, 'k, 'a) l0_op" where
  "on_job i f st = (case f (jobs st i) (dctx st) of ((x, j), c) \<Rightarrow> Some (Inr x, st\<lparr>jobs := (jobs st)(i := j), dctx := c\<rparr>))"

definition on_job_throws ::
  "nat \<Rightarrow> ('h job \<Rightarrow> 'k dev_ctx \<Rightarrow> ((exn + 'a) \<times> 'h job) \<times> 'k dev_ctx) \<Rightarrow> ('h, 'k, 'a) l0_op" where
  "on_job_throws i f st = (case f (jobs st i) (dctx st) of ((x, j), c) \<Rightarrow> Some (x, st\<lparr>jobs := (jobs st)(i := j), dctx := c\<rparr>))"

section \<open>The store of jobs\<close>

text \<open>\<open>make_shared<VPUJob>\<close>, with its first owner.\<close>

definition make_job :: "('h, 'k, nat) l0_op" where
  "make_job st =
     (let i = next_job st in
      Some (Inr i, st\<lparr>jobs := (jobs st)(i := new_job), job_refs := (job_refs st)(i := 1), next_job := i + 1\<rparr>))"

definition share_job :: "nat \<Rightarrow> ('h, 'k) l0 \<Rightarrow> ('h, 'k) l0" where
  "share_job i st = st\<lparr>job_refs := (job_refs st)(i := job_refs st i + 1)\<rparr>"

text \<open>The destructor of a job releases its commands, then its command buffers.\<close>

definition destroy_job :: "'h job \<Rightarrow> 'k dev_ctx \<Rightarrow> 'k dev_ctx" where
  "destroy_job j c =
     fold destroy_cmd_buffer (cmdBuffers j) (fold (\<lambda>cmd. drop_refs (bufferObjects cmd)) (commands j) c)"

definition release_job :: "nat \<Rightarrow> ('h, 'k) l0 \<Rightarrow> ('h, 'k) l0" where
  "release_job i st =
     (let st' = st\<lparr>job_refs := (job_refs st)(i := job_refs st i - 1)\<rparr>
      in if job_refs st' i = 0
         then st'\<lparr>dctx := destroy_job (jobs st i) (dctx st), jobs := (jobs st)(i := new_job)\<rparr> else st')"

definition release_jobs :: "nat list \<Rightarrow> ('h, 'k) l0 \<Rightarrow> ('h, 'k) l0" where
  "release_jobs is st = fold release_job is st"

text \<open>The state of a new \<open>Context\<close>.\<close>

definition new_l0 :: "'k dev_ctx \<Rightarrow> ('h, 'k) l0" where
  "new_l0 c = \<lparr>dctx = c, jobs = (\<lambda>_. new_job), job_refs = (\<lambda>_. 0), next_job = 0, pools = Map.empty, next_pool = 0,
     lists = Map.empty, next_list = 0, queues = Map.empty, next_queue = 0\<rparr>"

section \<open>Lemmas\<close>

lemma l0_ret_bind [simp]: "l0_bind (l0_ret x) f = f x"
  by (rule ext) (simp add: l0_bind_def l0_ret_def)

lemma l0_ret_ok [simp]: "l0_ok (l0_ret r) k = (if r \<noteq> ZE_RESULT_SUCCESS then l0_ret r else k)"
  by (simp add: l0_ok_def)

lemma l0_ret_apply [simp]: "l0_ret x st = Some (Inr x, st)"
  by (simp add: l0_ret_def)

lemma l0_with_apply [simp]: "l0_with f st = f st st"
  by (simp add: l0_with_def)

lemma l0_modify_apply [simp]: "l0_modify g st = Some (Inr (), g st)"
  by (simp add: l0_modify_def)

lemma l0_bind_Some: "m st = Some (Inr x, st') \<Longrightarrow> l0_bind m f st = f x st'"
  by (simp add: l0_bind_def)

lemma l0_bindE:
  assumes "l0_bind m f st = Some (Inr y, st2)"
  obtains x st1 where "m st = Some (Inr x, st1)" "f x st1 = Some (Inr y, st2)"
  using assms by (auto simp: l0_bind_def split: option.splits sum.splits)

lemma l0_ok_success:
  assumes "l0_ok m k st = Some (Inr ZE_RESULT_SUCCESS, st2)"
  obtains st1 where "m st = Some (Inr ZE_RESULT_SUCCESS, st1)" "k st1 = Some (Inr ZE_RESULT_SUCCESS, st2)"
  using assms by (auto simp: l0_ok_def elim!: l0_bindE split: if_splits)

lemma l0_ok_Some:
  "m st = Some (Inr r, st') \<Longrightarrow> l0_ok m k st = (if r \<noteq> ZE_RESULT_SUCCESS then Some (Inr r, st') else k st')"
  by (simp add: l0_ok_def l0_bind_def)

end
