(* ===== verification/L0_Event.thy ===== *)
theory L0_Event
  imports L0_Base
begin

text \<open>
  \<open>EventPool\<close> and \<open>Event\<close> (\<open>umd/level_zero_driver/source/eventpool.cpp\<close>, \<open>event.cpp\<close>):
  the pool's buffer object, the slots of its events, the state of an event in the memory it shares
  with the device, and the two ways of waiting for it. A handle of an event is its pool and index.
\<close>

section \<open>Handles\<close>

type_synonym event_handle = "nat \<times> nat"

definition find_event :: "('h, 'k) l0 \<Rightarrow> event_handle option \<Rightarrow> event_obj option" where
  "find_event st h =
     (case h of None \<Rightarrow> None
      | Some (p, i) \<Rightarrow>
          (case pools st p of None \<Rightarrow> None
           | Some ep \<Rightarrow> if i < length (pool_events ep) then pool_events ep ! i else None))"

definition put_event :: "event_handle \<Rightarrow> event_obj option \<Rightarrow> ('h, 'k) l0 \<Rightarrow> ('h, 'k) l0" where
  "put_event h e st =
     (case pools st (fst h) of None \<Rightarrow> st
      | Some ep \<Rightarrow> st\<lparr>pools := (pools st)(fst h \<mapsto> ep\<lparr>pool_events := (pool_events ep)[snd h := e]\<rparr>)\<rparr>)"

section \<open>The state of an event\<close>

definition event_value :: "event_obj \<Rightarrow> 'k dev_ctx \<Rightarrow> u64" where
  "event_value e c = read64 (mem (ctx_world c)) (eventState e)"

definition setEventState :: "event_obj \<Rightarrow> u64 \<Rightarrow> 'k dev_ctx \<Rightarrow> 'k dev_ctx" where
  "setEventState e v c =
     c\<lparr>ctx_world := (ctx_world c)\<lparr>mem := write_bytes (mem (ctx_world c)) (eventState e) (enc64 v)\<rparr>\<rparr>"

definition hostSignal :: "event_obj \<Rightarrow> 'k dev_ctx \<Rightarrow> ze_result \<times> 'k dev_ctx" where
  "hostSignal e c = (ZE_RESULT_SUCCESS, setEventState e STATE_HOST_SIGNAL c)"

definition event_reset :: "event_obj \<Rightarrow> 'k dev_ctx \<Rightarrow> ze_result \<times> 'k dev_ctx" where
  "event_reset e c = (ZE_RESULT_SUCCESS, setEventState e STATE_HOST_RESET c)"

definition setMetricTrackData :: "u64 \<Rightarrow> u64 \<Rightarrow> event_obj \<Rightarrow> event_obj" where
  "setMetricTrackData groupMask dataSize e = e\<lparr>msGroupMask := groupMask, msExpectedDataSize := dataSize\<rparr>"

definition associateJob :: "nat \<Rightarrow> event_obj \<Rightarrow> event_obj" where
  "associateJob j e = e\<lparr>associatedJobs := associatedJobs e @ [j]\<rparr>"

text \<open>\<open>MetricStreamer::getData\<close>; \<open>None\<close> for \<open>ZE_RESULT_ERROR_UNKNOWN\<close>.\<close>

definition getData :: "u64 \<Rightarrow> u64 \<Rightarrow> u64 \<Rightarrow> 'k dev_ctx \<Rightarrow> u64 option \<times> 'k dev_ctx" where
  "getData groupMask rawDataSize pRawData c =
     (case da_metricStreamerGetData (drvApi c) \<lparr>msd_metric_group_mask = groupMask,
             msd_buffer_ptr = pRawData, msd_buffer_size = rawDataSize, msd_data_size = 0\<rparr> (ctx_world c) of
        (Inl e, w) \<Rightarrow> (if e < 0 then None else Some 0, c\<lparr>ctx_world := w\<rparr>)
      | (Inr d, w) \<Rightarrow> (Some (msd_data_size d), c\<lparr>ctx_world := w\<rparr>))"

text \<open>The loop of \<open>trackMetricData\<close>; \<open>clk n\<close> is the clock at the end of round \<open>n\<close>.\<close>

partial_function (option) track_loop ::
  "(nat \<Rightarrow> int) \<Rightarrow> int \<Rightarrow> event_obj \<Rightarrow> nat \<Rightarrow> 'k dev_ctx \<Rightarrow> 'k dev_ctx option" where
  "track_loop clk timeOut e n c =
     (if event_value e c \<ge> STATE_HOST_SIGNAL then Some c
      else (case getData (msGroupMask e) 0 0 c of
              (None, c1) \<Rightarrow> Some c1
            | (Some dataSize, c1) \<Rightarrow>
                if dataSize \<ge> msExpectedDataSize e then Some (snd (hostSignal e c1))
                else if clk n < timeOut then track_loop clk timeOut e (Suc n) c1
                else Some c1))"

definition trackMetricData :: "(nat \<Rightarrow> int) \<Rightarrow> int \<Rightarrow> event_obj \<Rightarrow> 'k dev_ctx \<Rightarrow> 'k dev_ctx option" where
  "trackMetricData clk timeoutNs e c =
     (if msExpectedDataSize e = 0 \<or> msGroupMask e = 0 then Some c else track_loop clk timeoutNs e 0 c)"

definition state_result :: "u64 \<Rightarrow> ze_result" where
  "state_result v =
     (if v = STATE_EVENT_INITIAL then ZE_RESULT_NOT_READY
      else if v = STATE_HOST_RESET then ZE_RESULT_NOT_READY
      else if v = STATE_DEVICE_RESET then ZE_RESULT_NOT_READY
      else if v = STATE_HOST_SIGNAL then ZE_RESULT_SUCCESS
      else if v = STATE_DEVICE_SIGNAL then ZE_RESULT_SUCCESS
      else ZE_RESULT_ERROR_UNINITIALIZED)"

definition event_queryStatus ::
  "(nat \<Rightarrow> int) \<Rightarrow> int \<Rightarrow> event_obj \<Rightarrow> 'k dev_ctx \<Rightarrow> (ze_result \<times> 'k dev_ctx) option" where
  "event_queryStatus clk timeout e c =
     map_option (\<lambda>c'. (state_result (event_value e c'), c'))
       (if msExpectedDataSize e \<noteq> 0 \<and> event_value e c < STATE_DEVICE_SIGNAL
        then trackMetricData clk timeout e c else Some c)"

section \<open>Waiting on the host\<close>

text \<open>The command buffers of one job whose fence is the event.\<close>

fun wait_matching :: "u64 \<Rightarrow> int \<Rightarrow> cmd_buffer list \<Rightarrow> 'k dev_ctx \<Rightarrow> cmd_buffer list \<times> 'k dev_ctx" where
  "wait_matching a t [] c = ([], c)"
| "wait_matching a t (cb # bufs) c =
     (case (if syncFenceVpuAddr cb = a
            then (case Command_Buffer.waitForCompletion t cb c of ((_, cb1), c1) \<Rightarrow> (cb1, c1)) else (cb, c)) of
        (cb1, c1) \<Rightarrow> (case wait_matching a t bufs c1 of (bufs', c2) \<Rightarrow> (cb1 # bufs', c2)))"

definition wait_job :: "u64 \<Rightarrow> int \<Rightarrow> nat \<Rightarrow> ('h, 'k) l0 \<Rightarrow> ('h, 'k) l0" where
  "wait_job a t j st =
     (case wait_matching a t (cmdBuffers (jobs st j)) (dctx st) of
        (bufs, c) \<Rightarrow> st\<lparr>jobs := (jobs st)(j := (jobs st j)\<lparr>cmdBuffers := bufs\<rparr>), dctx := c\<rparr>)"

definition event_hostSynchronize :: "l0_env \<Rightarrow> u64 \<Rightarrow> event_handle \<Rightarrow> ('h, 'k, ze_result) l0_op" where
  "event_hostSynchronize env timeout h st =
     (case find_event st (Some h) of None \<Rightarrow> Some (Inr ZE_RESULT_ERROR_INVALID_NULL_HANDLE, st)
      | Some e \<Rightarrow>
          let t = getAbsoluteTimeoutNanoseconds (now env) timeout;
              alive = filter (\<lambda>j. job_refs st j \<noteq> 0) (associatedJobs e);
              e1 = e\<lparr>associatedJobs := alive\<rparr>;
              st1 = fold (wait_job (eventVpuAddr e) t) alive (put_event h (Some e1) st)
          in map_option (\<lambda>(r, c). (Inr r, st1\<lparr>dctx := c\<rparr>)) (event_queryStatus (clock env 0) t e1 (dctx st1)))"

section \<open>Pools\<close>

text \<open>\<open>sizeof(JsmEventData)\<close>.\<close>

definition event_size :: u64 where "event_size = 64"

text \<open>
  The pointers of the arguments: a null pointer is \<open>None\<close> or \<open>False\<close>; of the descriptor the
  number of events matters.
\<close>

definition EventPool_create ::
  "bool \<Rightarrow> u32 option \<Rightarrow> u32 \<Rightarrow> bool \<Rightarrow> bool \<Rightarrow> ('h, 'k, ze_result \<times> nat option) l0_op" where
  "EventPool_create hContext desc numDevices phDevices phEventPool st =
     (let fail = (\<lambda>r. Some (Inr (r, None), st)) in
      if \<not> hContext then fail ZE_RESULT_ERROR_INVALID_NULL_POINTER
      else (case desc of None \<Rightarrow> fail ZE_RESULT_ERROR_INVALID_NULL_POINTER
       | Some count \<Rightarrow>
           if numDevices > 0 \<and> \<not> phDevices then fail ZE_RESULT_ERROR_INVALID_SIZE
           else if \<not> phEventPool then fail ZE_RESULT_ERROR_INVALID_NULL_POINTER
           else if count = 0 then fail ZE_RESULT_ERROR_INVALID_SIZE
           else (case createUntrackedBufferObject (dctx st) (event_size * ucast count) CachedFw of
                   (Inl x, c) \<Rightarrow> Some (Inl x, st\<lparr>dctx := c\<rparr>)
                 | (Inr None, c) \<Rightarrow> Some (Inr (ZE_RESULT_ERROR_OUT_OF_HOST_MEMORY, None), st\<lparr>dctx := c\<rparr>)
                 | (Inr (Some bo), c) \<Rightarrow>
                     Some (Inr (ZE_RESULT_SUCCESS, Some (next_pool st)),
                       st\<lparr>dctx := c, next_pool := next_pool st + 1,
                          pools := (pools st)(next_pool st \<mapsto>
                            \<lparr>pEventPool = bo, pool_events = replicate (unat count) None\<rparr>)\<rparr>))))"

definition getEventCpuAddress :: "event_pool \<Rightarrow> nat \<Rightarrow> u64" where
  "getEventCpuAddress ep index = basePtr (pEventPool ep) + event_size * of_nat index"

definition createEvent :: "nat \<Rightarrow> u32 option \<Rightarrow> bool \<Rightarrow> ('h, 'k, ze_result \<times> event_handle option) l0_op" where
  "createEvent p desc phEvent st =
     (let fail = (\<lambda>r. Some (Inr (r, None), st)) in
      case pools st p of None \<Rightarrow> fail ZE_RESULT_ERROR_INVALID_NULL_HANDLE
      | Some ep \<Rightarrow>
          (case desc of None \<Rightarrow> fail ZE_RESULT_ERROR_INVALID_NULL_POINTER
           | Some idx \<Rightarrow>
               let index = unat idx in
               if \<not> phEvent then fail ZE_RESULT_ERROR_INVALID_NULL_POINTER
               else if index \<ge> length (pool_events ep) then fail ZE_RESULT_ERROR_INVALID_ARGUMENT
               else if pool_events ep ! index \<noteq> None then fail ZE_RESULT_ERROR_INVALID_ARGUMENT
               else let eventPtr = getEventCpuAddress ep index;
                        va = getVPUAddr (pEventPool ep) eventPtr in
                    if va = 0 then fail ZE_RESULT_ERROR_UNKNOWN
                    else let e = \<lparr>eventState = eventPtr, eventBase = pEventPool ep, eventVpuAddr = va,
                                  associatedJobs = [], msExpectedDataSize = 0, msGroupMask = 0\<rparr>;
                             c = setEventState e STATE_EVENT_INITIAL (take_ref (bo_id (pEventPool ep)) (dctx st))
                         in Some (Inr (ZE_RESULT_SUCCESS, Some (p, index)),
                              put_event (p, index) (Some e) (st\<lparr>dctx := c\<rparr>))))"

text \<open>\<open>destroyCb\<close> empties the slot; the event releases the pool's buffer.\<close>

definition event_destroy :: "event_handle \<Rightarrow> ('h, 'k, ze_result) l0_op" where
  "event_destroy h st =
     (case find_event st (Some h) of None \<Rightarrow> Some (Inr ZE_RESULT_ERROR_INVALID_NULL_HANDLE, st)
      | Some e \<Rightarrow> Some (Inr ZE_RESULT_SUCCESS, (put_event h None st)\<lparr>dctx := drop_ref (eventBase e) (dctx st)\<rparr>))"

text \<open>\<open>Context::removeObject\<close> on a pool: its events are destroyed, then its buffer is released.\<close>

definition EventPool_destroy :: "nat \<Rightarrow> ('h, 'k, ze_result) l0_op" where
  "EventPool_destroy p st =
     (case pools st p of None \<Rightarrow> Some (Inr ZE_RESULT_ERROR_INVALID_NULL_HANDLE, st)
      | Some ep \<Rightarrow>
          let c1 = removeExpiredInternalBuffers (dctx st);
              c2 = fold (\<lambda>oe c. case oe of None \<Rightarrow> c | Some e \<Rightarrow> drop_ref (eventBase e) c) (pool_events ep) c1
          in Some (Inr ZE_RESULT_SUCCESS,
               st\<lparr>dctx := drop_ref (pEventPool ep) c2, pools := (pools st)(p := None)\<rparr>))"

end
