(* ===== verification/L0_Metric.thy ===== *)
theory L0_Metric
  imports L0_Event Vpu_Device
begin

text \<open>
  Metrics (\<open>umd/level_zero_driver/source/metric.cpp\<close>, \<open>metric_query.cpp\<close>,
  \<open>metric_streamer.cpp\<close>, and the loading of the groups in \<open>device.cpp\<close>): the groups of a device
  and their activation, the conversion of raw samples, the pools of metric queries and the metric
  streamer. A group is named by its place in the device's list. A typed value is the type and the
  eight bytes of the union; the floating-point types are kept as their IEEE bit patterns.
\<close>

section \<open>Metrics and groups\<close>

datatype value_type =
  VT_UINT32 | VT_UINT64 | VT_FLOAT32 | VT_FLOAT64 | VT_BOOL8 | VT_FORCE_UINT32

definition getValueType :: "u32 \<Rightarrow> value_type" where
  "getValueType v =
     (if v = 0 then VT_UINT32 else if v = 1 then VT_UINT64 else if v = 2 then VT_FLOAT32
      else if v = 3 then VT_FLOAT64 else if v = 4 then VT_BOOL8 else VT_FORCE_UINT32)"

definition getMetricValueSize :: "u32 \<Rightarrow> u64" where
  "getMetricValueSize v =
     (if v = 0 \<or> v = 2 then 4 else if v = 1 \<or> v = 3 then 8 else if v = 4 then 1 else 0)"

record metric_group =
  activated :: bool
  mg_domain :: u32
  allocationSize :: u64
  metrics :: "value_type list"
  mg_groupIndex :: u32
  numberOfMetricGroups :: u64

text \<open>One round of \<open>loadMetricGroupsInfo\<close>; names and descriptions are left out.\<close>

definition load_group :: "u64 \<Rightarrow> group_info \<Rightarrow> metric_group" where
  "load_group n gi = \<lparr>activated = False, mg_domain = domain gi,
     allocationSize = sum_list (map (getMetricValueSize \<circ> valueType) (counterInfo gi)),
     metrics = map (getValueType \<circ> valueType) (counterInfo gi),
     mg_groupIndex = groupIndex gi, numberOfMetricGroups = n\<rparr>"

definition loadMetricGroupsInfo :: "group_info list \<Rightarrow> metric_group list" where
  "loadMetricGroupsInfo gis = map (load_group (of_nat (length gis))) gis"

text \<open>
  \<open>getMetric\<close>: the count given, and whether the array of handles is null; the result is the
  new count and the places of the metrics whose handles are stored.
\<close>

definition getMetric :: "metric_group \<Rightarrow> u32 option \<Rightarrow> bool \<Rightarrow> exn + ze_result \<times> u32 \<times> nat list" where
  "getMetric g pCount phMetrics =
     (case pCount of None \<Rightarrow> Inr (ZE_RESULT_ERROR_INVALID_NULL_POINTER, 0, [])
      | Some cnt \<Rightarrow>
          let n = of_nat (length (metrics g)) :: u64 in
          if cnt = 0 then (case safe_cast_u32 n of Inl e \<Rightarrow> Inl e | Inr k \<Rightarrow> Inr (ZE_RESULT_SUCCESS, k, []))
          else (case (if ucast cnt > n then safe_cast_u32 n else Inr cnt) of
                  Inl e \<Rightarrow> Inl e
                | Inr k \<Rightarrow> Inr (ZE_RESULT_SUCCESS, k, if phMetrics then [0..<unat k] else [])))"

section \<open>Typed values\<close>

record typed_value =
  tv_type :: value_type
  tv_value :: u64

definition zero_value :: typed_value where "zero_value = \<lparr>tv_type = VT_UINT32, tv_value = 0\<rparr>"

definition value_width :: "value_type \<Rightarrow> nat" where
  "value_width ty =
     (case ty of VT_UINT32 \<Rightarrow> 32 | VT_FLOAT32 \<Rightarrow> 32 | VT_UINT64 \<Rightarrow> 64 | VT_FLOAT64 \<Rightarrow> 64
      | VT_BOOL8 \<Rightarrow> 8 | VT_FORCE_UINT32 \<Rightarrow> 0)"

text \<open>The member of the union that a type selects, as a number, and its assignment.\<close>

definition union_get :: "value_type \<Rightarrow> u64 \<Rightarrow> u64" where
  "union_get ty u = take_bit (value_width ty) u"

definition union_set :: "value_type \<Rightarrow> u64 \<Rightarrow> u64 \<Rightarrow> u64" where
  "union_set ty x u = take_bit (value_width ty) x OR (u AND NOT (mask (value_width ty)))"

definition read_member :: "value_type \<Rightarrow> memory \<Rightarrow> u64 \<Rightarrow> u64" where
  "read_member ty m p = take_bit (value_width ty) (read64 m p)"

text \<open>\<open><\<close> on the members; a NaN is not less than anything, and the two zeros are equal.\<close>

definition float_less :: "nat \<Rightarrow> nat \<Rightarrow> u64 \<Rightarrow> u64 \<Rightarrow> bool" where
  "float_less w expo a b =
     (let mag = (\<lambda>x. uint (take_bit (w - 1) x));
          nan = (\<lambda>x. mag x > (2 ^ expo - 1) * 2 ^ (w - 1 - expo));
          key = (\<lambda>x. if bit x (w - 1) then - mag x else mag x)
      in \<not> nan a \<and> \<not> nan b \<and> key a < key b)"

definition member_less :: "value_type \<Rightarrow> u64 \<Rightarrow> u64 \<Rightarrow> bool" where
  "member_less ty a b =
     (case ty of VT_FLOAT32 \<Rightarrow> float_less 32 8 a b | VT_FLOAT64 \<Rightarrow> float_less 64 11 a b | _ \<Rightarrow> a < b)"

definition member_max :: "value_type \<Rightarrow> u64 \<Rightarrow> u64 \<Rightarrow> u64" where
  "member_max ty a b = (if member_less ty a b then b else a)"

section \<open>Calculation\<close>

text \<open>
  The loop of \<open>calculateMetricValues\<close> over the values \<open>i\<close> to \<open>i + n\<close>; \<open>p\<close> is
  \<open>pRawData\<close>, which advances by the allocation size divided by the number of metrics.
\<close>

definition raw_stride :: "metric_group \<Rightarrow> u64" where
  "raw_stride g = allocationSize g div of_nat (length (metrics g))"

fun values_loop :: "metric_group \<Rightarrow> memory \<Rightarrow> u64 \<Rightarrow> nat \<Rightarrow> nat \<Rightarrow> typed_value list \<Rightarrow> typed_value list" where
  "values_loop g m p i 0 vals = vals"
| "values_loop g m p i (Suc n) vals =
     (let ty = metrics g ! (i mod length (metrics g));
          v = \<lparr>tv_type = ty, tv_value = union_set ty (read_member ty m p) (tv_value (vals ! i))\<rparr>
      in values_loop g m (p + raw_stride g) (Suc i) n (vals[i := v]))"

definition calculateMetricValues ::
  "metric_group \<Rightarrow> u64 \<Rightarrow> memory \<Rightarrow> u64 \<Rightarrow> u32 \<Rightarrow> typed_value list \<Rightarrow> exn + u32 \<times> typed_value list" where
  "calculateMetricValues g rawDataSize m pRawData cnt vals =
     (let sampleCount = rawDataSize div allocationSize g in
      case safe_cast_u32 (of_nat (length (metrics g))) of
        Inl e \<Rightarrow> Inl e
      | Inr mcount \<Rightarrow>
          let metricValueCount = sampleCount * ucast mcount in
          if cnt = 0 then Inr (ucast metricValueCount, vals)
          else let cnt' = min cnt (ucast metricValueCount)
               in Inr (cnt', values_loop g m pRawData 0 (unat cnt') vals))"

text \<open>The second loop of \<open>calculateMaxMetricValues\<close>: its index is a \<open>uint8_t\<close>.\<close>

definition max_step :: "metric_group \<Rightarrow> typed_value list \<Rightarrow> nat \<Rightarrow> typed_value list \<Rightarrow> typed_value list" where
  "max_step g vals i out =
     (let k = i mod length (metrics g); ty = metrics g ! k; u = tv_value (out ! k);
          x = member_max ty (union_get ty u) (union_get ty (tv_value (vals ! i)))
      in out[k := \<lparr>tv_type = ty, tv_value = union_set ty x u\<rparr>])"

partial_function (option) max_loop ::
  "metric_group \<Rightarrow> typed_value list \<Rightarrow> u32 \<Rightarrow> u8 \<Rightarrow> typed_value list \<Rightarrow> typed_value list option" where
  "max_loop g vals cnt i out =
     (if (ucast i :: u32) < cnt then max_loop g vals cnt (i + 1) (max_step g vals (unat i) out) else Some out)"

definition calculateMaxMetricValues ::
  "metric_group \<Rightarrow> u64 \<Rightarrow> memory \<Rightarrow> u64 \<Rightarrow> u32 \<Rightarrow> typed_value list
     \<Rightarrow> (exn + ze_result \<times> u32 \<times> typed_value list) option" where
  "calculateMaxMetricValues g rawDataSize m pRawData cnt out =
     (case safe_cast_u32 (of_nat (length (metrics g))) of
        Inl e \<Rightarrow> Some (Inl e)
      | Inr mcount \<Rightarrow>
          if cnt = 0 then Some (Inr (ZE_RESULT_SUCCESS, mcount, out))
          else if cnt \<noteq> mcount then Some (Inr (ZE_RESULT_ERROR_INVALID_SIZE, cnt, out))
          else (case calculateMetricValues g rawDataSize m pRawData 0 [] of
                  Inl e \<Rightarrow> Some (Inl e)
                | Inr (n, _) \<Rightarrow>
                    (case calculateMetricValues g rawDataSize m pRawData n (replicate (unat n) zero_value) of
                       Inl e \<Rightarrow> Some (Inl e)
                     | Inr (n', vals) \<Rightarrow>
                         map_option (\<lambda>out'. Inr (ZE_RESULT_SUCCESS, cnt, out')) (max_loop g vals n' 0 out))))"

datatype calculation_type = Calc_metric_values | Calc_max_metric_values | Calc_other

definition calculateMetricValues_typed ::
  "metric_group \<Rightarrow> calculation_type \<Rightarrow> u64 \<Rightarrow> memory \<Rightarrow> u64 \<Rightarrow> u32 option \<Rightarrow> typed_value list
     \<Rightarrow> (exn + ze_result \<times> u32 \<times> typed_value list) option" where
  "calculateMetricValues_typed g ty rawDataSize m pRawData pCount vals =
     (if pRawData = 0 then Some (Inr (ZE_RESULT_ERROR_INVALID_NULL_POINTER, 0, vals))
      else (case pCount of
              None \<Rightarrow> Some (Inr (ZE_RESULT_ERROR_INVALID_NULL_POINTER, 0, vals))
            | Some cnt \<Rightarrow>
                (case ty of
                   Calc_other \<Rightarrow> Some (Inr (ZE_RESULT_ERROR_INVALID_ENUMERATION, cnt, vals))
                 | Calc_metric_values \<Rightarrow>
                     Some (case calculateMetricValues g rawDataSize m pRawData cnt vals of
                             Inl e \<Rightarrow> Inl e | Inr (n, vals') \<Rightarrow> Inr (ZE_RESULT_SUCCESS, n, vals'))
                 | Calc_max_metric_values \<Rightarrow> calculateMaxMetricValues g rawDataSize m pRawData cnt vals)))"

section \<open>Activation\<close>

text \<open>
  The device's groups and the container \<open>activatedMetricGroups\<close>: domain, group and the file
  descriptor of the context that activated it.
\<close>

record metric_device =
  metricsLoaded :: bool
  metricGroups :: "metric_group list"
  activatedMetricGroups :: "(u32 \<times> nat \<times> int) list"

definition setActivationStatus :: "nat \<Rightarrow> bool \<Rightarrow> metric_device \<Rightarrow> metric_device" where
  "setActivationStatus g b d = d\<lparr>metricGroups := (metricGroups d)[g := (metricGroups d ! g)\<lparr>activated := b\<rparr>]\<rparr>"

definition deactivateMetricGroups :: "int \<Rightarrow> metric_device \<Rightarrow> metric_device" where
  "deactivateMetricGroups vpuFd d =
     (fold (\<lambda>(_, g, fd) d. if fd = vpuFd then setActivationStatus g False d else d) (activatedMetricGroups d) d)
       \<lparr>activatedMetricGroups := filter (\<lambda>(_, _, fd). fd \<noteq> vpuFd) (activatedMetricGroups d)\<rparr>"

definition activateMetricGroup :: "int \<Rightarrow> nat \<Rightarrow> metric_device \<Rightarrow> bool \<times> metric_device" where
  "activateMetricGroup vpuFd g d =
     (if g \<ge> length (metricGroups d) then (False, d)
      else if activated (metricGroups d ! g) then (False, d)
      else let dmn = mg_domain (metricGroups d ! g) in
           (case find (\<lambda>(x, _). x = dmn) (activatedMetricGroups d) of
              Some (_, g', fd) \<Rightarrow> (g' = g \<and> fd = vpuFd, d)
            | None \<Rightarrow>
                (True, (setActivationStatus g True d)
                   \<lparr>activatedMetricGroups := activatedMetricGroups d @ [(dmn, g, vpuFd)]\<rparr>)))"

fun activate_all :: "int \<Rightarrow> nat list \<Rightarrow> ze_result \<Rightarrow> metric_device \<Rightarrow> ze_result \<times> metric_device" where
  "activate_all vpuFd [] r d = (r, d)"
| "activate_all vpuFd (g # gs) r d =
     (case activateMetricGroup vpuFd g d of
        (ok, d') \<Rightarrow> activate_all vpuFd gs (if ok then r else ZE_RESULT_ERROR_INVALID_ARGUMENT) d')"

text \<open>\<open>phMetricGroups\<close> is \<open>None\<close> for the null pointer, else the first \<open>count\<close> handles.\<close>

definition activateMetricGroups ::
  "int \<Rightarrow> u32 \<Rightarrow> nat list option \<Rightarrow> metric_device \<Rightarrow> ze_result \<times> metric_device" where
  "activateMetricGroups vpuFd cnt phMetricGroups d =
     (if \<not> metricsLoaded d then (ZE_RESULT_ERROR_UNINITIALIZED, d)
      else if cnt > 0 \<and> phMetricGroups = None then (ZE_RESULT_ERROR_INVALID_SIZE, d)
      else activate_all vpuFd (take (unat cnt) (case phMetricGroups of None \<Rightarrow> [] | Some gs \<Rightarrow> gs))
             ZE_RESULT_SUCCESS (deactivateMetricGroups vpuFd d))"

section \<open>Metric queries\<close>

record metric_query =
  mq_group :: nat
  addrTablePtr :: u64
  dataPtr :: u64
  metricPoolBo :: buffer_object
  metricGroupMask :: u32

record metric_query_pool =
  pool_group :: nat
  metricQueries :: "metric_query option list"
  pQueryPoolBuffer :: buffer_object

definition metric_table_size :: "metric_group \<Rightarrow> u64" where
  "metric_table_size g = getFwDataCacheAlign (8 * numberOfMetricGroups g)"

definition getMetricQueryAddrTableOffset :: "u64 \<Rightarrow> metric_group \<Rightarrow> u64" where
  "getMetricQueryAddrTableOffset index g =
     index * getFwDataCacheAlign (metric_table_size g + allocationSize g)"

definition getMetricQueryDataOffset :: "u64 \<Rightarrow> metric_group \<Rightarrow> u64" where
  "getMetricQueryDataOffset index g = getMetricQueryAddrTableOffset index g + metric_table_size g"

definition write_mem :: "u64 \<Rightarrow> bytes \<Rightarrow> 'k dev_ctx \<Rightarrow> 'k dev_ctx" where
  "write_mem p bs c = c\<lparr>ctx_world := (ctx_world c)\<lparr>mem := write_bytes (mem (ctx_world c)) p bs\<rparr>\<rparr>"

text \<open>The constructor of the pool; a failure to allocate is the error it throws.\<close>

definition new_metric_query_pool ::
  "metric_device \<Rightarrow> nat \<Rightarrow> u64 \<Rightarrow> 'k dev_ctx \<Rightarrow> (exn + ze_result + metric_query_pool) \<times> 'k dev_ctx" where
  "new_metric_query_pool d g poolSize c =
     (let bufferSize = getMetricQueryAddrTableOffset poolSize (metricGroups d ! g) in
      case createUntrackedBufferObject c bufferSize CachedFw of
        (Inl e, c1) \<Rightarrow> (Inl e, c1)
      | (Inr None, c1) \<Rightarrow> (Inr (Inl ZE_RESULT_ERROR_OUT_OF_HOST_MEMORY), c1)
      | (Inr (Some bo), c1) \<Rightarrow>
          (Inr (Inr \<lparr>pool_group = g, metricQueries = replicate (unat poolSize) None, pQueryPoolBuffer = bo\<rparr>),
           write_mem (basePtr bo) (replicate (unat bufferSize) 0) c1))"

text \<open>
  \<open>Context::createMetricQueryPool\<close>: the handles of device and group, and of the descriptor
  whether its type is known and its count.
\<close>

definition createMetricQueryPool ::
  "metric_device \<Rightarrow> bool \<Rightarrow> nat option \<Rightarrow> (bool \<times> u32) option \<Rightarrow> bool \<Rightarrow> 'k dev_ctx
     \<Rightarrow> (exn + ze_result \<times> metric_query_pool option) \<times> 'k dev_ctx" where
  "createMetricQueryPool d hDevice hMetricGroup desc phPool c =
     (let fail = (\<lambda>r. (Inr (r, None), c)) in
      case (if hDevice then hMetricGroup else None) of
        None \<Rightarrow> fail ZE_RESULT_ERROR_INVALID_NULL_HANDLE
      | Some g \<Rightarrow>
          (case (if phPool then desc else None) of
             None \<Rightarrow> fail ZE_RESULT_ERROR_INVALID_NULL_POINTER
           | Some (type_ok, cnt) \<Rightarrow>
               if \<not> type_ok then fail ZE_RESULT_ERROR_INVALID_ENUMERATION
               else if cnt = 0 then fail ZE_RESULT_ERROR_INVALID_SIZE
               else if \<not> metricsLoaded d then fail ZE_RESULT_ERROR_UNINITIALIZED
               else if \<not> activated (metricGroups d ! g) then fail ZE_RESULT_NOT_READY
               else (case new_metric_query_pool d g (ucast cnt) c of
                       (Inl e, c1) \<Rightarrow> (Inl e, c1)
                     | (Inr (Inl r), c1) \<Rightarrow> (Inr (r, None), c1)
                     | (Inr (Inr p), c1) \<Rightarrow> (Inr (ZE_RESULT_SUCCESS, Some p), c1))))"

text \<open>\<open>createMetricQuery\<close>: the query is the slot at \<open>index\<close>.\<close>

definition createMetricQuery ::
  "metric_device \<Rightarrow> u32 \<Rightarrow> bool \<Rightarrow> metric_query_pool \<Rightarrow> 'k dev_ctx
     \<Rightarrow> (ze_result \<times> metric_query_pool) \<times> 'k dev_ctx" where
  "createMetricQuery d index phMetricQuery p c =
     (let fail = (\<lambda>r. ((r, p), c)); g = metricGroups d ! pool_group p in
      if \<not> phMetricQuery then fail ZE_RESULT_ERROR_INVALID_NULL_POINTER
      else if \<not> activated g then fail ZE_RESULT_ERROR_DEPENDENCY_UNAVAILABLE
      else if unat index \<ge> length (metricQueries p) then fail ZE_RESULT_ERROR_INVALID_ARGUMENT
      else if metricQueries p ! unat index \<noteq> None then fail ZE_RESULT_ERROR_HANDLE_OBJECT_IN_USE
      else let bo = pQueryPoolBuffer p;
               table = basePtr bo + getMetricQueryAddrTableOffset (ucast index) g;
               data = basePtr bo + getMetricQueryDataOffset (ucast index) g;
               q = \<lparr>mq_group = pool_group p, addrTablePtr = table, dataPtr = data, metricPoolBo = bo,
                    metricGroupMask = push_bit (unat (mg_groupIndex g)) 1\<rparr>
           in ((ZE_RESULT_SUCCESS, p\<lparr>metricQueries := (metricQueries p)[unat index := Some q]\<rparr>),
               take_ref (bo_id bo)
                 (write_mem (table + 8 * ucast (mg_groupIndex g)) (enc64 (getVPUAddr bo data)) c)))"

definition MetricQuery_destroy :: "nat \<Rightarrow> metric_query_pool \<Rightarrow> 'k dev_ctx \<Rightarrow> (ze_result \<times> metric_query_pool) \<times> 'k dev_ctx" where
  "MetricQuery_destroy index p c =
     ((ZE_RESULT_SUCCESS, p\<lparr>metricQueries := (metricQueries p)[index := None]\<rparr>),
      (case metricQueries p ! index of None \<Rightarrow> c | Some q \<Rightarrow> drop_ref (metricPoolBo q) c))"

text \<open>\<open>MetricQuery::getData\<close>: the new size, and the copy to \<open>pRawData\<close>.\<close>

definition MetricQuery_getData ::
  "metric_device \<Rightarrow> metric_query \<Rightarrow> u64 option \<Rightarrow> u64 \<Rightarrow> 'k dev_ctx \<Rightarrow> (ze_result \<times> u64) \<times> 'k dev_ctx" where
  "MetricQuery_getData d q pRawDataSize pRawData c =
     (case pRawDataSize of None \<Rightarrow> ((ZE_RESULT_ERROR_INVALID_NULL_POINTER, 0), c)
      | Some sz \<Rightarrow>
          let dataSize = allocationSize (metricGroups d ! mq_group q) in
          if sz = 0 then ((ZE_RESULT_SUCCESS, dataSize), c)
          else let sz' = (if sz > dataSize then dataSize else sz) in
               if pRawData \<noteq> 0
               then (if dataSize > sz' then ((ZE_RESULT_ERROR_UNKNOWN, sz'), c)
                     else ((ZE_RESULT_SUCCESS, sz'),
                           write_mem pRawData (read_bytes (mem (ctx_world c)) (dataPtr q) (unat sz')) c))
               else ((ZE_RESULT_SUCCESS, sz'), c))"

definition MetricQuery_reset :: "metric_device \<Rightarrow> metric_query \<Rightarrow> 'k dev_ctx \<Rightarrow> ze_result \<times> 'k dev_ctx" where
  "MetricQuery_reset d q c =
     (ZE_RESULT_SUCCESS,
      write_mem (dataPtr q) (replicate (unat (allocationSize (metricGroups d ! mq_group q))) 0) c)"

text \<open>\<open>MetricQueryPool::destroy\<close>: a pool with a query left stays.\<close>

definition MetricQueryPool_destroy ::
  "metric_query_pool \<Rightarrow> 'k dev_ctx \<Rightarrow> (ze_result \<times> metric_query_pool option) \<times> 'k dev_ctx" where
  "MetricQueryPool_destroy p c =
     (if list_ex (\<lambda>q. q \<noteq> None) (metricQueries p) then ((ZE_RESULT_ERROR_HANDLE_OBJECT_IN_USE, Some p), c)
      else ((ZE_RESULT_SUCCESS, None), drop_ref (pQueryPoolBuffer p) (removeExpiredInternalBuffers c)))"

section \<open>The metric streamer\<close>

record metric_streamer =
  ms_group :: nat
  sampleSize :: u64
  actualBufferSize :: u64

definition MIN_SAMPLING_RATE_NS :: u32 where "MIN_SAMPLING_RATE_NS = 1000000"
definition MIN_STREAMER_NOTIFY_FREQUENCY :: u32 where "MIN_STREAMER_NOTIFY_FREQUENCY = 1024"
definition ENOMEM :: int where "ENOMEM = 12"

text \<open>\<open>0x1 << index\<close> is a shift of an \<open>int\<close>, which is then extended to 64 bits.\<close>

definition int_shift_mask :: "u32 \<Rightarrow> u64" where
  "int_shift_mask index = scast (push_bit (unat index) 1 :: 32 word)"

definition group_mask_64 :: "u32 \<Rightarrow> u64" where
  "group_mask_64 index = push_bit (unat index) 1"

text \<open>
  \<open>Context::metricStreamerOpen\<close> and the constructor. Of the descriptor: the sampling period
  and the number of reports between notifications; the last result is the notification event.
\<close>

definition metricStreamerOpen ::
  "metric_device \<Rightarrow> bool \<Rightarrow> nat option \<Rightarrow> (u32 \<times> u32) option \<Rightarrow> event_obj option \<Rightarrow> bool \<Rightarrow> 'k dev_ctx
     \<Rightarrow> (ze_result \<times> metric_streamer option \<times> event_obj option) \<times> 'k dev_ctx" where
  "metricStreamerOpen d hDevice hMetricGroup desc notify phMetricStreamer c =
     (let fail = (\<lambda>r c. ((r, None, notify), c)) in
      case (if hDevice then hMetricGroup else None) of
        None \<Rightarrow> fail ZE_RESULT_ERROR_INVALID_NULL_HANDLE c
      | Some g \<Rightarrow>
          (case (if phMetricStreamer then desc else None) of
             None \<Rightarrow> fail ZE_RESULT_ERROR_INVALID_NULL_POINTER c
           | Some (period, everyN) \<Rightarrow>
               if \<not> metricsLoaded d then fail ZE_RESULT_ERROR_UNINITIALIZED c
               else if \<not> activated (metricGroups d ! g) then fail ZE_RESULT_NOT_READY c
               else if period < MIN_SAMPLING_RATE_NS then fail ZE_RESULT_ERROR_INVALID_ARGUMENT c
               else let index = mg_groupIndex (metricGroups d ! g) in
                    (case da_metricStreamerStart (drvApi c)
                            \<lparr>mss_metric_group_mask = int_shift_mask index, mss_sampling_period_ns = ucast period,
                             mss_read_period_samples = max everyN MIN_STREAMER_NOTIFY_FREQUENCY,
                             mss_sample_size = 0, mss_max_data_size = 0\<rparr> (ctx_world c) of
                       (r, w) \<Rightarrow>
                         let c1 = c\<lparr>ctx_world := w\<rparr>;
                             size_of = (case r of Inl e \<Rightarrow> 0 | Inr a \<Rightarrow> ucast (mss_sample_size a)) in
                         if (case r of Inl e \<Rightarrow> e < 0 | Inr a \<Rightarrow> False)
                         then fail (if errno w = ENOMEM then ZE_RESULT_ERROR_OUT_OF_DEVICE_MEMORY
                                    else ZE_RESULT_ERROR_UNKNOWN) c1
                         else ((ZE_RESULT_SUCCESS,
                                Some \<lparr>ms_group = g, sampleSize = size_of, actualBufferSize = 0\<rparr>,
                                (case notify of None \<Rightarrow> None
                                 | Some e \<Rightarrow>
                                     if everyN \<noteq> 0
                                     then Some (setMetricTrackData (group_mask_64 index) (size_of * ucast everyN) e)
                                     else Some e)), c1))))"

text \<open>\<open>close\<close> and the destructor.\<close>

definition metricStreamerClose :: "metric_device \<Rightarrow> metric_streamer \<Rightarrow> 'k dev_ctx \<Rightarrow> ze_result \<times> 'k dev_ctx" where
  "metricStreamerClose d ms c =
     (let c1 = removeExpiredInternalBuffers c in
      (ZE_RESULT_SUCCESS,
       c1\<lparr>ctx_world := snd (da_metricStreamerStop (drvApi c1)
             (group_mask_64 (mg_groupIndex (metricGroups d ! ms_group ms))) (ctx_world c1))\<rparr>))"

definition metricStreamerReadData ::
  "metric_device \<Rightarrow> u32 \<Rightarrow> u64 option \<Rightarrow> u64 \<Rightarrow> metric_streamer \<Rightarrow> 'k dev_ctx
     \<Rightarrow> (ze_result \<times> u64 \<times> metric_streamer) \<times> 'k dev_ctx" where
  "metricStreamerReadData d maxReportCount pRawDataSize pRawData ms c =
     (let gmask = group_mask_64 (mg_groupIndex (metricGroups d ! ms_group ms)) in
      case pRawDataSize of
        None \<Rightarrow> ((ZE_RESULT_ERROR_INVALID_NULL_POINTER, 0, ms), c)
      | Some sz \<Rightarrow>
          if sz = 0
          then (case getData gmask 0 0 c of
                  (None, c1) \<Rightarrow> ((ZE_RESULT_ERROR_UNKNOWN, sz, ms), c1)
                | (Some n, c1) \<Rightarrow> ((ZE_RESULT_SUCCESS, n, ms\<lparr>actualBufferSize := n\<rparr>), c1))
          else let sz1 = (if sz > actualBufferSize ms then actualBufferSize ms else sz);
                   sz2 = min sz1 (ucast maxReportCount * sampleSize ms)
               in if pRawData \<noteq> 0
                  then (case getData gmask sz2 pRawData c of
                          (None, c1) \<Rightarrow> ((ZE_RESULT_ERROR_UNKNOWN, sz2, ms), c1)
                        | (Some n, c1) \<Rightarrow> ((ZE_RESULT_SUCCESS, n, ms), c1))
                  else ((ZE_RESULT_SUCCESS, sz2, ms), c))"

end
