(* ===== verification/L0_Metric_Props.thy ===== *)
theory L0_Metric_Props
  imports L0_Metric
begin

text \<open>
  Properties of the metrics: where each value of the raw data is read, when the maxima are computed,
  and who owns an activated group.
\<close>

section \<open>Values\<close>

lemma union_get_set [simp]: "union_get ty (union_set ty x u) = union_get ty x"
  by (rule bit_eqI) (auto simp: union_get_def union_set_def bit_simps)

lemma union_get_read: "union_get ty (read_member ty m p) = read_member ty m p"
  by (simp add: union_get_def read_member_def)

lemma values_loop_length [simp]: "length (values_loop g m p i n vals) = length vals"
  by (induction n arbitrary: p i vals) (simp_all add: Let_def)

lemma values_loop_nth:
  "k < length vals \<Longrightarrow>
   values_loop g m p i n vals ! k =
     (if i \<le> k \<and> k < i + n
      then (let ty = metrics g ! (k mod length (metrics g))
            in \<lparr>tv_type = ty, tv_value =
                 union_set ty (read_member ty m (p + of_nat (k - i) * raw_stride g)) (tv_value (vals ! k))\<rparr>)
      else vals ! k)"
proof (induction n arbitrary: p i vals)
  case (Suc n)
  have "of_nat (k - i) = (1 :: u64) + of_nat (k - Suc i)" if "i < k"
  proof -
    have "k - i = Suc (k - Suc i)" using that by simp
    then show ?thesis by (metis of_nat_Suc)
  qed
  then show ?case using Suc
    by (cases "k = i") (auto simp: Let_def nth_list_update algebra_simps)
qed auto

definition value_count :: "metric_group \<Rightarrow> u64 \<Rightarrow> u32" where
  "value_count g rawDataSize = ucast (rawDataSize div allocationSize g * of_nat (length (metrics g)))"

lemma safe_cast_small: "n < 2 ^ 32 \<Longrightarrow> safe_cast_u32 (of_nat n) = Inr (of_nat n)"
  by (simp add: safe_cast_u32_def uint_nat unat_of_nat take_bit_nat_eq_self)

lemma calculate_success:
  assumes "length (metrics g) < 2 ^ 32"
  shows "calculateMetricValues g rawDataSize m p cnt vals =
    Inr (if cnt = 0 then (value_count g rawDataSize, vals)
         else (min cnt (value_count g rawDataSize),
               values_loop g m p 0 (unat (min cnt (value_count g rawDataSize))) vals))"
proof -
  have "safe_cast_u32 (of_nat (length (metrics g))) = Inr (of_nat (length (metrics g)))"
    using assms by (rule safe_cast_small)
  moreover have "(ucast (of_nat (length (metrics g)) :: u32) :: u64) = of_nat (length (metrics g))"
    using assms by (simp add: unsigned_ucast_eq word_unat_eq_iff unat_of_nat take_bit_nat_eq_self)
  ultimately show ?thesis by (simp add: calculateMetricValues_def Let_def value_count_def)
qed

text \<open>A group as the driver loads it, all of whose counters have values of \<open>s\<close> bytes.\<close>

definition uniform_group :: "group_info \<Rightarrow> nat \<Rightarrow> bool" where
  "uniform_group gi s \<longleftrightarrow> list_all (\<lambda>ci. getMetricValueSize (valueType ci) = of_nat s) (counterInfo gi)
     \<and> 0 < s \<and> s \<le> 8 \<and> counterInfo gi \<noteq> [] \<and> length (counterInfo gi) < 2 ^ 16"

lemma uniform_sum:
  "list_all (\<lambda>ci. getMetricValueSize (valueType ci) = of_nat s) cs \<Longrightarrow>
   sum_list (map (getMetricValueSize \<circ> valueType) cs) = of_nat (length cs * s)"
  by (induction cs) (simp_all add: algebra_simps)

lemma uniform_stride:
  assumes "uniform_group gi s"
  shows "raw_stride (load_group n gi) = of_nat s" "allocationSize (load_group n gi) = of_nat (length (counterInfo gi) * s)"
proof -
  let ?k = "length (counterInfo gi)"
  have l: "length (metrics (load_group n gi)) = ?k" by (simp add: load_group_def)
  show a: "allocationSize (load_group n gi) = of_nat (?k * s)"
    using assms uniform_sum[of s "counterInfo gi"] by (simp add: load_group_def uniform_group_def)
  have b: "?k * s < 2 ^ 64"
  proof -
    have "?k * s \<le> 2 ^ 16 * 8" using assms by (intro mult_le_mono) (auto simp: uniform_group_def)
    then show ?thesis by simp
  qed
  have "unat (of_nat (?k * s) :: u64) = ?k * s" "unat (of_nat ?k :: u64) = ?k" "unat (of_nat s :: u64) = s"
    using assms b by (simp_all add: uniform_group_def unat_of_nat take_bit_nat_eq_self del: of_nat_mult)
  moreover have "?k * s div ?k = s" using assms by (simp add: uniform_group_def)
  ultimately have "unat ((of_nat (?k * s) :: u64) div of_nat ?k) = unat (of_nat s :: u64)"
    by (simp add: unat_div del: of_nat_mult)
  then show "raw_stride (load_group n gi) = of_nat s"
    using l unfolding raw_stride_def a by (simp only: word_unat_eq_iff)
qed

text \<open>For a group whose counters all have the same size, the typed values are the counters of the
  samples: the value of metric \<open>j\<close> of sample \<open>k\<close> has the type of the metric and the bytes at the
  place of that counter in the raw data, as long as the caller's array and the raw data reach that far;
  the rest of the caller's array is left as it is.\<close>

theorem metric_values_read:
  assumes "uniform_group gi s" "cnt \<noteq> 0" "unat cnt \<le> length vals"
    and "g = load_group n gi" "mcount = length (counterInfo gi)"
  shows "\<exists>vals'. calculateMetricValues g rawDataSize m p cnt vals = Inr (min cnt (value_count g rawDataSize), vals') \<and>
    length vals' = length vals \<and>
    (\<forall>k j. j < mcount \<and> k * mcount + j < unat (min cnt (value_count g rawDataSize)) \<longrightarrow>
       tv_type (vals' ! (k * mcount + j)) = metrics g ! j \<and>
       union_get (metrics g ! j) (tv_value (vals' ! (k * mcount + j)))
         = read_member (metrics g ! j) m (p + of_nat (k * unat (allocationSize g) + j * s))) \<and>
    drop (unat (min cnt (value_count g rawDataSize))) vals' = drop (unat (min cnt (value_count g rawDataSize))) vals"
proof (intro exI conjI allI impI)
  let ?c = "min cnt (value_count g rawDataSize)"
  let ?vals = "values_loop g m p 0 (unat ?c) vals"
  have n: "length (metrics g) = mcount" "0 < mcount" "mcount < 2 ^ 16"
    using assms by (auto simp: load_group_def uniform_group_def)
  show "calculateMetricValues g rawDataSize m p cnt vals = Inr (?c, ?vals)"
    using n assms(2) by (simp add: calculate_success)
  have c: "unat ?c \<le> length vals" using assms(3) by (simp add: min_def word_le_nat_alt)
  show "length ?vals = length vals" by simp
  show "drop (unat ?c) ?vals = drop (unat ?c) vals"
    by (rule nth_equalityI) (simp_all add: values_loop_nth)
  fix k j assume kj: "j < mcount \<and> k * mcount + j < unat ?c"
  have "k * unat (allocationSize g) + j * s = (k * mcount + j) * s"
  proof -
    have "mcount * s < 2 ^ 64"
    proof -
      have "mcount * s \<le> 2 ^ 16 * 8" using assms(1) n(3) by (intro mult_le_mono) (auto simp: uniform_group_def)
      then show ?thesis by simp
    qed
    then have "unat (allocationSize g) = mcount * s"
      using uniform_stride(2)[OF assms(1)] assms(4,5)
      by (simp add: unat_of_nat take_bit_nat_eq_self del: of_nat_mult)
    then show ?thesis by (simp add: algebra_simps)
  qed
  moreover have "raw_stride g = of_nat s" using uniform_stride(1)[OF assms(1)] assms(4) by simp
  moreover have "(k * mcount + j) mod mcount = j" using kj by simp
  ultimately show "tv_type (?vals ! (k * mcount + j)) = metrics g ! j"
    "union_get (metrics g ! j) (tv_value (?vals ! (k * mcount + j)))
         = read_member (metrics g ! j) m (p + of_nat (k * unat (allocationSize g) + j * s))"
    using kj c n by (simp_all add: values_loop_nth Let_def union_get_read)
qed

text \<open>Two samples of a group of three 64-bit counters.\<close>

definition counter_of_type :: "u32 \<Rightarrow> counter_info" where
  "counter_of_type v = \<lparr>tier = 1, metricType = 1, valueType = v, metricName = [], metricDescription = [],
     component = [], units = []\<rparr>"

definition group_of_types :: "u32 list \<Rightarrow> group_info" where
  "group_of_types vs = \<lparr>groupIndex = 1, metricGroupName = [], metricGroupDescription = [], domain = 0,
     metricCount = of_nat (length vs), samplingType = 1, counterInfo = map counter_of_type vs\<rparr>"

lemma metric_values_read_witness:
  "\<exists>vals'. calculateMetricValues (load_group 4 (group_of_types [1, 3, 1])) 48
     (write_bytes (\<lambda>_. 0) 4096 (enc64 5 @ enc64 6 @ enc64 7 @ enc64 8 @ enc64 9 @ enc64 10)) 4096 4
     (replicate 5 zero_value) = Inr (4, vals') \<and> tv_value (vals' ! 3) = 8 \<and> length vals' = 5"
proof -
  let ?gi = "group_of_types [1, 3, 1]"
  let ?g = "load_group 4 ?gi"
  let ?m = "write_bytes (\<lambda>_. 0) 4096 (enc64 5 @ enc64 6 @ enc64 7 @ enc64 8 @ enc64 9 @ enc64 10)"
  have u: "uniform_group ?gi 8"
    by (simp add: uniform_group_def group_of_types_def counter_of_type_def getMetricValueSize_def)
  have c: "min 4 (value_count ?g 48) = 4" "allocationSize ?g = 24" "metrics ?g ! 0 = VT_UINT64"
    by code_simp+
  obtain vals' where "calculateMetricValues ?g 48 ?m 4096 4 (replicate 5 zero_value) = Inr (4, vals')"
    and l: "length vals' = 5"
    and v: "\<forall>k j. j < 3 \<and> k * 3 + j < unat (4 :: u32) \<longrightarrow>
       tv_type (vals' ! (k * 3 + j)) = metrics ?g ! j \<and>
       union_get (metrics ?g ! j) (tv_value (vals' ! (k * 3 + j)))
         = read_member (metrics ?g ! j) ?m (4096 + of_nat (k * unat (allocationSize ?g) + j * 8))"
    using metric_values_read[OF u, of 4 "replicate 5 zero_value" ?g 4 3 48 ?m 4096] c
    by (auto simp: group_of_types_def)
  moreover have "tv_value (vals' ! 3) = read_member VT_UINT64 ?m (4096 + 24)"
    using v[rule_format, of 0 1] c by (simp add: union_get_def value_width_def take_bit_word_eq_self)
  moreover have "read_member VT_UINT64 ?m (4096 + 24) = 8" by code_simp
  ultimately show ?thesis by auto
qed

text \<open>For a group with counters of different sizes the values are not the counters: the step between
  two values is the average size, so in a group of a 32-bit and a 64-bit counter the second value is
  read two bytes too far, and the sample of the counters 7 and 9 gives the values 7 and 0.\<close>

theorem mixed_sizes_misread:
  "calculateMetricValues (load_group 1 (group_of_types [0, 1])) 12
     (write_bytes (\<lambda>_. 0) 4096 (enc32 7 @ enc64 9)) 4096 2 (replicate 2 zero_value)
   = Inr (2, [\<lparr>tv_type = VT_UINT32, tv_value = 7\<rparr>, \<lparr>tv_type = VT_UINT64, tv_value = 0\<rparr>])"
proof -
  have "length (metrics (load_group 1 (group_of_types [0, 1]))) < 2 ^ 32"
    by (simp add: load_group_def group_of_types_def)
  moreover have "value_count (load_group 1 (group_of_types [0, 1])) 12 = 2" by code_simp
  moreover have "metrics (load_group 1 (group_of_types [0, 1])) = [VT_UINT32, VT_UINT64]"
    "raw_stride (load_group 1 (group_of_types [0, 1])) = 6"
    by code_simp+
  moreover have "read_bytes (write_bytes (\<lambda>_. 0) 4096 (enc32 7 @ enc64 9)) 4096 8 = [7, 0, 0, 0, 9, 0, 0, 0]"
    "read_bytes (write_bytes (\<lambda>_. 0) 4096 (enc32 7 @ enc64 9)) 4102 8 = [0, 0, 0, 0, 0, 0, 0, 0]"
    by code_simp+
  then have "read_member VT_UINT32 (write_bytes (\<lambda>_. 0) 4096 (enc32 7 @ enc64 9)) 4096 = 7"
    "read_member VT_UINT64 (write_bytes (\<lambda>_. 0) 4096 (enc32 7 @ enc64 9)) 4102 = 0"
    by (simp_all add: read_member_def read64_def dec64_def value_width_def)
  moreover have "replicate 2 zero_value = [zero_value, zero_value]" by (simp add: numeral_2_eq_2)
  ultimately show ?thesis
    using values_loop.simps(2)[of _ _ _ _ 1]
    by (simp add: calculate_success zero_value_def union_set_def value_width_def Let_def flip: numeral_2_eq_2)
qed

section \<open>Maxima\<close>

text \<open>The loop returns when the number of values fits its 8-bit index, and only then.\<close>

lemma max_loop_bounded: "max_loop g vals cnt i out = Some out' \<Longrightarrow> unat cnt < 256"
proof (induction rule: max_loop.raw_induct[rotated, consumes 1])
  case (1 f g vals cnt i out)
  show ?case
  proof (cases "(ucast i :: u32) < cnt")
    case True
    then show ?thesis using 1 by simp
  next
    case False
    then have "unat cnt \<le> unat (ucast i :: u32)" by (simp add: word_less_nat_alt)
    also have "\<dots> < 256"
      using unsigned_less[where 'a = nat, of i] by (simp add: unsigned_ucast_eq take_bit_nat_eq_self)
    finally show ?thesis .
  qed
qed

lemma max_loop_fold:
  assumes "unat cnt < 256" "n \<le> unat cnt"
  shows "max_loop g vals cnt (of_nat n) out = Some (fold (max_step g vals) [n..<unat cnt] out)"
  using assms(2)
proof (induction "unat cnt - n" arbitrary: n out)
  case 0
  have u: "unat (of_nat n :: u8) = n" using 0 assms by (simp add: unat_of_nat take_bit_nat_eq_self)
  then show ?case using 0 assms
    by (subst max_loop.simps) (simp add: word_less_nat_alt unsigned_ucast_eq take_bit_nat_eq_self)
next
  case (Suc k)
  then have n: "n < unat cnt" by simp
  have u: "unat (of_nat n :: u8) = n" using n assms by (simp add: unat_of_nat take_bit_nat_eq_self)
  then have lt: "(ucast (of_nat n :: u8) :: u32) < cnt"
    using n assms by (simp add: word_less_nat_alt unsigned_ucast_eq take_bit_nat_eq_self)
  have "max_loop g vals cnt (of_nat (Suc n)) (max_step g vals n out)
      = Some (fold (max_step g vals) [Suc n..<unat cnt] (max_step g vals n out))"
    using Suc n by (intro Suc.hyps(1)) auto
  then show ?case
    using lt u n by (subst max_loop.simps) (simp add: upt_conv_Cons add.commute)
qed

theorem max_loop_returns_iff:
  "max_loop g vals cnt 0 out =
     (if unat cnt < 256 then Some (fold (max_step g vals) [0..<unat cnt] out) else None)"
  using max_loop_fold[of cnt 0 g vals out] max_loop_bounded[of g vals cnt 0 out]
  by (cases "max_loop g vals cnt 0 out") auto

text \<open>What a round leaves in the entry of metric \<open>k\<close>: the maxima of the entry and of the metric's values.\<close>

lemma max_step_length [simp]: "length (max_step g vals i out) = length out"
  by (simp add: max_step_def Let_def)

lemma fold_max_length [simp]: "length (fold (max_step g vals) is out) = length out"
  by (induction "is" arbitrary: out) simp_all

definition entry_max :: "metric_group \<Rightarrow> typed_value list \<Rightarrow> nat \<Rightarrow> nat list \<Rightarrow> u64 \<Rightarrow> u64" where
  "entry_max g vals k is u =
     fold (\<lambda>i x. member_max (metrics g ! k) x (union_get (metrics g ! k) (tv_value (vals ! i))))
       (filter (\<lambda>i. i mod length (metrics g) = k) is) (union_get (metrics g ! k) u)"

lemma union_get_idem [simp]: "union_get ty (union_get ty x) = union_get ty x"
  by (simp add: union_get_def)

lemma union_get_max [simp]:
  "union_get ty (member_max ty (union_get ty a) (union_get ty b)) = member_max ty (union_get ty a) (union_get ty b)"
  by (simp add: member_max_def)

lemma fold_max_entry:
  assumes "k < length out" "length out = length (metrics g)"
  shows "union_get (metrics g ! k) (tv_value (fold (max_step g vals) is out ! k))
    = entry_max g vals k is (tv_value (out ! k))"
  using assms
proof (induction "is" arbitrary: out)
  case (Cons i "is")
  then show ?case by (auto simp: max_step_def entry_max_def Let_def nth_list_update)
qed (simp add: entry_max_def)

text \<open>C38: \<open>calculateMaxMetricValues\<close> over \<open>n\<close> values (samples times metrics) returns exactly when
  \<open>n\<close> is less than 256, because its loop index is 8 bits wide and never reaches a larger bound;
  then the caller's array keeps its length and the entry of every metric is the maximum, in the
  order of its type, of what the caller had left in that entry and of the metric's values.\<close>

theorem max_values_return_iff:
  assumes "length (metrics g) < 2 ^ 32" "cnt \<noteq> 0" "unat cnt = length (metrics g)" "length out = length (metrics g)"
  shows "case calculateMaxMetricValues g rawDataSize m p cnt out of
      None \<Rightarrow> 256 \<le> unat (value_count g rawDataSize)
    | Some r \<Rightarrow> unat (value_count g rawDataSize) < 256 \<and>
        (\<exists>vals out'. r = Inr (ZE_RESULT_SUCCESS, cnt, out') \<and> length out' = length out
          \<and> vals = values_loop g m p 0 (unat (value_count g rawDataSize))
                     (replicate (unat (value_count g rawDataSize)) zero_value)
          \<and> (\<forall>k < length out. union_get (metrics g ! k) (tv_value (out' ! k))
               = entry_max g vals k [0..<unat (value_count g rawDataSize)] (tv_value (out ! k))))"
proof -
  let ?n = "value_count g rawDataSize"
  let ?vals = "values_loop g m p 0 (unat ?n) (replicate (unat ?n) zero_value)"
  have "safe_cast_u32 (of_nat (length (metrics g))) = Inr cnt"
    using safe_cast_small[OF assms(1)] by (simp flip: assms(3))
  moreover have "calculateMetricValues g rawDataSize m p 0 [] = Inr (?n, [])"
    "calculateMetricValues g rawDataSize m p ?n (replicate (unat ?n) zero_value) = Inr (?n, ?vals)"
    using assms(1) by (cases "?n = 0", simp_all add: calculate_success)
  ultimately have r: "calculateMaxMetricValues g rawDataSize m p cnt out
      = map_option (\<lambda>out'. Inr (ZE_RESULT_SUCCESS, cnt, out')) (max_loop g ?vals ?n 0 out)"
    using assms(2) by (simp add: calculateMaxMetricValues_def)
  show ?thesis
  proof (cases "unat ?n < 256")
    case False
    then show ?thesis by (simp add: r max_loop_returns_iff)
  next
    case True
    then have "max_loop g ?vals ?n 0 out = Some (fold (max_step g ?vals) [0..<unat ?n] out)"
      by (simp add: max_loop_returns_iff)
    then show ?thesis using True by (simp add: r fold_max_entry assms(4))
  qed
qed

lemma max_values_return_iff_witness:
  "calculateMaxMetricValues (load_group 1 (group_of_types [1])) 2048 (\<lambda>_. 3) 4096 1 [zero_value] = None"
proof -
  have "value_count (load_group 1 (group_of_types [1])) 2048 = 256" by code_simp
  then show ?thesis
    using max_values_return_iff[of "load_group 1 (group_of_types [1])" 1 "[zero_value]" 2048 "\<lambda>_. 3" 4096]
    by (auto simp: load_group_def group_of_types_def split: option.splits)
qed

section \<open>Activation\<close>

text \<open>
  The invariant of the activation table: its groups are groups of the device, no two from the same
  domain, and a group's flag is set exactly when it is in the table.
\<close>

definition activation_ok :: "metric_device \<Rightarrow> bool" where
  "activation_ok d \<longleftrightarrow> distinct (map fst (activatedMetricGroups d))
     \<and> (\<forall>(dmn, g, fd) \<in> set (activatedMetricGroups d).
          g < length (metricGroups d) \<and> mg_domain (metricGroups d ! g) = dmn)
     \<and> (\<forall>g < length (metricGroups d).
          activated (metricGroups d ! g) \<longleftrightarrow> g \<in> (fst \<circ> snd) ` set (activatedMetricGroups d))"

definition owned_groups :: "int \<Rightarrow> metric_device \<Rightarrow> nat set" where
  "owned_groups fd d = {g. \<exists>dmn. (dmn, g, fd) \<in> set (activatedMetricGroups d)}"

definition others :: "int \<Rightarrow> metric_device \<Rightarrow> (u32 \<times> nat \<times> int) list" where
  "others fd d = filter (\<lambda>(_, _, f). f \<noteq> fd) (activatedMetricGroups d)"

lemma setActivation_simps [simp]:
  "length (metricGroups (setActivationStatus g b d)) = length (metricGroups d)"
  "activatedMetricGroups (setActivationStatus g b d) = activatedMetricGroups d"
  "metricsLoaded (setActivationStatus g b d) = metricsLoaded d"
  "g' < length (metricGroups d) \<Longrightarrow>
     metricGroups (setActivationStatus g b d) ! g'
       = (if g' = g then (metricGroups d ! g)\<lparr>activated := b\<rparr> else metricGroups d ! g')"
  by (simp_all add: setActivationStatus_def nth_list_update)

text \<open>The flags after the loop over the table.\<close>

abbreviation deactivate_fold :: "int \<Rightarrow> (u32 \<times> nat \<times> int) list \<Rightarrow> metric_device \<Rightarrow> metric_device" where
  "deactivate_fold fd xs d \<equiv> fold (\<lambda>(_, g, f) d. if f = fd then setActivationStatus g False d else d) xs d"

lemma deactivate_fold_simps [simp]:
  "length (metricGroups (deactivate_fold fd xs d)) = length (metricGroups d)"
  "activatedMetricGroups (deactivate_fold fd xs d) = activatedMetricGroups d"
  by (induction xs arbitrary: d) auto

lemma deactivate_fold_group:
  "g < length (metricGroups d) \<Longrightarrow>
   activated (metricGroups (deactivate_fold fd xs d) ! g)
     = (activated (metricGroups d ! g) \<and> \<not> (\<exists>dmn. (dmn, g, fd) \<in> set xs))
   \<and> mg_domain (metricGroups (deactivate_fold fd xs d) ! g) = mg_domain (metricGroups d ! g)"
  by (induction xs arbitrary: d) (auto split: if_splits)

lemma others_deactivate [simp]: "others fd (deactivateMetricGroups fd d) = others fd d"
  by (simp add: others_def deactivateMetricGroups_def)

lemma owned_deactivate: "owned_groups fd (deactivateMetricGroups fd d) = {}"
  by (auto simp: owned_groups_def deactivateMetricGroups_def)

lemma table_unique:
  assumes "activation_ok d" "(a, g, f) \<in> set (activatedMetricGroups d)" "(b, g, f') \<in> set (activatedMetricGroups d)"
  shows "f' = f"
proof -
  have "mg_domain (metricGroups d ! g) = a" "mg_domain (metricGroups d ! g) = b"
    using assms unfolding activation_ok_def by blast+
  then have "a = b" by simp
  then show ?thesis
    using assms eq_key_imp_eq_value[of "activatedMetricGroups d" a "(g, f)" "(g, f')"]
    by (simp add: activation_ok_def)
qed

lemma activation_ok_deactivate:
  assumes "activation_ok d"
  shows "activation_ok (deactivateMetricGroups fd d)"
proof -
  let ?d = "deactivateMetricGroups fd d"
  have t: "activatedMetricGroups ?d = filter (\<lambda>(_, _, f). f \<noteq> fd) (activatedMetricGroups d)"
    and l: "length (metricGroups ?d) = length (metricGroups d)"
    by (simp_all add: deactivateMetricGroups_def)
  have g: "activated (metricGroups ?d ! g)
      = (activated (metricGroups d ! g) \<and> \<not> (\<exists>dmn. (dmn, g, fd) \<in> set (activatedMetricGroups d)))
      \<and> mg_domain (metricGroups ?d ! g) = mg_domain (metricGroups d ! g)" if "g < length (metricGroups d)" for g
    using deactivate_fold_group[OF that] by (simp add: deactivateMetricGroups_def)
  have "activated (metricGroups ?d ! g) \<longleftrightarrow> g \<in> (fst \<circ> snd) ` set (activatedMetricGroups ?d)"
    if l: "g < length (metricGroups d)" for g
  proof -
    have "activated (metricGroups d ! g) \<longleftrightarrow> (\<exists>a f. (a, g, f) \<in> set (activatedMetricGroups d))"
      using assms l by (force simp: activation_ok_def)
    moreover have "g \<in> (fst \<circ> snd) ` set (activatedMetricGroups ?d)
        \<longleftrightarrow> (\<exists>a f. (a, g, f) \<in> set (activatedMetricGroups d) \<and> f \<noteq> fd)"
      by (force simp: t)
    ultimately show ?thesis using g[OF l] table_unique[OF assms] by blast
  qed
  moreover have "distinct (map fst (activatedMetricGroups ?d))"
    using assms by (simp add: t activation_ok_def distinct_map_filter)
  ultimately show ?thesis using assms g by (auto simp: activation_ok_def t l)
qed

lemma activate_group_step:
  assumes "activation_ok d" "activateMetricGroup fd g d = (ok, d')"
  shows "activation_ok d' \<and> others fd d' = others fd d
    \<and> owned_groups fd d' = (if ok then insert g (owned_groups fd d) else owned_groups fd d)"
proof (cases "g < length (metricGroups d) \<and> \<not> activated (metricGroups d ! g)")
  case False
  then have "\<not> ok \<and> d' = d" using assms(2) by (auto simp: activateMetricGroup_def split: if_splits)
  then show ?thesis using assms(1) by simp
next
  case True
  let ?dmn = "mg_domain (metricGroups d ! g)"
  have out: "(a, g, f) \<notin> set (activatedMetricGroups d)" for a f
    using True assms(1) unfolding activation_ok_def by force
  show ?thesis
  proof (cases "find (\<lambda>(x, _). x = ?dmn) (activatedMetricGroups d)")
    case (Some e)
    then have "e \<in> set (activatedMetricGroups d)" unfolding find_Some_iff by (metis nth_mem)
    moreover obtain a g' f where e: "e = (a, g', f)" by (cases e)
    moreover have "(ok, d') = (g' = g \<and> f = fd, d)"
      using Some True assms(2) by (simp add: activateMetricGroup_def Let_def e)
    ultimately have "\<not> ok \<and> d' = d" using out by auto
    then show ?thesis using assms(1) by simp
  next
    case None
    then have "?dmn \<notin> fst ` set (activatedMetricGroups d)" by (auto simp: find_None_iff)
    moreover have "ok" "d' = (setActivationStatus g True d)
       \<lparr>activatedMetricGroups := activatedMetricGroups d @ [(?dmn, g, fd)]\<rparr>"
      using None True assms(2) by (auto simp: activateMetricGroup_def Let_def)
    ultimately show ?thesis
      using assms(1) True by (auto simp: activation_ok_def others_def owned_groups_def)
  qed
qed

lemma activate_all_steps:
  "activation_ok d \<Longrightarrow> activate_all fd gs r d = (r', d') \<Longrightarrow>
   activation_ok d' \<and> others fd d' = others fd d \<and>
   (r = ZE_RESULT_SUCCESS \<and> r' = ZE_RESULT_SUCCESS \<longrightarrow> owned_groups fd d' = owned_groups fd d \<union> set gs) \<and>
   (r \<noteq> ZE_RESULT_SUCCESS \<longrightarrow> r' \<noteq> ZE_RESULT_SUCCESS)"
proof (induction gs arbitrary: r d)
  case (Cons g gs)
  obtain ok d1 where s: "activateMetricGroup fd g d = (ok, d1)" by fastforce
  let ?r = "if ok then r else ZE_RESULT_ERROR_INVALID_ARGUMENT"
  have 1: "activate_all fd gs ?r d1 = (r', d')" using Cons.prems s by simp
  note step = activate_group_step[OF Cons.prems(1) s]
  show ?case using Cons.IH[OF _ 1] step by (cases ok) auto
qed auto

text \<open>C26: The activation of metric groups keeps the table exact: a group is active if and only if the
  table lists it, and the listed groups belong to different domains. Activating a selection never changes what other contexts
  hold, and when it succeeds the context holds exactly the selected groups, whatever it held
  before.\<close>

theorem activation_exclusive:
  assumes "activation_ok d" "activateMetricGroups fd cnt phs d = (r, d')"
  shows "activation_ok d' \<and> others fd d' = others fd d \<and>
    (r = ZE_RESULT_SUCCESS \<longrightarrow>
       owned_groups fd d' = set (take (unat cnt) (case phs of None \<Rightarrow> [] | Some gs \<Rightarrow> gs)))"
proof (cases "metricsLoaded d \<and> \<not> (cnt > 0 \<and> phs = None)")
  case True
  then have "activate_all fd (take (unat cnt) (case phs of None \<Rightarrow> [] | Some gs \<Rightarrow> gs)) ZE_RESULT_SUCCESS
      (deactivateMetricGroups fd d) = (r, d')"
    using assms(2) by (auto simp: activateMetricGroups_def)
  from activate_all_steps[OF activation_ok_deactivate[OF assms(1)] this]
  show ?thesis by (auto simp: owned_deactivate)
next
  case False
  then show ?thesis using assms by (auto simp: activateMetricGroups_def split: if_splits)
qed

definition sample_device :: metric_device where
  "sample_device = \<lparr>metricsLoaded = True,
     metricGroups = [load_group 3 (group_of_types [1]), (load_group 3 (group_of_types [0]))\<lparr>mg_domain := 1\<rparr>,
                     (load_group 3 (group_of_types [2]))\<lparr>mg_domain := 1, activated := True\<rparr>],
     activatedMetricGroups = [(1, 2, 9)]\<rparr>"

lemma activation_exclusive_witness:
  "(case activateMetricGroups 7 2 (Some [0, 1]) sample_device of (r, d') \<Rightarrow>
      r = ZE_RESULT_ERROR_INVALID_ARGUMENT \<and> activation_ok d' \<and> others 7 d' = [(1, 2, 9)])
   \<and> owned_groups 7 (snd (activateMetricGroups 7 1 (Some [0]) sample_device)) = {0}"
proof -
  have ok: "activation_ok sample_device"
    by (auto simp: activation_ok_def sample_device_def load_group_def group_of_types_def less_Suc_eq numeral_eq_Suc)
  have "fst (activateMetricGroups 7 2 (Some [0, 1]) sample_device) = ZE_RESULT_ERROR_INVALID_ARGUMENT"
    "fst (activateMetricGroups 7 1 (Some [0]) sample_device) = ZE_RESULT_SUCCESS"
    "others 7 sample_device = [(1, 2, 9)]"
    by code_simp+
  moreover obtain r1 d1 r2 d2 where a: "activateMetricGroups 7 2 (Some [0, 1]) sample_device = (r1, d1)"
    "activateMetricGroups 7 1 (Some [0]) sample_device = (r2, d2)"
    by fastforce
  ultimately show ?thesis
    using activation_exclusive[OF ok a(1)] activation_exclusive[OF ok a(2)] by simp
qed

end
