(* ===== verification/L0_Command_Queue.thy ===== *)
theory L0_Command_Queue
  imports L0_Event
begin

text \<open>
  \<open>CommandQueue\<close> and \<open>Fence\<close> (\<open>umd/level_zero_driver/source/cmdqueue.cpp\<close>, \<open>fence.cpp\<close>): the
  submission of closed command lists, the jobs a queue or a fence tracks until they are waited
  for, and the preemption buffer the queue takes from the context. The map of the fences is an
  association list; the order of its elements stands for the unspecified order of the source's map.
  \<open>Context::setIdle\<close> only wakes the resource cleaner thread and is left out.
\<close>

section \<open>The device queue behind it\<close>

definition dq_submit ::
  "bytes \<Rightarrow> (nat \<Rightarrow> int) \<Rightarrow> device_queue \<Rightarrow> 'h job \<Rightarrow> 'k dev_ctx
     \<Rightarrow> (((exn + bool) \<times> device_queue \<times> 'h job) \<times> 'k dev_ctx) option" where
  "dq_submit tail clk dq j c =
     (case dq of
        Legacy_queue q \<Rightarrow>
          map_option (\<lambda>((r, jb), c'). ((r, Legacy_queue q, the jb), c')) (legacy_submit clk q (Some j) c)
      | Managed_queue q \<Rightarrow>
          map_option (\<lambda>((r, q', jb), c'). ((r, Managed_queue q', the jb), c')) (managed_submit tail clk q (Some j) c))"

definition dq_toBackground :: "device_queue \<Rightarrow> 'k dev_ctx \<Rightarrow> (bool \<times> device_queue) \<times> 'k dev_ctx" where
  "dq_toBackground dq c =
     (case dq of
        Legacy_queue q \<Rightarrow> (case legacy_toBackgroundPriority q c of ((ok, q'), c') \<Rightarrow> ((ok, Legacy_queue q'), c'))
      | Managed_queue q \<Rightarrow> (case managed_toBackgroundPriority q c of ((ok, q'), c') \<Rightarrow> ((ok, Managed_queue q'), c')))"

definition dq_toDefault :: "device_queue \<Rightarrow> bool \<times> device_queue" where
  "dq_toDefault dq =
     (case dq of
        Legacy_queue q \<Rightarrow> (case legacy_toDefaultPriority q of (ok, q') \<Rightarrow> (ok, Legacy_queue q'))
      | Managed_queue q \<Rightarrow> (case managed_toDefaultPriority q of (ok, q') \<Rightarrow> (ok, Managed_queue q')))"

definition dq_destroy :: "device_queue \<Rightarrow> 'k dev_ctx \<Rightarrow> 'k dev_ctx" where
  "dq_destroy dq c = (case dq of Legacy_queue q \<Rightarrow> c | Managed_queue q \<Rightarrow> managed_destroy q c)"

section \<open>Creation\<close>

datatype ze_priority = PRIORITY_NORMAL | PRIORITY_LOW | PRIORITY_HIGH | PRIORITY_OTHER

fun toVPUDevicePriority :: "ze_priority \<Rightarrow> priority" where
  "toVPUDevicePriority PRIORITY_LOW = IDLE"
| "toVPUDevicePriority PRIORITY_HIGH = REALTIME"
| "toVPUDevicePriority PRIORITY_NORMAL = NORMAL"
| "toVPUDevicePriority PRIORITY_OTHER = NORMAL"

text \<open>
  The extension structure behind the descriptor, if any, and which of its options are set: the turbo
  flag of the first version, the options \<open>TURBO\<close> and \<open>DEVICE_SYNC\<close> of the second.
\<close>

datatype queue_ext = Npu_ext (turbo: bool) | Npu_ext_2 (turbo: bool) (device_sync: bool) | Other_ext

record queue_desc =
  qd_ordinal :: u32
  qd_synchronous :: bool
  qd_priority :: ze_priority
  qd_ext :: "queue_ext option"

definition getCommandQeueueGroupFlags :: "u32 \<Rightarrow> u32" where
  "getCommandQeueueGroupFlags ordinal = (if ordinal = 0 then 1 OR 2 else 0)"

text \<open>The mode for the device queue; \<open>None\<close> for a configuration that is refused.\<close>

definition queue_creation_mode :: "queue_desc \<Rightarrow> u32 option" where
  "queue_creation_mode d =
     (case qd_ext d of
        None \<Rightarrow> Some 0
      | Some (Npu_ext tb) \<Rightarrow> Some (if tb then TURBO else 0)
      | Some (Npu_ext_2 tb sync) \<Rightarrow>
          if qd_synchronous d \<and> sync then None
          else Some ((if sync then IN_ORDER else 0) OR (if \<not> sync \<and> tb then TURBO else 0))
      | Some Other_ext \<Rightarrow> Some 0)"

definition CommandQueue_create ::
  "bool \<Rightarrow> bool \<Rightarrow> queue_desc option \<Rightarrow> bool \<Rightarrow> ('h, 'k, ze_result \<times> nat option) l0_op" where
  "CommandQueue_create hContext hDevice desc phCommandQueue st =
     (let fail = (\<lambda>r. Some (Inr (r, None), st)) in
      if \<not> hContext \<or> \<not> hDevice then fail ZE_RESULT_ERROR_INVALID_NULL_HANDLE
      else (case desc of None \<Rightarrow> fail ZE_RESULT_ERROR_INVALID_NULL_POINTER
       | Some d \<Rightarrow>
           if \<not> phCommandQueue then fail ZE_RESULT_ERROR_INVALID_NULL_POINTER
           else if getCommandQeueueGroupFlags (qd_ordinal d) = 0 then fail ZE_RESULT_ERROR_INVALID_ARGUMENT
           else (case queue_creation_mode d of
                   None \<Rightarrow> fail ZE_RESULT_ERROR_INVALID_ENUMERATION
                 | Some mode \<Rightarrow>
                     (case queue_create (toVPUDevicePriority (qd_priority d)) mode (Some (dctx st)) of
                        (None, oc) \<Rightarrow> Some (Inr (ZE_RESULT_ERROR_UNINITIALIZED, None), st\<lparr>dctx := the oc\<rparr>)
                      | (Some dq, oc) \<Rightarrow>
                          Some (Inr (ZE_RESULT_SUCCESS, Some (next_queue st)),
                            st\<lparr>dctx := preemptionCacheLoad (the oc), next_queue := next_queue st + 1,
                               queues := (queues st)(next_queue st \<mapsto>
                                 \<lparr>vpuQueue = dq, queueJobs = [], fences = [], next_fence = 0,
                                  synchronous = qd_synchronous d, cq_preemption = None\<rparr>)\<rparr>)))))"

section \<open>Waiting for jobs\<close>

definition DRM_IVPU_JOB_STATUS_ABORTED :: u32 where "DRM_IVPU_JOB_STATUS_ABORTED = 256"

fun jobStatusToResult :: "'h job list \<Rightarrow> ze_result" where
  "jobStatusToResult [] = ZE_RESULT_SUCCESS"
| "jobStatusToResult (j # js) =
     (if getStatus j = DRM_IVPU_JOB_STATUS_SUCCESS then jobStatusToResult js
      else if getStatus j = DRM_IVPU_JOB_STATUS_ABORTED then ZE_RESULT_ERROR_DEVICE_LOST
      else ZE_RESULT_ERROR_UNKNOWN)"

abbreviation the_queue :: "('h, 'k) l0 \<Rightarrow> nat \<Rightarrow> cmd_queue" where
  "the_queue st q \<equiv> the (queues st q)"

definition set_queue :: "nat \<Rightarrow> cmd_queue \<Rightarrow> ('h, 'k) l0 \<Rightarrow> ('h, 'k) l0" where
  "set_queue q cq st = st\<lparr>queues := (queues st)(q \<mapsto> cq)\<rparr>"

fun wait_jobs :: "int \<Rightarrow> nat list \<Rightarrow> ('h, 'k) l0 \<Rightarrow> bool \<times> ('h, 'k) l0" where
  "wait_jobs t [] st = (True, st)"
| "wait_jobs t (j # js) st =
     (case job_waitForCompletion t (jobs st j) (dctx st) of
        ((ok, j1), c) \<Rightarrow>
          let st1 = st\<lparr>jobs := (jobs st)(j := j1), dctx := c\<rparr>
          in if ok then wait_jobs t js st1 else (False, st1))"

definition waitForJobs :: "nat \<Rightarrow> int \<Rightarrow> nat list \<Rightarrow> ('h, 'k) l0 \<Rightarrow> ze_result \<times> ('h, 'k) l0" where
  "waitForJobs q t js st =
     (case wait_jobs t js st of
        (False, st1) \<Rightarrow> (ZE_RESULT_NOT_READY, st1)
      | (True, st1) \<Rightarrow>
          let cq = the_queue st1 q;
              st2 = (if isPreemptionBufferSupported (dctx st1)
                     then (case cq_preemption cq of
                             None \<Rightarrow> st1
                           | Some b \<Rightarrow>
                               if use_count (dctx st1) (bo_id b) = 2
                               then (set_queue q (cq\<lparr>cq_preemption := None\<rparr>) st1)\<lparr>dctx := drop_ref b (dctx st1)\<rparr>
                               else st1)
                     else st1)
          in (jobStatusToResult (map (jobs st2) js), st2))"

section \<open>Fences\<close>

definition set_fence :: "nat \<Rightarrow> nat \<Rightarrow> fence \<Rightarrow> ('h, 'k) l0 \<Rightarrow> ('h, 'k) l0" where
  "set_fence q f fe st =
     set_queue q ((the_queue st q)\<lparr>fences := map (\<lambda>(i, x). if i = f then (i, fe) else (i, x)) (fences (the_queue st q))\<rparr>) st"

definition the_fence :: "('h, 'k) l0 \<Rightarrow> nat \<Rightarrow> nat \<Rightarrow> fence" where
  "the_fence st q f = the (map_of (fences (the_queue st q)) f)"

definition fence_waitForJobs :: "nat \<Rightarrow> nat \<Rightarrow> int \<Rightarrow> ('h, 'k) l0 \<Rightarrow> ze_result \<times> ('h, 'k) l0" where
  "fence_waitForJobs q f t st =
     (let js = fenceJobs (the_fence st q f) in
      if js = [] then (ZE_RESULT_SUCCESS, st)
      else (case waitForJobs q t js st of
              (r, st1) \<Rightarrow>
                if r \<noteq> ZE_RESULT_SUCCESS then (r, st1)
                else (ZE_RESULT_SUCCESS,
                  set_fence q f ((the_fence st1 q f)\<lparr>fenceJobs := [], signaled := True\<rparr>) (release_jobs js st1))))"

definition fence_synchronize :: "l0_env \<Rightarrow> nat \<Rightarrow> nat \<Rightarrow> u64 \<Rightarrow> ('h, 'k) l0 \<Rightarrow> ze_result \<times> ('h, 'k) l0" where
  "fence_synchronize env q f timeout st =
     (if signaled (the_fence st q f) then (ZE_RESULT_SUCCESS, st)
      else if fenceJobs (the_fence st q f) = [] then (ZE_RESULT_NOT_READY, st)
      else fence_waitForJobs q f (getAbsoluteTimeoutNanoseconds (now env) timeout) st)"

definition fence_reset :: "nat \<Rightarrow> nat \<Rightarrow> ('h, 'k) l0 \<Rightarrow> ze_result \<times> ('h, 'k) l0" where
  "fence_reset q f st = (ZE_RESULT_SUCCESS, set_fence q f ((the_fence st q f)\<lparr>signaled := False\<rparr>) st)"

definition setTrackedJobs :: "nat \<Rightarrow> nat \<Rightarrow> nat list \<Rightarrow> ('h, 'k) l0 \<Rightarrow> ('h, 'k) l0" where
  "setTrackedJobs q f js st =
     (let fe = the_fence st q f in
      release_jobs (fenceJobs fe)
        (set_fence q f (fe\<lparr>signaled := (if js = [] then True else signaled fe), fenceJobs := js\<rparr>) st))"

text \<open>\<open>createFence\<close>: the type of the descriptor, and whether it asks for a signaled fence.\<close>

definition createFence ::
  "nat \<Rightarrow> (bool \<times> bool) option \<Rightarrow> bool \<Rightarrow> ('h, 'k) l0 \<Rightarrow> (ze_result \<times> nat option) \<times> ('h, 'k) l0" where
  "createFence q desc phFence st =
     (case desc of None \<Rightarrow> ((ZE_RESULT_ERROR_INVALID_NULL_POINTER, None), st)
      | Some (stype_ok, sig) \<Rightarrow>
          if \<not> phFence then ((ZE_RESULT_ERROR_INVALID_NULL_POINTER, None), st)
          else if \<not> stype_ok then ((ZE_RESULT_ERROR_INVALID_ARGUMENT, None), st)
          else let cq = the_queue st q; f = next_fence cq in
               ((ZE_RESULT_SUCCESS, Some f),
                set_queue q (cq\<lparr>fences := fences cq @ [(f, \<lparr>signaled = sig, fenceJobs = []\<rparr>)], next_fence := f + 1\<rparr>) st))"

definition destroyFence :: "nat \<Rightarrow> nat \<Rightarrow> ('h, 'k) l0 \<Rightarrow> ze_result \<times> ('h, 'k) l0" where
  "destroyFence q f st =
     (ZE_RESULT_SUCCESS,
      release_jobs (fenceJobs (the_fence st q f))
        (set_queue q ((the_queue st q)\<lparr>fences := filter (\<lambda>(i, _). i \<noteq> f) (fences (the_queue st q))\<rparr>) st))"

section \<open>Synchronize\<close>

fun wait_fences :: "nat \<Rightarrow> int \<Rightarrow> nat list \<Rightarrow> ('h, 'k) l0 \<Rightarrow> ze_result \<times> ('h, 'k) l0" where
  "wait_fences q t [] st = (ZE_RESULT_SUCCESS, st)"
| "wait_fences q t (f # fs) st =
     (case fence_waitForJobs q f t st of
        (r, st1) \<Rightarrow> if r \<noteq> ZE_RESULT_SUCCESS then (r, st1) else wait_fences q t fs st1)"

definition queue_synchronize :: "l0_env \<Rightarrow> nat \<Rightarrow> u64 \<Rightarrow> ('h, 'k) l0 \<Rightarrow> ze_result \<times> ('h, 'k) l0" where
  "queue_synchronize env q timeout st =
     (let t = getAbsoluteTimeoutNanoseconds (now env) timeout in
      if queueJobs (the_queue st q) = [] \<and> fences (the_queue st q) = [] then (ZE_RESULT_SUCCESS, st)
      else (case wait_fences q t (map fst (fences (the_queue st q))) st of
              (r, st1) \<Rightarrow>
                if r \<noteq> ZE_RESULT_SUCCESS then (r, st1)
                else (case waitForJobs q t (queueJobs (the_queue st1 q)) st1 of
                        (r2, st2) \<Rightarrow>
                          if r2 \<noteq> ZE_RESULT_SUCCESS then (r2, st2)
                          else (r2, release_jobs (queueJobs (the_queue st2 q))
                                 (set_queue q ((the_queue st2 q)\<lparr>queueJobs := []\<rparr>) st2)))))"

section \<open>Execution\<close>

definition EBADFD :: int where "EBADFD = 77"

text \<open>
  The loop over the lists: the jobs submitted so far are owned by a local vector, which is
  destroyed when the loop is left with an error.
\<close>

definition submit_list ::
  "l0_env \<Rightarrow> nat \<Rightarrow> nat \<Rightarrow> nat \<Rightarrow> ('h, 'k, ze_result) l0_op" where
  "submit_list env q n j =
     l0_bind (on_job_throws j updateOnSubmit) (\<lambda>updated.
       if \<not> updated then l0_ret ZE_RESULT_ERROR_UNKNOWN
       else l0_with (\<lambda>st0. l0_bind
              (case cq_preemption (the_queue st0 q) of
                 None \<Rightarrow> l0_ret ()
               | Some b \<Rightarrow> on_job j (\<lambda>jb c. case job_addPreemptionBuffer (Some b) jb c of (jb', c') \<Rightarrow> (((), jb'), c')))
              (\<lambda>_ st1.
                case dq_submit (nop_tail env) (clock env n) (vpuQueue (the_queue st1 q)) (jobs st1 j) (dctx st1) of
                  None \<Rightarrow> None
                | Some ((r, dq, j1), c) \<Rightarrow>
                    let st2 = set_queue q ((the_queue st1 q)\<lparr>vpuQueue := dq\<rparr>) (st1\<lparr>jobs := (jobs st1)(j := j1), dctx := c\<rparr>)
                    in (case r of
                          Inl e \<Rightarrow> Some (Inl e, st2)
                        | Inr True \<Rightarrow> Some (Inr ZE_RESULT_SUCCESS, st2)
                        | Inr False \<Rightarrow>
                            Some (Inr (if errno (ctx_world c) = - EBADFD then ZE_RESULT_ERROR_DEVICE_LOST
                                       else ZE_RESULT_ERROR_UNKNOWN), st2)))))"

fun submit_lists ::
  "l0_env \<Rightarrow> nat \<Rightarrow> nat \<Rightarrow> nat option list \<Rightarrow> nat list \<Rightarrow> ('h, 'k, ze_result \<times> nat list) l0_op" where
  "submit_lists env q n [] acc st = Some (Inr (ZE_RESULT_SUCCESS, acc), st)"
| "submit_lists env q n (h # hs) acc st =
     (case Option.bind h (lists st) of
        None \<Rightarrow> Some (Inr (ZE_RESULT_ERROR_INVALID_NULL_POINTER, acc), st)
      | Some cl \<Rightarrow>
          if getNumCommands (jobs st (vpuJob cl)) = 0 then submit_lists env q n hs acc st
          else (case submit_list env q n (vpuJob cl) (share_job (vpuJob cl) st) of
                  None \<Rightarrow> None
                | Some (Inl e, st1) \<Rightarrow> Some (Inl e, release_jobs (acc @ [vpuJob cl]) st1)
                | Some (Inr r, st1) \<Rightarrow>
                    if r \<noteq> ZE_RESULT_SUCCESS then Some (Inr (r, acc @ [vpuJob cl]), st1)
                    else submit_lists env q (Suc n) hs (acc @ [vpuJob cl]) st1))"

fun check_lists :: "('h, 'k) l0 \<Rightarrow> nat option list \<Rightarrow> ze_result" where
  "check_lists st [] = ZE_RESULT_SUCCESS"
| "check_lists st (h # hs) =
     (case Option.bind h (lists st) of
        None \<Rightarrow> ZE_RESULT_ERROR_INVALID_NULL_POINTER
      | Some cl \<Rightarrow> if \<not> closed (jobs st (vpuJob cl)) then ZE_RESULT_ERROR_UNINITIALIZED else check_lists st hs)"

definition acquire_preemption :: "nat \<Rightarrow> ('h, 'k, unit) l0_op" where
  "acquire_preemption q st =
     (if isPreemptionBufferSupported (dctx st) \<and> cq_preemption (the_queue st q) = None
      then (case preemptionCacheAcquire (dctx st) of
              (Inl e, c) \<Rightarrow> Some (Inl e, st\<lparr>dctx := c\<rparr>)
            | (Inr b, c) \<Rightarrow>
                Some (Inr (), set_queue q ((the_queue st q)\<lparr>cq_preemption := b\<rparr>) (st\<lparr>dctx := c\<rparr>)))
      else Some (Inr (), st))"

definition executeCommandLists ::
  "l0_env \<Rightarrow> nat \<Rightarrow> nat option list option \<Rightarrow> nat option \<Rightarrow> ('h, 'k, ze_result) l0_op" where
  "executeCommandLists env q phCommandLists hFence st =
     (case phCommandLists of
        None \<Rightarrow> Some (Inr ZE_RESULT_ERROR_INVALID_NULL_POINTER, st)
      | Some hs \<Rightarrow>
          if hs = [] then Some (Inr ZE_RESULT_ERROR_INVALID_SIZE, st)
          else if check_lists st hs \<noteq> ZE_RESULT_SUCCESS then Some (Inr (check_lists st hs), st)
          else l0_bind (acquire_preemption q) (\<lambda>_. l0_bind (submit_lists env q 0 hs []) (\<lambda>(r, js) st1.
             if r \<noteq> ZE_RESULT_SUCCESS then Some (Inr r, release_jobs js st1)
             else (case (case hFence of
                           None \<Rightarrow>
                             (ZE_RESULT_SUCCESS,
                              set_queue q ((the_queue st1 q)\<lparr>queueJobs := queueJobs (the_queue st1 q) @ js\<rparr>) st1)
                         | Some f \<Rightarrow>
                             if map_of (fences (the_queue st1 q)) f = None
                             then (ZE_RESULT_ERROR_INVALID_SYNCHRONIZATION_OBJECT, release_jobs js st1)
                             else (ZE_RESULT_SUCCESS, setTrackedJobs q f js st1)) of
                     (r2, st2) \<Rightarrow>
                       if r2 \<noteq> ZE_RESULT_SUCCESS then Some (Inr r2, st2)
                       else if synchronous (the_queue st2 q)
                       then (case queue_synchronize env q (- 1) st2 of (r3, st3) \<Rightarrow> Some (Inr r3, st3))
                       else Some (Inr ZE_RESULT_SUCCESS, st2)))) st)"

section \<open>Priorities and destruction\<close>

datatype workload_type = WORKLOAD_DEFAULT | WORKLOAD_BACKGROUND | WORKLOAD_OTHER

definition setWorkloadType :: "nat \<Rightarrow> workload_type \<Rightarrow> ('h, 'k) l0 \<Rightarrow> ze_result \<times> ('h, 'k) l0" where
  "setWorkloadType q ty st =
     (let cq = the_queue st q in
      case ty of
        WORKLOAD_DEFAULT \<Rightarrow>
          (case dq_toDefault (vpuQueue cq) of
             (ok, dq) \<Rightarrow> (if ok then ZE_RESULT_SUCCESS else ZE_RESULT_ERROR_UNKNOWN, set_queue q (cq\<lparr>vpuQueue := dq\<rparr>) st))
      | WORKLOAD_BACKGROUND \<Rightarrow>
          (case dq_toBackground (vpuQueue cq) (dctx st) of
             ((ok, dq), c) \<Rightarrow>
               (if ok then ZE_RESULT_SUCCESS else ZE_RESULT_ERROR_UNKNOWN,
                set_queue q (cq\<lparr>vpuQueue := dq\<rparr>) (st\<lparr>dctx := c\<rparr>)))
      | WORKLOAD_OTHER \<Rightarrow> (ZE_RESULT_ERROR_INVALID_ENUMERATION, st))"

text \<open>\<open>destroy\<close>: \<open>removeObject\<close>, then the destructor and the members in reverse order.\<close>

definition CommandQueue_destroy :: "l0_env \<Rightarrow> nat \<Rightarrow> ('h, 'k) l0 \<Rightarrow> ze_result \<times> ('h, 'k) l0" where
  "CommandQueue_destroy env q st =
     (let st0 = st\<lparr>dctx := removeExpiredInternalBuffers (dctx st)\<rparr>;
          st1 = snd (queue_synchronize env q 0 st0);
          st2 = st1\<lparr>dctx := preemptionCachePrune (drop_opt (cq_preemption (the_queue st1 q)) (dctx st1))\<rparr>;
          st3 = release_jobs (concat (map (fenceJobs \<circ> snd) (fences (the_queue st2 q))) @ queueJobs (the_queue st2 q)) st2
      in (ZE_RESULT_SUCCESS,
          st3\<lparr>dctx := dq_destroy (vpuQueue (the_queue st3 q)) (dctx st3), queues := (queues st3)(q := None)\<rparr>))"

end
