(* ===== verification/Nested_Structs.thy ===== *)
theory Nested_Structs
  imports Umd_Prelude
begin

text \<open>
  Chains of extension structures (\<open>umd/level_zero_driver/include/nested_structs_handler.hpp\<close>): the walk
  that the functions of graphs, command lists and devices share, and how far it goes.
\<close>

section \<open>The walk\<close>

text \<open>
  \<open>handleNestedStructs\<close>: the count of structures that may follow is \<open>NESTED_STRUCTS_LIMIT\<close> at the start;
  the handler returns the next pointer, or nothing.
\<close>

fun nested_structs :: "nat \<Rightarrow> (u64 \<Rightarrow> 's \<Rightarrow> u64 option \<times> 's) \<Rightarrow> u64 \<Rightarrow> 's \<Rightarrow> bool \<times> 's" where
  "nested_structs 0 handler pNext s = (pNext = 0, s)"
| "nested_structs (Suc n) handler pNext s =
     (if pNext = 0 then (True, s)
      else (case handler pNext s of
              (None, s') \<Rightarrow> (False, s')
            | (Some q, s') \<Rightarrow> nested_structs n handler q s'))"

definition NESTED_STRUCTS_LIMIT :: nat where "NESTED_STRUCTS_LIMIT = 20"

definition handleNestedStructs :: "(u64 \<Rightarrow> 's \<Rightarrow> u64 option \<times> 's) \<Rightarrow> u64 \<Rightarrow> 's \<Rightarrow> bool \<times> 's" where
  "handleNestedStructs handler pNext s = nested_structs NESTED_STRUCTS_LIMIT handler pNext s"

section \<open>Chains\<close>

text \<open>\<open>chain next p n\<close>: from \<open>p\<close>, exactly \<open>n\<close> structures are accepted and the last one ends the chain.\<close>

inductive chain :: "(u64 \<Rightarrow> u64 option) \<Rightarrow> u64 \<Rightarrow> nat \<Rightarrow> bool" for "next" where
  stop: "chain next 0 0"
| step: "p \<noteq> 0 \<Longrightarrow> next p = Some q \<Longrightarrow> chain next q n \<Longrightarrow> chain next p (Suc n)"

inductive_simps chain_null: "chain next p 0"
inductive_simps chain_more: "chain next p (Suc n)"

lemma nested_structs_chain:
  assumes "\<And>p s. fst (handler p s) = next p"
  shows "fst (nested_structs m handler p s) \<longleftrightarrow> (\<exists>n \<le> m. chain next p n)"
proof (induction m arbitrary: p s)
  case (Suc m)
  show ?case
  proof (cases "p = 0")
    case True
    then show ?thesis by (auto intro: chain.stop)
  next
    case False
    show ?thesis
    proof (cases "next p")
      case None
      then have "fst (handler p s) = None" using assms by simp
      then have "\<not> fst (nested_structs (Suc m) handler p s)" using False by (cases "handler p s") auto
      moreover have "\<not> chain next p n" for n using False None by (cases n) (auto simp: chain_null chain_more)
      ultimately show ?thesis by blast
    next
      case (Some q)
      then obtain s' where h: "handler p s = (Some q, s')" using assms [of p s] by (cases "handler p s") auto
      have "(\<exists>n \<le> Suc m. chain next p n) \<longleftrightarrow> (\<exists>n \<le> m. chain next q n)"
      proof
        assume "\<exists>n \<le> Suc m. chain next p n"
        then obtain n where n: "n \<le> Suc m" "chain next p n" by blast
        then show "\<exists>n \<le> m. chain next q n" using False Some by (cases n) (auto simp: chain_null chain_more)
      next
        assume "\<exists>n \<le> m. chain next q n"
        then obtain n where "n \<le> m" "chain next q n" by blast
        then show "\<exists>n \<le> Suc m. chain next p n" using False Some by (intro exI [of _ "Suc n"]) (auto simp: chain_more)
      qed
      then show ?thesis using False Suc.IH [of q s'] by (simp add: h)
    qed
  qed
qed (auto simp: chain_null)

lemma chain_shrinks:
  assumes "(\<lambda>a b. a \<noteq> 0 \<and> next a = Some b)\<^sup>+\<^sup>+ p q" "chain next p n"
  shows "\<exists>m < n. chain next q m"
  using assms
proof (induction arbitrary: n rule: tranclp_induct)
  case (base q)
  then show ?case by (cases n) (auto simp: chain_null chain_more)
next
  case (step q r)
  then obtain m where m: "m < n" "chain next q m" by blast
  then obtain k where "m = Suc k" "chain next r k" using step.hyps(2) by (cases m) (auto simp: chain_null chain_more)
  then show ?case using m(1) by (intro exI [of _ k]) simp
qed

lemma no_chain_cycle:
  assumes "(\<lambda>a b. a \<noteq> 0 \<and> next a = Some b)\<^sup>+\<^sup>+ p p"
  shows "\<not> chain next p n"
  by (induction n rule: less_induct) (use chain_shrinks [OF assms] in blast)

text \<open>C34: a chain of structures is accepted exactly when the handler accepts each of its structures and there
  are at most twenty of them; a chain that leads back to its start is refused, and the walk always ends.
\<close>

theorem chain_limit:
  assumes "\<And>p s. fst (handler p s) = next p"
  shows "(fst (handleNestedStructs handler p s) \<longleftrightarrow> (\<exists>n \<le> 20. chain next p n))
     \<and> ((\<lambda>a b. a \<noteq> 0 \<and> next a = Some b)\<^sup>+\<^sup>+ p p \<longrightarrow> \<not> fst (handleNestedStructs handler p s))"
proof -
  have "fst (handleNestedStructs handler p s) \<longleftrightarrow> (\<exists>n \<le> 20. chain next p n)"
    unfolding handleNestedStructs_def NESTED_STRUCTS_LIMIT_def by (rule nested_structs_chain [OF assms])
  then show ?thesis using no_chain_cycle [of "next" p] by blast
qed

theorem chain_limit_witness:
  "\<not> fst (handleNestedStructs (\<lambda>p s. (Some p, s + 1)) 8 (0 :: nat)) \<and> (Some 8 :: u64 option) = Some 8"
  using chain_limit [of "\<lambda>p s. (Some p, s + 1)" Some 8 "0 :: nat", OF fst_conv, THEN conjunct2]
    tranclp.r_into_trancl [of "\<lambda>a b. a \<noteq> 0 \<and> Some a = Some b" "8 :: u64" 8] by simp

end
