(* ===== verification/L0_Command_List.thy ===== *)
theory L0_Command_List
  imports L0_Command_Queue L0_Metric Nested_Structs
begin

text \<open>
  \<open>CommandList\<close> and \<open>ImmediateCommandList\<close> (\<open>umd/level_zero_driver/source/cmdlist.cpp\<close>,
  \<open>cmdlist.hpp\<close>, \<open>immediate_cmdlist.cpp\<close>). The virtual functions choose by \<open>pCommandQueue\<close>, which
  only an immediate list has. Events, command lists and queues are named by their handles; an array of
  handles is \<open>None\<close> for the null pointer. A command is given as the call of its \<open>create\<close>
  function, which runs when it is appended. The commands of a graph come from its parser, which uses a
  third-party loader: a graph is a record of functions. The append of several commands to an immediate list submits each of
  them: \<open>env_at k\<close> is the environment of the \<open>k\<close>-th submission.
\<close>

section \<open>Lists\<close>

abbreviation the_list :: "('h, 'k) l0 \<Rightarrow> nat \<Rightarrow> cmd_list" where
  "the_list st l \<equiv> the (lists st l)"

definition set_list :: "nat \<Rightarrow> cmd_list \<Rightarrow> ('h, 'k) l0 \<Rightarrow> ('h, 'k) l0" where
  "set_list l cl st = st\<lparr>lists := (lists st)(l \<mapsto> cl)\<rparr>"

abbreviation list_job :: "('h, 'k) l0 \<Rightarrow> nat \<Rightarrow> 'h job" where
  "list_job st l \<equiv> jobs st (vpuJob (the_list st l))"

text \<open>\<open>vpuJob = std::make_shared<VPUJob>(ctx)\<close>: the list gives up its old job.\<close>

definition fresh_job :: "nat \<Rightarrow> ('h, 'k) l0 \<Rightarrow> ('h, 'k) l0" where
  "fresh_job l st =
     (let i = next_job st; old = vpuJob (the_list st l);
          st1 = st\<lparr>jobs := (jobs st)(i := new_job), job_refs := (job_refs st)(i := 1), next_job := i + 1\<rparr>
      in release_job old (set_list l ((the_list st l)\<lparr>vpuJob := i\<rparr>) st1))"

definition new_list :: "bool \<Rightarrow> nat option \<Rightarrow> ('h, 'k) l0 \<Rightarrow> nat \<times> ('h, 'k) l0" where
  "new_list mutable q st =
     (let i = next_job st; l = next_list st in
      (l, st\<lparr>jobs := (jobs st)(i := new_job), job_refs := (job_refs st)(i := 1), next_job := i + 1, next_list := l + 1,
             lists := (lists st)(l \<mapsto> \<lparr>isMutable = mutable, vpuJob = i, commandIdMap = Map.empty, pCommandQueue = q\<rparr>)\<rparr>))"

text \<open>
  \<open>create\<close>: the handles, and of the descriptor the group ordinal and whether its extension asks
  for a mutable list.
\<close>

definition CommandList_create ::
  "bool \<Rightarrow> bool \<Rightarrow> (u32 \<times> bool) option \<Rightarrow> bool \<Rightarrow> ('h, 'k) l0 \<Rightarrow> (ze_result \<times> nat option) \<times> ('h, 'k) l0" where
  "CommandList_create hContext hDevice desc phCommandList st =
     (let fail = (\<lambda>r. ((r, None), st)) in
      if \<not> hContext \<or> \<not> hDevice then fail ZE_RESULT_ERROR_INVALID_NULL_HANDLE
      else (case desc of None \<Rightarrow> fail ZE_RESULT_ERROR_INVALID_NULL_POINTER
       | Some (ordinal, mutable) \<Rightarrow>
           if \<not> phCommandList then fail ZE_RESULT_ERROR_INVALID_NULL_POINTER
           else if getCommandQeueueGroupFlags ordinal = 0 then fail ZE_RESULT_ERROR_INVALID_ARGUMENT
           else (case new_list mutable None st of (l, st1) \<Rightarrow> ((ZE_RESULT_SUCCESS, Some l), st1))))"

definition ImmediateCommandList_create ::
  "bool \<Rightarrow> bool \<Rightarrow> queue_desc option \<Rightarrow> bool \<Rightarrow> ('h, 'k, ze_result \<times> nat option) l0_op" where
  "ImmediateCommandList_create hContext hDevice altdesc phCommandList st =
     (let fail = (\<lambda>r. Some (Inr (r, None), st)) in
      if \<not> hContext \<or> \<not> hDevice then fail ZE_RESULT_ERROR_INVALID_NULL_HANDLE
      else if altdesc = None \<or> \<not> phCommandList then fail ZE_RESULT_ERROR_INVALID_NULL_POINTER
      else l0_bind (CommandQueue_create hContext hDevice altdesc True) (\<lambda>(r, q) st1.
             if r \<noteq> ZE_RESULT_SUCCESS then Some (Inr (r, None), st1)
             else (case new_list False q st1 of (l, st2) \<Rightarrow> Some (Inr (ZE_RESULT_SUCCESS, Some l), st2))) st)"

definition isImmediate :: "nat \<Rightarrow> bool \<Rightarrow> ('h, 'k) l0 \<Rightarrow> ze_result \<times> bool option" where
  "isImmediate l pIsImmediate st =
     (if \<not> pIsImmediate then (ZE_RESULT_ERROR_INVALID_NULL_POINTER, None)
      else (ZE_RESULT_SUCCESS, Some (pCommandQueue (the_list st l) \<noteq> None)))"

definition CommandList_destroy :: "l0_env \<Rightarrow> nat \<Rightarrow> ('h, 'k) l0 \<Rightarrow> ze_result \<times> ('h, 'k) l0" where
  "CommandList_destroy env l st =
     (let st1 = (case pCommandQueue (the_list st l) of None \<Rightarrow> st | Some q \<Rightarrow> snd (CommandQueue_destroy env q st));
          st2 = st1\<lparr>dctx := removeExpiredInternalBuffers (dctx st1)\<rparr>
      in (ZE_RESULT_SUCCESS, (release_job (vpuJob (the_list st2 l)) st2)\<lparr>lists := (lists st2)(l := None)\<rparr>))"

definition CommandList_close :: "l0_env \<Rightarrow> nat \<Rightarrow> ('h, 'k, ze_result) l0_op" where
  "CommandList_close env l st =
     (if closed (list_job st l) \<and> \<not> isMutable (the_list st l) then Some (Inr ZE_RESULT_SUCCESS, st)
      else l0_bind (on_job_throws (vpuJob (the_list st l)) (closeCommands (nop_tail env)))
             (\<lambda>ok. l0_ret (if ok then ZE_RESULT_SUCCESS else ZE_RESULT_ERROR_UNKNOWN)) st)"

definition CommandList_reset :: "nat \<Rightarrow> ('h, 'k) l0 \<Rightarrow> ze_result \<times> ('h, 'k) l0" where
  "CommandList_reset l st = (ZE_RESULT_SUCCESS, fresh_job l st)"

definition CommandList_hostSynchronize :: "l0_env \<Rightarrow> nat \<Rightarrow> u64 \<Rightarrow> ('h, 'k) l0 \<Rightarrow> ze_result \<times> ('h, 'k) l0" where
  "CommandList_hostSynchronize env l timeout st =
     (case pCommandQueue (the_list st l) of
        None \<Rightarrow> (ZE_RESULT_ERROR_UNINITIALIZED, st)
      | Some q \<Rightarrow>
          (case queue_synchronize env q timeout st of
             (r, st1) \<Rightarrow> if r = ZE_RESULT_SUCCESS then (r, fresh_job l st1) else (r, st1)))"

section \<open>Appending\<close>

definition env_at :: "nat \<Rightarrow> l0_env \<Rightarrow> l0_env" where
  "env_at k env = env\<lparr>clock := (\<lambda>n. clock env (k + n))\<rparr>"

definition checkCommandAppendCondition :: "l0_env \<Rightarrow> nat \<Rightarrow> ('h, 'k, ze_result) l0_op" where
  "checkCommandAppendCondition env l st =
     (case pCommandQueue (the_list st l) of
        None \<Rightarrow>
          Some (Inr (if closed (list_job st l) then ZE_RESULT_ERROR_NOT_AVAILABLE else ZE_RESULT_SUCCESS), st)
      | Some q \<Rightarrow>
          (case queue_synchronize env q (- 1) st of
             (r, st1) \<Rightarrow> Some (Inr r, if closed (list_job st1 l) then fresh_job l st1 else st1)))"

definition postAppend :: "l0_env \<Rightarrow> nat \<Rightarrow> ('h, 'k, ze_result) l0_op" where
  "postAppend env l st =
     (case pCommandQueue (the_list st l) of
        None \<Rightarrow> Some (Inr ZE_RESULT_SUCCESS, st)
      | Some q \<Rightarrow>
          l0_bind (on_job_throws (vpuJob (the_list st l)) (closeCommands (nop_tail env))) (\<lambda>ok.
            if \<not> ok then l0_ret ZE_RESULT_ERROR_INVALID_SYNCHRONIZATION_OBJECT
            else l0_ok (executeCommandLists env q (Some [Some l]) None)
                   (\<lambda>st1. Some (Inr ZE_RESULT_SUCCESS, fresh_job l st1))) st)"

type_synonym ('h, 'k) command_maker = "'k dev_ctx \<Rightarrow> exn + 'h command option"

definition push_command :: "nat \<Rightarrow> 'h command \<Rightarrow> ('h, 'k, ze_result) l0_op" where
  "push_command l cmd =
     l0_with (\<lambda>st. l0_bind (on_job (vpuJob (the_list st l)) (job_appendCommand cmd))
       (\<lambda>ok. l0_ret (if ok then ZE_RESULT_SUCCESS else ZE_RESULT_ERROR_UNKNOWN)))"

definition appendCommand :: "nat \<Rightarrow> ('h, 'k) command_maker \<Rightarrow> ('h, 'k, ze_result) l0_op" where
  "appendCommand l mk st =
     (case mk (dctx st) of
        Inl e \<Rightarrow> Some (Inl e, st)
      | Inr None \<Rightarrow> Some (Inr ZE_RESULT_ERROR_UNINITIALIZED, st)
      | Inr (Some cmd) \<Rightarrow> push_command l cmd st)"

text \<open>
  The buffer object an event command is created with: the event's own one, or for an
  immediate list the tracked one at the event's address.
\<close>

definition event_bo :: "nat \<Rightarrow> event_obj \<Rightarrow> ('h, 'k) l0 \<Rightarrow> buffer_object option" where
  "event_bo l e st =
     (case pCommandQueue (the_list st l) of
        None \<Rightarrow> Some (eventBase e)
      | Some q \<Rightarrow> findBufferObject (dctx st) (eventState e))"

definition appendSignalEvent :: "l0_env \<Rightarrow> nat \<Rightarrow> event_handle option \<Rightarrow> ('h, 'k, ze_result) l0_op" where
  "appendSignalEvent env l hEvent =
     l0_ok (\<lambda>st. if pCommandQueue (the_list st l) = None then checkCommandAppendCondition env l st
                  else Some (Inr ZE_RESULT_SUCCESS, st))
       (\<lambda>st. case find_event st hEvent of
               None \<Rightarrow> Some (Inr ZE_RESULT_ERROR_INVALID_NULL_HANDLE, st)
             | Some e \<Rightarrow>
                 if eventState e = 0 then Some (Inr ZE_RESULT_ERROR_INVALID_NULL_HANDLE, st)
                 else l0_ok (appendCommand l (\<lambda>c. Inr (VPUEventSignalCommand_create (eventState e) (event_bo l e st))))
                        (\<lambda>st1. Some (Inr ZE_RESULT_SUCCESS,
                           put_event (the hEvent) (Some (associateJob (vpuJob (the_list st1 l)) e)) st1)) st)"

fun wait_events :: "nat \<Rightarrow> event_handle option list \<Rightarrow> ('h, 'k, ze_result) l0_op" where
  "wait_events l [] st = Some (Inr ZE_RESULT_SUCCESS, st)"
| "wait_events l (h # hs) st =
     (case find_event st h of
        None \<Rightarrow> Some (Inr ZE_RESULT_ERROR_INVALID_NULL_HANDLE, st)
      | Some e \<Rightarrow>
          if eventState e = 0 then Some (Inr ZE_RESULT_ERROR_INVALID_NULL_HANDLE, st)
          else l0_ok (appendCommand l (\<lambda>c. Inr (VPUEventWaitCommand_create (eventState e) (event_bo l e st))))
                 (wait_events l hs) st)"

definition appendWaitOnEvents ::
  "l0_env \<Rightarrow> nat \<Rightarrow> u32 \<Rightarrow> event_handle option list option \<Rightarrow> ('h, 'k, ze_result) l0_op" where
  "appendWaitOnEvents env l numEvents phEvent =
     (case phEvent of
        None \<Rightarrow> l0_ret ZE_RESULT_ERROR_INVALID_NULL_POINTER
      | Some hs \<Rightarrow>
          if numEvents = 0 then l0_ret ZE_RESULT_ERROR_INVALID_SIZE
          else l0_ok (\<lambda>st. if pCommandQueue (the_list st l) = None then checkCommandAppendCondition env l st
                            else Some (Inr ZE_RESULT_SUCCESS, st))
                 (wait_events l (take (unat numEvents) hs)))"

text \<open>The wait events, if any, that precede a command.\<close>

definition append_waits ::
  "l0_env \<Rightarrow> nat \<Rightarrow> u32 \<Rightarrow> event_handle option list option \<Rightarrow> ('h, 'k, ze_result) l0_op" where
  "append_waits env l numWaitEvents phWaitEvents =
     (if numWaitEvents > 0
      then (if phWaitEvents = None then l0_ret ZE_RESULT_ERROR_INVALID_SIZE
            else appendWaitOnEvents env l numWaitEvents phWaitEvents)
      else l0_ret ZE_RESULT_SUCCESS)"

text \<open>The signal event, if any, and the end of an append.\<close>

definition finish_append :: "l0_env \<Rightarrow> nat \<Rightarrow> event_handle option \<Rightarrow> ('h, 'k, ze_result) l0_op" where
  "finish_append env l hSignalEvent =
     l0_ok (if hSignalEvent \<noteq> None then appendSignalEvent env l hSignalEvent else l0_ret ZE_RESULT_SUCCESS)
       (postAppend env l)"

definition appendCommandWithEvents ::
  "l0_env \<Rightarrow> nat \<Rightarrow> event_handle option \<Rightarrow> u32 \<Rightarrow> event_handle option list option
     \<Rightarrow> ('h, 'k) command_maker \<Rightarrow> ('h, 'k, ze_result) l0_op" where
  "appendCommandWithEvents env l hSignalEvent numWaitEvents phWaitEvents mk =
     l0_ok (checkCommandAppendCondition env l)
       (l0_ok (append_waits env l numWaitEvents phWaitEvents)
         (l0_ok (appendCommand l mk) (finish_append env l hSignalEvent)))"

section \<open>Commands\<close>

definition appendBarrier ::
  "l0_env \<Rightarrow> nat \<Rightarrow> event_handle option \<Rightarrow> u32 \<Rightarrow> event_handle option list option \<Rightarrow> ('h, 'k, ze_result) l0_op" where
  "appendBarrier env l sig n ws =
     appendCommandWithEvents env l sig n ws (\<lambda>c. Inr (Some VPUBarrierCommand_create))"

definition appendMemoryCopy ::
  "l0_env \<Rightarrow> nat \<Rightarrow> u64 \<Rightarrow> u64 \<Rightarrow> u64 \<Rightarrow> event_handle option \<Rightarrow> u32 \<Rightarrow> event_handle option list option
     \<Rightarrow> ('h, 'k, ze_result) l0_op" where
  "appendMemoryCopy env l dstptr srcptr sz sig n ws st =
     (if dstptr = 0 \<or> srcptr = 0 then Some (Inr ZE_RESULT_ERROR_INVALID_NULL_POINTER, st)
      else let srcBo = findBufferObject (dctx st) srcptr; dstBo = findBufferObject (dctx st) dstptr
           in appendCommandWithEvents env l sig n ws (\<lambda>c. VPUCopyCommand_create c srcptr srcBo dstptr dstBo sz) st)"

definition FILL_SIZE_LIMIT :: u64 where "FILL_SIZE_LIMIT = push_bit 20 8"

definition fill_pattern_of :: "memory \<Rightarrow> u64 \<Rightarrow> u64 \<Rightarrow> u32" where
  "fill_pattern_of m pattern patternSize =
     (let bs = read_bytes m pattern 4 in
      if patternSize = 4 then dec32 bs
      else if patternSize = 2 then dec32 (take 2 bs) OR push_bit 16 (dec32 (take 2 bs))
      else dec32 (replicate 4 (hd bs)))"

text \<open>The loop of \<open>appendMemoryFillCmd\<close>; \<open>k\<close> counts its rounds.\<close>

function fill_loop ::
  "l0_env \<Rightarrow> nat \<Rightarrow> u64 \<Rightarrow> buffer_object \<Rightarrow> u32 \<Rightarrow> event_handle option \<Rightarrow> nat \<Rightarrow> u32 \<Rightarrow> event_handle option list option
     \<Rightarrow> u64 \<Rightarrow> u64 \<Rightarrow> ('h, 'k, ze_result) l0_op" where
  "fill_loop env l p bo pat sig k n ws sizeLeft off st =
     (if sizeLeft = 0 then Some (Inr ZE_RESULT_SUCCESS, st)
      else let fillSize = min sizeLeft FILL_SIZE_LIMIT in
           (case appendCommandWithEvents (env_at k env) l (if sizeLeft \<le> FILL_SIZE_LIMIT then sig else None) n ws
                   (\<lambda>c. Inr (VPUFillCommand_create (p + off) bo fillSize pat)) st of
              None \<Rightarrow> None
            | Some (Inl e, st1) \<Rightarrow> Some (Inl e, st1)
            | Some (Inr r, st1) \<Rightarrow>
                if r \<noteq> ZE_RESULT_SUCCESS then Some (Inr r, st1)
                else fill_loop env l p bo pat sig (Suc k) 0 None (sizeLeft - fillSize) (off + fillSize) st1))"
  by pat_completeness auto

termination
proof (relation "measure (\<lambda>(env, l, p, bo, pat, sig, k, n, ws, sizeLeft, off, st). unat sizeLeft)", goal_cases)
  case (2 env l p bo pat sig k n ws sizeLeft off st fillSize)
  have "min sizeLeft FILL_SIZE_LIMIT \<le> sizeLeft" "min sizeLeft FILL_SIZE_LIMIT \<noteq> 0"
    using 2(1) by (auto simp: min_def FILL_SIZE_LIMIT_def)
  then have "unat (sizeLeft - fillSize) = unat sizeLeft - unat fillSize" "0 < unat fillSize" "unat fillSize \<le> unat sizeLeft"
    using 2(2) by (auto simp: unat_sub word_le_nat_alt unat_gt_0)
  then show ?case by simp
qed simp

declare fill_loop.simps [simp del]

definition appendMemoryFillCmd ::
  "l0_env \<Rightarrow> nat \<Rightarrow> u64 \<Rightarrow> u64 \<Rightarrow> u64 \<Rightarrow> u64 \<Rightarrow> event_handle option \<Rightarrow> u32 \<Rightarrow> event_handle option list option
     \<Rightarrow> ('h, 'k, ze_result) l0_op" where
  "appendMemoryFillCmd env l p pattern patternSize sz sig n ws st =
     (if patternSize \<notin> {4, 2, 1} then Some (Inr ZE_RESULT_ERROR_INVALID_SIZE, st)
      else (case findBufferObject (dctx st) p of
              None \<Rightarrow> Some (Inr ZE_RESULT_ERROR_OUT_OF_DEVICE_MEMORY, st)
            | Some bo \<Rightarrow>
                fill_loop env l p bo (fill_pattern_of (mem (ctx_world (dctx st))) pattern patternSize)
                  sig 0 n ws sz 0 st))"

text \<open>A buffer object that lives as long as the call, and what its commands keep of it.\<close>

definition with_internal_bo ::
  "u64 \<Rightarrow> bo_flags \<Rightarrow> ze_result \<Rightarrow> (buffer_object \<Rightarrow> ('h, 'k, ze_result) l0_op) \<Rightarrow> ('h, 'k, ze_result) l0_op" where
  "with_internal_bo sz ty err act st =
     (case createUntrackedBufferObject (dctx st) sz ty of
        (Inl e, c) \<Rightarrow> Some (Inl e, st\<lparr>dctx := c\<rparr>)
      | (Inr None, c) \<Rightarrow> Some (Inr err, st\<lparr>dctx := c\<rparr>)
      | (Inr (Some bo), c) \<Rightarrow>
          map_option (\<lambda>(r, st1). (r, st1\<lparr>dctx := drop_ref bo (dctx st1)\<rparr>)) (act bo (st\<lparr>dctx := c\<rparr>)))"

definition appendMemoryFillAsCopyCmd ::
  "l0_env \<Rightarrow> nat \<Rightarrow> u64 \<Rightarrow> u64 \<Rightarrow> u64 \<Rightarrow> u64 \<Rightarrow> event_handle option \<Rightarrow> u32 \<Rightarrow> event_handle option list option
     \<Rightarrow> ('h, 'k, ze_result) l0_op" where
  "appendMemoryFillAsCopyCmd env l p pattern patternSize sz sig n ws =
     l0_ok (checkCommandAppendCondition env l)
       (with_internal_bo (sz + patternSize) CachedDma ZE_RESULT_ERROR_OUT_OF_DEVICE_MEMORY (\<lambda>bo st.
          case fillBuffer bo (Some (read_bytes (mem (ctx_world (dctx st))) pattern (unat patternSize))) patternSize
                 (ctx_world (dctx st)) of
            (False, w) \<Rightarrow> Some (Inr ZE_RESULT_ERROR_INVALID_SIZE, st\<lparr>dctx := (dctx st)\<lparr>ctx_world := w\<rparr>\<rparr>)
          | (True, w) \<Rightarrow>
              let st1 = st\<lparr>dctx := (dctx st)\<lparr>ctx_world := w\<rparr>\<rparr>; fillBo = findBufferObject (dctx st1) p
              in appendCommandWithEvents env l sig n ws
                   (\<lambda>c. VPUCopyCommand_create c (basePtr bo) (Some bo) p fillBo sz) st1))"

definition appendMemoryFill ::
  "l0_env \<Rightarrow> nat \<Rightarrow> u64 \<Rightarrow> u64 \<Rightarrow> u64 \<Rightarrow> u64 \<Rightarrow> event_handle option \<Rightarrow> u32 \<Rightarrow> event_handle option list option
     \<Rightarrow> ('h, 'k, ze_result) l0_op" where
  "appendMemoryFill env l p pattern patternSize sz sig n ws st =
     (if p = 0 then Some (Inr ZE_RESULT_ERROR_INVALID_NULL_POINTER, st)
      else if pattern = 0 then Some (Inr ZE_RESULT_ERROR_INVALID_NULL_POINTER, st)
      else if patternSize \<notin> {1, 2, 4} then Some (Inr ZE_RESULT_ERROR_INVALID_SIZE, st)
      else if arch_code (npuArch (hwInfo (dctx st))) \<ge> arch_code NPU40XX
      then appendMemoryFillCmd env l p pattern patternSize sz sig n ws st
      else appendMemoryFillAsCopyCmd env l p pattern patternSize sz sig n ws st)"

record copy_region =
  originX :: u32
  originY :: u32
  originZ :: u32
  region_width :: u32
  region_height :: u32
  region_depth :: u32

definition row_offset :: "copy_region \<Rightarrow> u32 \<Rightarrow> u32 \<Rightarrow> u64" where
  "row_offset rg pitch y = ucast (originX rg + (originY rg + y) * pitch)"

fun region_loop ::
  "l0_env \<Rightarrow> nat \<Rightarrow> u64 \<Rightarrow> copy_region \<Rightarrow> u32 \<Rightarrow> u64 \<Rightarrow> copy_region \<Rightarrow> u32 \<Rightarrow> event_handle option \<Rightarrow> u32
     \<Rightarrow> event_handle option list option \<Rightarrow> nat list \<Rightarrow> ('h, 'k, ze_result) l0_op" where
  "region_loop env l dstptr dr dstPitch srcptr sr srcPitch sig n ws [] st = Some (Inr ZE_RESULT_SUCCESS, st)"
| "region_loop env l dstptr dr dstPitch srcptr sr srcPitch sig n ws (y # ys) st =
     (let src = srcptr + row_offset sr srcPitch (of_nat y); dst = dstptr + row_offset dr dstPitch (of_nat y);
          srcBo = findBufferObject (dctx st) src; dstBo = findBufferObject (dctx st) dst
      in l0_ok (appendCommandWithEvents (env_at y env) l sig n ws
                  (\<lambda>c. VPUCopyCommand_create c src srcBo dst dstBo (ucast (region_width dr))))
           (region_loop env l dstptr dr dstPitch srcptr sr srcPitch sig n ws ys) st)"

definition appendMemoryCopyRegion ::
  "l0_env \<Rightarrow> nat \<Rightarrow> u64 \<Rightarrow> copy_region option \<Rightarrow> u32 \<Rightarrow> u32 \<Rightarrow> u64 \<Rightarrow> copy_region option \<Rightarrow> u32 \<Rightarrow> u32
     \<Rightarrow> event_handle option \<Rightarrow> u32 \<Rightarrow> event_handle option list option \<Rightarrow> ('h, 'k, ze_result) l0_op" where
  "appendMemoryCopyRegion env l dstptr dstRegion dstPitch dstSlicePitch srcptr srcRegion srcPitch srcSlicePitch sig n ws =
     (if dstptr = 0 \<or> srcptr = 0 then l0_ret ZE_RESULT_ERROR_INVALID_NULL_POINTER
      else (case (dstRegion, srcRegion) of
              (Some dr, Some sr) \<Rightarrow>
                if region_width dr \<noteq> region_width sr \<or> region_height dr \<noteq> region_height sr
                   \<or> region_depth dr \<noteq> region_depth sr then l0_ret ZE_RESULT_ERROR_INVALID_SIZE
                else if region_width dr = 0 then l0_ret ZE_RESULT_ERROR_INVALID_SIZE
                else if dstPitch < region_width dr then l0_ret ZE_RESULT_ERROR_INVALID_SIZE
                else if dstSlicePitch \<noteq> 0 \<or> srcSlicePitch \<noteq> 0 then l0_ret ZE_RESULT_ERROR_UNSUPPORTED_FEATURE
                else if region_depth dr \<noteq> 1 \<or> region_depth sr \<noteq> 1 then l0_ret ZE_RESULT_ERROR_UNSUPPORTED_FEATURE
                else if originZ dr \<noteq> 0 \<or> originZ sr \<noteq> 0 then l0_ret ZE_RESULT_ERROR_UNSUPPORTED_FEATURE
                else region_loop env l dstptr dr dstPitch srcptr sr srcPitch sig n ws [0..<unat (region_height dr)]
            | _ \<Rightarrow> l0_ret ZE_RESULT_ERROR_INVALID_NULL_POINTER))"

definition appendWriteGlobalTimestamp_bo ::
  "l0_env \<Rightarrow> nat \<Rightarrow> buffer_object \<Rightarrow> event_handle option \<Rightarrow> u32 \<Rightarrow> event_handle option list option
     \<Rightarrow> ('h, 'k, ze_result) l0_op" where
  "appendWriteGlobalTimestamp_bo env l bo sig n ws =
     appendCommandWithEvents env l sig n ws
       (\<lambda>c. Inr (VPUTimeStampCommand_create (basePtr bo) (Some bo) (fwTimestampType (hwInfo c))))"

definition appendWriteGlobalTimestamp ::
  "l0_env \<Rightarrow> nat \<Rightarrow> u64 \<Rightarrow> event_handle option \<Rightarrow> u32 \<Rightarrow> event_handle option list option \<Rightarrow> ('h, 'k, ze_result) l0_op" where
  "appendWriteGlobalTimestamp env l dstptr sig n ws st =
     (if dstptr = 0 then Some (Inr ZE_RESULT_ERROR_INVALID_NULL_POINTER, st)
      else (case findBufferObject (dctx st) dstptr of
              None \<Rightarrow> Some (Inr ZE_RESULT_ERROR_OUT_OF_DEVICE_MEMORY, st)
            | Some dstBo \<Rightarrow>
                l0_ok (checkCommandAppendCondition env l)
                  (with_internal_bo 8 CachedFw ZE_RESULT_ERROR_INVALID_NULL_POINTER (\<lambda>bo.
                     l0_bind (on_ctx (\<lambda>c. ((), write_mem (basePtr bo) (replicate 8 0) c))) (\<lambda>_.
                     l0_ok (append_waits env l n ws)
                       (l0_ok (appendCommand l
                                 (\<lambda>c. Inr (VPUTimeStampCommand_create (basePtr bo) (Some bo) (fwTimestampType (hwInfo c)))))
                         (l0_ok (appendCommand l (\<lambda>c. VPUCopyCommand_create c (basePtr bo) (Some bo) dstptr (Some dstBo) 8))
                           (finish_append env l sig)))))) st))"

section \<open>Graphs\<close>

text \<open>
  \<open>Graph\<close> as a list uses it: whether its profiling output is not empty, and the two
  functions of its parser that make a command; the second takes the profiling query.
\<close>

record ('h, 'k) l0_graph =
  has_profiling_output :: bool
  allocateGraphInitCommand :: "'k dev_ctx \<Rightarrow> (exn + 'h command option) \<times> 'k dev_ctx"
  allocateGraphExecuteCommand :: "buffer_object option \<Rightarrow> 'k dev_ctx \<Rightarrow> (exn + 'h command option) \<times> 'k dev_ctx"

definition push_graph_command ::
  "nat \<Rightarrow> ('k dev_ctx \<Rightarrow> (exn + 'h command option) \<times> 'k dev_ctx) \<Rightarrow> ('h, 'k, ze_result) l0_op" where
  "push_graph_command l alloc =
     l0_bind (on_ctx_throws alloc) (\<lambda>r.
       case r of None \<Rightarrow> l0_ret ZE_RESULT_ERROR_UNINITIALIZED | Some cmd \<Rightarrow> push_command l cmd)"

definition appendGraphInitialize ::
  "l0_env \<Rightarrow> nat \<Rightarrow> ('h, 'k) l0_graph option \<Rightarrow> event_handle option \<Rightarrow> u32 \<Rightarrow> event_handle option list option
     \<Rightarrow> ('h, 'k, ze_result) l0_op" where
  "appendGraphInitialize env l graph sig n ws =
     l0_ok (checkCommandAppendCondition env l)
       (l0_ok (append_waits env l n ws)
         (case graph of
            None \<Rightarrow> l0_ret ZE_RESULT_ERROR_UNINITIALIZED
          | Some g \<Rightarrow> l0_ok (push_graph_command l (allocateGraphInitCommand g)) (finish_append env l sig)))"

text \<open>
  The place of a graph command among the commands, recorded under the place of its first wait
  event; \<open>emplace\<close> keeps an older record.
\<close>

definition record_command_id :: "nat \<Rightarrow> nat \<Rightarrow> ('h, 'k) l0 \<Rightarrow> ('h, 'k) l0" where
  "record_command_id l newId st =
     (let cl = the_list st l; after = getNumCommands (list_job st l) in
      if isMutable cl \<and> newId < after \<and> commandIdMap cl newId = None
      then set_list l (cl\<lparr>commandIdMap := (commandIdMap cl)(newId \<mapsto> after)\<rparr>) st else st)"

text \<open>\<open>query\<close> is the profiling query's buffer object, \<open>None\<close> for the null handle.\<close>

definition appendGraphExecute ::
  "l0_env \<Rightarrow> nat \<Rightarrow> ('h, 'k) l0_graph option \<Rightarrow> buffer_object option \<Rightarrow> event_handle option \<Rightarrow> u32
     \<Rightarrow> event_handle option list option \<Rightarrow> ('h, 'k, ze_result) l0_op" where
  "appendGraphExecute env l graph query sig n ws =
     l0_ok (checkCommandAppendCondition env l) (\<lambda>st0.
       let newId = getNumCommands (list_job st0 l) in
       l0_ok (append_waits env l n ws)
         (l0_bind (l0_modify (record_command_id l newId)) (\<lambda>_.
            case graph of
              None \<Rightarrow> l0_ret ZE_RESULT_ERROR_INVALID_NULL_HANDLE
            | Some g \<Rightarrow>
                if has_profiling_output g \<and> query = None then l0_ret ZE_RESULT_ERROR_INVALID_NULL_HANDLE
                else l0_ok (push_graph_command l (allocateGraphExecuteCommand g
                              (if has_profiling_output g then query else None)))
                       (finish_append env l sig))) st0)"

section \<open>Events and metric queries\<close>

definition appendEventReset :: "l0_env \<Rightarrow> nat \<Rightarrow> event_handle option \<Rightarrow> ('h, 'k, ze_result) l0_op" where
  "appendEventReset env l hEvent =
     l0_ok (checkCommandAppendCondition env l)
       (\<lambda>st. case find_event st hEvent of
               None \<Rightarrow> Some (Inr ZE_RESULT_ERROR_INVALID_NULL_HANDLE, st)
             | Some e \<Rightarrow>
                 if eventState e = 0 then Some (Inr ZE_RESULT_ERROR_INVALID_NULL_HANDLE, st)
                 else l0_ok (appendCommand l (\<lambda>c. Inr (VPUEventResetCommand_create (eventState e) (Some (eventBase e)))))
                        (postAppend env l) st)"

text \<open>\<open>active\<close>: whether the query's group is activated.\<close>

definition appendMetricQueryBegin ::
  "l0_env \<Rightarrow> nat \<Rightarrow> bool \<Rightarrow> metric_query option \<Rightarrow> ('h, 'k, ze_result) l0_op" where
  "appendMetricQueryBegin env l active hMetricQuery =
     (case hMetricQuery of
        None \<Rightarrow> l0_ret ZE_RESULT_ERROR_INVALID_NULL_HANDLE
      | Some q \<Rightarrow>
          l0_ok (checkCommandAppendCondition env l)
            (if \<not> active then l0_ret ZE_RESULT_ERROR_DEPENDENCY_UNAVAILABLE
             else l0_ok (appendCommand l (\<lambda>c. Inr (VPUQueryBeginCommand_create (metricGroupMask q) (addrTablePtr q)
                           (Some (metricPoolBo q)))))
                    (postAppend env l)))"

definition appendMetricQueryEnd ::
  "l0_env \<Rightarrow> nat \<Rightarrow> bool \<Rightarrow> metric_query option \<Rightarrow> event_handle option \<Rightarrow> u32 \<Rightarrow> event_handle option list option
     \<Rightarrow> ('h, 'k, ze_result) l0_op" where
  "appendMetricQueryEnd env l active hMetricQuery sig n ws =
     (case hMetricQuery of
        None \<Rightarrow> l0_ret ZE_RESULT_ERROR_INVALID_NULL_HANDLE
      | Some q \<Rightarrow>
          if \<not> active then l0_ret ZE_RESULT_ERROR_DEPENDENCY_UNAVAILABLE
          else appendCommandWithEvents env l sig n ws
                 (\<lambda>c. Inr (VPUQueryEndCommand_create (metricGroupMask q) (addrTablePtr q) (Some (metricPoolBo q)))))"

section \<open>Mutable commands\<close>

text \<open>The descriptor: whether its flags are those of graph arguments; then the id.\<close>

definition getNextCommandId :: "nat \<Rightarrow> bool \<Rightarrow> ('h, 'k) l0 \<Rightarrow> ze_result \<times> u64 option" where
  "getNextCommandId l flags_ok st =
     (if \<not> isMutable (the_list st l) then (ZE_RESULT_ERROR_INVALID_ARGUMENT, None)
      else if closed (list_job st l) then (ZE_RESULT_ERROR_INVALID_ARGUMENT, None)
      else if \<not> flags_ok then (ZE_RESULT_ERROR_INVALID_ARGUMENT, None)
      else (ZE_RESULT_SUCCESS, Some (of_nat (getNumCommands (list_job st l)))))"

text \<open>
  The chain of descriptors behind \<open>pNext\<close>, as a list; the first limit of its elements stand for a
  cyclic chain. The maps of the updates are association lists; their order stands for the
  unspecified order of the source's maps. \<open>None\<close> in the state is -1.
\<close>

datatype mutable_desc = Graph_argument u64 u32 u64 | Argument_strides strides | Other_mutable

type_synonym command_updates = "(u64 \<times> (u32 \<times> argument_update) list) list"

definition change_argument ::
  "u32 \<Rightarrow> (argument_update \<Rightarrow> argument_update) \<Rightarrow> (u32 \<times> argument_update) list \<Rightarrow> (u32 \<times> argument_update) list" where
  "change_argument a f us =
     (case map_of us a of
        None \<Rightarrow> us @ [(a, f \<lparr>upd_ptr = None, upd_strides = None\<rparr>)]
      | Some u \<Rightarrow> map (\<lambda>(i, x). (i, if i = a then f x else x)) us)"

definition change_update ::
  "u64 \<Rightarrow> u32 \<Rightarrow> (argument_update \<Rightarrow> argument_update) \<Rightarrow> command_updates \<Rightarrow> command_updates" where
  "change_update cid a f m =
     (case map_of m cid of
        None \<Rightarrow> m @ [(cid, change_argument a f [])]
      | Some us \<Rightarrow> map (\<lambda>(i, x). (i, if i = cid then change_argument a f x else x)) m)"

text \<open>\<open>getCommandUpdates\<close>: \<open>Inr None\<close> is the empty result.\<close>

definition getCommandUpdates ::
  "(nat \<Rightarrow> nat option) \<Rightarrow> mutable_desc \<Rightarrow> command_updates \<Rightarrow> (u64 \<times> u32) option
     \<Rightarrow> exn + (command_updates \<times> (u64 \<times> u32) option) option" where
  "getCommandUpdates idMap d m prev =
     (case d of
        Graph_argument cid0 a ptr \<Rightarrow>
          let cid = (case idMap (unat cid0) of None \<Rightarrow> cid0 | Some i \<Rightarrow> of_nat i);
              m' = change_update cid a (\<lambda>u. u\<lparr>upd_ptr := Some ptr\<rparr>) m
          in if uint cid \<ge> 2 ^ 63 \<or> uint a \<ge> 2 ^ 31 then Inl Overflow_error else Inr (Some (m', Some (cid, a)))
      | Argument_strides str \<Rightarrow>
          (case prev of
             None \<Rightarrow> Inr None
           | Some (cid, a) \<Rightarrow> Inr (Some (change_update cid a (\<lambda>u. u\<lparr>upd_strides := Some str\<rparr>) m, None)))
      | Other_mutable \<Rightarrow> Inr None)"

text \<open>\<open>handleNestedStructs\<close>; \<open>Inr None\<close> is the result false.\<close>

fun gather_loop ::
  "(nat \<Rightarrow> nat option) \<Rightarrow> nat \<Rightarrow> mutable_desc list \<Rightarrow> command_updates \<Rightarrow> (u64 \<times> u32) option
     \<Rightarrow> exn + command_updates option" where
  "gather_loop idMap n [] m prev = Inr (Some m)"
| "gather_loop idMap n (d # ds) m prev =
     (if n \<ge> NESTED_STRUCTS_LIMIT then Inr None
      else (case getCommandUpdates idMap d m prev of
              Inl e \<Rightarrow> Inl e
            | Inr None \<Rightarrow> Inr None
            | Inr (Some (m', prev')) \<Rightarrow> gather_loop idMap (Suc n) ds m' prev'))"

definition gatherCommandUpdates ::
  "(nat \<Rightarrow> nat option) \<Rightarrow> mutable_desc list \<Rightarrow> exn + command_updates option" where
  "gatherCommandUpdates idMap ds = gather_loop idMap 0 ds [] None"

text \<open>The loop over the commands that are updated.\<close>

fun apply_updates :: "command_updates \<Rightarrow> 'h job \<Rightarrow> (exn + ze_result) \<times> 'h job" where
  "apply_updates [] j = (Inr ZE_RESULT_SUCCESS, j)"
| "apply_updates ((cid, us) # m) j =
     (case getCommand j (unat cid) of
        None \<Rightarrow> (Inr ZE_RESULT_ERROR_INVALID_ARGUMENT, j)
      | Some cmd \<Rightarrow>
          (case setUpdates us cmd of
             Inl e \<Rightarrow> (Inl e, j)
           | Inr (ok, cmd') \<Rightarrow>
               let j' = j\<lparr>commands := (commands j)[unat cid := cmd']\<rparr>
               in if ok then apply_updates m j' else (Inr ZE_RESULT_ERROR_INVALID_ARGUMENT, j')))"

text \<open>The descriptor: its flags, and the chain behind it.\<close>

definition updateMutableCommands ::
  "nat \<Rightarrow> u32 \<Rightarrow> mutable_desc list \<Rightarrow> ('h, 'k) l0 \<Rightarrow> (exn + ze_result) \<times> ('h, 'k) l0" where
  "updateMutableCommands l flags ds st =
     (let bad = (Inr ZE_RESULT_ERROR_INVALID_ARGUMENT, st); cl = the_list st l in
      if \<not> isMutable cl then bad
      else if flags \<noteq> 0 then bad
      else (case gatherCommandUpdates (commandIdMap cl) ds of
              Inl e \<Rightarrow> (Inl e, st)
            | Inr None \<Rightarrow> bad
            | Inr (Some m) \<Rightarrow>
                if m = [] then bad
                else (case apply_updates m (list_job st l) of
                        (r, j) \<Rightarrow> (r, st\<lparr>jobs := (jobs st)(vpuJob cl := j)\<rparr>))))"

end
