(* ===== verification/L0_Event_Props.thy ===== *)
theory L0_Event_Props
  imports L0_Event Context_Props
begin

text \<open>
  Properties of events: the slots of a pool are disjoint cells of its buffer, so the events are
  independent; the host's waiting for a metric event ends when its clock passes the timeout.
\<close>

section \<open>Pools\<close>

lemma read64_same [simp]: "read64 (write_bytes m a (enc64 v)) a = v"
proof -
  have "read_bytes (write_bytes m (a + of_nat 0) (enc64 v)) a 8 = overwrite (read_bytes m a 8) 0 (enc64 v)"
    by (rule read_write_within) simp_all
  then show ?thesis by (simp add: read64_def overwrite_def)
qed

definition pool_ok :: "event_pool \<Rightarrow> bool" where
  "pool_ok ep \<longleftrightarrow> bo_ok (pEventPool ep) \<and> basePtr (pEventPool ep) \<noteq> 0
     \<and> 64 * length (pool_events ep) \<le> unat (allocSize (pEventPool ep))
     \<and> (\<forall>i < length (pool_events ep). \<forall>e. pool_events ep ! i = Some e \<longrightarrow>
          eventState e = getEventCpuAddress ep i \<and> eventBase e = pEventPool ep
          \<and> eventVpuAddr e = getVPUAddr (pEventPool ep) (eventState e))"

lemma event_address:
  assumes "pool_ok ep" "i < length (pool_events ep)"
  shows "unat (getEventCpuAddress ep i) = unat (basePtr (pEventPool ep)) + 64 * i"
    "unat (basePtr (pEventPool ep)) + 64 * i + 64 \<le> unat (basePtr (pEventPool ep)) + unat (allocSize (pEventPool ep))"
    "isInRange (pEventPool ep) (getEventCpuAddress ep i)"
proof -
  let ?b = "pEventPool ep"
  have b: "unat (basePtr ?b) + unat (allocSize ?b) < 2 ^ 64" "64 * length (pool_events ep) \<le> unat (allocSize ?b)"
    using assms(1) by (auto simp: pool_ok_def bo_ok_def)
  then have l: "unat (basePtr ?b) + 64 * i < 2 ^ 64" "64 * i < 2 ^ 64" using assms(2) by linarith+
  have "event_size * of_nat i = of_nat (64 * i)" by (simp add: event_size_def)
  then have "unat (event_size * of_nat i) = 64 * i" using l(2) by (simp only: unat_of_nat_64)
  then show a: "unat (getEventCpuAddress ep i) = unat (basePtr ?b) + 64 * i"
    using l by (simp add: getEventCpuAddress_def unat_plus_64)
  show "unat (basePtr ?b) + 64 * i + 64 \<le> unat (basePtr ?b) + unat (allocSize ?b)" using b(2) assms(2) by linarith
  then show "isInRange ?b (getEventCpuAddress ep i)"
    using assms(1) a by (simp add: isInRange_iff pool_ok_def)
qed

lemma cells_apart:
  assumes "pool_ok ep" "i < length (pool_events ep)" "j < length (pool_events ep)" "i \<noteq> j"
  shows "read64 (write_bytes m (getEventCpuAddress ep i) (enc64 v)) (getEventCpuAddress ep j)
    = read64 m (getEventCpuAddress ep j)"
proof -
  have b: "unat (basePtr (pEventPool ep)) + unat (allocSize (pEventPool ep)) < 2 ^ 64"
    using assms(1) by (simp add: pool_ok_def bo_ok_def)
  have "i < j \<or> j < i" using assms(4) by linarith
  then show ?thesis
    unfolding read64_def
    by (subst read_write_other)
       (use b event_address[OF assms(1,2)] event_address[OF assms(1,3)] in \<open>auto\<close>)
qed

lemma find_event_pool:
  "pools st p = Some ep \<Longrightarrow> find_event st (Some (p, i)) = Some e \<longleftrightarrow> i < length (pool_events ep) \<and> pool_events ep ! i = Some e"
  by (simp add: find_event_def)

lemma event_value_set:
  assumes "pool_ok ep" "pools st p = Some ep" "find_event st (Some (p, i)) = Some e" "find_event st (Some (p, j)) = Some e'"
  shows "event_value e' (setEventState e v c) = (if i = j then v else event_value e' c)"
proof -
  have i: "i < length (pool_events ep)" "eventState e = getEventCpuAddress ep i"
    and j: "j < length (pool_events ep)" "eventState e' = getEventCpuAddress ep j"
    using assms by (auto simp: find_event_pool pool_ok_def)
  show ?thesis
    using cells_apart[OF assms(1) i(1) j(1)] by (simp add: event_value_def setEventState_def i j)
qed

lemma created_pool_ok:
  assumes "EventPool_create hc desc n phd phe st = Some (Inr (ZE_RESULT_SUCCESS, Some p), st')"
    and "pools st' p = Some ep" "bo_ok (pEventPool ep)" "basePtr (pEventPool ep) \<noteq> 0"
  shows "pool_ok ep"
proof -
  obtain cnt bo c where d: "desc = Some cnt" "cnt \<noteq> 0"
    and b: "createUntrackedBufferObject (dctx st) (event_size * ucast cnt) CachedFw = (Inr (Some bo), c)"
    and e: "ep = \<lparr>pEventPool = bo, pool_events = replicate (unat cnt) None\<rparr>"
    using assms(1,2)
    by (auto simp: EventPool_create_def Let_def split: if_splits option.splits prod.splits sum.splits)
  have "allocSize bo = event_size * ucast cnt"
    using b by (auto simp: createUntrackedBufferObject_def bo_create_def make_buffer_object_def Let_def
        split: if_splits prod.splits sum.splits option.splits)
  moreover have "unat (event_size * ucast cnt) = 64 * unat cnt"
  proof -
    have "(ucast cnt :: u64) = of_nat (unat cnt)"
      by (simp add: word_unat_eq_iff unat_of_nat unsigned_ucast_eq)
    then have "event_size * ucast cnt = of_nat (64 * unat cnt)" by (simp add: event_size_def)
    moreover have "unat cnt < 2 ^ 32" using unsigned_less[where 'a = nat, of cnt] by simp
    then have "64 * unat cnt < 2 ^ 64" by simp
    ultimately show ?thesis by (simp only: unat_of_nat_64)
  qed
  ultimately show ?thesis using assms(3,4) by (simp add: pool_ok_def e)
qed

text \<open>The events of a pool are independent. In a well-formed pool a successful \<open>createEvent\<close>
  returns the handle of the slot asked for, keeps the pool well-formed, and starts the new event as not
  ready; the other events of the pool stay, with their states; and in the resulting
  pool a change of the state of any event, by the host or at its device address, changes the state of that event and
  of no other.\<close>

theorem created_event_independent:
  assumes "pools st p = Some ep" "pool_ok ep"
    and "createEvent p (Some idx) True st = Some (Inr (ZE_RESULT_SUCCESS, h), st')"
  shows "h = Some (p, unat idx) \<and>
    (\<exists>ep' e. pools st' p = Some ep' \<and> pool_ok ep' \<and> find_event st' h = Some e \<and>
       state_result (event_value e (dctx st')) = ZE_RESULT_NOT_READY) \<and>
    (\<forall>i e. find_event st (Some (p, i)) = Some e \<longrightarrow>
       find_event st' (Some (p, i)) = Some e \<and> event_value e (dctx st') = event_value e (dctx st)) \<and>
    (\<forall>i j e e' v. find_event st' (Some (p, i)) = Some e \<and> find_event st' (Some (p, j)) = Some e' \<longrightarrow>
       event_value e' (setEventState e v (dctx st')) = (if i = j then v else event_value e' (dctx st')))"
proof -
  define i where "i = unat idx"
  define e where "e = \<lparr>eventState = getEventCpuAddress ep i, eventBase = pEventPool ep,
    eventVpuAddr = getVPUAddr (pEventPool ep) (getEventCpuAddress ep i),
    associatedJobs = [], msExpectedDataSize = 0, msGroupMask = 0\<rparr>"
  define ep' where "ep' = ep\<lparr>pool_events := (pool_events ep)[i := Some e]\<rparr>"
  define c where "c = setEventState e STATE_EVENT_INITIAL (take_ref (bo_id (pEventPool ep)) (dctx st))"
  have i: "i < length (pool_events ep)" "pool_events ep ! i = None" and h: "h = Some (p, i)"
    and st': "st' = put_event (p, i) (Some e) (st\<lparr>dctx := c\<rparr>)"
    using assms(1,3) by (auto simp: createEvent_def Let_def i_def e_def c_def split: if_splits)
  have p: "pools st' p = Some ep'" and d: "dctx st' = c"
    using assms(1) by (simp_all add: st' put_event_def ep'_def)
  have ok: "pool_ok ep'"
    using assms(2) i(1) by (auto simp: pool_ok_def ep'_def e_def getEventCpuAddress_def nth_list_update)
  have new: "find_event st' h = Some e" using i p by (simp add: find_event_def ep'_def h)
  moreover have "state_result (event_value e (dctx st')) = ZE_RESULT_NOT_READY"
    by (simp add: d c_def event_value_def setEventState_def state_result_def)
  moreover have "find_event st' (Some (p, k)) = Some x \<and> event_value x (dctx st') = event_value x (dctx st)"
    if "find_event st (Some (p, k)) = Some x" for k x
  proof -
    have k: "k < length (pool_events ep)" "pool_events ep ! k = Some x" "k \<noteq> i"
      using that i assms(1) by (auto simp: find_event_pool)
    then have f: "find_event st' (Some (p, k)) = Some x" by (simp add: find_event_pool[OF p] ep'_def)
    have "event_value x (setEventState e STATE_EVENT_INITIAL (take_ref (bo_id (pEventPool ep)) (dctx st)))
        = event_value x (take_ref (bo_id (pEventPool ep)) (dctx st))"
      using event_value_set[OF ok p new[unfolded h] f] k(3) by simp
    then show ?thesis
      using f by (simp add: d c_def event_value_def take_ref_def)
  qed
  ultimately show ?thesis
    using h ok p event_value_set[OF ok p] unfolding i_def by blast
qed

text \<open>A pool of three events, the second of them in use.\<close>

definition pool_bo :: buffer_object where
  "pool_bo = \<lparr>bo_location = Internal, bo_type = CachedFw, basePtr = 4096, allocSize = 192,
     vpuAddr = 0x80000000, handle = 7, bo_id = 9\<rparr>"

definition pool_event :: event_obj where
  "pool_event = \<lparr>eventState = 4160, eventBase = pool_bo, eventVpuAddr = 0x80000040, associatedJobs = [],
     msExpectedDataSize = 0, msGroupMask = 0\<rparr>"

definition sample_pool :: event_pool where
  "sample_pool = \<lparr>pEventPool = pool_bo, pool_events = [None, Some pool_event, None]\<rparr>"

definition sample_l0 :: "('h, null_dev) l0" where
  "sample_l0 = (new_l0 demo_ctx)\<lparr>pools := [5 \<mapsto> sample_pool]\<rparr>"

lemma sample_pool_ok: "pool_ok sample_pool"
proof -
  have "i = 1 \<and> e = pool_event" if "i < 3" "pool_events sample_pool ! i = Some e" for i e
    using that by (auto simp: sample_pool_def less_Suc_eq numeral_3_eq_3)
  moreover have "getEventCpuAddress sample_pool 1 = 4160" "getVPUAddr pool_bo 4160 = 0x80000040"
    by (simp_all add: getEventCpuAddress_def sample_pool_def pool_bo_def event_size_def getVPUAddr_def isInRange_def)
  moreover have "bo_ok pool_bo" "basePtr pool_bo \<noteq> 0" "unat (allocSize pool_bo) = 192"
    by (simp_all add: bo_ok_def pool_bo_def)
  moreover have "pEventPool sample_pool = pool_bo" "length (pool_events sample_pool) = 3"
    by (simp_all add: sample_pool_def)
  ultimately show ?thesis by (fastforce simp: pool_ok_def pool_event_def)
qed

lemma created_event_independent_witness:
  "\<exists>st' e. createEvent 5 (Some 2) True (sample_l0 :: (unit, null_dev) l0) = Some (Inr (ZE_RESULT_SUCCESS, Some (5, 2)), st') \<and>
     find_event st' (Some (5, 2)) = Some e \<and>
     event_value pool_event (setEventState e STATE_HOST_SIGNAL (dctx st')) = event_value pool_event (dctx st')"
proof -
  have p: "pools (sample_l0 :: (unit, null_dev) l0) 5 = Some sample_pool"
    and f: "find_event (sample_l0 :: (unit, null_dev) l0) (Some (5, 1)) = Some pool_event"
    by (simp_all add: sample_l0_def find_event_def sample_pool_def)
  obtain h st' where r: "createEvent 5 (Some 2) True (sample_l0 :: (unit, null_dev) l0) = Some (Inr (ZE_RESULT_SUCCESS, h), st')"
    using p by (simp add: createEvent_def sample_pool_def pool_bo_def getEventCpuAddress_def getVPUAddr_def
        isInRange_def event_size_def Let_def)
  note ind = created_event_independent[OF p sample_pool_ok r]
  then have h: "h = Some (5, 2)" by simp
  obtain e where e: "find_event st' (Some (5, 2)) = Some e" using ind unfolding h by blast
  have "find_event st' (Some (5, 1)) = Some pool_event" using ind f by blast
  then have "event_value pool_event (setEventState e STATE_HOST_SIGNAL (dctx st')) = event_value pool_event (dctx st')"
    using ind e by (metis numeral_eq_one_iff semiring_norm(85))
  then show ?thesis using r e unfolding h by blast
qed

section \<open>Waiting for metric data\<close>

lemma track_returns:
  fixes c :: "'k dev_ctx"
  assumes "clk k \<ge> timeOut"
  shows "n \<le> k \<Longrightarrow> \<exists>c'. track_loop clk timeOut e n c = Some c'"
proof (induction "k - n" arbitrary: n c)
  case 0
  then show ?case using assms by (subst track_loop.simps) (auto split: prod.splits option.splits)
next
  case (Suc d)
  have "\<exists>c'. track_loop clk timeOut e (Suc n) c1 = Some c'" for c1 :: "'k dev_ctx"
    by (rule Suc.hyps(1)) (use Suc.hyps(2) Suc.prems in auto)
  then show ?case by (subst track_loop.simps) (auto split: prod.splits option.splits)
qed

text \<open>C29: The host's query of an event always returns once its clock reaches the timeout: whatever the
  kernel answers to the metric streamer, for an event with or without metric data, and the result follows
  from the state that the event has then. A signaled event is never reported as not ready.\<close>

theorem query_returns:
  assumes "clk k \<ge> timeout"
  shows "\<exists>c'. event_queryStatus clk timeout e c = Some (state_result (event_value e c'), c') \<and>
    (STATE_DEVICE_SIGNAL \<le> event_value e c \<longrightarrow> c' = c)"
proof -
  have "\<exists>c'. trackMetricData clk timeout e c = Some c'"
    using track_returns[where n = 0 and clk = clk and k = k and e = e and c = c, OF assms] by (auto simp: trackMetricData_def)
  then show ?thesis by (auto simp: event_queryStatus_def)
qed

lemma query_returns_witness:
  "\<exists>r. event_queryStatus int 3 (setMetricTrackData 2 100 pool_event) demo_ctx = Some r"
  using query_returns[of 3 int 3 "setMetricTrackData 2 100 pool_event" demo_ctx] by auto

end
