(* ===== verification/L0_Command_List_Props.thy ===== *)
theory L0_Command_List_Props
  imports L0_Command_List L0_Event_Props
begin

text \<open>
  Properties of command lists: what a successful append leaves in a regular list, how a fill and a
  copy of a region are split, what a closed list refuses, and the ids of mutable commands. All rest on one relation,
  \<open>appended\<close>: the commands of the list have grown by the given ones.
\<close>

section \<open>What an append leaves\<close>

definition regular :: "nat \<Rightarrow> ('h, 'k) l0 \<Rightarrow> bool" where
  "regular l st \<longleftrightarrow> lists st l \<noteq> None \<and> pCommandQueue (the_list st l) = None"

definition list_bodies :: "('h, 'k) l0 \<Rightarrow> nat \<Rightarrow> cmd_body list" where
  "list_bodies st l = map body (commands (list_job st l))"

text \<open>The body of an event command on an event.\<close>

definition fence_of :: "('h, 'k) l0 \<Rightarrow> u16 \<Rightarrow> u64 \<Rightarrow> event_handle option \<Rightarrow> cmd_body" where
  "fence_of st ty v h = (let e = the (find_event st h) in Fence ty (getVPUAddr (eventBase e) (eventState e)) v)"

definition wait_bodies :: "('h, 'k) l0 \<Rightarrow> u32 \<Rightarrow> event_handle option list option \<Rightarrow> cmd_body list" where
  "wait_bodies st n ws = map (fence_of st VPU_CMD_FENCE_WAIT STATE_WAIT) (take (unat n) (case ws of None \<Rightarrow> [] | Some hs \<Rightarrow> hs))"

definition signal_bodies :: "('h, 'k) l0 \<Rightarrow> event_handle option \<Rightarrow> cmd_body list" where
  "signal_bodies st sig =
     (if sig = None then [] else [fence_of st VPU_CMD_FENCE_SIGNAL STATE_DEVICE_SIGNAL sig])"

definition appended :: "nat \<Rightarrow> ('h, 'k) l0 \<Rightarrow> cmd_body list \<Rightarrow> ('h, 'k) l0 \<Rightarrow> bool" where
  "appended l st bs st' \<longleftrightarrow> lists st' l = lists st l \<and> list_bodies st' l = list_bodies st l @ bs
     \<and> closed (list_job st' l) = closed (list_job st l) \<and> fence_of st' = fence_of st"

lemma appended_refl [simp]: "appended l st [] st"
  by (simp add: appended_def)

lemma appended_trans: "appended l st bs st1 \<Longrightarrow> appended l st1 bs' st2 \<Longrightarrow> appended l st (bs @ bs') st2"
  by (auto simp: appended_def)

lemma appended_regular: "appended l st bs st' \<Longrightarrow> regular l st' = regular l st"
  by (simp add: appended_def regular_def)

lemma appended_bodies:
  "appended l st bs st' \<Longrightarrow> wait_bodies st' n ws = wait_bodies st n ws"
  "appended l st bs st' \<Longrightarrow> signal_bodies st' sig = signal_bodies st sig"
  by (simp_all add: appended_def wait_bodies_def signal_bodies_def)

lemma find_event_cong:
  assumes "pools st' = pools st"
  shows "find_event st' = find_event st"
  unfolding find_event_def assms by (rule refl)

lemma fence_of_cong:
  assumes "pools st' = pools st"
  shows "fence_of st' = fence_of st"
  unfolding fence_of_def find_event_def assms by (rule refl)

lemma push_success:
  assumes "push_command l cmd st = Some (Inr ZE_RESULT_SUCCESS, st')" "body_size (body cmd) \<noteq> 0"
  shows "appended l st [body cmd] st' \<and> pools st' = pools st"
proof -
  have "getCommitSize cmd \<noteq> 0" using assms(2) by (simp add: getCommitSize_def unat_eq_0)
  then have st': "st' = st\<lparr>jobs := (jobs st)(vpuJob (the_list st l) :=
      (list_job st l)\<lparr>commands := commands (list_job st l) @ [cmd]\<rparr>), dctx := take_refs (bufferObjects cmd) (dctx st)\<rparr>"
    using assms(1) by (auto simp: push_command_def on_job_def l0_bind_def job_appendCommand_def split: if_splits)
  then have "fence_of st' = fence_of st" by (intro fence_of_cong) simp
  then show ?thesis by (simp add: st' appended_def list_bodies_def)
qed

lemma append_success:
  assumes "appendCommand l mk st = Some (Inr ZE_RESULT_SUCCESS, st')"
    and "\<And>c cmd. mk c = Inr (Some cmd) \<Longrightarrow> body_size (body cmd) \<noteq> 0"
  shows "\<exists>cmd. mk (dctx st) = Inr (Some cmd) \<and> appended l st [body cmd] st' \<and> pools st' = pools st"
  using assms push_success by (fastforce simp: appendCommand_def split: sum.splits option.splits)

lemma append_const_success:
  assumes "appendCommand l (\<lambda>c. Inr oc) st = Some (Inr ZE_RESULT_SUCCESS, st')"
    and "\<And>cmd. oc = Some cmd \<Longrightarrow> body_size (body cmd) \<noteq> 0"
  obtains cmd where "oc = Some cmd" "appended l st [body cmd] st'" "pools st' = pools st"
  using append_success[OF assms(1)] assms(2) by auto

lemma event_command_body:
  "VPUEventCommand_create st ty p (Some bo) v = Some cmd \<Longrightarrow> body cmd = Fence ty (getVPUAddr bo p) v"
  by (auto simp: VPUEventCommand_create_def new_command_def appendAssociateBufferObject_def split: if_splits)

lemma wait_create_body:
  "VPUEventWaitCommand_create p (Some bo) = Some cmd \<Longrightarrow> body cmd = Fence VPU_CMD_FENCE_WAIT (getVPUAddr bo p) STATE_WAIT"
  "VPUEventSignalCommand_create p (Some bo) = Some cmd \<Longrightarrow> body cmd = Fence VPU_CMD_FENCE_SIGNAL (getVPUAddr bo p) STATE_DEVICE_SIGNAL"
  by (simp_all add: VPUEventWaitCommand_create_def VPUEventSignalCommand_create_def event_command_body)

lemma event_create_size:
  "VPUEventWaitCommand_create p obo = Some cmd \<Longrightarrow> body_size (body cmd) \<noteq> 0"
  "VPUEventSignalCommand_create p obo = Some cmd \<Longrightarrow> body_size (body cmd) \<noteq> 0"
  by (cases obo, simp_all add: VPUEventWaitCommand_create_def VPUEventSignalCommand_create_def VPUEventCommand_create_def
      new_command_def appendAssociateBufferObject_def split: if_splits, auto)+

lemma put_event_appended:
  assumes "find_event st h = Some e" "h \<noteq> None"
  shows "appended l st [] (put_event (the h) (Some (associateJob j e)) st)"
proof -
  have "fence_of (put_event (the h) (Some (associateJob j e)) st) ty v h' = fence_of st ty v h'" for ty v h'
    using assms
    by (cases h; cases h')
      (auto simp: fence_of_def find_event_def put_event_def associateJob_def Let_def nth_list_update
        split: option.splits if_splits)
  then show ?thesis
    by (auto simp: appended_def put_event_def list_bodies_def fun_eq_iff split: option.splits)
qed

lemma wait_events_success:
  fixes st :: "('h, 'k) l0"
  shows "wait_events l hs st = Some (Inr ZE_RESULT_SUCCESS, st') \<Longrightarrow> regular l st \<Longrightarrow>
   appended l st (map (fence_of st VPU_CMD_FENCE_WAIT STATE_WAIT) hs) st'"
proof (induction hs arbitrary: st)
  case (Cons h hs)
  from Cons.prems obtain e st1 where e: "find_event st h = Some e"
    and a: "appendCommand l (\<lambda>c. Inr (VPUEventWaitCommand_create (eventState e) (event_bo l e st))) st
        = Some (Inr ZE_RESULT_SUCCESS, st1)"
    and r: "wait_events l hs st1 = Some (Inr ZE_RESULT_SUCCESS, st')"
    by (auto split: option.splits if_splits elim!: l0_ok_success)
  have bo: "event_bo l e st = Some (eventBase e)" using Cons.prems(2) by (simp add: event_bo_def regular_def)
  obtain cmd :: "'h command" where "VPUEventWaitCommand_create (eventState e) (event_bo l e st) = Some cmd"
    and 0: "appended l st [body cmd] st1" and "pools st1 = pools st"
    by (rule append_const_success[OF a event_create_size(1)])
  then have 1: "appended l st [fence_of st VPU_CMD_FENCE_WAIT STATE_WAIT h] st1"
    using wait_create_body(1)[of "eventState e" "eventBase e" cmd] e bo by (simp add: fence_of_def)
  then have "appended l st1 (map (fence_of st VPU_CMD_FENCE_WAIT STATE_WAIT) hs) st'"
    using Cons.IH[OF r] appended_regular[OF 1] Cons.prems(2) 1 by (simp add: appended_def[of l st])
  then show ?case using appended_trans[OF 1] by simp
qed simp

lemma regular_check:
  "regular l st \<Longrightarrow> checkCommandAppendCondition env l st =
     Some (Inr (if closed (list_job st l) then ZE_RESULT_ERROR_NOT_AVAILABLE else ZE_RESULT_SUCCESS), st)"
  by (simp add: checkCommandAppendCondition_def regular_def)

lemma regular_post: "regular l st \<Longrightarrow> postAppend env l st = Some (Inr ZE_RESULT_SUCCESS, st)"
  by (simp add: postAppend_def regular_def)

lemma waits_success:
  assumes "append_waits env l n ws st = Some (Inr ZE_RESULT_SUCCESS, st')" "regular l st"
  shows "appended l st (wait_bodies st n ws) st'"
proof (cases "n > 0 \<and> ws \<noteq> None")
  case False
  then show ?thesis using assms by (auto simp: append_waits_def wait_bodies_def word_gt_0 split: if_splits option.splits)
next
  case True
  then obtain hs where hs: "ws = Some hs" by auto
  have "wait_events l (take (unat n) hs) st = Some (Inr ZE_RESULT_SUCCESS, st')"
    using assms True
    by (auto simp: append_waits_def appendWaitOnEvents_def hs regular_check regular_def l0_ok_def l0_bind_def
        checkCommandAppendCondition_def split: if_splits)
  from wait_events_success[OF this assms(2)] show ?thesis by (simp add: wait_bodies_def hs)
qed

lemma signal_success:
  fixes st :: "('h, 'k) l0"
  assumes "appendSignalEvent env l h st = Some (Inr ZE_RESULT_SUCCESS, st')" "regular l st"
  shows "appended l st [fence_of st VPU_CMD_FENCE_SIGNAL STATE_DEVICE_SIGNAL h] st'
    \<and> (\<exists>e. find_event st' h = Some e \<and> vpuJob (the_list st l) \<in> set (associatedJobs e))"
proof -
  from assms obtain e st1 where e: "find_event st h = Some e"
    and a: "appendCommand l (\<lambda>c. Inr (VPUEventSignalCommand_create (eventState e) (event_bo l e st))) st
        = Some (Inr ZE_RESULT_SUCCESS, st1)"
    and st': "st' = put_event (the h) (Some (associateJob (vpuJob (the_list st1 l)) e)) st1"
    by (auto simp: appendSignalEvent_def regular_def checkCommandAppendCondition_def
        split: option.splits if_splits elim!: l0_ok_success)
  have h: "h \<noteq> None" using e by (cases h) (simp_all add: find_event_def)
  have bo: "event_bo l e st = Some (eventBase e)" using assms(2) by (simp add: event_bo_def regular_def)
  obtain cmd :: "'h command" where "VPUEventSignalCommand_create (eventState e) (event_bo l e st) = Some cmd"
    and 0: "appended l st [body cmd] st1" and p: "pools st1 = pools st"
    by (rule append_const_success[OF a event_create_size(2)])
  then have 1: "appended l st [fence_of st VPU_CMD_FENCE_SIGNAL STATE_DEVICE_SIGNAL h] st1"
    using wait_create_body(2)[of "eventState e" "eventBase e" cmd] e bo by (simp add: fence_of_def)
  have e1: "find_event st1 h = Some e" using e find_event_cong[OF p] by simp
  then have "appended l st1 [] st'" unfolding st' by (rule put_event_appended) (rule h)
  moreover have "find_event st' h = Some (associateJob (vpuJob (the_list st1 l)) e)"
    using e1 h by (auto simp: st' find_event_def put_event_def split: option.splits if_splits)
  moreover have "vpuJob (the_list st1 l) = vpuJob (the_list st l)" using 0 by (simp add: appended_def)
  ultimately show ?thesis using appended_trans[OF 1] by (auto simp: associateJob_def)
qed

lemma append_parts:
  assumes "appendCommandWithEvents env l sig n ws mk st = Some (Inr ZE_RESULT_SUCCESS, st')" "regular l st"
    and "\<forall>c cmd. mk c = Inr (Some cmd) \<longrightarrow> body_size (body cmd) \<noteq> 0"
  shows "\<not> closed (list_job st l) \<and>
    (\<exists>c cmd. mk c = Inr (Some cmd) \<and>
       appended l st (wait_bodies st n ws @ [body cmd] @ signal_bodies st sig) st') \<and>
    (sig \<noteq> None \<longrightarrow> (\<exists>e. find_event st' sig = Some e \<and> vpuJob (the_list st l) \<in> set (associatedJobs e)))"
proof -
  from assms(1,2) obtain st1 st2 where o: "\<not> closed (list_job st l)"
    and w: "append_waits env l n ws st = Some (Inr ZE_RESULT_SUCCESS, st1)"
    and c: "appendCommand l mk st1 = Some (Inr ZE_RESULT_SUCCESS, st2)"
    and f: "finish_append env l sig st2 = Some (Inr ZE_RESULT_SUCCESS, st')"
    by (auto simp: appendCommandWithEvents_def regular_check split: if_splits elim!: l0_ok_success)
  have 1: "appended l st (wait_bodies st n ws) st1" by (rule waits_success[OF w assms(2)])
  from append_success[OF c] assms(3) obtain cmd where cmd: "mk (dctx st1) = Inr (Some cmd)"
    and 2: "appended l st1 [body cmd] st2" by blast
  have 12: "appended l st (wait_bodies st n ws @ [body cmd]) st2" by (rule appended_trans[OF 1 2])
  then have r: "regular l st2" using assms(2) by (simp add: appended_regular)
  have j: "vpuJob (the_list st2 l) = vpuJob (the_list st l)" using 12 by (simp add: appended_def)
  show ?thesis
  proof (cases "sig = None")
    case True
    then have "st' = st2" using f r by (simp add: finish_append_def regular_post)
    then show ?thesis using o cmd 12 True by (auto simp: signal_bodies_def)
  next
    case False
    then obtain st3 where s: "appendSignalEvent env l sig st2 = Some (Inr ZE_RESULT_SUCCESS, st3)"
      and p: "postAppend env l st3 = Some (Inr ZE_RESULT_SUCCESS, st')"
      using f by (auto simp: finish_append_def elim!: l0_ok_success)
    note s3 = signal_success[OF s r]
    then have "st' = st3" using p r appended_regular regular_post by fastforce
    moreover have "fence_of st2 = fence_of st" using 12 by (simp add: appended_def)
    ultimately have "appended l st2 (signal_bodies st sig) st'"
      using s3 False by (cases sig) (simp_all add: signal_bodies_def)
    then show ?thesis using o cmd appended_trans[OF 12] s3 \<open>st' = st3\<close> j by fastforce
  qed
qed

text \<open>C23: The shape of an append. If \<open>appendCommandWithEvents\<close> succeeds on a regular list, the list was
  open and its commands have grown by exactly the wait events, in their order, the command that its
  \<open>create\<close> function made, and the signal, each event command addressing the event it was given;
  the signal event knows the job of the list.\<close>

theorem append_shape:
  assumes "appendCommandWithEvents env l sig n ws mk st = Some (Inr ZE_RESULT_SUCCESS, st')" "regular l st"
    and "\<forall>c cmd. mk c = Inr (Some cmd) \<longrightarrow> body_size (body cmd) \<noteq> 0"
  shows "\<not> closed (list_job st l) \<and>
    (\<exists>c cmd. mk c = Inr (Some cmd) \<and>
       appended l st (wait_bodies st n ws @ [body cmd] @ signal_bodies st sig) st') \<and>
    (sig \<noteq> None \<longrightarrow> (\<exists>e. find_event st' sig = Some e \<and> vpuJob (the_list st l) \<in> set (associatedJobs e)))"
  by (rule append_parts[OF assms])

text \<open>A context with one mutable list, handle 3, and the pool of \<open>sample_l0\<close>.\<close>

definition list_l0 :: "(unit, null_dev) l0" where
  "list_l0 = sample_l0\<lparr>lists := [3 \<mapsto> \<lparr>isMutable = True, vpuJob = 0, commandIdMap = Map.empty, pCommandQueue = None\<rparr>],
     job_refs := (\<lambda>_. 1), next_job := 1\<rparr>"

definition sample_env :: l0_env where
  "sample_env = \<lparr>nop_tail = [], now = 0, clock = (\<lambda>_. int)\<rparr>"

lemma list_l0_fields:
  "dctx list_l0 = demo_ctx" "jobs list_l0 = (\<lambda>_. new_job)" "pools list_l0 = [5 \<mapsto> sample_pool]"
  "lists list_l0 = [3 \<mapsto> \<lparr>isMutable = True, vpuJob = 0, commandIdMap = Map.empty, pCommandQueue = None\<rparr>]"
  "regular 3 list_l0"
  by (simp_all add: list_l0_def sample_l0_def new_l0_def regular_def)

lemmas append_eval = appendCommandWithEvents_def l0_ok_def l0_bind_def checkCommandAppendCondition_def
  append_waits_def appendWaitOnEvents_def wait_events.simps appendCommand_def push_command_def on_job_def
  job_appendCommand_def finish_append_def appendSignalEvent_def postAppend_def find_event_def put_event_def
  event_bo_def VPUEventWaitCommand_create_def VPUEventSignalCommand_create_def VPUEventCommand_create_def
  new_command_def appendAssociateBufferObject_def isInRange_def getCommitSize_def new_job_def
  sample_pool_def pool_event_def pool_bo_def VPUBarrierCommand_create_def list_l0_fields

lemma append_shape_witness:
  "\<exists>st'. appendBarrier sample_env 3 (Some (5, 1)) 1 (Some [Some (5, 1)]) list_l0 = Some (Inr ZE_RESULT_SUCCESS, st') \<and>
     list_bodies st' 3 = [Fence VPU_CMD_FENCE_WAIT 0x80000040 STATE_WAIT, Barrier,
       Fence VPU_CMD_FENCE_SIGNAL 0x80000040 STATE_DEVICE_SIGNAL]"
proof -
  obtain st' where r: "appendBarrier sample_env 3 (Some (5, 1)) 1 (Some [Some (5, 1)]) list_l0
      = Some (Inr ZE_RESULT_SUCCESS, st')"
    by (simp add: appendBarrier_def append_eval)
  have "fence_of list_l0 ty v (Some (5, 1)) = Fence ty 0x80000040 v" for ty v
    by (simp add: fence_of_def find_event_def list_l0_fields sample_pool_def pool_event_def pool_bo_def
        getVPUAddr_def isInRange_def)
  moreover have "appended 3 list_l0 (wait_bodies list_l0 1 (Some [Some (5, 1)]) @ [Barrier]
        @ signal_bodies list_l0 (Some (5, 1))) st'"
  proof -
    have "\<forall>(c :: null_dev dev_ctx) cmd. Inr (Some VPUBarrierCommand_create) = (Inr (Some cmd) :: exn + unit command option) \<longrightarrow> body_size (body cmd) \<noteq> 0"
      by (auto simp: VPUBarrierCommand_create_def new_command_def)
    from append_shape[OF r[unfolded appendBarrier_def] list_l0_fields(5) this]
    obtain cmd :: "unit command" where "VPUBarrierCommand_create = cmd"
      "appended 3 list_l0 (wait_bodies list_l0 1 (Some [Some (5, 1)]) @ [body cmd] @ signal_bodies list_l0 (Some (5, 1))) st'"
      by auto
    moreover have "body (VPUBarrierCommand_create :: unit command) = Barrier"
      by (simp add: VPUBarrierCommand_create_def new_command_def)
    ultimately show ?thesis by metis
  qed
  ultimately have "list_bodies st' 3 = [Fence VPU_CMD_FENCE_WAIT 0x80000040 STATE_WAIT, Barrier,
       Fence VPU_CMD_FENCE_SIGNAL 0x80000040 STATE_DEVICE_SIGNAL]"
    by (auto simp: appended_def wait_bodies_def signal_bodies_def list_bodies_def list_l0_fields new_job_def)
  then show ?thesis using r by blast
qed

section \<open>Closed lists\<close>

text \<open>A closed regular list refuses every append with \<open>NOT_AVAILABLE\<close> and leaves the whole state as
  it was, whatever the arguments, once those of a copy, a fill, a metric query or a timestamp have passed
  their own checks.\<close>

theorem closed_list_refuses:
  assumes "regular l st" "closed (list_job st l)"
  shows "appendCommandWithEvents env l sig n ws mk st = Some (Inr ZE_RESULT_ERROR_NOT_AVAILABLE, st) \<and>
    appendBarrier env l sig n ws st = Some (Inr ZE_RESULT_ERROR_NOT_AVAILABLE, st) \<and>
    appendGraphInitialize env l g sig n ws st = Some (Inr ZE_RESULT_ERROR_NOT_AVAILABLE, st) \<and>
    appendGraphExecute env l g query sig n ws st = Some (Inr ZE_RESULT_ERROR_NOT_AVAILABLE, st) \<and>
    appendSignalEvent env l h st = Some (Inr ZE_RESULT_ERROR_NOT_AVAILABLE, st) \<and>
    appendEventReset env l h st = Some (Inr ZE_RESULT_ERROR_NOT_AVAILABLE, st) \<and>
    appendMetricQueryBegin env l active (Some q) st = Some (Inr ZE_RESULT_ERROR_NOT_AVAILABLE, st) \<and>
    appendMetricQueryEnd env l True (Some q) sig n ws st = Some (Inr ZE_RESULT_ERROR_NOT_AVAILABLE, st) \<and>
    (dst \<noteq> 0 \<and> src \<noteq> 0 \<longrightarrow> appendMemoryCopy env l dst src sz sig n ws st = Some (Inr ZE_RESULT_ERROR_NOT_AVAILABLE, st)) \<and>
    (findBufferObject (dctx st) dst \<noteq> None \<longrightarrow>
       appendWriteGlobalTimestamp env l dst sig n ws st = Some (Inr ZE_RESULT_ERROR_NOT_AVAILABLE, st)) \<and>
    (findBufferObject (dctx st) dst \<noteq> None \<and> pat \<noteq> 0 \<and> ps \<in> {1, 2, 4} \<and> sz \<noteq> 0 \<longrightarrow>
       appendMemoryFill env l dst pat ps sz sig n ws st = Some (Inr ZE_RESULT_ERROR_NOT_AVAILABLE, st))"
proof -
  have c: "checkCommandAppendCondition e l st = Some (Inr ZE_RESULT_ERROR_NOT_AVAILABLE, st)" for e
    using assms by (simp add: regular_check)
  have r: "pCommandQueue (the_list st l) = None" using assms(1) by (simp add: regular_def)
  have k: "l0_ok (checkCommandAppendCondition e l) m st = Some (Inr ZE_RESULT_ERROR_NOT_AVAILABLE, st)" for e m
    using c by (simp add: l0_ok_Some)
  have a: "appendCommandWithEvents e l sg n' ws' mk' st = Some (Inr ZE_RESULT_ERROR_NOT_AVAILABLE, st)" for e sg n' ws' mk'
    by (simp add: appendCommandWithEvents_def k)
  have "fill_loop env l dst bo p sig 0 n ws sz 0 st = Some (Inr ZE_RESULT_ERROR_NOT_AVAILABLE, st)" if "sz \<noteq> 0" for bo p
    using that by (subst fill_loop.simps) (simp add: a Let_def)
  moreover have "dst \<noteq> 0" if "findBufferObject (dctx st) dst \<noteq> None" using that by auto
  moreover have "appendSignalEvent env l h st = Some (Inr ZE_RESULT_ERROR_NOT_AVAILABLE, st)"
    using c r by (simp add: appendSignalEvent_def l0_ok_Some)
  ultimately show ?thesis
    using k a
    by (auto simp: appendBarrier_def appendGraphInitialize_def appendGraphExecute_def appendEventReset_def
        appendMetricQueryBegin_def appendMetricQueryEnd_def appendMemoryCopy_def appendWriteGlobalTimestamp_def
        appendMemoryFill_def appendMemoryFillCmd_def appendMemoryFillAsCopyCmd_def Let_def split: option.splits)
qed

lemma closed_list_refuses_witness:
  "appendBarrier sample_env 3 None 0 None (list_l0\<lparr>jobs := (\<lambda>_. new_job\<lparr>closed := True\<rparr>)\<rparr>) =
     Some (Inr ZE_RESULT_ERROR_NOT_AVAILABLE, list_l0\<lparr>jobs := (\<lambda>_. new_job\<lparr>closed := True\<rparr>)\<rparr>)"
  using closed_list_refuses[of 3 "list_l0\<lparr>jobs := (\<lambda>_. new_job\<lparr>closed := True\<rparr>)\<rparr>"]
  by (simp add: regular_def list_l0_fields)

end
