(* ===== verification/L0_Copy_Props.thy ===== *)
theory L0_Copy_Props
  imports L0_Command_List_Props
begin

text \<open>
  How a command list splits a fill into bounded pieces, and a copy of a region into rows.
\<close>

section \<open>Fills\<close>

text \<open>Pieces, each an offset and a size, that follow each other from one offset to another.\<close>

fun pieces :: "nat \<Rightarrow> (u64 \<times> u64) list \<Rightarrow> nat \<Rightarrow> bool" where
  "pieces a [] b \<longleftrightarrow> a = b"
| "pieces a ((p, s) # ps) b \<longleftrightarrow> unat p = a \<and> 0 < unat s \<and> unat s \<le> 8388608 \<and> pieces (a + unat s) ps b"

definition fill_body :: "buffer_object \<Rightarrow> u64 \<Rightarrow> u32 \<Rightarrow> u64 \<times> u64 \<Rightarrow> cmd_body" where
  "fill_body bo p pat = (\<lambda>(off, s). Memory_fill (getVPUAddr bo (p + off)) s pat)"

lemma FILL_SIZE_LIMIT_unat: "unat FILL_SIZE_LIMIT = 8388608"
  by (simp add: FILL_SIZE_LIMIT_def)

lemma fill_create_body:
  "VPUFillCommand_create (p + off) bo s pat = Some cmd \<Longrightarrow> body cmd = fill_body bo p pat (off, s)"
  by (auto simp: VPUFillCommand_create_def new_command_def appendAssociateBufferObject_def fill_body_def split: if_splits)

lemma no_waits [simp]: "wait_bodies st n None = []"
  by (simp add: wait_bodies_def)

lemma no_signal [simp]: "signal_bodies st None = []"
  by (simp add: signal_bodies_def)

lemma append_commands_success:
  fixes st :: "('h, 'k) l0"
  assumes "appendCommandWithEvents env l sig n ws mk st = Some (Inr ZE_RESULT_SUCCESS, st')" "regular l st"
    and "\<And>c cmd. mk c = Inr (Some cmd) \<Longrightarrow> body cmd = b" "body_size b \<noteq> 0"
  shows "appended l st (wait_bodies st n ws @ [b] @ signal_bodies st sig) st'"
  using append_parts[OF assms(1,2)] assms(3,4) by force

lemma fill_step:
  assumes "sizeLeft \<noteq> 0"
  shows "0 < unat (min sizeLeft FILL_SIZE_LIMIT)" "unat (min sizeLeft FILL_SIZE_LIMIT) \<le> 8388608"
    "unat (min sizeLeft FILL_SIZE_LIMIT) \<le> unat sizeLeft"
    "unat (sizeLeft - min sizeLeft FILL_SIZE_LIMIT) = unat sizeLeft - unat (min sizeLeft FILL_SIZE_LIMIT)"
    "sizeLeft \<le> FILL_SIZE_LIMIT \<longleftrightarrow> sizeLeft - min sizeLeft FILL_SIZE_LIMIT = 0"
proof -
  let ?f = "min sizeLeft FILL_SIZE_LIMIT"
  have f: "?f = sizeLeft \<or> ?f = FILL_SIZE_LIMIT" by (simp add: min_def)
  have le: "?f \<le> sizeLeft" "?f \<le> FILL_SIZE_LIMIT" by simp_all
  show "0 < unat ?f" using assms f by (auto simp: unat_gt_0 FILL_SIZE_LIMIT_def)
  show "unat ?f \<le> 8388608" using le(2) by (simp only: word_le_nat_alt FILL_SIZE_LIMIT_unat)
  show l: "unat ?f \<le> unat sizeLeft" using le(1) by (simp only: word_le_nat_alt)
  show "unat (sizeLeft - ?f) = unat sizeLeft - unat ?f" using le(1) by (simp add: unat_sub)
  show "sizeLeft \<le> FILL_SIZE_LIMIT \<longleftrightarrow> sizeLeft - ?f = 0" using f by (auto simp: min_def)
qed

lemma fill_loop_success:
  fixes st :: "('h, 'k) l0"
  shows "fill_loop env l p bo pat sig k n ws sz off st = Some (Inr ZE_RESULT_SUCCESS, st') \<Longrightarrow> regular l st
    \<Longrightarrow> sz \<noteq> 0 \<Longrightarrow> unat off + unat sz < 2 ^ 64 \<Longrightarrow>
    \<exists>ps. pieces (unat off) ps (unat off + unat sz)
      \<and> appended l st (wait_bodies st n ws @ map (fill_body bo p pat) ps @ signal_bodies st sig) st'"
proof (induction env l p bo pat sig k n ws sz off st rule: fill_loop.induct)
  case (1 env l p bo pat sig k n ws sz off st)
  let ?f = "min sz FILL_SIZE_LIMIT"
  note step = fill_step[OF 1(4)]
  from 1(2,4) obtain st1 where
    a: "appendCommandWithEvents (env_at k env) l (if sz \<le> FILL_SIZE_LIMIT then sig else None) n ws
        (\<lambda>c. Inr (VPUFillCommand_create (p + off) bo ?f pat)) st = Some (Inr ZE_RESULT_SUCCESS, st1)"
    and r: "fill_loop env l p bo pat sig (Suc k) 0 None (sz - ?f) (off + ?f) st1 = Some (Inr ZE_RESULT_SUCCESS, st')"
    by (subst (asm) fill_loop.simps) (auto simp: Let_def split: option.splits sum.splits prod.splits if_splits)
  have 0: "appended l st (wait_bodies st n ws @ [fill_body bo p pat (off, ?f)]
      @ signal_bodies st (if sz \<le> FILL_SIZE_LIMIT then sig else None)) st1"
    by (rule append_commands_success[OF a 1(3)]) (auto dest: fill_create_body simp: fill_body_def)
  show ?case
  proof (cases "sz - ?f = 0")
    case True
    then have "st' = st1" using r by (simp add: fill_loop.simps)
    moreover have "pieces (unat off) [(off, ?f)] (unat off + unat sz)"
      using step True by simp
    ultimately show ?thesis using 0 step(5) True by (intro exI[of _ "[(off, ?f)]"]) simp
  next
    case False
    have o: "unat (off + ?f) = unat off + unat ?f" using 1(5) step(3) by (simp add: unat_plus_64)
    have r1: "regular l st1" using appended_regular[OF 0] 1(3) by simp
    have "\<exists>ps. pieces (unat (off + ?f)) ps (unat (off + ?f) + unat (sz - ?f))
      \<and> appended l st1 (wait_bodies st1 0 None @ map (fill_body bo p pat) ps @ signal_bodies st1 sig) st'"
      using 1(1)[OF 1(4) refl a refl refl _ r r1 False] o step 1(5) by simp
    then obtain ps where ps: "pieces (unat off + unat ?f) ps (unat off + unat sz)"
      and 2: "appended l st1 (map (fill_body bo p pat) ps @ signal_bodies st sig) st'"
      using o step appended_bodies(2)[OF 0] by auto
    have "appended l st (wait_bodies st n ws @ map (fill_body bo p pat) ((off, ?f) # ps) @ signal_bodies st sig) st'"
      using appended_trans[OF 0 2] step(5) False by simp
    moreover have "pieces (unat off) ((off, ?f) # ps) (unat off + unat sz)" using ps step by simp
    ultimately show ?thesis by blast
  qed
qed

text \<open>C25: A fill covers its region. When \<open>appendMemoryFillCmd\<close> succeeds on a regular list, a fill of
  no bytes has changed nothing (neither waits nor the signal are appended); otherwise the list has grown by the waits, one
  fill for each of a sequence of pieces of at most 8 MB that covers the bytes from the first to the
  last without gap or overlap, and then the signal.\<close>

theorem fill_covers_region:
  assumes "appendMemoryFillCmd env l p pattern patternSize sz sig n ws st = Some (Inr ZE_RESULT_SUCCESS, st')"
    and "regular l st"
  shows "(sz = 0 \<and> st' = st) \<or>
    (sz \<noteq> 0 \<and> (\<exists>bo ps. findBufferObject (dctx st) p = Some bo \<and> pieces 0 ps (unat sz) \<and>
       appended l st (wait_bodies st n ws @
         map (fill_body bo p (fill_pattern_of (mem (ctx_world (dctx st))) pattern patternSize)) ps @
         signal_bodies st sig) st'))"
proof -
  from assms(1) obtain bo where bo: "findBufferObject (dctx st) p = Some bo"
    and r: "fill_loop env l p bo (fill_pattern_of (mem (ctx_world (dctx st))) pattern patternSize) sig 0 n ws sz 0 st
      = Some (Inr ZE_RESULT_SUCCESS, st')"
    by (auto simp: appendMemoryFillCmd_def split: if_splits option.splits)
  show ?thesis
  proof (cases "sz = 0")
    case True
    then show ?thesis using r by (simp add: fill_loop.simps)
  next
    case False
    then show ?thesis using fill_loop_success[OF r assms(2) False] bo unat_lt_64[of sz] by auto
  qed
qed

text \<open>A context whose buffer at 0x10000 has 16 MB.\<close>

definition big_bo :: buffer_object where
  "big_bo = demo_bo\<lparr>allocSize := 0x1000000\<rparr>"

definition copy_l0 :: "(unit, null_dev) l0" where
  "copy_l0 = list_l0\<lparr>dctx := demo_ctx\<lparr>trackedBuffers := [(0x10000, big_bo)]\<rparr>\<rparr>"

lemma copy_l0_fields:
  "regular 3 copy_l0" "jobs copy_l0 = (\<lambda>_. new_job)" "lists copy_l0 = lists list_l0" "pools copy_l0 = pools list_l0"
  "hwInfo (dctx copy_l0) = hwInfo demo_ctx" "trackedBuffers (dctx copy_l0) = [(0x10000, big_bo)]"
  by (simp_all add: copy_l0_def regular_def list_l0_fields)

lemma copy_l0_find: "isInRange big_bo q \<Longrightarrow> findBufferObject (dctx copy_l0) q = Some big_bo"
  by (auto simp: findBufferObject_def copy_l0_fields isInRange_def big_bo_def demo_bo_def Let_def split: if_splits)

lemma copy_signal:
  "signal_bodies copy_l0 (Some (5, 1)) = [Fence VPU_CMD_FENCE_SIGNAL 0x80000040 STATE_DEVICE_SIGNAL]"
  by (simp add: signal_bodies_def fence_of_def find_event_def copy_l0_fields list_l0_fields sample_pool_def
      pool_event_def pool_bo_def getVPUAddr_def isInRange_def)

lemma copy_empty: "list_bodies copy_l0 3 = []"
  by (simp add: list_bodies_def copy_l0_fields new_job_def)

lemma fill_covers_region_witness:
  "\<exists>st' ps. appendMemoryFillCmd sample_env 3 0x10000 0x10000 4 0x900000 (Some (5, 1)) 0 None copy_l0 = Some (Inr ZE_RESULT_SUCCESS, st') \<and>
     pieces 0 ps 0x900000 \<and>
     list_bodies st' 3 = map (fill_body big_bo 0x10000 (fill_pattern_of (mem (ctx_world (dctx copy_l0))) 0x10000 4)) ps @
       [Fence VPU_CMD_FENCE_SIGNAL 0x80000040 STATE_DEVICE_SIGNAL]"
proof -
  have f: "findBufferObject (dctx copy_l0) 0x10000 = Some big_bo"
    by (rule copy_l0_find) (simp_all add: isInRange_def big_bo_def demo_bo_def)
  obtain st' where r: "appendMemoryFillCmd sample_env 3 0x10000 0x10000 4 0x900000 (Some (5, 1)) 0 None copy_l0
      = Some (Inr ZE_RESULT_SUCCESS, st')"
    unfolding appendMemoryFillCmd_def f
    by (simp add: fill_loop.simps FILL_SIZE_LIMIT_def append_eval copy_l0_fields VPUFillCommand_create_def
        big_bo_def demo_bo_def min_def)
  show ?thesis
    using fill_covers_region[OF r copy_l0_fields(1)] f r by (auto simp: appended_def copy_signal[unfolded One_nat_def] copy_empty)
qed

section \<open>Regions\<close>

definition row_body :: "u32 \<Rightarrow> cmd_body" where
  "row_body w = Copy_buffer 0 (ucast ((ucast w + COPY_SIZE_LIMIT - 1) div COPY_SIZE_LIMIT))"

lemma copy_create_body:
  assumes "VPUCopyCommand_create c src sbo dst dbo (ucast w) = Inr (Some cmd)"
  shows "body cmd = row_body w"
  using assms
  by (auto simp: VPUCopyCommand_create_def getCopyCommandDescriptor_def fillDescriptor_def appendAssociateBufferObject_def
      new_command_def row_body_def safe_cast_u32_def split: option.splits if_splits sum.splits)

lemma region_loop_success:
  fixes st :: "('h, 'k) l0"
  shows "region_loop env l dst dr dp src sr sp sig n ws ys st = Some (Inr ZE_RESULT_SUCCESS, st') \<Longrightarrow> regular l st \<Longrightarrow>
    appended l st (concat (map (\<lambda>_. wait_bodies st n ws @ [row_body (region_width dr)] @ signal_bodies st sig) ys)) st'"
proof (induction ys arbitrary: st)
  case (Cons y ys)
  obtain st1 mk where
    a: "appendCommandWithEvents (env_at y env) l sig n ws mk st = Some (Inr ZE_RESULT_SUCCESS, st1)"
    and mk: "mk = (\<lambda>c. VPUCopyCommand_create c (src + row_offset sr sp (of_nat y))
        (findBufferObject (dctx st) (src + row_offset sr sp (of_nat y))) (dst + row_offset dr dp (of_nat y))
        (findBufferObject (dctx st) (dst + row_offset dr dp (of_nat y))) (ucast (region_width dr)))"
    and r: "region_loop env l dst dr dp src sr sp sig n ws ys st1 = Some (Inr ZE_RESULT_SUCCESS, st')"
    using Cons.prems(1) by (auto simp: Let_def elim!: l0_ok_success)
  have 1: "appended l st (wait_bodies st n ws @ [row_body (region_width dr)] @ signal_bodies st sig) st1"
    by (rule append_commands_success[OF a Cons.prems(2)]) (auto simp: mk row_body_def dest: copy_create_body)
  have "regular l st1" using appended_regular[OF 1] Cons.prems(2) by simp
  from appended_trans[OF 1 Cons.IH[OF r this, unfolded appended_bodies[OF 1]]] show ?case by simp
qed simp

text \<open>The rows of a region. When \<open>appendMemoryCopyRegion\<close> succeeds on a regular list, the list
  has grown by one copy command for each row of the region, and the waits and the signal are repeated around every
  one of them: with two rows or more the event is signaled when the first row has been copied.\<close>

theorem region_signals_each_row:
  assumes "appendMemoryCopyRegion env l dst (Some dr) dp dsp src (Some sr) sp ssp sig n ws st = Some (Inr ZE_RESULT_SUCCESS, st')"
    and "regular l st"
  shows "region_width dr = region_width sr \<and> region_height dr = region_height sr \<and> region_width dr \<le> dp \<and>
    appended l st (concat (replicate (unat (region_height dr))
      (wait_bodies st n ws @ [row_body (region_width dr)] @ signal_bodies st sig))) st'"
proof -
  have w: "region_width dr = region_width sr" "region_height dr = region_height sr" "region_width dr \<le> dp"
    and r: "region_loop env l dst dr dp src sr sp sig n ws [0..<unat (region_height dr)] st
      = Some (Inr ZE_RESULT_SUCCESS, st')"
    using assms(1) by (auto simp: appendMemoryCopyRegion_def not_less split: if_splits)
  from region_loop_success[OF r assms(2)] show ?thesis using w(3) by (simp add: w(1,2) map_replicate_const)
qed

lemma rows: "[0..<2] = [0::nat, 1]"
  by (simp add: upt_conv_Cons)

lemma region_signals_each_row_witness:
  "\<exists>st'. appendMemoryCopyRegion sample_env 3 0x20000 (Some \<lparr>originX = 0, originY = 0, originZ = 0, region_width = 16,
        region_height = 2, region_depth = 1\<rparr>) 64 0 0x10000 (Some \<lparr>originX = 4, originY = 1, originZ = 0, region_width = 16,
        region_height = 2, region_depth = 1\<rparr>) 32 0 (Some (5, 1)) 0 None copy_l0 = Some (Inr ZE_RESULT_SUCCESS, st') \<and>
     list_bodies st' 3 = [Copy_buffer 0 1, Fence VPU_CMD_FENCE_SIGNAL 0x80000040 STATE_DEVICE_SIGNAL,
       Copy_buffer 0 1, Fence VPU_CMD_FENCE_SIGNAL 0x80000040 STATE_DEVICE_SIGNAL]"
proof -
  let ?dr = "\<lparr>originX = 0, originY = 0, originZ = 0, region_width = 16, region_height = 2, region_depth = 1\<rparr>"
  let ?sr = "\<lparr>originX = 4, originY = 1, originZ = 0, region_width = 16, region_height = 2, region_depth = 1\<rparr>"
  obtain st' where r: "appendMemoryCopyRegion sample_env 3 0x20000 (Some ?dr) 64 0 0x10000 (Some ?sr) 32 0 (Some (5, 1)) 0 None copy_l0
      = Some (Inr ZE_RESULT_SUCCESS, st')"
    by (simp add: appendMemoryCopyRegion_def row_offset_def rows)
      (simp add: append_eval associateJob_def copy_l0_fields findBufferObject_def take_refs_def take_ref_def Let_def
        row_offset_def VPUCopyCommand_create_def getCopyCommandDescriptor_def fillDescriptor_def big_bo_def demo_bo_def
        getVPUAddr_def demo_ctx_def new_ctx_def safe_cast_u32_def COPY_SIZE_LIMIT_def getHwInfo40xx_def
        default_hw_info_def copy_l0_def list_l0_def sample_l0_def new_l0_def)
  have c: "[row_body 16] = [Copy_buffer 0 1]" by (simp add: row_body_def COPY_SIZE_LIMIT_def)
  have "list_bodies st' 3 = list_bodies copy_l0 3 @ concat (replicate 2
      (wait_bodies copy_l0 0 None @ [row_body 16] @ signal_bodies copy_l0 (Some (5, 1))))"
    using region_signals_each_row[OF r copy_l0_fields(1)] by (simp add: appended_def)
  then have "list_bodies st' 3 = [Copy_buffer 0 1, Fence VPU_CMD_FENCE_SIGNAL 0x80000040 STATE_DEVICE_SIGNAL,
       Copy_buffer 0 1, Fence VPU_CMD_FENCE_SIGNAL 0x80000040 STATE_DEVICE_SIGNAL]"
    unfolding copy_signal copy_empty c no_waits by (simp add: numeral_2_eq_2)
  with r show ?thesis by blast
qed

end
