(* ===== verification/L0_Execute_Props.thy ===== *)
theory L0_Execute_Props
  imports L0_Copy_Props Device_Queue_Props
begin

text \<open>
  Properties of the execution of command lists: which jobs a queue tracks afterwards; of the ids of
  mutable commands; and of immediate command lists.
\<close>

section \<open>What submission leaves alone\<close>

text \<open>The states before and after agree on the lists, the owners of the jobs, what queue \<open>q\<close> tracks
  and all jobs except \<open>j\<close>.\<close>

definition same_but :: "nat \<Rightarrow> nat \<Rightarrow> ('h, 'k) l0 \<Rightarrow> ('h, 'k) l0 \<Rightarrow> bool" where
  "same_but q j st st' \<longleftrightarrow> lists st' = lists st \<and> job_refs st' = job_refs st
     \<and> queueJobs (the_queue st' q) = queueJobs (the_queue st q)
     \<and> synchronous (the_queue st' q) = synchronous (the_queue st q)
     \<and> (\<forall>i. i \<noteq> j \<longrightarrow> jobs st' i = jobs st i)"

lemma submit_list_frame:
  assumes "submit_list env q n j st = Some (r, st')"
  shows "same_but q j st st'"
  using assms
  by (auto simp: submit_list_def l0_bind_def on_job_throws_def on_job_def set_queue_def same_but_def Let_def
      split: option.splits sum.splits prod.splits if_splits bool.splits)

lemma acquire_frame:
  assumes "acquire_preemption q st = Some (r, st')"
  shows "lists st' = lists st" "job_refs st' = job_refs st" "jobs st' = jobs st"
    "queueJobs (the_queue st' q) = queueJobs (the_queue st q)"
    "synchronous (the_queue st' q) = synchronous (the_queue st q)"
  using assms by (auto simp: acquire_preemption_def set_queue_def split: prod.splits sum.splits if_splits)

lemma release_job_frame [simp]:
  "lists (release_job i st) = lists st" "queues (release_job i st) = queues st"
  "job_refs (release_job i st) = (job_refs st)(i := job_refs st i - 1)"
  by (simp_all add: release_job_def Let_def)

lemma release_jobs_frame [simp]:
  "lists (release_jobs is st) = lists st" "queues (release_jobs is st) = queues st"
  by (induction "is" arbitrary: st) (simp_all add: release_jobs_def)

lemma release_jobs_refs: "job_refs (release_jobs is st) i = job_refs st i - count_list is i"
  by (induction "is" arbitrary: st) (auto simp: release_jobs_def)

definition pending :: "('h, 'k) l0 \<Rightarrow> nat option list \<Rightarrow> nat list" where
  "pending st hs = filter (\<lambda>j. getNumCommands (jobs st j) \<noteq> 0) (map (\<lambda>h. vpuJob (the_list st (the h))) hs)"

lemma submit_lists_tracks:
  assumes "submit_lists env q n hs acc st = Some (Inr (r, js), st')"
    and "distinct (map (\<lambda>h. vpuJob (the_list st (the h))) hs)"
  shows "lists st' = lists st \<and> queueJobs (the_queue st' q) = queueJobs (the_queue st q) \<and>
    synchronous (the_queue st' q) = synchronous (the_queue st q) \<and>
    (\<exists>ks. js = acc @ ks \<and> (r = ZE_RESULT_SUCCESS \<longrightarrow> ks = pending st hs) \<and>
       (\<forall>i. job_refs st' i = job_refs st i + count_list ks i))"
  using assms
proof (induction hs arbitrary: n acc st)
  case (Cons h hs)
  show ?case
  proof (cases "Option.bind h (lists st)")
    case None
    then show ?thesis using Cons.prems by auto
  next
    case (Some cl)
    then have h: "the_list st (the h) = cl" by (cases h) auto
    show ?thesis
    proof (cases "getNumCommands (jobs st (vpuJob cl)) = 0")
      case True
      then show ?thesis
        using Cons.prems Some h Cons.IH[of n acc st] by (simp add: pending_def)
    next
      case False
      let ?st0 = "share_job (vpuJob cl) st"
      from Cons.prems(1) Some False obtain r1 st1 where s: "submit_list env q n (vpuJob cl) ?st0 = Some (Inr r1, st1)"
        and e: "(r1 \<noteq> ZE_RESULT_SUCCESS \<and> r = r1 \<and> js = acc @ [vpuJob cl] \<and> st' = st1) \<or>
          (r1 = ZE_RESULT_SUCCESS \<and> submit_lists env q (Suc n) hs (acc @ [vpuJob cl]) st1 = Some (Inr (r, js), st'))"
        by (auto split: option.splits prod.splits sum.splits if_splits)
      have f: "lists st1 = lists st" "queueJobs (the_queue st1 q) = queueJobs (the_queue st q)"
          "synchronous (the_queue st1 q) = synchronous (the_queue st q)"
          "job_refs st1 = (job_refs st)(vpuJob cl := job_refs st (vpuJob cl) + 1)"
        and o: "i \<noteq> vpuJob cl \<Longrightarrow> jobs st1 i = jobs st i" for i
        using submit_list_frame[OF s] by (auto simp: same_but_def share_job_def)
      show ?thesis
      proof (cases "r1 = ZE_RESULT_SUCCESS")
        case False
        then show ?thesis using e f by (intro conjI exI[of _ "[vpuJob cl]"]) auto
      next
        case True
        have "vpuJob cl \<notin> set (map (\<lambda>h. vpuJob (the_list st (the h))) hs)" using Cons.prems(2) h by simp
        then have j: "jobs st1 i = jobs st i" if "i \<in> set (map (\<lambda>h. vpuJob (the_list st (the h))) hs)" for i
          using that o by metis
        have "pending st1 hs = pending st hs"
          unfolding pending_def f(1) by (intro filter_cong refl) (simp add: j)
        moreover have "distinct (map (\<lambda>h. vpuJob (the_list st1 (the h))) hs)" using Cons.prems(2) f(1) by simp
        moreover have "pending st (h # hs) = vpuJob cl # pending st hs" using False h by (simp add: pending_def)
        moreover have "submit_lists env q (Suc n) hs (acc @ [vpuJob cl]) st1 = Some (Inr (r, js), st')" using e True by simp
        ultimately obtain ks where "lists st' = lists st" "queueJobs (the_queue st' q) = queueJobs (the_queue st q)"
          "synchronous (the_queue st' q) = synchronous (the_queue st q)" "js = (acc @ [vpuJob cl]) @ ks"
          "r = ZE_RESULT_SUCCESS \<longrightarrow> ks = pending st hs" "\<forall>i. job_refs st' i = job_refs st1 i + count_list ks i"
          using Cons.IH[of "Suc n" "acc @ [vpuJob cl]" st1] f by auto
        then show ?thesis using f \<open>pending st (h # hs) = _\<close>
          by (intro conjI exI[of _ "vpuJob cl # ks"]) auto
      qed
    qed
  qed
qed (auto simp: pending_def)


text \<open>The context of the queue, with a list whose job the device accepts and one it refuses.\<close>

definition exec_job :: "u32 job" where
  "exec_job = queue_job\<lparr>commands := [VPUBarrierCommand_create]\<rparr>"

definition exec_l0 :: "(u32, queue_kernel) l0" where
  "exec_l0 = \<lparr>dctx = queue_ctx, jobs = (\<lambda>j. if j = 0 then exec_job else exec_job\<lparr>cmdBuffers := []\<rparr>),
     job_refs = (\<lambda>_. 1), next_job = 2, pools = Map.empty, next_pool = 0,
     lists = [3 \<mapsto> \<lparr>isMutable = False, vpuJob = 0, commandIdMap = Map.empty, pCommandQueue = None\<rparr>,
              4 \<mapsto> \<lparr>isMutable = False, vpuJob = 1, commandIdMap = Map.empty, pCommandQueue = None\<rparr>],
     next_list = 5,
     queues = [6 \<mapsto> \<lparr>vpuQueue = Managed_queue (new_managed_queue 3 0), queueJobs = [], fences = [], next_fence = 0,
                     synchronous = False, cq_preemption = None\<rparr>],
     next_queue = 7\<rparr>"


section \<open>Mutable commands\<close>

text \<open>The place of the command that an id stands for.\<close>

definition resolve_id :: "cmd_list \<Rightarrow> u64 \<Rightarrow> nat" where
  "resolve_id cl cid = (case commandIdMap cl (unat cid) of None \<Rightarrow> unat cid | Some i \<Rightarrow> i)"

lemma resolve_id_used:
  "getCommandUpdates (commandIdMap cl) (Graph_argument cid a p) m prev =
     (let k = of_nat (resolve_id cl cid) in
      if uint k \<ge> 2 ^ 63 \<or> uint a \<ge> 2 ^ 31 then Inl Overflow_error
      else Inr (Some (change_update k a (\<lambda>u. u\<lparr>upd_ptr := Some p\<rparr>) m, Some (k, a))))"
  by (simp add: getCommandUpdates_def resolve_id_def Let_def split: option.split)

lemma push_graph_success:
  assumes "push_graph_command l alloc st = Some (Inr ZE_RESULT_SUCCESS, st')"
    and "\<And>c cmd c'. alloc c = (Inr (Some cmd), c') \<Longrightarrow> body_size (body cmd) \<noteq> 0"
  shows "\<exists>cmd c'. alloc (dctx st) = (Inr (Some cmd), c') \<and> appended l st [body cmd] st'"
proof -
  obtain cmd c' where a: "alloc (dctx st) = (Inr (Some cmd), c')"
    and p: "push_command l cmd (st\<lparr>dctx := c'\<rparr>) = Some (Inr ZE_RESULT_SUCCESS, st')"
    using assms(1) by (auto simp: push_graph_command_def on_ctx_throws_def split: prod.splits option.splits elim!: l0_bindE)
  have "fence_of (st\<lparr>dctx := c'\<rparr>) = fence_of st" by (rule fence_of_cong) simp
  then have "appended l st [] (st\<lparr>dctx := c'\<rparr>)" by (simp add: appended_def list_bodies_def)
  from appended_trans[OF this] push_success[OF p assms(2)[OF a]] a show ?thesis by fastforce
qed

lemma finish_success:
  fixes st :: "('h, 'k) l0"
  assumes "finish_append env l sig st = Some (Inr ZE_RESULT_SUCCESS, st')" "regular l st"
  shows "appended l st (signal_bodies st sig) st'"
proof (cases "sig = None")
  case True
  then show ?thesis using assms by (auto simp: finish_append_def regular_post)
next
  case False
  then obtain st1 where s: "appendSignalEvent env l sig st = Some (Inr ZE_RESULT_SUCCESS, st1)"
    and p: "postAppend env l st1 = Some (Inr ZE_RESULT_SUCCESS, st')"
    using assms(1) by (auto simp: finish_append_def elim!: l0_ok_success)
  note 1 = signal_success[OF s assms(2)]
  then have "st' = st1" using p assms(2) appended_regular regular_post by fastforce
  then show ?thesis using 1 False by (cases sig) (simp_all add: signal_bodies_def)
qed

lemma bodies_command:
  "list_bodies st l = xs @ b # ys \<Longrightarrow> \<exists>cmd. getCommand (list_job st l) (length xs) = Some cmd \<and> body cmd = b"
  by (auto simp: list_bodies_def getCommand_def map_eq_append_conv)

text \<open>The id of a mutable command names it. If an open mutable list without a record under its
  next id gives that id, and the next append executes a graph, then the id is resolved to the
  place of the graph's command, behind the waits that the append put in front of it.\<close>

theorem command_id_resolves:
  assumes "getNextCommandId l True st = (ZE_RESULT_SUCCESS, Some cid)" "regular l st"
    and "getNumCommands (list_job st l) < 2 ^ 64" "commandIdMap (the_list st l) (getNumCommands (list_job st l)) = None"
    and "appendGraphExecute env l (Some g) query sig n ws st = Some (Inr ZE_RESULT_SUCCESS, st')"
    and "\<forall>b c cmd c'. allocateGraphExecuteCommand g b c = (Inr (Some cmd), c') \<longrightarrow> body_size (body cmd) \<noteq> 0"
  shows "\<exists>b c cmd c' cmd'. allocateGraphExecuteCommand g b c = (Inr (Some cmd), c') \<and>
    getCommand (list_job st' l) (resolve_id (the_list st' l) cid) = Some cmd' \<and> body cmd' = body cmd"
proof -
  let ?n = "getNumCommands (list_job st l)"
  have m: "isMutable (the_list st l)" and cid: "unat cid = ?n"
    using assms(1,3) by (auto simp: getNextCommandId_def unat_of_nat_64 split: if_splits)
  from assms(2,5) obtain st1 st2 b where w: "append_waits env l n ws st = Some (Inr ZE_RESULT_SUCCESS, st1)"
    and g: "push_graph_command l (allocateGraphExecuteCommand g b) (record_command_id l ?n st1) = Some (Inr ZE_RESULT_SUCCESS, st2)"
    and f: "finish_append env l sig st2 = Some (Inr ZE_RESULT_SUCCESS, st')"
    by (auto simp: appendGraphExecute_def Let_def l0_bind_def regular_check l0_ok_Some split: if_splits elim!: l0_ok_success)
  have 1: "appended l st (wait_bodies st n ws) st1" by (rule waits_success[OF w assms(2)])
  let ?r = "record_command_id l ?n st1"
  have nums: "getNumCommands (list_job s l) = length (list_bodies s l)" for s :: "('d, 'e) l0"
    by (simp add: getNumCommands_def list_bodies_def)
  have r: "jobs ?r = jobs st1" "vpuJob (the_list ?r l) = vpuJob (the_list st1 l)" "pCommandQueue (the_list ?r l) = None" "lists ?r l \<noteq> None"
    using 1 assms(2) by (auto simp: record_command_id_def Let_def set_list_def regular_def appended_def)
  then have rb: "list_bodies ?r l = list_bodies st1 l" "regular l ?r" by (simp_all add: list_bodies_def regular_def)
  have "commandIdMap (the_list st1 l) ?n = None" "isMutable (the_list st1 l)"
    using 1 m assms(4) by (simp_all add: appended_def)
  then have res: "resolve_id (the_list ?r l) cid = length (list_bodies st1 l)"
    using 1 nums[of st] nums[of st1]
    by (auto simp: resolve_id_def cid record_command_id_def Let_def set_list_def appended_def)
  obtain cmd c' where a: "allocateGraphExecuteCommand g b (dctx ?r) = (Inr (Some cmd), c')"
    and 2: "appended l ?r [body cmd] st2"
    using push_graph_success[OF g] assms(6) by blast
  have 3: "appended l ?r ([body cmd] @ signal_bodies st2 sig) st'"
    using appended_trans[OF 2 finish_success[OF f]] appended_regular[OF 2] rb(2) by simp
  then have l: "list_bodies st' l = list_bodies st1 l @ body cmd # signal_bodies st2 sig" "the_list st' l = the_list ?r l"
    using rb by (simp_all add: appended_def)
  from bodies_command[OF l(1)] show ?thesis using a res l(2) by metis
qed

text \<open>A graph whose command has no arguments.\<close>

definition sample_graph :: "(unit, null_dev) l0_graph" where
  "sample_graph = \<lparr>has_profiling_output = False,
     allocateGraphInitCommand = (\<lambda>c. (Inr None, c)),
     allocateGraphExecuteCommand = (\<lambda>b c. (Inr (Some (new_command Generic (Inference_execute 1 0x80000000 64))), c))\<rparr>"

lemma command_id_resolves_witness:
  "\<exists>st'. getNextCommandId 3 True list_l0 = (ZE_RESULT_SUCCESS, Some 0) \<and>
     appendGraphExecute sample_env 3 (Some sample_graph) None None 1 (Some [Some (5, 1)]) list_l0 = Some (Inr ZE_RESULT_SUCCESS, st') \<and>
     (\<exists>cmd. getCommand (list_job st' 3) (resolve_id (the_list st' 3) 0) = Some cmd \<and>
        body cmd = Inference_execute 1 0x80000000 64)"
proof -
  have i: "getNextCommandId 3 True list_l0 = (ZE_RESULT_SUCCESS, Some 0)"
    by (simp add: getNextCommandId_def list_l0_fields new_job_def getNumCommands_def)
  obtain st' where r: "appendGraphExecute sample_env 3 (Some sample_graph) None None 1 (Some [Some (5, 1)]) list_l0
      = Some (Inr ZE_RESULT_SUCCESS, st')"
    by (simp add: appendGraphExecute_def append_eval sample_graph_def push_graph_command_def on_ctx_throws_def
        record_command_id_def set_list_def getNumCommands_def)
  have "\<exists>b c cmd c' cmd'. allocateGraphExecuteCommand sample_graph b c = (Inr (Some cmd), c') \<and>
    getCommand (list_job st' 3) (resolve_id (the_list st' 3) 0) = Some cmd' \<and> body cmd' = body cmd"
    by (rule command_id_resolves[OF i list_l0_fields(5) _ _ r])
      (auto simp: sample_graph_def new_command_def list_l0_fields getNumCommands_def new_job_def)
  then show ?thesis using i r by (auto simp: sample_graph_def new_command_def)
qed

section \<open>Immediate lists\<close>

lemma event_command_refused:
  "appendCommand l (\<lambda>c. Inr (VPUEventSignalCommand_create p None)) st = Some (Inr ZE_RESULT_ERROR_UNINITIALIZED, st)"
  "appendCommand l (\<lambda>c. Inr (VPUEventWaitCommand_create p None)) st = Some (Inr ZE_RESULT_ERROR_UNINITIALIZED, st)"
  by (simp_all add: appendCommand_def VPUEventSignalCommand_create_def VPUEventWaitCommand_create_def VPUEventCommand_create_def)

text \<open>Events on immediate lists. An immediate list looks for the memory of an event among the
  tracked buffers; the buffer of an event pool is not one of them. With such an event, which no
  tracked buffer covers, a signal and a wait are refused; a command with the signal is
  left in the list: it is appended to the job, but the job is neither closed nor given to the queue.\<close>

theorem immediate_events_refused:
  fixes st :: "('h, 'k) l0"
  assumes "pCommandQueue (the_list st l) = Some q" "find_event st h = Some e" "eventState e \<noteq> 0"
    and "findBufferObject (dctx st) (eventState e) = None"
  shows "appendSignalEvent env l h st = Some (Inr ZE_RESULT_ERROR_UNINITIALIZED, st) \<and>
    appendWaitOnEvents env l 1 (Some [h]) st = Some (Inr ZE_RESULT_ERROR_UNINITIALIZED, st) \<and>
    (checkCommandAppendCondition env l st = Some (Inr ZE_RESULT_SUCCESS, st) \<and> \<not> closed (list_job st l) \<and> cmdBuffers (list_job st l) = [] \<longrightarrow>
      (\<exists>st'. appendBarrier env l h 0 None st = Some (Inr ZE_RESULT_ERROR_UNINITIALIZED, st') \<and>
         commands (list_job st' l) = commands (list_job st l) @ [VPUBarrierCommand_create] \<and>
         closed (list_job st' l) = False \<and> queues st' = queues st \<and> ctx_world (dctx st') = ctx_world (dctx st)))"
proof -
  have b: "event_bo l e s = None" if "lists s = lists st" "findBufferObject (dctx s) (eventState e) = None" for s :: "('h, 'k) l0"
    using that assms(1) by (simp add: event_bo_def)
  have sig: "appendSignalEvent env l h s = Some (Inr ZE_RESULT_ERROR_UNINITIALIZED, s)"
    if "lists s = lists st" "find_event s h = Some e" "findBufferObject (dctx s) (eventState e) = None" for s :: "('h, 'k) l0"
    using that assms(1,3) b[of s] by (simp add: appendSignalEvent_def l0_ok_Some event_command_refused)
  have "appendWaitOnEvents env l 1 (Some [h]) st = Some (Inr ZE_RESULT_ERROR_UNINITIALIZED, st)"
    using assms b[of st] by (simp add: appendWaitOnEvents_def l0_ok_Some event_command_refused)
  moreover have "\<exists>st'. appendBarrier env l h 0 None st = Some (Inr ZE_RESULT_ERROR_UNINITIALIZED, st') \<and>
         commands (list_job st' l) = commands (list_job st l) @ [VPUBarrierCommand_create] \<and>
         closed (list_job st' l) = False \<and> queues st' = queues st \<and> ctx_world (dctx st') = ctx_world (dctx st)"
    if c: "checkCommandAppendCondition env l st = Some (Inr ZE_RESULT_SUCCESS, st)" "\<not> closed (list_job st l)"
      "cmdBuffers (list_job st l) = []"
  proof -
    let ?st = "st\<lparr>jobs := (jobs st)(vpuJob (the_list st l) :=
      (list_job st l)\<lparr>commands := commands (list_job st l) @ [VPUBarrierCommand_create]\<rparr>)\<rparr>"
    have p: "appendCommand l (\<lambda>c. Inr (Some VPUBarrierCommand_create)) st = Some (Inr ZE_RESULT_SUCCESS, ?st)"
      using c by (simp add: appendCommand_def push_command_def l0_bind_def on_job_def job_appendCommand_def
          VPUBarrierCommand_create_def new_command_def getCommitSize_def take_refs_def)
    have "find_event ?st h = Some e" using assms(2) find_event_cong[of ?st st] by simp
    then have "appendSignalEvent env l h ?st = Some (Inr ZE_RESULT_ERROR_UNINITIALIZED, ?st)"
      using assms(4) by (intro sig) simp_all
    moreover have "h \<noteq> None" using assms(2) by (cases h) (simp_all add: find_event_def)
    ultimately have "appendBarrier env l h 0 None st = Some (Inr ZE_RESULT_ERROR_UNINITIALIZED, ?st)"
      by (simp add: appendBarrier_def appendCommandWithEvents_def l0_ok_Some[of "checkCommandAppendCondition env l", OF c(1)] append_waits_def
          l0_ok_Some[of "appendCommand l (\<lambda>c. Inr (Some VPUBarrierCommand_create))", OF p] finish_append_def l0_ok_Some)
    then show ?thesis using c(2) by (intro exI[of _ ?st]) simp
  qed
  ultimately show ?thesis using sig[OF refl assms(2,4)] by blast
qed

definition immediate_l0 :: "(unit, null_dev) l0" where
  "immediate_l0 = list_l0\<lparr>lists := [3 \<mapsto> \<lparr>isMutable = False, vpuJob = 0, commandIdMap = Map.empty, pCommandQueue = Some 6\<rparr>],
     queues := [6 \<mapsto> \<lparr>vpuQueue = Legacy_queue (new_legacy_queue NORMAL), queueJobs = [], fences = [], next_fence = 0,
                     synchronous = False, cq_preemption = None\<rparr>]\<rparr>"

lemma immediate_events_refused_witness:
  "\<exists>st'. appendBarrier sample_env 3 (Some (5, 1)) 0 None immediate_l0 = Some (Inr ZE_RESULT_ERROR_UNINITIALIZED, st') \<and>
     length (commands (list_job st' 3)) = 1 \<and> queues st' = queues immediate_l0"
proof -
  have f: "find_event immediate_l0 (Some (5, 1)) = Some pool_event"
    using find_event_cong[of immediate_l0 list_l0] by (simp add: immediate_l0_def find_event_def list_l0_fields sample_pool_def)
  have "findBufferObject (dctx immediate_l0) (eventState pool_event) = None"
    by (simp add: immediate_l0_def list_l0_fields findBufferObject_def demo_ctx_def new_ctx_def)
  moreover have "checkCommandAppendCondition sample_env 3 immediate_l0 = Some (Inr ZE_RESULT_SUCCESS, immediate_l0)"
    by (simp add: checkCommandAppendCondition_def immediate_l0_def queue_synchronize_def list_l0_fields new_job_def)
  ultimately show ?thesis
    using immediate_events_refused[of immediate_l0 3 6 "Some (5, 1)" pool_event sample_env] f
    by (auto simp: immediate_l0_def list_l0_fields new_job_def pool_event_def)
qed

end
