(* ===== verification/Os_Files.thy ===== *)
theory Os_Files
  imports Umd_Prelude
begin

text \<open>
  The file operations of the OS interface (\<open>umd/vpu_driver/source/os_interface/os_interface_imp.cpp\<close>,
  \<open>OsFileImp\<close> and \<open>OsInterfaceImp\<close>) on one directory. A name leads to a node, which keeps its
  contents and its \<open>flock\<close> locks as long as a descriptor is open, also after its name was removed.
  What the kernel decides is in the environment: which calls succeed, the mapping addresses, how many
  bytes a failing write has stored, and the access times.
\<close>

type_synonym fname = bytes

record file_sys =
  entries :: "(fname \<times> nat) list"
  node_data :: "nat \<Rightarrow> bytes"
  node_atime :: "nat \<Rightarrow> int"
  shared_locks :: "nat \<Rightarrow> nat"
  exclusive_lock :: "nat \<Rightarrow> bool"
  next_node :: nat
  writes_done :: nat

record fs_env =
  may_open :: "fname \<Rightarrow> bool"
  may_remove :: "fname \<Rightarrow> bool"
  may_stat :: "fname \<Rightarrow> bool"
  map_address :: "nat \<Rightarrow> u64 option"
  write_fails :: "nat \<Rightarrow> nat option"
  fs_time :: int
  read_time :: "int \<Rightarrow> int"

record os_file =
  of_node :: nat
  writeAccess :: bool
  fileSize :: u64
  of_exclusive :: bool

section \<open>Open and close\<close>

text \<open>
  The constructor: with write access the file must not exist (\<open>O_CREAT | O_EXCL\<close>) and is created.
\<close>

definition os_file_open :: "fs_env \<Rightarrow> fname \<Rightarrow> bool \<Rightarrow> file_sys \<Rightarrow> (nat \<times> u64) option \<times> file_sys" where
  "os_file_open env name wr fs =
     (if \<not> may_open env name then (None, fs)
      else (case map_of (entries fs) name of
              None \<Rightarrow>
                if wr
                then (let n = next_node fs in
                      (Some (n, 0), fs\<lparr>entries := entries fs @ [(name, n)], node_data := (node_data fs)(n := []),
                         node_atime := (node_atime fs)(n := fs_time env), shared_locks := (shared_locks fs)(n := 0),
                         exclusive_lock := (exclusive_lock fs)(n := False), next_node := n + 1\<rparr>))
                else (None, fs)
            | Some n \<Rightarrow> if wr then (None, fs) else (Some (n, of_nat (length (node_data fs n))), fs)))"

definition exclusiveLock :: "nat \<Rightarrow> file_sys \<Rightarrow> bool \<times> file_sys" where
  "exclusiveLock n fs =
     (if shared_locks fs n = 0 \<and> \<not> exclusive_lock fs n
      then (True, fs\<lparr>exclusive_lock := (exclusive_lock fs)(n := True)\<rparr>) else (False, fs))"

definition sharedLock :: "nat \<Rightarrow> file_sys \<Rightarrow> bool \<times> file_sys" where
  "sharedLock n fs =
     (if \<not> exclusive_lock fs n
      then (True, fs\<lparr>shared_locks := (shared_locks fs)(n := shared_locks fs n + 1)\<rparr>) else (False, fs))"

definition osiOpenWithExclusiveLock :: "fs_env \<Rightarrow> fname \<Rightarrow> bool \<Rightarrow> file_sys \<Rightarrow> os_file option \<times> file_sys" where
  "osiOpenWithExclusiveLock env name wr fs =
     (case os_file_open env name wr fs of
        (None, fs1) \<Rightarrow> (None, fs1)
      | (Some (n, sz), fs1) \<Rightarrow>
          (case exclusiveLock n fs1 of
             (True, fs2) \<Rightarrow> (Some \<lparr>of_node = n, writeAccess = wr, fileSize = sz, of_exclusive = True\<rparr>, fs2)
           | (False, fs2) \<Rightarrow> (None, fs2)))"

definition osiOpenWithSharedLock :: "fs_env \<Rightarrow> fname \<Rightarrow> bool \<Rightarrow> file_sys \<Rightarrow> os_file option \<times> file_sys" where
  "osiOpenWithSharedLock env name wr fs =
     (case os_file_open env name wr fs of
        (None, fs1) \<Rightarrow> (None, fs1)
      | (Some (n, sz), fs1) \<Rightarrow>
          (case sharedLock n fs1 of
             (True, fs2) \<Rightarrow> (Some \<lparr>of_node = n, writeAccess = wr, fileSize = sz, of_exclusive = False\<rparr>, fs2)
           | (False, fs2) \<Rightarrow> (None, fs2)))"

text \<open>The destructor: closing the descriptor gives up its lock.\<close>

definition os_file_close :: "os_file \<Rightarrow> file_sys \<Rightarrow> file_sys" where
  "os_file_close f fs =
     (if of_exclusive f then fs\<lparr>exclusive_lock := (exclusive_lock fs)(of_node f := False)\<rparr>
      else fs\<lparr>shared_locks := (shared_locks fs)(of_node f := shared_locks fs (of_node f) - 1)\<rparr>)"

section \<open>Contents\<close>

definition os_file_write :: "fs_env \<Rightarrow> bytes \<Rightarrow> os_file \<Rightarrow> file_sys \<Rightarrow> (bool \<times> os_file) \<times> file_sys" where
  "os_file_write env bs f fs =
     (if bs = [] then ((False, f), fs)
      else (let n = of_node f; fs1 = fs\<lparr>writes_done := writes_done fs + 1\<rparr> in
            case write_fails env (writes_done fs) of
              Some k \<Rightarrow> ((False, f), fs1\<lparr>node_data := (node_data fs)(n := node_data fs n @ take k bs)\<rparr>)
            | None \<Rightarrow> ((True, f\<lparr>fileSize := fileSize f + of_nat (length bs)\<rparr>),
                        fs1\<lparr>node_data := (node_data fs)(n := node_data fs n @ bs)\<rparr>)))"

text \<open>\<open>mmap\<close> of no bytes fails.\<close>

definition os_file_mmap :: "fs_env \<Rightarrow> os_file \<Rightarrow> file_sys \<Rightarrow> u64 option \<times> file_sys" where
  "os_file_mmap env f fs =
     (if writeAccess f \<or> fileSize f = 0 then (None, fs)
      else (map_address env (of_node f),
            fs\<lparr>node_atime := (node_atime fs)(of_node f := read_time env (node_atime fs (of_node f)))\<rparr>))"

section \<open>The directory\<close>

definition osiFileRemove :: "fs_env \<Rightarrow> fname \<Rightarrow> file_sys \<Rightarrow> bool \<times> file_sys" where
  "osiFileRemove env name fs =
     (if may_remove env name \<and> map_of (entries fs) name \<noteq> None
      then (True, fs\<lparr>entries := filter (\<lambda>(m, _). m \<noteq> name) (entries fs)\<rparr>) else (False, fs))"

text \<open>What the callback of \<open>osiScanDir\<close> sees: name, size and access time.\<close>

definition osiScanDir :: "fs_env \<Rightarrow> file_sys \<Rightarrow> (fname \<times> u64 \<times> int) list" where
  "osiScanDir env fs =
     map (\<lambda>(m, n). (m, of_nat (length (node_data fs n)), node_atime fs n)) (filter (\<lambda>(m, _). may_stat env m) (entries fs))"

section \<open>Lemmas\<close>

text \<open>Every name once, and every node of a name below the next one.\<close>

definition fs_ok :: "file_sys \<Rightarrow> bool" where
  "fs_ok fs \<longleftrightarrow> distinct (map fst (entries fs)) \<and> distinct (map snd (entries fs)) \<and> (\<forall>(m, n) \<in> set (entries fs). n < next_node fs)"

lemma map_of_filter_key [simp]: "map_of (filter (\<lambda>(m, _). m \<noteq> k) xs) = (map_of xs)(k := None)"
  by (induction xs) (auto simp: fun_eq_iff)

lemma remove_ok: "fs_ok fs \<Longrightarrow> fs_ok (snd (osiFileRemove env name fs))"
  by (auto simp: osiFileRemove_def fs_ok_def intro: distinct_map_filter)

lemma open_ok: "fs_ok fs \<Longrightarrow> fs_ok (snd (os_file_open env name wr fs))"
  by (force simp: os_file_open_def fs_ok_def Let_def map_of_eq_None_iff split: option.splits)

lemma lock_fields [simp]:
  "entries (snd (exclusiveLock n fs)) = entries fs" "node_data (snd (exclusiveLock n fs)) = node_data fs"
  "next_node (snd (exclusiveLock n fs)) = next_node fs" "node_atime (snd (exclusiveLock n fs)) = node_atime fs"
  "entries (snd (sharedLock n fs)) = entries fs" "node_data (snd (sharedLock n fs)) = node_data fs"
  "next_node (snd (sharedLock n fs)) = next_node fs" "node_atime (snd (sharedLock n fs)) = node_atime fs"
  by (simp_all add: exclusiveLock_def sharedLock_def)

lemma close_fields [simp]:
  "entries (os_file_close f fs) = entries fs" "node_data (os_file_close f fs) = node_data fs"
  "next_node (os_file_close f fs) = next_node fs" "node_atime (os_file_close f fs) = node_atime fs"
  by (simp_all add: os_file_close_def)

end
