(* ===== verification/Disk_Cache.thy ===== *)
theory Disk_Cache
  imports Os_Files Vpu_Device Buffer_Object
begin

text \<open>
  The cache of compiled graphs (\<open>umd/level_zero_driver/source/ext/disk_cache.cpp\<close>,
  \<open>hash_function.hpp\<close>, \<open>blob_container.hpp\<close>): one file for each key, the compiled blob followed by
  its checksum. CityHash is vendored code and a parameter. \<open>None\<close> is a read outside of a mapping.
\<close>

section \<open>Hashes\<close>

record city =
  CityHash64WithSeed :: "bytes \<Rightarrow> u64 \<Rightarrow> u64"
  CityHashCrc256 :: "bytes \<Rightarrow> u64 \<times> u64 \<times> u64 \<times> u64"

definition hex_digit :: "nat \<Rightarrow> u8" where
  "hex_digit d = of_nat (if d < 10 then 48 + d else 87 + d)"

text \<open>\<open>std::to_chars\<close> in base 16: no leading zeros.\<close>

fun hex_chars :: "nat \<Rightarrow> bytes" where
  "hex_chars n = (if n < 16 then [hex_digit n] else hex_chars (n div 16) @ [hex_digit (n mod 16)])"

declare hex_chars.simps [simp del]

text \<open>A field of sixteen characters, filled with \<open>0\<close> behind the digits.\<close>

definition hex_field :: "u64 \<Rightarrow> bytes" where
  "hex_field v = (let s = hex_chars (unat v) in s @ replicate (16 - length s) 48)"

definition toHexString :: "u64 list \<Rightarrow> bytes" where
  "toHexString vs = concat (map hex_field vs)"

definition DigestLength :: nat where "DigestLength = 80"

definition hash_words :: "u64 \<times> u64 \<times> u64 \<times> u64 \<Rightarrow> u64 \<Rightarrow> u64 list" where
  "hash_words h conf = (case h of (a, b, c, d) \<Rightarrow> [a, b, c, d, conf])"

definition getDigest :: "city \<Rightarrow> bytes \<Rightarrow> bytes" where
  "getDigest city bs = toHexString (hash_words (CityHashCrc256 city bs) 0)"

definition updateConfigurationHash :: "city \<Rightarrow> bytes \<Rightarrow> u64 \<Rightarrow> u64" where
  "updateConfigurationHash city bs conf = CityHash64WithSeed city bs conf"

section \<open>Blobs\<close>

datatype backing_store = No_store | File_store os_file | Buffer_store

record blob_container =
  blob_ptr :: u64
  blob_data :: bytes
  backingStore :: backing_store
  npu_buffer :: "buffer_object option"

definition hasBackingStore :: "blob_container \<Rightarrow> bool" where
  "hasBackingStore b \<longleftrightarrow> backingStore b \<noteq> No_store \<or> npu_buffer b \<noteq> None"

definition blob_size :: "blob_container \<Rightarrow> u64" where
  "blob_size b = of_nat (length (blob_data b))"

section \<open>The cache\<close>

record disk_cache =
  cachePath :: string
  maxSize :: u64

definition path_join :: "string \<Rightarrow> string \<Rightarrow> string" where
  "path_join a b = (if a = [] \<or> last a = CHR ''/'' then a @ b else a @ CHR ''/'' # b)"

definition getCacheDir :: "(string \<Rightarrow> string option) \<Rightarrow> string \<Rightarrow> string" where
  "getCacheDir env cwd =
     (case env ''ZE_INTEL_NPU_CACHE_DIR'' of
        Some p \<Rightarrow> p
      | None \<Rightarrow>
          (case env ''XDG_CACHE_HOME'' of
             Some p \<Rightarrow> path_join p ''ze_intel_npu_cache''
           | None \<Rightarrow>
               (case env ''HOME'' of
                  Some p \<Rightarrow> path_join p ''.cache/ze_intel_npu_cache''
                | None \<Rightarrow> path_join cwd ''.cache/ze_intel_npu_cache'')))"

definition getCacheMaxSize :: "(string \<Rightarrow> string option) \<Rightarrow> u64" where
  "getCacheMaxSize env =
     (case env ''ZE_INTEL_NPU_CACHE_SIZE'' of
        Some s \<Rightarrow> (case from_chars 64 10 s of None \<Rightarrow> 0 | Some v \<Rightarrow> of_nat v)
      | None \<Rightarrow> push_bit 30 4)"

text \<open>The constructor; \<open>created\<close> is the result of \<open>osiCreateDirectories\<close>.\<close>

definition new_disk_cache :: "(string \<Rightarrow> string option) \<Rightarrow> string \<Rightarrow> (string \<Rightarrow> bool) \<Rightarrow> disk_cache" where
  "new_disk_cache env cwd created =
     (let p = getCacheDir env cwd in
      if p = [] then \<lparr>cachePath = [], maxSize = 0\<rparr>
      else if \<not> created p then \<lparr>cachePath = [], maxSize = 0\<rparr>
      else \<lparr>cachePath = p, maxSize = getCacheMaxSize env\<rparr>)"

definition getCacheSize :: "fs_env \<Rightarrow> disk_cache \<Rightarrow> file_sys \<Rightarrow> u64" where
  "getCacheSize env dc fs =
     (if cachePath dc = [] then 0 else sum_list (map (\<lambda>(_, sz, _). sz) (osiScanDir env fs)))"

text \<open>The fields of a graph descriptor; the compiler's id, version and opsets, if it is there.\<close>

record graph_desc =
  gd_format :: u32
  gd_input :: bytes
  gd_buildFlags :: "bytes option"
  gd_flags :: u32
  gd_inputHash :: "bytes option"

definition computeKey :: "city \<Rightarrow> u32 \<Rightarrow> (bytes \<times> bytes \<times> bytes) option \<Rightarrow> disk_cache \<Rightarrow> graph_desc \<Rightarrow> fname" where
  "computeKey city driverVersion vcl dc d =
     (if cachePath dc = [] then []
      else let h0 = updateConfigurationHash city (enc32 driverVersion) 0;
               h1 = (case vcl of None \<Rightarrow> h0
                     | Some (i, v, ops) \<Rightarrow>
                         updateConfigurationHash city ops (updateConfigurationHash city v (updateConfigurationHash city i h0)));
               h2 = updateConfigurationHash city (enc32 (gd_format d)) h1;
               h3 = (case gd_buildFlags d of None \<Rightarrow> h2 | Some s \<Rightarrow> updateConfigurationHash city s h2);
               h4 = updateConfigurationHash city (enc32 (gd_flags d)) h3
           in toHexString (hash_words (CityHashCrc256 city
                (case gd_inputHash d of Some i \<Rightarrow> i | None \<Rightarrow> gd_input d)) h4))"

section \<open>Reading\<close>

text \<open>
  \<open>offsetSum\<close> is the size less the length of the checksum, in 64 bits; the checksum is computed over
  that many bytes of the mapping.
\<close>

definition getBlob :: "city \<Rightarrow> fs_env \<Rightarrow> disk_cache \<Rightarrow> fname \<Rightarrow> file_sys \<Rightarrow> (blob_container option \<times> file_sys) option" where
  "getBlob city env dc key fs =
     (if cachePath dc = [] then Some (None, fs)
      else (case osiOpenWithSharedLock env key False fs of
              (None, fs1) \<Rightarrow> Some (None, fs1)
            | (Some f, fs1) \<Rightarrow>
                if fileSize f = 0 then Some (None, os_file_close f fs1)
                else (case os_file_mmap env f fs1 of
                        (None, fs2) \<Rightarrow> Some (None, os_file_close f fs2)
                      | (Some p, fs2) \<Rightarrow>
                          let bs = node_data fs2 (of_node f); offsetSum = fileSize f - of_nat DigestLength in
                          if unat offsetSum > length bs then None
                          else if getDigest city (take (unat offsetSum) bs) \<noteq> take DigestLength (drop (unat offsetSum) bs)
                          then Some (None, os_file_close f (snd (osiFileRemove env key fs2)))
                          else Some (Some \<lparr>blob_ptr = p, blob_data = take (unat offsetSum) bs, backingStore = File_store f,
                                           npu_buffer = None\<rparr>, fs2))))"

section \<open>Writing\<close>

text \<open>\<open>std::map::emplace\<close>: ordered by the time stamp, the first file of a time stamp stays.\<close>

fun emplace_time :: "int \<Rightarrow> fname \<Rightarrow> (int \<times> fname) list \<Rightarrow> (int \<times> fname) list" where
  "emplace_time t m [] = [(t, m)]"
| "emplace_time t m ((t', m') # xs) =
     (if t < t' then (t, m) # (t', m') # xs
      else if t = t' then (t', m') # xs
      else (t', m') # emplace_time t m xs)"

fun remove_loop :: "fs_env \<Rightarrow> u64 \<Rightarrow> u64 \<Rightarrow> fname list \<Rightarrow> file_sys \<Rightarrow> u64 \<times> file_sys" where
  "remove_loop env expSize removed [] fs = (removed, fs)"
| "remove_loop env expSize removed (m # ms) fs =
     (case osiOpenWithExclusiveLock env m False fs of
        (None, fs1) \<Rightarrow> remove_loop env expSize removed ms fs1
      | (Some f, fs1) \<Rightarrow>
          (case osiFileRemove env m fs1 of
             (False, fs2) \<Rightarrow> remove_loop env expSize removed ms (os_file_close f fs2)
           | (True, fs2) \<Rightarrow>
               let removed' = removed + fileSize f; fs3 = os_file_close f fs2
               in if removed' \<ge> expSize then (removed', fs3) else remove_loop env expSize removed' ms fs3))"

definition sorted_files :: "(fname \<times> u64 \<times> int) list \<Rightarrow> fname list" where
  "sorted_files xs = map snd (foldl (\<lambda>acc (m, _, t). emplace_time t m acc) [] xs)"

definition removeLeastUsedFiles :: "fs_env \<Rightarrow> u64 \<Rightarrow> file_sys \<Rightarrow> u64 \<times> file_sys" where
  "removeLeastUsedFiles env expSize fs = remove_loop env expSize 0 (sorted_files (osiScanDir env fs)) fs"

text \<open>The end of \<open>setBlob\<close>, from the creation of the file.\<close>

definition store_blob ::
  "city \<Rightarrow> fs_env \<Rightarrow> disk_cache \<Rightarrow> fname \<Rightarrow> blob_container \<Rightarrow> file_sys \<Rightarrow> (blob_container \<times> file_sys) option" where
  "store_blob city env dc key b fs =
     (case osiOpenWithExclusiveLock env key True fs of
        (None, fs1) \<Rightarrow> Some (b, fs1)
      | (Some f, fs1) \<Rightarrow>
          (case os_file_write env (blob_data b) f fs1 of
             ((False, f1), fs2) \<Rightarrow> Some (b, os_file_close f1 (snd (osiFileRemove env key fs2)))
           | ((True, f1), fs2) \<Rightarrow>
               (case os_file_write env (getDigest city (blob_data b)) f1 fs2 of
                  ((False, f2), fs3) \<Rightarrow> Some (b, os_file_close f2 (snd (osiFileRemove env key fs3)))
                | ((True, f2), fs3) \<Rightarrow>
                    (case getBlob city env dc key (os_file_close f2 fs3) of
                       None \<Rightarrow> None
                     | Some (None, fs4) \<Rightarrow> Some (b, fs4)
                     | Some (Some b', fs4) \<Rightarrow> Some (b', fs4)))))"

definition setBlob ::
  "city \<Rightarrow> fs_env \<Rightarrow> disk_cache \<Rightarrow> fname \<Rightarrow> blob_container option \<Rightarrow> file_sys
     \<Rightarrow> (blob_container option \<times> file_sys) option" where
  "setBlob city env dc key ob fs =
     (case ob of None \<Rightarrow> Some (None, fs)
      | Some b \<Rightarrow>
          if cachePath dc = [] then Some (Some b, fs)
          else let cachedBlobSize = blob_size b + of_nat DigestLength; cacheSize = getCacheSize env dc fs in
               if cachedBlobSize > maxSize dc then Some (Some b, fs)
               else map_option (\<lambda>(x, fs'). (Some x, fs'))
                      (store_blob city env dc key b
                        (if cacheSize + cachedBlobSize > maxSize dc
                         then snd (removeLeastUsedFiles env (cacheSize + cachedBlobSize - maxSize dc) fs) else fs)))"

end
