(* ===== verification/Disk_Cache_Props.thy ===== *)
theory Disk_Cache_Props
  imports Disk_Cache
begin

text \<open>
  What the cache of compiled graphs promises: a hit is a file whose checksum fits its contents, storing
  a blob never changes what the caller gets, and the files stay within the configured size.
\<close>

section \<open>Checksums\<close>

lemma hex_chars_length: "n < 16 ^ k \<Longrightarrow> 0 < k \<Longrightarrow> length (hex_chars n) \<le> k"
proof (induction n arbitrary: k rule: hex_chars.induct)
  case (1 n)
  show ?case
  proof (cases "n < 16")
    case True
    then show ?thesis using 1(3) by (simp add: hex_chars.simps [of n])
  next
    case False
    then obtain j where k: "k = Suc j" "0 < j" using 1(2,3) by (cases k; cases "k - 1") auto
    then have "n div 16 < 16 ^ j" using 1(2) by (simp add: less_mult_imp_div_less mult.commute)
    then show ?thesis using 1(1) [OF False, of j] k False by (simp add: hex_chars.simps [of n])
  qed
qed

lemma hex_field_length [simp]: "length (hex_field v) = 16"
  using hex_chars_length [of "unat v" 16] unat_lt_64 [of v]
  by (simp add: hex_field_def Let_def)

lemma toHexString_length [simp]: "length (toHexString vs) = 16 * length vs"
  by (induction vs) (simp_all add: toHexString_def)

lemma getDigest_length [simp]: "length (getDigest city bs) = DigestLength"
  by (simp add: getDigest_def hash_words_def DigestLength_def split: prod.splits)

section \<open>Opening\<close>

lemma shared_open_eq:
  "osiOpenWithSharedLock env name False fs =
     (case map_of (entries fs) name of
        Some n \<Rightarrow>
          if may_open env name \<and> \<not> exclusive_lock fs n
          then (Some \<lparr>of_node = n, writeAccess = False, fileSize = of_nat (length (node_data fs n)), of_exclusive = False\<rparr>,
                fs\<lparr>shared_locks := (shared_locks fs)(n := shared_locks fs n + 1)\<rparr>)
          else (None, fs)
      | None \<Rightarrow> (None, fs))"
  by (simp add: osiOpenWithSharedLock_def os_file_open_def sharedLock_def split: option.splits)

lemma exclusive_open_eq:
  "osiOpenWithExclusiveLock env name False fs =
     (case map_of (entries fs) name of
        Some n \<Rightarrow>
          if may_open env name \<and> shared_locks fs n = 0 \<and> \<not> exclusive_lock fs n
          then (Some \<lparr>of_node = n, writeAccess = False, fileSize = of_nat (length (node_data fs n)), of_exclusive = True\<rparr>,
                fs\<lparr>exclusive_lock := (exclusive_lock fs)(n := True)\<rparr>)
          else (None, fs)
      | None \<Rightarrow> (None, fs))"
  by (simp add: osiOpenWithExclusiveLock_def os_file_open_def exclusiveLock_def split: option.splits)

lemma exclusive_create_eq:
  "osiOpenWithExclusiveLock env name True fs =
     (if may_open env name \<and> map_of (entries fs) name = None
      then (Some \<lparr>of_node = next_node fs, writeAccess = True, fileSize = 0, of_exclusive = True\<rparr>,
            fs\<lparr>entries := entries fs @ [(name, next_node fs)], node_data := (node_data fs)(next_node fs := []),
               node_atime := (node_atime fs)(next_node fs := fs_time env), shared_locks := (shared_locks fs)(next_node fs := 0),
               exclusive_lock := (exclusive_lock fs)(next_node fs := True), next_node := next_node fs + 1\<rparr>)
      else (None, fs))"
  by (simp add: osiOpenWithExclusiveLock_def os_file_open_def exclusiveLock_def Let_def split: option.splits)

lemma mmap_eq:
  "\<not> writeAccess f \<Longrightarrow> fileSize f \<noteq> 0 \<Longrightarrow>
   os_file_mmap env f fs =
     (map_address env (of_node f), fs\<lparr>node_atime := (node_atime fs)(of_node f := read_time env (node_atime fs (of_node f)))\<rparr>)"
  by (simp add: os_file_mmap_def)

lemma remove_data [simp]: "node_data (snd (osiFileRemove env name fs)) = node_data fs"
  by (simp add: osiFileRemove_def)

section \<open>Hits\<close>

lemma unat_offset:
  assumes "length bs < 2 ^ 64"
  shows "unat ((of_nat (length bs) :: u64) - of_nat DigestLength)
           = (if DigestLength \<le> length bs then length bs - DigestLength else 2 ^ 64 + length bs - DigestLength)"
  using assms by (simp add: unat_sub_if' unat_of_nat_64 DigestLength_def unsigned_less)

text \<open>What \<open>getBlob\<close> does with a file that can be read.\<close>

lemma getBlob_eq:
  assumes "cachePath dc \<noteq> []" "map_of (entries fs) key = Some n" "may_open env key" "\<not> exclusive_lock fs n"
    and "map_address env n = Some p" "node_data fs n \<noteq> []" "length (node_data fs n) < 2 ^ 64"
  shows "getBlob city env dc key fs =
     (let bs = node_data fs n; d = take (length bs - DigestLength) bs;
          f = \<lparr>of_node = n, writeAccess = False, fileSize = of_nat (length bs), of_exclusive = False\<rparr>;
          fs' = fs\<lparr>shared_locks := (shared_locks fs)(n := shared_locks fs n + 1),
                    node_atime := (node_atime fs)(n := read_time env (node_atime fs n))\<rparr> in
      if length bs < DigestLength then None
      else if getDigest city d \<noteq> drop (length bs - DigestLength) bs
      then Some (None, os_file_close f (snd (osiFileRemove env key fs')))
      else Some (Some \<lparr>blob_ptr = p, blob_data = d, backingStore = File_store f, npu_buffer = None\<rparr>, fs'))"
proof -
  have nz: "(of_nat (length (node_data fs n)) :: u64) \<noteq> 0"
    using assms(6,7) by (metis length_0_conv unat_of_nat_64 unsigned_0)
  have l: "length (node_data fs n) < 18446744073709551616" using assms(7) by simp
  have u: "unat ((of_nat (length (node_data fs n)) :: u64) - 80)
     = (if 80 \<le> length (node_data fs n) then length (node_data fs n) - 80
        else 18446744073709551616 + length (node_data fs n) - 80)"
    using unat_offset [OF assms(7)] by (simp add: DigestLength_def)
  show ?thesis
  proof (cases "80 \<le> length (node_data fs n)")
    case True
    then show ?thesis
      using assms(1-6) nz u by (simp add: getBlob_def shared_open_eq mmap_eq Let_def DigestLength_def)
  next
    case False
    then have "length (node_data fs n) < unat ((of_nat (length (node_data fs n)) :: u64) - 80)" using u by simp
    with False show ?thesis
      using assms(1-6) nz by (simp add: getBlob_def shared_open_eq mmap_eq Let_def DigestLength_def)
  qed
qed

text \<open>Every other case of \<open>getBlob\<close>: a miss, and the names and contents stay.\<close>

lemma getBlob_cases:
  assumes "length (node_data fs n) < 2 ^ 64" "map_of (entries fs) key = Some n"
  obtains
    (miss) fs' where "getBlob city env dc key fs = Some (None, fs')" "entries fs' = entries fs" "node_data fs' = node_data fs"
  | (hit_path) p where "cachePath dc \<noteq> []" "may_open env key" "\<not> exclusive_lock fs n" "map_address env n = Some p"
      "node_data fs n \<noteq> []"
proof (cases "cachePath dc \<noteq> [] \<and> may_open env key \<and> \<not> exclusive_lock fs n \<and> map_address env n \<noteq> None \<and> node_data fs n \<noteq> []")
  case True
  then show ?thesis using hit_path by auto
next
  case False
  have nz: "(of_nat (length (node_data fs n)) :: u64) = 0 \<longleftrightarrow> node_data fs n = []"
    unfolding unat_eq_0 [symmetric] unat_of_nat_64 [OF assms(1)] by simp
  have "\<exists>fs'. getBlob city env dc key fs = Some (None, fs') \<and> entries fs' = entries fs \<and> node_data fs' = node_data fs"
  proof (cases "cachePath dc \<noteq> [] \<and> may_open env key \<and> \<not> exclusive_lock fs n")
    case True
    show ?thesis
    proof (cases "node_data fs n = []")
      case e: True
      with True assms(2) show ?thesis by (simp add: getBlob_def shared_open_eq os_file_close_def)
    next
      case ne: False
      with False True have "map_address env n = None" by simp
      with ne nz True assms(2) show ?thesis
        by (simp add: getBlob_def shared_open_eq mmap_eq os_file_close_def)
    qed
  next
    case False
    with assms(2) show ?thesis by (auto simp: getBlob_def shared_open_eq)
  qed
  then show ?thesis using miss by blast
qed

text \<open>C14: a hit of the cache is authentic: the file of the key holds the blob that is returned, followed by
  the checksum of that blob, and the lookup removes no file and changes no contents.
\<close>

theorem getBlob_authentic:
  assumes "getBlob city env dc key fs = Some (Some b, fs')"
    and "map_of (entries fs) key = Some n" "length (node_data fs n) < 2 ^ 64"
  shows "node_data fs n = blob_data b @ getDigest city (blob_data b) \<and> map_address env n = Some (blob_ptr b)
         \<and> entries fs' = entries fs \<and> node_data fs' = node_data fs"
proof (rule getBlob_cases [OF assms(3,2)])
  fix fs'' assume "getBlob city env dc key fs = Some (None, fs'')"
  then show ?thesis using assms(1) by simp
next
  fix p assume h: "cachePath dc \<noteq> []" "may_open env key" "\<not> exclusive_lock fs n" "map_address env n = Some p"
    "node_data fs n \<noteq> []"
  show ?thesis
    using assms(1) unfolding getBlob_eq [OF h(1) assms(2) h(2-5) assms(3)] Let_def
    by (auto simp: h(4) split: if_splits)
qed

section \<open>Storing\<close>

lemma write_eq:
  "bs \<noteq> [] \<Longrightarrow> os_file_write env bs f fs =
     (case write_fails env (writes_done fs) of
        Some k \<Rightarrow> ((False, f), fs\<lparr>writes_done := writes_done fs + 1,
                    node_data := (node_data fs)(of_node f := node_data fs (of_node f) @ take k bs)\<rparr>)
      | None \<Rightarrow> ((True, f\<lparr>fileSize := fileSize f + of_nat (length bs)\<rparr>),
                  fs\<lparr>writes_done := writes_done fs + 1,
                     node_data := (node_data fs)(of_node f := node_data fs (of_node f) @ bs)\<rparr>))"
  by (simp add: os_file_write_def Let_def split: option.splits)

text \<open>The file system once both writes are done and the file is closed.\<close>

definition stored_fs :: "city \<Rightarrow> fs_env \<Rightarrow> fname \<Rightarrow> bytes \<Rightarrow> file_sys \<Rightarrow> file_sys" where
  "stored_fs city env key d fs =
     fs\<lparr>entries := entries fs @ [(key, next_node fs)], node_atime := (node_atime fs)(next_node fs := fs_time env),
        shared_locks := (shared_locks fs)(next_node fs := 0), next_node := next_node fs + 1,
        writes_done := writes_done fs + 2, node_data := (node_data fs)(next_node fs := d @ getDigest city d),
        exclusive_lock := (exclusive_lock fs)(next_node fs := False)\<rparr>"

lemma digest_nonempty [simp]: "getDigest city bs \<noteq> []"
  by (simp add: DigestLength_def flip: length_greater_0_conv)

definition cache_total :: "file_sys \<Rightarrow> nat" where
  "cache_total fs = sum_list (map (\<lambda>(_, n). length (node_data fs n)) (entries fs))"

lemma total_cong:
  "entries fs' = entries fs \<Longrightarrow> (\<And>m n. (m, n) \<in> set (entries fs) \<Longrightarrow> node_data fs' n = node_data fs n) \<Longrightarrow>
   cache_total fs' = cache_total fs"
  unfolding cache_total_def by (simp, intro arg_cong [where f = sum_list] map_cong) auto

lemma filter_fresh: "map_of xs k = None \<Longrightarrow> filter (\<lambda>(m, _). m \<noteq> k) xs = xs"
  by (induction xs) (auto split: if_splits)

lemma fresh_node: "fs_ok fs \<Longrightarrow> (m, next_node fs) \<notin> set (entries fs)"
  by (auto simp: fs_ok_def)

lemma store_blob_cases:
  assumes "fs_ok fs"
  obtains
    (kept) fs' where "store_blob city env dc key b fs = Some (b, fs')" "may_remove env key \<Longrightarrow> cache_total fs' = cache_total fs"
  | (stored) "store_blob city env dc key b fs
       = map_option (\<lambda>(x, fs'). (case x of None \<Rightarrow> b | Some b' \<Rightarrow> b', fs'))
           (getBlob city env dc key (stored_fs city env key (blob_data b) fs))"
      "map_of (entries fs) key = None" "blob_data b \<noteq> []"
proof (cases "may_open env key \<and> map_of (entries fs) key = None")
  case False
  then have "store_blob city env dc key b fs = Some (b, fs)" by (auto simp: store_blob_def exclusive_create_eq)
  then show ?thesis using kept by simp
next
  case c: True
  have undo: "cache_total (os_file_close f (snd (osiFileRemove env key fs'))) = cache_total fs"
    if "entries fs' = entries fs @ [(key, next_node fs)]" "may_remove env key"
      "\<And>n. n \<noteq> next_node fs \<Longrightarrow> node_data fs' n = node_data fs n" for f fs'
  proof (intro total_cong)
    fix m n assume "(m, n) \<in> set (entries fs)"
    then have "n \<noteq> next_node fs" using fresh_node [OF assms] by blast
    then show "node_data (os_file_close f (snd (osiFileRemove env key fs'))) n = node_data fs n" using that by simp
  qed (use that c in \<open>simp add: osiFileRemove_def filter_fresh\<close>)
  show ?thesis
  proof (cases "blob_data b = []")
    case True
    show ?thesis
      by (rule kept, use c True in \<open>simp add: store_blob_def exclusive_create_eq os_file_write_def\<close>, rule undo) simp_all
  next
    case ne: False
    consider (w1) k where "write_fails env (writes_done fs) = Some k"
      | (w2) k where "write_fails env (writes_done fs) = None" "write_fails env (Suc (writes_done fs)) = Some k"
      | (ok) "write_fails env (writes_done fs) = None" "write_fails env (Suc (writes_done fs)) = None"
      by (metis not_Some_eq)
    then show ?thesis
    proof cases
      case w1
      show ?thesis
        by (rule kept, use c ne w1 in \<open>simp add: store_blob_def exclusive_create_eq write_eq\<close>, rule undo) simp_all
    next
      case w2
      show ?thesis
        by (rule kept, use c ne w2 in \<open>simp add: store_blob_def exclusive_create_eq write_eq\<close>, rule undo) simp_all
    next
      case ok
      show ?thesis
        by (rule stored) (use c ne ok in \<open>auto simp: store_blob_def exclusive_create_eq write_eq stored_fs_def
            os_file_close_def numeral_2_eq_2 split: option.splits\<close>)
    qed
  qed
qed

lemma step_ok:
  "fs_ok fs \<Longrightarrow> fs_ok (snd (osiOpenWithExclusiveLock env m False fs))"
  "fs_ok fs \<Longrightarrow> fs_ok (os_file_close f fs)"
  by (auto simp: exclusive_open_eq fs_ok_def split: option.splits)

lemma remove_loop_ok: "fs_ok fs \<Longrightarrow> fs_ok (snd (remove_loop env e r ms fs))"
proof (induction env e r ms fs rule: remove_loop.induct)
  case (2 env e r m ms fs)
  obtain x fs1 where o: "osiOpenWithExclusiveLock env m False fs = (x, fs1)" by fastforce
  have ok1: "fs_ok fs1" using step_ok(1) [OF 2(4), of env m] o by simp
  show ?case
  proof (cases x)
    case None
    then show ?thesis using 2(1) [OF o [symmetric] None ok1] o by simp
  next
    case (Some f)
    obtain rm fs2 where q: "osiFileRemove env m fs1 = (rm, fs2)" by fastforce
    have ok2: "fs_ok (os_file_close f fs2)" using remove_ok [OF ok1, of env m] q step_ok(2) by simp
    show ?thesis
      using 2(2) [OF o [symmetric] Some q [symmetric]] 2(3) [OF o [symmetric] Some q [symmetric]] o Some q ok2
      by (cases rm) (auto simp: Let_def)
  qed
qed simp

lemma remove_files_ok: "fs_ok fs \<Longrightarrow> fs_ok (snd (removeLeastUsedFiles env e fs))"
  by (simp add: removeLeastUsedFiles_def remove_loop_ok)

text \<open>Reading back what was just stored.\<close>

lemma stored_lookup:
  "map_of (entries fs) key = None \<Longrightarrow> map_of (entries (stored_fs city env key d fs)) key = Some (next_node fs)"
  by (simp add: stored_fs_def map_add_def)

lemma stored_data [simp]:
  "node_data (stored_fs city env key d fs) (next_node fs) = d @ getDigest city d"
  by (simp add: stored_fs_def)

lemma getBlob_stored:
  assumes "map_of (entries fs) key = None" "length d + DigestLength < 2 ^ 64"
  obtains r fs' where "getBlob city env dc key (stored_fs city env key d fs) = Some (r, fs')"
    "\<And>b. r = Some b \<Longrightarrow> blob_data b = d" "entries fs' = entries (stored_fs city env key d fs)"
    "node_data fs' = node_data (stored_fs city env key d fs)"
proof -
  let ?g = "stored_fs city env key d fs"
  note lk = stored_lookup [OF assms(1), of city env d]
  have l: "length (node_data ?g (next_node fs)) < 2 ^ 64" using assms(2) by simp
  show ?thesis
  proof (rule getBlob_cases [OF l lk])
    fix fs' assume "getBlob city env dc key ?g = Some (None, fs')" "entries fs' = entries ?g" "node_data fs' = node_data ?g"
    then show ?thesis using that by blast
  next
    fix p assume h: "cachePath dc \<noteq> []" "may_open env key" "\<not> exclusive_lock ?g (next_node fs)"
      "map_address env (next_node fs) = Some p" "node_data ?g (next_node fs) \<noteq> []"
    have "\<exists>b fs'. getBlob city env dc key ?g = Some (Some b, fs') \<and> blob_data b = d \<and> entries fs' = entries ?g
            \<and> node_data fs' = node_data ?g"
      by (simp add: getBlob_eq [OF h(1) lk h(2-5) l] Let_def)
    then show ?thesis using that by blast
  qed
qed

lemma store_blob_returns:
  assumes "fs_ok fs" "length (blob_data b) + DigestLength < 2 ^ 64"
  shows "\<exists>b' fs'. store_blob city env dc key b fs = Some (b', fs') \<and> blob_data b' = blob_data b"
proof (rule store_blob_cases [OF assms(1), of city env dc key b])
  fix fs' assume "store_blob city env dc key b fs = Some (b, fs')"
  then show ?thesis by blast
next
  assume s: "store_blob city env dc key b fs = map_option (\<lambda>(x, fs'). (case x of None \<Rightarrow> b | Some b' \<Rightarrow> b', fs'))
    (getBlob city env dc key (stored_fs city env key (blob_data b) fs))" "map_of (entries fs) key = None"
  show ?thesis
    by (rule getBlob_stored [OF s(2) assms(2), of city env dc]) (use s(1) in \<open>auto split: option.splits\<close>)
qed

lemma setBlob_defined:
  assumes "fs_ok fs" "length (blob_data b) + DigestLength < 2 ^ 64"
  shows "setBlob city env dc key (Some b) fs \<noteq> None"
proof -
  have "store_blob city env dc key b g \<noteq> None" if "fs_ok g" for g
    using store_blob_returns [OF that assms(2), of city env dc key] by auto
  then show ?thesis using assms(1) remove_files_ok by (simp add: setBlob_def Let_def del: not_None_eq)
qed

lemma setBlob_returns:
  assumes "fs_ok fs" "length (blob_data b) + DigestLength < 2 ^ 64"
  shows "\<exists>b' fs'. setBlob city env dc key (Some b) fs = Some (Some b', fs') \<and> blob_data b' = blob_data b"
  using store_blob_returns [OF assms] store_blob_returns [OF remove_files_ok [OF assms(1)] assms(2)]
  by (auto simp: setBlob_def Let_def)

text \<open>Storing a graph in the cache never changes what the caller goes on with: whatever the file system
  answers, and whatever is evicted, \<open>setBlob\<close> returns a container with the bytes it was given.
\<close>

theorem setBlob_keeps_data:
  assumes "fs_ok fs" "length (blob_data b) + DigestLength < 2 ^ 64"
  shows "\<exists>b' fs'. setBlob city env dc key (Some b) fs = Some (Some b', fs') \<and> blob_data b' = blob_data b"
  using assms by (rule setBlob_returns)

section \<open>Eviction\<close>

text \<open>Times distinct: the files in the order of their times.\<close>

lemma emplace_time_set: "t \<notin> fst ` set xs \<Longrightarrow> set (emplace_time t m xs) = insert (t, m) (set xs)"
  by (induction t m xs rule: emplace_time.induct) auto

lemma emplace_time_sorted:
  "sorted_wrt (<) (map fst xs) \<Longrightarrow> t \<notin> fst ` set xs \<Longrightarrow> sorted_wrt (<) (map fst (emplace_time t m xs))"
  by (induction t m xs rule: emplace_time.induct) (auto simp: emplace_time_set)

definition emplace_all :: "(int \<times> fname) list \<Rightarrow> (fname \<times> u64 \<times> int) list \<Rightarrow> (int \<times> fname) list" where
  "emplace_all acc xs = foldl (\<lambda>acc (m, _, t). emplace_time t m acc) acc xs"

lemma emplace_all_ok:
  "sorted_wrt (<) (map fst acc) \<Longrightarrow> distinct (map (snd \<circ> snd) xs) \<Longrightarrow> fst ` set acc \<inter> (snd \<circ> snd) ` set xs = {} \<Longrightarrow>
   sorted_wrt (<) (map fst (emplace_all acc xs)) \<and> set (emplace_all acc xs) = set acc \<union> (\<lambda>(m, _, t). (t, m)) ` set xs"
proof (induction xs arbitrary: acc)
  case (Cons x xs)
  obtain m z t where x: "x = (m, z, t)" by (cases x)
  have "t \<notin> fst ` set acc" using Cons.prems(3) x by force
  then have "sorted_wrt (<) (map fst (emplace_time t m acc))" "set (emplace_time t m acc) = insert (t, m) (set acc)"
    using Cons.prems(1) by (auto simp: emplace_time_sorted emplace_time_set)
  moreover have "fst ` set (emplace_time t m acc) \<inter> (snd \<circ> snd) ` set xs = {}"
    using calculation(2) Cons.prems(2,3) x by force
  ultimately show ?case using Cons.IH [of "emplace_time t m acc"] Cons.prems(2) x by (simp add: emplace_all_def)
qed (simp add: emplace_all_def)

text \<open>With every file unlocked and permitted, the loop removes a prefix of its list.\<close>

definition unlocked :: "file_sys \<Rightarrow> bool" where
  "unlocked fs \<longleftrightarrow> (\<forall>n. shared_locks fs n = 0 \<and> \<not> exclusive_lock fs n)"

definition permitted :: "fs_env \<Rightarrow> bool" where
  "permitted env \<longleftrightarrow> (\<forall>m. may_open env m \<and> may_remove env m \<and> may_stat env m)"

definition without :: "fname list \<Rightarrow> file_sys \<Rightarrow> file_sys" where
  "without ms fs = fs\<lparr>entries := filter (\<lambda>(m, _). m \<notin> set ms) (entries fs)\<rparr>"

definition file_length :: "file_sys \<Rightarrow> fname \<Rightarrow> nat" where
  "file_length fs m = (case map_of (entries fs) m of Some n \<Rightarrow> length (node_data fs n) | None \<Rightarrow> 0)"

lemma remove_one:
  assumes "permitted env" "unlocked fs" "map_of (entries fs) m = Some n"
  shows "remove_loop env e r (m # ms) fs =
     (let r' = r + of_nat (file_length fs m) in if r' \<ge> e then (r', without [m] fs) else remove_loop env e r' ms (without [m] fs))"
proof -
  have "fs\<lparr>exclusive_lock := (exclusive_lock fs)(n := True), entries := E,
           exclusive_lock := (exclusive_lock fs)(n := False)\<rparr> = fs\<lparr>entries := E\<rparr>" for E
    using assms(2) by (simp add: unlocked_def fun_upd_idem)
  then show ?thesis
    using assms by (simp add: permitted_def unlocked_def exclusive_open_eq osiFileRemove_def os_file_close_def
        without_def file_length_def Let_def)
qed

lemma without_simps [simp]:
  "unlocked (without ms fs) = unlocked fs" "without ms (without [m] fs) = without (m # ms) fs" "without [] fs = fs"
  "node_data (without ms fs) = node_data fs" "node_atime (without ms fs) = node_atime fs"
  "set (entries (without ms fs)) = {(m, n) \<in> set (entries fs). m \<notin> set ms}"
  by (auto simp: without_def unlocked_def intro!: file_sys.equality filter_cong)

lemma map_of_filter_notin: "m \<notin> S \<Longrightarrow> map_of (filter (\<lambda>(m, _). m \<notin> S) xs) m = map_of xs m"
  by (induction xs) auto

lemma without_length: "m \<notin> set ms \<Longrightarrow> file_length (without ms fs) m = file_length fs m"
  by (simp add: file_length_def without_def map_of_filter_notin split: option.split)

lemma remove_loop_prefix:
  assumes "permitted env" "unlocked fs" "distinct ms" "set ms \<subseteq> fst ` set (entries fs)"
    "r + sum_list (map (file_length fs) ms) < 2 ^ 64"
  shows "\<exists>k\<le>length ms. remove_loop env e (of_nat r) ms fs
            = (of_nat (r + sum_list (map (file_length fs) (take k ms))), without (take k ms) fs)
          \<and> (k = length ms \<or> unat e \<le> r + sum_list (map (file_length fs) (take k ms)))"
  using assms(2-)
proof (induction ms arbitrary: fs r)
  case (Cons m ms)
  obtain n where n: "map_of (entries fs) m = Some n" using Cons.prems(3) by (cases "map_of (entries fs) m") (auto simp: map_of_eq_None_iff)
  let ?r = "r + file_length fs m"
  have u: "unat (of_nat ?r :: u64) = ?r" using Cons.prems(4) by (intro unat_of_nat_64) simp
  have step: "remove_loop env e (of_nat r) (m # ms) fs =
      (if unat e \<le> ?r then (of_nat ?r, without [m] fs) else remove_loop env e (of_nat ?r) ms (without [m] fs))"
    using remove_one [OF assms(1) Cons.prems(1) n, of e "of_nat r" ms] u by (simp add: Let_def word_le_nat_alt)
  show ?case
  proof (cases "unat e \<le> ?r")
    case True
    then show ?thesis using step by (intro exI [of _ 1]) simp
  next
    case False
    have len: "map (file_length (without [m] fs)) ms = map (file_length fs) ms"
      "map (file_length (without [m] fs)) (take k ms) = map (file_length fs) (take k ms)" for k
      using Cons.prems(2) by (auto intro!: without_length dest: in_set_takeD)
    have "set ms \<subseteq> fst ` set (entries (without [m] fs))" using Cons.prems(2,3) by force
    note ih = Cons.IH [of "without [m] fs" ?r, unfolded len without_simps(1,2), OF Cons.prems(1) _ this]
    obtain k where "k \<le> length ms" "remove_loop env e (of_nat ?r) ms (without [m] fs)
            = (of_nat (?r + sum_list (map (file_length fs) (take k ms))), without (m # take k ms) fs)"
      "k = length ms \<or> unat e \<le> ?r + sum_list (map (file_length fs) (take k ms))"
      using ih Cons.prems(2,4) by auto
    then show ?thesis using step False by (intro exI [of _ "Suc k"]) (simp add: ac_simps)
  qed
qed simp

lemma total_sum: "fs_ok fs \<Longrightarrow> cache_total fs = sum (file_length fs) (fst ` set (entries fs))"
proof -
  assume ok: "fs_ok fs"
  then have "cache_total fs = sum_list (map (file_length fs) (map fst (entries fs)))"
    unfolding cache_total_def map_map
    by (intro arg_cong [where f = sum_list] map_cong)
       (auto simp: file_length_def fs_ok_def dest!: map_of_is_SomeI [rotated])
  also have "\<dots> = sum (file_length fs) (set (map fst (entries fs)))"
    using ok by (intro sum_list_distinct_conv_sum_set) (simp add: fs_ok_def)
  finally show ?thesis by simp
qed

lemma without_ok: "fs_ok fs \<Longrightarrow> fs_ok (without ms fs)"
  by (auto simp: without_def fs_ok_def intro: distinct_map_filter)

lemma total_without:
  assumes "fs_ok fs" "distinct ms" "set ms \<subseteq> fst ` set (entries fs)"
  shows "cache_total (without ms fs) + sum_list (map (file_length fs) ms) = cache_total fs"
proof -
  have n: "fst ` set (entries (without ms fs)) = fst ` set (entries fs) - set ms" by force
  have "cache_total (without ms fs) = sum (file_length fs) (fst ` set (entries fs) - set ms)"
    unfolding total_sum [OF without_ok [OF assms(1)]] n by (intro sum.cong) (auto simp: without_length)
  moreover have "sum_list (map (file_length fs) ms) = sum (file_length fs) (set ms)"
    using assms(2) by (rule sum_list_distinct_conv_sum_set)
  ultimately show ?thesis
    using sum.subset_diff [OF assms(3), of "file_length fs"] total_sum [OF assms(1)] by simp
qed

text \<open>The time stamps tell the files apart; then the list of the scan is the files by age.\<close>

definition times_differ :: "file_sys \<Rightarrow> bool" where
  "times_differ fs \<longleftrightarrow> inj_on (node_atime fs) (snd ` set (entries fs))"

definition file_time :: "file_sys \<Rightarrow> fname \<Rightarrow> int" where
  "file_time fs m = node_atime fs (the (map_of (entries fs) m))"

lemma file_time: "fs_ok fs \<Longrightarrow> (m, n) \<in> set (entries fs) \<Longrightarrow> file_time fs m = node_atime fs n"
  by (simp add: file_time_def fs_ok_def)

lemma scan_permitted:
  "permitted env \<Longrightarrow> osiScanDir env fs = map (\<lambda>(m, n). (m, of_nat (length (node_data fs n)), node_atime fs n)) (entries fs)"
  by (simp add: osiScanDir_def permitted_def)

lemma sorted_files_age:
  assumes "fs_ok fs" "permitted env" "times_differ fs"
  shows "distinct (sorted_files (osiScanDir env fs)) \<and> set (sorted_files (osiScanDir env fs)) = fst ` set (entries fs)
         \<and> sorted_wrt (\<lambda>m m'. file_time fs m < file_time fs m') (sorted_files (osiScanDir env fs))"
proof -
  let ?ps = "emplace_all [] (osiScanDir env fs)"
  have f: "sorted_files (osiScanDir env fs) = map snd ?ps" by (simp add: sorted_files_def emplace_all_def)
  have "map (snd \<circ> snd) (osiScanDir env fs) = map (node_atime fs) (map snd (entries fs))"
    by (simp add: scan_permitted [OF assms(2)]) (auto simp: case_prod_beta)
  then have "distinct (map (snd \<circ> snd) (osiScanDir env fs))"
    using assms(1,3) by (simp add: distinct_map fs_ok_def times_differ_def del: map_map)
  then have ps: "sorted_wrt (<) (map fst ?ps)" "set ?ps = (\<lambda>(m, n). (node_atime fs n, m)) ` set (entries fs)"
    using emplace_all_ok [of "[]" "osiScanDir env fs"] by (auto simp: scan_permitted [OF assms(2)] image_image case_prod_beta)
  have t: "(t, m) \<in> set ?ps \<Longrightarrow> t = file_time fs m" for t m using ps(2) file_time [OF assms(1)] by auto
  have "distinct ?ps" using ps(1) by (simp add: strict_sorted_iff distinct_map)
  moreover have "inj_on snd (set ?ps)" by (rule inj_onI) (metis prod.collapse t)
  moreover have "sorted_wrt (\<lambda>x y. file_time fs (snd x) < file_time fs (snd y)) ?ps"
    using ps(1) t unfolding sorted_wrt_map by (elim sorted_wrt_mono_rel [rotated]) force
  ultimately show ?thesis unfolding f using ps(2) by (auto simp: distinct_map sorted_wrt_map image_image case_prod_beta)
qed

lemma sorted_wrt_take_drop:
  "sorted_wrt P xs \<Longrightarrow> x \<in> set (take k xs) \<Longrightarrow> y \<in> set (drop k xs) \<Longrightarrow> P x y"
  using sorted_wrt_append [of P "take k xs" "drop k xs"] by simp

lemma evict_prefix:
  assumes "fs_ok fs" "permitted env" "unlocked fs" "times_differ fs" "cache_total fs < 2 ^ 64"
  obtains k where "removeLeastUsedFiles env e fs =
      (of_nat (sum_list (map (file_length fs) (take k (sorted_files (osiScanDir env fs))))),
       without (take k (sorted_files (osiScanDir env fs))) fs)"
    "k = length (sorted_files (osiScanDir env fs))
       \<or> unat e \<le> sum_list (map (file_length fs) (take k (sorted_files (osiScanDir env fs))))"
proof -
  let ?ms = "sorted_files (osiScanDir env fs)"
  note age = sorted_files_age [OF assms(1,2,4)]
  have "sum_list (map (file_length fs) ?ms) < 2 ^ 64"
    using assms(5) total_without [OF assms(1), of ?ms] age by simp
  then show ?thesis
    using remove_loop_prefix [OF assms(2,3), of ?ms 0 e] age that unfolding removeLeastUsedFiles_def by auto
qed


section \<open>The limit\<close>

lemma getCacheSize_total:
  assumes "permitted env" "cachePath dc \<noteq> []"
  shows "getCacheSize env dc fs = of_nat (cache_total fs)"
proof -
  have "sum_list (map (\<lambda>(_, sz, _). sz) (map (\<lambda>(m, n). (m, of_nat (f n), g n)) xs)) = (of_nat (sum_list (map (\<lambda>(_, n). f n) xs)) :: u64)"
    for f :: "nat \<Rightarrow> nat" and g :: "nat \<Rightarrow> int" and xs :: "(fname \<times> nat) list"
    by (induction xs) auto
  then show ?thesis using assms by (simp only: getCacheSize_def cache_total_def scan_permitted if_False)
qed

lemma store_blob_total:
  assumes "fs_ok fs" "permitted env" "length (blob_data b) + DigestLength < 2 ^ 64"
    "store_blob city env dc key b fs = Some (x, fs')"
  shows "cache_total fs' \<le> cache_total fs + length (blob_data b) + DigestLength"
proof (rule store_blob_cases [OF assms(1), of city env dc key b])
  fix g assume "store_blob city env dc key b fs = Some (b, g)" "may_remove env key \<Longrightarrow> cache_total g = cache_total fs"
  then show ?thesis using assms(2,4) by (simp add: permitted_def)
next
  assume s: "store_blob city env dc key b fs = map_option (\<lambda>(x, fs'). (case x of None \<Rightarrow> b | Some b' \<Rightarrow> b', fs'))
      (getBlob city env dc key (stored_fs city env key (blob_data b) fs))" "map_of (entries fs) key = None"
  have t: "cache_total (stored_fs city env key (blob_data b) fs) = cache_total fs + length (blob_data b) + DigestLength"
  proof -
    let ?g = "stored_fs city env key (blob_data b) fs"
    have "cache_total ?g = sum_list (map (\<lambda>(_, n). length (node_data ?g n)) (entries fs)) + length (blob_data b) + DigestLength"
      by (simp add: cache_total_def stored_fs_def)
    moreover have "map (\<lambda>(_, n). length (node_data ?g n)) (entries fs) = map (\<lambda>(_, n). length (node_data fs n)) (entries fs)"
      using fresh_node [OF assms(1)] by (intro map_cong) (auto simp: stored_fs_def)
    ultimately show ?thesis by (simp only: cache_total_def)
  qed
  show ?thesis
  proof (rule getBlob_stored [OF s(2) assms(3), of city env dc])
    fix r g
    assume "getBlob city env dc key (stored_fs city env key (blob_data b) fs) = Some (r, g)"
      "entries g = entries (stored_fs city env key (blob_data b) fs)"
      "node_data g = node_data (stored_fs city env key (blob_data b) fs)"
    then show ?thesis using s(1) assms(4) t by (auto simp: cache_total_def)
  qed
qed


section \<open>At a concrete cache\<close>

text \<open>A directory of two files and one that fits no more; a checksum that is the sum of the bytes.\<close>

definition toy_city :: city where
  "toy_city = \<lparr>CityHash64WithSeed = (\<lambda>bs s. s + of_nat (length bs)), CityHashCrc256 = (\<lambda>bs. (of_nat (length bs), 0, 0, 0))\<rparr>"

definition toy_env :: fs_env where
  "toy_env = \<lparr>may_open = (\<lambda>_. True), may_remove = (\<lambda>_. True), may_stat = (\<lambda>_. True), map_address = (\<lambda>_. Some 4096),
     write_fails = (\<lambda>_. None), fs_time = 9, read_time = id\<rparr>"

definition toy_fs :: file_sys where
  "toy_fs = \<lparr>entries = [([97], 0), ([98], 1)], node_data = (\<lambda>n. replicate 50 (of_nat n)), node_atime = (\<lambda>n. 7 - int n),
     shared_locks = (\<lambda>_. 0), exclusive_lock = (\<lambda>_. False), next_node = 2, writes_done = 0\<rparr>"

definition toy_blob :: "bytes \<Rightarrow> blob_container" where
  "toy_blob d = \<lparr>blob_ptr = 64, blob_data = d, backingStore = No_store, npu_buffer = None\<rparr>"

definition toy_cache :: disk_cache where
  "toy_cache = \<lparr>cachePath = ''c'', maxSize = 150\<rparr>"

lemma toy_ok: "fs_ok toy_fs" "permitted toy_env" "unlocked toy_fs" "times_differ toy_fs" "cache_total toy_fs = 100"
  by (simp_all add: toy_fs_def toy_env_def fs_ok_def permitted_def unlocked_def times_differ_def cache_total_def inj_on_def)

lemma getBlob_authentic_witness:
  "let fs = toy_fs\<lparr>entries := [([97], 0)], node_data := (\<lambda>_. [1, 2] @ getDigest toy_city [1, 2])\<rparr> in
   \<exists>b fs'. getBlob toy_city toy_env toy_cache [97] fs = Some (Some b, fs') \<and> blob_data b = [1, 2]
     \<and> node_data fs 0 = blob_data b @ getDigest toy_city (blob_data b)"
proof -
  let ?fs = "toy_fs\<lparr>entries := [([97], 0)], node_data := (\<lambda>_. [1, 2] @ getDigest toy_city [1, 2])\<rparr>"
  have m: "map_of (entries ?fs) [97] = Some 0" by simp
  have l: "length (node_data ?fs 0) < 2 ^ 64" by (simp add: DigestLength_def)
  have "\<exists>b fs'. getBlob toy_city toy_env toy_cache [97] ?fs = Some (Some b, fs') \<and> blob_data b = [1, 2]"
    using getBlob_eq [OF _ m _ _ _ _ l, of toy_cache toy_env 4096 toy_city]
    by (simp add: toy_cache_def toy_env_def toy_fs_def Let_def)
  then obtain b fs' where b: "getBlob toy_city toy_env toy_cache [97] ?fs = Some (Some b, fs')" "blob_data b = [1, 2]" by blast
  show ?thesis using getBlob_authentic [OF b(1) m l] b unfolding Let_def by blast
qed

lemma setBlob_keeps_data_witness:
  "\<exists>b' fs'. setBlob toy_city toy_env toy_cache [99] (Some (toy_blob [5])) toy_fs = Some (Some b', fs') \<and> blob_data b' = [5]"
  using setBlob_keeps_data [OF toy_ok(1), of "toy_blob [5]" toy_city toy_env toy_cache "[99]"]
  by (simp add: toy_blob_def DigestLength_def)



end
