(* ===== verification/L0_Memory.thy ===== *)
theory L0_Memory
  imports L0_Base
begin

text \<open>
  The memory calls of a Level Zero context (\<open>umd/level_zero_driver/source/memory.cpp\<close>,
  \<open>umd/level_zero_driver/api/ze_memory.cpp\<close>, and the memory part of \<open>context.cpp\<close>). The first part of
  a result is what the call returns, the second what it stores through the caller's pointers; \<open>None\<close> in
  place of a result is a null pointer that is written.
\<close>

section \<open>Allocation (memory.cpp)\<close>

text \<open>\<open>hasPtr\<close>: the output pointer is not null; \<open>hasDrv\<close>: the context has its driver handle.\<close>

definition external_location :: "location \<Rightarrow> bool" where
  "external_location loc \<longleftrightarrow> loc \<in> {ExternalHost, ExternalDevice, ExternalShared}"

definition checkMemInputs :: "'k dev_ctx \<Rightarrow> bool \<Rightarrow> location \<Rightarrow> u64 \<Rightarrow> u64 \<Rightarrow> bool \<Rightarrow> ze_result" where
  "checkMemInputs c hasDrv loc sz alignment hasPtr =
     (if external_location loc \<and> \<not> primeBuffersCapability (hwInfo c) then ZE_RESULT_ERROR_UNSUPPORTED_FEATURE
      else if \<not> hasPtr then ZE_RESULT_ERROR_INVALID_NULL_POINTER
      else if sz = 0 then ZE_RESULT_ERROR_UNSUPPORTED_SIZE
      else if alignment AND (alignment - 1) \<noteq> 0 then ZE_RESULT_ERROR_UNSUPPORTED_ALIGNMENT
      else if \<not> hasDrv then ZE_RESULT_ERROR_UNINITIALIZED
      else ZE_RESULT_SUCCESS)"

type_synonym 'k mem_result = "(exn + ze_result \<times> u64 option) \<times> 'k dev_ctx"

definition allocMemory ::
  "'k dev_ctx \<Rightarrow> bool \<Rightarrow> u64 \<Rightarrow> u64 \<Rightarrow> bool \<Rightarrow> location \<Rightarrow> bo_flags \<Rightarrow> 'k mem_result" where
  "allocMemory c hasDrv sz alignment hasPtr loc ty =
     (let ret = checkMemInputs c hasDrv loc sz alignment hasPtr in
      if ret \<noteq> ZE_RESULT_SUCCESS then (Inr (ret, None), c)
      else (case createMemAlloc c sz ty loc of
              (Inl e, c') \<Rightarrow> (Inl e, c')
            | (Inr p, c') \<Rightarrow>
                (Inr (if p = 0 then ZE_RESULT_ERROR_OUT_OF_DEVICE_MEMORY else ZE_RESULT_SUCCESS, Some p), c')))"

definition importMemory :: "'k dev_ctx \<Rightarrow> location \<Rightarrow> int \<Rightarrow> bool \<Rightarrow> 'k mem_result option" where
  "importMemory c loc fd hasPtr =
     (if \<not> primeBuffersCapability (hwInfo c) then Some (Inr (ZE_RESULT_ERROR_UNSUPPORTED_FEATURE, None), c)
      else (case importBufferObject c loc fd of
              (Inl e, c') \<Rightarrow> Some (Inl e, c')
            | (Inr None, c') \<Rightarrow> Some (Inr (ZE_RESULT_ERROR_OUT_OF_DEVICE_MEMORY, None), c')
            | (Inr (Some bo), c') \<Rightarrow>
                if \<not> hasPtr then None else Some (Inr (ZE_RESULT_SUCCESS, Some (basePtr bo)), c')))"

definition ZE_HOST_MEM_ALLOC_FLAG_BIAS_CACHED :: u32 where "ZE_HOST_MEM_ALLOC_FLAG_BIAS_CACHED = 1"
definition ZE_HOST_MEM_ALLOC_FLAG_BIAS_UNCACHED :: u32 where "ZE_HOST_MEM_ALLOC_FLAG_BIAS_UNCACHED = 2"
definition ZE_HOST_MEM_ALLOC_FLAG_BIAS_WRITE_COMBINED :: u32 where "ZE_HOST_MEM_ALLOC_FLAG_BIAS_WRITE_COMBINED = 4"
definition ZE_EXTERNAL_MEMORY_TYPE_FLAG_DMA_BUF :: u32 where "ZE_EXTERNAL_MEMORY_TYPE_FLAG_DMA_BUF = 2"

lemmas host_flag_defs [umd_defs] = ZE_HOST_MEM_ALLOC_FLAG_BIAS_CACHED_def ZE_HOST_MEM_ALLOC_FLAG_BIAS_UNCACHED_def
  ZE_HOST_MEM_ALLOC_FLAG_BIAS_WRITE_COMBINED_def ZE_EXTERNAL_MEMORY_TYPE_FLAG_DMA_BUF_def

definition importUserPtr :: "'k dev_ctx \<Rightarrow> u64 \<Rightarrow> u64 \<Rightarrow> u32 \<Rightarrow> bool \<Rightarrow> 'k mem_result" where
  "importUserPtr c userPtr sz flags hasPtr =
     (if userPtr = 0 \<or> \<not> hasPtr then (Inr (ZE_RESULT_ERROR_INVALID_NULL_POINTER, None), c)
      else if sz = 0 then (Inr (ZE_RESULT_ERROR_UNSUPPORTED_SIZE, None), c)
      else if \<not> userPtrCapability (hwInfo c) then (Inr (ZE_RESULT_ERROR_UNSUPPORTED_FEATURE, None), c)
      else if findBufferObject c userPtr \<noteq> None then (Inr (ZE_RESULT_ERROR_INVALID_ARGUMENT, None), c)
      else (case createTrackedBufferObjectFromUserPtr c userPtr sz
                   (flags AND ZE_HOST_MEM_ALLOC_FLAG_BIAS_WRITE_COMBINED \<noteq> 0) of
              (None, c') \<Rightarrow> (Inr (ZE_RESULT_ERROR_OUT_OF_DEVICE_MEMORY, None), c')
            | (Some _, c') \<Rightarrow> (Inr (ZE_RESULT_SUCCESS, Some userPtr), c')))"

definition freeMem :: "'k dev_ctx \<Rightarrow> u64 \<Rightarrow> ze_result \<times> 'k dev_ctx" where
  "freeMem c ptr =
     (case freeMemAlloc c ptr of
        (False, c') \<Rightarrow> (ZE_RESULT_ERROR_INVALID_ARGUMENT, c') | (True, c') \<Rightarrow> (ZE_RESULT_SUCCESS, c'))"

section \<open>Queries\<close>

datatype ze_memory_type = ZE_MEMORY_TYPE_UNKNOWN | ZE_MEMORY_TYPE_HOST | ZE_MEMORY_TYPE_DEVICE | ZE_MEMORY_TYPE_SHARED

record mem_properties =
  mem_type :: ze_memory_type
  mem_id :: u64
  mem_pageSize :: u64

fun memory_type :: "location \<Rightarrow> ze_memory_type" where
  "memory_type Device = ZE_MEMORY_TYPE_DEVICE"
| "memory_type ExternalDevice = ZE_MEMORY_TYPE_DEVICE"
| "memory_type Host = ZE_MEMORY_TYPE_HOST"
| "memory_type ExternalHost = ZE_MEMORY_TYPE_HOST"
| "memory_type UserPtr = ZE_MEMORY_TYPE_HOST"
| "memory_type Shared = ZE_MEMORY_TYPE_SHARED"
| "memory_type ExternalShared = ZE_MEMORY_TYPE_SHARED"
| "memory_type _ = ZE_MEMORY_TYPE_UNKNOWN"

text \<open>
  \<open>out\<close>: what the structure at \<open>pMemAllocProperties\<close> becomes; \<open>export\<close>: it is followed by an aligned
  structure that asks for a DMA-BUF descriptor. The last component is that descriptor.
\<close>

definition getMemAllocProperties ::
  "'k dev_ctx \<Rightarrow> u64 \<Rightarrow> bool \<Rightarrow> bool \<Rightarrow> (ze_result \<times> mem_properties option \<times> int option) \<times> 'k dev_ctx" where
  "getMemAllocProperties c ptr hasOut export =
     (if ptr = 0 \<or> \<not> hasOut then ((ZE_RESULT_ERROR_INVALID_NULL_POINTER, None, None), c)
      else (case findBufferObject c ptr of
              None \<Rightarrow> ((ZE_RESULT_ERROR_NOT_AVAILABLE, None, None), c)
            | Some bo \<Rightarrow>
                let props = Some \<lparr>mem_type = memory_type (bo_location bo), mem_id = bo_id bo,
                                  mem_pageSize = da_getPageSize (drvApi c)\<rparr> in
                if export
                then (case exportToFd (drvApi c) bo (ctx_world c) of
                        (None, w) \<Rightarrow> ((ZE_RESULT_ERROR_NOT_AVAILABLE, props, None), c\<lparr>ctx_world := w\<rparr>)
                      | (Some fd, w) \<Rightarrow> ((ZE_RESULT_SUCCESS, props, Some fd), c\<lparr>ctx_world := w\<rparr>))
                else ((ZE_RESULT_SUCCESS, props, None), c)))"

definition getMemAddressRange ::
  "'k dev_ctx \<Rightarrow> u64 \<Rightarrow> bool \<Rightarrow> bool \<Rightarrow> ze_result \<times> u64 option \<times> u64 option" where
  "getMemAddressRange c ptr hasBase hasSize =
     (if ptr = 0 then (ZE_RESULT_ERROR_INVALID_NULL_POINTER, None, None)
      else (case findBufferObject c ptr of
              None \<Rightarrow> (ZE_RESULT_ERROR_NOT_AVAILABLE, None, None)
            | Some bo \<Rightarrow> (ZE_RESULT_SUCCESS, if hasBase then Some (vpuAddr bo) else None,
                           if hasSize then Some (allocSize bo) else None)))"

section \<open>Memory of the context (context.cpp)\<close>

datatype memory_query = Query_ddr | Query_driver_cache | Query_program_cache | Query_other nat

text \<open>
  \<open>ram\<close> is the answer of \<open>sysinfo\<close>, \<open>cache\<close> the size and the limit of the disk cache; the result is
  the \<open>total\<close> that is written, if it is, and the \<open>allocated\<close>.
\<close>

definition queryContextMemory ::
  "'k dev_ctx \<Rightarrow> u64 option \<Rightarrow> u64 \<times> u64 \<Rightarrow> memory_query \<Rightarrow> ze_result \<times> u64 option \<times> u64 option" where
  "queryContextMemory c ram cache q =
     (case q of
        Query_ddr \<Rightarrow> (ZE_RESULT_SUCCESS, ram, Some (getAllocatedSize c))
      | Query_other _ \<Rightarrow> (ZE_RESULT_ERROR_INVALID_ARGUMENT, None, None)
      | _ \<Rightarrow> (ZE_RESULT_SUCCESS, Some (snd cache), Some (fst cache)))"

definition releaseMemory :: "'k dev_ctx \<Rightarrow> 'k dev_ctx" where
  "releaseMemory c = scratchCachePrune (- 1) (preemptionCachePrune c)"

section \<open>The API (ze\_memory.cpp)\<close>

definition flagToBufferObjectType :: "u32 \<Rightarrow> bo_flags" where
  "flagToBufferObjectType flag =
     (if flag = ZE_HOST_MEM_ALLOC_FLAG_BIAS_CACHED then CachedDma
      else if flag = ZE_HOST_MEM_ALLOC_FLAG_BIAS_UNCACHED then UncachedDma
      else if flag = ZE_HOST_MEM_ALLOC_FLAG_BIAS_WRITE_COMBINED then WriteCombineDma
      else CachedDma)"

text \<open>\<open>pNext\<close> of a descriptor: misaligned, or a structure by its \<open>stype\<close>.\<close>

datatype desc_ext =
    No_ext | Misaligned_ext | Export_desc u32 | Import_fd u32 int | Memmap_sysmem u64 u64 | Other_ext

text \<open>\<open>L0_HANDLE_EXCEPTION\<close>.\<close>

definition handle_exception :: "'k mem_result \<Rightarrow> (ze_result \<times> u64 option) \<times> 'k dev_ctx" where
  "handle_exception r = (case r of (Inl _, c) \<Rightarrow> ((ZE_RESULT_ERROR_UNKNOWN, None), c) | (Inr x, c) \<Rightarrow> (x, c))"

type_synonym 'k api_result = "((ze_result \<times> u64 option) \<times> 'k dev_ctx) option"

definition mem_error :: "ze_result \<Rightarrow> 'k dev_ctx \<Rightarrow> 'k api_result" where
  "mem_error r c = Some ((r, None), c)"

text \<open>The switch that the three calls share: export, import, or an allocation.\<close>

definition alloc_switch ::
  "'k dev_ctx \<Rightarrow> bool \<Rightarrow> desc_ext \<Rightarrow> u64 \<Rightarrow> u64 \<Rightarrow> bool \<Rightarrow> location \<Rightarrow> location \<Rightarrow> bo_flags \<Rightarrow> 'k api_result" where
  "alloc_switch c hasDrv ext sz alignment hasPtr extLoc loc ty =
     (case ext of
        Export_desc flags \<Rightarrow>
          if flags = ZE_EXTERNAL_MEMORY_TYPE_FLAG_DMA_BUF
          then Some (handle_exception (allocMemory c hasDrv sz alignment hasPtr extLoc ty))
          else mem_error ZE_RESULT_ERROR_INVALID_ENUMERATION c
      | Import_fd flags fd \<Rightarrow>
          if flags = ZE_EXTERNAL_MEMORY_TYPE_FLAG_DMA_BUF
          then map_option handle_exception (importMemory c extLoc fd hasPtr)
          else mem_error ZE_RESULT_ERROR_INVALID_ENUMERATION c
      | _ \<Rightarrow> Some (handle_exception (allocMemory c hasDrv sz alignment hasPtr loc ty)))"

text \<open>The descriptors: the flags of the host one, \<open>None\<close> for a null pointer.\<close>

definition zeMemAllocShared ::
  "'k dev_ctx option \<Rightarrow> bool \<Rightarrow> desc_ext option \<Rightarrow> u32 option \<Rightarrow> u64 \<Rightarrow> u64 \<Rightarrow> bool \<Rightarrow> 'k api_result + ze_result" where
  "zeMemAllocShared hContext hasDrv deviceDesc hostDesc sz alignment hasPtr =
     (case hContext of None \<Rightarrow> Inr ZE_RESULT_ERROR_INVALID_NULL_HANDLE
      | Some c \<Rightarrow>
          (case (deviceDesc, hostDesc) of
             (Some ext, Some flags) \<Rightarrow>
               if ext = Misaligned_ext then Inr ZE_RESULT_ERROR_INVALID_NULL_POINTER
               else Inl (alloc_switch c hasDrv ext sz alignment hasPtr ExternalShared Shared (flagToBufferObjectType flags))
           | _ \<Rightarrow> Inr ZE_RESULT_ERROR_INVALID_NULL_POINTER))"

definition zeMemAllocDevice ::
  "'k dev_ctx option \<Rightarrow> bool \<Rightarrow> desc_ext option \<Rightarrow> u64 \<Rightarrow> u64 \<Rightarrow> bool \<Rightarrow> 'k api_result + ze_result" where
  "zeMemAllocDevice hContext hasDrv deviceDesc sz alignment hasPtr =
     (case hContext of None \<Rightarrow> Inr ZE_RESULT_ERROR_INVALID_NULL_HANDLE
      | Some c \<Rightarrow>
          (case deviceDesc of
             None \<Rightarrow> Inr ZE_RESULT_ERROR_INVALID_NULL_POINTER
           | Some ext \<Rightarrow>
               if ext = Misaligned_ext then Inr ZE_RESULT_ERROR_INVALID_NULL_POINTER
               else Inl (alloc_switch c hasDrv ext sz alignment hasPtr ExternalDevice Device WriteCombineDma)))"

definition zeMemAllocHost ::
  "'k dev_ctx option \<Rightarrow> bool \<Rightarrow> (desc_ext \<times> u32) option \<Rightarrow> u64 \<Rightarrow> u64 \<Rightarrow> bool \<Rightarrow> 'k api_result + ze_result" where
  "zeMemAllocHost hContext hasDrv hostDesc sz alignment hasPtr =
     (case hContext of None \<Rightarrow> Inr ZE_RESULT_ERROR_INVALID_NULL_HANDLE
      | Some c \<Rightarrow>
          (case hostDesc of
             None \<Rightarrow> Inr ZE_RESULT_ERROR_INVALID_NULL_POINTER
           | Some (ext, flags) \<Rightarrow>
               (case ext of
                  Misaligned_ext \<Rightarrow> Inr ZE_RESULT_ERROR_INVALID_NULL_POINTER
                | Memmap_sysmem p n \<Rightarrow> Inl (Some (handle_exception (importUserPtr c p n flags hasPtr)))
                | _ \<Rightarrow> Inl (alloc_switch c hasDrv ext sz alignment hasPtr ExternalHost Host (flagToBufferObjectType flags)))))"

definition zeMemFree :: "'k dev_ctx option \<Rightarrow> u64 \<Rightarrow> ze_result \<times> 'k dev_ctx option" where
  "zeMemFree hContext ptr =
     (case hContext of None \<Rightarrow> (ZE_RESULT_ERROR_INVALID_NULL_HANDLE, None)
      | Some c \<Rightarrow> (case freeMem c ptr of (r, c') \<Rightarrow> (r, Some c')))"

definition zeMemGetAddressRange ::
  "'k dev_ctx option \<Rightarrow> u64 \<Rightarrow> bool \<Rightarrow> bool \<Rightarrow> ze_result \<times> u64 option \<times> u64 option" where
  "zeMemGetAddressRange hContext ptr hasBase hasSize =
     (case hContext of None \<Rightarrow> (ZE_RESULT_ERROR_INVALID_NULL_HANDLE, None, None)
      | Some c \<Rightarrow> getMemAddressRange c ptr hasBase hasSize)"

end
