(* ===== verification/L0_Memory_Props.thy ===== *)
theory L0_Memory_Props
  imports L0_Memory Context_Props
begin

text \<open>
  The memory calls refine a specification that knows nothing of handles, caches and the kernel: a map
  from base addresses to allocations that do not overlap. The uncached host allocation, which the
  specification excludes, can not succeed.
\<close>

section \<open>The specification\<close>

record allocation =
  al_size :: u64
  al_vpu :: u64
  al_location :: location

type_synonym allocations = "u64 \<Rightarrow> allocation option"

definition covers :: "allocations \<Rightarrow> u64 \<Rightarrow> u64 \<Rightarrow> bool" where
  "covers A b q \<longleftrightarrow> (case A b of None \<Rightarrow> False
      | Some a \<Rightarrow> unat b \<le> unat q \<and> unat q < unat b + unat (al_size a))"

text \<open>A new allocation: at a fresh address, and its range meets no other.\<close>

definition spec_new :: "allocations \<Rightarrow> u64 \<Rightarrow> allocation \<Rightarrow> allocations \<Rightarrow> bool" where
  "spec_new A p a A' \<longleftrightarrow> p \<noteq> 0 \<and> A p = None \<and> A' = A(p \<mapsto> a)
     \<and> (\<forall>b q. covers A b q \<longrightarrow> \<not> covers A' p q)"

datatype mem_call =
    Alloc location bo_flags u64 u64 bool
  | Import location int bool
  | Import_user u64 u64 u32 bool
  | Free u64
  | Range u64

type_synonym mem_answer = "ze_result \<times> u64 option \<times> u64 option"

fun spec_step :: "mem_call \<Rightarrow> allocations \<Rightarrow> mem_answer \<Rightarrow> allocations \<Rightarrow> bool" where
  "spec_step (Alloc loc ty sz al ptr) A (r, out, _) A' \<longleftrightarrow>
     (if r = ZE_RESULT_SUCCESS
      then sz \<noteq> 0 \<and> (\<exists>p a. out = Some p \<and> al_size a = sz \<and> al_location a = loc \<and> spec_new A p a A') else A' = A)"
| "spec_step (Import loc fd ptr) A (r, out, _) A' \<longleftrightarrow>
     (if r = ZE_RESULT_SUCCESS then (\<exists>p a. out = Some p \<and> al_location a = loc \<and> spec_new A p a A') else A' = A)"
| "spec_step (Import_user up sz flags ptr) A (r, out, _) A' \<longleftrightarrow>
     (if r = ZE_RESULT_SUCCESS
      then out = Some up \<and> (\<forall>b. \<not> covers A b up) \<and> (\<exists>p a. al_location a = UserPtr \<and> spec_new A p a A') else A' = A)"
| "spec_step (Free p) A (r, out, _) A' \<longleftrightarrow>
     (let found = (\<lambda>b. covers A b p \<and> (b = p \<or> map_option al_location (A b) = Some UserPtr))
      in if r = ZE_RESULT_SUCCESS then \<exists>b. found b \<and> A' = A(b := None) else A' = A \<and> (\<forall>b. \<not> found b))"
| "spec_step (Range p) A (r, out1, out2) A' \<longleftrightarrow> A' = A
     \<and> (if r = ZE_RESULT_SUCCESS
        then \<exists>b a. A b = Some a \<and> covers A b p \<and> out1 = Some (al_vpu a) \<and> out2 = Some (al_size a)
        else \<forall>b. \<not> covers A b p)"

section \<open>The calls, and what they mean\<close>

definition abs_alloc :: "buffer_object \<Rightarrow> allocation" where
  "abs_alloc bo = \<lparr>al_size = allocSize bo, al_vpu = vpuAddr bo, al_location = bo_location bo\<rparr>"

definition abs_ctx :: "'k dev_ctx \<Rightarrow> allocations" where
  "abs_ctx c p = map_option abs_alloc (map_of (trackedBuffers c) p)"

definition one_answer :: "'k mem_result \<Rightarrow> (exn + mem_answer) \<times> 'k dev_ctx" where
  "one_answer x = (case x of (Inl e, c) \<Rightarrow> (Inl e, c) | (Inr (r, out), c) \<Rightarrow> (Inr (r, out, None), c))"

fun mem_exec :: "bool \<Rightarrow> mem_call \<Rightarrow> 'k dev_ctx \<Rightarrow> ((exn + mem_answer) \<times> 'k dev_ctx) option" where
  "mem_exec hasDrv (Alloc loc ty sz al ptr) c = Some (one_answer (allocMemory c hasDrv sz al ptr loc ty))"
| "mem_exec hasDrv (Import loc fd ptr) c = map_option one_answer (importMemory c loc fd ptr)"
| "mem_exec hasDrv (Import_user up sz flags ptr) c = Some (one_answer (importUserPtr c up sz flags ptr))"
| "mem_exec hasDrv (Free p) c = (case freeMem c p of (r, c') \<Rightarrow> Some (Inr (r, None, None), c'))"
| "mem_exec hasDrv (Range p) c = Some (Inr (getMemAddressRange c p True True), c)"

text \<open>What the caller owes: a mappable type; user memory that no buffer of the context lies in.\<close>

fun call_ok :: "('k world \<Rightarrow> u64 \<Rightarrow> bool) \<Rightarrow> 'k dev_ctx \<Rightarrow> mem_call \<Rightarrow> bool" where
  "call_ok mapped c (Alloc loc ty sz al ptr) \<longleftrightarrow> effective_type (hwInfo c) ty AND DRM_IVPU_BO_MAPPABLE \<noteq> 0"
| "call_ok mapped c (Import_user up sz flags ptr) \<longleftrightarrow> userptr_free mapped c up sz"
| "call_ok mapped c _ \<longleftrightarrow> True"

section \<open>One more object\<close>

definition adds :: "('k world \<Rightarrow> u64 \<Rightarrow> bool) \<Rightarrow> 'k dev_ctx \<Rightarrow> buffer_object \<Rightarrow> 'k dev_ctx \<Rightarrow> bool" where
  "adds mapped c b c' \<longleftrightarrow> ctx_ok mapped c' \<and> set (trackedBuffers c') = insert (basePtr b, b) (set (trackedBuffers c))
     \<and> basePtr b \<noteq> 0 \<and> bo_counter (ctx_world c) < bo_id b"

lemma track_adds:
  assumes "driver_contract drv mapped" "ctx_ok mapped c" "joins mapped c b w'" "basePtr b \<noteq> 0"
  obtains c' where "track b (c\<lparr>ctx_world := w'\<rparr>) = (Some b, c')" "adds mapped c b c'"
  using driver_contract.track_joins [OF assms] joins_fresh_id [OF assms(3)] assms(4) that
  by (force simp: adds_def)

context driver_contract
begin

lemma create_adds:
  assumes "ctx_ok mapped c" "drvApi c = drv" "room c" "effective_type (hwInfo c) ty AND DRM_IVPU_BO_MAPPABLE \<noteq> 0"
    and "createBufferObject c sz ty loc = (r, c')"
  shows "case r of Inr (Some b) \<Rightarrow> adds mapped c b c' \<and> allocSize b = sz
         | _ \<Rightarrow> ctx_ok mapped c' \<and> trackedBuffers c' = trackedBuffers c"
proof -
  obtain r1 w' where r: "bo_create drv loc (effective_type (hwInfo c) ty) sz (ctx_world c) = (r1, w')" by force
  note spec = bo_create_spec [OF r]
  show ?thesis
  proof (cases "\<exists>b. r1 = Inr (Some b)")
    case True
    then obtain b where b: "r1 = Inr (Some b)" by blast
    then have n: "new_object (ctx_world c) b w'" "basePtr b \<noteq> 0" "allocSize b = sz" using spec assms(4) by auto
    have j: "joins mapped c b w'" using new_object_joins [OF assms(1) n(1)] assms(3) by (simp add: room_def)
    obtain c'' where t: "track b (c\<lparr>ctx_world := w'\<rparr>) = (Some b, c'')" "adds mapped c b c''"
      using track_adds [OF driver_contract_axioms assms(1) j n(2)] by blast
    then have "r = Inr (Some b)" "c' = c''" using assms(5) by (simp_all add: createBufferObject_def assms(2) r b)
    then show ?thesis using t(2) n(3) by simp
  next
    case False
    then have "world_frame mapped (ctx_world c) w'" using spec by (auto split: sum.splits option.splits)
    then show ?thesis
      using False ctx_ok_frame [OF assms(1)] assms(5)
      by (auto simp: createBufferObject_def assms(2) r split: sum.splits option.splits)
  qed
qed

lemma import_adds:
  assumes "ctx_ok mapped c" "drvApi c = drv" "room c" "importBufferObject c loc fd = (r, c')"
  shows "case r of Inr (Some b) \<Rightarrow> adds mapped c b c'
         | _ \<Rightarrow> ctx_ok mapped c' \<and> trackedBuffers c' = trackedBuffers c"
proof -
  obtain r1 w' where r: "bo_importFromFd drv loc fd (ctx_world c) = (r1, w')" by force
  note spec = bo_import_spec [OF r]
  show ?thesis
  proof (cases "\<exists>b. r1 = Inr (Some b)")
    case True
    then obtain b where b: "r1 = Inr (Some b)" by blast
    then have n: "new_object (ctx_world c) b w'" "basePtr b \<noteq> 0" using spec by auto
    have j: "joins mapped c b w'" using new_object_joins [OF assms(1) n(1)] assms(3) by (simp add: room_def)
    obtain c'' where t: "track b (c\<lparr>ctx_world := w'\<rparr>) = (Some b, c'')" "adds mapped c b c''"
      using track_adds [OF driver_contract_axioms assms(1) j n(2)] by blast
    then have "r = Inr (Some b)" "c' = c''" using assms(4) by (simp_all add: importBufferObject_def assms(2) r b)
    then show ?thesis using t(2) by simp
  next
    case False
    then have "world_frame mapped (ctx_world c) w'" using spec by (auto split: sum.splits option.splits)
    then show ?thesis
      using False ctx_ok_frame [OF assms(1)] assms(4)
      by (auto simp: importBufferObject_def assms(2) r split: sum.splits option.splits)
  qed
qed

lemma user_adds:
  assumes "ctx_ok mapped c" "drvApi c = drv" "room c" "userptr_free mapped c p sz"
    and "createTrackedBufferObjectFromUserPtr c p sz ro = (r, c')"
  shows "case r of Some b \<Rightarrow> adds mapped c b c' | None \<Rightarrow> ctx_ok mapped c' \<and> trackedBuffers c' = trackedBuffers c"
proof -
  obtain r1 c1 where r: "createBufferObjectFromUserPtr c p sz ro = (r1, c1)" by force
  obtain w' where w: "c1 = c\<lparr>ctx_world := w'\<rparr>"
    "case r1 of None \<Rightarrow> world_frame mapped (ctx_world c) w' | Some b \<Rightarrow> joins mapped c b w' \<and> basePtr b \<noteq> 0"
    using createFromUserPtr_cases [OF assms(1-4) r] by blast
  show ?thesis
  proof (cases r1)
    case None
    then show ?thesis using w ctx_ok_frame [OF assms(1)] assms(5)
      by (auto simp: createTrackedBufferObjectFromUserPtr_def r)
  next
    case (Some b)
    then obtain c'' where t: "track b (c\<lparr>ctx_world := w'\<rparr>) = (Some b, c'')" "adds mapped c b c''"
      using w(2) track_adds [OF driver_contract_axioms assms(1), of b w'] by auto
    then have "r = Some b" "c' = c''"
      using assms(5) Some w(1) by (simp_all add: createTrackedBufferObjectFromUserPtr_def r)
    then show ?thesis using t(2) by simp
  qed
qed

end

text \<open>The location of a new object is the one that was asked for.\<close>

lemma bo_create_location: "bo_create drv loc ty sz w = (Inr (Some b), w') \<Longrightarrow> bo_location b = loc"
  by (auto simp: bo_create_def make_buffer_object_def Let_def split: prod.splits sum.splits if_splits)

lemma bo_import_location: "bo_importFromFd drv loc fd w = (Inr (Some b), w') \<Longrightarrow> bo_location b = loc"
  by (auto simp: bo_importFromFd_def make_buffer_object_def Let_def split: prod.splits sum.splits if_splits)

lemma bo_user_location: "bo_createFromUserPtr drv p sz ro w = (Some b, w') \<Longrightarrow> bo_location b = UserPtr"
  by (auto simp: bo_createFromUserPtr_def make_buffer_object_def Let_def split: prod.splits sum.splits if_splits)

lemma track_same: "track b c = (Some b', c') \<Longrightarrow> b' = b"
  by (auto simp: track_def split: prod.splits if_splits)

lemma new_location:
  "createBufferObject c sz ty loc = (Inr (Some b), c') \<Longrightarrow> bo_location b = loc"
  "importBufferObject c loc fd = (Inr (Some b), c') \<Longrightarrow> bo_location b = loc"
  "createTrackedBufferObjectFromUserPtr c p sz ro = (Some b, c') \<Longrightarrow> bo_location b = UserPtr"
  by (auto simp: createBufferObject_def importBufferObject_def createTrackedBufferObjectFromUserPtr_def
      createBufferObjectFromUserPtr_def split: prod.splits sum.splits option.splits if_splits
      dest!: track_same dest: bo_create_location bo_import_location bo_user_location)

section \<open>The map of a context\<close>

lemma descending_distinct: "descending m \<Longrightarrow> distinct (map fst m)"
proof (induction m)
  case (Cons e m)
  then show ?case by (cases e) (fastforce dest: keysI)
qed simp

lemma abs_Some:
  assumes "ctx_ok mapped c"
  shows "abs_ctx c p = Some a \<longleftrightarrow> (\<exists>b. (p, b) \<in> set (trackedBuffers c) \<and> a = abs_alloc b)"
  using map_of_eq_Some_iff [OF descending_distinct [OF ctx_ok_parts(1) [OF assms]]] by (auto simp: abs_ctx_def)

lemma covers_iff:
  assumes "ctx_ok mapped c"
  shows "covers (abs_ctx c) p q \<longleftrightarrow> (\<exists>b. (p, b) \<in> set (trackedBuffers c) \<and> isInRange b q)"
proof -
  have r: "isInRange b q \<longleftrightarrow> unat p \<le> unat q \<and> unat q < unat p + unat (allocSize b)"
    if "(p, b) \<in> set (trackedBuffers c)" for b
    using that ctx_ok_tracked_ok [OF assms] by (auto simp: tracked_ok_def isInRange_iff)
  show ?thesis
  proof (cases "abs_ctx c p")
    case None
    then have "(p, b) \<notin> set (trackedBuffers c)" for b using abs_Some [OF assms, of p] by auto
    then show ?thesis using None by (simp add: covers_def)
  next
    case (Some a)
    then obtain b where b: "(p, b) \<in> set (trackedBuffers c)" "a = abs_alloc b" using abs_Some [OF assms] by auto
    have "b' = b" if "(p, b') \<in> set (trackedBuffers c)" for b'
      using descending_unique [OF ctx_ok_parts(1) [OF assms] that b(1)] .
    then have "(\<exists>b. (p, b) \<in> set (trackedBuffers c) \<and> isInRange b q) \<longleftrightarrow> isInRange b q" using b(1) by blast
    moreover have "covers (abs_ctx c) p q \<longleftrightarrow> isInRange b q"
      unfolding r [OF b(1)] by (simp add: covers_def Some b(2) abs_alloc_def)
    ultimately show ?thesis by simp
  qed
qed

lemma covers_find:
  assumes "ctx_ok mapped c"
  shows "covers (abs_ctx c) p q \<longleftrightarrow> (\<exists>b. findBufferObject c q = Some b \<and> basePtr b = p)"
  using findBufferObject_in [OF assms] findBufferObject_Some [OF assms] ctx_ok_parts(2) [OF assms]
  by (metis covers_iff [OF assms])

lemma abs_same: "trackedBuffers c' = trackedBuffers c \<Longrightarrow> abs_ctx c' = abs_ctx c"
  by (simp add: abs_ctx_def fun_eq_iff)

lemma abs_adds:
  assumes "ctx_ok mapped c" "adds mapped c b c'"
  shows "spec_new (abs_ctx c) (basePtr b) (abs_alloc b) (abs_ctx c')"
proof -
  have ok: "ctx_ok mapped c'" and m: "set (trackedBuffers c') = insert (basePtr b, b) (set (trackedBuffers c))"
    and nz: "basePtr b \<noteq> 0" and fresh: "bo_counter (ctx_world c) < bo_id b"
    using assms(2) by (auto simp: adds_def)
  have "b \<notin> snd ` set (trackedBuffers c)"
    using fresh ctx_ok_parts(6) [OF assms(1)] by (force simp: ids_below_def objects_def)
  then have key: "(basePtr b, b') \<notin> set (trackedBuffers c)" for b'
    using descending_unique [OF ctx_ok_parts(1) [OF ok], of "basePtr b" b b'] m by force
  have none: "abs_ctx c (basePtr b) = None"
    using key abs_Some [OF assms(1), of "basePtr b"] by (cases "abs_ctx c (basePtr b)") auto
  have "abs_ctx c' p = ((abs_ctx c)(basePtr b \<mapsto> abs_alloc b)) p" for p
  proof (cases "p = basePtr b")
    case True
    then show ?thesis using abs_Some [OF ok, of p] m by auto
  next
    case False
    then have "abs_ctx c' p = Some a \<longleftrightarrow> abs_ctx c p = Some a" for a
      using abs_Some [OF ok, of p] abs_Some [OF assms(1), of p] m by auto
    then show ?thesis using False by (cases "abs_ctx c p"; cases "abs_ctx c' p") auto
  qed
  moreover have "\<not> covers (abs_ctx c') (basePtr b) q" if cov: "covers (abs_ctx c) p q" for p q
  proof
    assume "covers (abs_ctx c') (basePtr b) q"
    then obtain b1 where b1: "findBufferObject c' q = Some b1" "basePtr b1 = basePtr b"
      unfolding covers_find [OF ok] by blast
    obtain b2 where b2: "(p, b2) \<in> set (trackedBuffers c)" "isInRange b2 q"
      using cov unfolding covers_iff [OF assms(1)] by blast
    then have "findBufferObject c' q = Some b2" using findBufferObject_in [OF ok, of p b2 q] m by simp
    then have "basePtr b2 = basePtr b" using b1 by simp
    then show False using key b2(1) ctx_ok_parts(2) [OF assms(1) b2(1)] by simp
  qed
  ultimately show ?thesis using none nz by (auto simp: spec_new_def fun_eq_iff)
qed

text \<open>Releasing an object.\<close>

lemma freeMemAlloc_abs:
  assumes "driver_contract (drvApi c) mapped" "ctx_ok mapped c" "freeMemAlloc c p = (ok, c')"
  shows "ctx_ok mapped c'
    \<and> (if ok then \<exists>b. covers (abs_ctx c) b p \<and> (b = p \<or> map_option al_location (abs_ctx c b) = Some UserPtr)
              \<and> abs_ctx c' = (abs_ctx c)(b := None)
       else abs_ctx c' = abs_ctx c
         \<and> (\<forall>b. covers (abs_ctx c) b p \<longrightarrow> b \<noteq> p \<and> map_option al_location (abs_ctx c b) \<noteq> Some UserPtr))"
proof (cases "findBufferObject c p")
  case None
  then have "\<not> ok" "c' = c" using assms(3) by (auto simp: freeMemAlloc_def split: if_splits)
  then show ?thesis using None assms(2) covers_find [OF assms(2)] by simp
next
  case (Some bo)
  note ok' = driver_contract.ctx_ok_freeMemAlloc [OF assms(1,2) refl, of p]
  have mem: "(basePtr bo, bo) \<in> set (trackedBuffers c)" using findBufferObject_Some [OF assms(2) Some] by blast
  have p: "p \<noteq> 0" using Some by (cases "p = 0") auto
  have cov: "covers (abs_ctx c) b p \<longleftrightarrow> b = basePtr bo" for b using Some covers_find [OF assms(2)] by auto
  have loc: "map_option al_location (abs_ctx c (basePtr bo)) = Some (bo_location bo)"
    using abs_Some [OF assms(2), of "basePtr bo" "abs_alloc bo"] mem by (auto simp: abs_alloc_def)
  obtain m n where er: "map_erase (basePtr bo) (trackedBuffers c) = (m, n)" by force
  have m: "set m = {e \<in> set (trackedBuffers c). fst e \<noteq> basePtr bo}" "n = 1"
    using map_erase_props [OF ctx_ok_parts(1) [OF assms(2)] er] keysI [OF mem] by auto
  show ?thesis
  proof (cases "basePtr bo = p \<or> bo_location bo = UserPtr")
    case True
    then have ok: "ok" "trackedBuffers c' = m"
      using assms(3) Some p er m(2)
      by (auto simp: freeMemAlloc_def freeMemAlloc_bo_def destroy_bo_def Let_def split: if_splits)
    have c': "ctx_ok mapped c'" using ok' assms(3) by simp
    have "abs_ctx c' k = Some a \<longleftrightarrow> ((abs_ctx c)(basePtr bo := None)) k = Some a" for k a
      using abs_Some [OF c', of k a] abs_Some [OF assms(2), of k a] ok(2) m(1) by auto
    then have "abs_ctx c' = (abs_ctx c)(basePtr bo := None)" by (metis ext not_None_eq)
    then show ?thesis using ok(1) c' cov loc True by auto
  next
    case False
    then have "\<not> ok" "c' = c" using assms(3) Some p by (auto simp: freeMemAlloc_def)
    then show ?thesis using assms(2) cov loc False by auto
  qed
qed

section \<open>The refinement\<close>

definition refines :: "('k world \<Rightarrow> u64 \<Rightarrow> bool) \<Rightarrow> mem_call \<Rightarrow> 'k dev_ctx \<Rightarrow> exn + mem_answer \<Rightarrow> 'k dev_ctx \<Rightarrow> bool" where
  "refines mapped call c x c' \<longleftrightarrow> ctx_ok mapped c' \<and> (case x of Inl _ \<Rightarrow> abs_ctx c' = abs_ctx c
      | Inr ans \<Rightarrow> spec_step call (abs_ctx c) ans (abs_ctx c'))"

text \<open>A call that fails changes nothing; every failure of the three calls that allocate is of this kind.\<close>

lemma refines_failure:
  assumes "ctx_ok mapped c'" "trackedBuffers c' = trackedBuffers c" "r \<noteq> ZE_RESULT_SUCCESS"
    "case call of Free _ \<Rightarrow> False | Range _ \<Rightarrow> False | _ \<Rightarrow> True"
  shows "refines mapped call c (Inr (r, out, out2)) c'" "refines mapped call c (Inl e) c'"
  using assms abs_same [OF assms(2)] by (cases call; simp add: refines_def)+

lemma alloc_refines:
  assumes "driver_contract (drvApi c) mapped" "ctx_ok mapped c" "room c" "call_ok mapped c (Alloc loc ty sz al ptr)"
    and "one_answer (allocMemory c hasDrv sz al ptr loc ty) = (x, c')"
  shows "refines mapped (Alloc loc ty sz al ptr) c x c'"
proof (cases "checkMemInputs c hasDrv loc sz al ptr = ZE_RESULT_SUCCESS")
  case True
  obtain r c1 where r: "createBufferObject c sz ty loc = (r, c1)" by force
  have m: "effective_type (hwInfo c) ty AND DRM_IVPU_BO_MAPPABLE \<noteq> 0" using assms(4) by simp
  note ad = driver_contract.create_adds [OF assms(1,2) refl assms(3) m r]
  have sz: "sz \<noteq> 0" using True by (auto simp: checkMemInputs_def split: if_splits)
  consider (new) b where "r = Inr (Some b)" | (none) "r = Inr None" | (throw) e where "r = Inl e"
    by (metis sum.exhaust_sel option.exhaust_sel)
  then show ?thesis
  proof cases
    case new
    then have n: "adds mapped c b c1" "allocSize b = sz" "bo_location b = loc" "basePtr b \<noteq> 0"
      using ad new_location(1) [of c sz ty loc b c1] r by (auto simp: adds_def)
    have "x = Inr (ZE_RESULT_SUCCESS, Some (basePtr b), None)" "c' = c1"
      using assms(5) True n(4) by (auto simp: allocMemory_def createMemAlloc_def r new one_answer_def)
    moreover have "al_size (abs_alloc b) = sz" "al_location (abs_alloc b) = loc" using n by (simp_all add: abs_alloc_def)
    ultimately show ?thesis using abs_adds [OF assms(2) n(1)] n(1) sz by (auto simp: refines_def adds_def)
  next
    case none
    then show ?thesis using assms(5) True ad
      by (auto simp: allocMemory_def createMemAlloc_def r one_answer_def intro!: refines_failure)
  next
    case throw
    then show ?thesis using assms(5) True ad
      by (auto simp: allocMemory_def createMemAlloc_def r one_answer_def intro!: refines_failure)
  qed
next
  case False
  then show ?thesis using assms(2,5) by (auto simp: allocMemory_def one_answer_def intro!: refines_failure)
qed

lemma import_refines:
  assumes "driver_contract (drvApi c) mapped" "ctx_ok mapped c" "room c"
    and "map_option one_answer (importMemory c loc fd ptr) = Some (x, c')"
  shows "refines mapped (Import loc fd ptr) c x c'"
proof (cases "primeBuffersCapability (hwInfo c)")
  case True
  obtain r c1 where r: "importBufferObject c loc fd = (r, c1)" by force
  note ad = driver_contract.import_adds [OF assms(1,2) refl assms(3) r]
  consider (new) b where "r = Inr (Some b)" | (none) "r = Inr None" | (throw) e where "r = Inl e"
    by (metis sum.exhaust_sel option.exhaust_sel)
  then show ?thesis
  proof cases
    case new
    then have n: "adds mapped c b c1" "bo_location b = loc"
      using ad new_location(2) [of c loc fd b c1] r by (auto simp: adds_def)
    have "x = Inr (ZE_RESULT_SUCCESS, Some (basePtr b), None)" "c' = c1"
      using assms(4) True by (auto simp: importMemory_def r new one_answer_def split: if_splits)
    moreover have "al_location (abs_alloc b) = loc" using n by (simp add: abs_alloc_def)
    ultimately show ?thesis using abs_adds [OF assms(2) n(1)] n(1) by (auto simp: refines_def adds_def)
  next
    case none
    then show ?thesis using assms(4) True ad by (auto simp: importMemory_def r one_answer_def intro!: refines_failure)
  next
    case throw
    then show ?thesis using assms(4) True ad by (auto simp: importMemory_def r one_answer_def intro!: refines_failure)
  qed
next
  case False
  then show ?thesis using assms(2,4) by (auto simp: importMemory_def one_answer_def intro!: refines_failure)
qed

lemma import_user_refines:
  assumes "driver_contract (drvApi c) mapped" "ctx_ok mapped c" "room c" "call_ok mapped c (Import_user up sz flags ptr)"
    and "one_answer (importUserPtr c up sz flags ptr) = (x, c')"
  shows "refines mapped (Import_user up sz flags ptr) c x c'"
proof (cases "up = 0 \<or> \<not> ptr \<or> sz = 0 \<or> \<not> userPtrCapability (hwInfo c) \<or> findBufferObject c up \<noteq> None")
  case True
  then have "trackedBuffers c' = trackedBuffers c \<and> c' = c \<and> (\<exists>r. x = Inr (r, None, None) \<and> r \<noteq> ZE_RESULT_SUCCESS)"
    using assms(5) by (auto simp: importUserPtr_def one_answer_def split: if_splits)
  then show ?thesis using assms(2) by (auto intro!: refines_failure)
next
  case False
  define ro where "ro \<longleftrightarrow> flags AND ZE_HOST_MEM_ALLOC_FLAG_BIAS_WRITE_COMBINED \<noteq> 0"
  obtain r c1 where r: "createTrackedBufferObjectFromUserPtr c up sz ro = (r, c1)" by force
  have free: "userptr_free mapped c up sz" using assms(4) by simp
  note ad = driver_contract.user_adds [OF assms(1,2) refl assms(3) free r]
  show ?thesis
  proof (cases r)
    case None
    then show ?thesis using assms(5) False ad
      by (auto simp: importUserPtr_def r [unfolded ro_def] one_answer_def intro!: refines_failure)
  next
    case (Some b)
    then have n: "adds mapped c b c1" "bo_location b = UserPtr"
      using ad new_location(3) [of c up sz ro b c1] r by (auto simp: adds_def)
    have "x = Inr (ZE_RESULT_SUCCESS, Some up, None)" "c' = c1"
      using assms(5) False by (auto simp: importUserPtr_def r [unfolded ro_def] Some one_answer_def)
    moreover have "al_location (abs_alloc b) = UserPtr" using n by (simp add: abs_alloc_def)
    moreover have "\<not> covers (abs_ctx c) b up" for b using False covers_find [OF assms(2)] by simp
    ultimately show ?thesis using abs_adds [OF assms(2) n(1)] n(1) by (auto simp: refines_def adds_def)
  qed
qed

lemma free_refines:
  assumes "driver_contract (drvApi c) mapped" "ctx_ok mapped c" "freeMem c p = (r, c')"
  shows "refines mapped (Free p) c (Inr (r, None, None)) c'"
proof -
  obtain ok c1 where f: "freeMemAlloc c p = (ok, c1)" by force
  have "c' = c1" "r = (if ok then ZE_RESULT_SUCCESS else ZE_RESULT_ERROR_INVALID_ARGUMENT)"
    using assms(3) f by (auto simp: freeMem_def split: bool.splits)
  then show ?thesis using freeMemAlloc_abs [OF assms(1,2) f] by (cases ok) (auto simp: refines_def Let_def)
qed

lemma range_refines:
  assumes "ctx_ok mapped c"
  shows "refines mapped (Range p) c (Inr (getMemAddressRange c p True True)) c"
proof (cases "findBufferObject c p")
  case None
  then show ?thesis using assms covers_find [OF assms] by (auto simp: refines_def getMemAddressRange_def)
next
  case (Some b)
  then have "p \<noteq> 0" "abs_ctx c (basePtr b) = Some (abs_alloc b)" "covers (abs_ctx c) (basePtr b) p"
    using findBufferObject_Some [OF assms Some] abs_Some [OF assms] covers_find [OF assms] by (auto simp: findBufferObject_def)
  then show ?thesis using Some assms
    by (auto simp: refines_def getMemAddressRange_def) (auto simp: abs_alloc_def intro!: exI [of _ "basePtr b"])
qed



section \<open>Uncached host memory\<close>

text \<open>An uncached host allocation never reaches the caller: the type of \<open>BIAS_UNCACHED\<close> is not mappable,
  so when the kernel creates the buffer the call still reports that it is out of device memory, and the
  buffer stays tracked under the null pointer, which no release accepts.
\<close>

theorem uncached_alloc_leaks:
  assumes "checkMemInputs c hasDrv Host sz al hasPtr = ZE_RESULT_SUCCESS"
    and "da_createBuffer (drvApi c) sz (effective_type (hwInfo c) UncachedDma) (ctx_world c) = (Inr (h, va), w1)"
    and "da_getBufferInfo (drvApi c) h w1 = (Inr off, w2)" "0 \<notin> keys (trackedBuffers c)" "descending (trackedBuffers c)"
  shows "\<exists>c' bo. zeMemAllocHost (Some c) hasDrv (Some (No_ext, ZE_HOST_MEM_ALLOC_FLAG_BIAS_UNCACHED)) sz al hasPtr
           = Inl (Some ((ZE_RESULT_ERROR_OUT_OF_DEVICE_MEMORY, Some 0), c'))
         \<and> (0, bo) \<in> set (trackedBuffers c') \<and> handle bo = h \<and> freeMem c' 0 = (ZE_RESULT_ERROR_INVALID_ARGUMENT, c')"
proof -
  have ty: "flagToBufferObjectType ZE_HOST_MEM_ALLOC_FLAG_BIAS_UNCACHED = UncachedDma"
    by (simp add: flagToBufferObjectType_def umd_defs)
  have m: "effective_type (hwInfo c) UncachedDma AND DRM_IVPU_BO_MAPPABLE = 0"
    by (simp add: effective_type_def convertDmaToShaveRange_def umd_defs)
  define w4 where "w4 = (if stats_enabled (stats w2)
      then w2\<lparr>stats := stats_inc Host (page_aligned_size (drvApi c) sz) (stats w2)\<rparr> else w2)"
  obtain bo w5 where mk: "make_buffer_object Host (effective_type (hwInfo c) UncachedDma) 0 sz h va w4 = (bo, w5)" by force
  have bo: "basePtr bo = 0" "handle bo = h" using mk by (auto simp: make_buffer_object_def Let_def)
  have cr: "bo_create (drvApi c) Host (effective_type (hwInfo c) UncachedDma) sz (ctx_world c) = (Inr (Some bo), w5)"
    unfolding bo_create_def assms(2) using m mk by (simp add: assms(3) w4_def)
  obtain t ok where em: "map_emplace 0 bo (trackedBuffers c) = (t, ok)" by force
  have t: "ok" "(0, bo) \<in> set t" using map_emplace_props [OF assms(5) em] assms(4) by auto
  have "createMemAlloc c sz UncachedDma Host = (Inr 0, c\<lparr>ctx_world := w5, trackedBuffers := t\<rparr>)"
    by (simp add: createMemAlloc_def createBufferObject_def cr track_def bo em t)
  then show ?thesis
    using t(2) bo(2)
    by (intro exI [of _ "c\<lparr>ctx_world := w5, trackedBuffers := t\<rparr>"] exI [of _ bo])
       (simp add: zeMemAllocHost_def alloc_switch_def ty allocMemory_def assms(1) handle_exception_def freeMem_def freeMemAlloc_def)
qed

theorem uncached_alloc_leaks_witness:
  "\<exists>c' bo. zeMemAllocHost (Some demo_ctx) True (Some (No_ext, ZE_HOST_MEM_ALLOC_FLAG_BIAS_UNCACHED)) 4096 0 True
     = Inl (Some ((ZE_RESULT_ERROR_OUT_OF_DEVICE_MEMORY, Some 0), c')) \<and> (0, bo) \<in> set (trackedBuffers c')"
proof -
  have d: "drvApi demo_ctx = demo_drv" by (simp add: demo_ctx_def new_ctx_def)
  have k: "0 \<notin> keys (trackedBuffers demo_ctx)" "descending (trackedBuffers demo_ctx)"
    by (simp_all add: demo_ctx_def new_ctx_def keys_def)
  have ck: "checkMemInputs demo_ctx True Host 4096 0 True = ZE_RESULT_SUCCESS"
    by (simp add: checkMemInputs_def external_location_def)
  note cb = demo_calls(1) [of 4096 "effective_type (hwInfo demo_ctx) UncachedDma" "ctx_world demo_ctx", folded d]
  note gb = demo_calls(2) [of 0, folded d]
  show ?thesis using uncached_alloc_leaks [OF ck cb gb k] by blast
qed

end
