(* ===== verification/Resource_Cleaner.thy ===== *)
theory Resource_Cleaner
  imports L0_Memory Context_Props
begin

text \<open>
  The thread that gives memory back when a context has been idle (\<open>ResourceCleaner\<close> and its callers in
  \<open>umd/level_zero_driver/source/context.cpp\<close>), as a step relation: the calls of the context, each its
  change under \<open>mutex\<close> and then \<open>notify_one\<close>, one at a time because the context holds \<open>cleanerMutex\<close>; the
  thread, which holds \<open>mutex\<close> except while it waits; the clock; and other threads that use the
  context. Times are in milliseconds.
\<close>

section \<open>The state\<close>

datatype action = NOP | PRUNE_AFTER_TIMEOUT | BREAK

text \<open>Where the thread is: before its first lock, in \<open>wait_until\<close>, between the two prunes, or ended.\<close>

datatype thread_pc = Starting | Waiting | Pruning | Ended

text \<open>
  \<open>timeout\<close> is the local variable of the thread, \<open>None\<close> for \<open>time_point::max()\<close>. \<open>notified\<close>: a
  \<open>notify_one\<close> reached the waiting thread. \<open>notify_due\<close>: a call has changed \<open>action\<close> and will notify.
  The last three fields only record: when \<open>setIdle\<close> was called, the times and lengths of the timeouts that
  were set, and when memory was released.
\<close>

record 'k cleaner =
  rc_ctx :: "'k dev_ctx"
  action :: action
  idleTimeout :: nat
  thread_at :: thread_pc
  timeout :: "nat option"
  notified :: bool
  notify_due :: bool
  time_now :: nat
  idles :: "nat list"
  arms :: "(nat \<times> nat) list"
  releases :: "nat list"

definition new_cleaner :: "'k dev_ctx \<Rightarrow> nat \<Rightarrow> nat \<Rightarrow> 'k cleaner" where
  "new_cleaner c t n = \<lparr>rc_ctx = c, action = NOP, idleTimeout = t, thread_at = Starting, timeout = None, notified = False,
     notify_due = False, time_now = n, idles = [], arms = [], releases = []\<rparr>"

section \<open>The thread\<close>

text \<open>The condition of the loop, and \<open>wait_until\<close> up to the point where it blocks.\<close>

definition loop_check :: "'k cleaner \<Rightarrow> 'k cleaner" where
  "loop_check s = (if action s = BREAK then s\<lparr>thread_at := Ended\<rparr> else s\<lparr>thread_at := Waiting, notified := False\<rparr>)"

text \<open>\<open>wait_until\<close> returns \<open>timeout\<close> when the time is over, also when it was notified as well.\<close>

definition timed_out :: "'k cleaner \<Rightarrow> bool" where
  "timed_out s \<longleftrightarrow> (case timeout s of None \<Rightarrow> False | Some d \<Rightarrow> d \<le> time_now s)"

definition wake :: "'k cleaner \<Rightarrow> 'k cleaner" where
  "wake s =
     (if timed_out s
      then s\<lparr>rc_ctx := preemptionCachePrune (rc_ctx s), thread_at := Pruning\<rparr>
      else if action s = PRUNE_AFTER_TIMEOUT
      then loop_check (s\<lparr>timeout := Some (time_now s + idleTimeout s), arms := arms s @ [(time_now s, idleTimeout s)]\<rparr>)
      else loop_check s)"

definition finish_release :: "'k cleaner \<Rightarrow> 'k cleaner" where
  "finish_release s =
     loop_check (s\<lparr>rc_ctx := scratchCachePrune (- 1) (rc_ctx s), timeout := None, releases := releases s @ [time_now s]\<rparr>)"

section \<open>The calls\<close>

definition setIdle :: "'k cleaner \<Rightarrow> 'k cleaner" where
  "setIdle s = s\<lparr>action := PRUNE_AFTER_TIMEOUT, notify_due := True, idles := idles s @ [time_now s]\<rparr>"

definition setIdleTimeout :: "nat \<Rightarrow> 'k cleaner \<Rightarrow> 'k cleaner" where
  "setIdleTimeout t s = s\<lparr>idleTimeout := t, notify_due := True\<rparr>"

text \<open>The destructor, up to \<open>join\<close>.\<close>

definition break_cleaner :: "'k cleaner \<Rightarrow> 'k cleaner" where
  "break_cleaner s = s\<lparr>action := BREAK, notify_due := True\<rparr>"

definition notify_one :: "'k cleaner \<Rightarrow> 'k cleaner" where
  "notify_one s = s\<lparr>notify_due := False, notified := (if thread_at s = Waiting then True else notified s)\<rparr>"

section \<open>The context's side\<close>

text \<open>
  The context has a cleaner from the 40xx architecture on, unless the application has switched idle
  optimisations off; \<open>ic_timeout\<close> is the timeout of the context, in milliseconds. Switching off runs the
  destructor, which the steps below describe.
\<close>

record 'k idle_context =
  ic_ctx :: "'k dev_ctx"
  ic_timeout :: nat
  ic_cleaner :: "'k cleaner option"

definition has_cleaner :: "'k dev_ctx \<Rightarrow> bool" where
  "has_cleaner c \<longleftrightarrow> arch_code (npuArch (hwInfo c)) \<ge> arch_code NPU40XX"

definition new_context :: "'k dev_ctx \<Rightarrow> nat \<Rightarrow> 'k idle_context" where
  "new_context c n = \<lparr>ic_ctx = c, ic_timeout = 30000,
     ic_cleaner = (if has_cleaner c then Some (new_cleaner c 30000 n) else None)\<rparr>"

definition setProperties :: "bool \<Rightarrow> nat \<Rightarrow> 'k idle_context \<Rightarrow> ze_result \<times> 'k idle_context" where
  "setProperties enable n x =
     (if enable
      then if \<not> has_cleaner (ic_ctx x) then (ZE_RESULT_SUCCESS, x)
           else (case ic_cleaner x of Some _ \<Rightarrow> (ZE_RESULT_SUCCESS, x)
                 | None \<Rightarrow> (ZE_RESULT_SUCCESS, x\<lparr>ic_cleaner := Some (new_cleaner (ic_ctx x) (ic_timeout x) n)\<rparr>))
      else (ZE_RESULT_SUCCESS, x\<lparr>ic_cleaner := None\<rparr>))"

definition context_setIdle :: "'k idle_context \<Rightarrow> 'k idle_context" where
  "context_setIdle x = x\<lparr>ic_cleaner := map_option (notify_one \<circ> setIdle) (ic_cleaner x)\<rparr>"

definition setIdlePruningTimeout :: "nat \<Rightarrow> 'k idle_context \<Rightarrow> 'k idle_context" where
  "setIdlePruningTimeout t x = x\<lparr>ic_timeout := t, ic_cleaner := map_option (notify_one \<circ> setIdleTimeout t) (ic_cleaner x)\<rparr>"

section \<open>The steps\<close>

text \<open>
  A thread that holds \<open>mutex\<close> between the two prunes keeps \<open>setIdle\<close> and the destructor out; the
  change of \<open>idleTimeout\<close> takes no lock. \<open>wake\<close> may be spurious. After the destructor no call comes.
\<close>

inductive cleaner_step :: "('k world \<Rightarrow> u64 \<Rightarrow> bool) \<Rightarrow> 'k cleaner \<Rightarrow> 'k cleaner \<Rightarrow> bool" for mapped where
  start: "thread_at s = Starting \<Longrightarrow> cleaner_step mapped s (loop_check s)"
| wake: "thread_at s = Waiting \<Longrightarrow> cleaner_step mapped s (wake s)"
| release: "thread_at s = Pruning \<Longrightarrow> cleaner_step mapped s (finish_release s)"
| idle: "\<not> notify_due s \<Longrightarrow> action s \<noteq> BREAK \<Longrightarrow> thread_at s \<noteq> Pruning \<Longrightarrow> cleaner_step mapped s (setIdle s)"
| set_timeout: "\<not> notify_due s \<Longrightarrow> action s \<noteq> BREAK \<Longrightarrow> cleaner_step mapped s (setIdleTimeout t s)"
| break: "\<not> notify_due s \<Longrightarrow> action s \<noteq> BREAK \<Longrightarrow> thread_at s \<noteq> Pruning \<Longrightarrow> cleaner_step mapped s (break_cleaner s)"
| notify: "notify_due s \<Longrightarrow> cleaner_step mapped s (notify_one s)"
| tick: "cleaner_step mapped s (s\<lparr>time_now := time_now s + d\<rparr>)"
| other: "ctx_step mapped (rc_ctx s) c' \<Longrightarrow> cleaner_step mapped s (s\<lparr>rc_ctx := c'\<rparr>)"

inductive_cases cleaner_stepE: "cleaner_step mapped s s'"

definition cleaner_reachable :: "('k world \<Rightarrow> u64 \<Rightarrow> bool) \<Rightarrow> 'k cleaner \<Rightarrow> 'k cleaner \<Rightarrow> bool" where
  "cleaner_reachable mapped = (cleaner_step mapped)\<^sup>*\<^sup>*"

section \<open>The invariant\<close>

lemmas cleaner_defs = loop_check_def timed_out_def wake_def finish_release_def setIdle_def setIdleTimeout_def
  break_cleaner_def notify_one_def

text \<open>
  Every timeout that is running was set after the context had been idle; every release answers one of
  them, and each of them is answered at most once; and a waiting thread can not miss the destructor.
\<close>

definition armed_ok :: "'k cleaner \<Rightarrow> bool" where
  "armed_ok s \<longleftrightarrow> (\<forall>(a, t) \<in> set (arms s). a \<le> time_now s \<and> (\<exists>i \<in> set (idles s). i \<le> a))"

definition running_ok :: "'k cleaner \<Rightarrow> bool" where
  "running_ok s \<longleftrightarrow> (\<forall>d. timeout s = Some d \<longrightarrow> (\<exists>(a, t) \<in> set (arms s). d = a + t))"

definition releases_ok :: "'k cleaner \<Rightarrow> bool" where
  "releases_ok s \<longleftrightarrow> (\<forall>r \<in> set (releases s). r \<le> time_now s \<and> (\<exists>(a, t) \<in> set (arms s). a + t \<le> r))
     \<and> length (releases s) + (if timeout s = None then 0 else 1) \<le> length (arms s)"

definition break_ok :: "'k cleaner \<Rightarrow> bool" where
  "break_ok s \<longleftrightarrow> (action s = BREAK \<and> thread_at s = Waiting \<longrightarrow> notified s \<or> notify_due s)
     \<and> (action s = PRUNE_AFTER_TIMEOUT \<longrightarrow> (\<exists>i \<in> set (idles s). i \<le> time_now s))
     \<and> (thread_at s = Pruning \<longrightarrow> timed_out s)"

definition cleaner_ok :: "'k cleaner \<Rightarrow> bool" where
  "cleaner_ok s \<longleftrightarrow> armed_ok s \<and> running_ok s \<and> releases_ok s \<and> break_ok s"

lemma timed_out_iff: "timed_out s \<longleftrightarrow> (\<exists>d. timeout s = Some d \<and> d \<le> time_now s)"
  by (simp add: timed_out_def split: option.split)

lemma new_cleaner_ok: "cleaner_ok (new_cleaner c t n)"
  by (simp add: cleaner_ok_def armed_ok_def running_ok_def releases_ok_def break_ok_def new_cleaner_def)

lemmas ok_defs = cleaner_ok_def armed_ok_def running_ok_def releases_ok_def break_ok_def

definition idle_ok :: "'k cleaner \<Rightarrow> bool" where
  "idle_ok s \<longleftrightarrow> (action s = PRUNE_AFTER_TIMEOUT \<longrightarrow> (\<exists>i \<in> set (idles s). i \<le> time_now s))"

lemma loop_check_ok:
  "armed_ok s \<Longrightarrow> running_ok s \<Longrightarrow> releases_ok s \<Longrightarrow> idle_ok s \<Longrightarrow> cleaner_ok (loop_check s)"
  by (simp add: ok_defs loop_check_def idle_ok_def)

lemma arm_ok:
  assumes "cleaner_ok s" "action s = PRUNE_AFTER_TIMEOUT"
  defines "s' \<equiv> s\<lparr>timeout := Some (time_now s + idleTimeout s), arms := arms s @ [(time_now s, idleTimeout s)]\<rparr>"
  shows "armed_ok s'" "running_ok s'" "releases_ok s'" "idle_ok s'"
proof -
  note ok = assms(1) [unfolded cleaner_ok_def]
  show "armed_ok s'" using ok assms(2) by (auto simp: s'_def armed_ok_def break_ok_def)
  show "running_ok s'" by (simp add: s'_def running_ok_def)
  show "releases_ok s'" using ok by (fastforce simp: s'_def releases_ok_def split: if_splits)
  show "idle_ok s'" using ok by (simp add: s'_def idle_ok_def break_ok_def)
qed

lemma wake_ok: "cleaner_ok s \<Longrightarrow> cleaner_ok (wake s)"
proof -
  assume ok: "cleaner_ok s"
  consider (out) "timed_out s" | (arm) "\<not> timed_out s" "action s = PRUNE_AFTER_TIMEOUT"
    | (no) "\<not> timed_out s" "action s \<noteq> PRUNE_AFTER_TIMEOUT" by blast
  then show "cleaner_ok (wake s)"
  proof cases
    case out
    then show ?thesis using ok by (simp add: wake_def ok_defs timed_out_iff)
  next
    case arm
    then show ?thesis using loop_check_ok [OF arm_ok [OF ok arm(2)]] by (simp add: wake_def)
  next
    case no
    then show ?thesis using ok loop_check_ok [of s] by (simp add: wake_def cleaner_ok_def idle_ok_def)
  qed
qed

lemma finish_release_ok:
  assumes "cleaner_ok s" "thread_at s = Pruning"
  shows "cleaner_ok (finish_release s)"
  unfolding finish_release_def
proof (rule loop_check_ok)
  let ?s = "s\<lparr>rc_ctx := scratchCachePrune (- 1) (rc_ctx s), timeout := None, releases := releases s @ [time_now s]\<rparr>"
  have t: "timed_out s" using assms by (simp add: cleaner_ok_def break_ok_def)
  then obtain d where d: "timeout s = Some d" "d \<le> time_now s" by (auto simp: timed_out_def split: option.splits)
  then obtain a u where au: "(a, u) \<in> set (arms s)" "a + u \<le> time_now s"
    using assms(1) by (auto simp: cleaner_ok_def running_ok_def)
  show "armed_ok ?s" "running_ok ?s" "idle_ok ?s" using assms by (simp_all add: ok_defs idle_ok_def)
  have "length (releases s) + 1 \<le> length (arms s)" using assms(1) d(1) by (simp add: cleaner_ok_def releases_ok_def)
  then show "releases_ok ?s" using assms(1) au by (auto simp: cleaner_ok_def releases_ok_def)
qed

lemma calls_ok:
  assumes "cleaner_ok s"
  shows "cleaner_ok (setIdleTimeout t s)" "thread_at s \<noteq> Pruning \<Longrightarrow> cleaner_ok (setIdle s)"
    "thread_at s \<noteq> Pruning \<Longrightarrow> cleaner_ok (break_cleaner s)" "cleaner_ok (notify_one s)" "cleaner_ok (s\<lparr>rc_ctx := c'\<rparr>)"
  using assms unfolding ok_defs timed_out_iff
  by (simp_all add: setIdleTimeout_def setIdle_def break_cleaner_def notify_one_def, auto)

lemma tick_ok:
  assumes "cleaner_ok s"
  shows "cleaner_ok (s\<lparr>time_now := time_now s + d\<rparr>)"
proof -
  let ?s = "s\<lparr>time_now := time_now s + d\<rparr>"
  note ok = assms [unfolded cleaner_ok_def]
  have "armed_ok ?s" using ok by (auto simp: armed_ok_def intro: trans_le_add1)
  moreover have "running_ok ?s" using ok by (simp add: running_ok_def)
  moreover have "releases_ok ?s" using ok by (auto simp: releases_ok_def intro: trans_le_add1)
  moreover have "break_ok ?s" using ok by (auto simp: break_ok_def timed_out_iff intro: trans_le_add1)
  ultimately show ?thesis by (simp add: cleaner_ok_def)
qed

lemma cleaner_step_ok:
  assumes "cleaner_step mapped s s'" "cleaner_ok s"
  shows "cleaner_ok s'"
  using assms(1)
proof cases
  case start
  have "idle_ok s" using assms(2) by (simp add: cleaner_ok_def break_ok_def idle_ok_def)
  then show ?thesis using loop_check_ok [of s] assms(2) start by (simp add: cleaner_ok_def)
qed (use assms(2) wake_ok finish_release_ok calls_ok tick_ok in simp_all)

lemma reachable_ok: "cleaner_reachable mapped (new_cleaner c t n) s \<Longrightarrow> cleaner_ok s"
  unfolding cleaner_reachable_def
  by (induction rule: rtranclp_induct) (use new_cleaner_ok cleaner_step_ok in blast)+

section \<open>Memory is released when it should be\<close>

text \<open>A run in which the timeout is never below \<open>lo\<close>.\<close>

definition timeout_above :: "nat \<Rightarrow> ('k world \<Rightarrow> u64 \<Rightarrow> bool) \<Rightarrow> 'k cleaner \<Rightarrow> 'k cleaner \<Rightarrow> bool" where
  "timeout_above lo mapped s s' \<longleftrightarrow> cleaner_step mapped s s' \<and> lo \<le> idleTimeout s'"

lemma arms_above:
  assumes "(timeout_above lo mapped)\<^sup>*\<^sup>* (new_cleaner c t n) s" "lo \<le> t"
  shows "lo \<le> idleTimeout s \<and> (\<forall>(a, u) \<in> set (arms s). lo \<le> u)"
  using assms(1)
proof (induction rule: rtranclp_induct)
  case (step s s')
  from step(2) have st: "cleaner_step mapped s s'" "lo \<le> idleTimeout s'" by (simp_all add: timeout_above_def)
  from st(1) have "set (arms s') \<subseteq> insert (time_now s, idleTimeout s) (set (arms s))"
    by cases (auto simp: cleaner_defs)
  then show ?case using step(3) st(2) by auto
qed (simp add: new_cleaner_def assms(2))

lemma above_reachable: "(timeout_above lo mapped)\<^sup>*\<^sup>* s s' \<Longrightarrow> cleaner_reachable mapped s s'"
  unfolding cleaner_reachable_def by (erule rtranclp_mono [THEN predicate2D, rotated]) (auto simp: timeout_above_def)


section \<open>The destructor\<close>

definition thread_step :: "'k cleaner \<Rightarrow> 'k cleaner" where
  "thread_step s = (case thread_at s of Starting \<Rightarrow> loop_check s | Waiting \<Rightarrow> wake s | Pruning \<Rightarrow> finish_release s | Ended \<Rightarrow> s)"

text \<open>C32: the destructor returns: in every reachable state in which it has set \<open>BREAK\<close>, a thread that waits has
  been notified or will be, and the thread ends after at most two of its steps, with at most one release.
\<close>

theorem destructor_joins:
  assumes "cleaner_reachable mapped (new_cleaner c t n) s" "action s = BREAK"
  shows "(thread_at s = Waiting \<longrightarrow> notified s \<or> notify_due s) \<and> thread_at (thread_step (thread_step s)) = Ended
         \<and> length (releases (thread_step (thread_step s))) \<le> length (releases s) + 1"
proof -
  have "thread_at s = Waiting \<longrightarrow> notified s \<or> notify_due s"
    using reachable_ok [OF assms(1)] assms(2) by (simp add: cleaner_ok_def break_ok_def)
  moreover have "thread_at (thread_step (thread_step s)) = Ended
      \<and> length (releases (thread_step (thread_step s))) \<le> length (releases s) + 1"
    using assms(2)
    by (cases "thread_at s"; cases "timed_out s") (simp_all add: thread_step_def cleaner_defs)
  ultimately show ?thesis by blast
qed

section \<open>The start\<close>

text \<open>An idle notification can be lost: when \<open>setIdle\<close> returns before the new thread has locked the mutex,
  the thread goes on to wait without a timeout and without a notification, although \<open>action\<close> asks for
  one; nothing is released until another call comes or the wait ends spuriously.
\<close>

theorem startup_idle_lost:
  "\<exists>s. cleaner_reachable mapped (new_cleaner c t n) s \<and> idles s = [n] \<and> action s = PRUNE_AFTER_TIMEOUT
     \<and> thread_at s = Waiting \<and> timeout s = None \<and> \<not> notified s \<and> \<not> notify_due s"
proof -
  let ?s0 = "new_cleaner c t n"
  let ?s1 = "setIdle ?s0"
  let ?s2 = "notify_one ?s1"
  let ?s3 = "loop_check ?s2"
  have 1: "cleaner_step mapped ?s0 ?s1" by (rule cleaner_step.idle) (simp_all add: new_cleaner_def)
  have 2: "cleaner_step mapped ?s1 ?s2" by (rule cleaner_step.notify) (simp add: setIdle_def)
  have 3: "cleaner_step mapped ?s2 ?s3"
    by (rule cleaner_step.start) (simp add: setIdle_def notify_one_def new_cleaner_def)
  have "cleaner_reachable mapped ?s0 ?s3"
    unfolding cleaner_reachable_def
    by (rule rtranclp.rtrancl_into_rtrancl, rule rtranclp.rtrancl_into_rtrancl, rule r_into_rtranclp, rule 1, rule 2, rule 3)
  then show ?thesis
    by (intro exI [of _ ?s3]) (simp add: loop_check_def notify_one_def setIdle_def new_cleaner_def)
qed

section \<open>The context stays well formed\<close>

lemma release_steps:
  "ctx_step mapped c (preemptionCachePrune c)" "ctx_step mapped c (scratchCachePrune sz c)"
  by (rule ctx_step.preempt_prune, rule ctx_step.prune)

text \<open>The thread never breaks the context: whatever the calls and the other users of the context do in
  between its two prunes, the invariant of the context holds in every reachable state.
\<close>

theorem cleaner_keeps_context:
  assumes "driver_contract (drvApi c) mapped" "ctx_ok mapped c" "cleaner_reachable mapped (new_cleaner c t n) s"
  shows "ctx_ok mapped (rc_ctx s) \<and> drvApi (rc_ctx s) = drvApi c"
  using assms(3) unfolding cleaner_reachable_def
proof (induction rule: rtranclp_induct)
  case base
  then show ?case using assms(2) by (simp add: new_cleaner_def)
next
  case (step s s')
  from step(2) have "rc_ctx s' = rc_ctx s \<or> ctx_step mapped (rc_ctx s) (rc_ctx s')"
    by cases (auto simp: cleaner_defs intro: release_steps)
  then show ?case using step(3) ctx_ok_step [of "rc_ctx s" mapped] step_drvApi [of mapped "rc_ctx s"] assms(1) by metis
qed

section \<open>At a concrete run\<close>

definition demo_cleaner :: "null_dev cleaner" where
  "demo_cleaner = new_cleaner demo_ctx 30 5"

lemma demo_run:
  defines "s1 \<equiv> loop_check demo_cleaner"
  defines "s2 \<equiv> notify_one (setIdle s1)"
  defines "s3 \<equiv> wake s2"
  defines "s4 \<equiv> finish_release (wake (s3\<lparr>time_now := time_now s3 + 30\<rparr>))"
  shows "(timeout_above 30 null_mapped)\<^sup>*\<^sup>* demo_cleaner s4" "releases s4 = [35]" "idles s4 = [5]"
    "cleaner_reachable null_mapped demo_cleaner (break_cleaner s1)"
proof -
  note d = s1_def s2_def s3_def s4_def demo_cleaner_def new_cleaner_def cleaner_defs
  have a: "timeout_above 30 null_mapped demo_cleaner s1" "timeout_above 30 null_mapped s1 (setIdle s1)"
    "timeout_above 30 null_mapped (setIdle s1) s2" "timeout_above 30 null_mapped s2 s3"
    "timeout_above 30 null_mapped s3 (s3\<lparr>time_now := time_now s3 + 30\<rparr>)"
    "timeout_above 30 null_mapped (s3\<lparr>time_now := time_now s3 + 30\<rparr>) (wake (s3\<lparr>time_now := time_now s3 + 30\<rparr>))"
    "timeout_above 30 null_mapped (wake (s3\<lparr>time_now := time_now s3 + 30\<rparr>)) s4"
    unfolding timeout_above_def s1_def s2_def s3_def s4_def
    by (intro conjI cleaner_step.intros; simp add: d)+
  show "(timeout_above 30 null_mapped)\<^sup>*\<^sup>* demo_cleaner s4"
    by (rule converse_rtranclp_into_rtranclp, rule a(1), rule converse_rtranclp_into_rtranclp, rule a(2),
        rule converse_rtranclp_into_rtranclp, rule a(3), rule converse_rtranclp_into_rtranclp, rule a(4),
        rule converse_rtranclp_into_rtranclp, rule a(5), rule converse_rtranclp_into_rtranclp, rule a(6),
        rule r_into_rtranclp, rule a(7))
  show "releases s4 = [35]" "idles s4 = [5]" by (simp_all add: d)
  have b: "cleaner_step null_mapped s1 (break_cleaner s1)" by (rule cleaner_step.break) (simp_all add: d)
  show "cleaner_reachable null_mapped demo_cleaner (break_cleaner s1)"
    using a(1) b unfolding cleaner_reachable_def timeout_above_def
    by (meson converse_rtranclp_into_rtranclp r_into_rtranclp)
qed


theorem destructor_joins_witness:
  "thread_at (thread_step (thread_step (break_cleaner (loop_check demo_cleaner)))) = Ended"
proof -
  have "action (break_cleaner (loop_check demo_cleaner)) = BREAK" by (simp add: break_cleaner_def)
  from destructor_joins [OF demo_run(4) [unfolded demo_cleaner_def] this [unfolded demo_cleaner_def]]
  show ?thesis by (simp add: demo_cleaner_def)
qed

theorem cleaner_keeps_context_witness:
  "ctx_ok null_mapped (rc_ctx (break_cleaner (loop_check demo_cleaner)))"
proof -
  have c: "driver_contract (drvApi demo_ctx) null_mapped" using demo_contract by (simp add: demo_ctx_def new_ctx_def)
  have ok: "ctx_ok null_mapped demo_ctx" unfolding demo_ctx_def by (rule ctx_ok_new)
  show ?thesis
    using cleaner_keeps_context [OF c ok demo_run(4) [unfolded demo_cleaner_def]] by (simp add: demo_cleaner_def)
qed

end
