(* ===== verification/Elf_Buffers.thy ===== *)
theory Elf_Buffers
  imports Device_Context Disk_Cache
begin

text \<open>
  How the ELF loader gets memory from a device context (\<open>DriverBufferManager\<close> and
  \<open>DriverAccessManager\<close> in \<open>umd/level_zero_driver/source/ext/elf_parser.cpp\<close>). The loader is third-party
  code: its buffer descriptions are records of the fields that the driver reads, its flag constants a
  parameter. A result \<open>None\<close> is an access outside of the memory of the blob.
\<close>

section \<open>The interface of the loader\<close>

record elf_flags =
  SHF_EXECINSTR :: u64
  SHF_ALLOC :: u64
  VPU_SHF_PROC_DMA :: u64
  VPU_SHF_PROC_SHAVE :: u64

record buffer_specs =
  spec_size :: u64
  procFlags :: u64
  isSharable :: bool

record device_buffer =
  cpu_addr :: u64
  vpu_addr :: u64
  buf_size :: u64

datatype elf_error = Alloc_error | Access_error | Thrown exn

section \<open>DriverBufferManager\<close>

text \<open>The loader buffers of one parsed blob, in the map that the device context uses too.\<close>

record 'k elf_manager =
  em_ctx :: "'k dev_ctx"
  tracedElfParserBuffers :: "buffer_object ptr_map"
  shared_scratch :: u64

type_synonym ('k, 'a) elf_op = "'k elf_manager \<Rightarrow> (elf_error + 'a) \<times> 'k elf_manager"

definition new_elf_manager :: "'k dev_ctx \<Rightarrow> 'k elf_manager" where
  "new_elf_manager c = \<lparr>em_ctx = c, tracedElfParserBuffers = [], shared_scratch = 0\<rparr>"

definition getBufferType :: "elf_flags \<Rightarrow> u64 \<Rightarrow> bo_flags" where
  "getBufferType fl flag =
     (if flag AND SHF_EXECINSTR fl \<noteq> 0 then WriteCombineFw
      else if flag AND VPU_SHF_PROC_SHAVE fl \<noteq> 0 then WriteCombineShave
      else WriteCombineDma)"

text \<open>\<open>emplace\<close> of a buffer that the caller owns: when the key is taken, the reference is dropped.\<close>

definition trace_buffer :: "buffer_object \<Rightarrow> 'k elf_manager \<Rightarrow> bool \<times> 'k elf_manager" where
  "trace_buffer bo m =
     (case map_emplace (basePtr bo) bo (tracedElfParserBuffers m) of
        (t, True) \<Rightarrow> (True, m\<lparr>tracedElfParserBuffers := t\<rparr>)
      | (_, False) \<Rightarrow> (False, m\<lparr>em_ctx := drop_ref bo (em_ctx m)\<rparr>))"

definition elf_allocate :: "elf_flags \<Rightarrow> buffer_specs \<Rightarrow> ('k, device_buffer) elf_op" where
  "elf_allocate fl specs m =
     (let range = getBufferType fl (procFlags specs) in
      if spec_size specs = 0
      then (case createUntrackedBufferObject (em_ctx m) 1 (convertToUnmappable range) of
              (Inl e, c) \<Rightarrow> (Inl (Thrown e), m\<lparr>em_ctx := c\<rparr>)
            | (Inr None, c) \<Rightarrow> (Inl Alloc_error, m\<lparr>em_ctx := c\<rparr>)
            | (Inr (Some bo), c) \<Rightarrow>
                (Inr \<lparr>cpu_addr = 0, vpu_addr = vpuAddr bo, buf_size = 0\<rparr>, m\<lparr>em_ctx := drop_ref bo c\<rparr>))
      else if isSharable specs \<and> range = WriteCombineDma
      then (case scratchCachePreload (em_ctx m) (spec_size specs) of
              (Inl e, c) \<Rightarrow> (Inl (Thrown e), m\<lparr>em_ctx := c, shared_scratch := spec_size specs\<rparr>)
            | (Inr _, c) \<Rightarrow>
                (Inr \<lparr>cpu_addr = 0, vpu_addr = 0, buf_size = 0\<rparr>, m\<lparr>em_ctx := c, shared_scratch := spec_size specs\<rparr>))
      else (case createUntrackedBufferObject (em_ctx m) (spec_size specs) range of
              (Inl e, c) \<Rightarrow> (Inl (Thrown e), m\<lparr>em_ctx := c\<rparr>)
            | (Inr None, c) \<Rightarrow> (Inl Alloc_error, m\<lparr>em_ctx := c\<rparr>)
            | (Inr (Some bo), c) \<Rightarrow>
                (case trace_buffer bo (m\<lparr>em_ctx := c\<rparr>) of
                   (False, m') \<Rightarrow> (Inl Alloc_error, m')
                 | (True, m') \<Rightarrow>
                     (Inr \<lparr>cpu_addr = basePtr bo, vpu_addr = vpuAddr bo, buf_size = spec_size specs\<rparr>, m'))))"

definition elf_deallocate :: "device_buffer \<Rightarrow> 'k elf_manager \<Rightarrow> 'k elf_manager" where
  "elf_deallocate db m =
     (if cpu_addr db = 0 then m
      else (case map_of (tracedElfParserBuffers m) (cpu_addr db) of
              None \<Rightarrow> m
            | Some bo \<Rightarrow>
                m\<lparr>tracedElfParserBuffers := fst (map_erase (cpu_addr db) (tracedElfParserBuffers m)),
                  em_ctx := drop_ref bo (em_ctx m)\<rparr>))"

definition elf_findBuffer :: "u64 \<Rightarrow> 'k elf_manager \<Rightarrow> buffer_object option" where
  "elf_findBuffer ptr m =
     (case map_lower_bound ptr (tracedElfParserBuffers m) of
        None \<Rightarrow> None | Some (k, bo) \<Rightarrow> if \<not> isInRange bo ptr then None else Some bo)"

definition elf_copy :: "device_buffer \<Rightarrow> bytes \<Rightarrow> u64 \<Rightarrow> 'k elf_manager \<Rightarrow> u64 \<times> 'k elf_manager" where
  "elf_copy to from count m =
     (if count = 0 then (0, m)
      else (case elf_findBuffer (cpu_addr to) m of
              None \<Rightarrow> (0, m)
            | Some bo \<Rightarrow>
                (case copyToBuffer bo (Some from) count 0 (ctx_world (em_ctx m)) of
                   (False, w) \<Rightarrow> (0, m\<lparr>em_ctx := (em_ctx m)\<lparr>ctx_world := w\<rparr>\<rparr>)
                 | (True, w) \<Rightarrow> (count, m\<lparr>em_ctx := (em_ctx m)\<lparr>ctx_world := w\<rparr>\<rparr>))))"

text \<open>The caller hands over a reference of its own.\<close>

definition elf_append :: "buffer_object \<Rightarrow> ('k, unit) elf_op" where
  "elf_append bo m =
     (if elf_findBuffer (basePtr bo) m \<noteq> None then (Inr (), m\<lparr>em_ctx := drop_ref bo (em_ctx m)\<rparr>)
      else (case trace_buffer bo m of (False, m') \<Rightarrow> (Inl Alloc_error, m') | (True, m') \<Rightarrow> (Inr (), m')))"

section \<open>DriverAccessManager\<close>

datatype managed_buffer =
    Npu_static device_buffer
  | Allocated device_buffer
  | Host_static u64
  | Host_copy bytes

definition hasNPUAccess :: "elf_flags \<Rightarrow> u64 \<Rightarrow> bool" where
  "hasNPUAccess fl flags \<longleftrightarrow>
     flags AND (SHF_EXECINSTR fl OR VPU_SHF_PROC_DMA fl OR VPU_SHF_PROC_SHAVE fl OR SHF_ALLOC fl) \<noteq> 0"

text \<open>The bytes of the blob from \<open>offset\<close> on; reading behind its end has no defined result.\<close>

definition blob_read :: "blob_container \<Rightarrow> u64 \<Rightarrow> u64 \<Rightarrow> bytes option" where
  "blob_read b offset n =
     (if unat offset + unat n \<le> length (blob_data b)
      then Some (take (unat n) (drop (unat offset) (blob_data b))) else None)"

definition readInternal ::
  "elf_flags \<Rightarrow> blob_container \<Rightarrow> u64 \<Rightarrow> buffer_specs \<Rightarrow> 'k elf_manager
     \<Rightarrow> ((elf_error + managed_buffer) \<times> 'k elf_manager) option" where
  "readInternal fl b offset specs m =
     (if offset + spec_size specs > blob_size b then Some (Inl Access_error, m)
      else let start = blob_ptr b + offset in
           if hasBackingStore b \<and> procFlags specs = VPU_SHF_PROC_DMA fl OR SHF_ALLOC fl \<and> npu_buffer b \<noteq> None
           then (let bo = the (npu_buffer b);
                     db = \<lparr>cpu_addr = start, vpu_addr = getVPUAddr bo start, buf_size = spec_size specs\<rparr>
                 in case elf_append bo (m\<lparr>em_ctx := take_ref (bo_id bo) (em_ctx m)\<rparr>) of
                      (Inl e, m') \<Rightarrow> Some (Inl e, m') | (Inr _, m') \<Rightarrow> Some (Inr (Npu_static db), m'))
           else if hasNPUAccess fl (procFlags specs)
           then (case elf_allocate fl specs m of
                   (Inl e, m') \<Rightarrow> Some (Inl e, m')
                 | (Inr db, m') \<Rightarrow>
                     (case blob_read b offset (buf_size db) of
                        None \<Rightarrow> None
                      | Some bs \<Rightarrow> Some (Inr (Allocated db), snd (elf_copy db bs (buf_size db) m'))))
           else if hasBackingStore b then Some (Inr (Host_static start), m)
           else map_option (\<lambda>bs. (Inr (Host_copy bs), m)) (blob_read b offset (spec_size specs)))"

definition readExternal :: "blob_container \<Rightarrow> u64 \<Rightarrow> u64 \<Rightarrow> (elf_error + bytes) option" where
  "readExternal b offset n =
     (if offset + n > blob_size b then Some (Inl Access_error) else map_option Inr (blob_read b offset n))"

end
