(* ===== verification/Elf_Parser.thy ===== *)
theory Elf_Parser
  imports Elf_Buffers Command_Buffer L0_Base
begin

text \<open>
  The parser of compiled graphs (\<open>umd/level_zero_driver/source/ext/elf_parser.cpp\<close>): the pool of parsed
  inferences, the arguments that are handed to one, and the command that executes it.
  \<open>elf::HostParsedInference\<close> is third-party code: a record of the functions that are called. The parsed
  inferences of a pool are objects \<open>'h\<close>; what a command has written into one is overwritten by the next
  command that acquires it, and is not kept in the pool.
\<close>

section \<open>The loader\<close>

text \<open>The exceptions of the loader, as the driver tells them apart.\<close>

datatype hpi_error = Hpi_alloc | Hpi_compatibility | Hpi_runtime | Hpi_logic | Hpi_other

record 'h hpi_lib =
  getInputBuffers :: "'h \<Rightarrow> device_buffer list"
  getOutputBuffers :: "'h \<Rightarrow> device_buffer list"
  getParsedInference :: "'h \<Rightarrow> device_buffer"
  getAllocatedBuffers :: "'h \<Rightarrow> device_buffer list"
  applyInputOutput ::
    "'h \<Rightarrow> (device_buffer \<times> strides option) list \<Rightarrow> (device_buffer \<times> strides option) list \<Rightarrow> device_buffer list \<Rightarrow> 'h option"
  lib_updateSharedScratchBuffers :: "'h \<Rightarrow> device_buffer list \<Rightarrow> 'h"
  lib_load :: "'h \<Rightarrow> hpi_error + 'h"
  lib_copy :: "'h \<Rightarrow> hpi_error + 'h"

text \<open>
  What the loader is told about the device: \<open>elf::HPIConfigs\<close> and \<open>elf::DeviceDescriptor\<close>. A version is
  the pair of its major and its minor number.
\<close>

datatype arch_kind = VPUX37XX | VPUX40XX | VPUX501X | VPUX502X | Unknown_arch

definition toArchKind :: "u32 \<Rightarrow> arch_kind" where
  "toArchKind devId =
     (if devId = PCI_DEVICE_ID_MTL \<or> devId = PCI_DEVICE_ID_ARL then VPUX37XX
      else if devId = PCI_DEVICE_ID_LNL then VPUX40XX
      else if devId = PCI_DEVICE_ID_PTL_P then VPUX501X
      else if devId = PCI_DEVICE_ID_WCL then VPUX502X
      else Unknown_arch)"

definition toVersion :: "u64 \<Rightarrow> u32 \<times> u32" where
  "toVersion ver = (ucast (drop_bit 16 ver AND 0xFFFF), ucast (ver AND 0xFFFF))"

record hpi_config =
  nnVersion :: "u32 \<times> u32"
  archKind :: arch_kind
  hc_deviceID :: u32
  hc_revision :: u16
  hc_tileCount :: u32

definition hpi_config_of :: "hw_info \<Rightarrow> hpi_config" where
  "hpi_config_of hw = \<lparr>nnVersion = toVersion (fwMappedInferenceVersion hw), archKind = toArchKind (deviceId hw),
     hc_deviceID = deviceId hw, hc_revision = deviceRevision hw,
     hc_tileCount = of_nat (length (filter (bit (tileConfig hw)) [0..<32]))\<rparr>"

text \<open>
  What the three functions around the loader make of an exception: a \<open>DriverError\<close>, or a null pointer
  (\<open>loadHostParsedInference\<close>: \<open>ZE_RESULT_ERROR_UNKNOWN\<close> instead).
\<close>

fun hpi_failure :: "hpi_error \<Rightarrow> ze_result option" where
  "hpi_failure Hpi_alloc = Some ZE_RESULT_ERROR_OUT_OF_HOST_MEMORY"
| "hpi_failure Hpi_compatibility = Some ZE_RESULT_ERROR_INVALID_NATIVE_BINARY"
| "hpi_failure _ = None"

definition createHostParsedInference :: "hpi_error + 'h \<Rightarrow> ze_result + 'h option" where
  "createHostParsedInference r =
     (case r of Inr h \<Rightarrow> Inr (Some h)
      | Inl e \<Rightarrow> (case hpi_failure e of Some z \<Rightarrow> Inl z | None \<Rightarrow> Inr None))"

definition copyHostParsedInference :: "'h hpi_lib \<Rightarrow> 'h \<Rightarrow> ze_result + 'h option" where
  "copyHostParsedInference lib h =
     (case lib_copy lib h of Inr h' \<Rightarrow> Inr (Some h')
      | Inl e \<Rightarrow> (case hpi_failure e of Some z \<Rightarrow> Inl z | None \<Rightarrow> Inr None))"

definition loadHostParsedInference :: "'h hpi_lib \<Rightarrow> 'h \<Rightarrow> ze_result + 'h" where
  "loadHostParsedInference lib h =
     (case lib_load lib h of Inr h' \<Rightarrow> Inr h'
      | Inl e \<Rightarrow> Inl (case hpi_failure e of Some z \<Rightarrow> z | None \<Rightarrow> ZE_RESULT_ERROR_UNKNOWN))"

section \<open>The pool of parsed inferences\<close>

text \<open>
  \<open>HostParsedInferenceManager\<close>: \<open>uses\<close> counts the references held outside of the pool, for the head and
  for the copies, by their place in the list.
\<close>

record 'h hpi_pool =
  headHpi :: 'h
  head_uses :: nat
  hpis :: "('h \<times> nat) list"
  loaded :: bool

definition new_pool :: "'h \<Rightarrow> 'h hpi_pool" where
  "new_pool h = \<lparr>headHpi = h, head_uses = 0, hpis = [], loaded = False\<rparr>"

text \<open>Which object of the pool a reference is to.\<close>

datatype hpi_ref = Head | Copy nat

fun idle_index :: "('h \<times> nat) list \<Rightarrow> nat \<Rightarrow> nat option" where
  "idle_index [] i = None"
| "idle_index ((h, n) # xs) i = (if n = 0 then Some i else idle_index xs (Suc i))"

definition take_head :: "'h hpi_pool \<Rightarrow> 'h hpi_pool" where
  "take_head p = p\<lparr>head_uses := head_uses p + 1\<rparr>"

definition take_copy :: "nat \<Rightarrow> 'h hpi_pool \<Rightarrow> 'h hpi_pool" where
  "take_copy i p = p\<lparr>hpis := (hpis p)[i := (fst (hpis p ! i), snd (hpis p ! i) + 1)]\<rparr>"

definition acquire_loaded :: "'h hpi_lib \<Rightarrow> 'h hpi_pool \<Rightarrow> (ze_result + (hpi_ref \<times> 'h) option) \<times> 'h hpi_pool" where
  "acquire_loaded lib p =
     (if head_uses p = 0 then (Inr (Some (Head, headHpi p)), take_head p)
      else (case idle_index (hpis p) 0 of
              Some i \<Rightarrow> (Inr (Some (Copy i, fst (hpis p ! i))), take_copy i p)
            | None \<Rightarrow>
                (case copyHostParsedInference lib (headHpi p) of
                   Inl z \<Rightarrow> (Inl z, p)
                 | Inr None \<Rightarrow> (Inr None, p)
                 | Inr (Some h) \<Rightarrow> (Inr (Some (Copy (length (hpis p)), h)), p\<lparr>hpis := hpis p @ [(h, 1)]\<rparr>))))"

definition acquire :: "'h hpi_lib \<Rightarrow> 'h hpi_pool \<Rightarrow> (ze_result + (hpi_ref \<times> 'h) option) \<times> 'h hpi_pool" where
  "acquire lib p =
     (if \<not> loaded p
      then (case loadHostParsedInference lib (headHpi p) of
              Inl z \<Rightarrow> (Inl z, p)
            | Inr h \<Rightarrow> acquire_loaded lib (p\<lparr>headHpi := h, loaded := True\<rparr>))
      else acquire_loaded lib p)"

definition release_hpi :: "hpi_ref \<Rightarrow> 'h hpi_pool \<Rightarrow> 'h hpi_pool" where
  "release_hpi r p =
     (case r of Head \<Rightarrow> p\<lparr>head_uses := head_uses p - 1\<rparr>
      | Copy i \<Rightarrow> p\<lparr>hpis := (hpis p)[i := (fst (hpis p ! i), snd (hpis p ! i) - 1)]\<rparr>)"

section \<open>The arguments of an inference\<close>

text \<open>The buffers of the user that the pointers lie in, and what the loader gets for each pointer.\<close>

fun getDeviceBuffers ::
  "'k dev_ctx \<Rightarrow> u64 list \<Rightarrow> device_buffer list \<Rightarrow> buffer_object list \<Rightarrow> (device_buffer list \<times> buffer_object list) option" where
  "getDeviceBuffers c [] [] bos = Some ([], bos)"
| "getDeviceBuffers c (p # ps) (b # bs) bos =
     (case findBufferObject c p of
        None \<Rightarrow> None
      | Some bo \<Rightarrow>
          let offset = p - basePtr bo in
          if allocSize bo - offset < buf_size b then None
          else (case getDeviceBuffers c ps bs (bos @ [bo]) of
                  None \<Rightarrow> None
                | Some (out, bos') \<Rightarrow> Some (\<lparr>cpu_addr = p, vpu_addr = getVPUAddr bo p, buf_size = 0\<rparr> # out, bos')))"
| "getDeviceBuffers c _ _ bos = None"

text \<open>\<open>set_user_strides\<close>; the keys of the map are places of the list.\<close>

definition with_strides :: "strides_map \<Rightarrow> device_buffer list \<Rightarrow> (device_buffer \<times> strides option) list" where
  "with_strides m bs = map (\<lambda>i. (bs ! i, m (of_nat i))) [0..<length bs]"

text \<open>A profiling query as an inference sees it: its memory, the buffer of the pool and its size.\<close>

record query_memory =
  qm_ptr :: u64
  qm_bo :: "buffer_object option"
  qm_size :: u32

definition elf_applyInputOutputs ::
  "'h hpi_lib \<Rightarrow> 'k dev_ctx \<Rightarrow> query_memory option \<Rightarrow> 'h \<Rightarrow> u64 list \<Rightarrow> u64 list \<Rightarrow> strides_map \<Rightarrow> strides_map
     \<Rightarrow> (buffer_object list \<times> 'h) option" where
  "elf_applyInputOutputs lib c query h ins outs inStrides outStrides =
     (case getDeviceBuffers c ins (getInputBuffers lib h) [] of
        None \<Rightarrow> None
      | Some (ibs, bos1) \<Rightarrow>
          (case getDeviceBuffers c outs (getOutputBuffers lib h) bos1 of
             None \<Rightarrow> None
           | Some (obs, bos2) \<Rightarrow>
               (case query of
                  None \<Rightarrow>
                    map_option (\<lambda>h'. (bos2, h'))
                      (applyInputOutput lib h (with_strides inStrides ibs) (with_strides outStrides obs) [])
                | Some q \<Rightarrow>
                    (case qm_bo q of
                       None \<Rightarrow> None
                     | Some bo \<Rightarrow>
                         if qm_ptr q = 0 then None
                         else map_option (\<lambda>h'. (bos2 @ [bo], h'))
                                (applyInputOutput lib h (with_strides inStrides ibs) (with_strides outStrides obs)
                                   [\<lparr>cpu_addr = qm_ptr q, vpu_addr = getVPUAddr bo (qm_ptr q), buf_size = ucast (qm_size q)\<rparr>])))))"

definition elf_updateSharedScratchBuffers :: "'h hpi_lib \<Rightarrow> 'h \<Rightarrow> buffer_object \<Rightarrow> 'h" where
  "elf_updateSharedScratchBuffers lib h bo =
     lib_updateSharedScratchBuffers lib h [\<lparr>cpu_addr = basePtr bo, vpu_addr = vpuAddr bo, buf_size = 0\<rparr>]"

section \<open>The parser object\<close>

record ('h, 'k) elf_object =
  elf_lib :: "'h hpi_lib"
  elf_mgr :: "'k elf_manager"
  elf_pool :: "'h hpi_pool"

abbreviation elf_ctx :: "('h, 'k) elf_object \<Rightarrow> 'k dev_ctx" where
  "elf_ctx e \<equiv> em_ctx (elf_mgr e)"

definition set_elf_ctx :: "'k dev_ctx \<Rightarrow> ('h, 'k) elf_object \<Rightarrow> ('h, 'k) elf_object" where
  "set_elf_ctx c e = e\<lparr>elf_mgr := (elf_mgr e)\<lparr>em_ctx := c\<rparr>\<rparr>"

text \<open>What a command of this parser calls later.\<close>

definition parser_of :: "('h, 'k) elf_object \<Rightarrow> query_memory option \<Rightarrow> 'h elf_parser" where
  "parser_of e query = \<lparr>applyInputOutputs = elf_applyInputOutputs (elf_lib e) (elf_ctx e) query,
     sharedScratchSize = shared_scratch (elf_mgr e), updateSharedScratchBuffers = elf_updateSharedScratchBuffers (elf_lib e)\<rparr>"

text \<open>The buffers of an inference that the command must keep alive.\<close>

fun allocated_bos :: "'k elf_manager \<Rightarrow> device_buffer list \<Rightarrow> buffer_object list option" where
  "allocated_bos m [] = Some []"
| "allocated_bos m (b # bs) =
     (if buf_size b = 0 then allocated_bos m bs
      else if cpu_addr b = 0 \<and> buf_size b = shared_scratch m then allocated_bos m bs
      else (case elf_findBuffer (cpu_addr b) m of
              None \<Rightarrow> None | Some bo \<Rightarrow> map_option (Cons bo) (allocated_bos m bs)))"

text \<open>
  \<open>None\<close>: \<open>acquire\<close> returned a null pointer, which is dereferenced. A reference to the parsed inference
  that is not handed to a command goes back to the pool.
\<close>

definition createInferenceExecuteCommand ::
  "('h, 'k) elf_object \<Rightarrow> u64 list \<Rightarrow> u64 list \<Rightarrow> strides_map \<Rightarrow> strides_map \<Rightarrow> query_memory option
     \<Rightarrow> (((exn + ze_result) + (hpi_ref \<times> 'h command) option) \<times> ('h, 'k) elf_object) option" where
  "createInferenceExecuteCommand e ins outs inStrides outStrides query =
     (case getUniqueInferenceId (elf_ctx e) of
        (None, c) \<Rightarrow> Some (Inr None, set_elf_ctx c e)
      | (Some inferenceId, c) \<Rightarrow>
          (case acquire (elf_lib e) (elf_pool e) of
             (Inl z, p) \<Rightarrow> Some (Inl (Inr z), (set_elf_ctx c e)\<lparr>elf_pool := p\<rparr>)
           | (Inr None, p) \<Rightarrow> None
           | (Inr (Some (r, h)), p) \<Rightarrow>
               let e1 = (set_elf_ctx c e)\<lparr>elf_pool := p\<rparr>; e2 = e1\<lparr>elf_pool := release_hpi r p\<rparr>; m = elf_mgr e1 in
               case elf_findBuffer (cpu_addr (getParsedInference (elf_lib e) h)) m of
                 None \<Rightarrow> Some (Inr None, e2)
               | Some bo \<Rightarrow>
                   (case allocated_bos m (getAllocatedBuffers (elf_lib e) h) of
                      None \<Rightarrow> Some (Inr None, e2)
                    | Some bos \<Rightarrow>
                        (case VPUInferenceExecute_create (parser_of e1 query) h ins outs inStrides outStrides inferenceId (bo # bos) of
                           Inl x \<Rightarrow> Some (Inl (Inl x), e2)
                         | Inr None \<Rightarrow> Some (Inr None, e2)
                         | Inr (Some cmd) \<Rightarrow>
                             Some (Inr (Some (r, cmd)), set_elf_ctx (take_refs (bufferObjects cmd) (elf_ctx e1)) e1)))))"

definition elf_initialize :: "('h, 'k) elf_object \<Rightarrow> ze_result \<times> ('h, 'k) elf_object" where
  "elf_initialize e =
     (case acquire (elf_lib e) (elf_pool e) of
        (Inl z, p) \<Rightarrow> (z, e\<lparr>elf_pool := p\<rparr>)
      | (Inr None, p) \<Rightarrow> (ZE_RESULT_SUCCESS, e\<lparr>elf_pool := p\<rparr>)
      | (Inr (Some (r, _)), p) \<Rightarrow> (ZE_RESULT_SUCCESS, e\<lparr>elf_pool := release_hpi r p\<rparr>))"

definition allocateInitCommand :: "('h, 'k) elf_object \<Rightarrow> 'h command option \<times> ('h, 'k) elf_object" where
  "allocateInitCommand e =
     (case elf_initialize e of (r, e') \<Rightarrow>
        (if r \<noteq> ZE_RESULT_SUCCESS then None else Some (new_command Generic (Nop VPU_CMD_UNKNOWN 0 [])), e'))"

definition allocateInternal :: "elf_flags \<Rightarrow> u64 \<Rightarrow> 'k elf_manager \<Rightarrow> (elf_error + buffer_object option) \<times> 'k elf_manager" where
  "allocateInternal fl sz m =
     (if sz = 0 then (Inr None, m)
      else (case elf_allocate fl \<lparr>spec_size = sz, procFlags = 0, isSharable = False\<rparr> m of
              (Inl e, m') \<Rightarrow> (Inl e, m')
            | (Inr db, m') \<Rightarrow> (Inr (elf_findBuffer (cpu_addr db) m'), m')))"

definition destroy_parser :: "'k elf_manager \<Rightarrow> 'k elf_manager" where
  "destroy_parser m = m\<lparr>em_ctx := scratchCachePrune (shared_scratch m) (em_ctx m)\<rparr>"

definition checkMagic :: "(bytes \<Rightarrow> bool) \<Rightarrow> blob_container option \<Rightarrow> bool" where
  "checkMagic elfMagic ob =
     (case ob of None \<Rightarrow> False
      | Some b \<Rightarrow> if blob_ptr b = 0 then False else if blob_size b = 0 then False else elfMagic (blob_data b))"

end
