(* ===== verification/Elf_Arguments.thy ===== *)
theory Elf_Arguments
  imports L0_Base
begin

text \<open>
  What \<open>ElfParser::parse\<close> reads from the metadata of a compiled graph
  (\<open>umd/level_zero_driver/source/ext/elf_parser.cpp\<close>): the properties and the metadata of the arguments,
  precisions, layouts and the size of the profiling output. The structures of the metadata belong to the
  loader and those of the results to the Level Zero headers; both are records of the fields that the code
  touches, and the sizes of their arrays are parameters.
\<close>

section \<open>Metadata of the loader\<close>

datatype elf_dtype =
    DType_NOT_SET | DType_FP64 | DType_FP32 | DType_FP16 | DType_F8E4M3FN | DType_F8E5M2 | DType_F8E8M0
  | DType_U64 | DType_U32 | DType_U16 | DType_U8 | DType_U4 | DType_I2X | DType_I64 | DType_I32 | DType_I16
  | DType_I8 | DType_I4 | DType_I2 | DType_BIN | DType_BFP16 | DType_I4X | DType_other

record tensor_ref =
  tensor_name :: bytes
  data_type :: elf_dtype
  order :: u64
  dimensions :: "u32 list"
  tensor_strides :: "u64 list"
  dynamic_strides :: bool

record ov_node =
  node_type :: nat
  friendly_name :: bytes
  input_name :: bytes
  shape :: "u64 list"
  tensor_names :: "bytes list"

record network_metadata =
  mInTensorDescriptors :: "tensor_ref list"
  mOutTensorDescriptors :: "tensor_ref list"
  mNetInputs :: "tensor_ref list"
  mNetOutputs :: "tensor_ref list"
  mOVParameters :: "ov_node list"
  mOVResults :: "ov_node list"

section \<open>Precision and layout\<close>

datatype precision =
    PREC_UNKNOWN | PREC_FP64 | PREC_FP32 | PREC_FP16 | PREC_FP8_E4M3 | PREC_FP8_E5M2 | PREC_FP8_E8M0
  | PREC_UINT64 | PREC_UINT32 | PREC_UINT16 | PREC_UINT8 | PREC_UINT4 | PREC_UINT2 | PREC_INT64 | PREC_INT32
  | PREC_INT16 | PREC_INT8 | PREC_INT4 | PREC_INT2 | PREC_BIN | PREC_BF16 | PREC_NF4

fun getTensorPrecision :: "elf_dtype \<Rightarrow> precision" where
  "getTensorPrecision DType_NOT_SET = PREC_UNKNOWN"
| "getTensorPrecision DType_FP64 = PREC_FP64"
| "getTensorPrecision DType_FP32 = PREC_FP32"
| "getTensorPrecision DType_FP16 = PREC_FP16"
| "getTensorPrecision DType_F8E4M3FN = PREC_FP8_E4M3"
| "getTensorPrecision DType_F8E5M2 = PREC_FP8_E5M2"
| "getTensorPrecision DType_F8E8M0 = PREC_FP8_E8M0"
| "getTensorPrecision DType_U64 = PREC_UINT64"
| "getTensorPrecision DType_U32 = PREC_UINT32"
| "getTensorPrecision DType_U16 = PREC_UINT16"
| "getTensorPrecision DType_U8 = PREC_UINT8"
| "getTensorPrecision DType_U4 = PREC_UINT4"
| "getTensorPrecision DType_I2X = PREC_UINT2"
| "getTensorPrecision DType_I64 = PREC_INT64"
| "getTensorPrecision DType_I32 = PREC_INT32"
| "getTensorPrecision DType_I16 = PREC_INT16"
| "getTensorPrecision DType_I8 = PREC_INT8"
| "getTensorPrecision DType_I4 = PREC_INT4"
| "getTensorPrecision DType_I2 = PREC_INT2"
| "getTensorPrecision DType_BIN = PREC_BIN"
| "getTensorPrecision DType_BFP16 = PREC_BF16"
| "getTensorPrecision DType_I4X = PREC_NF4"
| "getTensorPrecision DType_other = PREC_UNKNOWN"

datatype layout =
    LAYOUT_ANY | LAYOUT_C | LAYOUT_NC | LAYOUT_CN | LAYOUT_CHW | LAYOUT_NCHW | LAYOUT_NHWC | LAYOUT_NCDHW | LAYOUT_NDHWC

definition orderToLayout :: "(u64 \<times> layout) list" where
  "orderToLayout = [(0x1, LAYOUT_C), (0x12, LAYOUT_NC), (0x21, LAYOUT_CN), (0x123, LAYOUT_CHW), (0x1234, LAYOUT_NCHW),
     (0x1342, LAYOUT_NHWC), (0x12345, LAYOUT_NCDHW), (0x13452, LAYOUT_NDHWC)]"

text \<open>The rows are arrays of five elements: those that are not given are zero.\<close>

definition DIM_N :: u64 where "DIM_N = 0"
definition DIM_C :: u64 where "DIM_C = 1"
definition DIM_H :: u64 where "DIM_H = 2"
definition DIM_W :: u64 where "DIM_W = 3"
definition DIM_D :: u64 where "DIM_D = 4"

definition stridesToLayout :: "(u64 list \<times> layout) list" where
  "stridesToLayout =
     [([DIM_C, 0, 0, 0, 0], LAYOUT_C), ([DIM_N, DIM_C, 0, 0, 0], LAYOUT_NC), ([DIM_C, DIM_H, DIM_W, 0, 0], LAYOUT_CHW),
      ([DIM_N, DIM_C, DIM_H, DIM_W, 0], LAYOUT_NCHW), ([DIM_N, DIM_H, DIM_W, DIM_C, 0], LAYOUT_NHWC),
      ([DIM_N, DIM_C, DIM_D, DIM_H, DIM_W], LAYOUT_NCDHW), ([DIM_N, DIM_D, DIM_H, DIM_W, DIM_C], LAYOUT_NDHWC)]"

text \<open>\<open>std::max_element\<close>: the place of the first of the greatest elements.\<close>

fun max_place :: "u64 list \<Rightarrow> nat" where
  "max_place [] = 0"
| "max_place [x] = 0"
| "max_place (x # y # ys) = (let j = max_place (y # ys) in if (y # ys) ! j > x then Suc j else 0)"

definition computeLayoutFromStride :: "u64 list \<Rightarrow> layout" where
  "computeLayoutFromStride st =
     (if length st = 6
      then (let i = 2 + max_place (drop 2 st) in
            if i = 2 then LAYOUT_NCDHW else if i = 3 then LAYOUT_NDHWC else LAYOUT_ANY)
      else if length st = 5
      then (let m = drop 2 st ! max_place (drop 2 st) in
            if m = st ! 2 \<and> st ! 3 \<ge> st ! 4 then LAYOUT_NCHW
            else if m = st ! 3 \<and> st ! 4 \<ge> st ! 2 then LAYOUT_NHWC else LAYOUT_ANY)
      else LAYOUT_ANY)"

text \<open>
  \<open>std::equal(stride_begin, stride_end, row)\<close>: it compares as many elements as there are strides; \<open>None\<close>
  when it goes on behind the end of the row.
\<close>

fun equal_prefix :: "u64 list \<Rightarrow> u64 list \<Rightarrow> bool option" where
  "equal_prefix [] row = Some True"
| "equal_prefix (s # ss) [] = None"
| "equal_prefix (s # ss) (r # row) = (if s = r then equal_prefix ss row else Some False)"

fun layout_of_strides :: "u64 list \<Rightarrow> (u64 list \<times> layout) list \<Rightarrow> layout option" where
  "layout_of_strides st [] = Some LAYOUT_ANY"
| "layout_of_strides st ((row, l) # rows) =
     (case equal_prefix st row of None \<Rightarrow> None
      | Some True \<Rightarrow> Some l | Some False \<Rightarrow> layout_of_strides st rows)"

definition getNetworkLayout :: "tensor_ref \<Rightarrow> layout option" where
  "getNetworkLayout t =
     (if order t \<noteq> 0 then Some (case map_of orderToLayout (order t) of Some l \<Rightarrow> l | None \<Rightarrow> LAYOUT_ANY)
      else if tensor_strides t = [] then Some LAYOUT_ANY
      else layout_of_strides (tensor_strides t) stridesToLayout)"

definition getDeviceLayout :: "tensor_ref \<Rightarrow> layout" where
  "getDeviceLayout t =
     (case (if order t \<noteq> 0 then map_of orderToLayout (order t) else None) of
        Some l \<Rightarrow> l | None \<Rightarrow> computeLayoutFromStride (tensor_strides t))"

section \<open>The properties of the arguments\<close>

text \<open>The sizes of the arrays of the interface.\<close>

record ze_limits =
  max_dims :: nat
  name_size :: nat
  max_names :: nat
  max_ref_dims :: nat

datatype argument_type = ARGUMENT_INPUT | ARGUMENT_OUTPUT

record argument_properties =
  arg_name :: bytes
  arg_type :: argument_type
  arg_dims :: "u32 list"
  dims_count :: u32
  networkPrecision :: precision
  networkLayout :: layout
  devicePrecision :: precision
  deviceLayout :: layout
  quant_scale_one :: bool
  debug_name :: bytes
  associated_names :: "bytes list"

record graph_argument =
  properties :: argument_properties
  supportsDynamicStrides :: bool

definition empty_properties :: "argument_type \<Rightarrow> argument_properties" where
  "empty_properties ty = \<lparr>arg_name = [], arg_type = ty, arg_dims = [], dims_count = 0, networkPrecision = PREC_UNKNOWN,
     networkLayout = LAYOUT_ANY, devicePrecision = PREC_UNKNOWN, deviceLayout = LAYOUT_ANY,
     quant_scale_one = (ty = ARGUMENT_INPUT), debug_name = [], associated_names = []\<rparr>"

text \<open>A name is copied without its last byte into an array of zeros.\<close>

definition copy_name :: "ze_limits \<Rightarrow> bytes \<Rightarrow> bytes" where
  "copy_name lim s = take (name_size lim - 1) s @ [0]"

definition fillDeviceProperties :: "ze_limits \<Rightarrow> tensor_ref \<Rightarrow> graph_argument \<Rightarrow> graph_argument" where
  "fillDeviceProperties lim t a =
     a\<lparr>properties := (properties a)\<lparr>
         arg_dims := map (\<lambda>j. if j < length (dimensions t) then dimensions t ! j else 1) [0..<max_dims lim],
         dims_count := of_nat (length (dimensions t)), devicePrecision := getTensorPrecision (data_type t),
         deviceLayout := getDeviceLayout t\<rparr>,
       supportsDynamicStrides := dynamic_strides t\<rparr>"

definition fillNetworkProperties :: "ze_limits \<Rightarrow> tensor_ref \<Rightarrow> graph_argument \<Rightarrow> graph_argument option" where
  "fillNetworkProperties lim t a =
     map_option (\<lambda>l. a\<lparr>properties := (properties a)\<lparr>arg_name := copy_name lim (tensor_name t),
                        networkPrecision := getTensorPrecision (data_type t), networkLayout := l\<rparr>\<rparr>) (getNetworkLayout t)"

definition fillOVNodeProperties :: "ze_limits \<Rightarrow> ov_node \<Rightarrow> graph_argument \<Rightarrow> graph_argument" where
  "fillOVNodeProperties lim node a =
     a\<lparr>properties := (properties a)\<lparr>debug_name := copy_name lim (friendly_name node),
         associated_names := map (copy_name lim) (take (max_names lim) (tensor_names node))\<rparr>\<rparr>"

definition nth_opt :: "'a list \<Rightarrow> nat \<Rightarrow> 'a option" where
  "nth_opt xs i = (if i < length xs then Some (xs ! i) else None)"

definition one_argument ::
  "ze_limits \<Rightarrow> argument_type \<Rightarrow> tensor_ref list \<Rightarrow> tensor_ref list \<Rightarrow> ov_node list \<Rightarrow> nat \<Rightarrow> graph_argument option" where
  "one_argument lim ty dev net nodes i =
     (let a0 = fillDeviceProperties lim (dev ! i) \<lparr>properties = empty_properties ty, supportsDynamicStrides = False\<rparr>
      in case (case nth_opt net i of None \<Rightarrow> Some a0 | Some t \<Rightarrow> fillNetworkProperties lim t a0) of
           None \<Rightarrow> None
         | Some a1 \<Rightarrow> Some (case nth_opt nodes i of None \<Rightarrow> a1 | Some nd \<Rightarrow> fillOVNodeProperties lim nd a1))"

text \<open>\<open>None\<close> is a read behind the table of the layouts.\<close>

definition all_some :: "'a option list \<Rightarrow> 'a list option" where
  "all_some xs = (if None \<in> set xs then None else Some (map the xs))"

definition getArgumentProperties :: "ze_limits \<Rightarrow> network_metadata \<Rightarrow> graph_argument list option" where
  "getArgumentProperties lim md =
     all_some (map (one_argument lim ARGUMENT_INPUT (mInTensorDescriptors md) (mNetInputs md) (mOVParameters md))
                 [0..<length (mInTensorDescriptors md)]
             @ map (one_argument lim ARGUMENT_OUTPUT (mOutTensorDescriptors md) (mNetOutputs md) (mOVResults md))
                 [0..<length (mOutTensorDescriptors md)])"

section \<open>The metadata of the arguments\<close>

text \<open>
  \<open>toMetadataType\<close> is a table between enumerations of the same names; a type outside of it leaves zero.
\<close>

record argument_metadata =
  md_type :: argument_type
  md_name :: bytes
  md_data_type :: nat
  md_shape :: "u64 list"
  md_tensor_names :: "bytes list"
  md_input_name :: bytes

definition metadata_of_node :: "ze_limits \<Rightarrow> (nat \<Rightarrow> nat option) \<Rightarrow> ov_node \<Rightarrow> argument_type \<Rightarrow> argument_metadata option" where
  "metadata_of_node lim toMetadataType node ty =
     (if length (shape node) > max_ref_dims lim then None
      else if length (tensor_names node) > max_names lim then None
      else Some \<lparr>md_type = ty, md_name = copy_name lim (friendly_name node),
                 md_data_type = (case toMetadataType (node_type node) of Some t \<Rightarrow> t | None \<Rightarrow> 0), md_shape = shape node,
                 md_tensor_names = map (copy_name lim) (tensor_names node), md_input_name = copy_name lim (input_name node)\<rparr>)"

text \<open>\<open>args.emplace_back()\<close>: a structure of zeros.\<close>

definition blank_metadata :: argument_metadata where
  "blank_metadata = \<lparr>md_type = ARGUMENT_INPUT, md_name = [], md_data_type = 0, md_shape = [], md_tensor_names = [],
     md_input_name = []\<rparr>"

fun metadata_list ::
  "ze_limits \<Rightarrow> (nat \<Rightarrow> nat option) \<Rightarrow> argument_type \<Rightarrow> ov_node list \<Rightarrow> nat \<Rightarrow> argument_metadata list option" where
  "metadata_list lim tab ty nodes 0 = Some []"
| "metadata_list lim tab ty [] (Suc n) = map_option (Cons blank_metadata) (metadata_list lim tab ty [] n)"
| "metadata_list lim tab ty (node # nodes) (Suc n) =
     (case metadata_of_node lim tab node ty of
        None \<Rightarrow> None | Some a \<Rightarrow> map_option (Cons a) (metadata_list lim tab ty nodes n))"

definition getArgumentMetadata :: "ze_limits \<Rightarrow> (nat \<Rightarrow> nat option) \<Rightarrow> network_metadata \<Rightarrow> argument_metadata list option" where
  "getArgumentMetadata lim tab md =
     (case metadata_list lim tab ARGUMENT_INPUT (mOVParameters md) (length (mNetInputs md)) of
        None \<Rightarrow> None
      | Some xs \<Rightarrow> map_option ((@) xs) (metadata_list lim tab ARGUMENT_OUTPUT (mOVResults md) (length (mNetOutputs md))))"

section \<open>Parsing\<close>

text \<open>\<open>profBuffers\<close>: the sizes of the profiling tensors.\<close>

definition getProfilingSize :: "u64 list \<Rightarrow> exn + u32 option" where
  "getProfilingSize profBuffers =
     (case profBuffers of [] \<Rightarrow> Inr (Some 0)
      | [n] \<Rightarrow> (case safe_cast_u32 n of Inl e \<Rightarrow> Inl e | Inr v \<Rightarrow> Inr (Some v))
      | _ \<Rightarrow> Inr None)"

definition elf_parse ::
  "ze_limits \<Rightarrow> (nat \<Rightarrow> nat option) \<Rightarrow> network_metadata \<Rightarrow> u64 list
     \<Rightarrow> (exn + ze_result + (graph_argument list \<times> argument_metadata list \<times> u32)) option" where
  "elf_parse lim tab md profBuffers =
     (case getArgumentProperties lim md of None \<Rightarrow> None
      | Some props \<Rightarrow>
          Some (case getArgumentMetadata lim tab md of
                  None \<Rightarrow> Inr (Inl ZE_RESULT_ERROR_INVALID_ARGUMENT)
                | Some args \<Rightarrow>
                    (case getProfilingSize profBuffers of
                       Inl e \<Rightarrow> Inl e
                     | Inr None \<Rightarrow> Inr (Inl ZE_RESULT_ERROR_INVALID_ARGUMENT)
                     | Inr (Some sz) \<Rightarrow> Inr (Inr (props, args, sz)))))"

end
