(* ===== verification/Elf_Props.thy ===== *)
theory Elf_Props
  imports Elf_Parser Elf_Arguments Context_Props
begin

text \<open>
  The parser of compiled graphs: reads of the blob, the pool of parsed inferences, the bounds of the
  arguments, and what parsing returns.
\<close>

section \<open>Reads of the blob\<close>

text \<open>The bounds check of the access manager is exact only when the sum does not wrap: a section inside of
  the blob is copied, one outside is refused, and one whose offset and size wrap around the address space to
  a value inside of the blob passes the check and is read outside of it.
\<close>

theorem external_read_exact:
  assumes "length (blob_data b) < 2 ^ 64"
  shows "readExternal b offset n =
     (if unat offset + unat n \<le> length (blob_data b) then Some (Inr (take (unat n) (drop (unat offset) (blob_data b))))
      else if unat offset + unat n - 2 ^ 64 \<le> length (blob_data b) \<and> 2 ^ 64 \<le> unat offset + unat n then None
      else Some (Inl Access_error))"
proof -
  have s: "unat (blob_size b) = length (blob_data b)" using assms by (simp add: blob_size_def unat_of_nat_64)
  have p: "unat (offset + n) = (if unat offset + unat n < 2 ^ 64 then unat offset + unat n else unat offset + unat n - 2 ^ 64)"
    using unat_lt_64 [of offset] unat_lt_64 [of n] by (simp add: unat_plus_if')
  have c: "offset + n > blob_size b \<longleftrightarrow> unat (offset + n) > length (blob_data b)" by (simp add: word_less_nat_alt s)
  show ?thesis
    unfolding readExternal_def blob_read_def c p using assms by auto
qed

theorem external_read_exact_witness:
  "readExternal (\<lparr>blob_ptr = 4096, blob_data = [1, 2, 3], backingStore = No_store, npu_buffer = None\<rparr>) 0xFFFFFFFFFFFFFFFF 2 = None
   \<and> readExternal (\<lparr>blob_ptr = 4096, blob_data = [1, 2, 3], backingStore = No_store, npu_buffer = None\<rparr>) 1 2 = Some (Inr [2, 3])
   \<and> readExternal (\<lparr>blob_ptr = 4096, blob_data = [1, 2, 3], backingStore = No_store, npu_buffer = None\<rparr>) 1 3 = Some (Inl Access_error)"
  using external_read_exact [of "\<lparr>blob_ptr = 4096, blob_data = [1, 2, 3], backingStore = No_store, npu_buffer = None\<rparr>"]
  by simp

section \<open>The pool of parsed inferences\<close>

lemma idle_index_Some:
  "idle_index xs i = Some j \<Longrightarrow> i \<le> j \<and> j - i < length xs \<and> snd (xs ! (j - i)) = 0
     \<and> (\<forall>k < j - i. snd (xs ! k) > 0)"
proof (induction xs i rule: idle_index.induct)
  case (2 h n xs i)
  show ?case
  proof (cases "n = 0")
    case False
    then have "idle_index xs (Suc i) = Some j" using 2(2) by simp
    note ih = 2(1) [OF False this]
    have "j - i = Suc (j - Suc i)" using ih [THEN conjunct1] by simp
    then show ?thesis using ih False by (auto simp: less_Suc_eq_0_disj)
  next
    case True
    then show ?thesis using 2(2) by simp
  qed
qed simp

lemma idle_index_None: "idle_index xs i = None \<longleftrightarrow> (\<forall>x \<in> set xs. snd x > 0)"
  by (induction xs i rule: idle_index.induct) auto

definition hpi_uses :: "'h hpi_pool \<Rightarrow> hpi_ref \<Rightarrow> nat" where
  "hpi_uses p r = (case r of Head \<Rightarrow> head_uses p | Copy i \<Rightarrow> if i < length (hpis p) then snd (hpis p ! i) else 0)"

text \<open>C18: a parsed inference is never shared by two commands: \<open>acquire\<close> returns an object of the pool that
  nobody else holds, and afterwards it is held once and the holders of all others are unchanged; the pool
  grows only when all its objects are held.
\<close>

theorem acquire_exclusive:
  assumes "acquire lib p = (Inr (Some (r, h)), p')"
  shows "hpi_uses p r = 0 \<and> hpi_uses p' = (hpi_uses p)(r := 1) \<and> loaded p'
     \<and> (length (hpis p') = length (hpis p)
        \<or> length (hpis p') = Suc (length (hpis p)) \<and> head_uses p > 0 \<and> (\<forall>x \<in> set (hpis p). snd x > 0))"
proof -
  have main: "hpi_uses q r = 0 \<and> hpi_uses p' = (hpi_uses q)(r := 1) \<and> loaded p' = loaded q
     \<and> (length (hpis p') = length (hpis q)
        \<or> length (hpis p') = Suc (length (hpis q)) \<and> head_uses q > 0 \<and> (\<forall>x \<in> set (hpis q). snd x > 0))"
    if a: "acquire_loaded lib q = (Inr (Some (r, h)), p')" for q
  proof (cases "head_uses q = 0")
    case True
    then have "r = Head" "p' = take_head q" using a by (auto simp: acquire_loaded_def)
    then show ?thesis using True by (auto simp: hpi_uses_def take_head_def split: hpi_ref.splits)
  next
    case busy: False
    show ?thesis
    proof (cases "idle_index (hpis q) 0")
      case (Some i)
      then have "r = Copy i" "p' = take_copy i q" using a busy by (auto simp: acquire_loaded_def)
      then show ?thesis using idle_index_Some [OF Some]
        by (auto simp: hpi_uses_def take_copy_def nth_list_update split: hpi_ref.splits)
    next
      case None
      then obtain h1 where "r = Copy (length (hpis q))" "p' = q\<lparr>hpis := hpis q @ [(h1, 1)]\<rparr>"
        using a busy by (auto simp: acquire_loaded_def split: sum.splits option.splits)
      then show ?thesis using None busy idle_index_None [of "hpis q" 0]
        by (auto simp: hpi_uses_def nth_append less_Suc_eq split: hpi_ref.splits)
    qed
  qed
  show ?thesis
  proof (cases "loaded p")
    case True
    then show ?thesis using main [of p] assms by (simp add: acquire_def)
  next
    case False
    then obtain h1 where l: "acquire_loaded lib (p\<lparr>headHpi := h1, loaded := True\<rparr>) = (Inr (Some (r, h)), p')"
      using assms by (auto simp: acquire_def split: sum.splits)
    have "hpi_uses (p\<lparr>headHpi := h1, loaded := True\<rparr>) = hpi_uses p" by (simp add: hpi_uses_def fun_eq_iff split: hpi_ref.split)
    then show ?thesis using main [OF l] by simp
  qed
qed

text \<open>A loader whose parsed inferences are numbers: a copy is the next number.\<close>

definition counting_lib :: "nat hpi_lib" where
  "counting_lib = \<lparr>getInputBuffers = \<lambda>h. [], getOutputBuffers = \<lambda>h. [],
     getParsedInference = \<lambda>h. \<lparr>cpu_addr = 0, vpu_addr = 0, buf_size = 0\<rparr>, getAllocatedBuffers = \<lambda>h. [],
     applyInputOutput = \<lambda>h ins outs prof. Some h, lib_updateSharedScratchBuffers = \<lambda>h bs. h, lib_load = Inr,
     lib_copy = \<lambda>h. Inr (Suc h)\<rparr>"

theorem acquire_exclusive_witness:
  "hpi_uses (\<lparr>headHpi = 7, head_uses = 2, hpis = [(5, 1)], loaded = True\<rparr> :: nat hpi_pool) (Copy 1) = 0
   \<and> hpi_uses (\<lparr>headHpi = 7, head_uses = 2, hpis = [(5, 1), (8, 1)], loaded = True\<rparr> :: nat hpi_pool)
     = (hpi_uses (\<lparr>headHpi = 7, head_uses = 2, hpis = [(5, 1)], loaded = True\<rparr> :: nat hpi_pool))(Copy 1 := 1)"
  using acquire_exclusive [of counting_lib "\<lparr>headHpi = 7, head_uses = 2, hpis = [(5, 1)], loaded = True\<rparr>" "Copy 1" 8
      "\<lparr>headHpi = 7, head_uses = 2, hpis = [(5, 1), (8, 1)], loaded = True\<rparr>"]
  by (simp add: acquire_def acquire_loaded_def copyHostParsedInference_def counting_lib_def)

section \<open>The arguments of an inference\<close>

definition argument_fits :: "'k dev_ctx \<Rightarrow> buffer_object list \<Rightarrow> u64 \<Rightarrow> device_buffer \<Rightarrow> device_buffer \<Rightarrow> bool" where
  "argument_fits c bos p expected given \<longleftrightarrow>
     (\<exists>bo \<in> set bos. findBufferObject c p = Some bo
        \<and> unat p + unat (buf_size expected) \<le> unat (basePtr bo) + unat (allocSize bo)
        \<and> given = \<lparr>cpu_addr = p, vpu_addr = vpuAddr bo + (p - basePtr bo), buf_size = 0\<rparr>)"

lemma argument_in_bounds:
  assumes "ctx_ok mapped c" "findBufferObject c p = Some bo" "\<not> allocSize bo - (p - basePtr bo) < n"
  shows "unat p + unat n \<le> unat (basePtr bo) + unat (allocSize bo)" "getVPUAddr bo p = vpuAddr bo + (p - basePtr bo)"
proof -
  note f = findBufferObject_Some [OF assms(1,2)]
  have ok: "bo_ok bo" using ctx_ok_tracked_ok [OF assms(1)] f(1) by (auto simp: tracked_ok_def)
  have r: "unat (basePtr bo) \<le> unat p" "unat p < unat (basePtr bo) + unat (allocSize bo)"
    using f(2) unfolding isInRange_iff [OF ok] by auto
  have o: "unat (p - basePtr bo) = unat p - unat (basePtr bo)" using r(1) by (simp add: unat_sub word_le_nat_alt)
  then have "unat (allocSize bo - (p - basePtr bo)) = unat (allocSize bo) - (unat p - unat (basePtr bo))"
    using r by (simp add: unat_sub word_le_nat_alt)
  then show "unat p + unat n \<le> unat (basePtr bo) + unat (allocSize bo)"
    using assms(3) r by (simp add: word_less_nat_alt)
  show "getVPUAddr bo p = vpuAddr bo + (p - basePtr bo)" using f(2) by (simp add: getVPUAddr_def Let_def)
qed

lemma argument_fits_mono: "argument_fits c bos p e g \<Longrightarrow> set bos \<subseteq> set bos' \<Longrightarrow> argument_fits c bos' p e g"
  by (auto simp: argument_fits_def)

lemma getDeviceBuffers_fits:
  assumes "ctx_ok mapped c" "getDeviceBuffers c ps bs acc = Some (out, bos)"
  shows "length ps = length bs \<and> length out = length ps \<and> set acc \<subseteq> set bos
     \<and> (\<forall>i < length ps. argument_fits c bos (ps ! i) (bs ! i) (out ! i))"
  using assms
proof (induction c ps bs acc arbitrary: out rule: getDeviceBuffers.induct)
  case (2 c p ps b bs acc)
  obtain bo where bo: "findBufferObject c p = Some bo" "\<not> allocSize bo - (p - basePtr bo) < buf_size b"
    using 2(3) by (auto simp: Let_def split: option.splits if_splits)
  obtain out' where r: "getDeviceBuffers c ps bs (acc @ [bo]) = Some (out', bos)"
    "out = \<lparr>cpu_addr = p, vpu_addr = getVPUAddr bo p, buf_size = 0\<rparr> # out'"
    using 2(3) bo by (auto simp: Let_def split: option.splits if_splits)
  have ih: "length ps = length bs \<and> length out' = length ps \<and> set (acc @ [bo]) \<subseteq> set bos
     \<and> (\<forall>i < length ps. argument_fits c bos (ps ! i) (bs ! i) (out' ! i))"
    using 2(1) [OF bo(1) refl bo(2) 2(2) r(1)] .
  have h: "argument_fits c bos p b \<lparr>cpu_addr = p, vpu_addr = getVPUAddr bo p, buf_size = 0\<rparr>"
    unfolding argument_fits_def using argument_in_bounds [OF 2(2) bo] ih bo(1) by auto
  show ?case using ih h unfolding r(2) by (auto simp: less_Suc_eq_0_disj)
qed auto

text \<open>C17: every pointer that a command hands to the loader lies, with the whole size that the inference expects
  there, inside of a buffer that the context tracks, its device address is the one that the buffer gives to
  the pointer, and the command keeps a reference to that buffer.
\<close>

theorem apply_in_bounds:
  assumes "ctx_ok mapped c" "elf_applyInputOutputs lib c query h ins outs si so = Some (bos, h')"
  shows "\<exists>ibs obs prof. applyInputOutput lib h (with_strides si ibs) (with_strides so obs) prof = Some h'
     \<and> length ibs = length ins \<and> length obs = length outs
     \<and> (\<forall>i < length ins. argument_fits c bos (ins ! i) (getInputBuffers lib h ! i) (ibs ! i))
     \<and> (\<forall>i < length outs. argument_fits c bos (outs ! i) (getOutputBuffers lib h ! i) (obs ! i))"
proof -
  obtain ibs b1 obs b2 prof where g: "getDeviceBuffers c ins (getInputBuffers lib h) [] = Some (ibs, b1)"
    "getDeviceBuffers c outs (getOutputBuffers lib h) b1 = Some (obs, b2)"
    "applyInputOutput lib h (with_strides si ibs) (with_strides so obs) prof = Some h'" "set b2 \<subseteq> set bos"
    using assms(2) by (fastforce simp: elf_applyInputOutputs_def split: option.splits if_splits)
  note i = getDeviceBuffers_fits [OF assms(1) g(1)] and o = getDeviceBuffers_fits [OF assms(1) g(2)]
  have "set b1 \<subseteq> set bos" using o g(4) by blast
  then have "\<forall>i < length ins. argument_fits c bos (ins ! i) (getInputBuffers lib h ! i) (ibs ! i)"
    using i argument_fits_mono by blast
  moreover have "\<forall>i < length outs. argument_fits c bos (outs ! i) (getOutputBuffers lib h ! i) (obs ! i)"
    using o g(4) argument_fits_mono by blast
  ultimately show ?thesis using g(3) i o by blast
qed

section \<open>What parsing returns\<close>

definition properties_fit :: "ze_limits \<Rightarrow> graph_argument \<Rightarrow> bool" where
  "properties_fit lim a \<longleftrightarrow>
     length (arg_name (properties a)) \<le> name_size lim \<and> length (debug_name (properties a)) \<le> name_size lim
     \<and> length (arg_dims (properties a)) = max_dims lim \<and> length (associated_names (properties a)) \<le> max_names lim
     \<and> (\<forall>n \<in> set (associated_names (properties a)). length n \<le> name_size lim)"

definition metadata_fits :: "ze_limits \<Rightarrow> argument_metadata \<Rightarrow> bool" where
  "metadata_fits lim a \<longleftrightarrow>
     length (md_name a) \<le> name_size lim \<and> length (md_shape a) \<le> max_ref_dims lim
     \<and> length (md_tensor_names a) \<le> max_names lim \<and> (\<forall>n \<in> set (md_tensor_names a). length n \<le> name_size lim)
     \<and> length (md_input_name a) \<le> name_size lim"

lemma copy_name_fits: "name_size lim > 0 \<Longrightarrow> length (copy_name lim s) \<le> name_size lim"
  by (simp add: copy_name_def)

lemma one_argument_fits:
  assumes "one_argument lim ty dev net nodes i = Some a"
  shows "arg_type (properties a) = ty" "name_size lim > 0 \<Longrightarrow> properties_fit lim a"
  using assms copy_name_fits [of lim]
  by (auto simp: one_argument_def fillDeviceProperties_def fillNetworkProperties_def fillOVNodeProperties_def
      properties_fit_def empty_properties_def Let_def split: option.splits)

lemma all_some_map: "all_some xs = Some ys \<longleftrightarrow> xs = map Some ys"
proof
  assume a: "all_some xs = Some ys"
  then have n: "None \<notin> set xs" and y: "ys = map the xs" by (auto simp: all_some_def split: if_splits)
  have "Some (the x) = x" if m: "x \<in> set xs" for x
  proof -
    have "x \<noteq> None" using m n by metis
    then show ?thesis by simp
  qed
  then show "xs = map Some ys" by (simp add: y map_idI)
qed (auto simp: all_some_def comp_def)

lemma metadata_of_node_fits:
  assumes "metadata_of_node lim tab node ty = Some a" "name_size lim > 0"
  shows "metadata_fits lim a"
  using assms copy_name_fits [OF assms(2)] by (auto simp: metadata_of_node_def metadata_fits_def split: if_splits)

lemma metadata_list_fits:
  assumes "metadata_list lim tab ty nodes n = Some as" "name_size lim > 0"
  shows "length as = n \<and> (\<forall>a \<in> set as. metadata_fits lim a)"
  using assms
proof (induction lim tab ty nodes n arbitrary: as rule: metadata_list.induct)
  case (3 lim tab ty node nodes n)
  then show ?case by (auto split: option.splits intro: metadata_of_node_fits)
qed (auto simp: metadata_fits_def blank_metadata_def)

text \<open>The inputs come first, then the outputs, one for each tensor of the device.\<close>

lemma elf_parse_properties:
  assumes "elf_parse lim tab md prof = Some (Inr (Inr (props, args, sz)))"
  obtains ps qs where "props = ps @ qs" "length ps = length (mInTensorDescriptors md)" "length qs = length (mOutTensorDescriptors md)"
    "\<forall>a \<in> set ps. arg_type (properties a) = ARGUMENT_INPUT" "\<forall>a \<in> set qs. arg_type (properties a) = ARGUMENT_OUTPUT"
    "name_size lim > 0 \<Longrightarrow> \<forall>a \<in> set props. properties_fit lim a"
proof -
  let ?in = "one_argument lim ARGUMENT_INPUT (mInTensorDescriptors md) (mNetInputs md) (mOVParameters md)"
  let ?out = "one_argument lim ARGUMENT_OUTPUT (mOutTensorDescriptors md) (mNetOutputs md) (mOVResults md)"
  have "getArgumentProperties lim md = Some props"
    using assms by (auto simp: elf_parse_def split: option.splits sum.splits)
  then obtain ps qs where s: "props = ps @ qs" "map ?in [0..<length (mInTensorDescriptors md)] = map Some ps"
    "map ?out [0..<length (mOutTensorDescriptors md)] = map Some qs"
    unfolding getArgumentProperties_def all_some_map by (auto simp: append_eq_map_conv)
  have mem: "\<exists>i. f i = Some x" if "map f is = map Some xs" "x \<in> set xs" for f :: "nat \<Rightarrow> graph_argument option" and "is" xs x
    using that by (metis (no_types, lifting) imageE image_eqI list.set_map)
  have l: "length ps = length (mInTensorDescriptors md)" "length qs = length (mOutTensorDescriptors md)"
    using arg_cong [OF s(2), of length] arg_cong [OF s(3), of length] by simp_all
  show thesis
  proof (rule that [OF s(1) l])
    show "\<forall>a \<in> set ps. arg_type (properties a) = ARGUMENT_INPUT" using mem [OF s(2)] one_argument_fits(1) by blast
    show "\<forall>a \<in> set qs. arg_type (properties a) = ARGUMENT_OUTPUT" using mem [OF s(3)] one_argument_fits(1) by blast
    show "\<forall>a \<in> set props. properties_fit lim a" if "name_size lim > 0"
      using mem [OF s(2)] mem [OF s(3)] one_argument_fits(2) [OF _ that] unfolding s(1) by fastforce
  qed
qed

text \<open>C33: whatever the metadata of a blob says, the arrays of the interface are not overrun: the names are cut
  to their arrays, the tensor names to their table, shapes and names of the metadata that are too long
  are refused; the inputs come first, then the outputs, one for each tensor of the device.
\<close>

theorem parse_in_bounds:
  assumes "elf_parse lim tab md prof = Some (Inr (Inr (props, args, sz)))" "name_size lim > 0"
  shows "map (arg_type \<circ> properties) props
       = replicate (length (mInTensorDescriptors md)) ARGUMENT_INPUT @ replicate (length (mOutTensorDescriptors md)) ARGUMENT_OUTPUT
     \<and> length args = length (mNetInputs md) + length (mNetOutputs md)
     \<and> (\<forall>a \<in> set props. properties_fit lim a) \<and> (\<forall>a \<in> set args. metadata_fits lim a)"
proof -
  obtain ps qs where p: "props = ps @ qs" "length ps = length (mInTensorDescriptors md)" "length qs = length (mOutTensorDescriptors md)"
    "\<forall>a \<in> set ps. arg_type (properties a) = ARGUMENT_INPUT" "\<forall>a \<in> set qs. arg_type (properties a) = ARGUMENT_OUTPUT"
    "\<forall>a \<in> set props. properties_fit lim a"
    using elf_parse_properties [OF assms(1)] assms(2) by metis
  have "map (arg_type \<circ> properties) ps = replicate (length ps) ARGUMENT_INPUT"
    "map (arg_type \<circ> properties) qs = replicate (length qs) ARGUMENT_OUTPUT"
    using p by (auto intro!: replicate_eqI)
  moreover have "getArgumentMetadata lim tab md = Some args"
    using assms(1) by (auto simp: elf_parse_def split: option.splits sum.splits)
  then have "length args = length (mNetInputs md) + length (mNetOutputs md) \<and> (\<forall>a \<in> set args. metadata_fits lim a)"
    using metadata_list_fits [OF _ assms(2)] by (fastforce simp: getArgumentMetadata_def split: option.splits)
  ultimately show ?thesis using p by simp
qed

section \<open>Examples\<close>

definition demo_tensor :: tensor_ref where
  "demo_tensor = \<lparr>tensor_name = [105, 110], data_type = DType_FP16, order = 0x12, dimensions = [2, 3],
     tensor_strides = [], dynamic_strides = True\<rparr>"

definition demo_node :: ov_node where
  "demo_node = \<lparr>node_type = 1, friendly_name = [97, 98, 99], input_name = [], shape = [2, 3], tensor_names = [[120]]\<rparr>"

definition demo_metadata :: network_metadata where
  "demo_metadata = \<lparr>mInTensorDescriptors = [demo_tensor], mOutTensorDescriptors = [demo_tensor], mNetInputs = [demo_tensor],
     mNetOutputs = [], mOVParameters = [demo_node], mOVResults = []\<rparr>"

definition demo_limits :: ze_limits where
  "demo_limits = \<lparr>max_dims = 5, name_size = 3, max_names = 2, max_ref_dims = 8\<rparr>"

lemma demo_parse:
  "\<exists>props args. elf_parse demo_limits (\<lambda>_. None) demo_metadata [64] = Some (Inr (Inr (props, args, 64)))
     \<and> length props = 2 \<and> supportsDynamicStrides (props ! 0)"
proof -
  have d: "supportsDynamicStrides (fillOVNodeProperties lim nd a) = supportsDynamicStrides a"
    "supportsDynamicStrides (fillDeviceProperties lim t a) = dynamic_strides t" for lim nd a t
    by (simp_all add: fillOVNodeProperties_def fillDeviceProperties_def)
  show ?thesis
    by (simp add: elf_parse_def getArgumentProperties_def getArgumentMetadata_def demo_metadata_def one_argument_def nth_opt_def
      d fillNetworkProperties_def getNetworkLayout_def demo_tensor_def all_some_def metadata_of_node_def demo_node_def demo_limits_def
      getProfilingSize_def safe_cast_u32_def Let_def d split: option.split)
qed

theorem parse_in_bounds_witness:
  "\<exists>props args. elf_parse demo_limits (\<lambda>_. None) demo_metadata [64] = Some (Inr (Inr (props, args, 64)))
     \<and> map (arg_type \<circ> properties) props = [ARGUMENT_INPUT, ARGUMENT_OUTPUT] \<and> length args = 1"
proof -
  obtain props args where p: "elf_parse demo_limits (\<lambda>_. None) demo_metadata [64] = Some (Inr (Inr (props, args, 64)))"
    using demo_parse by blast
  show ?thesis using parse_in_bounds [OF p] p by (simp add: demo_limits_def demo_metadata_def)
qed

definition demo_argument_lib :: "nat hpi_lib" where
  "demo_argument_lib = counting_lib\<lparr>getInputBuffers := \<lambda>h. [\<lparr>cpu_addr = 0, vpu_addr = 0, buf_size = 16\<rparr>]\<rparr>"

theorem apply_in_bounds_witness:
  "\<exists>ibs. length ibs = 1 \<and> argument_fits demo_ctx1 [demo_bo] 0x10010 \<lparr>cpu_addr = 0, vpu_addr = 0, buf_size = 16\<rparr> (ibs ! 0)"
proof -
  have "findBufferObject demo_ctx1 0x10010 = Some demo_bo"
    by (simp add: findBufferObject_def demo_ctx1_fields isInRange_def demo_bo_def)
  then have "elf_applyInputOutputs demo_argument_lib demo_ctx1 None 3 [0x10010] [] Map.empty Map.empty = Some ([demo_bo], 3)"
    by (simp add: elf_applyInputOutputs_def demo_argument_lib_def counting_lib_def demo_bo_def)
  moreover have "ctx_ok null_mapped demo_ctx1"
    using ctx_ok_reachable [OF demo_contract] demo_reachable unfolding demo_ctx_def by blast
  ultimately show ?thesis using apply_in_bounds [of null_mapped demo_ctx1 demo_argument_lib None 3 "[0x10010]" "[]"]
    by (fastforce simp: demo_argument_lib_def)
qed

end
