(* ===== verification/Compiler.thy ===== *)
theory Compiler
  imports L0_Base Disk_Cache
begin

text \<open>
  The calls of the compiler library (\<open>umd/level_zero_driver/source/ext/compiler.cpp\<close>,
  \<open>query_network.cpp\<close>). The library is loaded at run time and is third-party code: a record of the
  functions that are called, over its own handles. The state of the driver is what it has read from the
  library, and how many handles of each kind it has created and not destroyed.
\<close>

section \<open>The library\<close>

datatype vcl_result =
    VCL_RESULT_SUCCESS | VCL_RESULT_ERROR_OUT_OF_MEMORY | VCL_RESULT_ERROR_UNSUPPORTED_FEATURE
  | VCL_RESULT_ERROR_INVALID_ARGUMENT | VCL_RESULT_ERROR_INVALID_NULL_HANDLE | VCL_RESULT_ERROR_IO
  | VCL_RESULT_ERROR_INVALID_IR | VCL_RESULT_ERROR_UNKNOWN | VCL_RESULT_other

definition VCL_COMPILER_VERSION :: "u16 \<times> u16" where "VCL_COMPILER_VERSION = (7, 6)"
definition VCL_PROFILING_VERSION :: "u16 \<times> u16" where "VCL_PROFILING_VERSION = (2, 0)"

datatype vcl_log_level = VCL_LOG_NONE | VCL_LOG_ERROR | VCL_LOG_WARNING | VCL_LOG_INFO | VCL_LOG_DEBUG | VCL_LOG_TRACE

record compiler_properties =
  cp_id :: string
  cp_version :: "u16 \<times> u16"
  cp_supportedOpsets :: u32

record compiler_desc =
  cd_version :: "u16 \<times> u16"
  cd_debugLevel :: vcl_log_level

record device_desc =
  dd_deviceID :: u32
  dd_revision :: u16
  dd_tileCount :: u32

datatype profiling_request = VCL_PROFILING_LAYER_LEVEL | VCL_PROFILING_TASK_LEVEL

text \<open>A log: the result of asking for its size, and of asking for its text.\<close>

type_synonym vcl_log = "(vcl_result \<times> nat) \<times> (vcl_result \<times> string)"

text \<open>
  The two \<open>has\<close> fields tell whether an optional symbol was found; \<open>to_string_ze\<close> is the decimal value of
  a result, whose values are those of the Level Zero headers.
\<close>

record ('c, 'p, 'q) vcl =
  vcl_ok :: bool
  vclGetVersion :: "vcl_result \<times> (u16 \<times> u16) \<times> (u16 \<times> u16)"
  vclCompilerCreate :: "compiler_desc \<Rightarrow> device_desc \<Rightarrow> vcl_result \<times> 'c \<times> vcl_log option"
  vclCompilerDestroy :: "'c \<Rightarrow> vcl_result"
  vclCompilerGetProperties :: "'c \<Rightarrow> vcl_result \<times> compiler_properties"
  vclAllocatedExecutableCreate2 :: "'c \<Rightarrow> bytes \<Rightarrow> string \<Rightarrow> vcl_result \<times> u64 \<times> bytes \<times> vcl_log option"
  vclProfilingCreate :: "bytes \<Rightarrow> bytes \<Rightarrow> vcl_result \<times> 'p \<times> vcl_log option"
  vclGetDecodedProfilingBuffer :: "'p \<Rightarrow> profiling_request \<Rightarrow> vcl_result \<times> bytes \<times> vcl_log option"
  vclQueryNetworkCreate :: "'c \<Rightarrow> bytes \<Rightarrow> string \<Rightarrow> vcl_result \<times> 'q"
  vclQueryNetwork :: "'q \<Rightarrow> bytes option \<Rightarrow> u64 \<Rightarrow> vcl_result \<times> bytes option \<times> u64"
  vclQueryNetworkDestroy :: "'q \<Rightarrow> vcl_result"
  has_supported_options :: bool
  vclGetCompilerSupportedOptions :: "'c \<Rightarrow> bytes option \<Rightarrow> u64 \<Rightarrow> vcl_result \<times> bytes option \<times> u64"
  has_is_option_supported :: bool
  vclGetCompilerIsOptionSupported :: "'c \<Rightarrow> string \<Rightarrow> string option \<Rightarrow> vcl_result"
  to_string_ze :: "ze_result \<Rightarrow> string"
  to_string_u16 :: "u16 \<Rightarrow> string"

section \<open>The state\<close>

record compiler_state =
  compilerProperties :: compiler_properties
  vclCompilerApiVersion :: "u16 \<times> u16"
  vclProfilingApiVersion :: "u16 \<times> u16"
  cidLogLevel :: vcl_log_level
  open_compilers :: nat
  open_profilings :: nat
  open_queries :: nat

definition setLogLevel :: "string \<Rightarrow> compiler_state \<Rightarrow> compiler_state" where
  "setLogLevel str s = s\<lparr>cidLogLevel :=
     (if str = ''TRACE'' then VCL_LOG_TRACE else if str = ''DEBUG'' then VCL_LOG_DEBUG
      else if str = ''INFO'' then VCL_LOG_INFO else if str = ''WARNING'' then VCL_LOG_WARNING
      else if str = ''ERROR'' then VCL_LOG_ERROR else VCL_LOG_NONE)\<rparr>"

fun vclToL0Err :: "vcl_result \<Rightarrow> ze_result" where
  "vclToL0Err VCL_RESULT_SUCCESS = ZE_RESULT_SUCCESS"
| "vclToL0Err VCL_RESULT_ERROR_OUT_OF_MEMORY = ZE_RESULT_ERROR_OUT_OF_HOST_MEMORY"
| "vclToL0Err VCL_RESULT_ERROR_UNSUPPORTED_FEATURE = ZE_RESULT_ERROR_UNSUPPORTED_FEATURE"
| "vclToL0Err VCL_RESULT_ERROR_INVALID_ARGUMENT = ZE_RESULT_ERROR_INVALID_ARGUMENT"
| "vclToL0Err VCL_RESULT_ERROR_INVALID_NULL_HANDLE = ZE_RESULT_ERROR_INVALID_NULL_HANDLE"
| "vclToL0Err VCL_RESULT_ERROR_IO = ZE_RESULT_ERROR_MODULE_BUILD_FAILURE"
| "vclToL0Err VCL_RESULT_ERROR_INVALID_IR = ZE_RESULT_ERROR_UNSUPPORTED_FEATURE"
| "vclToL0Err _ = ZE_RESULT_ERROR_UNKNOWN"

definition isVclCompilerApiCompatible :: "compiler_state \<Rightarrow> bool" where
  "isVclCompilerApiCompatible s \<longleftrightarrow> fst (vclCompilerApiVersion s) = fst (VCL_COMPILER_VERSION)"

definition isVclProfilingApiCompatible :: "compiler_state \<Rightarrow> bool" where
  "isVclProfilingApiCompatible s \<longleftrightarrow> fst (vclProfilingApiVersion s) = fst (VCL_PROFILING_VERSION)"

section \<open>Compilers\<close>

definition device_desc_of :: "hw_info \<Rightarrow> device_desc" where
  "device_desc_of hw = \<lparr>dd_deviceID = deviceId hw, dd_revision = deviceRevision hw,
     dd_tileCount = of_nat (length (filter (bit (tileConfig hw)) [0..<32]))\<rparr>"

definition compilerCreate ::
  "('c, 'p, 'q) vcl \<Rightarrow> hw_info \<Rightarrow> compiler_state \<Rightarrow> (ze_result \<times> 'c option \<times> vcl_log option) \<times> compiler_state" where
  "compilerCreate v hw s =
     (if \<not> isVclCompilerApiCompatible s then ((ZE_RESULT_ERROR_UNSUPPORTED_VERSION, None, None), s)
      else (case vclCompilerCreate v \<lparr>cd_version = VCL_COMPILER_VERSION, cd_debugLevel = cidLogLevel s\<rparr> (device_desc_of hw) of
              (r, h, lg) \<Rightarrow>
                (if r = VCL_RESULT_SUCCESS
                 then ((ZE_RESULT_SUCCESS, Some h, lg), s\<lparr>open_compilers := open_compilers s + 1\<rparr>)
                 else ((vclToL0Err r, None, lg), s))))"

text \<open>\<open>Vcl::sym().compilerDestroy\<close>, and the function around it.\<close>

definition close_compiler :: "compiler_state \<Rightarrow> compiler_state" where
  "close_compiler s = s\<lparr>open_compilers := open_compilers s - 1\<rparr>"

definition compilerDestroy :: "('c, 'p, 'q) vcl \<Rightarrow> 'c \<Rightarrow> compiler_state \<Rightarrow> ze_result \<times> compiler_state" where
  "compilerDestroy v h s =
     (if \<not> vcl_ok v then (ZE_RESULT_ERROR_UNSUPPORTED_FEATURE, s)
      else (vclToL0Err (vclCompilerDestroy v h), close_compiler s))"

definition compilerInit :: "('c, 'p, 'q) vcl \<Rightarrow> hw_info \<Rightarrow> compiler_state \<Rightarrow> ze_result \<times> compiler_state" where
  "compilerInit v hw s =
     (if \<not> vcl_ok v then (ZE_RESULT_ERROR_UNSUPPORTED_FEATURE, s)
      else (case vclGetVersion v of (r, cv, pv) \<Rightarrow>
        let s1 = s\<lparr>vclCompilerApiVersion := cv, vclProfilingApiVersion := pv\<rparr> in
        if vclToL0Err r \<noteq> ZE_RESULT_SUCCESS then (vclToL0Err r, s1)
        else (case compilerCreate v hw s1 of
                ((r1, None, _), s2) \<Rightarrow> (r1, s2)
              | ((r1, Some h, _), s2) \<Rightarrow>
                  (case vclCompilerGetProperties v h of (r2, props) \<Rightarrow>
                     (vclToL0Err r2, close_compiler (s2\<lparr>compilerProperties := props\<rparr>))))))"

definition appendCompilerLog :: "('c, 'p, 'q) vcl \<Rightarrow> vcl_log option \<Rightarrow> string \<Rightarrow> string" where
  "appendCompilerLog v lg buffer =
     (if \<not> vcl_ok v then buffer
      else (case lg of None \<Rightarrow> buffer
            | Some ((r1, n), (r2, txt)) \<Rightarrow>
                if r1 \<noteq> VCL_RESULT_SUCCESS then buffer
                else if n = 0 then buffer
                else if r2 \<noteq> VCL_RESULT_SUCCESS
                then buffer @ ''[NPU_DRV] Failed to get content of log from compiler'' @ [CHR 0x0A]
                else let full = buffer @ take n (txt @ replicate n (CHR 0x00))
                     in (if full \<noteq> [] \<and> last full = CHR 0x00 then butlast full else full) @ [CHR 0x0A]))"

definition failure_line :: "('c, 'p, 'q) vcl \<Rightarrow> string \<Rightarrow> ze_result \<Rightarrow> string" where
  "failure_line v name r =
     ''[NPU_DRV] Driver reports a failure from '' @ name @ '', return code: '' @ to_string_ze v r @ [CHR 0x0A]"

definition version_line :: "('c, 'p, 'q) vcl \<Rightarrow> compiler_state \<Rightarrow> string" where
  "version_line v s =
     ''[NPU_DRV] Driver reports VCL Compiler API version mismatch. Expected version: ''
     @ to_string_u16 v (fst (VCL_COMPILER_VERSION)) @ ''.'' @ to_string_u16 v (snd (VCL_COMPILER_VERSION))
     @ '', current version: '' @ to_string_u16 v (fst (vclCompilerApiVersion s)) @ ''.''
     @ to_string_u16 v (snd (vclCompilerApiVersion s)) @ [CHR 0x0A]"

definition getCompilerExecutableAllocation ::
  "('c, 'p, 'q) vcl \<Rightarrow> 'c \<Rightarrow> bytes \<Rightarrow> string \<Rightarrow> string
     \<Rightarrow> (ze_result \<times> blob_container option) \<times> string \<times> vcl_log option" where
  "getCompilerExecutableAllocation v h input flags log =
     (if \<not> vcl_ok v then ((ZE_RESULT_ERROR_UNSUPPORTED_FEATURE, None), log, None)
      else (case vclAllocatedExecutableCreate2 v h input flags of (r, p, bs, lg) \<Rightarrow>
        let ret = vclToL0Err r in
        if ret \<noteq> ZE_RESULT_SUCCESS
        then ((ret, None), log @ failure_line v ''vclAllocatedExecutableCreate2'' ret, lg)
        else ((ret, Some \<lparr>blob_ptr = p, blob_data = bs, backingStore = Buffer_store, npu_buffer = None\<rparr>), log, lg)))"

definition getCompiledBlob ::
  "('c, 'p, 'q) vcl \<Rightarrow> hw_info \<Rightarrow> bytes \<Rightarrow> string \<Rightarrow> string \<Rightarrow> compiler_state
     \<Rightarrow> (ze_result \<times> blob_container option) \<times> string \<times> compiler_state" where
  "getCompiledBlob v hw input flags log s =
     (if \<not> vcl_ok v then ((ZE_RESULT_ERROR_UNSUPPORTED_FEATURE, None), log, s)
      else if \<not> isVclCompilerApiCompatible s
      then ((ZE_RESULT_ERROR_UNSUPPORTED_VERSION, None), log @ version_line v s, s)
      else (case compilerCreate v hw s of
              ((r, None, lg), s1) \<Rightarrow>
                ((r, None), appendCompilerLog v lg (log @ failure_line v ''vclCompilerCreate'' r), s1)
            | ((r, Some h, _), s1) \<Rightarrow>
                (case getCompilerExecutableAllocation v h input flags log of (res, log', lg) \<Rightarrow>
                   (res, appendCompilerLog v lg log', close_compiler s1))))"

text \<open>\<open>there\<close>: the output pointer is not null.\<close>

definition getCompilerProperties :: "('c, 'p, 'q) vcl \<Rightarrow> bool \<Rightarrow> compiler_state \<Rightarrow> ze_result \<times> compiler_properties option" where
  "getCompilerProperties v there s =
     (if \<not> vcl_ok v then (ZE_RESULT_ERROR_UNSUPPORTED_FEATURE, None)
      else if \<not> there then (ZE_RESULT_ERROR_INVALID_NULL_POINTER, None)
      else (ZE_RESULT_SUCCESS, Some (compilerProperties s)))"

definition getCompilerVersionString :: "('c, 'p, 'q) vcl \<Rightarrow> compiler_state \<Rightarrow> string" where
  "getCompilerVersionString v s =
     (let p = compilerProperties s in
      if fst (cp_version p) = 0 then ''not available''
      else to_string_u16 v (fst (cp_version p)) @ ''.'' @ to_string_u16 v (snd (cp_version p)) @ ''('' @ cp_id p @ '')'')"

section \<open>Profiling\<close>

text \<open>
  The result, the size and the bytes written to the output, when there is one. \<open>safe_cast\<close> throws before
  the handle is destroyed.
\<close>

definition getDecodedProfilingBuffer ::
  "('c, 'p, 'q) vcl \<Rightarrow> profiling_request \<Rightarrow> bytes \<Rightarrow> bytes \<Rightarrow> u32 \<Rightarrow> bool \<Rightarrow> string \<Rightarrow> compiler_state
     \<Rightarrow> (exn + ze_result \<times> u32 \<times> bytes option) \<times> string \<times> compiler_state" where
  "getDecodedProfilingBuffer v ty blob prof n wanted log s =
     (if \<not> vcl_ok v then (Inr (ZE_RESULT_ERROR_UNSUPPORTED_FEATURE, n, None), log, s)
      else if \<not> isVclProfilingApiCompatible s then (Inr (ZE_RESULT_ERROR_UNSUPPORTED_VERSION, n, None), log, s)
      else (case vclProfilingCreate v blob prof of (r, h, lg) \<Rightarrow>
        if vclToL0Err r \<noteq> ZE_RESULT_SUCCESS
        then (Inr (vclToL0Err r, n, None),
              appendCompilerLog v lg (log @ failure_line v ''vclProfilingCreate'' (vclToL0Err r)), s)
        else let s1 = s\<lparr>open_profilings := open_profilings s + 1\<rparr>
             in case vclGetDecodedProfilingBuffer v h ty of (r2, bs, lg2) \<Rightarrow>
               if vclToL0Err r2 \<noteq> ZE_RESULT_SUCCESS
               then (Inr (vclToL0Err r2, n, None),
                     appendCompilerLog v lg2 (log @ failure_line v ''vclGetDecodedProfilingBuffer'' (vclToL0Err r2)),
                     s1\<lparr>open_profilings := open_profilings s1 - 1\<rparr>)
               else (case (if n = 0 \<or> ucast n > (of_nat (length bs) :: u64) then safe_cast_u32 (of_nat (length bs)) else Inr n) of
                       Inl e \<Rightarrow> (Inl e, log, s1)
                     | Inr n' \<Rightarrow>
                         (Inr (ZE_RESULT_SUCCESS, n', if wanted then Some (take (unat n') bs) else None), log,
                          s1\<lparr>open_profilings := open_profilings s1 - 1\<rparr>))))"

section \<open>Options\<close>

definition with_compiler ::
  "('c, 'p, 'q) vcl \<Rightarrow> bool \<Rightarrow> hw_info option \<Rightarrow> 'a \<Rightarrow> ('c \<Rightarrow> vcl_result \<times> 'a) \<Rightarrow> compiler_state
     \<Rightarrow> (ze_result \<times> 'a) \<times> compiler_state" where
  "with_compiler v found dev unchanged call s =
     (if \<not> vcl_ok v then ((ZE_RESULT_ERROR_UNSUPPORTED_FEATURE, unchanged), s)
      else if \<not> found then ((ZE_RESULT_ERROR_DEPENDENCY_UNAVAILABLE, unchanged), s)
      else (case dev of
              None \<Rightarrow> ((ZE_RESULT_ERROR_UNKNOWN, unchanged), s)
            | Some hw \<Rightarrow>
                (case compilerCreate v hw s of
                   ((r, None, _), s1) \<Rightarrow> ((r, unchanged), s1)
                 | ((r, Some h, _), s1) \<Rightarrow>
                     (case call h of (r2, x) \<Rightarrow> ((vclToL0Err r2, x), close_compiler s1)))))"

definition getSupportedOptions ::
  "('c, 'p, 'q) vcl \<Rightarrow> hw_info option \<Rightarrow> u64 \<Rightarrow> bytes option \<Rightarrow> compiler_state
     \<Rightarrow> (ze_result \<times> bytes option \<times> u64) \<times> compiler_state" where
  "getSupportedOptions v dev n buf s =
     with_compiler v (has_supported_options v) dev (buf, n) (\<lambda>h. vclGetCompilerSupportedOptions v h buf n) s"

definition isOptionSupported ::
  "('c, 'p, 'q) vcl \<Rightarrow> hw_info option \<Rightarrow> string \<Rightarrow> string option \<Rightarrow> compiler_state \<Rightarrow> ze_result \<times> compiler_state" where
  "isOptionSupported v dev opt val s =
     (case with_compiler v (has_is_option_supported v) dev ()
             (\<lambda>h. (vclGetCompilerIsOptionSupported v h opt val, ())) s of
        ((r, _), s') \<Rightarrow> (r, s'))"

section \<open>Queries of the supported layers\<close>

definition queryNetworkCreate ::
  "('c, 'p, 'q) vcl \<Rightarrow> 'c \<Rightarrow> bytes \<Rightarrow> string \<Rightarrow> compiler_state \<Rightarrow> (ze_result \<times> 'q) \<times> compiler_state" where
  "queryNetworkCreate v h input flags s =
     (case vclQueryNetworkCreate v h input flags of (r, q) \<Rightarrow>
        ((vclToL0Err r, q), if r = VCL_RESULT_SUCCESS then s\<lparr>open_queries := open_queries s + 1\<rparr> else s))"

definition queryNetworkDestroy :: "('c, 'p, 'q) vcl \<Rightarrow> 'q \<Rightarrow> compiler_state \<Rightarrow> ze_result \<times> compiler_state" where
  "queryNetworkDestroy v q s =
     (if \<not> vcl_ok v then (ZE_RESULT_ERROR_UNSUPPORTED_FEATURE, s)
      else (vclToL0Err (vclQueryNetworkDestroy v q), s\<lparr>open_queries := open_queries s - 1\<rparr>))"

text \<open>
  \<open>QueryNetwork::create\<close>: \<open>native_format\<close> is whether the format is not the one of the compiler. The
  result carries the compiler and the query that the object keeps.
\<close>

definition QueryNetwork_create ::
  "('c, 'p, 'q) vcl \<Rightarrow> hw_info option \<Rightarrow> bool \<Rightarrow> bytes \<Rightarrow> string \<Rightarrow> compiler_state
     \<Rightarrow> (ze_result \<times> ('c \<times> 'q) option) \<times> compiler_state" where
  "QueryNetwork_create v ctx native_format input flags s =
     (if native_format then ((ZE_RESULT_ERROR_UNSUPPORTED_ENUMERATION, None), s)
      else if \<not> isVclCompilerApiCompatible s then ((ZE_RESULT_ERROR_UNSUPPORTED_VERSION, None), s)
      else (case ctx of
              None \<Rightarrow> ((ZE_RESULT_ERROR_UNINITIALIZED, None), s)
            | Some hw \<Rightarrow>
                (case compilerCreate v hw s of
                   ((r, None, _), s1) \<Rightarrow> ((r, None), s1)
                 | ((_, Some h, _), s1) \<Rightarrow>
                     if \<not> vcl_ok v then ((ZE_RESULT_ERROR_UNSUPPORTED_FEATURE, None), s1)
                     else (case queryNetworkCreate v h input flags s1 of
                             ((r, q), s2) \<Rightarrow>
                               if r \<noteq> ZE_RESULT_SUCCESS then ((r, None), s2) else ((r, Some (h, q)), s2)))))"

definition QueryNetwork_destroy :: "('c, 'p, 'q) vcl \<Rightarrow> 'c \<times> 'q \<Rightarrow> compiler_state \<Rightarrow> ze_result \<times> compiler_state" where
  "QueryNetwork_destroy v obj s =
     (ZE_RESULT_SUCCESS, snd (compilerDestroy v (fst obj) (snd (queryNetworkDestroy v (snd obj) s))))"

definition getSupportedLayers ::
  "('c, 'p, 'q) vcl \<Rightarrow> 'c \<times> 'q \<Rightarrow> u64 \<Rightarrow> bytes option \<Rightarrow> ze_result \<times> bytes option \<times> u64" where
  "getSupportedLayers v obj n buf =
     (if \<not> vcl_ok v then (ZE_RESULT_ERROR_UNSUPPORTED_FEATURE, buf, n)
      else (case vclQueryNetwork v (snd obj) buf n of (r, x) \<Rightarrow> (vclToL0Err r, x)))"

section \<open>Handles\<close>

definition open_handles :: "compiler_state \<Rightarrow> nat \<times> nat \<times> nat" where
  "open_handles s = (open_compilers s, open_profilings s, open_queries s)"

lemma vclToL0Err_success: "vclToL0Err r = ZE_RESULT_SUCCESS \<longleftrightarrow> r = VCL_RESULT_SUCCESS"
  by (cases r) auto

lemma compilerCreate_cases:
  obtains (failed) r lg where "compilerCreate v hw s = ((r, None, lg), s)" "r \<noteq> ZE_RESULT_SUCCESS"
  | (created) h lg where "compilerCreate v hw s = ((ZE_RESULT_SUCCESS, Some h, lg), s\<lparr>open_compilers := open_compilers s + 1\<rparr>)"
proof -
  obtain r h lg where c: "vclCompilerCreate v \<lparr>cd_version = VCL_COMPILER_VERSION, cd_debugLevel = cidLogLevel s\<rparr> (device_desc_of hw) = (r, h, lg)"
    by (metis prod_cases3)
  show thesis
  proof (cases "isVclCompilerApiCompatible s \<and> r = VCL_RESULT_SUCCESS")
    case True
    then show thesis using created [of h lg] c by (simp add: compilerCreate_def)
  next
    case False
    then show thesis
      using failed [of ZE_RESULT_ERROR_UNSUPPORTED_VERSION None] failed [of "vclToL0Err r" lg] c vclToL0Err_success [of r]
      by (cases "isVclCompilerApiCompatible s") (simp_all add: compilerCreate_def)
  qed
qed

lemma with_compiler_handles: "open_handles (snd (with_compiler v found dev u call s)) = open_handles s"
proof (cases dev)
  case (Some hw)
  show ?thesis
    by (cases rule: compilerCreate_cases [of v hw s])
      (auto simp: with_compiler_def Some open_handles_def close_compiler_def split: prod.splits)
qed (simp add: with_compiler_def)

lemma getCompiledBlob_success:
  "fst (fst (getCompiledBlob v hw input flags log s)) = ZE_RESULT_SUCCESS \<longleftrightarrow> snd (fst (getCompiledBlob v hw input flags log s)) \<noteq> None"
  by (cases rule: compilerCreate_cases [of v hw s])
    (auto simp: getCompiledBlob_def getCompilerExecutableAllocation_def Let_def split: prod.splits if_splits)

text \<open>C39: the driver keeps no handle of the compiler library behind: reading its properties, compiling a graph
  and asking for its options leave as many handles open as there were, whatever the library answers, and a
  compiled blob is there exactly when the result is success (so the failure of a graph never carries the
  result \<open>ZE_RESULT_SUCCESS\<close>).
\<close>

theorem compiler_handles_balanced:
  "open_handles (snd (compilerInit v hw s)) = open_handles s
   \<and> open_handles (snd (snd (getCompiledBlob v hw input flags log s))) = open_handles s
   \<and> (fst (fst (getCompiledBlob v hw input flags log s)) = ZE_RESULT_SUCCESS
       \<longleftrightarrow> snd (fst (getCompiledBlob v hw input flags log s)) \<noteq> None)
   \<and> open_handles (snd (getSupportedOptions v dev n buf s)) = open_handles s
   \<and> open_handles (snd (isOptionSupported v dev opt val s)) = open_handles s"
proof (intro conjI)
  obtain r cv pv where g: "vclGetVersion v = (r, cv, pv)" by (metis prod_cases3)
  show "open_handles (snd (compilerInit v hw s)) = open_handles s"
    by (cases rule: compilerCreate_cases [of v hw "s\<lparr>vclCompilerApiVersion := cv, vclProfilingApiVersion := pv\<rparr>"])
      (auto simp: compilerInit_def g open_handles_def close_compiler_def Let_def split: prod.splits)
  show "open_handles (snd (snd (getCompiledBlob v hw input flags log s))) = open_handles s"
    by (cases rule: compilerCreate_cases [of v hw s])
      (auto simp: getCompiledBlob_def open_handles_def close_compiler_def split: prod.splits)
  show "fst (fst (getCompiledBlob v hw input flags log s)) = ZE_RESULT_SUCCESS
       \<longleftrightarrow> snd (fst (getCompiledBlob v hw input flags log s)) \<noteq> None"
    by (rule getCompiledBlob_success)
  show "open_handles (snd (getSupportedOptions v dev n buf s)) = open_handles s"
    by (simp add: getSupportedOptions_def with_compiler_handles)
  show "open_handles (snd (isOptionSupported v dev opt val s)) = open_handles s"
    using with_compiler_handles [of v "has_is_option_supported v" dev "()" "\<lambda>h. (vclGetCompilerIsOptionSupported v h opt val, ())" s]
    by (auto simp: isOptionSupported_def split: prod.splits)
qed

text \<open>A query of the supported layers owns one compiler and one query from success until it is destroyed;
  when the library refuses the query, the compiler that was created for it stays open without an owner.
\<close>

theorem query_owns_compiler:
  assumes "vcl_ok v" "compilerCreate v hw s = ((r0, Some h, lg), s1)"
    and "QueryNetwork_create v (Some hw) False input flags s = ((r, obj), s2)"
  shows "open_compilers s2 = open_compilers s + 1
     \<and> (case obj of
          Some q \<Rightarrow> r = ZE_RESULT_SUCCESS \<and> open_queries s2 = open_queries s + 1
                    \<and> open_handles (snd (QueryNetwork_destroy v q s2)) = open_handles s
        | None \<Rightarrow> r \<noteq> ZE_RESULT_SUCCESS \<and> open_queries s2 = open_queries s)"
proof -
  have s1: "s1 = s\<lparr>open_compilers := open_compilers s + 1\<rparr>"
    by (cases rule: compilerCreate_cases [of v hw s]) (use assms(2) in auto)
  have c: "isVclCompilerApiCompatible s" using assms(2) by (auto simp: compilerCreate_def split: if_splits)
  obtain r1 q where q: "vclQueryNetworkCreate v h input flags = (r1, q)" by fastforce
  show ?thesis
  proof (cases "r1 = VCL_RESULT_SUCCESS")
    case True
    then have "r = ZE_RESULT_SUCCESS" "obj = Some (h, q)" "s2 = s1\<lparr>open_queries := open_queries s1 + 1\<rparr>"
      using assms c by (auto simp: QueryNetwork_create_def queryNetworkCreate_def q)
    then show ?thesis using assms(1) s1
      by (simp add: open_handles_def QueryNetwork_destroy_def queryNetworkDestroy_def compilerDestroy_def close_compiler_def)
  next
    case False
    then have "r = vclToL0Err r1" "obj = None" "s2 = s1" using assms c
      by (auto simp: QueryNetwork_create_def queryNetworkCreate_def q vclToL0Err_success)
    then show ?thesis using False s1 vclToL0Err_success by auto
  qed
qed

text \<open>A library that answers every call with success, except the creation of a query.\<close>

definition refusing_vcl :: "(nat, nat, nat) vcl" where
  "refusing_vcl = \<lparr>vcl_ok = True, vclGetVersion = (VCL_RESULT_SUCCESS, (7, 6), (2, 0)),
     vclCompilerCreate = \<lambda>_ _. (VCL_RESULT_SUCCESS, 1, None), vclCompilerDestroy = \<lambda>_. VCL_RESULT_SUCCESS,
     vclCompilerGetProperties = \<lambda>_. (VCL_RESULT_SUCCESS, \<lparr>cp_id = ''x'', cp_version = (7, 6), cp_supportedOpsets = 11\<rparr>),
     vclAllocatedExecutableCreate2 = \<lambda>_ _ _. (VCL_RESULT_SUCCESS, 4096, [1], None),
     vclProfilingCreate = \<lambda>_ _. (VCL_RESULT_SUCCESS, 1, None),
     vclGetDecodedProfilingBuffer = \<lambda>_ _. (VCL_RESULT_SUCCESS, [1], None),
     vclQueryNetworkCreate = \<lambda>_ _ _. (VCL_RESULT_ERROR_INVALID_IR, 1),
     vclQueryNetwork = \<lambda>_ b n. (VCL_RESULT_SUCCESS, b, n), vclQueryNetworkDestroy = \<lambda>_. VCL_RESULT_SUCCESS,
     has_supported_options = True, vclGetCompilerSupportedOptions = \<lambda>_ b n. (VCL_RESULT_SUCCESS, b, n),
     has_is_option_supported = True, vclGetCompilerIsOptionSupported = \<lambda>_ _ _. VCL_RESULT_SUCCESS,
     to_string_ze = \<lambda>_. ''0'', to_string_u16 = \<lambda>_. ''0''\<rparr>"

definition idle_compiler :: compiler_state where
  "idle_compiler = \<lparr>compilerProperties = \<lparr>cp_id = ''x'', cp_version = (7, 6), cp_supportedOpsets = 11\<rparr>,
     vclCompilerApiVersion = (7, 6), vclProfilingApiVersion = (2, 0), cidLogLevel = VCL_LOG_NONE,
     open_compilers = 0, open_profilings = 0, open_queries = 0\<rparr>"

theorem query_owns_compiler_witness:
  "open_compilers (idle_compiler\<lparr>open_compilers := 1\<rparr>) = open_compilers idle_compiler + 1
   \<and> ZE_RESULT_ERROR_UNSUPPORTED_FEATURE \<noteq> ZE_RESULT_SUCCESS
   \<and> open_queries (idle_compiler\<lparr>open_compilers := 1\<rparr>) = open_queries idle_compiler"
  using query_owns_compiler [of refusing_vcl "getHwInfo50xx 0xB03E" idle_compiler ZE_RESULT_SUCCESS 1 None
      "idle_compiler\<lparr>open_compilers := 1\<rparr>" "[]" "[]" ZE_RESULT_ERROR_UNSUPPORTED_FEATURE None "idle_compiler\<lparr>open_compilers := 1\<rparr>"]
  by (simp add: refusing_vcl_def idle_compiler_def compilerCreate_def QueryNetwork_create_def queryNetworkCreate_def
      isVclCompilerApiCompatible_def VCL_COMPILER_VERSION_def)

end
