(* ===== verification/Graph_Profiling.thy ===== *)
theory Graph_Profiling
  imports Compiler
begin

text \<open>
  Profiling pools of a graph (\<open>umd/level_zero_driver/source/ext/profiling_data.cpp\<close>): one buffer object
  with a slot for each query. Queries and pools are owned by their pool and their graph; a handle is the
  place of the query. The message of the last error of the thread is a parameter and a result.
\<close>

section \<open>State\<close>

record profiling_query =
  pq_size :: u32
  pq_data :: u64
  pq_blob :: bytes
  pq_bo :: buffer_object

record profiling_pool =
  querySize :: u32
  poolBuffer :: buffer_object
  pool_blob :: bytes
  queries :: "profiling_query option list"

text \<open>The distance of two slots.\<close>

definition query_stride :: "u32 \<Rightarrow> u64" where
  "query_stride n = getFwDataCacheAlign (ucast n)"

definition new_profiling_pool ::
  "u32 \<Rightarrow> u32 \<Rightarrow> bytes \<Rightarrow> buffer_object option \<Rightarrow> 'k world \<Rightarrow> (ze_result + profiling_pool) \<times> 'k world" where
  "new_profiling_pool sz n blob profilingMemory w =
     (case profilingMemory of
        None \<Rightarrow> (Inl ZE_RESULT_ERROR_INVALID_NULL_POINTER, w)
      | Some bo \<Rightarrow>
          if allocSize bo < of_nat (unat n) * query_stride sz then (Inl ZE_RESULT_ERROR_OUT_OF_DEVICE_MEMORY, w)
          else (Inr \<lparr>querySize = sz, poolBuffer = bo, pool_blob = blob, queries = replicate (unat n) None\<rparr>,
                w\<lparr>mem := write_bytes (mem w) (basePtr bo) (replicate (unat (allocSize bo)) 0)\<rparr>))"

definition createProfilingQuery :: "u32 \<Rightarrow> bool \<Rightarrow> profiling_pool \<Rightarrow> ze_result \<times> profiling_pool" where
  "createProfilingQuery index has_handle p =
     (if unat index \<ge> length (queries p) then (ZE_RESULT_ERROR_INVALID_ARGUMENT, p)
      else if \<not> has_handle then (ZE_RESULT_ERROR_INVALID_NULL_POINTER, p)
      else if queries p ! unat index \<noteq> None then (ZE_RESULT_ERROR_HANDLE_OBJECT_IN_USE, p)
      else let dataPtr = basePtr (poolBuffer p) + ucast index * query_stride (querySize p)
           in (ZE_RESULT_SUCCESS,
               p\<lparr>queries := (queries p)[unat index := Some \<lparr>pq_size = querySize p, pq_data = dataPtr,
                                           pq_blob = pool_blob p, pq_bo = poolBuffer p\<rparr>]\<rparr>))"

text \<open>\<open>GraphProfilingQuery::destroy\<close> calls back into its pool.\<close>

definition destroyProfilingQuery :: "nat \<Rightarrow> profiling_pool \<Rightarrow> ze_result \<times> profiling_pool" where
  "destroyProfilingQuery index p = (ZE_RESULT_SUCCESS, p\<lparr>queries := (queries p)[index := None]\<rparr>)"

text \<open>Whether the pool may go; the graph then removes it.\<close>

definition destroyProfilingPool :: "profiling_pool \<Rightarrow> ze_result" where
  "destroyProfilingPool p =
     (if \<exists>q \<in> set (queries p). q \<noteq> None then ZE_RESULT_ERROR_HANDLE_OBJECT_IN_USE else ZE_RESULT_SUCCESS)"

section \<open>Data\<close>

datatype profiling_type = ZE_GRAPH_PROFILING_LAYER_LEVEL | ZE_GRAPH_PROFILING_TASK_LEVEL | ZE_GRAPH_PROFILING_RAW | Other_profiling_type

definition profiling_request_of :: "profiling_type \<Rightarrow> profiling_request" where
  "profiling_request_of ty =
     (if ty = ZE_GRAPH_PROFILING_TASK_LEVEL then VCL_PROFILING_TASK_LEVEL else VCL_PROFILING_LAYER_LEVEL)"

text \<open>
  The result, the size, and the bytes that are copied to \<open>pData\<close> when it is there. \<open>m\<close> is the memory of
  the process.
\<close>

definition getData ::
  "('c, 'p, 'q) vcl \<Rightarrow> memory \<Rightarrow> profiling_type \<Rightarrow> u32 option \<Rightarrow> bool \<Rightarrow> profiling_query \<Rightarrow> string \<Rightarrow> compiler_state
     \<Rightarrow> (exn + ze_result \<times> u32 option \<times> bytes option) \<times> string \<times> compiler_state" where
  "getData v m profilingType pSize wanted q lastErrorMsg s =
     (case pSize of
        None \<Rightarrow> (Inr (ZE_RESULT_ERROR_INVALID_NULL_POINTER, None, None), lastErrorMsg, s)
      | Some n \<Rightarrow>
          if profilingType \<in> {ZE_GRAPH_PROFILING_LAYER_LEVEL, ZE_GRAPH_PROFILING_TASK_LEVEL}
          then (case getDecodedProfilingBuffer v (profiling_request_of profilingType) (pq_blob q)
                       (read_bytes m (pq_data q) (unat (pq_size q))) n wanted lastErrorMsg s of
                  (Inl e, msg, s') \<Rightarrow> (Inl e, msg, s')
                | (Inr (r, n', bs), msg, s') \<Rightarrow> (Inr (r, Some n', bs), msg, s'))
          else if profilingType \<noteq> ZE_GRAPH_PROFILING_RAW
          then (Inr (ZE_RESULT_ERROR_INVALID_ARGUMENT, Some n, None), lastErrorMsg, s)
          else let n' = if n = 0 \<or> n > pq_size q then pq_size q else n
               in (Inr (ZE_RESULT_SUCCESS, Some n', if wanted then Some (read_bytes m (pq_data q) (unat n')) else None),
                   lastErrorMsg, s))"

text \<open>A message with its terminating zero, cut to the size of the caller.\<close>

definition copy_log :: "u32 \<Rightarrow> string \<Rightarrow> u32 \<times> string" where
  "copy_log n msg = (let n' = min n (of_nat (length msg + 1)) in (n', take (unat n') (msg @ [CHR 0x00])))"

definition getProfilingLogString :: "u32 option \<Rightarrow> bool \<Rightarrow> string \<Rightarrow> ze_result \<times> u32 option \<times> string option" where
  "getProfilingLogString pSize wanted lastErrorMsg =
     (case pSize of
        None \<Rightarrow> (ZE_RESULT_ERROR_INVALID_NULL_POINTER, None, None)
      | Some n \<Rightarrow>
          if n = 0 then (ZE_RESULT_SUCCESS, Some (of_nat (length lastErrorMsg + 1)), None)
          else if \<not> wanted then (ZE_RESULT_ERROR_INVALID_NULL_POINTER, Some n, None)
          else (case copy_log n lastErrorMsg of (n', msg) \<Rightarrow> (ZE_RESULT_SUCCESS, Some n', Some msg)))"

section \<open>The slots of a pool\<close>

text \<open>The pools that an application can reach from a new one.\<close>

inductive reachable_profiling :: "profiling_pool \<Rightarrow> bool" where
  new: "new_profiling_pool sz n blob (Some bo) (w :: unit world) = (Inr p, w1) \<Longrightarrow> bo_ok bo \<Longrightarrow> reachable_profiling p"
| create: "reachable_profiling p \<Longrightarrow> reachable_profiling (snd (createProfilingQuery index has_handle p))"
| destroy: "reachable_profiling p \<Longrightarrow> reachable_profiling (snd (destroyProfilingQuery index p))"

definition slot :: "profiling_pool \<Rightarrow> nat \<Rightarrow> u64" where
  "slot p i = basePtr (poolBuffer p) + of_nat i * query_stride (querySize p)"

definition pool_ok :: "profiling_pool \<Rightarrow> bool" where
  "pool_ok p \<longleftrightarrow>
     bo_ok (poolBuffer p) \<and> length (queries p) < 2 ^ 32
     \<and> length (queries p) * unat (query_stride (querySize p)) \<le> unat (allocSize (poolBuffer p))
     \<and> (\<forall>i < length (queries p). \<forall>q. queries p ! i = Some q
          \<longrightarrow> pq_size q = querySize p \<and> pq_bo q = poolBuffer p \<and> pq_data q = slot p i)"

lemma unat_lt_32: "unat (n :: u32) < 2 ^ 32"
  using unsigned_less [of n, where ?'a = nat] by simp

lemma unat_ucast_32: "unat (ucast (n :: u32) :: u64) = unat n"
  using unat_lt_32 [of n] by (simp add: unsigned_ucast_eq take_bit_nat_eq_self)

lemma query_stride_bounds:
  shows "unat n \<le> unat (query_stride n)" "unat (query_stride n) \<le> 2 ^ 32"
proof -
  note n = unat_ucast_32 [of n] and l = unat_lt_32 [of n]
  then have b: "unat (ucast n :: u64) + 2 ^ 6 \<le> 2 ^ 64" unfolding n by simp
  have k: "query_stride n = ALIGN (ucast n) (2 ^ 6)" by (simp add: query_stride_def getFwDataCacheAlign_def)
  note a = ALIGN_bounds [of 6 "ucast n", OF _ b, folded k, unfolded n]
  show "unat n \<le> unat (query_stride n)" using a by simp
  obtain m where m: "unat (query_stride n) = 64 * m" using a by (auto simp: dvd_def)
  then show "unat (query_stride n) \<le> 2 ^ 32" using a l by simp
qed

lemma slots_fit:
  assumes "k \<le> 2 ^ 32 - 1"
  shows "unat (of_nat k * query_stride n) = k * unat (query_stride n)"
proof -
  have "k * unat (query_stride n) \<le> (2 ^ 32 - 1) * 2 ^ 32"
    using assms query_stride_bounds(2) by (rule mult_le_mono)
  then have "k * unat (query_stride n) < 2 ^ 64" by simp
  moreover have "unat (of_nat k :: u64) = k" using assms by (intro unat_of_nat_64) simp
  ultimately show ?thesis using unat_mult_lem [of "of_nat k" "query_stride n"] by simp
qed

lemma new_pool_ok:
  assumes "new_profiling_pool sz count blob (Some bo) w = (Inr p, w')" "bo_ok bo"
  shows "pool_ok p"
proof -
  have c: "unat count \<le> 2 ^ 32 - 1" using unat_lt_32 [of count] by simp
  have "\<not> allocSize bo < of_nat (unat count) * query_stride sz" "poolBuffer p = bo" "querySize p = sz"
    "queries p = replicate (unat count) None" using assms(1) by (auto simp: new_profiling_pool_def split: if_splits)
  then show ?thesis using assms(2) slots_fit [OF c, of sz] c by (simp add: pool_ok_def word_less_nat_alt)
qed

lemma reachable_profiling_ok: "reachable_profiling p \<Longrightarrow> pool_ok p"
proof (induction rule: reachable_profiling.induct)
  case (new sz count blob bo w p w')
  then show ?case by (rule new_pool_ok)
next
  case (create p index has_handle)
  have "ucast index = (of_nat (unat index) :: u64)" by simp
  then show ?case using create.IH
    by (auto simp: createProfilingQuery_def pool_ok_def slot_def Let_def nth_list_update split: if_splits)
next
  case (destroy p index)
  have "queries p ! i = Some q" if "(queries p)[index := None] ! i = Some q" for i q
    using that by (cases "index < length (queries p)"; cases "i = index") (auto simp: list_update_beyond)
  note kept = this
  have "pool_ok (p\<lparr>queries := (queries p)[index := None]\<rparr>)"
    unfolding pool_ok_def
  proof (intro conjI allI impI)
    fix i q
    assume "i < length (queries (p\<lparr>queries := (queries p)[index := None]\<rparr>))"
      "queries (p\<lparr>queries := (queries p)[index := None]\<rparr>) ! i = Some q"
    then have "i < length (queries p)" "queries p ! i = Some q" using kept by simp_all
    then show "pq_size q = querySize (p\<lparr>queries := (queries p)[index := None]\<rparr>)"
      "pq_bo q = poolBuffer (p\<lparr>queries := (queries p)[index := None]\<rparr>)"
      "pq_data q = slot (p\<lparr>queries := (queries p)[index := None]\<rparr>) i"
      using destroy.IH by (simp_all add: pool_ok_def slot_def)
  qed (use destroy.IH in \<open>simp_all add: pool_ok_def\<close>)
  then show ?case by (simp add: destroyProfilingQuery_def)
qed

lemma slot_place:
  assumes "pool_ok p" "i < length (queries p)"
  shows "unat (slot p i) = unat (basePtr (poolBuffer p)) + i * unat (query_stride (querySize p))"
    "(i + 1) * unat (query_stride (querySize p)) \<le> unat (allocSize (poolBuffer p))"
proof -
  let ?d = "query_stride (querySize p)"
  have "(i + 1) * unat ?d \<le> length (queries p) * unat ?d" using assms(2) by (intro mult_le_mono1) simp
  then show l: "(i + 1) * unat ?d \<le> unat (allocSize (poolBuffer p))" using assms(1) by (simp add: pool_ok_def)
  have "unat (of_nat i * ?d) = i * unat ?d" using assms by (intro slots_fit) (simp add: pool_ok_def)
  moreover have "unat (basePtr (poolBuffer p)) + i * unat ?d < 2 ^ 64" using l assms(1) by (simp add: pool_ok_def bo_ok_def)
  ultimately show "unat (slot p i) = unat (basePtr (poolBuffer p)) + i * unat ?d" by (simp add: slot_def unat_plus_64)
qed

text \<open>C30: in every pool that an application can reach, a query owns a slot of its own: its data lies inside of
  the buffer of the pool, and behind or before the data of any other query of the pool.
\<close>

theorem profiling_slots_apart:
  assumes "reachable_profiling p" "i < length (queries p)" "queries p ! i = Some q"
  shows "unat (basePtr (poolBuffer p)) \<le> unat (pq_data q)
     \<and> unat (pq_data q) + unat (pq_size q) \<le> unat (basePtr (poolBuffer p)) + unat (allocSize (poolBuffer p))
     \<and> (\<forall>j < length (queries p). \<forall>r. j \<noteq> i \<longrightarrow> queries p ! j = Some r
          \<longrightarrow> unat (pq_data q) + unat (pq_size q) \<le> unat (pq_data r) \<or> unat (pq_data r) + unat (pq_size r) \<le> unat (pq_data q))"
proof (intro conjI allI impI)
  let ?d = "unat (query_stride (querySize p))"
  note ok = reachable_profiling_ok [OF assms(1)]
  have at: "pq_size x = querySize p \<and> unat (pq_data x) = unat (basePtr (poolBuffer p)) + k * ?d"
    if "k < length (queries p)" "queries p ! k = Some x" for k x
    using ok slot_place(1) [OF ok that(1)] that by (simp add: pool_ok_def)
  note q = at [OF assms(2,3)] and b = slot_place(2) [OF ok assms(2)] and d = query_stride_bounds(1) [of "querySize p"]
  show "unat (basePtr (poolBuffer p)) \<le> unat (pq_data q)" using q by simp
  show "unat (pq_data q) + unat (pq_size q) \<le> unat (basePtr (poolBuffer p)) + unat (allocSize (poolBuffer p))"
    using q b d by (simp add: algebra_simps)
  fix j r
  assume j: "j < length (queries p)" "j \<noteq> i" "queries p ! j = Some r"
  have "(i + 1) * ?d \<le> j * ?d \<or> (j + 1) * ?d \<le> i * ?d"
    using j(2) mult_le_mono1 [of "i + 1" j ?d] mult_le_mono1 [of "j + 1" i ?d] by linarith
  then show "unat (pq_data q) + unat (pq_size q) \<le> unat (pq_data r) \<or> unat (pq_data r) + unat (pq_size r) \<le> unat (pq_data q)"
    using q at [OF j(1,3)] d by (auto simp: algebra_simps)
qed

text \<open>A pool of two slots of 64 bytes; the second one is in use.\<close>

definition demo_profiling_bo :: buffer_object where
  "demo_profiling_bo = \<lparr>bo_location = Internal, bo_type = 0, basePtr = 8192, allocSize = 4096,
     vpuAddr = 0x80000000, handle = 7, bo_id = 9\<rparr>"

definition demo_profiling_pool :: profiling_pool where
  "demo_profiling_pool = \<lparr>querySize = 40, poolBuffer = demo_profiling_bo, pool_blob = [], queries = [None, None]\<rparr>"

lemma replicate_2: "replicate 2 x = [x, x]"
  by (simp add: numeral_2_eq_2)

lemma demo_stride: "query_stride 40 = 64"
  by (simp add: query_stride_def getFwDataCacheAlign_def ALIGN_def)

lemma demo_profiling_reachable: "reachable_profiling (snd (createProfilingQuery 1 True demo_profiling_pool))"
proof (rule reachable_profiling.create, rule reachable_profiling.new)
  have n: "\<not> allocSize demo_profiling_bo < of_nat (unat (2 :: u32)) * query_stride 40"
    by (simp add: demo_profiling_bo_def demo_stride)
  show "new_profiling_pool 40 2 [] (Some demo_profiling_bo) (W :: unit world) = (Inr demo_profiling_pool,
      W\<lparr>mem := write_bytes (mem W) (basePtr demo_profiling_bo) (replicate (unat (allocSize demo_profiling_bo)) 0)\<rparr>)" for W
    unfolding new_profiling_pool_def option.case if_not_P [OF n] by (simp add: demo_profiling_pool_def replicate_2)
  show "bo_ok demo_profiling_bo" by (simp add: bo_ok_def demo_profiling_bo_def)
qed

theorem profiling_slots_apart_witness:
  "unat (8192 :: u64) \<le> unat (8256 :: u64) \<and> unat (8256 :: u64) + unat (40 :: u32) \<le> unat (8192 :: u64) + unat (4096 :: u64)"
proof -
  have s: "snd (createProfilingQuery 1 True demo_profiling_pool)
     = demo_profiling_pool\<lparr>queries := [None, Some \<lparr>pq_size = 40, pq_data = 8256, pq_blob = [], pq_bo = demo_profiling_bo\<rparr>]\<rparr>"
    by (simp add: createProfilingQuery_def demo_profiling_pool_def demo_profiling_bo_def demo_stride)
  show ?thesis
    using profiling_slots_apart [OF demo_profiling_reachable, of 1 "\<lparr>pq_size = 40, pq_data = 8256, pq_blob = [], pq_bo = demo_profiling_bo\<rparr>"]
    unfolding s by (simp add: demo_profiling_pool_def demo_profiling_bo_def)
qed

end
