(* ===== verification/Build_Flags.thy ===== *)
theory Build_Flags
  imports Umd_Prelude "HOL-Library.Multiset"
begin

text \<open>
  The build flags of a graph (\<open>umd/level_zero_driver/source/ext/graph.cpp\<close>): the options of the
  application, those of the driver, and those of the environment, which override the others. The order in
  which an \<open>std::unordered_map\<close> is iterated is not specified and is a parameter.
\<close>

section \<open>Searching\<close>

text \<open>\<open>std::string::find\<close>: the first place of a pattern; \<open>None\<close> is \<open>npos\<close>.\<close>

fun str_find :: "string \<Rightarrow> string \<Rightarrow> nat option" where
  "str_find pat [] = (if pat = [] then Some 0 else None)"
| "str_find pat (c # cs) = (if take (length pat) (c # cs) = pat then Some 0 else map_option Suc (str_find pat cs))"

definition without_spaces :: "string \<Rightarrow> string" where
  "without_spaces s = filter (\<lambda>c. c \<noteq> CHR '' '') s"

definition quote_char :: char where "quote_char = CHR 0x22"

section \<open>Options\<close>

definition addOptionToBuildFlags :: "string \<Rightarrow> string \<Rightarrow> string \<Rightarrow> string" where
  "addOptionToBuildFlags key val buildFlags =
     (if str_find ''--config'' buildFlags = None then buildFlags @ '' --config'' else buildFlags)
     @ '' '' @ key @ ''='' @ [quote_char] @ val @ [quote_char]"

text \<open>The key or the value, and what is left of the options.\<close>

definition getKey :: "string \<Rightarrow> string \<times> string" where
  "getKey options =
     (case str_find ''='' options of
        None \<Rightarrow> ([], options)
      | Some keyEnd \<Rightarrow> (without_spaces (take keyEnd options), drop (keyEnd + 1) options))"

definition getValue :: "string \<Rightarrow> string \<times> string" where
  "getValue options =
     (case str_find [quote_char] options of
        None \<Rightarrow> ([], options)
      | Some valueStart \<Rightarrow>
          let rest = drop (valueStart + 1) options in
          (case str_find [quote_char] rest of
             None \<Rightarrow> ([], options)
           | Some n \<Rightarrow> (without_spaces (take n rest), drop (n + 1) rest)))"

lemma str_find_char: "str_find [c] s = Some i \<Longrightarrow> i < length s \<and> s ! i = c \<and> c \<notin> set (take i s)"
  by (induction "[c]" s arbitrary: i rule: str_find.induct) (auto split: if_splits)

lemma getKey_shorter: "getKey s = (k, s') \<Longrightarrow> k \<noteq> [] \<Longrightarrow> length s' < length s"
  using str_find_char by (fastforce simp: getKey_def split: option.splits)

lemma getValue_shorter: "getValue s = (v, s') \<Longrightarrow> length s' \<le> length s"
  by (auto simp: getValue_def Let_def split: option.splits)

function parse_pairs :: "string \<Rightarrow> (string \<times> string) list" where
  "parse_pairs s =
     (case getKey s of (key, s1) \<Rightarrow>
        if key = [] then [] else (case getValue s1 of (val, s2) \<Rightarrow> (key, val) # parse_pairs s2))"
  by pat_completeness auto
termination by (relation "measure length") (force dest: getKey_shorter [OF sym] getValue_shorter [OF sym])+

declare parse_pairs.simps [simp del]

text \<open>The options that are not set are set; those of the environment are set in any case.\<close>

fun emplace_option :: "string \<times> string \<Rightarrow> (string \<times> string) list \<Rightarrow> (string \<times> string) list" where
  "emplace_option (k, v) opts = (if map_of opts k = None then opts @ [(k, v)] else opts)"

fun override_option :: "string \<times> string \<Rightarrow> (string \<times> string) list \<Rightarrow> (string \<times> string) list" where
  "override_option (k, v) [] = [(k, v)]"
| "override_option (k, v) ((k', v') # opts) =
     (if k = k' then (k, v) # opts else (k', v') # override_option (k, v) opts)"

definition option_text :: "string \<times> string \<Rightarrow> string" where
  "option_text kv = fst kv @ ''='' @ [quote_char] @ snd kv @ [quote_char] @ '' ''"

text \<open>The flags before the options, and the options, which start nine characters after \<open>--config\<close>.\<close>

definition flags_part :: "string \<Rightarrow> string" where
  "flags_part buildFlags = (case str_find ''--config'' buildFlags of None \<Rightarrow> buildFlags | Some i \<Rightarrow> take i buildFlags)"

definition config_part :: "string \<Rightarrow> exn + string" where
  "config_part buildFlags =
     (case str_find ''--config'' buildFlags of
        None \<Rightarrow> Inr []
      | Some i \<Rightarrow> if i + 9 > length buildFlags then Inl Out_of_range else Inr (drop (i + 9) buildFlags))"

definition merged_options :: "string \<Rightarrow> string \<Rightarrow> (string \<times> string) list" where
  "merged_options configString env =
     fold override_option (parse_pairs env) (fold emplace_option (parse_pairs configString) [])"

type_synonym iteration = "(string \<times> string) list \<Rightarrow> (string \<times> string) list"

definition setUpFlagsFromEnvVariable :: "string option \<Rightarrow> iteration \<Rightarrow> string \<Rightarrow> exn + string" where
  "setUpFlagsFromEnvVariable env order graphBuildFlags =
     (case env of
        None \<Rightarrow> Inr graphBuildFlags
      | Some e \<Rightarrow>
          (case config_part graphBuildFlags of
             Inl x \<Rightarrow> Inl x
           | Inr configString \<Rightarrow>
               Inr (flags_part graphBuildFlags @ '' --config ''
                    @ concat (map option_text (order (merged_options configString e))))))"

definition addDeviceConfigToBuildFlags :: "bool \<Rightarrow> string option \<Rightarrow> iteration \<Rightarrow> string \<Rightarrow> exn + string" where
  "addDeviceConfigToBuildFlags profiling env order buildFlags =
     setUpFlagsFromEnvVariable env order
       (if profiling then addOptionToBuildFlags ''PERF_COUNT'' ''YES'' buildFlags else buildFlags)"

section \<open>What a search finds\<close>

lemma str_find_Some:
  "str_find pat s = Some i \<longleftrightarrow>
     i \<le> length s \<and> take (length pat) (drop i s) = pat \<and> (\<forall>j < i. take (length pat) (drop j s) \<noteq> pat)"
proof (induction pat s arbitrary: i rule: str_find.induct)
  case (2 pat c cs)
  show ?case
  proof (cases "take (length pat) (c # cs) = pat")
    case True
    then show ?thesis by (cases i) auto
  next
    case False
    then show ?thesis using 2 by (cases i) (auto simp: less_Suc_eq_0_disj)
  qed
qed auto

lemma str_find_None: "str_find pat s = None \<longleftrightarrow> (\<forall>j \<le> length s. take (length pat) (drop j s) \<noteq> pat)"
proof (induction pat s rule: str_find.induct)
  case (2 pat c cs)
  have "(\<forall>j \<le> length (c # cs). take (length pat) (drop j (c # cs)) \<noteq> pat)
     \<longleftrightarrow> take (length pat) (c # cs) \<noteq> pat \<and> (\<forall>j \<le> length cs. take (length pat) (drop j cs) \<noteq> pat)" (is "?l \<longleftrightarrow> ?r")
  proof
    assume l: ?l
    have "take (length pat) (drop j cs) \<noteq> pat" if "j \<le> length cs" for j using l [rule_format, of "Suc j"] that by simp
    then show ?r using l [rule_format, of 0] by simp
  next
    assume r: ?r
    show ?l
    proof (intro allI impI)
      fix j assume "j \<le> length (c # cs)"
      then show "take (length pat) (drop j (c # cs)) \<noteq> pat" using r by (cases j) auto
    qed
  qed
  then show ?case using 2 by auto
qed auto

lemma str_find_char_at: "c \<notin> set xs \<Longrightarrow> str_find [c] (xs @ c # ys) = Some (length xs)"
  by (induction xs) auto

lemma str_find_char_None: "str_find [c] s = None \<longleftrightarrow> c \<notin> set s"
  by (induction "[c]" s rule: str_find.induct) auto

section \<open>Options that are printed and read\<close>

definition clean_option :: "string \<times> string \<Rightarrow> bool" where
  "clean_option kv \<longleftrightarrow> fst kv \<noteq> [] \<and> CHR '' '' \<notin> set (fst kv) \<and> CHR ''='' \<notin> set (fst kv)
     \<and> CHR '' '' \<notin> set (snd kv) \<and> quote_char \<notin> set (snd kv)"

lemma without_spaces_clean: "CHR '' '' \<notin> set s \<Longrightarrow> without_spaces s = s"
  by (induction s) (auto simp: without_spaces_def)

lemma getKey_clean: "getKey s = (k, s') \<Longrightarrow> CHR '' '' \<notin> set k \<and> CHR ''='' \<notin> set k"
  using str_find_char by (fastforce simp: getKey_def without_spaces_def split: option.splits)

lemma getValue_clean: "getValue s = (v, s') \<Longrightarrow> CHR '' '' \<notin> set v \<and> quote_char \<notin> set v"
  using str_find_char by (fastforce simp: getValue_def without_spaces_def Let_def split: option.splits)

lemma parse_pairs_clean: "kv \<in> set (parse_pairs s) \<Longrightarrow> clean_option kv"
proof (induction s rule: parse_pairs.induct)
  case (1 s)
  obtain k s1 where k: "getKey s = (k, s1)" by fastforce
  obtain v s2 where v: "getValue s1 = (v, s2)" by fastforce
  show ?case
    using 1(1) [OF k [symmetric] _ v [symmetric]] 1(2) getKey_clean [OF k] getValue_clean [OF v]
    by (auto simp: parse_pairs.simps [of s] k v clean_option_def split: if_splits)
qed

lemma parse_pairs_space: "parse_pairs (CHR '' '' # s) = parse_pairs s"
proof -
  have "getKey (CHR '' '' # s) = (case str_find ''='' s of None \<Rightarrow> ([], CHR '' '' # s) | Some i \<Rightarrow> getKey s)"
    by (auto simp: getKey_def without_spaces_def split: option.splits)
  then show ?thesis unfolding parse_pairs.simps [of "CHR '' '' # s"] parse_pairs.simps [of s]
    by (auto simp: getKey_def split: option.splits)
qed

lemma parse_option_text:
  assumes "clean_option kv"
  shows "parse_pairs (option_text kv @ rest) = kv # parse_pairs rest"
proof -
  obtain k v where kv: "kv = (k, v)" by fastforce
  have c: "k \<noteq> []" "CHR '' '' \<notin> set k" "CHR ''='' \<notin> set k" "CHR '' '' \<notin> set v" "quote_char \<notin> set v"
    using assms by (auto simp: clean_option_def kv)
  have k: "getKey (option_text kv @ rest) = (k, quote_char # v @ quote_char # CHR '' '' # rest)"
    using str_find_char_at [OF c(3), of "quote_char # v @ quote_char # CHR '' '' # rest"] c(2)
    by (simp add: getKey_def option_text_def kv without_spaces_clean)
  have v: "getValue (quote_char # v @ quote_char # CHR '' '' # rest) = (v, CHR '' '' # rest)"
    using str_find_char_at [OF c(5), of "CHR '' '' # rest"] c(4) by (simp add: getValue_def without_spaces_clean)
  show ?thesis unfolding parse_pairs.simps [of "option_text kv @ rest"] k prod.case v parse_pairs_space
    using c(1) by (simp add: kv)
qed

lemma parse_nothing: "parse_pairs [] = []"
  by (simp add: parse_pairs.simps getKey_def)

lemma parse_options_text:
  "\<forall>kv \<in> set xs. clean_option kv \<Longrightarrow> parse_pairs (concat (map option_text xs)) = xs"
  by (induction xs) (auto simp: parse_nothing parse_option_text)

section \<open>What the merged options are\<close>

lemma map_of_override [simp]: "map_of (override_option (k, v) xs) = (map_of xs)(k \<mapsto> v)"
  by (induction "(k, v)" xs rule: override_option.induct) auto

lemma map_of_fold_override:
  "map_of (fold override_option ps xs) k = (case map_of (rev ps) k of Some v \<Rightarrow> Some v | None \<Rightarrow> map_of xs k)"
proof (induction ps arbitrary: xs)
  case (Cons p ps)
  then show ?case by (cases p) (auto simp: map_add_def map_of_append split: option.splits)
qed simp

lemma map_of_emplace [simp]: "map_of (emplace_option (k, v) xs) = (if map_of xs k = None then (map_of xs)(k \<mapsto> v) else map_of xs)"
  by (auto simp: map_add_def fun_eq_iff split: option.splits)

lemma map_of_fold_emplace:
  "map_of (fold emplace_option ps xs) k = (case map_of xs k of Some v \<Rightarrow> Some v | None \<Rightarrow> map_of ps k)"
proof (induction ps arbitrary: xs)
  case (Cons p ps)
  then show ?case by (cases p) (auto simp del: emplace_option.simps split: option.splits)
qed (simp split: option.split)

lemma map_of_merged:
  "map_of (merged_options c e) k =
     (case map_of (rev (parse_pairs e)) k of Some v \<Rightarrow> Some v | None \<Rightarrow> map_of (parse_pairs c) k)"
  unfolding merged_options_def map_of_fold_override map_of_fold_emplace map_of.simps option.case by (rule refl)

lemma set_override: "set (override_option p xs) \<subseteq> insert p (set xs)"
  by (induction p xs rule: override_option.induct) auto

lemma set_emplace: "set (emplace_option p xs) \<subseteq> insert p (set xs)"
  by (cases p) auto

lemma fold_insert_subset:
  assumes "\<And>p xs. set (f p xs) \<subseteq> insert p (set xs)"
  shows "set (fold f ps xs) \<subseteq> set ps \<union> set xs"
proof (induction ps arbitrary: xs)
  case (Cons p ps)
  then show ?case using assms [of p xs] by fastforce
qed simp

lemma merged_clean: "kv \<in> set (merged_options c e) \<Longrightarrow> clean_option kv"
  using fold_insert_subset [OF set_override, of "parse_pairs e" "fold emplace_option (parse_pairs c) []"]
    fold_insert_subset [OF set_emplace, of "parse_pairs c" "[]"] parse_pairs_clean
  unfolding merged_options_def by fastforce

lemma distinct_override: "distinct (map fst xs) \<Longrightarrow> distinct (map fst (override_option p xs))"
proof (induction p xs rule: override_option.induct)
  case (2 k v k' v' opts)
  then show ?case using set_override [of "(k, v)" opts] by (auto simp: image_iff)
qed simp

lemma distinct_emplace: "distinct (map fst xs) \<Longrightarrow> distinct (map fst (emplace_option p xs))"
  by (cases p) (auto simp: map_of_eq_None_iff)

lemma distinct_merged: "distinct (map fst (merged_options c e))"
proof -
  have "distinct (map fst (fold emplace_option ps xs))" if "distinct (map fst xs)" for ps xs
    using that by (induction ps arbitrary: xs) (auto intro: distinct_emplace simp del: emplace_option.simps)
  moreover have "distinct (map fst (fold override_option ps xs))" if "distinct (map fst xs)" for ps xs
    using that by (induction ps arbitrary: xs) (auto intro: distinct_override)
  ultimately show ?thesis by (simp add: merged_options_def)
qed

lemma map_of_permuted:
  assumes "mset xs = mset ys" "distinct (map fst ys)"
  shows "map_of xs = map_of ys"
proof (rule map_of_eqI)
  show "set (map fst xs) = set (map fst ys)" using mset_eq_setD [OF assms(1)] by simp
  have "distinct (map fst xs)" using assms by (metis mset_map mset_eq_imp_distinct_iff)
  then show "\<forall>k \<in> set (map fst xs). map_of xs k = map_of ys k"
    using assms mset_eq_setD [OF assms(1)] by (auto simp: map_of_eq_Some_iff)
qed

lemma find_config:
  assumes "str_find ''--config'' s = Some i"
  shows "take 8 (drop i s) = ''--config''" "i + 8 \<le> length s" "j < i \<Longrightarrow> take 8 (drop j s) \<noteq> ''--config''"
proof -
  note f = assms [unfolded str_find_Some]
  show t: "take 8 (drop i s) = ''--config''" using f by (simp add: numeral_eq_Suc)
  have "length (take 8 (drop i s)) = 8" unfolding t by simp
  then show "i + 8 \<le> length s" by simp
  show "take 8 (drop j s) \<noteq> ''--config''" if "j < i" using f that by (simp add: numeral_eq_Suc)
qed

lemma find_config_mark:
  "str_find ''--config'' (flags_part flags @ '' --config '' @ rest) = Some (Suc (length (flags_part flags)))"
proof -
  let ?f = "flags_part flags"
  let ?pat = "''--config''"
  have early: "take 8 (drop j (?f @ '' --config '' @ rest)) \<noteq> ?pat" if j: "j \<le> length ?f" for j
  proof
    assume a: "take 8 (drop j (?f @ '' --config '' @ rest)) = ?pat"
    show False
    proof (cases "j + 8 \<le> length ?f")
      case True
      then have o: "take 8 (drop j ?f) = ?pat" using a by simp
      show False
      proof (cases "str_find ?pat flags")
        case None
        then have f: "?f = flags" by (simp add: flags_part_def)
        show False using None [unfolded str_find_None, rule_format, of j] o True unfolding f by (simp add: numeral_eq_Suc)
      next
        case (Some i)
        have f: "?f = take i flags" unfolding flags_part_def Some by simp
        then have "j < i" "take 8 (drop j flags) = ?pat"
          using True o find_config(2) [OF Some] by (auto simp: drop_take min_def split: if_splits)
        then show False using find_config(3) [OF Some] by simp
      qed
    next
      case False
      have "take 8 (drop j (?f @ '' --config '' @ rest)) ! (length ?f - j) = CHR '' ''"
        using j False by (simp add: nth_append)
      moreover have "?pat ! (length ?f - j) \<in> set ?pat" using False j by (intro nth_mem) simp
      ultimately have "CHR '' '' \<in> set ?pat" unfolding a by metis
      then show False by simp
    qed
  qed
  have l: "length ?pat = 8" by simp
  show ?thesis
  proof (unfold str_find_Some l, intro conjI allI impI)
    fix j assume "j < Suc (length ?f)"
    then show "take 8 (drop j (?f @ '' --config '' @ rest)) \<noteq> ?pat" unfolding less_Suc_eq_le by (rule early)
  qed simp_all
qed

section \<open>The flags that the compiler gets\<close>

text \<open>C31: whatever order the map is iterated in, the flags handed to the compiler keep what stood before the
  options, and the options read back from them are: for each key the last value of the environment, or
  else the first one of the application.
\<close>

theorem environment_overrides:
  assumes "\<And>xs. mset (order xs) = mset xs" "config_part flags = Inr c"
    and "setUpFlagsFromEnvVariable (Some e) order flags = Inr out"
  shows "\<exists>rest. out = flags_part flags @ '' --config '' @ rest \<and> config_part out = Inr rest
     \<and> (\<forall>k. map_of (parse_pairs rest) k
            = (case map_of (rev (parse_pairs e)) k of Some v \<Rightarrow> Some v | None \<Rightarrow> map_of (parse_pairs c) k))"
proof -
  define xs where "xs = order (merged_options c e)"
  define rest where "rest = concat (map option_text xs)"
  have out: "out = flags_part flags @ '' --config '' @ rest"
    using assms(2,3) by (simp add: setUpFlagsFromEnvVariable_def rest_def xs_def)
  have m: "mset xs = mset (merged_options c e)" by (simp add: xs_def assms(1))
  have "\<forall>kv \<in> set xs. clean_option kv" using merged_clean mset_eq_setD [OF m] by auto
  then have "parse_pairs rest = xs" unfolding rest_def by (rule parse_options_text)
  moreover have "map_of xs = map_of (merged_options c e)" by (rule map_of_permuted [OF m distinct_merged])
  moreover have "config_part out = Inr rest" unfolding out config_part_def find_config_mark by simp
  ultimately show ?thesis using out map_of_merged by metis
qed

text \<open>Flags that end in \<open>--config\<close> are legal without options, but as soon as the environment sets any
  option they throw \<open>std::out_of_range\<close>; this is the only way to fail.
\<close>

theorem config_at_end_throws:
  "setUpFlagsFromEnvVariable (Some e) order flags = Inl x
     \<longleftrightarrow> x = Out_of_range \<and> str_find ''--config'' flags \<noteq> None \<and> the (str_find ''--config'' flags) + 8 = length flags"
proof (cases "str_find ''--config'' flags")
  case None
  then show ?thesis by (simp add: setUpFlagsFromEnvVariable_def config_part_def)
next
  case (Some i)
  then show ?thesis using find_config(2) [OF Some] by (auto simp: setUpFlagsFromEnvVariable_def config_part_def)
qed

theorem environment_overrides_witness:
  "\<exists>rest. '' --config A=''  @ [quote_char] @ ''2'' @ [quote_char] @ '' '' = '' --config '' @ rest
     \<and> config_part ('' --config A=''  @ [quote_char] @ ''2'' @ [quote_char] @ '' '') = Inr rest
     \<and> map_of (parse_pairs rest) ''A'' = Some ''2''"
proof -
  have "config_part ''--config A=1'' = Inr ''A=1''" by code_simp
  moreover have "setUpFlagsFromEnvVariable (Some (''A='' @ [quote_char] @ ''2'' @ [quote_char])) (\<lambda>xs. xs) ''--config A=1''
     = Inr ('' --config A=''  @ [quote_char] @ ''2'' @ [quote_char] @ '' '')" by code_simp
  moreover have "flags_part ''--config A=1'' = []" by code_simp
  moreover have "map_of (rev (parse_pairs (''A='' @ [quote_char] @ ''2'' @ [quote_char]))) ''A'' = Some ''2''" by code_simp
  ultimately show ?thesis using environment_overrides [of "\<lambda>xs. xs" "''--config A=1''"] by fastforce
qed

end
