(* ===== verification/L0_Graph.thy ===== *)
theory L0_Graph
  imports Nested_Structs Elf_Parser Elf_Arguments Graph_Profiling Build_Flags
begin

text \<open>
  Graphs (\<open>umd/level_zero_driver/source/ext/graph.cpp\<close>): where the
  blob of a graph comes from, the parser and the metadata made from it, the argument slots, the
  profiling pools. The device context of a graph is the one in the buffer manager of its parser. What
  the loader does when it reads a blob is third-party code: a function on the manager.
\<close>

section \<open>Structures\<close>

text \<open>The structures that the handlers of a graph know, with their \<open>pNext\<close>.\<close>

datatype graph_struct =
    Argument_tensor u64 u64
  | Argument_strides_value "u32 list" u64
  | Argument_property_strides bool u64
  | Other_struct u64

type_synonym structs = "u64 \<Rightarrow> graph_struct"

section \<open>State\<close>

datatype prop_flag = PRE_COMPILED | LOADED_FROM_CACHE | COMPILED | NO_STANDARD_ALLOCATION | PROFILING_ENABLED

record ('h, 'k) graph =
  g_blob :: blob_container
  propFlags :: "prop_flag set"
  inputArgs :: "u64 list"
  outputArgs :: "u64 list"
  g_inputStrides :: strides_map
  g_outputStrides :: strides_map
  argumentProperties :: "graph_argument list"
  argumentMetadata :: "argument_metadata list"
  profilingOutputSize :: u32
  g_parser :: "('h, 'k) elf_object"
  profilingPools :: "(nat \<times> profiling_pool) list"
  next_profiling_pool :: nat

section \<open>Arguments\<close>

definition setArgumentValue :: "u32 \<Rightarrow> u64 \<Rightarrow> ('h, 'k) graph \<Rightarrow> ze_result \<times> ('h, 'k) graph" where
  "setArgumentValue argIndex pArgValue g =
     (if pArgValue = 0 then (ZE_RESULT_ERROR_INVALID_NULL_POINTER, g)
      else if unat argIndex \<ge> length (argumentProperties g) then (ZE_RESULT_ERROR_INVALID_ARGUMENT, g)
      else if unat argIndex < length (inputArgs g)
      then (ZE_RESULT_SUCCESS, g\<lparr>inputArgs := (inputArgs g)[unat argIndex := pArgValue],
                                 g_inputStrides := (g_inputStrides g)(argIndex := None)\<rparr>)
      else let i = argIndex - of_nat (length (inputArgs g))
           in (ZE_RESULT_SUCCESS, g\<lparr>outputArgs := (outputArgs g)[unat i := pArgValue],
                                    g_outputStrides := (g_outputStrides g)(i := None)\<rparr>))"

text \<open>\<open>ArgumentStrides\<close> is an array of five numbers.\<close>

definition gatherArgumentValues :: "structs \<Rightarrow> u32 \<Rightarrow> u64 \<Rightarrow> ('h, 'k) graph \<Rightarrow> u64 option \<times> ('h, 'k) graph" where
  "gatherArgumentValues structs argIndex p g =
     (let numInputs = length (inputArgs g); isInput = unat argIndex < numInputs; i = argIndex - of_nat numInputs in
      case structs p of
        Argument_tensor pTensor next \<Rightarrow>
          (Some next, if isInput then g\<lparr>inputArgs := (inputArgs g)[unat argIndex := pTensor]\<rparr>
                      else g\<lparr>outputArgs := (outputArgs g)[unat i := pTensor]\<rparr>)
      | Argument_strides_value userStrides next \<Rightarrow>
          if \<not> supportsDynamicStrides (argumentProperties g ! unat argIndex) then (None, g)
          else (Some next, if isInput then g\<lparr>g_inputStrides := (g_inputStrides g)(argIndex \<mapsto> take 5 userStrides)\<rparr>
                           else g\<lparr>g_outputStrides := (g_outputStrides g)(i \<mapsto> take 5 userStrides)\<rparr>)
      | _ \<Rightarrow> (None, g))"

definition setArgumentValue2 :: "structs \<Rightarrow> u32 \<Rightarrow> u64 \<Rightarrow> ('h, 'k) graph \<Rightarrow> ze_result \<times> ('h, 'k) graph" where
  "setArgumentValue2 structs argIndex pArgValue g =
     (if pArgValue = 0 then (ZE_RESULT_ERROR_INVALID_NULL_POINTER, g)
      else if unat argIndex \<ge> length (argumentProperties g) then (ZE_RESULT_ERROR_INVALID_ARGUMENT, g)
      else let numInputs = length (inputArgs g);
               g1 = (if unat argIndex < numInputs then g\<lparr>g_inputStrides := (g_inputStrides g)(argIndex := None)\<rparr>
                     else g\<lparr>g_outputStrides := (g_outputStrides g)(argIndex - of_nat numInputs := None)\<rparr>)
           in case handleNestedStructs (gatherArgumentValues structs argIndex) pArgValue g1 of
                (ok, g2) \<Rightarrow> (if ok then ZE_RESULT_SUCCESS else ZE_RESULT_ERROR_INVALID_ARGUMENT, g2))"

text \<open>\<open>getProperties\<close>, \<open>getProperties2\<close> and \<open>getProperties3\<close> fill more and more fields.\<close>

datatype graph_stage = ZE_GRAPH_STAGE_INITIALIZE | Other_stage

definition getProperties :: "bool \<Rightarrow> ('h, 'k) graph \<Rightarrow> exn + ze_result \<times> u32 option" where
  "getProperties there g =
     (if \<not> there then Inr (ZE_RESULT_ERROR_INVALID_NULL_POINTER, None)
      else map_sum id (\<lambda>n. (ZE_RESULT_SUCCESS, Some n)) (safe_cast_u32 (of_nat (length (argumentProperties g)))))"

definition getProperties2 :: "('h, 'k) graph \<Rightarrow> exn + u32 \<times> graph_stage" where
  "getProperties2 g = map_sum id (\<lambda>n. (n, ZE_GRAPH_STAGE_INITIALIZE)) (safe_cast_u32 (of_nat (length (argumentProperties g))))"

definition getProperties3 :: "('h, 'k) graph \<Rightarrow> exn + u32 \<times> graph_stage \<times> prop_flag set" where
  "getProperties3 g =
     map_sum id (\<lambda>n. (n, ZE_GRAPH_STAGE_INITIALIZE, propFlags g)) (safe_cast_u32 (of_nat (length (argumentProperties g))))"

text \<open>
  The output structure of \<open>getArgumentProperties\<close>: its type, its \<open>pNext\<close> and its contents. The three
  versions of the function differ in the type they expect, and in the part \<open>visible\<close> of the properties that
  the structure of the version holds; \<open>stored\<close> is the type that the parser has set in the properties.
\<close>

record 'v out_struct =
  out_stype :: u32
  out_pNext :: u64
  out_value :: 'v

definition setArgumentProperties :: "u32 \<Rightarrow> ('h, 'k) graph \<Rightarrow> u64 \<Rightarrow> structs \<Rightarrow> u64 option \<times> structs" where
  "setArgumentProperties argIndex g p structs =
     (case structs p of
        Argument_property_strides _ next \<Rightarrow>
          (Some next, structs(p := Argument_property_strides
             (supportsDynamicStrides (argumentProperties g ! unat argIndex)) next))
      | _ \<Rightarrow> (None, structs))"

definition getArgumentProperties_n ::
  "u32 \<Rightarrow> u32 \<Rightarrow> (argument_properties \<Rightarrow> 'v) \<Rightarrow> u32 \<Rightarrow> ('h, 'k) graph \<Rightarrow> 'v out_struct option \<times> structs
     \<Rightarrow> ze_result \<times> 'v out_struct option \<times> structs" where
  "getArgumentProperties_n expected stored visible argIndex g out_structs =
     (case out_structs of
        (None, structs) \<Rightarrow> (ZE_RESULT_ERROR_INVALID_NULL_POINTER, None, structs)
      | (Some out, structs) \<Rightarrow>
          if unat argIndex \<ge> length (argumentProperties g) then (ZE_RESULT_ERROR_INVALID_ARGUMENT, Some out, structs)
          else let out1 = \<lparr>out_stype = stored, out_pNext = 0, out_value = visible (properties (argumentProperties g ! unat argIndex))\<rparr>;
                   out2 = out1\<lparr>out_stype := out_stype out, out_pNext := out_pNext out\<rparr>
               in if out_stype out = expected
                  then (case handleNestedStructs (setArgumentProperties argIndex g) (out_pNext out) structs of
                          (False, structs') \<Rightarrow> (ZE_RESULT_ERROR_INVALID_ARGUMENT, Some out1, structs')
                        | (True, structs') \<Rightarrow> (ZE_RESULT_SUCCESS, Some out2, structs'))
                  else (ZE_RESULT_SUCCESS, Some out2, structs))"

definition graph_getArgumentMetadata ::
  "u32 \<Rightarrow> ('h, 'k) graph \<Rightarrow> argument_metadata out_struct option \<Rightarrow> ze_result \<times> argument_metadata out_struct option" where
  "graph_getArgumentMetadata argIndex g oout =
     (case oout of
        None \<Rightarrow> (ZE_RESULT_ERROR_INVALID_NULL_POINTER, None)
      | Some out \<Rightarrow>
          if unat argIndex \<ge> length (argumentMetadata g) then (ZE_RESULT_ERROR_INVALID_ARGUMENT, Some out)
          else (ZE_RESULT_SUCCESS, Some (out\<lparr>out_value := argumentMetadata g ! unat argIndex\<rparr>)))"

section \<open>The native binary\<close>

definition getNativeBinary :: "u64 option \<Rightarrow> bool \<Rightarrow> ('h, 'k) graph \<Rightarrow> ze_result \<times> u64 option \<times> bytes option" where
  "getNativeBinary pSize wanted g =
     (case pSize of
        None \<Rightarrow> (ZE_RESULT_ERROR_INVALID_NULL_POINTER, None, None)
      | Some n \<Rightarrow>
          if blob_size (g_blob g) = 0 then (ZE_RESULT_ERROR_UNINITIALIZED, Some n, None)
          else let n' = if n = 0 \<or> n > blob_size (g_blob g) then blob_size (g_blob g) else n
               in (ZE_RESULT_SUCCESS, Some n', if wanted then Some (take (unat n') (blob_data (g_blob g))) else None))"

definition getNativeBinary2 :: "('h, 'k) graph \<Rightarrow> u64 \<times> u64" where
  "getNativeBinary2 g = (blob_size (g_blob g), blob_ptr (g_blob g))"

section \<open>Logs\<close>

text \<open>\<open>GraphBuildLog::getLogString\<close> and \<open>Graph::getLogString\<close>, on the log of the object or of the thread.\<close>

definition getLogString :: "u32 option \<Rightarrow> bool \<Rightarrow> string \<Rightarrow> ze_result \<times> u32 option \<times> string option" where
  "getLogString pSize wanted log =
     (case pSize of
        None \<Rightarrow> (ZE_RESULT_ERROR_INVALID_NULL_POINTER, None, None)
      | Some n \<Rightarrow>
          if \<not> wanted then (ZE_RESULT_SUCCESS, Some (of_nat (length log + 1)), None)
          else (case copy_log n log of (n', msg) \<Rightarrow> (ZE_RESULT_SUCCESS, Some n', Some msg)))"

section \<open>The environment of a graph\<close>

text \<open>
  The bits of the flags and the formats are those of the Level Zero headers. \<open>read_hpi\<close> is the constructor
  of the loader's object: it may allocate through the manager and read the blob, and it fails with an
  exception and a message. The compiler, the cache and the environment are the driver's.
\<close>

record graph_codes =
  FORMAT_NATIVE :: u32
  FORMAT_NGRAPH_LITE :: u32
  FLAG_INPUT_GRAPH_PERSISTENT :: u32
  FLAG_DISABLE_CACHING :: u32
  FLAG_ENABLE_PROFILING :: u32

record ('c, 'p, 'q, 'h, 'k) graph_env =
  codes :: graph_codes
  ge_city :: city
  driverVersion :: u32
  ge_cache :: disk_cache
  ge_fs :: fs_env
  ge_vcl :: "('c, 'p, 'q) vcl"
  extra_build_flags :: "string option"
  ge_order :: iteration
  elfMagic :: "bytes \<Rightarrow> bool"
  ge_flags :: elf_flags
  ge_lib :: "'h hpi_lib"
  read_hpi :: "hpi_config \<Rightarrow> blob_container \<Rightarrow> 'k elf_manager \<Rightarrow> ((hpi_error \<times> string) + 'h) \<times> 'k elf_manager"
  ge_metadata :: "'h \<Rightarrow> network_metadata"
  ge_profBuffers :: "'h \<Rightarrow> u64 list"
  ge_limits :: ze_limits
  toMetadataType :: "nat \<Rightarrow> nat option"

record 'k graph_world =
  gw_ctx :: "'k dev_ctx"
  gw_fs :: file_sys
  gw_compiler :: compiler_state
  lastFailLog :: string

record graph_input =
  gi_format :: u32
  gi_pInput :: u64
  gi_data :: bytes
  gi_flags :: u32
  gi_buildFlags :: "string option"
  gi_inputHash :: "bytes option"

section \<open>Where the blob comes from\<close>

definition plain_blob :: "u64 \<Rightarrow> bytes \<Rightarrow> buffer_object option \<Rightarrow> blob_container" where
  "plain_blob p bs obo = \<lparr>blob_ptr = p, blob_data = bs, backingStore = No_store, npu_buffer = obo\<rparr>"

definition getBlobContainerNative ::
  "graph_codes \<Rightarrow> graph_input \<Rightarrow> 'k dev_ctx \<Rightarrow> blob_container \<times> 'k dev_ctx" where
  "getBlobContainerNative cs d c =
     (if gi_flags d AND FLAG_INPUT_GRAPH_PERSISTENT cs \<noteq> 0
      then (case findBufferObject c (gi_pInput d) of
              Some bo \<Rightarrow> (plain_blob (gi_pInput d) (gi_data d) (Some bo), take_ref (bo_id bo) c)
            | None \<Rightarrow>
                (case createUntrackedBufferObjectFromUserPtr c (gi_pInput d) (of_nat (length (gi_data d))) True of
                   (obo, c') \<Rightarrow> (plain_blob (gi_pInput d) (gi_data d) obo, c')))
      else (plain_blob (gi_pInput d) (gi_data d) None, c))"

definition addImportedBufferFromBlob :: "blob_container \<Rightarrow> 'k dev_ctx \<Rightarrow> blob_container \<times> 'k dev_ctx" where
  "addImportedBufferFromBlob b c =
     (case createUntrackedBufferObjectFromUserPtr c (blob_ptr b) (blob_size b) True of
        (None, c') \<Rightarrow> (b, c') | (Some bo, c') \<Rightarrow> (b\<lparr>npu_buffer := Some bo\<rparr>, c'))"

text \<open>What the key of the cache takes from the compiler.\<close>

definition compiler_key :: "('c, 'p, 'q) vcl \<Rightarrow> compiler_state \<Rightarrow> (bytes \<times> bytes \<times> bytes) option" where
  "compiler_key v s =
     map_option (\<lambda>p. (map of_char (cp_id p), enc16 (fst (cp_version p)) @ enc16 (snd (cp_version p)), enc32 (cp_supportedOpsets p)))
       (snd (getCompilerProperties v True s))"

definition graph_key :: "('c, 'p, 'q, 'h, 'k) graph_env \<Rightarrow> graph_input \<Rightarrow> string \<Rightarrow> compiler_state \<Rightarrow> fname" where
  "graph_key env d flags s =
     computeKey (ge_city env) (driverVersion env) (compiler_key (ge_vcl env) s) (ge_cache env)
       \<lparr>gd_format = gi_format d, gd_input = gi_data d, gd_buildFlags = Some (map of_char flags), gd_flags = gi_flags d,
         gd_inputHash = gi_inputHash d\<rparr>"

definition cache_message :: "string \<Rightarrow> string" where
  "cache_message st = ''ZE DynamicCaching cache_status_t: cache_status_t::'' @ st @ [CHR 0x0A]"

text \<open>
  The compiled blob, from the compiler. A result that is not success is thrown; so is success without a
  blob. \<open>None\<close> is a read outside of a mapping of the cache.
\<close>

definition compile_blob ::
  "('c, 'p, 'q, 'h, 'k) graph_env \<Rightarrow> graph_input \<Rightarrow> string \<Rightarrow> string \<Rightarrow> 'k graph_world
     \<Rightarrow> (((exn + ze_result) + blob_container) \<times> string \<times> 'k graph_world)" where
  "compile_blob env d flags log w =
     (case getCompiledBlob (ge_vcl env) (hwInfo (gw_ctx w)) (gi_data d) flags log (gw_compiler w) of
        ((r, ob), log', s') \<Rightarrow>
          (case (if r \<noteq> ZE_RESULT_SUCCESS then None else ob) of
             None \<Rightarrow> (Inl (Inr r), log', w\<lparr>gw_compiler := s'\<rparr>)
           | Some b \<Rightarrow> (Inr b, log', w\<lparr>gw_compiler := s'\<rparr>)))"

text \<open>\<open>setBlob\<close> hands back the blob, or the mapping of the file it was stored in.\<close>

definition store_compiled ::
  "('c, 'p, 'q, 'h, 'k) graph_env \<Rightarrow> fname \<Rightarrow> blob_container \<Rightarrow> string \<Rightarrow> 'k graph_world
     \<Rightarrow> (blob_container \<times> string \<times> 'k graph_world) option" where
  "store_compiled env key b log w =
     (case setBlob (ge_city env) (ge_fs env) (ge_cache env) key (Some b) (gw_fs w) of
        None \<Rightarrow> None
      | Some (ob, fs') \<Rightarrow>
          Some (the ob, log @ cache_message ''stored'', w\<lparr>gw_fs := fs', lastFailLog := cache_message ''stored''\<rparr>))"

definition with_import :: "blob_container \<Rightarrow> 'k graph_world \<Rightarrow> blob_container \<times> 'k graph_world" where
  "with_import b w = (case addImportedBufferFromBlob b (gw_ctx w) of (b', c) \<Rightarrow> (b', w\<lparr>gw_ctx := c\<rparr>))"

definition getBlobContainerNGraphLite ::
  "('c, 'p, 'q, 'h, 'k) graph_env \<Rightarrow> graph_input \<Rightarrow> string \<Rightarrow> 'k graph_world
     \<Rightarrow> (((exn + ze_result) + blob_container \<times> prop_flag) \<times> string \<times> 'k graph_world) option" where
  "getBlobContainerNGraphLite env d log w =
     (case addDeviceConfigToBuildFlags (gi_flags d AND FLAG_ENABLE_PROFILING (codes env) \<noteq> 0) (extra_build_flags env)
             (ge_order env) (case gi_buildFlags d of None \<Rightarrow> [] | Some f \<Rightarrow> f) of
        Inl e \<Rightarrow> Some (Inl (Inl e), log, w)
      | Inr flags \<Rightarrow>
          if gi_flags d AND FLAG_DISABLE_CACHING (codes env) \<noteq> 0
          then (case compile_blob env d flags log w of
                  (Inl e, log1, w1) \<Rightarrow> Some (Inl e, log1, w1)
                | (Inr b, log1, w1) \<Rightarrow> (case with_import b w1 of (b', w2) \<Rightarrow> Some (Inr (b', COMPILED), log1, w2)))
          else let key = graph_key env d flags (gw_compiler w)
               in (case getBlob (ge_city env) (ge_fs env) (ge_cache env) key (gw_fs w) of
                     None \<Rightarrow> None
                   | Some (Some b, fs') \<Rightarrow>
                       (case with_import b (w\<lparr>gw_fs := fs', lastFailLog := cache_message ''found''\<rparr>) of
                          (b', w2) \<Rightarrow> Some (Inr (b', LOADED_FROM_CACHE), log @ cache_message ''found'', w2))
                   | Some (None, fs') \<Rightarrow>
                       (case compile_blob env d flags log (w\<lparr>gw_fs := fs'\<rparr>) of
                          (Inl e, log1, w1) \<Rightarrow> Some (Inl e, log1, w1)
                        | (Inr b, log1, w1) \<Rightarrow>
                            (case store_compiled env key b log1 w1 of
                               None \<Rightarrow> None
                             | Some (b1, log2, w2) \<Rightarrow>
                                 (case with_import b1 w2 of (b', w3) \<Rightarrow> Some (Inr (b', COMPILED), log2, w3))))))"

section \<open>Creation and destruction\<close>

text \<open>What goes with a blob, with a buffer manager and with a parser.\<close>

definition destroy_blob :: "blob_container \<Rightarrow> 'k graph_world \<Rightarrow> 'k graph_world" where
  "destroy_blob b w =
     w\<lparr>gw_ctx := (case npu_buffer b of None \<Rightarrow> gw_ctx w | Some bo \<Rightarrow> drop_ref bo (gw_ctx w)),
       gw_fs := (case backingStore b of File_store f \<Rightarrow> os_file_close f (gw_fs w) | _ \<Rightarrow> gw_fs w)\<rparr>"

definition destroy_manager :: "'k elf_manager \<Rightarrow> 'k dev_ctx" where
  "destroy_manager m = drop_refs (map snd (tracedElfParserBuffers m)) (em_ctx m)"

text \<open>\<open>ElfParser::getElfParser\<close>: a null pointer when the loader fails without a result of its own.\<close>

definition getElfParser ::
  "('c, 'p, 'q, 'h, 'k) graph_env \<Rightarrow> 'k dev_ctx \<Rightarrow> blob_container \<Rightarrow> string
     \<Rightarrow> (ze_result + ('h, 'k) elf_object option) \<times> string \<times> 'k dev_ctx" where
  "getElfParser env c b log =
     (case read_hpi env (hpi_config_of (hwInfo c)) b (new_elf_manager c) of
        (Inl (e, msg), m) \<Rightarrow>
          (map_sum id (\<lambda>_. None) (createHostParsedInference (Inl e :: hpi_error + 'h)), log @ msg @ [CHR 0x0A], destroy_manager m)
      | (Inr h, m) \<Rightarrow> (Inr (Some \<lparr>elf_lib = ge_lib env, elf_mgr = m, elf_pool = new_pool h\<rparr>), log, em_ctx m))"

definition destroy_elf :: "('h, 'k) elf_object \<Rightarrow> 'k dev_ctx" where
  "destroy_elf e = destroy_manager (destroy_parser (elf_mgr e))"

text \<open>\<open>getBlobContainerNative\<close> and \<open>getBlobContainerNGraphLite\<close>, by the format.\<close>

definition getBlobContainer ::
  "('c, 'p, 'q, 'h, 'k) graph_env \<Rightarrow> graph_input \<Rightarrow> string \<Rightarrow> 'k graph_world
     \<Rightarrow> (((exn + ze_result) + blob_container \<times> prop_flag) \<times> string \<times> 'k graph_world) option" where
  "getBlobContainer env d log w =
     (if gi_format d = FORMAT_NATIVE (codes env)
      then (case getBlobContainerNative (codes env) d (gw_ctx w) of
              (b, c) \<Rightarrow> Some (Inr (b, PRE_COMPILED), log, w\<lparr>gw_ctx := c\<rparr>))
      else if gi_format d = FORMAT_NGRAPH_LITE (codes env) then getBlobContainerNGraphLite env d log w
      else Some (Inl (Inr ZE_RESULT_ERROR_INVALID_ARGUMENT),
                 log @ ''[NPU_DRV] Graph desc (ze_graph_desc_2_t) format invalid.'' @ [CHR 0x0A], w))"

text \<open>The graph of a blob and its parser.\<close>

definition graph_of ::
  "blob_container \<Rightarrow> prop_flag \<Rightarrow> ('h, 'k) elf_object \<Rightarrow> graph_argument list \<times> argument_metadata list \<times> u32 \<Rightarrow> ('h, 'k) graph" where
  "graph_of b fl e parsed =
     (case parsed of (props, args, sz) \<Rightarrow>
        \<lparr>g_blob = b,
         propFlags = {fl} \<union> (if hasBackingStore b then {} else {NO_STANDARD_ALLOCATION}) \<union> (if sz > 0 then {PROFILING_ENABLED} else {}),
         inputArgs = map (\<lambda>_. 0) (filter (\<lambda>a. arg_type (properties a) = ARGUMENT_INPUT) props),
         outputArgs = map (\<lambda>_. 0) (filter (\<lambda>a. arg_type (properties a) \<noteq> ARGUMENT_INPUT) props),
         g_inputStrides = Map.empty, g_outputStrides = Map.empty, argumentProperties = props, argumentMetadata = args,
         profilingOutputSize = sz, g_parser = e, profilingPools = [], next_profiling_pool = 0\<rparr>)"

definition graph_from_blob ::
  "('c, 'p, 'q, 'h, 'k) graph_env \<Rightarrow> blob_container \<Rightarrow> prop_flag \<Rightarrow> string \<Rightarrow> 'k graph_world
     \<Rightarrow> (((exn + ze_result) + ('h, 'k) graph) \<times> string \<times> 'k graph_world) option" where
  "graph_from_blob env b fl log w =
     (if \<not> checkMagic (elfMagic env) (Some b)
      then Some (Inl (Inr ZE_RESULT_ERROR_INVALID_NATIVE_BINARY),
                 log @ ''[NPU_DRV] Failed to recognize native binary format'' @ [CHR 0x0A], destroy_blob b w)
      else (case getElfParser env (gw_ctx w) b log of
              (Inl z, log1, c) \<Rightarrow> Some (Inl (Inr z), log1, destroy_blob b (w\<lparr>gw_ctx := c\<rparr>))
            | (Inr None, log1, c) \<Rightarrow> Some (Inl (Inr ZE_RESULT_ERROR_INVALID_ARGUMENT), log1, destroy_blob b (w\<lparr>gw_ctx := c\<rparr>))
            | (Inr (Some e), log1, c) \<Rightarrow>
                let failed = destroy_blob b (w\<lparr>gw_ctx := destroy_elf e\<rparr>); h = headHpi (elf_pool e) in
                (case elf_parse (ge_limits env) (toMetadataType env) (ge_metadata env h) (ge_profBuffers env h) of
                   None \<Rightarrow> None
                 | Some (Inl x) \<Rightarrow> Some (Inl (Inl x), log1, failed)
                 | Some (Inr (Inl z)) \<Rightarrow> Some (Inl (Inr ZE_RESULT_ERROR_INVALID_ARGUMENT), log1, failed)
                 | Some (Inr (Inr parsed)) \<Rightarrow> Some (Inr (graph_of b fl e parsed), log1, w\<lparr>gw_ctx := c\<rparr>))))"

definition graph_initialize ::
  "('c, 'p, 'q, 'h, 'k) graph_env \<Rightarrow> graph_input \<Rightarrow> string \<Rightarrow> 'k graph_world
     \<Rightarrow> (((exn + ze_result) + ('h, 'k) graph) \<times> string \<times> 'k graph_world) option" where
  "graph_initialize env d log w =
     (if gi_pInput d = 0 then Some (Inl (Inr ZE_RESULT_ERROR_INVALID_NULL_POINTER), log, w)
      else if length (gi_data d) = 0 then Some (Inl (Inr ZE_RESULT_ERROR_INVALID_SIZE), log, w)
      else (case getBlobContainer env d log w of
              None \<Rightarrow> None
            | Some (Inl e, log1, w1) \<Rightarrow> Some (Inl e, log1, w1)
            | Some (Inr (b, fl), log1, w1) \<Rightarrow> graph_from_blob env b fl log1 w1))"

text \<open>
  \<open>Graph::create\<close>: only a \<open>DriverError\<close> is caught; the last message of the thread is then the build log.
\<close>

definition graph_create ::
  "('c, 'p, 'q, 'h, 'k) graph_env \<Rightarrow> graph_input option \<Rightarrow> bool \<Rightarrow> 'k graph_world
     \<Rightarrow> ((exn + ze_result) \<times> ('h, 'k) graph option \<times> string \<times> 'k graph_world) option" where
  "graph_create env od phGraph w =
     (case od of
        None \<Rightarrow> Some (Inr ZE_RESULT_ERROR_INVALID_NULL_POINTER, None, [], w)
      | Some d \<Rightarrow>
          if \<not> phGraph then Some (Inr ZE_RESULT_ERROR_INVALID_NULL_POINTER, None, [], w)
          else (case graph_initialize env d [] (w\<lparr>lastFailLog := []\<rparr>) of
                  None \<Rightarrow> None
                | Some (Inl (Inl e), log, w1) \<Rightarrow> Some (Inl e, None, log, w1)
                | Some (Inl (Inr z), log, w1) \<Rightarrow> Some (Inr z, None, log, w1\<lparr>lastFailLog := log\<rparr>)
                | Some (Inr g, log, w1) \<Rightarrow> Some (Inr ZE_RESULT_SUCCESS, Some g, log, w1)))"

section \<open>Profiling pools\<close>

definition set_graph_ctx :: "'k dev_ctx \<Rightarrow> ('h, 'k) graph \<Rightarrow> ('h, 'k) graph" where
  "set_graph_ctx c g = g\<lparr>g_parser := set_elf_ctx c (g_parser g)\<rparr>"

text \<open>An exception of the loader's memory manager is no \<open>DriverError\<close>; it leaves the function.\<close>

definition createProfilingPool ::
  "elf_flags \<Rightarrow> u32 \<Rightarrow> bool \<Rightarrow> ('h, 'k) graph \<Rightarrow> (elf_error + ze_result \<times> nat option) \<times> ('h, 'k) graph" where
  "createProfilingPool fl n phProfilingPool g =
     (if profilingOutputSize g = 0 then (Inr (ZE_RESULT_ERROR_NOT_AVAILABLE, None), g)
      else if n = 0 then (Inr (ZE_RESULT_ERROR_INVALID_SIZE, None), g)
      else if \<not> phProfilingPool then (Inr (ZE_RESULT_ERROR_INVALID_NULL_POINTER, None), g)
      else (case allocateInternal fl (query_stride (profilingOutputSize g) * ucast n) (elf_mgr (g_parser g)) of
              (Inl e, m) \<Rightarrow> (Inl e, g\<lparr>g_parser := (g_parser g)\<lparr>elf_mgr := m\<rparr>\<rparr>)
            | (Inr obo, m) \<Rightarrow>
                let c = (case obo of None \<Rightarrow> em_ctx m | Some bo \<Rightarrow> take_ref (bo_id bo) (em_ctx m));
                    g1 = g\<lparr>g_parser := (g_parser g)\<lparr>elf_mgr := m\<rparr>\<rparr>
                in (case new_profiling_pool (profilingOutputSize g) n (blob_data (g_blob g)) obo (ctx_world c) of
                      (Inl z, _) \<Rightarrow>
                        (Inr (z, None), set_graph_ctx (case obo of None \<Rightarrow> c | Some bo \<Rightarrow> drop_ref bo c) g1)
                    | (Inr p, w) \<Rightarrow>
                        (Inr (ZE_RESULT_SUCCESS, Some (next_profiling_pool g)),
                         set_graph_ctx (c\<lparr>ctx_world := w\<rparr>)
                           (g1\<lparr>profilingPools := (next_profiling_pool g, p) # profilingPools g,
                               next_profiling_pool := next_profiling_pool g + 1\<rparr>)))))"

text \<open>The handle is that of a pool of this graph; any other one is outside of the model.\<close>

definition graph_destroyProfilingPool :: "nat \<Rightarrow> ('h, 'k) graph \<Rightarrow> ze_result \<times> ('h, 'k) graph" where
  "graph_destroyProfilingPool i g =
     (case map_of (profilingPools g) i of
        None \<Rightarrow> (ZE_RESULT_ERROR_INVALID_NULL_HANDLE, g)
      | Some p \<Rightarrow>
          if destroyProfilingPool p \<noteq> ZE_RESULT_SUCCESS then (destroyProfilingPool p, g)
          else (ZE_RESULT_SUCCESS,
                set_graph_ctx (drop_ref (poolBuffer p) (elf_ctx (g_parser g)))
                  (g\<lparr>profilingPools := filter (\<lambda>(j, _). j \<noteq> i) (profilingPools g)\<rparr>)))"

section \<open>Commands\<close>

definition query_memory_of :: "profiling_query \<Rightarrow> query_memory" where
  "query_memory_of q = \<lparr>qm_ptr = pq_data q, qm_bo = Some (pq_bo q), qm_size = pq_size q\<rparr>"

definition graph_allocateExecuteCommand ::
  "profiling_query option \<Rightarrow> ('h, 'k) graph
     \<Rightarrow> (((exn + ze_result) + (hpi_ref \<times> 'h command) option) \<times> ('h, 'k) graph) option" where
  "graph_allocateExecuteCommand oq g =
     map_option (\<lambda>(r, e). (r, g\<lparr>g_parser := e\<rparr>))
       (createInferenceExecuteCommand (g_parser g) (inputArgs g) (outputArgs g) (g_inputStrides g) (g_outputStrides g)
          (map_option query_memory_of oq))"

definition graph_allocateInitCommand :: "('h, 'k) graph \<Rightarrow> 'h command option \<times> ('h, 'k) graph" where
  "graph_allocateInitCommand g = (case allocateInitCommand (g_parser g) of (c, e) \<Rightarrow> (c, g\<lparr>g_parser := e\<rparr>))"

definition parserInitialize :: "('h, 'k) graph \<Rightarrow> ze_result \<times> ('h, 'k) graph" where
  "parserInitialize g = (case elf_initialize (g_parser g) of (r, e) \<Rightarrow> (r, g\<lparr>g_parser := e\<rparr>))"

text \<open>\<open>Graph::destroy\<close>: the pools, the parser when no command shares it, and the blob.\<close>

definition graph_destroy :: "bool \<Rightarrow> ('h, 'k) graph \<Rightarrow> 'k graph_world \<Rightarrow> 'k graph_world" where
  "graph_destroy shared g w =
     (let e = g_parser g;
          c1 = removeExpiredInternalBuffers (elf_ctx e);
          c2 = fold (\<lambda>(_, p). drop_ref (poolBuffer p)) (profilingPools g) c1;
          c3 = (if shared then c2 else destroy_elf (set_elf_ctx c2 e))
      in destroy_blob (g_blob g) (w\<lparr>gw_ctx := c3\<rparr>))"

section \<open>Options\<close>

datatype option_type = ZE_NPU_DRIVER_OPTIONS | ZE_NPU_COMPILER_OPTIONS | Other_options

definition graph_getSupportedOptions ::
  "('c, 'p, 'q) vcl \<Rightarrow> hw_info \<Rightarrow> option_type \<Rightarrow> u64 \<Rightarrow> bytes option \<Rightarrow> compiler_state
     \<Rightarrow> (ze_result \<times> bytes option \<times> u64) \<times> compiler_state" where
  "graph_getSupportedOptions v hw ty n buf s =
     (case ty of
        ZE_NPU_DRIVER_OPTIONS \<Rightarrow> ((ZE_RESULT_SUCCESS, buf, 0), s)
      | ZE_NPU_COMPILER_OPTIONS \<Rightarrow> getSupportedOptions v (Some hw) n buf s
      | Other_options \<Rightarrow> ((ZE_RESULT_ERROR_INVALID_ENUMERATION, buf, n), s))"

definition graph_isOptionSupported ::
  "('c, 'p, 'q) vcl \<Rightarrow> hw_info \<Rightarrow> option_type \<Rightarrow> string \<Rightarrow> string option \<Rightarrow> compiler_state \<Rightarrow> ze_result \<times> compiler_state" where
  "graph_isOptionSupported v hw ty opt val s =
     (case ty of
        ZE_NPU_DRIVER_OPTIONS \<Rightarrow> (ZE_RESULT_ERROR_UNSUPPORTED_FEATURE, s)
      | ZE_NPU_COMPILER_OPTIONS \<Rightarrow> isOptionSupported v (Some hw) opt val s
      | Other_options \<Rightarrow> (ZE_RESULT_ERROR_INVALID_ENUMERATION, s))"

text \<open>The formats that a device supports depend on the compiler.\<close>

record device_graph_properties =
  compiler_version :: "u16 \<times> u16"
  ngraph_supported :: bool
  maxOVOpsetVersionSupported :: u32

definition getDeviceGraphProperties ::
  "('c, 'p, 'q) vcl \<Rightarrow> compiler_state \<Rightarrow> device_graph_properties option \<Rightarrow> ze_result \<times> device_graph_properties option" where
  "getDeviceGraphProperties v s op =
     (case op of
        None \<Rightarrow> (ZE_RESULT_ERROR_INVALID_NULL_POINTER, None)
      | Some p \<Rightarrow>
          (ZE_RESULT_SUCCESS, Some
             (case getCompilerProperties v True s of
                (ZE_RESULT_SUCCESS, Some cp) \<Rightarrow>
                  p\<lparr>compiler_version := cp_version cp, ngraph_supported := True, maxOVOpsetVersionSupported := cp_supportedOpsets cp\<rparr>
              | _ \<Rightarrow> p\<lparr>ngraph_supported := False\<rparr>)))"

text \<open>
  The second version adds the versions of the runtime and of the ELF library; the latter is the loader's
  answer for the architecture.
\<close>

definition getDeviceGraphProperties2 ::
  "('c, 'p, 'q) vcl \<Rightarrow> (arch_kind \<Rightarrow> u32 \<times> u32 \<times> u32) \<Rightarrow> hw_info \<Rightarrow> compiler_state \<Rightarrow> device_graph_properties option
     \<Rightarrow> ze_result \<times> (device_graph_properties \<times> (u32 \<times> u32) \<times> u32 \<times> u32 \<times> u32) option" where
  "getDeviceGraphProperties2 v getLibraryELFVersion hw s op =
     (case getDeviceGraphProperties v s op of
        (r, None) \<Rightarrow> (ZE_RESULT_ERROR_INVALID_NULL_POINTER, None)
      | (r, Some p) \<Rightarrow>
          (ZE_RESULT_SUCCESS,
           Some (p, toVersion (ucast (ucast (fwMappedInferenceVersion hw) :: u32)), getLibraryELFVersion (toArchKind (deviceId hw)))))"

end
