(* ===== verification/L0_Graph_Props.thy ===== *)
theory L0_Graph_Props
  imports L0_Graph Disk_Cache_Props Elf_Props
begin

text \<open>
  Graphs: what the argument slots are, what creation returns,
  and what becomes of the memory of profiling pools.
\<close>

section \<open>The argument slots\<close>

text \<open>The arguments of a graph are one list of slots, each with its strides.\<close>

definition arg_slots :: "('h, 'k) graph \<Rightarrow> u64 list" where
  "arg_slots g = inputArgs g @ outputArgs g"

definition arg_strides :: "('h, 'k) graph \<Rightarrow> nat \<Rightarrow> strides option" where
  "arg_strides g i =
     (if i < length (inputArgs g) then g_inputStrides g (of_nat i) else g_outputStrides g (of_nat (i - length (inputArgs g))))"

text \<open>The slots belong to the arguments, the inputs first.\<close>

definition graph_ok :: "('h, 'k) graph \<Rightarrow> bool" where
  "graph_ok g \<longleftrightarrow> length (arg_slots g) = length (argumentProperties g)
     \<and> (\<forall>i < length (argumentProperties g).
          (arg_type (properties (argumentProperties g ! i)) = ARGUMENT_INPUT) = (i < length (inputArgs g)))"

text \<open>The cell that a call is about: its pointer and its strides, and what a structure does to it.\<close>

definition cell_handler :: "structs \<Rightarrow> bool \<Rightarrow> u64 \<Rightarrow> u64 \<times> strides option \<Rightarrow> u64 option \<times> (u64 \<times> strides option)" where
  "cell_handler structs dynamic p cell =
     (case structs p of
        Argument_tensor pTensor next \<Rightarrow> (Some next, (pTensor, snd cell))
      | Argument_strides_value userStrides next \<Rightarrow>
          if dynamic then (Some next, (fst cell, Some (take 5 userStrides))) else (None, cell)
      | _ \<Rightarrow> (None, cell))"

text \<open>\<open>g'\<close> is \<open>g\<close> with the cell of the argument \<open>i\<close> replaced.\<close>

definition cell_put :: "('h, 'k) graph \<Rightarrow> nat \<Rightarrow> u64 \<times> strides option \<Rightarrow> ('h, 'k) graph \<Rightarrow> bool" where
  "cell_put g i cell g' \<longleftrightarrow>
     arg_slots g' = (arg_slots g)[i := fst cell]
     \<and> (\<forall>j < 2 ^ 32. arg_strides g' j = (if j = i then snd cell else arg_strides g j))
     \<and> length (inputArgs g') = length (inputArgs g) \<and> argumentProperties g' = argumentProperties g"

lemma cell_put_ok: "cell_put g i cell g' \<Longrightarrow> graph_ok g \<Longrightarrow> graph_ok g'"
  by (simp add: cell_put_def graph_ok_def)

lemma of_nat_32_eq:
  assumes "j < 2 ^ 32"
  shows "(of_nat j :: u32) = a \<longleftrightarrow> j = unat a"
proof -
  have "unat (of_nat j :: u32) = j" using assms by (simp add: unat_of_nat take_bit_nat_eq_self)
  then show ?thesis by (metis word_unat_eq_iff)
qed

lemma output_index:
  assumes "n \<le> unat (idx :: u32)"
  shows "unat (idx - of_nat n) = unat idx - n"
proof -
  have "unat (of_nat n :: u32) = n" using assms unat_lt_32 [of idx] by (simp add: unat_of_nat take_bit_nat_eq_self)
  then show ?thesis using assms by (simp add: unat_sub word_le_nat_alt)
qed

lemma put_input:
  assumes "unat idx < length (inputArgs g)"
  shows "cell_put g (unat idx) (v, st)
     (g\<lparr>inputArgs := (inputArgs g)[unat idx := v], g_inputStrides := (g_inputStrides g)(idx := st)\<rparr>)"
  using assms of_nat_32_eq by (auto simp: cell_put_def arg_slots_def arg_strides_def list_update_append)

lemma put_output:
  assumes "length (inputArgs g) \<le> unat idx"
  shows "cell_put g (unat idx) (v, st)
     (g\<lparr>outputArgs := (outputArgs g)[unat (idx - of_nat (length (inputArgs g))) := v],
        g_outputStrides := (g_outputStrides g)(idx - of_nat (length (inputArgs g)) := st)\<rparr>)"
  using assms of_nat_32_eq output_index [OF assms]
  by (auto simp: cell_put_def arg_slots_def arg_strides_def list_update_append)

lemma put_put: "cell_put g i c g1 \<Longrightarrow> cell_put g1 i d g2 \<Longrightarrow> cell_put g i d g2"
  by (simp add: cell_put_def)

lemma put_cell:
  assumes "cell_put g i c g1" "i < length (arg_slots g)" "i < 2 ^ 32"
  shows "c = (arg_slots g1 ! i, arg_strides g1 i)"
  using assms by (cases c) (simp add: cell_put_def)

lemma put_one:
  "unat idx < length (inputArgs g) \<Longrightarrow> cell_put g (unat idx) (v, arg_strides g (unat idx)) (g\<lparr>inputArgs := (inputArgs g)[unat idx := v]\<rparr>)"
  "unat idx < length (inputArgs g) \<Longrightarrow> cell_put g (unat idx) (arg_slots g ! unat idx, st) (g\<lparr>g_inputStrides := (g_inputStrides g)(idx := st)\<rparr>)"
  "length (inputArgs g) \<le> unat idx \<Longrightarrow> cell_put g (unat idx) (v, arg_strides g (unat idx))
     (g\<lparr>outputArgs := (outputArgs g)[unat (idx - of_nat (length (inputArgs g))) := v]\<rparr>)"
  "length (inputArgs g) \<le> unat idx \<Longrightarrow> cell_put g (unat idx) (arg_slots g ! unat idx, st)
     (g\<lparr>g_outputStrides := (g_outputStrides g)(idx - of_nat (length (inputArgs g)) := st)\<rparr>)"
  using of_nat_32_eq output_index [of "length (inputArgs g)" idx]
  by (auto simp: cell_put_def arg_slots_def arg_strides_def list_update_append list_update_same_conv)

lemma gather_step:
  assumes "cell_handler structs (supportsDynamicStrides (argumentProperties g ! unat idx)) p
     (arg_slots g ! unat idx, arg_strides g (unat idx)) = (r, c)"
  shows "fst (gatherArgumentValues structs idx p g) = r" "cell_put g (unat idx) c (snd (gatherArgumentValues structs idx p g))"
proof -
  have same: "cell_put g (unat idx) (arg_slots g ! unat idx, arg_strides g (unat idx)) g" by (simp add: cell_put_def)
  show "fst (gatherArgumentValues structs idx p g) = r"
    using assms by (cases "structs p") (auto simp: gatherArgumentValues_def cell_handler_def Let_def split: if_splits)
  show "cell_put g (unat idx) c (snd (gatherArgumentValues structs idx p g))"
  proof (cases "unat idx < length (inputArgs g)")
    case True
    then show ?thesis using assms same put_one(1,2) [OF True]
      by (cases "structs p") (auto simp: gatherArgumentValues_def cell_handler_def Let_def split: if_splits)
  next
    case False
    then have l: "length (inputArgs g) \<le> unat idx" by simp
    show ?thesis using assms same put_one(3,4) [OF l] False
      by (cases "structs p") (auto simp: gatherArgumentValues_def cell_handler_def Let_def split: if_splits)
  qed
qed

lemma nested_structs_sim:
  assumes step: "\<And>p s t. R s t \<Longrightarrow> fst (h p s) = fst (k p t) \<and> R (snd (h p s)) (snd (k p t))" and "R s t"
  shows "fst (nested_structs n h p s) = fst (nested_structs n k p t) \<and> R (snd (nested_structs n h p s)) (snd (nested_structs n k p t))"
  using assms(2)
proof (induction n arbitrary: p s t)
  case (Suc n)
  then show ?case using step [OF Suc.prems, of p] by (auto split: prod.splits option.splits)
qed simp

text \<open>C12: setting an argument changes one cell of the list of the arguments and nothing else, whether it is an
  input or an output: \<open>setArgumentValue\<close> sets the pointer and clears the strides; \<open>setArgumentValue2\<close>
  clears the strides and then does to the cell what the structures of the chain say, and its result tells
  whether the whole chain was accepted.
\<close>

theorem arguments_refine:
  assumes "graph_ok g" "unat idx < length (argumentProperties g)" "p \<noteq> 0"
  shows "fst (setArgumentValue idx p g) = ZE_RESULT_SUCCESS
     \<and> cell_put g (unat idx) (p, None) (snd (setArgumentValue idx p g))
     \<and> graph_ok (snd (setArgumentValue idx p g)) \<and> graph_ok (snd (setArgumentValue2 structs idx p g))
     \<and> (case handleNestedStructs (cell_handler structs (supportsDynamicStrides (argumentProperties g ! unat idx))) p
               (arg_slots g ! unat idx, None) of
          (ok, cell) \<Rightarrow>
            fst (setArgumentValue2 structs idx p g) = (if ok then ZE_RESULT_SUCCESS else ZE_RESULT_ERROR_INVALID_ARGUMENT)
            \<and> cell_put g (unat idx) cell (snd (setArgumentValue2 structs idx p g)))"
proof -
  let ?i = "unat idx" and ?n = "length (inputArgs g)"
  let ?dyn = "supportsDynamicStrides (argumentProperties g ! ?i)"
  define g1 where "g1 = (if ?i < ?n then g\<lparr>g_inputStrides := (g_inputStrides g)(idx := None)\<rparr>
     else g\<lparr>g_outputStrides := (g_outputStrides g)(idx - of_nat ?n := None)\<rparr>)"
  have len: "?i < length (arg_slots g)" using assms(1,2) by (simp add: graph_ok_def)
  have one: "fst (setArgumentValue idx p g) = ZE_RESULT_SUCCESS" "cell_put g ?i (p, None) (snd (setArgumentValue idx p g))"
    using assms(2,3) put_input [of idx g p None] put_output [of g idx p None]
    by (auto simp: setArgumentValue_def Let_def not_less)
  have start: "cell_put g ?i (arg_slots g ! ?i, None) g1"
    using put_one(2) [of idx g None] put_one(4) [of g idx None] by (auto simp: g1_def)
  define R where "R s t \<longleftrightarrow> cell_put g ?i t s" for s :: "('a, 'b) graph" and t
  have sim: "fst (gatherArgumentValues structs idx q s) = fst (cell_handler structs ?dyn q t)
      \<and> R (snd (gatherArgumentValues structs idx q s)) (snd (cell_handler structs ?dyn q t))" if "R s t" for q s t
  proof -
    have t: "t = (arg_slots s ! ?i, arg_strides s ?i)" "argumentProperties s = argumentProperties g"
      using put_cell [of g ?i t s] that len unat_lt_32 [of idx] by (auto simp: R_def cell_put_def)
    obtain r c where rc: "cell_handler structs ?dyn q t = (r, c)" by (cases "cell_handler structs ?dyn q t") auto
    note st = gather_step [OF rc [unfolded t(1) t(2) [symmetric]]]
    show ?thesis using st put_put [of g ?i t s c] that by (simp add: rc R_def)
  qed
  have two: "fst (nested_structs 20 (gatherArgumentValues structs idx) p g1) = fst (nested_structs 20 (cell_handler structs ?dyn) p (arg_slots g ! ?i, None))
     \<and> R (snd (nested_structs 20 (gatherArgumentValues structs idx) p g1)) (snd (nested_structs 20 (cell_handler structs ?dyn) p (arg_slots g ! ?i, None)))"
    by (rule nested_structs_sim [of R "gatherArgumentValues structs idx" "cell_handler structs ?dyn", OF sim])
      (simp_all add: R_def start)
  have s2: "setArgumentValue2 structs idx p g = (case nested_structs 20 (gatherArgumentValues structs idx) p g1 of
       (ok, g2) \<Rightarrow> (if ok then ZE_RESULT_SUCCESS else ZE_RESULT_ERROR_INVALID_ARGUMENT, g2))"
    using assms(2,3) by (simp add: setArgumentValue2_def handleNestedStructs_def NESTED_STRUCTS_LIMIT_def g1_def Let_def)
  show ?thesis
    using one two cell_put_ok [OF _ assms(1)]
    by (auto simp: s2 R_def handleNestedStructs_def NESTED_STRUCTS_LIMIT_def split: prod.splits)
qed

section \<open>Reading the properties\<close>

text \<open>A query of the properties of an argument gives back the type and the \<open>pNext\<close> of the caller's
  structure when it succeeds; when the chain behind the structure is refused, the structure is left with the
  type of the driver's own copy and without its chain.
\<close>

theorem refused_chain_clobbers:
  assumes "unat idx < length (argumentProperties g)"
    and "getArgumentProperties_n expected stored visible idx g (Some out, structs) = (r, Some out', structs')"
  shows "out_value out' = visible (properties (argumentProperties g ! unat idx))
     \<and> (if r = ZE_RESULT_SUCCESS then out_stype out' = out_stype out \<and> out_pNext out' = out_pNext out
        else r = ZE_RESULT_ERROR_INVALID_ARGUMENT \<and> out_stype out = expected \<and> out_stype out' = stored \<and> out_pNext out' = 0
          \<and> \<not> fst (handleNestedStructs (setArgumentProperties idx g) (out_pNext out) structs))"
  using assms by (auto simp: getArgumentProperties_n_def Let_def split: if_splits prod.splits bool.splits)

section \<open>Creation\<close>

lemma compile_blob_cases:
  obtains (failed) z log1 w1 where "compile_blob env d flags log w = (Inl (Inr z), log1, w1)" "z \<noteq> ZE_RESULT_SUCCESS"
  | (compiled) b log1 s1 where "compile_blob env d flags log w = (Inr b, log1, w\<lparr>gw_compiler := s1\<rparr>)"
      "fst (getCompiledBlob (ge_vcl env) (hwInfo (gw_ctx w)) (gi_data d) flags log (gw_compiler w)) = (ZE_RESULT_SUCCESS, Some b)"
proof -
  obtain r ob log1 s1 where g: "getCompiledBlob (ge_vcl env) (hwInfo (gw_ctx w)) (gi_data d) flags log (gw_compiler w) = ((r, ob), log1, s1)"
    by (metis prod.collapse)
  have s: "r = ZE_RESULT_SUCCESS \<longleftrightarrow> ob \<noteq> None"
    using getCompiledBlob_success [of "ge_vcl env" "hwInfo (gw_ctx w)" "gi_data d" flags log "gw_compiler w"] by (simp add: g)
  show thesis
  proof (cases "r = ZE_RESULT_SUCCESS")
    case True
    then obtain b where "ob = Some b" using s by blast
    then show thesis using compiled [of b log1 s1] True by (simp add: compile_blob_def g)
  next
    case False
    then show thesis using failed [of r log1] by (simp add: compile_blob_def g)
  qed
qed

lemma lite_error:
  assumes "getBlobContainerNGraphLite env d log w = Some (Inl (Inr z), log1, w1)"
  shows "z \<noteq> ZE_RESULT_SUCCESS"
proof -
  have "compile_blob env d flags l v = (Inl (Inr z), log1, w1) \<Longrightarrow> z \<noteq> ZE_RESULT_SUCCESS" for flags l v
    by (cases rule: compile_blob_cases [of env d flags l v]) auto
  then show ?thesis using assms
    by (auto simp: getBlobContainerNGraphLite_def Let_def split: sum.splits option.splits prod.splits if_splits)
qed

lemma graph_of_ok:
  assumes "elf_parse lim tab md prof = Some (Inr (Inr (props, args, sz)))"
  shows "graph_ok (graph_of b fl e (props, args, sz))" "set (arg_slots (graph_of b fl e (props, args, sz))) \<subseteq> {0}"
proof -
  obtain ps qs where p: "props = ps @ qs" "\<forall>a \<in> set ps. arg_type (properties a) = ARGUMENT_INPUT"
    "\<forall>a \<in> set qs. arg_type (properties a) = ARGUMENT_OUTPUT" using elf_parse_properties [OF assms] by metis
  have f: "filter (\<lambda>a. arg_type (properties a) = ARGUMENT_INPUT) props = ps"
    "filter (\<lambda>a. arg_type (properties a) \<noteq> ARGUMENT_INPUT) props = qs"
    using p by (auto simp: filter_empty_conv intro!: filter_True)
  show "graph_ok (graph_of b fl e (props, args, sz))"
    unfolding graph_ok_def arg_slots_def graph_of_def prod.case using f p by (auto simp: nth_append)
  show "set (arg_slots (graph_of b fl e (props, args, sz))) \<subseteq> {0}" by (auto simp: arg_slots_def graph_of_def)
qed

lemma graph_of_shape:
  "g_blob (graph_of b fl e parsed) = b" "arg_strides (graph_of b fl e parsed) i = None"
  "PROFILING_ENABLED \<in> propFlags (graph_of b fl e parsed) \<longleftrightarrow> fl = PROFILING_ENABLED \<or> profilingOutputSize (graph_of b fl e parsed) > 0"
  by (auto simp: graph_of_def arg_strides_def split: prod.split)

lemma graph_from_blob_result:
  assumes "graph_from_blob env b fl log w = Some (r, log1, w1)"
  shows "(case r of Inl (Inl e) \<Rightarrow> True | Inl (Inr z) \<Rightarrow> z \<noteq> ZE_RESULT_SUCCESS
     | Inr g \<Rightarrow> graph_ok g \<and> set (arg_slots g) \<subseteq> {0} \<and> g_blob g = b \<and> checkMagic (elfMagic env) (Some b)
          \<and> (\<forall>i. arg_strides g i = None) \<and> (PROFILING_ENABLED \<in> propFlags g \<longleftrightarrow> fl = PROFILING_ENABLED \<or> profilingOutputSize g > 0))"
proof -
  have h: "hpi_failure e \<noteq> Some ZE_RESULT_SUCCESS" for e by (cases e) auto
  have p: "z \<noteq> ZE_RESULT_SUCCESS" if "getElfParser env c b l = (Inl z, x)" for z c l x
    using that h by (auto simp: getElfParser_def createHostParsedInference_def split: sum.splits prod.splits option.splits)
  show ?thesis
  proof (cases r)
    case (Inl err)
    have "z \<noteq> ZE_RESULT_SUCCESS" if "err = Inr z" for z
      using assms Inl that
      by (auto simp: graph_from_blob_def Let_def dest: p split: if_splits prod.splits sum.splits option.splits)
    then show ?thesis using Inl by (auto split: sum.split)
  next
    case (Inr g)
    then obtain lim tab md prof props args sz e where "g = graph_of b fl e (props, args, sz)" "checkMagic (elfMagic env) (Some b)"
      "elf_parse lim tab md prof = Some (Inr (Inr (props, args, sz)))"
      using assms by (auto simp: graph_from_blob_def Let_def split: if_splits prod.splits sum.splits option.splits)
    then show ?thesis using graph_of_ok [of lim tab md prof props args sz b fl e] Inr by (simp add: graph_of_shape)
  qed
qed

text \<open>C11: \<open>Graph::create\<close> returns success exactly when there is a graph. Its blob passed the magic check, its
  argument slots are empty, one for each argument and the inputs first; and after a failure the log of the
  thread is the build log.
\<close>

theorem graph_create_sound:
  assumes "graph_create env (Some d) True w = Some (Inr r, og, log, w')"
  shows "(r = ZE_RESULT_SUCCESS \<longleftrightarrow> og \<noteq> None)
     \<and> (case og of
          Some g \<Rightarrow> graph_ok g \<and> set (arg_slots g) \<subseteq> {0} \<and> (\<forall>i. arg_strides g i = None)
                    \<and> checkMagic (elfMagic env) (Some (g_blob g)) \<and> (PROFILING_ENABLED \<in> propFlags g \<longleftrightarrow> profilingOutputSize g > 0)
        | None \<Rightarrow> lastFailLog w' = log)"
proof -
  have fl: "fl \<noteq> PROFILING_ENABLED" if "getBlobContainer env d l v = Some (Inr (b, fl), l1, v1)" for l v b fl l1 v1
    using that by (auto simp: getBlobContainer_def getBlobContainerNGraphLite_def Let_def
        split: if_splits prod.splits sum.splits option.splits)
  have bc: "z \<noteq> ZE_RESULT_SUCCESS" if "getBlobContainer env d l v = Some (Inl (Inr z), l1, v1)" for l v z l1 v1
    using that by (auto simp: getBlobContainer_def dest: lite_error split: if_splits prod.splits)
  have init: "case x of Inl (Inl e) \<Rightarrow> True | Inl (Inr z) \<Rightarrow> z \<noteq> ZE_RESULT_SUCCESS
     | Inr g \<Rightarrow> graph_ok g \<and> set (arg_slots g) \<subseteq> {0} \<and> (\<forall>i. arg_strides g i = None)
          \<and> checkMagic (elfMagic env) (Some (g_blob g)) \<and> (PROFILING_ENABLED \<in> propFlags g \<longleftrightarrow> profilingOutputSize g > 0)"
    if i: "graph_initialize env d l v = Some (x, l1, v1)" for l v x l1 v1
  proof (cases "gi_pInput d = 0 \<or> length (gi_data d) = 0")
    case True
    then show ?thesis using i by (auto simp: graph_initialize_def split: if_splits)
  next
    case False
    then consider (err) e where "getBlobContainer env d l v = Some (Inl e, l1, v1)" "x = Inl e"
      | (blob) b f l2 v2 where "getBlobContainer env d l v = Some (Inr (b, f), l2, v2)" "graph_from_blob env b f l2 v2 = Some (x, l1, v1)"
      using i by (auto simp: graph_initialize_def split: option.splits sum.splits)
    then show ?thesis
    proof cases
      case err
      then show ?thesis using bc by (cases e) auto
    next
      case blob
      then show ?thesis using graph_from_blob_result [OF blob(2)] fl [OF blob(1)] by (auto split: sum.splits)
    qed
  qed
  obtain x l1 w1 where i: "graph_initialize env d [] (w\<lparr>lastFailLog := []\<rparr>) = Some (x, l1, w1)"
    using assms by (auto simp: graph_create_def split: option.splits)
  show ?thesis using assms init [OF i] by (auto simp: graph_create_def i split: sum.splits)
qed

lemma getBlob_ok:
  assumes "fs_ok fs" "getBlob city env dc key fs = Some (x, fs')"
  shows "fs_ok fs'"
proof -
  have o: "fs_ok (snd (osiOpenWithSharedLock env key False fs))"
    using assms(1) by (auto simp: shared_open_eq fs_ok_def split: option.splits)
  have m: "fs_ok g \<Longrightarrow> fs_ok (snd (os_file_mmap env f g))" for f g by (simp add: os_file_mmap_def fs_ok_def)
  have r: "fs_ok g \<Longrightarrow> fs_ok (os_file_close f (snd (osiFileRemove env key g)))" for f g using remove_ok step_ok(2) by blast
  show ?thesis
  proof (cases "osiOpenWithSharedLock env key False fs")
    case (Pair ofile fs1)
    then have o1: "fs_ok fs1" using o by simp
    show ?thesis
    proof (cases ofile)
      case None
      then show ?thesis using assms Pair o1 by (auto simp: getBlob_def split: if_splits)
    next
      case (Some f)
      obtain q fs2 where mm: "os_file_mmap env f fs1 = (q, fs2)" by fastforce
      have "fs_ok fs2" using m [OF o1, of f] by (simp add: mm)
      then show ?thesis using assms Pair Some o1 step_ok(2) [of fs1 f] step_ok(2) [of fs2 f] r [of fs2 f]
        by (auto simp: getBlob_def mm Let_def split: if_splits option.splits)
    qed
  qed
qed

lemma import_data: "with_import b w = (b', w') \<Longrightarrow> blob_data b' = blob_data b"
  by (auto simp: with_import_def addImportedBufferFromBlob_def split: prod.splits option.splits)

lemma store_compiled_data:
  assumes "fs_ok (gw_fs w)" "length (blob_data b) + DigestLength < 2 ^ 64" "store_compiled env key b log w = Some (b', log', w')"
  shows "blob_data b' = blob_data b"
proof -
  note setBlob_returns [OF assms(1,2), of "ge_city env" "ge_fs env" "ge_cache env" key]
  then obtain b1 fs1 where "setBlob (ge_city env) (ge_fs env) (ge_cache env) key (Some b) (gw_fs w) = Some (Some b1, fs1)"
    "blob_data b1 = blob_data b" by blast
  then show ?thesis using assms(3) by (simp add: store_compiled_def)
qed

text \<open>C13: the cache never changes what a compilation gives: when the blob of a graph is a compiled one, its bytes
  are those that the compiler returned for the input and the merged build flags, also when it now is the
  mapping of the file that it was stored in.
\<close>

theorem compiled_blob_kept:
  assumes "fs_ok (gw_fs w)" "getBlobContainerNGraphLite env d log w = Some (Inr (b, COMPILED), log', w')"
    and "\<And>h i f. length (fst (snd (snd (vclAllocatedExecutableCreate2 (ge_vcl env) h i f)))) + DigestLength < 2 ^ 64"
  shows "\<exists>flags b0. addDeviceConfigToBuildFlags (gi_flags d AND FLAG_ENABLE_PROFILING (codes env) \<noteq> 0) (extra_build_flags env)
         (ge_order env) (case gi_buildFlags d of None \<Rightarrow> [] | Some f \<Rightarrow> f) = Inr flags
     \<and> fst (getCompiledBlob (ge_vcl env) (hwInfo (gw_ctx w)) (gi_data d) flags log (gw_compiler w)) = (ZE_RESULT_SUCCESS, Some b0)
     \<and> blob_data b = blob_data b0"
proof -
  obtain flags where f: "addDeviceConfigToBuildFlags (gi_flags d AND FLAG_ENABLE_PROFILING (codes env) \<noteq> 0) (extra_build_flags env)
         (ge_order env) (case gi_buildFlags d of None \<Rightarrow> [] | Some f \<Rightarrow> f) = Inr flags"
    using assms(2) by (auto simp: getBlobContainerNGraphLite_def split: sum.splits)
  have small: "length (blob_data b0) + DigestLength < 2 ^ 64"
    if "fst (getCompiledBlob (ge_vcl env) hw i fl l s) = (ZE_RESULT_SUCCESS, Some b0)" for b0 hw i fl l s
  proof (cases rule: compilerCreate_cases [of "ge_vcl env" hw s])
    case (failed r lg)
    then show ?thesis using that by (simp add: getCompiledBlob_def split: if_splits)
  next
    case (created h lg)
    obtain r p bs lg2 where v: "vclAllocatedExecutableCreate2 (ge_vcl env) h i fl = (r, p, bs, lg2)" by (metis prod_cases4)
    have "b0 = \<lparr>blob_ptr = p, blob_data = bs, backingStore = Buffer_store, npu_buffer = None\<rparr>"
      using that created by (auto simp: getCompiledBlob_def getCompilerExecutableAllocation_def v Let_def split: if_splits)
    then show ?thesis using assms(3) [of h i fl] by (simp add: v)
  qed
  show ?thesis
  proof (cases "gi_flags d AND FLAG_DISABLE_CACHING (codes env) \<noteq> 0")
    case True
    show ?thesis
    proof (cases rule: compile_blob_cases [of env d flags log w])
      case (compiled b0 log1 s1)
      then have "blob_data b = blob_data b0" using assms(2) f True
        by (auto simp: getBlobContainerNGraphLite_def dest: import_data split: prod.splits)
      then show ?thesis using f compiled(2) by blast
    qed (use assms(2) f True in \<open>simp add: getBlobContainerNGraphLite_def\<close>)
  next
    case False
    obtain fs1 where g: "getBlob (ge_city env) (ge_fs env) (ge_cache env) (graph_key env d flags (gw_compiler w)) (gw_fs w) = Some (None, fs1)"
      using assms(2) f False by (auto simp: getBlobContainerNGraphLite_def Let_def split: option.splits prod.splits)
    show ?thesis
    proof (cases rule: compile_blob_cases [of env d flags log "w\<lparr>gw_fs := fs1\<rparr>"])
      case (compiled b0 log1 s1)
      let ?w = "w\<lparr>gw_fs := fs1, gw_compiler := s1\<rparr>"
      obtain b1 log2 w2 where s: "store_compiled env (graph_key env d flags (gw_compiler w)) b0 log1 ?w = Some (b1, log2, w2)"
        "fst (with_import b1 w2) = b"
        using assms(2) f False g compiled by (auto simp: getBlobContainerNGraphLite_def Let_def split: option.splits prod.splits)
      have c: "fst (getCompiledBlob (ge_vcl env) (hwInfo (gw_ctx w)) (gi_data d) flags log (gw_compiler w)) = (ZE_RESULT_SUCCESS, Some b0)"
        using compiled(2) by simp
      have "fs_ok (gw_fs ?w)" using getBlob_ok [OF assms(1) g] by simp
      then have "blob_data b1 = blob_data b0" using store_compiled_data [OF _ small [OF c] s(1)] by blast
      moreover have "blob_data b = blob_data b1" using s(2) import_data [of b1 w2] by (cases "with_import b1 w2") auto
      ultimately show ?thesis using f c by auto
    qed (use assms(2) f False g in \<open>auto simp: getBlobContainerNGraphLite_def Let_def split: option.splits prod.splits\<close>)
  qed
qed

section \<open>The memory of a profiling pool\<close>

abbreviation traced :: "('h, 'k) graph \<Rightarrow> buffer_object ptr_map" where
  "traced g \<equiv> tracedElfParserBuffers (elf_mgr (g_parser g))"

lemma emplace_length: "map_emplace k v m = (m', True) \<Longrightarrow> length m' = Suc (length m)"
  by (induction m arbitrary: m') (auto split: if_splits prod.splits)

lemma trace_buffer_length: "trace_buffer bo m = (True, m') \<Longrightarrow> length (tracedElfParserBuffers m') = Suc (length (tracedElfParserBuffers m))"
  by (auto simp: trace_buffer_def dest: emplace_length split: prod.splits bool.splits)

lemma allocateInternal_traced:
  assumes "allocateInternal fl sz m = (Inr (Some bo), m')"
  shows "length (tracedElfParserBuffers m') = Suc (length (tracedElfParserBuffers m))"
  using assms by (auto simp: allocateInternal_def elf_allocate_def Let_def dest!: trace_buffer_length
      split: if_splits prod.splits sum.splits option.splits bool.splits)

text \<open>C40: the memory of a profiling pool is not given back with the pool: the buffer manager of the parser goes
  on holding the buffer, so each pool that is created and destroyed leaves one more buffer behind, as long
  as the graph lives.
\<close>

theorem pool_memory_stays:
  assumes "createProfilingPool fl n True g = (Inr (ZE_RESULT_SUCCESS, Some i), g1)"
    and "graph_destroyProfilingPool i g1 = (ZE_RESULT_SUCCESS, g2)"
  shows "length (traced g2) = length (traced g) + 1 \<and> profilingPools g2 = filter (\<lambda>(j, _). j \<noteq> i) (profilingPools g)"
proof -
  obtain obo m where a: "allocateInternal fl (query_stride (profilingOutputSize g) * ucast n) (elf_mgr (g_parser g)) = (Inr obo, m)"
    using assms(1) by (auto simp: createProfilingPool_def split: if_splits prod.splits sum.splits)
  obtain bo where o: "obo = Some bo"
    using assms(1) by (cases obo) (auto simp: createProfilingPool_def a new_profiling_pool_def Let_def split: if_splits)
  have "i = next_profiling_pool g" "traced g1 = tracedElfParserBuffers m"
    "\<exists>p. profilingPools g1 = (i, p) # profilingPools g"
    using assms(1) by (auto simp: createProfilingPool_def a o set_graph_ctx_def set_elf_ctx_def Let_def split: if_splits prod.splits sum.splits)
  then show ?thesis using assms(2) allocateInternal_traced [OF a [unfolded o]]
    by (auto simp: graph_destroyProfilingPool_def set_graph_ctx_def set_elf_ctx_def split: if_splits)
qed

section \<open>Examples\<close>

definition demo_codes :: graph_codes where
  "demo_codes = \<lparr>FORMAT_NATIVE = 1, FORMAT_NGRAPH_LITE = 2, FLAG_INPUT_GRAPH_PERSISTENT = 4, FLAG_DISABLE_CACHING = 1,
     FLAG_ENABLE_PROFILING = 2\<rparr>"

definition demo_elf_flags :: elf_flags where
  "demo_elf_flags = \<lparr>SHF_EXECINSTR = 4, SHF_ALLOC = 2, VPU_SHF_PROC_DMA = 8, VPU_SHF_PROC_SHAVE = 16\<rparr>"

definition demo_env :: "(nat, nat, nat, nat, null_dev) graph_env" where
  "demo_env = \<lparr>codes = demo_codes, ge_city = toy_city, driverVersion = 1, ge_cache = toy_cache, ge_fs = toy_env,
     ge_vcl = refusing_vcl, extra_build_flags = None, ge_order = (\<lambda>xs. xs), elfMagic = (\<lambda>_. True), ge_flags = demo_elf_flags,
     ge_lib = counting_lib, read_hpi = (\<lambda>_ b m. (Inr 7, m)), ge_metadata = (\<lambda>_. demo_metadata), ge_profBuffers = (\<lambda>_. [64]),
     ge_limits = demo_limits, toMetadataType = (\<lambda>_. None)\<rparr>"

definition demo_graph_world :: "null_dev graph_world" where
  "demo_graph_world = \<lparr>gw_ctx = demo_ctx, gw_fs = toy_fs, gw_compiler = idle_compiler, lastFailLog = []\<rparr>"

definition demo_input :: graph_input where
  "demo_input = \<lparr>gi_format = 1, gi_pInput = 8192, gi_data = [1, 2, 3], gi_flags = 1, gi_buildFlags = None, gi_inputHash = None\<rparr>"

definition demo_elf :: "(nat, null_dev) elf_object" where
  "demo_elf = \<lparr>elf_lib = counting_lib, elf_mgr = new_elf_manager demo_ctx, elf_pool = new_pool 7\<rparr>"

lemma demo_create:
  "\<exists>g w. graph_create demo_env (Some demo_input) True demo_graph_world = Some (Inr ZE_RESULT_SUCCESS, Some g, [], w)
     \<and> length (argumentProperties g) = 2 \<and> elf_mgr (g_parser g) = new_elf_manager demo_ctx \<and> profilingOutputSize g = 64
     \<and> supportsDynamicStrides (argumentProperties g ! 0)"
proof -
  obtain props args where p: "elf_parse demo_limits (\<lambda>_. None) demo_metadata [64] = Some (Inr (Inr (props, args, 64)))"
    "length props = 2" "supportsDynamicStrides (props ! 0)"
    using demo_parse by blast
  show ?thesis
    using p by (simp add: graph_create_def graph_initialize_def getBlobContainer_def getBlobContainerNative_def demo_env_def demo_codes_def
        demo_input_def demo_graph_world_def graph_from_blob_def getElfParser_def checkMagic_def plain_blob_def blob_size_def)
      (simp add: graph_of_def)
qed

lemma demo_pool:
  assumes "elf_mgr (g_parser g) = new_elf_manager demo_ctx" "profilingOutputSize g = 64"
  shows "\<exists>g1. createProfilingPool demo_elf_flags 1 True g = (Inr (ZE_RESULT_SUCCESS, Some (next_profiling_pool g)), g1)"
  by (simp add: createProfilingPool_def assms allocateInternal_def elf_allocate_def new_elf_manager_def createUntrackedBufferObject_def
   query_stride_def getFwDataCacheAlign_def ALIGN_def getBufferType_def trace_buffer_def elf_findBuffer_def isInRange_def
   new_profiling_pool_def adopt_untracked_def demo_eval)

lemma created_pool_destroyable:
  assumes "createProfilingPool fl n True g = (Inr (ZE_RESULT_SUCCESS, Some i), g1)"
  shows "\<exists>g2. graph_destroyProfilingPool i g1 = (ZE_RESULT_SUCCESS, g2)"
proof -
  have "\<exists>p. map_of (profilingPools g1) i = Some p \<and> set (queries p) \<subseteq> {None}"
    using assms by (auto simp: createProfilingPool_def new_profiling_pool_def set_graph_ctx_def Let_def
        split: if_splits prod.splits sum.splits option.splits)
  then show ?thesis by (auto simp: graph_destroyProfilingPool_def destroyProfilingPool_def)
qed

theorem pool_memory_stays_witness:
  "\<exists>g g1 g2 :: (nat, null_dev) graph. createProfilingPool demo_elf_flags 1 True g = (Inr (ZE_RESULT_SUCCESS, Some (next_profiling_pool g)), g1)
     \<and> graph_destroyProfilingPool (next_profiling_pool g) g1 = (ZE_RESULT_SUCCESS, g2) \<and> length (traced g2) = length (traced g) + 1"
proof -
  obtain g :: "(nat, null_dev) graph" where g: "elf_mgr (g_parser g) = new_elf_manager demo_ctx" "profilingOutputSize g = 64"
    using demo_create by blast
  obtain g1 where c: "createProfilingPool demo_elf_flags 1 True g = (Inr (ZE_RESULT_SUCCESS, Some (next_profiling_pool g)), g1)"
    using demo_pool [OF g] by blast
  obtain g2 where d: "graph_destroyProfilingPool (next_profiling_pool g) g1 = (ZE_RESULT_SUCCESS, g2)"
    using created_pool_destroyable [OF c] by blast
  show ?thesis using pool_memory_stays [OF c d] c d by blast
qed

theorem graph_create_sound_witness:
  "\<exists>g w. graph_create demo_env (Some demo_input) True demo_graph_world = Some (Inr ZE_RESULT_SUCCESS, Some g, [], w)
     \<and> graph_ok g \<and> set (arg_slots g) \<subseteq> {0}"
proof -
  obtain g w where c: "graph_create demo_env (Some demo_input) True demo_graph_world = Some (Inr ZE_RESULT_SUCCESS, Some g, [], w)"
    using demo_create by blast
  show ?thesis using graph_create_sound [OF c] c by simp
qed

lemma demo_graph:
  obtains g :: "(nat, null_dev) graph" where "graph_ok g" "length (argumentProperties g) = 2" "supportsDynamicStrides (argumentProperties g ! 0)"
proof -
  obtain props args where p: "elf_parse demo_limits (\<lambda>_. None) demo_metadata [64] = Some (Inr (Inr (props, args, 64)))"
    "length props = 2" "supportsDynamicStrides (props ! 0)"
    using demo_parse by blast
  show thesis
    by (rule that [OF graph_of_ok(1) [OF p(1)], of "plain_blob 0 [] None" PRE_COMPILED demo_elf])
      (use p in \<open>simp_all add: graph_of_def\<close>)
qed

lemma three_structs:
  obtains k where "NESTED_STRUCTS_LIMIT = Suc (Suc (Suc k))"
proof -
  have "NESTED_STRUCTS_LIMIT = Suc (Suc (Suc 17))" by (simp add: NESTED_STRUCTS_LIMIT_def)
  then show thesis by (rule that)
qed

theorem arguments_refine_witness:
  "\<exists>g :: (nat, null_dev) graph. cell_put g 0 (8192, None) (snd (setArgumentValue 0 8192 g))
     \<and> cell_put g 0 (4096, Some [1, 2, 3, 4, 5])
          (snd (setArgumentValue2 ((\<lambda>_. Other_struct 0)(8 := Argument_tensor 4096 16, 16 := Argument_strides_value [1, 2, 3, 4, 5] 0)) 0 8 g))"
proof -
  obtain g :: "(nat, null_dev) graph" where g: "graph_ok g" "length (argumentProperties g) = 2" "supportsDynamicStrides (argumentProperties g ! 0)"
    by (rule demo_graph)
  let ?S = "(\<lambda>_. Other_struct 0)(8 := Argument_tensor 4096 16, 16 := Argument_strides_value [1, 2, 3, 4, 5] 0)"
  obtain k where k: "NESTED_STRUCTS_LIMIT = Suc (Suc (Suc k))" by (rule three_structs)
  have e: "handleNestedStructs (cell_handler ?S True) 8 (x, None) = (True, (4096, Some [1, 2, 3, 4, 5]))" for x
    by (cases k) (simp_all add: handleNestedStructs_def k cell_handler_def)
  show ?thesis
    using arguments_refine [OF g(1), of 0 8192] arguments_refine [OF g(1), of 0 8
        "(\<lambda>_. Other_struct 0)(8 := Argument_tensor 4096 16, 16 := Argument_strides_value [1, 2, 3, 4, 5] 0)"] g
    by (intro exI [of _ g]) (simp add: e)
qed

theorem refused_chain_clobbers_witness:
  "\<exists>(g :: (nat, null_dev) graph) out'. fst (getArgumentProperties_n 7 9 arg_name 0 g (Some \<lparr>out_stype = 7, out_pNext = 8, out_value = []\<rparr>, \<lambda>_. Other_struct 0))
       = ZE_RESULT_ERROR_INVALID_ARGUMENT
     \<and> fst (snd (getArgumentProperties_n 7 9 arg_name 0 g (Some \<lparr>out_stype = 7, out_pNext = 8, out_value = []\<rparr>, \<lambda>_. Other_struct 0))) = Some out'
     \<and> out_stype out' = 9 \<and> out_pNext out' = 0"
proof -
  obtain g :: "(nat, null_dev) graph" where g: "graph_ok g" "length (argumentProperties g) = 2"
    by (rule demo_graph)
  have i: "unat (0 :: u32) < length (argumentProperties g)" using g by simp
  obtain k where k: "NESTED_STRUCTS_LIMIT = Suc (Suc (Suc k))" by (rule three_structs)
  have n: "handleNestedStructs (setArgumentProperties 0 g) 8 (\<lambda>_. Other_struct 0) = (False, \<lambda>_. Other_struct 0)"
    by (simp add: handleNestedStructs_def k setArgumentProperties_def)
  obtain out' where e: "getArgumentProperties_n 7 9 arg_name 0 g (Some \<lparr>out_stype = 7, out_pNext = 8, out_value = []\<rparr>, \<lambda>_. Other_struct 0)
     = (ZE_RESULT_ERROR_INVALID_ARGUMENT, Some out', \<lambda>_. Other_struct 0)"
    using g by (simp add: getArgumentProperties_n_def n)
  show ?thesis using refused_chain_clobbers [OF i e] e by (intro exI [of _ g] exI [of _ out']) simp
qed

theorem compiled_blob_kept_witness:
  "\<exists>b log' w'. getBlobContainerNGraphLite demo_env (demo_input\<lparr>gi_format := 2\<rparr>) [] demo_graph_world = Some (Inr (b, COMPILED), log', w')
     \<and> blob_data b = [1]"
proof -
  let ?b = "\<lparr>blob_ptr = 4096, blob_data = [1], backingStore = Buffer_store, npu_buffer = None\<rparr>"
  have "\<not> userPtrCapability (hwInfo demo_ctx)" "findBufferObject demo_ctx 4096 = None"
    by (simp_all add: demo_ctx_def new_ctx_def getHwInfo40xx_def default_hw_info_def findBufferObject_def)
  then have "createUntrackedBufferObjectFromUserPtr demo_ctx 4096 n True = (None, demo_ctx)" for n
    by (simp add: createUntrackedBufferObjectFromUserPtr_def createBufferObjectFromUserPtr_def)
  then have i: "with_import ?b demo_graph_world = (?b, demo_graph_world)"
    by (simp add: with_import_def addImportedBufferFromBlob_def demo_graph_world_def)
  have c: "compile_blob demo_env (demo_input\<lparr>gi_format := 2\<rparr>) [] [] demo_graph_world = (Inr ?b, [], demo_graph_world)"
    by (simp add: demo_env_def demo_input_def compile_blob_def getCompiledBlob_def refusing_vcl_def isVclCompilerApiCompatible_def
        idle_compiler_def demo_graph_world_def VCL_COMPILER_VERSION_def compilerCreate_def getCompilerExecutableAllocation_def
        appendCompilerLog_def close_compiler_def)
  have e: "getBlobContainerNGraphLite demo_env (demo_input\<lparr>gi_format := 2\<rparr>) [] demo_graph_world
     = Some (Inr (?b, COMPILED), [], demo_graph_world)"
    using c i by (simp add: getBlobContainerNGraphLite_def addDeviceConfigToBuildFlags_def setUpFlagsFromEnvVariable_def demo_env_def
        demo_input_def demo_codes_def)
  have s: "length (fst (snd (snd (vclAllocatedExecutableCreate2 (ge_vcl demo_env) h i f)))) + DigestLength < 2 ^ 64" for h i f
    by (simp add: demo_env_def refusing_vcl_def DigestLength_def)
  have ok: "fs_ok (gw_fs demo_graph_world)" using toy_ok(1) by (simp add: demo_graph_world_def)
  show ?thesis using compiled_blob_kept [OF ok e s] e by simp
qed

end
