(* ===== verification/Api_Objects.thy ===== *)
theory Api_Objects
  imports L0_Command_List
begin

text \<open>
  The entry points of the API for command lists, command queues, fences and events
  (\<open>umd/level_zero_driver/api/ze_cmdlist.cpp\<close>, \<open>ze_cmdqueue.cpp\<close>, \<open>ze_fence.cpp\<close>,
  \<open>ze_event.cpp\<close>). An entry point refuses the null handle, calls the operation of the object, and
  turns any exception into \<open>ZE_RESULT_ERROR_UNKNOWN\<close>; the state keeps what the operation did before
  it threw. The traces around it are output and left out. \<open>None\<close> is a call that never returns.
\<close>

section \<open>Entry points\<close>

type_synonym ('h, 'k, 'a) api_op = "('h, 'k) l0 \<Rightarrow> ('a \<times> ('h, 'k) l0) option"

text \<open>Operations that return and do not throw, and operations that only return.\<close>

definition l0_total :: "(('h, 'k) l0 \<Rightarrow> 'a \<times> ('h, 'k) l0) \<Rightarrow> ('h, 'k, 'a) l0_op" where
  "l0_total f st = (case f st of (x, st') \<Rightarrow> Some (Inr x, st'))"

definition l0_throwing :: "(('h, 'k) l0 \<Rightarrow> (exn + 'a) \<times> ('h, 'k) l0) \<Rightarrow> ('h, 'k, 'a) l0_op" where
  "l0_throwing f st = Some (f st)"

definition l0_query :: "(('h, 'k) l0 \<Rightarrow> 'a) \<Rightarrow> ('h, 'k, 'a) l0_op" where
  "l0_query f st = Some (Inr (f st), st)"

text \<open>\<open>L0_HANDLE_EXCEPTION\<close>; the first argument is the result of a call that threw.\<close>

definition api_call :: "'a \<Rightarrow> ('h, 'k, 'a) l0_op \<Rightarrow> ('h, 'k, 'a) api_op" where
  "api_call unknown m st =
     map_option (\<lambda>(x, st'). (case x of Inl e \<Rightarrow> unknown | Inr r \<Rightarrow> r, st')) (m st)"

definition api_handle :: "'x option \<Rightarrow> ('x \<Rightarrow> ('h, 'k, ze_result) l0_op) \<Rightarrow> ('h, 'k, ze_result) api_op" where
  "api_handle h m st =
     (case h of None \<Rightarrow> Some (ZE_RESULT_ERROR_INVALID_NULL_HANDLE, st)
      | Some x \<Rightarrow> api_call ZE_RESULT_ERROR_UNKNOWN (m x) st)"

text \<open>The same for a call with an output.\<close>

definition api_handle_out ::
  "'x option \<Rightarrow> ('x \<Rightarrow> ('h, 'k, ze_result \<times> 'o option) l0_op) \<Rightarrow> ('h, 'k, ze_result \<times> 'o option) api_op" where
  "api_handle_out h m st =
     (case h of None \<Rightarrow> Some ((ZE_RESULT_ERROR_INVALID_NULL_HANDLE, None), st)
      | Some x \<Rightarrow> api_call (ZE_RESULT_ERROR_UNKNOWN, None) (m x) st)"

section \<open>Command lists\<close>

type_synonym events_arg = "event_handle option list option"

definition zeCommandListCreate ::
  "bool \<Rightarrow> bool \<Rightarrow> (u32 \<times> bool) option \<Rightarrow> bool \<Rightarrow> ('h, 'k, ze_result \<times> nat option) api_op" where
  "zeCommandListCreate hContext hDevice desc phCommandList =
     api_call (ZE_RESULT_ERROR_UNKNOWN, None)
       (l0_total (CommandList_create hContext hDevice desc phCommandList))"

definition zeCommandListCreateImmediate ::
  "bool \<Rightarrow> bool \<Rightarrow> queue_desc option \<Rightarrow> bool \<Rightarrow> ('h, 'k, ze_result \<times> nat option) api_op" where
  "zeCommandListCreateImmediate hContext hDevice altdesc phCommandList =
     api_call (ZE_RESULT_ERROR_UNKNOWN, None) (ImmediateCommandList_create hContext hDevice altdesc phCommandList)"

definition zeCommandListIsImmediate :: "nat option \<Rightarrow> bool \<Rightarrow> ('h, 'k, ze_result \<times> bool option) api_op" where
  "zeCommandListIsImmediate hCommandList pIsImmediate =
     api_handle_out hCommandList (\<lambda>l. l0_query (isImmediate l pIsImmediate))"

definition zeCommandListHostSynchronize :: "l0_env \<Rightarrow> nat option \<Rightarrow> u64 \<Rightarrow> ('h, 'k, ze_result) api_op" where
  "zeCommandListHostSynchronize env hCommandList timeout =
     api_handle hCommandList (\<lambda>l. l0_total (CommandList_hostSynchronize env l timeout))"

definition zeCommandListDestroy :: "l0_env \<Rightarrow> nat option \<Rightarrow> ('h, 'k, ze_result) api_op" where
  "zeCommandListDestroy env hCommandList = api_handle hCommandList (\<lambda>l. l0_total (CommandList_destroy env l))"

definition zeCommandListClose :: "l0_env \<Rightarrow> nat option \<Rightarrow> ('h, 'k, ze_result) api_op" where
  "zeCommandListClose env hCommandList = api_handle hCommandList (CommandList_close env)"

definition zeCommandListReset :: "nat option \<Rightarrow> ('h, 'k, ze_result) api_op" where
  "zeCommandListReset hCommandList = api_handle hCommandList (\<lambda>l. l0_total (CommandList_reset l))"

definition zeCommandListAppendBarrier ::
  "l0_env \<Rightarrow> nat option \<Rightarrow> event_handle option \<Rightarrow> u32 \<Rightarrow> events_arg \<Rightarrow> ('h, 'k, ze_result) api_op" where
  "zeCommandListAppendBarrier env hCommandList hSignalEvent numWaitEvents phWaitEvents =
     api_handle hCommandList (\<lambda>l. appendBarrier env l hSignalEvent numWaitEvents phWaitEvents)"

definition zeCommandListAppendMemoryCopy ::
  "l0_env \<Rightarrow> nat option \<Rightarrow> u64 \<Rightarrow> u64 \<Rightarrow> u64 \<Rightarrow> event_handle option \<Rightarrow> u32 \<Rightarrow> events_arg \<Rightarrow> ('h, 'k, ze_result) api_op" where
  "zeCommandListAppendMemoryCopy env hCommandList dstptr srcptr sz hEvent numWaitEvents phWaitEvents =
     api_handle hCommandList (\<lambda>l. appendMemoryCopy env l dstptr srcptr sz hEvent numWaitEvents phWaitEvents)"

definition zeCommandListAppendMemoryFill ::
  "l0_env \<Rightarrow> nat option \<Rightarrow> u64 \<Rightarrow> u64 \<Rightarrow> u64 \<Rightarrow> u64 \<Rightarrow> event_handle option \<Rightarrow> u32 \<Rightarrow> events_arg
     \<Rightarrow> ('h, 'k, ze_result) api_op" where
  "zeCommandListAppendMemoryFill env hCommandList ptr pattern patternSize sz hEvent numWaitEvents phWaitEvents =
     api_handle hCommandList
       (\<lambda>l. appendMemoryFill env l ptr pattern patternSize sz hEvent numWaitEvents phWaitEvents)"

definition zeCommandListAppendMemoryCopyRegion ::
  "l0_env \<Rightarrow> nat option \<Rightarrow> u64 \<Rightarrow> copy_region option \<Rightarrow> u32 \<Rightarrow> u32 \<Rightarrow> u64 \<Rightarrow> copy_region option \<Rightarrow> u32 \<Rightarrow> u32
     \<Rightarrow> event_handle option \<Rightarrow> u32 \<Rightarrow> events_arg \<Rightarrow> ('h, 'k, ze_result) api_op" where
  "zeCommandListAppendMemoryCopyRegion env hCommandList dstptr dstRegion dstPitch dstSlicePitch
     srcptr srcRegion srcPitch srcSlicePitch hSignalEvent numWaitEvents phWaitEvents =
     api_handle hCommandList (\<lambda>l. appendMemoryCopyRegion env l dstptr dstRegion dstPitch dstSlicePitch
       srcptr srcRegion srcPitch srcSlicePitch hSignalEvent numWaitEvents phWaitEvents)"

definition zeCommandListAppendWriteGlobalTimestamp ::
  "l0_env \<Rightarrow> nat option \<Rightarrow> u64 \<Rightarrow> event_handle option \<Rightarrow> u32 \<Rightarrow> events_arg \<Rightarrow> ('h, 'k, ze_result) api_op" where
  "zeCommandListAppendWriteGlobalTimestamp env hCommandList dstptr hSignalEvent numWaitEvents phWaitEvents =
     api_handle hCommandList (\<lambda>l. appendWriteGlobalTimestamp env l dstptr hSignalEvent numWaitEvents phWaitEvents)"

text \<open>The two calls on mutable lists do not look at the handle: the null one is not a call of the model.\<close>

definition zeCommandListGetNextCommandIdExp :: "nat \<Rightarrow> bool \<Rightarrow> ('h, 'k, ze_result \<times> u64 option) api_op" where
  "zeCommandListGetNextCommandIdExp l flags_ok =
     api_call (ZE_RESULT_ERROR_UNKNOWN, None) (l0_query (getNextCommandId l flags_ok))"

definition zeCommandListUpdateMutableCommandsExp ::
  "nat \<Rightarrow> u32 \<Rightarrow> mutable_desc list \<Rightarrow> ('h, 'k, ze_result) api_op" where
  "zeCommandListUpdateMutableCommandsExp l flags ds =
     api_call ZE_RESULT_ERROR_UNKNOWN (l0_throwing (updateMutableCommands l flags ds))"

text \<open>
  \<open>CommandList::appendSignalEvent\<close> and \<open>appendWaitOnEvents\<close>, named by the entry points: an
  immediate list does not run its own versions here.
\<close>

definition CommandList_appendSignalEvent :: "l0_env \<Rightarrow> nat \<Rightarrow> event_handle option \<Rightarrow> ('h, 'k, ze_result) l0_op" where
  "CommandList_appendSignalEvent env l hEvent =
     l0_ok (checkCommandAppendCondition env l)
       (\<lambda>st. case find_event st hEvent of
               None \<Rightarrow> Some (Inr ZE_RESULT_ERROR_INVALID_NULL_HANDLE, st)
             | Some e \<Rightarrow>
                 if eventState e = 0 then Some (Inr ZE_RESULT_ERROR_INVALID_NULL_HANDLE, st)
                 else l0_ok (appendCommand l (\<lambda>c. Inr (VPUEventSignalCommand_create (eventState e) (Some (eventBase e)))))
                        (\<lambda>st1. postAppend env l
                           (put_event (the hEvent) (Some (associateJob (vpuJob (the_list st1 l)) e)) st1)) st)"

fun base_wait_events :: "nat \<Rightarrow> event_handle option list \<Rightarrow> ('h, 'k, ze_result) l0_op" where
  "base_wait_events l [] st = Some (Inr ZE_RESULT_SUCCESS, st)"
| "base_wait_events l (h # hs) st =
     (case find_event st h of
        None \<Rightarrow> Some (Inr ZE_RESULT_ERROR_INVALID_NULL_HANDLE, st)
      | Some e \<Rightarrow>
          if eventState e = 0 then Some (Inr ZE_RESULT_ERROR_INVALID_NULL_HANDLE, st)
          else l0_ok (appendCommand l (\<lambda>c. Inr (VPUEventWaitCommand_create (eventState e) (Some (eventBase e)))))
                 (base_wait_events l hs) st)"

definition CommandList_appendWaitOnEvents :: "l0_env \<Rightarrow> nat \<Rightarrow> u32 \<Rightarrow> events_arg \<Rightarrow> ('h, 'k, ze_result) l0_op" where
  "CommandList_appendWaitOnEvents env l numEvents phEvent =
     (case phEvent of
        None \<Rightarrow> l0_ret ZE_RESULT_ERROR_INVALID_NULL_POINTER
      | Some hs \<Rightarrow>
          if numEvents = 0 then l0_ret ZE_RESULT_ERROR_INVALID_SIZE
          else l0_ok (checkCommandAppendCondition env l)
                 (l0_ok (base_wait_events l (take (unat numEvents) hs)) (postAppend env l)))"

definition zeCommandListAppendSignalEvent ::
  "l0_env \<Rightarrow> nat option \<Rightarrow> event_handle option \<Rightarrow> ('h, 'k, ze_result) api_op" where
  "zeCommandListAppendSignalEvent env hCommandList hEvent =
     api_handle hCommandList (\<lambda>l. CommandList_appendSignalEvent env l hEvent)"

definition zeCommandListAppendWaitOnEvents ::
  "l0_env \<Rightarrow> nat option \<Rightarrow> u32 \<Rightarrow> events_arg \<Rightarrow> ('h, 'k, ze_result) api_op" where
  "zeCommandListAppendWaitOnEvents env hCommandList numEvents phEvents =
     api_handle hCommandList (\<lambda>l. CommandList_appendWaitOnEvents env l numEvents phEvents)"

definition zeCommandListAppendEventReset ::
  "l0_env \<Rightarrow> nat option \<Rightarrow> event_handle option \<Rightarrow> ('h, 'k, ze_result) api_op" where
  "zeCommandListAppendEventReset env hCommandList hEvent =
     api_handle hCommandList (\<lambda>l. appendEventReset env l hEvent)"

section \<open>Calls that are not supported\<close>

definition api_unsupported :: "('h, 'k, ze_result) api_op" where
  "api_unsupported st = Some (ZE_RESULT_ERROR_UNSUPPORTED_FEATURE, st)"

definition zeCommandListAppendMemoryRangesBarrier :: "('h, 'k, ze_result) api_op" where "zeCommandListAppendMemoryRangesBarrier = api_unsupported"
definition zeCommandListImmediateGetIndex :: "('h, 'k, ze_result) api_op" where "zeCommandListImmediateGetIndex = api_unsupported"
definition zeCommandListAppendImageCopy :: "('h, 'k, ze_result) api_op" where "zeCommandListAppendImageCopy = api_unsupported"
definition zeCommandListAppendImageCopyRegion :: "('h, 'k, ze_result) api_op" where "zeCommandListAppendImageCopyRegion = api_unsupported"
definition zeCommandListAppendImageCopyToMemory :: "('h, 'k, ze_result) api_op" where "zeCommandListAppendImageCopyToMemory = api_unsupported"
definition zeCommandListAppendImageCopyFromMemory :: "('h, 'k, ze_result) api_op" where "zeCommandListAppendImageCopyFromMemory = api_unsupported"
definition zeCommandListAppendMemoryPrefetch :: "('h, 'k, ze_result) api_op" where "zeCommandListAppendMemoryPrefetch = api_unsupported"
definition zeCommandListAppendMemAdvise :: "('h, 'k, ze_result) api_op" where "zeCommandListAppendMemAdvise = api_unsupported"
definition zeCommandListAppendMemoryCopyFromContext :: "('h, 'k, ze_result) api_op" where "zeCommandListAppendMemoryCopyFromContext = api_unsupported"
definition zeCommandListAppendQueryKernelTimestamps :: "('h, 'k, ze_result) api_op" where "zeCommandListAppendQueryKernelTimestamps = api_unsupported"
definition zeEventPoolGetIpcHandle :: "('h, 'k, ze_result) api_op" where "zeEventPoolGetIpcHandle = api_unsupported"
definition zeEventPoolOpenIpcHandle :: "('h, 'k, ze_result) api_op" where "zeEventPoolOpenIpcHandle = api_unsupported"
definition zeEventPoolCloseIpcHandle :: "('h, 'k, ze_result) api_op" where "zeEventPoolCloseIpcHandle = api_unsupported"
definition zeEventQueryKernelTimestamp :: "('h, 'k, ze_result) api_op" where "zeEventQueryKernelTimestamp = api_unsupported"

section \<open>Command queues\<close>

definition zeCommandQueueCreate ::
  "bool \<Rightarrow> bool \<Rightarrow> queue_desc option \<Rightarrow> bool \<Rightarrow> ('h, 'k, ze_result \<times> nat option) api_op" where
  "zeCommandQueueCreate hContext hDevice desc phCommandQueue =
     api_call (ZE_RESULT_ERROR_UNKNOWN, None) (CommandQueue_create hContext hDevice desc phCommandQueue)"

definition zeCommandQueueDestroy :: "l0_env \<Rightarrow> nat option \<Rightarrow> ('h, 'k, ze_result) api_op" where
  "zeCommandQueueDestroy env hCommandQueue = api_handle hCommandQueue (\<lambda>q. l0_total (CommandQueue_destroy env q))"

definition zeCommandQueueExecuteCommandLists ::
  "l0_env \<Rightarrow> nat option \<Rightarrow> nat option list option \<Rightarrow> nat option \<Rightarrow> ('h, 'k, ze_result) api_op" where
  "zeCommandQueueExecuteCommandLists env hCommandQueue phCommandLists hFence =
     api_handle hCommandQueue (\<lambda>q. executeCommandLists env q phCommandLists hFence)"

definition zeCommandQueueSynchronize :: "l0_env \<Rightarrow> nat option \<Rightarrow> u64 \<Rightarrow> ('h, 'k, ze_result) api_op" where
  "zeCommandQueueSynchronize env hCommandQueue timeout =
     api_handle hCommandQueue (\<lambda>q. l0_total (queue_synchronize env q timeout))"

text \<open>\<open>translated\<close>: the result of \<open>translateHandle\<close>, a function of the loader.\<close>

definition zeCommandQueueSetWorkloadType ::
  "ze_result \<Rightarrow> nat option \<Rightarrow> workload_type \<Rightarrow> ('h, 'k, ze_result) api_op" where
  "zeCommandQueueSetWorkloadType translated hCommandQueue ty st =
     (case hCommandQueue of None \<Rightarrow> Some (ZE_RESULT_ERROR_INVALID_NULL_HANDLE, st)
      | Some q \<Rightarrow>
          if translated \<noteq> ZE_RESULT_SUCCESS then Some (translated, st)
          else api_call ZE_RESULT_ERROR_UNKNOWN (l0_total (setWorkloadType q ty)) st)"

section \<open>Fences\<close>

text \<open>The handle of a fence is its queue and its number.\<close>

type_synonym fence_handle = "nat \<times> nat"

definition zeFenceCreate ::
  "nat option \<Rightarrow> (bool \<times> bool) option \<Rightarrow> bool \<Rightarrow> ('h, 'k, ze_result \<times> nat option) api_op" where
  "zeFenceCreate hCommandQueue desc phFence =
     api_handle_out hCommandQueue (\<lambda>q. l0_total (createFence q desc phFence))"

definition zeFenceDestroy :: "fence_handle option \<Rightarrow> ('h, 'k, ze_result) api_op" where
  "zeFenceDestroy hFence = api_handle hFence (\<lambda>(q, f). l0_total (destroyFence q f))"

definition zeFenceHostSynchronize :: "l0_env \<Rightarrow> fence_handle option \<Rightarrow> u64 \<Rightarrow> ('h, 'k, ze_result) api_op" where
  "zeFenceHostSynchronize env hFence timeout =
     api_handle hFence (\<lambda>(q, f). l0_total (fence_synchronize env q f timeout))"

definition zeFenceQueryStatus :: "l0_env \<Rightarrow> fence_handle option \<Rightarrow> ('h, 'k, ze_result) api_op" where
  "zeFenceQueryStatus env hFence = api_handle hFence (\<lambda>(q, f). l0_total (fence_synchronize env q f 0))"

definition zeFenceReset :: "fence_handle option \<Rightarrow> ('h, 'k, ze_result) api_op" where
  "zeFenceReset hFence = api_handle hFence (\<lambda>(q, f). l0_total (fence_reset q f))"

section \<open>Events\<close>

definition zeEventPoolCreate ::
  "bool \<Rightarrow> u32 option \<Rightarrow> u32 \<Rightarrow> bool \<Rightarrow> bool \<Rightarrow> ('h, 'k, ze_result \<times> nat option) api_op" where
  "zeEventPoolCreate hContext desc numDevices phDevices phEventPool st =
     (if \<not> hContext then Some ((ZE_RESULT_ERROR_INVALID_NULL_HANDLE, None), st)
      else api_call (ZE_RESULT_ERROR_UNKNOWN, None) (EventPool_create True desc numDevices phDevices phEventPool) st)"

definition zeEventPoolDestroy :: "nat option \<Rightarrow> ('h, 'k, ze_result) api_op" where
  "zeEventPoolDestroy hEventPool = api_handle hEventPool EventPool_destroy"

definition zeEventCreate ::
  "nat option \<Rightarrow> u32 option \<Rightarrow> bool \<Rightarrow> ('h, 'k, ze_result \<times> event_handle option) api_op" where
  "zeEventCreate hEventPool desc phEvent = api_handle_out hEventPool (\<lambda>p. createEvent p desc phEvent)"

definition zeEventDestroy :: "event_handle option \<Rightarrow> ('h, 'k, ze_result) api_op" where
  "zeEventDestroy hEvent = api_handle hEvent event_destroy"

text \<open>An operation of the event with the handle.\<close>

definition on_event ::
  "(event_obj \<Rightarrow> 'k dev_ctx \<Rightarrow> (ze_result \<times> 'k dev_ctx) option) \<Rightarrow> event_handle \<Rightarrow> ('h, 'k, ze_result) l0_op" where
  "on_event f h st =
     (case find_event st (Some h) of None \<Rightarrow> Some (Inr ZE_RESULT_ERROR_INVALID_NULL_HANDLE, st)
      | Some e \<Rightarrow> map_option (\<lambda>(r, c). (Inr r, st\<lparr>dctx := c\<rparr>)) (f e (dctx st)))"

definition zeEventHostSignal :: "event_handle option \<Rightarrow> ('h, 'k, ze_result) api_op" where
  "zeEventHostSignal hEvent = api_handle hEvent (on_event (\<lambda>e c. Some (hostSignal e c)))"

definition zeEventHostSynchronize :: "l0_env \<Rightarrow> event_handle option \<Rightarrow> u64 \<Rightarrow> ('h, 'k, ze_result) api_op" where
  "zeEventHostSynchronize env hEvent timeout = api_handle hEvent (event_hostSynchronize env timeout)"

text \<open>\<open>queryStatus\<close> with its default timeout: the time zero.\<close>

definition zeEventQueryStatus :: "l0_env \<Rightarrow> event_handle option \<Rightarrow> ('h, 'k, ze_result) api_op" where
  "zeEventQueryStatus env hEvent = api_handle hEvent (on_event (event_queryStatus (clock env 0) 0))"

definition zeEventHostReset :: "event_handle option \<Rightarrow> ('h, 'k, ze_result) api_op" where
  "zeEventHostReset hEvent = api_handle hEvent (on_event (\<lambda>e c. Some (event_reset e c)))"

end
