(* ===== verification/Job_Owners.thy ===== *)
theory Job_Owners
  imports Api_Objects L0_Execute_Props
begin

text \<open>
  Who owns the jobs of a context. A job is shared by the command list that records it, and by the
  queue or the fence that tracks it; \<open>job_owners\<close> counts them in the state, \<open>refs_ok\<close> says that the
  counts of the shared pointers are these, up to the local variables of a running call. An
  operation is \<open>steady\<close> when it keeps the handles and this agreement.
\<close>

section \<open>Owners\<close>

definition owned_jobs :: "cmd_queue \<Rightarrow> nat list" where
  "owned_jobs cq = concat (map (fenceJobs \<circ> snd) (fences cq)) @ queueJobs cq"

definition list_owns :: "cmd_list option \<Rightarrow> nat \<Rightarrow> nat" where
  "list_owns oc j = (case oc of None \<Rightarrow> 0 | Some cl \<Rightarrow> of_bool (vpuJob cl = j))"

definition queue_owns :: "cmd_queue option \<Rightarrow> nat \<Rightarrow> nat" where
  "queue_owns oq j = (case oq of None \<Rightarrow> 0 | Some cq \<Rightarrow> count_list (owned_jobs cq) j)"

definition job_owners :: "('h, 'k) l0 \<Rightarrow> nat \<Rightarrow> nat" where
  "job_owners st j = (\<Sum>l<next_list st. list_owns (lists st l) j) + (\<Sum>q<next_queue st. queue_owns (queues st q) j)"

definition refs_ok :: "(nat \<Rightarrow> nat) \<Rightarrow> ('h, 'k) l0 \<Rightarrow> bool" where
  "refs_ok e st \<longleftrightarrow>
     (\<forall>j. job_refs st j = job_owners st j + e j) \<and> (\<forall>j. next_job st \<le> j \<longrightarrow> job_refs st j = 0)"

section \<open>Handles\<close>

definition list_queue :: "('h, 'k) l0 \<Rightarrow> nat \<Rightarrow> nat option" where
  "list_queue st l = Option.bind (lists st l) pCommandQueue"

definition queue_fences :: "('h, 'k) l0 \<Rightarrow> nat \<Rightarrow> (nat list \<times> nat) option" where
  "queue_fences st q = map_option (\<lambda>cq. (map fst (fences cq), next_fence cq)) (queues st q)"

definition wf_l0 :: "('h, 'k) l0 \<Rightarrow> bool" where
  "wf_l0 st \<longleftrightarrow>
     (\<forall>l. lists st l \<noteq> None \<longrightarrow> l < next_list st) \<and>
     (\<forall>q. queue_fences st q \<noteq> None \<longrightarrow> q < next_queue st) \<and>
     (\<forall>l q. list_queue st l = Some q \<longrightarrow> queue_fences st q \<noteq> None) \<and>
     (\<forall>l l' q. list_queue st l = Some q \<longrightarrow> list_queue st l' = Some q \<longrightarrow> l = l') \<and>
     (\<forall>q fs n. queue_fences st q = Some (fs, n) \<longrightarrow> distinct fs \<and> (\<forall>f\<in>set fs. f < n))"

text \<open>What the handles of the application name.\<close>

definition skeleton ::
  "('h, 'k) l0 \<Rightarrow> (nat \<Rightarrow> bool) \<times> (nat \<Rightarrow> nat option) \<times> (nat \<Rightarrow> (nat list \<times> nat) option) \<times> nat \<times> nat" where
  "skeleton st = ((\<lambda>l. lists st l = None), list_queue st, queue_fences st, next_list st, next_queue st)"

definition steady :: "('h, 'k) l0 \<Rightarrow> ('h, 'k) l0 \<Rightarrow> bool" where
  "steady st st' \<longleftrightarrow> skeleton st' = skeleton st \<and> (\<forall>e. refs_ok e st \<longrightarrow> refs_ok e st')"

lemma steady_refl [simp]: "steady st st"
  by (simp add: steady_def)

lemma steady_trans [trans]: "steady st st1 \<Longrightarrow> steady st1 st2 \<Longrightarrow> steady st st2"
  by (simp add: steady_def)

lemma skeleton_parts:
  assumes "skeleton st' = skeleton st"
  shows "(lists st' l = None) = (lists st l = None)" "list_queue st' = list_queue st"
    "queue_fences st' = queue_fences st" "next_list st' = next_list st" "next_queue st' = next_queue st"
    "wf_l0 st' = wf_l0 st"
proof -
  have none: "(lists st' k = None) = (lists st k = None)" for k
    using assms by (auto simp: skeleton_def dest: fun_cong)
  then show "(lists st' l = None) = (lists st l = None)" .
  show "list_queue st' = list_queue st" "queue_fences st' = queue_fences st" "next_list st' = next_list st"
    "next_queue st' = next_queue st"
    using assms by (simp_all add: skeleton_def)
  then show "wf_l0 st' = wf_l0 st" unfolding wf_l0_def by (simp only: none)
qed

lemma steady_skeleton: "steady st st' \<Longrightarrow> skeleton st' = skeleton st"
  by (simp add: steady_def)

lemmas steady_parts = skeleton_parts[OF steady_skeleton]

lemma queue_live: "queue_fences st q \<noteq> None \<longleftrightarrow> queues st q \<noteq> None"
  by (simp add: queue_fences_def)

lemma steady_queue: "steady st st' \<Longrightarrow> (queues st' q = None) = (queues st q = None)"
  using steady_parts(3) by (metis queue_live)

section \<open>Counting\<close>

lemma sum_change:
  fixes f g :: "nat \<Rightarrow> nat"
  assumes "i < n" "\<And>k. k \<noteq> i \<Longrightarrow> f k = g k"
  shows "sum f {..<n} + g i = sum g {..<n} + f i"
proof -
  have "sum f {..<n} = f i + sum f ({..<n} - {i})" "sum g {..<n} = g i + sum g ({..<n} - {i})"
    using assms(1) by (simp_all add: sum.remove)
  moreover have "sum f ({..<n} - {i}) = sum g ({..<n} - {i})"
    using assms(2) by (intro sum.cong) auto
  ultimately show ?thesis by simp
qed

lemma owners_queue:
  assumes "q < next_queue st" "lists st' = lists st" "queues st' = (queues st)(q := oq)"
    "next_list st' = next_list st" "next_queue st' = next_queue st"
  shows "job_owners st' j + queue_owns (queues st q) j = job_owners st j + queue_owns oq j"
  using sum_change[where f = "\<lambda>q. queue_owns (queues st' q) j" and g = "\<lambda>q. queue_owns (queues st q) j", OF assms(1)] assms
  by (simp add: job_owners_def)

lemma owners_list:
  assumes "l < next_list st" "queues st' = queues st" "lists st' = (lists st)(l := oc)"
    "next_list st' = next_list st" "next_queue st' = next_queue st"
  shows "job_owners st' j + list_owns (lists st l) j = job_owners st j + list_owns oc j"
  using sum_change[where f = "\<lambda>l. list_owns (lists st' l) j" and g = "\<lambda>l. list_owns (lists st l) j", OF assms(1)] assms
  by (simp add: job_owners_def)

lemma release_next [simp]:
  "next_job (release_job i st) = next_job st" "next_list (release_job i st) = next_list st"
  "next_queue (release_job i st) = next_queue st"
  by (simp_all add: release_job_def Let_def)

lemma releases_next [simp]:
  "next_job (release_jobs is st) = next_job st" "next_list (release_jobs is st) = next_list st"
  "next_queue (release_jobs is st) = next_queue st"
  by (induction "is" arbitrary: st) (simp_all add: release_jobs_def)

lemma owners_cong:
  assumes "lists st' = lists st" "queues st' = queues st" "next_list st' = next_list st" "next_queue st' = next_queue st"
  shows "job_owners st' = job_owners st"
  using assms by (simp add: job_owners_def fun_eq_iff)

lemma release_owners [simp]: "job_owners (release_jobs is st) = job_owners st" "job_owners (release_job i st) = job_owners st"
  by (rule owners_cong; simp)+

text \<open>A release by a local variable.\<close>

lemma release_local: "refs_ok (\<lambda>j. e j + count_list is j) st \<Longrightarrow> refs_ok e (release_jobs is st)"
  by (auto simp: refs_ok_def release_jobs_refs)

text \<open>A holder gives up the jobs \<open>is\<close>, before or after they are released.\<close>

lemma refs_change:
  assumes "refs_ok e1 st" "\<And>j. job_refs st' j = job_refs st j - count_list is j"
    "\<And>j. job_owners st' j + e j + count_list is j = job_owners st j + e1 j" "next_job st' = next_job st"
  shows "refs_ok e st'"
proof -
  have "job_refs st' j = job_owners st' j + e j" for j
    using assms(1) assms(2)[of j] assms(3)[of j] by (simp add: refs_ok_def)
  moreover have "next_job st' \<le> j \<longrightarrow> job_refs st' j = 0" for j
    using assms(1,4) unfolding assms(2) refs_ok_def by (metis diff_0_eq_0)
  ultimately show ?thesis by (simp add: refs_ok_def)
qed

section \<open>Operations that leave all owners alone\<close>

definition same_holders :: "('h, 'k) l0 \<Rightarrow> ('h, 'k) l0 \<Rightarrow> bool" where
  "same_holders st st' \<longleftrightarrow>
     (\<forall>l. map_option (\<lambda>cl. (vpuJob cl, pCommandQueue cl)) (lists st' l) =
          map_option (\<lambda>cl. (vpuJob cl, pCommandQueue cl)) (lists st l)) \<and>
     (\<forall>q. map_option (\<lambda>cq. (queueJobs cq, fences cq, next_fence cq)) (queues st' q) =
          map_option (\<lambda>cq. (queueJobs cq, fences cq, next_fence cq)) (queues st q)) \<and>
     job_refs st' = job_refs st \<and> next_job st' = next_job st \<and> next_list st' = next_list st \<and>
     next_queue st' = next_queue st"

lemma same_holders_owns:
  assumes "same_holders st st'"
  shows "list_owns (lists st' l) = list_owns (lists st l)" "queue_owns (queues st' q) = queue_owns (queues st q)"
    "list_queue st' l = list_queue st l" "queue_fences st' q = queue_fences st q"
    "(lists st' l = None) = (lists st l = None)"
proof -
  have l: "map_option (\<lambda>cl. (vpuJob cl, pCommandQueue cl)) (lists st' l) =
      map_option (\<lambda>cl. (vpuJob cl, pCommandQueue cl)) (lists st l)"
    and q: "map_option (\<lambda>cq. (queueJobs cq, fences cq, next_fence cq)) (queues st' q) =
      map_option (\<lambda>cq. (queueJobs cq, fences cq, next_fence cq)) (queues st q)"
    using assms by (auto simp: same_holders_def)
  show "list_owns (lists st' l) = list_owns (lists st l)" "list_queue st' l = list_queue st l"
    "(lists st' l = None) = (lists st l = None)"
    using l by (cases "lists st l"; cases "lists st' l"; auto simp: list_owns_def list_queue_def fun_eq_iff)+
  show "queue_owns (queues st' q) = queue_owns (queues st q)" "queue_fences st' q = queue_fences st q"
    using q by (cases "queues st q"; cases "queues st' q";
      auto simp: queue_owns_def queue_fences_def owned_jobs_def fun_eq_iff)+
qed

lemma same_holders_steady: "same_holders st st' \<Longrightarrow> steady st st'"
  unfolding steady_def skeleton_def refs_ok_def job_owners_def
  by (auto simp: same_holders_owns fun_eq_iff) (simp_all add: same_holders_def)

lemma same_holders_refl [simp]: "same_holders st st"
  by (simp add: same_holders_def)

lemma same_holders_trans: "same_holders st st1 \<Longrightarrow> same_holders st1 st2 \<Longrightarrow> same_holders st st2"
  by (simp add: same_holders_def)

text \<open>Changes of jobs, of the context and of the pools.\<close>

lemma same_holders_update:
  "same_holders st (st\<lparr>jobs := x\<rparr>)" "same_holders st (st\<lparr>dctx := c\<rparr>)" "same_holders st (st\<lparr>jobs := x, dctx := c\<rparr>)"
  "same_holders st (st\<lparr>pools := p\<rparr>)" "same_holders st (put_event h oe st)"
  by (simp_all add: same_holders_def put_event_def split: option.splits)

lemma same_holders_set_queue:
  "queues st q = Some cq \<Longrightarrow> queueJobs cq' = queueJobs cq \<Longrightarrow> fences cq' = fences cq \<Longrightarrow> next_fence cq' = next_fence cq
     \<Longrightarrow> same_holders st (set_queue q cq' st)"
  by (simp add: same_holders_def set_queue_def)

lemma same_holders_set_list:
  "lists st l = Some cl \<Longrightarrow> vpuJob cl' = vpuJob cl \<Longrightarrow> pCommandQueue cl' = pCommandQueue cl
     \<Longrightarrow> same_holders st (set_list l cl' st)"
  by (simp add: same_holders_def set_list_def)

section \<open>Queues and fences\<close>

lemma wf_queue_bound: "wf_l0 st \<Longrightarrow> queues st q = Some cq \<Longrightarrow> q < next_queue st"
  unfolding wf_l0_def by (metis option.distinct(1) queue_live)

lemma wf_list_bound: "wf_l0 st \<Longrightarrow> lists st l = Some cl \<Longrightarrow> l < next_list st"
  unfolding wf_l0_def by (metis option.distinct(1))

lemma wf_fences: "wf_l0 st \<Longrightarrow> queues st q = Some cq \<Longrightarrow> distinct (map fst (fences cq))"
  unfolding wf_l0_def queue_fences_def by fastforce

lemma queue_skeleton:
  assumes "queues st q = Some cq" "queues st' = (queues st)(q \<mapsto> cq')" "lists st' = lists st"
    "next_list st' = next_list st" "next_queue st' = next_queue st"
    "map fst (fences cq') = map fst (fences cq)" "next_fence cq' = next_fence cq"
  shows "skeleton st' = skeleton st"
  using assms by (auto simp: skeleton_def list_queue_def queue_fences_def fun_eq_iff)

text \<open>Queue \<open>q\<close> takes the jobs \<open>ks\<close> of a local variable and gives up the jobs \<open>js\<close>, which are released.\<close>

lemma queue_change:
  assumes wf: "wf_l0 st" and q: "queues st q = Some cq"
    and st': "queues st' = (queues st)(q \<mapsto> cq')" "lists st' = lists st" "next_list st' = next_list st"
      "next_queue st' = next_queue st" "next_job st' = next_job st"
    and refs: "\<And>j. job_refs st' j = job_refs st j - count_list js j"
    and cnt: "\<And>j. count_list (owned_jobs cq') j + count_list js j = count_list (owned_jobs cq) j + count_list ks j"
    and fe: "map fst (fences cq') = map fst (fences cq)" "next_fence cq' = next_fence cq"
  shows "skeleton st' = skeleton st \<and> (\<forall>e. refs_ok (\<lambda>j. e j + count_list ks j) st \<longrightarrow> refs_ok e st')"
proof -
  have "job_owners st' j + count_list js j = job_owners st j + count_list ks j" for j
    using owners_queue[OF wf_queue_bound[OF wf q] st'(2,1,3,4), of j] cnt[of j] q by (simp add: queue_owns_def)
  then have "job_owners st' j + e j + count_list js j = job_owners st j + (e j + count_list ks j)" for j and e :: "nat \<Rightarrow> nat"
    by (metis add.assoc add.commute)
  then show ?thesis
    using refs_change[OF _ refs _ st'(5)] queue_skeleton[OF q st'(1-4) fe] by auto
qed

lemma queue_shrink_steady:
  assumes "wf_l0 st" "queues st q = Some cq"
    "queues st' = (queues st)(q \<mapsto> cq')" "lists st' = lists st" "next_list st' = next_list st"
      "next_queue st' = next_queue st" "next_job st' = next_job st"
    "\<And>j. job_refs st' j = job_refs st j - count_list js j"
    "\<And>j. count_list (owned_jobs cq') j + count_list js j = count_list (owned_jobs cq) j"
    "map fst (fences cq') = map fst (fences cq)" "next_fence cq' = next_fence cq"
  shows "steady st st'"
  using queue_change[OF assms(1-8), where ks = "[]"] assms(9-11) by (simp add: steady_def)

lemma fence_count:
  assumes "distinct (map fst fs)" "map_of fs f = Some fe"
  shows "count_list (concat (map (fenceJobs \<circ> snd) (map (\<lambda>(i, x). if i = f then (i, fe') else (i, x)) fs))) j
      + count_list (fenceJobs fe) j
    = count_list (concat (map (fenceJobs \<circ> snd) fs)) j + count_list (fenceJobs fe') j"
  using assms
proof (induction fs)
  case (Cons p fs)
  obtain i x where p: "p = (i, x)" by force
  show ?case
  proof (cases "i = f")
    case True
    then have "map (\<lambda>(i, x). if i = f then (i, fe') else (i, x)) fs = fs"
      using Cons.prems(1) p by (intro map_idI) force
    then show ?thesis using Cons.prems True p by simp
  next
    case False
    then show ?thesis using Cons p by simp
  qed
qed simp

lemma fence_names: "map fst (map (\<lambda>(i, x). if i = f then (i, fe') else (i, x)) fs) = map fst fs"
  by (induction fs) auto

lemma set_fence_frame [simp]:
  "lists (set_fence q f fe st) = lists st" "next_list (set_fence q f fe st) = next_list st"
  "next_queue (set_fence q f fe st) = next_queue st" "next_job (set_fence q f fe st) = next_job st"
  "job_refs (set_fence q f fe st) = job_refs st"
  by (simp_all add: set_fence_def set_queue_def)

lemma set_fence_queues:
  "queues (set_fence q f fe st) = (queues st)(q \<mapsto> (the_queue st q)\<lparr>fences :=
     map (\<lambda>(i, x). if i = f then (i, fe) else (i, x)) (fences (the_queue st q))\<rparr>)"
  by (simp add: set_fence_def set_queue_def)

lemma fence_owned:
  assumes "distinct (map fst (fences cq))" "map_of (fences cq) f = Some fe"
  shows "count_list (owned_jobs (cq\<lparr>fences := map (\<lambda>(i, x). if i = f then (i, fe') else (i, x)) (fences cq)\<rparr>)) j
      + count_list (fenceJobs fe) j = count_list (owned_jobs cq) j + count_list (fenceJobs fe') j"
  using fence_count[OF assms, of fe' j] by (simp add: owned_jobs_def)

lemma fence_release_steady:
  assumes wf: "wf_l0 st" and q: "queues st q = Some cq" and f: "map_of (fences cq) f = Some fe"
    and fe': "fenceJobs fe' = []"
  shows "steady st (set_fence q f fe' (release_jobs (fenceJobs fe) st))"
proof -
  let ?cq = "cq\<lparr>fences := map (\<lambda>(i, x). if i = f then (i, fe') else (i, x)) (fences cq)\<rparr>"
  have "count_list (owned_jobs ?cq) j + count_list (fenceJobs fe) j = count_list (owned_jobs cq) j" for j
    using fence_owned[OF wf_fences[OF wf q] f, of fe'] fe' by simp
  then show ?thesis
    by (intro queue_shrink_steady[OF wf q, where js = "fenceJobs fe" and cq' = ?cq])
      (use q in \<open>auto simp: set_fence_queues release_jobs_refs fence_names\<close>)
qed

lemma wait_jobs_same: "wait_jobs t js st = (b, st') \<Longrightarrow> same_holders st st' \<and> queues st' = queues st"
proof (induction js arbitrary: st)
  case (Cons j js)
  obtain b1 j1 c where w: "job_waitForCompletion t (jobs st j) (dctx st) = ((b1, j1), c)" by (metis surj_pair)
  let ?st = "st\<lparr>jobs := (jobs st)(j := j1), dctx := c\<rparr>"
  have "same_holders st ?st" by (rule same_holders_update)
  then show ?case using Cons w same_holders_trans[of st ?st] by (auto simp: Let_def split: if_splits)
qed simp

lemma waitForJobs_same:
  assumes "waitForJobs q t js st = (r, st')" "queues st q = Some cq"
  shows "same_holders st st'"
proof -
  obtain b st1 where w: "wait_jobs t js st = (b, st1)" by force
  have s1: "same_holders st st1" "queues st1 q = Some cq" using wait_jobs_same[OF w] assms(2) by auto
  have "same_holders st1 (set_queue q (cq\<lparr>cq_preemption := None\<rparr>) st1)"
    using s1(2) by (rule same_holders_set_queue) simp_all
  then have "same_holders st1 ((set_queue q (cq\<lparr>cq_preemption := None\<rparr>) st1)\<lparr>dctx := c\<rparr>)" for c
    using same_holders_trans same_holders_update(2) by blast
  then have "same_holders st ((set_queue q (cq\<lparr>cq_preemption := None\<rparr>) st1)\<lparr>dctx := c\<rparr>)" for c
    using same_holders_trans[OF s1(1)] by blast
  then show ?thesis
    using assms(1) w s1 by (simp add: waitForJobs_def Let_def split: bool.splits if_splits option.splits) blast+
qed

lemma same_holders_queue:
  assumes "same_holders st st'" "queues st q = Some cq"
  obtains cq' where "queues st' q = Some cq'" "fences cq' = fences cq" "queueJobs cq' = queueJobs cq"
    "next_fence cq' = next_fence cq"
proof -
  have "map_option (\<lambda>cq. (queueJobs cq, fences cq, next_fence cq)) (queues st' q) =
      Some (queueJobs cq, fences cq, next_fence cq)"
    using assms by (simp add: same_holders_def)
  then show ?thesis using that by auto
qed

lemma fence_wait_steady:
  assumes wf: "wf_l0 st" and q: "queues st q = Some cq" and f: "map_of (fences cq) f = Some fe"
    and w: "fence_waitForJobs q f t st = (r, st')"
  shows "steady st st'"
proof -
  obtain r1 st1 where w1: "waitForJobs q t (fenceJobs fe) st = (r1, st1)" by force
  have s1: "same_holders st st1" using waitForJobs_same[OF w1 q] .
  then have st1: "steady st st1" by (rule same_holders_steady)
  obtain cq1 where q1: "queues st1 q = Some cq1" "fences cq1 = fences cq" using same_holders_queue[OF s1 q] by blast
  have "steady st1 (set_fence q f (fe\<lparr>fenceJobs := [], signaled := True\<rparr>) (release_jobs (fenceJobs fe) st1))"
    using fence_release_steady[OF _ q1(1)] steady_parts(6)[OF st1] wf f q1(2) by simp
  then show ?thesis
    using w w1 st1 steady_trans[OF st1] f q q1
    by (auto simp: fence_waitForJobs_def Let_def the_fence_def split: if_splits)
qed

lemma wait_fences_steady:
  assumes "wf_l0 st" "queue_fences st q = Some (gs, n)" "set fs \<subseteq> set gs" "wait_fences q t fs st = (r, st')"
  shows "steady st st'"
  using assms
proof (induction fs arbitrary: st)
  case (Cons f fs)
  obtain cq where q: "queues st q = Some cq" "map fst (fences cq) = gs"
    using Cons.prems(2) by (auto simp: queue_fences_def)
  have "f \<in> fst ` set (fences cq)" using Cons.prems(3) q(2) by auto
  then obtain fe where f: "map_of (fences cq) f = Some fe" by (metis map_of_eq_None_iff not_None_eq)
  obtain r1 st1 where w: "fence_waitForJobs q f t st = (r1, st1)" by force
  have s1: "steady st st1" by (rule fence_wait_steady[OF Cons.prems(1) q(1) f w])
  show ?case
    using Cons.IH[of st1] Cons.prems w s1 steady_parts(3,6)[OF s1] steady_trans[OF s1]
    by (auto split: if_splits)
qed simp

lemma synchronize_steady:
  assumes wf: "wf_l0 st" and q: "queues st q \<noteq> None" and s: "queue_synchronize env q t st = (r, st')"
  shows "steady st st'"
proof -
  define tt where "tt = getAbsoluteTimeoutNanoseconds (now env) t"
  obtain cq where cq: "queues st q = Some cq" using q by auto
  obtain r1 st1 where w1: "wait_fences q tt (map fst (fences cq)) st = (r1, st1)" by force
  have qf: "queue_fences st q = Some (map fst (fences cq), next_fence cq)" by (simp add: queue_fences_def cq)
  have s1: "steady st st1" by (rule wait_fences_steady[OF wf qf subset_refl w1])
  obtain cq1 where q1: "queues st1 q = Some cq1" using steady_queue[OF s1, of q] cq by auto
  obtain r2 st2 where w2: "waitForJobs q tt (queueJobs cq1) st1 = (r2, st2)" by force
  have h2: "same_holders st1 st2" by (rule waitForJobs_same[OF w2 q1])
  then have s2: "steady st st2" using s1 same_holders_steady steady_trans by blast
  obtain cq2 where q2: "queues st2 q = Some cq2" using same_holders_queue[OF h2 q1] by blast
  have "wf_l0 st2" using wf steady_parts(6)[OF s2] by simp
  then have "steady st2 (release_jobs (queueJobs cq2) (set_queue q (cq2\<lparr>queueJobs := []\<rparr>) st2))"
    by (rule queue_shrink_steady[OF _ q2, where js = "queueJobs cq2" and cq' = "cq2\<lparr>queueJobs := []\<rparr>"])
      (simp_all add: set_queue_def release_jobs_refs owned_jobs_def)
  then have "steady st (release_jobs (queueJobs cq2) (set_queue q (cq2\<lparr>queueJobs := []\<rparr>) st2))"
    using s2 steady_trans by blast
  then show ?thesis
    using s cq q1 q2 w1 w2 s1 s2 unfolding queue_synchronize_def tt_def[symmetric]
    by (auto simp: Let_def split: if_splits)
qed

section \<open>Steady operations of a list\<close>

definition steady_op :: "nat \<Rightarrow> ('h, 'k, 'a) l0_op \<Rightarrow> bool" where
  "steady_op l m \<longleftrightarrow>
     (\<forall>st x st'. wf_l0 st \<longrightarrow> lists st l \<noteq> None \<longrightarrow> m st = Some (x, st') \<longrightarrow> steady st st')"

lemma steady_opI:
  "(\<And>st x st'. wf_l0 st \<Longrightarrow> lists st l \<noteq> None \<Longrightarrow> m st = Some (x, st') \<Longrightarrow> steady st st') \<Longrightarrow> steady_op l m"
  by (simp add: steady_op_def)

lemma steady_opD:
  "steady_op l m \<Longrightarrow> wf_l0 st \<Longrightarrow> lists st l \<noteq> None \<Longrightarrow> m st = Some (x, st') \<Longrightarrow> steady st st'"
  by (simp add: steady_op_def)

lemma steady_op_ret: "steady_op l (l0_ret x)"
  by (simp add: steady_op_def)

lemma steady_op_fixed: "steady_op l (\<lambda>st. Some (f st, st))"
  by (simp add: steady_op_def)

lemma steady_op_at: "(\<And>s. steady_op l (f s)) \<Longrightarrow> steady_op l (\<lambda>st. f st st)"
  by (simp add: steady_op_def)

lemma steady_op_same:
  "(\<And>st x st'. lists st l \<noteq> None \<Longrightarrow> m st = Some (x, st') \<Longrightarrow> same_holders st st') \<Longrightarrow> steady_op l m"
  using same_holders_steady by (fastforce simp: steady_op_def)

lemma steady_op_bind:
  assumes "steady_op l m" "\<And>x. steady_op l (f x)"
  shows "steady_op l (l0_bind m f)"
proof (rule steady_opI)
  fix st y st' assume st: "wf_l0 st" "lists st l \<noteq> None" "l0_bind m f st = Some (y, st')"
  then obtain x st1 where m: "m st = Some (x, st1)" by (auto simp: l0_bind_def split: option.splits)
  have s1: "steady st st1" by (rule steady_opD[OF assms(1) st(1,2) m])
  show "steady st st'"
  proof (cases x)
    case (Inr a)
    then have "f a st1 = Some (y, st')" using st(3) m by (simp add: l0_bind_def)
    moreover have "wf_l0 st1" "lists st1 l \<noteq> None" using st(1,2) steady_parts(1,6)[OF s1] by simp_all
    ultimately have "steady st1 st'" using steady_opD[OF assms(2)] by blast
    then show ?thesis using s1 steady_trans by blast
  qed (use st(3) m s1 in \<open>simp add: l0_bind_def\<close>)
qed

lemma steady_op_ok: "steady_op l m \<Longrightarrow> steady_op l k \<Longrightarrow> steady_op l (l0_ok m k)"
  unfolding l0_ok_def by (rule steady_op_bind) (simp_all add: steady_op_ret)

lemma steady_op_if: "steady_op l a \<Longrightarrow> steady_op l b \<Longrightarrow> steady_op l (if p then a else b)"
  by simp

lemma steady_op_on_job: "steady_op l (on_job i f)"
  by (rule steady_op_same) (auto simp: on_job_def same_holders_update split: prod.splits)

lemma steady_op_on_job_throws: "steady_op l (on_job_throws i f)"
  by (rule steady_op_same) (auto simp: on_job_throws_def same_holders_update split: prod.splits)

lemma steady_op_on_ctx: "steady_op l (on_ctx f)"
  by (rule steady_op_same) (auto simp: on_ctx_def same_holders_update split: prod.splits)

lemma steady_op_on_ctx_throws: "steady_op l (on_ctx_throws f)"
  by (rule steady_op_same) (auto simp: on_ctx_throws_def same_holders_update split: prod.splits)

lemmas steady_ops = steady_op_ret steady_op_fixed steady_op_bind steady_op_ok steady_op_if
  steady_op_on_job steady_op_on_job_throws steady_op_on_ctx steady_op_on_ctx_throws

lemma list_owner:
  assumes "wf_l0 st" "lists st l = Some cl"
  shows "0 < job_owners st (vpuJob cl)"
proof -
  have "list_owns (lists st l) (vpuJob cl) \<le> (\<Sum>l<next_list st. list_owns (lists st l) (vpuJob cl))"
    using wf_list_bound[OF assms] by (intro member_le_sum) auto
  then show ?thesis using assms(2) by (simp add: job_owners_def list_owns_def)
qed

text \<open>A list takes a fresh job and gives up the old one.\<close>

lemma fresh_job_steady:
  assumes wf: "wf_l0 st" and l: "lists st l = Some cl"
  shows "steady st (fresh_job l st)"
proof -
  define i where "i = next_job st"
  define st1 where "st1 = set_list l (cl\<lparr>vpuJob := i\<rparr>)
    (st\<lparr>jobs := (jobs st)(i := new_job), job_refs := (job_refs st)(i := 1), next_job := i + 1\<rparr>)"
  have f: "fresh_job l st = release_job (vpuJob cl) st1" by (simp add: fresh_job_def Let_def i_def st1_def l)
  have fields: "queues st1 = queues st" "lists st1 = (lists st)(l \<mapsto> cl\<lparr>vpuJob := i\<rparr>)"
    "next_list st1 = next_list st" "next_queue st1 = next_queue st" "next_job st1 = i + 1"
    "job_refs st1 = (job_refs st)(i := 1)"
    by (simp_all add: st1_def set_list_def)
  have "skeleton (fresh_job l st) = skeleton st"
    using fields l by (auto simp: f skeleton_def list_queue_def queue_fences_def fun_eq_iff)
  moreover have "refs_ok e (fresh_job l st)" if r: "refs_ok e st" for e
  proof -
    have o: "job_owners st1 j + of_bool (vpuJob cl = j) = job_owners st j + of_bool (i = j)" for j
      using owners_list[OF wf_list_bound[OF wf l] fields(1,2,3,4), of j] l by (simp add: list_owns_def)
    have refs: "job_refs st j = job_owners st j + e j" and bound: "i \<le> j \<Longrightarrow> job_refs st j = 0" for j
      using r by (auto simp: refs_ok_def i_def)
    have ri: "job_owners st i = 0" "e i = 0" using refs[of i] bound[of i] by simp_all
    have "0 < job_owners st (vpuJob cl)" using list_owner[OF wf l] .
    then have "vpuJob cl < i" using refs[of "vpuJob cl"] bound[of "vpuJob cl"] by (cases "i \<le> vpuJob cl") simp_all
    then have old: "vpuJob cl \<noteq> i" by simp
    have "next_job st1 \<le> j \<Longrightarrow> job_refs (release_job (vpuJob cl) st1) j = 0" for j
      using bound[of j] \<open>vpuJob cl < i\<close> by (simp add: fields)
    moreover have "job_refs (release_job (vpuJob cl) st1) j = job_owners st1 j + e j" for j
      using o[of j] refs[of j] ri old by (cases "j = i"; cases "j = vpuJob cl") (simp_all add: fields)
    ultimately show ?thesis unfolding f refs_ok_def by simp
  qed
  ultimately show ?thesis by (simp add: steady_def)
qed

section \<open>Execution\<close>

lemma submit_list_same:
  assumes "submit_list env q n j st = Some (r, st')" "queues st q = Some cq"
  shows "same_holders st st'"
  using assms
  by (auto simp: submit_list_def l0_bind_def on_job_throws_def on_job_def set_queue_def same_holders_def Let_def
      split: option.splits sum.splits prod.splits if_splits bool.splits)

lemma acquire_same:
  assumes "acquire_preemption q st = Some (r, st')" "queues st q = Some cq"
  shows "same_holders st st'"
  using assms by (auto simp: acquire_preemption_def set_queue_def same_holders_def split: prod.splits sum.splits if_splits)

lemma refs_same_holders: "same_holders st st' \<Longrightarrow> refs_ok e st' = refs_ok e st"
  by (simp add: refs_ok_def job_owners_def same_holders_owns) (simp add: same_holders_def)

lemma share_job_frame [simp]:
  "lists (share_job j st) = lists st" "queues (share_job j st) = queues st"
  "next_job (share_job j st) = next_job st" "next_list (share_job j st) = next_list st"
  "next_queue (share_job j st) = next_queue st" "job_refs (share_job j st) = (job_refs st)(j := job_refs st j + 1)"
  by (simp_all add: share_job_def)

lemma skeleton_cong:
  "lists st' = lists st \<Longrightarrow> queues st' = queues st \<Longrightarrow> next_list st' = next_list st \<Longrightarrow> next_queue st' = next_queue st
     \<Longrightarrow> skeleton st' = skeleton st"
  by (simp add: skeleton_def list_queue_def queue_fences_def fun_eq_iff)

lemma share_refs:
  assumes wf: "wf_l0 st" and l: "lists st l = Some cl" and r: "refs_ok (\<lambda>j. e j + count_list js j) st"
  shows "refs_ok (\<lambda>j. e j + count_list (js @ [vpuJob cl]) j) (share_job (vpuJob cl) st)"
proof -
  have o: "job_owners (share_job (vpuJob cl) st) = job_owners st" by (rule owners_cong) simp_all
  have "job_refs st (vpuJob cl) \<noteq> 0" using r list_owner[OF wf l] by (simp add: refs_ok_def)
  then have "vpuJob cl < next_job st" using r by (metis not_le refs_ok_def)
  then show ?thesis using r by (auto simp: refs_ok_def o)
qed

lemma release_skeleton [simp]: "skeleton (release_jobs is st) = skeleton st"
  by (rule skeleton_cong) simp_all

text \<open>The jobs submitted so far are owned by the local vector.\<close>

lemma submit_lists_refs:
  assumes "submit_lists env q n hs acc st = Some (x, st')" "wf_l0 st" "queues st q = Some cq"
  shows "skeleton st' = skeleton st \<and> (\<forall>e. refs_ok (\<lambda>j. e j + count_list acc j) st \<longrightarrow>
    (case x of Inl err \<Rightarrow> refs_ok e st' | Inr (r, js) \<Rightarrow> refs_ok (\<lambda>j. e j + count_list js j) st'))"
  using assms
proof (induction hs arbitrary: n acc st cq)
  case (Cons h hs)
  show ?case
  proof (cases "Option.bind h (lists st)")
    case None
    then show ?thesis using Cons.prems(1) by auto
  next
    case (Some cl)
    then obtain l where l: "lists st l = Some cl" by (cases h) auto
    let ?j = "vpuJob cl"
    show ?thesis
    proof (cases "getNumCommands (jobs st ?j) = 0")
      case True
      then show ?thesis using Cons Some by auto
    next
      case False
      then obtain y st1 where y: "submit_list env q n ?j (share_job ?j st) = Some (y, st1)"
        using Cons.prems(1) Some by (auto split: option.splits)
      have h: "same_holders (share_job ?j st) st1" using submit_list_same[OF y] Cons.prems(3) by simp
      have "skeleton (share_job ?j st) = skeleton st" by (rule skeleton_cong) simp_all
      moreover have "steady (share_job ?j st) st1" using h by (rule same_holders_steady)
      ultimately have sk: "skeleton st1 = skeleton st" by (simp add: steady_def)
      then have wf1: "wf_l0 st1" using Cons.prems(2) skeleton_parts(6) by blast
      obtain cq1 where q1: "queues st1 q = Some cq1"
        using same_holders_queue[OF h] Cons.prems(3) by (metis share_job_frame(2))
      have r1: "refs_ok (\<lambda>j. e j + count_list (acc @ [?j]) j) st1" if "refs_ok (\<lambda>j. e j + count_list acc j) st" for e
        using share_refs[OF Cons.prems(2) l that] refs_same_holders[OF h] by simp
      show ?thesis
      proof (cases "\<exists>r. y = Inr r \<and> r = ZE_RESULT_SUCCESS")
        case True
        then have "submit_lists env q (Suc n) hs (acc @ [?j]) st1 = Some (x, st')"
          using Cons.prems(1) Some False y by auto
        from Cons.IH[OF this wf1 q1] r1 sk show ?thesis by auto
      next
        case False
        have "x = Inr (r, acc @ [?j]) \<and> st' = st1" if "y = Inr r" for r
          using that False Cons.prems(1) Some \<open>getNumCommands (jobs st ?j) \<noteq> 0\<close> y by auto
        moreover have "x = Inl err \<and> st' = release_jobs (acc @ [?j]) st1" if "y = Inl err" for err
          using that Cons.prems(1) Some \<open>getNumCommands (jobs st ?j) \<noteq> 0\<close> y by auto
        moreover have "refs_ok e (release_jobs (acc @ [?j]) st1)" if "refs_ok (\<lambda>j. e j + count_list acc j) st" for e
          by (rule release_local[OF r1[OF that]])
        ultimately show ?thesis using sk r1 by (cases y) (auto simp del: count_list_append)
      qed
    qed
  qed
qed auto

lemma track_refs:
  assumes wf: "wf_l0 st" and q: "queues st q = Some cq" and f: "map_of (fences cq) f = Some fe"
  shows "skeleton (setTrackedJobs q f js st) = skeleton st \<and>
    (\<forall>e. refs_ok (\<lambda>j. e j + count_list js j) st \<longrightarrow> refs_ok e (setTrackedJobs q f js st))"
proof -
  let ?fe = "fe\<lparr>signaled := (if js = [] then True else signaled fe), fenceJobs := js\<rparr>"
  let ?cq = "cq\<lparr>fences := map (\<lambda>(i, x). if i = f then (i, ?fe) else (i, x)) (fences cq)\<rparr>"
  have "count_list (owned_jobs ?cq) j + count_list (fenceJobs fe) j = count_list (owned_jobs cq) j + count_list js j" for j
    using fence_owned[OF wf_fences[OF wf q] f, of ?fe] by simp
  then show ?thesis
    by (intro queue_change[OF wf q, where js = "fenceJobs fe" and cq' = ?cq])
      (use q f in \<open>auto simp: setTrackedJobs_def the_fence_def Let_def set_fence_queues release_jobs_refs fence_names\<close>)
qed

lemma queue_takes:
  assumes wf: "wf_l0 st" and q: "queues st q = Some cq"
  shows "skeleton (set_queue q (cq\<lparr>queueJobs := queueJobs cq @ js\<rparr>) st) = skeleton st \<and>
    (\<forall>e. refs_ok (\<lambda>j. e j + count_list js j) st \<longrightarrow> refs_ok e (set_queue q (cq\<lparr>queueJobs := queueJobs cq @ js\<rparr>) st))"
  by (rule queue_change[OF wf q, where js = "[]" and cq' = "cq\<lparr>queueJobs := queueJobs cq @ js\<rparr>"])
    (simp_all add: set_queue_def owned_jobs_def)

lemma execute_steady:
  assumes wf: "wf_l0 st" and q: "queues st q \<noteq> None" and x: "executeCommandLists env q phs hFence st = Some (y, st')"
  shows "steady st st'"
proof (cases "\<exists>hs. phs = Some hs \<and> hs \<noteq> [] \<and> check_lists st hs = ZE_RESULT_SUCCESS")
  case False
  then have "st' = st" using x by (auto simp: executeCommandLists_def split: option.splits if_splits)
  then show ?thesis by simp
next
  case True
  then obtain hs where hs: "phs = Some hs" "hs \<noteq> []" "check_lists st hs = ZE_RESULT_SUCCESS" by blast
  obtain cq where cq: "queues st q = Some cq" using q by auto
  obtain a st1 where a: "acquire_preemption q st = Some (a, st1)"
    using x hs by (auto simp: executeCommandLists_def l0_bind_def split: option.splits)
  have h1: "same_holders st st1" by (rule acquire_same[OF a cq])
  then have s1: "steady st st1" by (rule same_holders_steady)
  then have wf1: "wf_l0 st1" using wf steady_parts(6) by blast
  obtain cq1 where q1: "queues st1 q = Some cq1" using same_holders_queue[OF h1 cq] by blast
  show ?thesis
  proof (cases a)
    case (Inl e)
    then show ?thesis using x hs a s1 by (simp add: executeCommandLists_def l0_bind_def)
  next
    case (Inr u)
    obtain z st2 where z: "submit_lists env q 0 hs [] st1 = Some (z, st2)"
      using x hs a Inr by (auto simp: executeCommandLists_def l0_bind_def split: option.splits)
    have sub: "skeleton st2 = skeleton st1"
      "\<And>e. refs_ok e st1 \<Longrightarrow> case z of Inl err \<Rightarrow> refs_ok e st2 | Inr (r, js) \<Rightarrow> refs_ok (\<lambda>j. e j + count_list js j) st2"
      using submit_lists_refs[OF z wf1 q1] by auto
    have wf2: "wf_l0 st2" using wf1 skeleton_parts(6)[OF sub(1)] by simp
    obtain cq2 where q2: "queues st2 q = Some cq2"
      using skeleton_parts(3)[OF sub(1)] q1 by (metis not_None_eq queue_live)
    show ?thesis
    proof (cases z)
      case (Inl err)
      then have "st' = st2" using x hs a Inr z by (simp add: executeCommandLists_def l0_bind_def)
      moreover have "steady st1 st2" using sub Inl by (simp add: steady_def)
      ultimately show ?thesis using s1 steady_trans by blast
    next
      case (Inr rj)
      then obtain r js where rj: "z = Inr (r, js)" by (cases rj) auto
      define st3 where "st3 = (if r \<noteq> ZE_RESULT_SUCCESS then release_jobs js st2
        else case hFence of None \<Rightarrow> set_queue q (cq2\<lparr>queueJobs := queueJobs cq2 @ js\<rparr>) st2
          | Some f \<Rightarrow> if map_of (fences cq2) f = None then release_jobs js st2 else setTrackedJobs q f js st2)"
      have "skeleton st3 = skeleton st2 \<and> (\<forall>e. refs_ok (\<lambda>j. e j + count_list js j) st2 \<longrightarrow> refs_ok e st3)"
        using queue_takes[OF wf2 q2, of js] track_refs[OF wf2 q2] release_local[of _ js st2]
        by (auto simp: st3_def split: option.splits)
      then have "steady st1 st3" using sub rj by (auto simp: steady_def)
      then have s3: "steady st st3" using s1 steady_trans by blast
      moreover have "steady st3 (snd (queue_synchronize env q (- 1) st3))"
        using synchronize_steady[of st3 q env "- 1"] steady_parts(6)[OF s3] steady_queue[OF s3, of q] wf q
        by (metis prod.collapse)
      moreover have "st' = st3 \<or> st' = snd (queue_synchronize env q (- 1) st3)"
        using x by (cases "r = ZE_RESULT_SUCCESS"; cases hFence)
          (simp_all add: executeCommandLists_def l0_bind_def a \<open>a = Inr u\<close> z rj hs q2 st3_def split: if_splits prod.splits)
      ultimately show ?thesis using steady_trans by metis
    qed
  qed
qed

end
