(* ===== verification/Api_Graph.thy ===== *)
theory Api_Graph
  imports Api_Objects L0_Graph L0_Memory
begin

text \<open>
  The entry points of the graph extension (\<open>umd/level_zero_driver/api/ext/ze_graph.cpp\<close>): the
  validation of the structures of the application, the translation of the loader's handles, and the
  calls of the functions of graphs, logs, profiling and query objects. The loader
  (\<open>translateHandle\<close>) is third-party code and a parameter, like the numbers of the structure types,
  which its headers define. A graph handle is the graph, \<open>None\<close> for the null pointer.
\<close>

section \<open>Validation\<close>

datatype ext_struct =
    Device_graph_properties | Device_graph_properties_2 | Graph_desc | Graph_desc_2
  | Graph_properties | Graph_properties_2 | Graph_properties_3
  | Graph_argument_properties | Graph_argument_properties_2 | Graph_argument_properties_3
  | Graph_argument_metadata | Graph_input_hash | Graph_argument_property_strides
  | Graph_argument_value_tensor | Graph_argument_value_strides

text \<open>
  \<open>extensionValidation\<close> is the flag that the environment sets; \<open>base_desc\<close> reads the type and the
  \<open>pNext\<close> of the structure at an address; \<open>stype_code\<close> numbers the types; the last two are the
  answers of the loader for the context and for the device of the call.
\<close>

record api_env =
  extensionValidation :: bool
  base_desc :: "u64 \<Rightarrow> u32 \<times> u64"
  stype_code :: "ext_struct \<Rightarrow> u32"
  tr_context :: ze_result
  tr_device :: ze_result

definition getGraphExtStructureType :: "api_env \<Rightarrow> ext_struct \<Rightarrow> u32" where
  "getGraphExtStructureType ae T = stype_code ae T"

text \<open>The loop over the structures behind \<open>pNext\<close>; nothing bounds it.\<close>

partial_function (option) validate_chain :: "(u64 \<Rightarrow> u32 \<times> u64) \<Rightarrow> u32 list \<Rightarrow> u64 \<Rightarrow> ze_result option" where
  "validate_chain bd valid pNext =
     (if pNext = 0 then Some ZE_RESULT_SUCCESS
      else if \<not> list_ex (\<lambda>validType. fst (bd pNext) = validType) valid then Some ZE_RESULT_ERROR_INVALID_ARGUMENT
      else validate_chain bd valid (snd (bd pNext)))"

definition validateGraphStructure :: "api_env \<Rightarrow> ext_struct \<Rightarrow> ext_struct list \<Rightarrow> u64 \<Rightarrow> ze_result option" where
  "validateGraphStructure ae T validPNext pStruct =
     (if pStruct = 0 then Some ZE_RESULT_ERROR_INVALID_NULL_POINTER
      else if \<not> extensionValidation ae then Some ZE_RESULT_SUCCESS
      else if fst (base_desc ae pStruct) \<noteq> getGraphExtStructureType ae T then Some ZE_RESULT_ERROR_INVALID_ARGUMENT
      else validate_chain (base_desc ae) (map (stype_code ae) validPNext) (snd (base_desc ae pStruct)))"

text \<open>``If the result is not success, return it'', before the rest of a call.\<close>

definition after_validation :: "ze_result option \<Rightarrow> (ze_result \<Rightarrow> 'r) \<Rightarrow> 'r option \<Rightarrow> 'r option" where
  "after_validation v bad k =
     (case v of None \<Rightarrow> None | Some r \<Rightarrow> if r \<noteq> ZE_RESULT_SUCCESS then Some (bad r) else k)"

definition after_ok :: "ze_result \<Rightarrow> (ze_result \<Rightarrow> 'r) \<Rightarrow> 'r option \<Rightarrow> 'r option" where
  "after_ok r bad k = (if r \<noteq> ZE_RESULT_SUCCESS then Some (bad r) else k)"

text \<open>\<open>L0_HANDLE_EXCEPTION\<close> on a value.\<close>

definition caught :: "'r \<Rightarrow> 'e + 'r \<Rightarrow> 'r" where
  "caught unknown x = (case x of Inl e \<Rightarrow> unknown | Inr r \<Rightarrow> r)"

section \<open>Graphs\<close>

text \<open>\<open>Graph::create\<close> under the handler of exceptions; the log is that of the build log object.\<close>

type_synonym ('h, 'k) create_result = "(ze_result \<times> ('h, 'k) graph option \<times> string option) \<times> 'k graph_world"

definition api_graph_create ::
  "('c, 'p, 'q, 'h, 'k) graph_env \<Rightarrow> graph_input option \<Rightarrow> bool \<Rightarrow> bool \<Rightarrow> 'k graph_world
     \<Rightarrow> ('h, 'k) create_result option" where
  "api_graph_create ge od phGraph phGraphBuildLog w =
     map_option (\<lambda>(r, og, log, w').
         ((caught ZE_RESULT_ERROR_UNKNOWN r, og, if phGraphBuildLog \<and> od \<noteq> None \<and> phGraph then Some log else None), w'))
       (graph_create ge od phGraph w)"

text \<open>The descriptor is an address, where \<open>descs\<close> reads it.\<close>

definition zeGraphCreate ::
  "api_env \<Rightarrow> ('c, 'p, 'q, 'h, 'k) graph_env \<Rightarrow> (u64 \<Rightarrow> graph_input) \<Rightarrow> u64 \<Rightarrow> bool \<Rightarrow> 'k graph_world
     \<Rightarrow> ('h, 'k) create_result option" where
  "zeGraphCreate ae ge descs pDesc phGraph w =
     (let bad = (\<lambda>r. ((r, None, None), w)) in
      after_validation (validateGraphStructure ae Graph_desc [Graph_input_hash] pDesc) bad
        (after_ok (tr_context ae) bad
          (after_ok (tr_device ae) bad
            (api_graph_create ge (Some ((descs pDesc)\<lparr>gi_flags := 0\<rparr>)) phGraph False w))))"

definition zeGraphCreate3 ::
  "api_env \<Rightarrow> ('c, 'p, 'q, 'h, 'k) graph_env \<Rightarrow> (u64 \<Rightarrow> graph_input) \<Rightarrow> bool \<Rightarrow> bool \<Rightarrow> u64 \<Rightarrow> bool \<Rightarrow> bool
     \<Rightarrow> 'k graph_world \<Rightarrow> ('h, 'k) create_result option" where
  "zeGraphCreate3 ae ge descs hContext hDevice desc phGraph phGraphBuildLog w =
     (let bad = (\<lambda>r. ((r, None, None), w)) in
      if \<not> hDevice \<or> \<not> hContext then Some (bad ZE_RESULT_ERROR_INVALID_NULL_HANDLE)
      else after_validation (validateGraphStructure ae Graph_desc_2 [Graph_input_hash] desc) bad
        (after_ok (tr_context ae) bad
          (after_ok (tr_device ae) bad (api_graph_create ge (Some (descs desc)) phGraph phGraphBuildLog w))))"

definition zeGraphCreate2 ::
  "api_env \<Rightarrow> ('c, 'p, 'q, 'h, 'k) graph_env \<Rightarrow> (u64 \<Rightarrow> graph_input) \<Rightarrow> bool \<Rightarrow> bool \<Rightarrow> u64 \<Rightarrow> bool
     \<Rightarrow> 'k graph_world \<Rightarrow> ('h, 'k) create_result option" where
  "zeGraphCreate2 ae ge descs hContext hDevice desc phGraph w =
     (let bad = (\<lambda>r. ((r, None, None), w)) in
      if \<not> hDevice \<or> \<not> hContext then Some (bad ZE_RESULT_ERROR_INVALID_NULL_HANDLE)
      else after_validation (validateGraphStructure ae Graph_desc_2 [Graph_input_hash] desc) bad
        (after_ok (tr_context ae) bad
          (after_ok (tr_device ae) bad (api_graph_create ge (Some (descs desc)) phGraph False w))))"

text \<open>\<open>shared\<close>: whether a command still shares the parser.\<close>

definition zeGraphDestroy :: "bool \<Rightarrow> ('h, 'k) graph option \<Rightarrow> 'k graph_world \<Rightarrow> ze_result \<times> 'k graph_world" where
  "zeGraphDestroy shared hGraph w =
     (case hGraph of None \<Rightarrow> (ZE_RESULT_ERROR_INVALID_NULL_HANDLE, w)
      | Some g \<Rightarrow> (ZE_RESULT_SUCCESS, graph_destroy shared g w))"

definition on_graph ::
  "(('h, 'k) graph \<Rightarrow> ze_result \<times> ('h, 'k) graph) \<Rightarrow> ('h, 'k) graph option \<Rightarrow> ze_result \<times> ('h, 'k) graph option" where
  "on_graph f hGraph =
     (case hGraph of None \<Rightarrow> (ZE_RESULT_ERROR_INVALID_NULL_HANDLE, None)
      | Some g \<Rightarrow> map_prod id Some (f g))"

definition zeGraphSetArgumentValue ::
  "('h, 'k) graph option \<Rightarrow> u32 \<Rightarrow> u64 \<Rightarrow> ze_result \<times> ('h, 'k) graph option" where
  "zeGraphSetArgumentValue hGraph argIndex pArgValue = on_graph (setArgumentValue argIndex pArgValue) hGraph"

definition zeGraphSetArgumentValue2 ::
  "structs \<Rightarrow> ('h, 'k) graph option \<Rightarrow> u32 \<Rightarrow> u64 \<Rightarrow> ze_result \<times> ('h, 'k) graph option" where
  "zeGraphSetArgumentValue2 structs hGraph argIndex pArgValue =
     on_graph (setArgumentValue2 structs argIndex pArgValue) hGraph"

definition zeGraphInitialize :: "('h, 'k) graph option \<Rightarrow> ze_result \<times> ('h, 'k) graph option" where
  "zeGraphInitialize hGraph = on_graph parserInitialize hGraph"

definition zeGraphEvict :: "('h, 'k) graph option \<Rightarrow> ze_result" where
  "zeGraphEvict hGraph = (if hGraph = None then ZE_RESULT_ERROR_INVALID_NULL_HANDLE else ZE_RESULT_SUCCESS)"

section \<open>Queries of a graph\<close>

text \<open>
  A query of a graph with an output structure at \<open>p\<close>: the handle, the validation, then the function.
  \<open>outp\<close> is what the function wrote, when it did.
\<close>

definition graph_query ::
  "api_env \<Rightarrow> ext_struct \<Rightarrow> ext_struct list \<Rightarrow> ('h, 'k) graph option \<Rightarrow> u64
     \<Rightarrow> (('h, 'k) graph \<Rightarrow> exn + ze_result \<times> 'o option) \<Rightarrow> (ze_result \<times> 'o option) option" where
  "graph_query ae T valid hGraph p f =
     (case hGraph of None \<Rightarrow> Some (ZE_RESULT_ERROR_INVALID_NULL_HANDLE, None)
      | Some g \<Rightarrow> after_validation (validateGraphStructure ae T valid p) (\<lambda>r. (r, None))
                     (Some (caught (ZE_RESULT_ERROR_UNKNOWN, None) (f g))))"

definition zeGraphGetProperties ::
  "api_env \<Rightarrow> ('h, 'k) graph option \<Rightarrow> u64 \<Rightarrow> (ze_result \<times> u32 option) option" where
  "zeGraphGetProperties ae hGraph p = graph_query ae Graph_properties [] hGraph p (getProperties True)"

definition zeGraphGetProperties2 ::
  "api_env \<Rightarrow> ('h, 'k) graph option \<Rightarrow> u64 \<Rightarrow> (ze_result \<times> (u32 \<times> graph_stage) option) option" where
  "zeGraphGetProperties2 ae hGraph p =
     graph_query ae Graph_properties_2 [] hGraph p (\<lambda>g. map_sum id (\<lambda>x. (ZE_RESULT_SUCCESS, Some x)) (getProperties2 g))"

definition zeGraphGetProperties3 ::
  "api_env \<Rightarrow> ('h, 'k) graph option \<Rightarrow> u64 \<Rightarrow> (ze_result \<times> (u32 \<times> graph_stage \<times> prop_flag set) option) option" where
  "zeGraphGetProperties3 ae hGraph p =
     graph_query ae Graph_properties_3 [] hGraph p (\<lambda>g. map_sum id (\<lambda>x. (ZE_RESULT_SUCCESS, Some x)) (getProperties3 g))"

text \<open>
  The three calls for the properties of an argument differ in the type of the structure, and in the
  fields that it holds; \<open>old\<close> is the contents of the structure before.
\<close>

definition argument_query ::
  "api_env \<Rightarrow> ext_struct \<Rightarrow> u32 \<Rightarrow> (argument_properties \<Rightarrow> 'v) \<Rightarrow> ('h, 'k) graph option \<Rightarrow> u32 \<Rightarrow> u64 \<Rightarrow> 'v \<Rightarrow> structs
     \<Rightarrow> (ze_result \<times> ('v out_struct option \<times> structs) option) option" where
  "argument_query ae T stored visible hGraph argIndex p old structs =
     graph_query ae T [Graph_argument_property_strides] hGraph p (\<lambda>g.
       case getArgumentProperties_n (stype_code ae T) stored visible argIndex g
              (Some \<lparr>out_stype = fst (base_desc ae p), out_pNext = snd (base_desc ae p), out_value = old\<rparr>, structs) of
         (r, out, structs') \<Rightarrow> Inr (r, Some (out, structs')))"

definition zeGraphGetArgumentProperties where
  "zeGraphGetArgumentProperties ae = argument_query ae Graph_argument_properties"

definition zeGraphGetArgumentProperties2 where
  "zeGraphGetArgumentProperties2 ae = argument_query ae Graph_argument_properties_2"

definition zeGraphGetArgumentProperties3 where
  "zeGraphGetArgumentProperties3 ae = argument_query ae Graph_argument_properties_3"

definition zeGraphGetArgumentMetadata ::
  "api_env \<Rightarrow> ('h, 'k) graph option \<Rightarrow> u32 \<Rightarrow> u64 \<Rightarrow> argument_metadata \<Rightarrow> (ze_result \<times> argument_metadata out_struct option) option" where
  "zeGraphGetArgumentMetadata ae hGraph argIndex p old =
     graph_query ae Graph_argument_metadata [] hGraph p (\<lambda>g.
       Inr (graph_getArgumentMetadata argIndex g
         (Some \<lparr>out_stype = fst (base_desc ae p), out_pNext = snd (base_desc ae p), out_value = old\<rparr>)))"

definition zeGraphGetNativeBinary ::
  "('h, 'k) graph option \<Rightarrow> u64 option \<Rightarrow> bool \<Rightarrow> ze_result \<times> u64 option \<times> bytes option" where
  "zeGraphGetNativeBinary hGraph pSize wanted =
     (case hGraph of None \<Rightarrow> (ZE_RESULT_ERROR_INVALID_NULL_HANDLE, pSize, None)
      | Some g \<Rightarrow> getNativeBinary pSize wanted g)"

definition zeGraphGetNativeBinary2 ::
  "('h, 'k) graph option \<Rightarrow> bool \<Rightarrow> bool \<Rightarrow> ze_result \<times> (u64 \<times> u64) option" where
  "zeGraphGetNativeBinary2 hGraph pSize pGraphNativeBinary =
     (case hGraph of None \<Rightarrow> (ZE_RESULT_ERROR_INVALID_NULL_HANDLE, None)
      | Some g \<Rightarrow>
          if \<not> pSize then (ZE_RESULT_ERROR_INVALID_NULL_POINTER, None)
          else if \<not> pGraphNativeBinary then (ZE_RESULT_ERROR_INVALID_NULL_POINTER, None)
          else (ZE_RESULT_SUCCESS, Some (getNativeBinary2 g)))"

section \<open>Logs\<close>

text \<open>With a graph there is nothing to report: the size is not written either.\<close>

definition zeGraphBuildLogGetString ::
  "bool \<Rightarrow> u32 option \<Rightarrow> bool \<Rightarrow> string \<Rightarrow> ze_result \<times> u32 option \<times> string option" where
  "zeGraphBuildLogGetString hGraph pSize wanted failLog =
     (if hGraph then (ZE_RESULT_SUCCESS, pSize, None) else getLogString pSize wanted failLog)"

definition zeGraphBuildLogGetString2 ::
  "string option \<Rightarrow> u32 option \<Rightarrow> bool \<Rightarrow> ze_result \<times> u32 option \<times> string option" where
  "zeGraphBuildLogGetString2 hGraphBuildLog pSize wanted =
     (case hGraphBuildLog of None \<Rightarrow> (ZE_RESULT_ERROR_INVALID_NULL_HANDLE, pSize, None)
      | Some log \<Rightarrow> getLogString pSize wanted log)"

definition zeGraphBuildLogDestroy :: "string option \<Rightarrow> ze_result \<times> string option" where
  "zeGraphBuildLogDestroy hGraphBuildLog =
     (if hGraphBuildLog = None then (ZE_RESULT_ERROR_INVALID_NULL_HANDLE, None) else (ZE_RESULT_SUCCESS, None))"

section \<open>Devices and contexts\<close>

definition zeDeviceGetGraphProperties ::
  "api_env \<Rightarrow> ('c, 'p, 'q) vcl \<Rightarrow> compiler_state \<Rightarrow> bool \<Rightarrow> u64 \<Rightarrow> device_graph_properties
     \<Rightarrow> (ze_result \<times> device_graph_properties option) option" where
  "zeDeviceGetGraphProperties ae v s hDevice p old =
     (let bad = (\<lambda>r. (r, None)) in
      if \<not> hDevice then Some (bad ZE_RESULT_ERROR_INVALID_NULL_HANDLE)
      else after_ok (tr_device ae) bad
        (after_validation (validateGraphStructure ae Device_graph_properties [] p) bad
          (Some (getDeviceGraphProperties v s (Some old)))))"

definition zeDeviceGetGraphProperties2 ::
  "api_env \<Rightarrow> ('c, 'p, 'q) vcl \<Rightarrow> (arch_kind \<Rightarrow> u32 \<times> u32 \<times> u32) \<Rightarrow> hw_info \<Rightarrow> compiler_state \<Rightarrow> bool \<Rightarrow> u64
     \<Rightarrow> device_graph_properties \<Rightarrow> (ze_result \<times> (device_graph_properties \<times> (u32 \<times> u32) \<times> u32 \<times> u32 \<times> u32) option) option" where
  "zeDeviceGetGraphProperties2 ae v getLibraryELFVersion hw s hDevice p old =
     (let bad = (\<lambda>r. (r, None)) in
      if \<not> hDevice then Some (bad ZE_RESULT_ERROR_INVALID_NULL_HANDLE)
      else after_validation (validateGraphStructure ae Device_graph_properties_2 [] p) bad
        (after_ok (tr_device ae) bad
          (Some (getDeviceGraphProperties2 v getLibraryELFVersion hw s (Some old)))))"

text \<open>
  \<open>expected\<close> is the number of the structure type, \<open>version\<close> the current version of the extension that
  the header defines.
\<close>

definition getProfilingDataProperties :: "u32 \<Rightarrow> bool \<Rightarrow> ze_result \<times> u32 option" where
  "getProfilingDataProperties version there =
     (if \<not> there then (ZE_RESULT_ERROR_INVALID_NULL_POINTER, None) else (ZE_RESULT_SUCCESS, Some version))"

definition zeDeviceGetProfilingDataProperties ::
  "api_env \<Rightarrow> u32 \<Rightarrow> u32 \<Rightarrow> bool \<Rightarrow> u64 \<Rightarrow> ze_result \<times> u32 option" where
  "zeDeviceGetProfilingDataProperties ae expected version hDevice p =
     (if \<not> hDevice then (ZE_RESULT_ERROR_INVALID_NULL_HANDLE, None)
      else if p = 0 then (ZE_RESULT_ERROR_INVALID_NULL_POINTER, None)
      else if extensionValidation ae \<and> fst (base_desc ae p) \<noteq> expected then (ZE_RESULT_ERROR_INVALID_ARGUMENT, None)
      else if extensionValidation ae \<and> snd (base_desc ae p) \<noteq> 0 then (ZE_RESULT_ERROR_INVALID_ARGUMENT, None)
      else if tr_device ae \<noteq> ZE_RESULT_SUCCESS then (tr_device ae, None)
      else getProfilingDataProperties version True)"

definition zeGraphQueryContextMemory ::
  "api_env \<Rightarrow> 'k dev_ctx option \<Rightarrow> u64 option \<Rightarrow> u64 \<times> u64 \<Rightarrow> memory_query \<Rightarrow> ze_result \<times> u64 option \<times> u64 option" where
  "zeGraphQueryContextMemory ae hContext ram cache ty =
     (case hContext of None \<Rightarrow> (ZE_RESULT_ERROR_INVALID_NULL_HANDLE, None, None)
      | Some c \<Rightarrow> if tr_context ae \<noteq> ZE_RESULT_SUCCESS then (tr_context ae, None, None)
                   else queryContextMemory c ram cache ty)"

definition zeGraphCompilerGetSupportedOptions ::
  "api_env \<Rightarrow> ('c, 'p, 'q) vcl \<Rightarrow> hw_info option \<Rightarrow> option_type \<Rightarrow> u64 option \<Rightarrow> bytes option \<Rightarrow> compiler_state
     \<Rightarrow> (ze_result \<times> bytes option \<times> u64 option) \<times> compiler_state" where
  "zeGraphCompilerGetSupportedOptions ae v hDevice ty pSize buf s =
     (case hDevice of None \<Rightarrow> ((ZE_RESULT_ERROR_INVALID_NULL_HANDLE, buf, pSize), s)
      | Some hw \<Rightarrow>
          (case pSize of None \<Rightarrow> ((ZE_RESULT_ERROR_INVALID_NULL_POINTER, buf, None), s)
           | Some n \<Rightarrow>
               if tr_device ae \<noteq> ZE_RESULT_SUCCESS then ((tr_device ae, buf, pSize), s)
               else (case graph_getSupportedOptions v hw ty n buf s of ((r, buf', n'), s') \<Rightarrow> ((r, buf', Some n'), s'))))"

definition zeGraphCompilerIsOptionSupported ::
  "api_env \<Rightarrow> ('c, 'p, 'q) vcl \<Rightarrow> hw_info option \<Rightarrow> option_type \<Rightarrow> string option \<Rightarrow> string option \<Rightarrow> compiler_state
     \<Rightarrow> ze_result \<times> compiler_state" where
  "zeGraphCompilerIsOptionSupported ae v hDevice ty pOption pValue s =
     (case hDevice of None \<Rightarrow> (ZE_RESULT_ERROR_INVALID_NULL_HANDLE, s)
      | Some hw \<Rightarrow>
          (case pOption of None \<Rightarrow> (ZE_RESULT_ERROR_INVALID_NULL_POINTER, s)
           | Some opt \<Rightarrow>
               if tr_device ae \<noteq> ZE_RESULT_SUCCESS then (tr_device ae, s)
               else graph_isOptionSupported v hw ty opt pValue s))"

section \<open>Query objects\<close>

type_synonym ('c, 'q) query_result = "(ze_result \<times> ('c \<times> 'q) option) \<times> compiler_state"

text \<open>The rest of the call, once its structure is valid; \<open>NGRAPH_LITE\<close> is the number of the format.\<close>

definition query_network_create ::
  "api_env \<Rightarrow> ('c, 'p, 'q) vcl \<Rightarrow> hw_info \<Rightarrow> u32 \<Rightarrow> graph_input \<Rightarrow> compiler_state \<Rightarrow> ('c, 'q) query_result option" where
  "query_network_create ae v hw NGRAPH_LITE d s =
     (let bad = (\<lambda>r. ((r, None), s)) in
      after_ok (tr_context ae) bad
        (after_ok (tr_device ae) bad
          (Some (QueryNetwork_create v (Some hw) (gi_format d \<noteq> NGRAPH_LITE) (gi_data d) (the (gi_buildFlags d)) s))))"

definition zeGraphQueryNetworkCreate2 ::
  "api_env \<Rightarrow> ('c, 'p, 'q) vcl \<Rightarrow> hw_info \<Rightarrow> u32 \<Rightarrow> (u64 \<Rightarrow> graph_input) \<Rightarrow> bool \<Rightarrow> bool \<Rightarrow> u64 \<Rightarrow> compiler_state
     \<Rightarrow> ('c, 'q) query_result option" where
  "zeGraphQueryNetworkCreate2 ae v hw NGRAPH_LITE descs hContext hDevice desc s =
     (let bad = (\<lambda>r. ((r, None), s)) in
      if \<not> hDevice \<or> \<not> hContext then Some (bad ZE_RESULT_ERROR_INVALID_NULL_HANDLE)
      else after_validation (validateGraphStructure ae Graph_desc_2 [Graph_input_hash] desc) bad
        (query_network_create ae v hw NGRAPH_LITE (descs desc) s))"

text \<open>
  The first version copies the descriptor, its type included, to a local one of the second version, at
  the address \<open>loc\<close>, and passes it on.
\<close>

definition zeGraphQueryNetworkCreate ::
  "api_env \<Rightarrow> ('c, 'p, 'q) vcl \<Rightarrow> hw_info \<Rightarrow> u32 \<Rightarrow> (u64 \<Rightarrow> graph_input) \<Rightarrow> u64 \<Rightarrow> bool \<Rightarrow> bool \<Rightarrow> u64 \<Rightarrow> compiler_state
     \<Rightarrow> ('c, 'q) query_result option" where
  "zeGraphQueryNetworkCreate ae v hw NGRAPH_LITE descs loc hContext hDevice pDesc s =
     after_validation (validateGraphStructure ae Graph_desc [Graph_input_hash] pDesc) (\<lambda>r. ((r, None), s))
       (zeGraphQueryNetworkCreate2
          (ae\<lparr>base_desc := (base_desc ae)(loc := base_desc ae pDesc)\<rparr>) v hw NGRAPH_LITE
          (descs(loc := (descs pDesc)\<lparr>gi_flags := 0\<rparr>)) hContext hDevice loc s)"

definition zeGraphQueryNetworkDestroy ::
  "('c, 'p, 'q) vcl \<Rightarrow> ('c \<times> 'q) option \<Rightarrow> compiler_state \<Rightarrow> ze_result \<times> compiler_state" where
  "zeGraphQueryNetworkDestroy v h s =
     (case h of None \<Rightarrow> (ZE_RESULT_ERROR_INVALID_NULL_HANDLE, s) | Some obj \<Rightarrow> QueryNetwork_destroy v obj s)"

definition zeGraphQueryNetworkGetSupportedLayers ::
  "('c, 'p, 'q) vcl \<Rightarrow> ('c \<times> 'q) option \<Rightarrow> u64 \<Rightarrow> bytes option \<Rightarrow> ze_result \<times> bytes option \<times> u64" where
  "zeGraphQueryNetworkGetSupportedLayers v h n buf =
     (case h of None \<Rightarrow> (ZE_RESULT_ERROR_INVALID_NULL_HANDLE, buf, n) | Some obj \<Rightarrow> getSupportedLayers v obj n buf)"

section \<open>Profiling\<close>

definition zeGraphProfilingPoolCreate ::
  "elf_flags \<Rightarrow> ('h, 'k) graph option \<Rightarrow> u32 \<Rightarrow> bool \<Rightarrow> (ze_result \<times> nat option) \<times> ('h, 'k) graph option" where
  "zeGraphProfilingPoolCreate fl hGraph n phProfilingPool =
     (case hGraph of None \<Rightarrow> ((ZE_RESULT_ERROR_INVALID_NULL_HANDLE, None), None)
      | Some g \<Rightarrow> map_prod (caught (ZE_RESULT_ERROR_UNKNOWN, None)) Some (createProfilingPool fl n phProfilingPool g))"

text \<open>A pool is named by its number in its graph.\<close>

definition zeGraphProfilingPoolDestroy ::
  "nat option \<Rightarrow> ('h, 'k) graph \<Rightarrow> ze_result \<times> ('h, 'k) graph" where
  "zeGraphProfilingPoolDestroy hProfilingPool g =
     (case hProfilingPool of None \<Rightarrow> (ZE_RESULT_ERROR_INVALID_NULL_HANDLE, g)
      | Some i \<Rightarrow> graph_destroyProfilingPool i g)"

definition zeGraphProfilingQueryCreate ::
  "profiling_pool option \<Rightarrow> u32 \<Rightarrow> bool \<Rightarrow> ze_result \<times> profiling_pool option" where
  "zeGraphProfilingQueryCreate hProfilingPool index phProfilingQuery =
     (case hProfilingPool of None \<Rightarrow> (ZE_RESULT_ERROR_INVALID_NULL_HANDLE, None)
      | Some p \<Rightarrow> map_prod id Some (createProfilingQuery index phProfilingQuery p))"

text \<open>A query is named by its index in its pool.\<close>

definition zeGraphProfilingQueryDestroy :: "nat option \<Rightarrow> profiling_pool \<Rightarrow> ze_result \<times> profiling_pool" where
  "zeGraphProfilingQueryDestroy hProfilingQuery p =
     (case hProfilingQuery of None \<Rightarrow> (ZE_RESULT_ERROR_INVALID_NULL_HANDLE, p)
      | Some i \<Rightarrow> destroyProfilingQuery i p)"

definition zeGraphProfilingQueryGetData ::
  "('c, 'p, 'q) vcl \<Rightarrow> memory \<Rightarrow> profiling_query option \<Rightarrow> profiling_type \<Rightarrow> u32 option \<Rightarrow> bool \<Rightarrow> string \<Rightarrow> compiler_state
     \<Rightarrow> (ze_result \<times> u32 option \<times> bytes option) \<times> string \<times> compiler_state" where
  "zeGraphProfilingQueryGetData v m hProfilingQuery ty pSize wanted lastErrorMsg s =
     (case hProfilingQuery of None \<Rightarrow> ((ZE_RESULT_ERROR_INVALID_NULL_HANDLE, pSize, None), lastErrorMsg, s)
      | Some q \<Rightarrow> map_prod (caught (ZE_RESULT_ERROR_UNKNOWN, pSize, None)) id (Graph_Profiling.getData v m ty pSize wanted q lastErrorMsg s))"

definition zeGraphProfilingLogGetString ::
  "string option \<Rightarrow> u32 option \<Rightarrow> bool \<Rightarrow> ze_result \<times> u32 option \<times> string option" where
  "zeGraphProfilingLogGetString hProfilingQuery pSize wanted =
     (case hProfilingQuery of None \<Rightarrow> (ZE_RESULT_ERROR_INVALID_NULL_HANDLE, pSize, None)
      | Some lastErrorMsg \<Rightarrow> getProfilingLogString pSize wanted lastErrorMsg)"

section \<open>Appending graphs\<close>

text \<open>
  The loader's answers for the handle of a list and for the handles of events; the handles of the
  application are the loader's.
\<close>

record loader =
  tr_list :: "nat \<Rightarrow> ze_result \<times> nat"
  tr_event :: "event_handle option \<Rightarrow> ze_result \<times> event_handle option"

fun translate_events :: "loader \<Rightarrow> event_handle option list \<Rightarrow> ze_result + event_handle option list" where
  "translate_events ld [] = Inr []"
| "translate_events ld (h # hs) =
     (case tr_event ld h of
        (r, h') \<Rightarrow> if r \<noteq> ZE_RESULT_SUCCESS then Inl r else map_sum id (\<lambda>hs'. h' # hs') (translate_events ld hs))"

definition translate_event_arguments ::
  "loader \<Rightarrow> event_handle option \<Rightarrow> u32 \<Rightarrow> events_arg \<Rightarrow> ze_result + (event_handle option \<times> events_arg)" where
  "translate_event_arguments ld hSignalEvent numWaitEvents phWaitEvents =
     (case (if hSignalEvent = None then (ZE_RESULT_SUCCESS, None) else tr_event ld hSignalEvent) of
        (r, sig) \<Rightarrow>
          if r \<noteq> ZE_RESULT_SUCCESS then Inl r
          else if numWaitEvents > 0
          then (case phWaitEvents of None \<Rightarrow> Inl ZE_RESULT_ERROR_INVALID_SIZE
                | Some hs \<Rightarrow> map_sum id (\<lambda>hs'. (sig, Some hs')) (translate_events ld (take (unat numWaitEvents) hs)))
          else Inr (sig, None))"

definition api_appendGraphInitialize ::
  "loader \<Rightarrow> l0_env \<Rightarrow> nat \<Rightarrow> ('h, 'k) l0_graph option \<Rightarrow> event_handle option \<Rightarrow> u32 \<Rightarrow> events_arg
     \<Rightarrow> ('h, 'k, ze_result) l0_op" where
  "api_appendGraphInitialize ld env hCommandList hGraph hSignalEvent numWaitEvents phWaitEvents =
     (case tr_list ld hCommandList of
        (r, l) \<Rightarrow>
          if r \<noteq> ZE_RESULT_SUCCESS then l0_ret r
          else (case translate_event_arguments ld hSignalEvent numWaitEvents phWaitEvents of
                  Inl e \<Rightarrow> l0_ret e
                | Inr (sig, ws) \<Rightarrow> appendGraphInitialize env l hGraph sig numWaitEvents ws))"

definition api_appendGraphExecute ::
  "loader \<Rightarrow> l0_env \<Rightarrow> nat \<Rightarrow> ('h, 'k) l0_graph option \<Rightarrow> buffer_object option \<Rightarrow> event_handle option \<Rightarrow> u32
     \<Rightarrow> events_arg \<Rightarrow> ('h, 'k, ze_result) l0_op" where
  "api_appendGraphExecute ld env hCommandList hGraph hProfilingQuery hSignalEvent numWaitEvents phWaitEvents =
     (case tr_list ld hCommandList of
        (r, l) \<Rightarrow>
          if r \<noteq> ZE_RESULT_SUCCESS then l0_ret r
          else (case translate_event_arguments ld hSignalEvent numWaitEvents phWaitEvents of
                  Inl e \<Rightarrow> l0_ret e
                | Inr (sig, ws) \<Rightarrow> appendGraphExecute env l hGraph hProfilingQuery sig numWaitEvents ws))"

definition zeAppendGraphInitialize ::
  "loader \<Rightarrow> l0_env \<Rightarrow> nat option \<Rightarrow> ('h, 'k) l0_graph option \<Rightarrow> event_handle option \<Rightarrow> u32 \<Rightarrow> events_arg
     \<Rightarrow> ('h, 'k, ze_result) api_op" where
  "zeAppendGraphInitialize ld env hCommandList hGraph hSignalEvent numWaitEvents phWaitEvents =
     api_handle hCommandList (\<lambda>l. api_appendGraphInitialize ld env l hGraph hSignalEvent numWaitEvents phWaitEvents)"

definition zeAppendGraphExecute ::
  "loader \<Rightarrow> l0_env \<Rightarrow> nat option \<Rightarrow> ('h, 'k) l0_graph option \<Rightarrow> buffer_object option \<Rightarrow> event_handle option \<Rightarrow> u32
     \<Rightarrow> events_arg \<Rightarrow> ('h, 'k, ze_result) api_op" where
  "zeAppendGraphExecute ld env hCommandList hGraph hProfilingQuery hSignalEvent numWaitEvents phWaitEvents =
     api_handle hCommandList
       (\<lambda>l. api_appendGraphExecute ld env l hGraph hProfilingQuery hSignalEvent numWaitEvents phWaitEvents)"

section \<open>What validation accepts, and when it returns\<close>

text \<open>The structures that may follow, as the handler of a chain.\<close>

definition valid_next :: "(u64 \<Rightarrow> u32 \<times> u64) \<Rightarrow> u32 list \<Rightarrow> u64 \<Rightarrow> u64 option" where
  "valid_next bd valid q = (if fst (bd q) \<in> set valid then Some (snd (bd q)) else None)"

text \<open>The \<open>n\<close>-th structure behind \<open>q\<close>, and where the loop stops.\<close>

definition nth_struct :: "(u64 \<Rightarrow> u32 \<times> u64) \<Rightarrow> u64 \<Rightarrow> nat \<Rightarrow> u64" where
  "nth_struct bd q n = ((\<lambda>q. snd (bd q)) ^^ n) q"

definition chain_stops :: "(u64 \<Rightarrow> u32 \<times> u64) \<Rightarrow> u32 list \<Rightarrow> u64 \<Rightarrow> bool" where
  "chain_stops bd valid q \<longleftrightarrow> q = 0 \<or> fst (bd q) \<notin> set valid"

lemma validate_unfold:
  "validate_chain bd valid q =
     (if q = 0 then Some ZE_RESULT_SUCCESS
      else if fst (bd q) \<notin> set valid then Some ZE_RESULT_ERROR_INVALID_ARGUMENT
      else validate_chain bd valid (snd (bd q)))"
  by (subst validate_chain.simps) (auto simp: list_ex_iff)


lemma validate_chain_success: "validate_chain bd valid q = Some ZE_RESULT_SUCCESS \<longleftrightarrow> (\<exists>n. chain (valid_next bd valid) q n)"
proof
  have "r = ZE_RESULT_SUCCESS \<longrightarrow> (\<exists>n. chain (valid_next bd valid) q n)" if "validate_chain bd valid q = Some r" for r
    using that
  proof (induction rule: validate_chain.raw_induct[rotated, consumes 1])
    case (1 f bd valid q r)
    show ?case
    proof (cases "q = 0")
      case False
      have "\<exists>n. chain (valid_next bd valid) q n" if ok: "r = ZE_RESULT_SUCCESS"
      proof -
        have v: "fst (bd q) \<in> set valid" "f bd valid (snd (bd q)) = Some r"
          using 1(2) ok False by (auto simp: list_ex_iff split: if_splits)
        then obtain n where "chain (valid_next bd valid) (snd (bd q)) n" using 1(1)[OF v(2)] ok by blast
        then show ?thesis using chain.step[OF False, of "valid_next bd valid"] v(1) by (auto simp: valid_next_def)
      qed
      then show ?thesis by blast
    qed (use chain.stop in blast)
  qed
  then show "validate_chain bd valid q = Some ZE_RESULT_SUCCESS \<Longrightarrow> \<exists>n. chain (valid_next bd valid) q n" by blast
next
  assume "\<exists>n. chain (valid_next bd valid) q n"
  then obtain n where "chain (valid_next bd valid) q n" by blast
  then show "validate_chain bd valid q = Some ZE_RESULT_SUCCESS"
    by (induction rule: chain.induct) (subst validate_unfold; auto simp: valid_next_def split: if_splits)+
qed

lemma validate_chain_returns: "(\<exists>r. validate_chain bd valid q = Some r) \<longleftrightarrow> (\<exists>n. chain_stops bd valid (nth_struct bd q n))"
proof
  have "\<exists>n. chain_stops bd valid (nth_struct bd q n)" if "validate_chain bd valid q = Some r" for r
    using that
  proof (induction rule: validate_chain.raw_induct[rotated, consumes 1])
    case (1 f bd valid q r)
    show ?case
    proof (cases "chain_stops bd valid q")
      case True
      then show ?thesis by (intro exI[of _ 0]) (simp add: nth_struct_def)
    next
      case False
      then have "f bd valid (snd (bd q)) = Some r" using 1(2) by (auto simp: chain_stops_def list_ex_iff split: if_splits)
      then obtain n where "chain_stops bd valid (nth_struct bd (snd (bd q)) n)" using 1(1)[OF \<open>f bd valid (snd (bd q)) = Some r\<close>] by blast
      then show ?thesis by (intro exI[of _ "Suc n"]) (simp add: nth_struct_def funpow_Suc_right del: funpow.simps)
    qed
  qed
  then show "\<exists>r. validate_chain bd valid q = Some r \<Longrightarrow> \<exists>n. chain_stops bd valid (nth_struct bd q n)" by blast
next
  have "chain_stops bd valid (nth_struct bd q n) \<Longrightarrow> \<exists>r. validate_chain bd valid q = Some r" for n
  proof (induction n arbitrary: q)
    case 0
    then show ?case by (subst validate_unfold) (auto simp: nth_struct_def chain_stops_def)
  next
    case (Suc n)
    then show ?case by (subst validate_unfold) (simp add: nth_struct_def funpow_Suc_right del: funpow.simps)
  qed
  then show "\<exists>n. chain_stops bd valid (nth_struct bd q n) \<Longrightarrow> \<exists>r. validate_chain bd valid q = Some r" by blast
qed

text \<open>C35: With validation on, a structure of the application is accepted exactly when it has the type of the
  call and every structure behind it one of the types that the call knows, until the chain ends; and the call
  returns exactly when the chain ends or meets a foreign type: on a chain of known types that leads back
  into itself it runs for ever. Without validation every structure that is there is accepted.
\<close>

theorem validation_exact:
  "(validateGraphStructure ae T vs p = Some ZE_RESULT_SUCCESS \<longleftrightarrow>
      p \<noteq> 0 \<and> (extensionValidation ae \<longrightarrow> fst (base_desc ae p) = stype_code ae T \<and>
        (\<exists>n. chain (valid_next (base_desc ae) (map (stype_code ae) vs)) (snd (base_desc ae p)) n)))
   \<and> (validateGraphStructure ae T vs p = None \<longleftrightarrow>
      p \<noteq> 0 \<and> extensionValidation ae \<and> fst (base_desc ae p) = stype_code ae T \<and>
      (\<forall>n. \<not> chain_stops (base_desc ae) (map (stype_code ae) vs) (nth_struct (base_desc ae) p (Suc n))))"
proof -
  have "nth_struct (base_desc ae) p (Suc n) = nth_struct (base_desc ae) (snd (base_desc ae p)) n" for n
    by (simp add: nth_struct_def funpow_Suc_right del: funpow.simps)
  then show ?thesis
    using validate_chain_success[of "base_desc ae" "map (stype_code ae) vs" "snd (base_desc ae p)"]
      validate_chain_returns[of "base_desc ae" "map (stype_code ae) vs" "snd (base_desc ae p)"]
    by (auto simp: validateGraphStructure_def getGraphExtStructureType_def)
qed

text \<open>A structure that points to itself, of a type that the calls for arguments know.\<close>

definition looping_env :: api_env where
  "looping_env = \<lparr>extensionValidation = True, base_desc = \<lambda>q. if q = 8 then (1, 16) else (2, 16),
     stype_code = \<lambda>T. if T = Graph_argument_properties then 1 else if T = Graph_argument_property_strides then 2 else 3,
     tr_context = ZE_RESULT_SUCCESS, tr_device = ZE_RESULT_SUCCESS\<rparr>"

theorem validation_exact_witness:
  "validateGraphStructure looping_env Graph_argument_properties [Graph_argument_property_strides] 8 = None"
proof -
  have "nth_struct (base_desc looping_env) 8 (Suc n) = 16" for n
    by (induction n) (simp_all add: nth_struct_def looping_env_def)
  then show ?thesis
    using validation_exact[of looping_env Graph_argument_properties "[Graph_argument_property_strides]" 8]
    by (simp add: chain_stops_def looping_env_def)
qed

text \<open>C38: With validation on, the first version of the call that creates a query never creates one: it copies
  the type of its descriptor to the second version's, which refuses it; nothing is left behind.
\<close>

theorem validated_query_refused:
  assumes "extensionValidation ae" "stype_code ae Graph_desc \<noteq> stype_code ae Graph_desc_2"
    "zeGraphQueryNetworkCreate ae v hw NGRAPH_LITE descs loc hContext hDevice pDesc s = Some ((r, obj), s')"
  shows "r \<noteq> ZE_RESULT_SUCCESS \<and> obj = None \<and> s' = s
    \<and> (validateGraphStructure ae Graph_desc [Graph_input_hash] pDesc = Some ZE_RESULT_SUCCESS \<longrightarrow> hContext \<longrightarrow> hDevice
         \<longrightarrow> loc \<noteq> 0 \<longrightarrow> r = ZE_RESULT_ERROR_INVALID_ARGUMENT)"
proof -
  have type: "fst (base_desc ae pDesc) \<noteq> stype_code ae Graph_desc_2"
    if "validateGraphStructure ae Graph_desc [Graph_input_hash] pDesc = Some ZE_RESULT_SUCCESS"
    using that assms(1,2) by (auto simp: validateGraphStructure_def getGraphExtStructureType_def split: if_splits)
  show ?thesis
  proof (cases "validateGraphStructure ae Graph_desc [Graph_input_hash] pDesc = Some ZE_RESULT_SUCCESS")
    case True
    then show ?thesis
      using type assms(1,3)
      by (auto simp: zeGraphQueryNetworkCreate_def zeGraphQueryNetworkCreate2_def after_validation_def Let_def
          validateGraphStructure_def[of "ae\<lparr>base_desc := _\<rparr>"] getGraphExtStructureType_def split: if_splits)
  next
    case False
    then show ?thesis
      using assms(3) by (auto simp: zeGraphQueryNetworkCreate_def after_validation_def split: option.splits if_splits)
  qed
qed

theorem validated_query_refused_witness:
  "\<forall>hw d. zeGraphQueryNetworkCreate (looping_env\<lparr>stype_code := \<lambda>T. if T = Graph_desc then 1 else 2,
       base_desc := \<lambda>q. (1, 0)\<rparr>) refusing_vcl hw 5 (\<lambda>_. d) 40 True True 8 idle_compiler
     = Some ((ZE_RESULT_ERROR_INVALID_ARGUMENT, None), idle_compiler)
   \<and> ZE_RESULT_ERROR_INVALID_ARGUMENT \<noteq> ZE_RESULT_SUCCESS"
proof (intro allI)
  fix hw d
  let ?ae = "looping_env\<lparr>stype_code := \<lambda>T. if T = Graph_desc then 1 else 2, base_desc := \<lambda>q. (1, 0)\<rparr>"
  have q: "zeGraphQueryNetworkCreate ?ae refusing_vcl hw 5 (\<lambda>_. d) 40 True True 8 idle_compiler
     = Some ((ZE_RESULT_ERROR_INVALID_ARGUMENT, None), idle_compiler)"
    by (simp add: zeGraphQueryNetworkCreate_def zeGraphQueryNetworkCreate2_def after_validation_def Let_def
        validateGraphStructure_def getGraphExtStructureType_def looping_env_def validate_unfold)
  with validated_query_refused[OF _ _ q]
  show "zeGraphQueryNetworkCreate ?ae refusing_vcl hw 5 (\<lambda>_. d) 40 True True 8 idle_compiler
     = Some ((ZE_RESULT_ERROR_INVALID_ARGUMENT, None), idle_compiler)
   \<and> ZE_RESULT_ERROR_INVALID_ARGUMENT \<noteq> ZE_RESULT_SUCCESS" by (simp add: looping_env_def)
qed

end
