(* ===== verification/Api_Steady.thy ===== *)
theory Api_Steady
  imports Job_Owners Api_Graph
begin

text \<open>
  The operations of command lists are steady: whatever they append, and wherever they stop, the handles
  and the counts of the owners of the jobs stay in agreement.
\<close>

section \<open>Appending\<close>

lemma steady_live:
  assumes "steady st st1" "wf_l0 st" "lists st l \<noteq> None"
  shows "wf_l0 st1" "lists st1 l \<noteq> None"
  using assms(2,3) steady_parts(1,6)[OF assms(1)] by simp_all

lemma steady_then:
  assumes "steady st st1" "steady_op l m" "wf_l0 st" "lists st l \<noteq> None" "m st1 = Some (x, st')"
  shows "steady st st'"
  using steady_opD[OF assms(2) steady_live[OF assms(1,3,4)] assms(5)] assms(1) steady_trans by blast

lemma steady_op_when: "steady_op l m \<Longrightarrow> steady_op l (\<lambda>st. if p st then m st else Some (x, st))"
  by (simp add: steady_op_def)

lemma on_queue: "wf_l0 st \<Longrightarrow> lists st l = Some cl \<Longrightarrow> pCommandQueue cl = Some q \<Longrightarrow> queues st q \<noteq> None"
  unfolding wf_l0_def list_queue_def by (metis bind.bind_lunit queue_live)

lemma check_steady: "steady_op l (checkCommandAppendCondition env l)"
proof (rule steady_opI)
  fix st x st' assume wf: "wf_l0 st" and "lists st l \<noteq> None"
    and c: "checkCommandAppendCondition env l st = Some (x, st')"
  then obtain cl where l: "lists st l = Some cl" by auto
  show "steady st st'"
  proof (cases "pCommandQueue cl")
    case None
    then show ?thesis using c l by (simp add: checkCommandAppendCondition_def)
  next
    case (Some q)
    obtain r st1 where s: "queue_synchronize env q (- 1) st = (r, st1)" by force
    have s1: "steady st st1" by (rule synchronize_steady[OF wf on_queue[OF wf l Some] s])
    obtain cl1 where "lists st1 l = Some cl1" using steady_parts(1)[OF s1, of l] l by auto
    then have "steady st1 (fresh_job l st1)" using fresh_job_steady steady_parts(6)[OF s1] wf by blast
    then have "steady st (fresh_job l st1)" using s1 steady_trans by blast
    then show ?thesis using c l Some s s1 by (auto simp: checkCommandAppendCondition_def split: if_splits)
  qed
qed

lemma fresh_op_steady: "steady_op l (\<lambda>st. Some (x, fresh_job l st))"
  by (rule steady_opI) (auto intro: fresh_job_steady)

lemma post_steady: "steady_op l (postAppend env l :: ('h, 'k, ze_result) l0_op)"
proof (rule steady_opI)
  fix st :: "('h, 'k) l0" and x st' assume wf: "wf_l0 st" and "lists st l \<noteq> None" and p: "postAppend env l st = Some (x, st')"
  then obtain cl where l: "lists st l = Some cl" by auto
  show "steady st st'"
  proof (cases "pCommandQueue cl")
    case None
    then show ?thesis using p l by (simp add: postAppend_def)
  next
    case (Some q)
    define m where "m = (on_job_throws (vpuJob cl) (closeCommands (nop_tail env)) :: ('h, 'k, bool) l0_op)"
    have p': "l0_bind m (\<lambda>ok. if \<not> ok then l0_ret ZE_RESULT_ERROR_INVALID_SYNCHRONIZATION_OBJECT
        else l0_ok (executeCommandLists env q (Some [Some l]) None) (\<lambda>st1. Some (Inr ZE_RESULT_SUCCESS, fresh_job l st1)))
        st = Some (x, st')"
      using p l Some by (simp add: postAppend_def m_def)
    then obtain y st1 where m: "m st = Some (y, st1)" by (auto simp: l0_bind_def split: option.splits)
    have s1: "steady st st1"
      using steady_opD[OF steady_op_on_job_throws wf _ m[unfolded m_def]] l by blast
    have wf1: "wf_l0 st1" "lists st1 l \<noteq> None" "queues st1 q \<noteq> None"
      using steady_parts(1,6)[OF s1] steady_queue[OF s1, of q] wf l on_queue[OF wf l Some] by auto
    have ex: "steady st1 st2" if "executeCommandLists env q (Some [Some l]) None st1 = Some (z, st2)" for z st2
      using execute_steady[OF wf1(1,3) that] .
    have fr: "steady st1 (fresh_job l st2)" if "executeCommandLists env q (Some [Some l]) None st1 = Some (z, st2)" for z st2
    proof -
      have "wf_l0 st2" "lists st2 l \<noteq> None" using steady_parts(1,6)[OF ex[OF that]] wf1 by simp_all
      then show ?thesis using fresh_job_steady ex[OF that] steady_trans by blast
    qed
    have "st' = st1 \<or> (\<exists>z st2. executeCommandLists env q (Some [Some l]) None st1 = Some (z, st2) \<and>
        (st' = st2 \<or> st' = fresh_job l st2))"
      using p' m by (auto simp: l0_bind_def l0_ok_def split: sum.splits option.splits if_splits)
    then show ?thesis using s1 ex fr steady_trans by blast
  qed
qed

lemma push_steady: "steady_op l (push_command l cmd)"
  unfolding push_command_def l0_with_def by (rule steady_op_at) (rule steady_ops)+

lemma append_steady: "steady_op l (appendCommand l mk)"
  by (rule steady_opI)
    (auto simp: appendCommand_def split: sum.splits option.splits dest: steady_opD[OF push_steady])

text \<open>An event is found, a command made of it, and the event updated.\<close>

lemma steady_op_case_event:
  assumes "\<And>e. steady_op l (k e)"
  shows "steady_op l (\<lambda>st. case find_event st h of None \<Rightarrow> Some (Inr r, st)
    | Some e \<Rightarrow> if eventState e = 0 then Some (Inr r, st) else k e st)"
  using assms by (auto simp: steady_op_def split: option.splits if_splits)

lemma put_event_op_steady: "steady_op l (\<lambda>st. Some (x, put_event h (f st) st))"
  by (rule steady_opI) (auto intro: same_holders_steady same_holders_update)

lemma base_wait_steady: "steady_op l (base_wait_events l hs :: ('h, 'k, ze_result) l0_op)"
proof (induction hs)
  case (Cons h hs)
  have "steady_op l (\<lambda>st :: ('h, 'k) l0. case find_event st h of None \<Rightarrow> Some (Inr ZE_RESULT_ERROR_INVALID_NULL_HANDLE, st)
    | Some e \<Rightarrow> if eventState e = 0 then Some (Inr ZE_RESULT_ERROR_INVALID_NULL_HANDLE, st)
        else l0_ok (appendCommand l (\<lambda>c. Inr (VPUEventWaitCommand_create (eventState e) (Some (eventBase e)))))
                 (base_wait_events l hs) st)"
    by (intro steady_op_case_event steady_op_ok append_steady Cons.IH)
  then show ?case by (simp add: steady_op_def)
qed (simp add: steady_op_def)

lemma wait_events_steady: "steady_op l (wait_events l hs :: ('h, 'k, ze_result) l0_op)"
proof (induction hs)
  case (Cons h hs)
  have "steady_op l (\<lambda>st :: ('h, 'k) l0. case find_event st h of None \<Rightarrow> Some (Inr ZE_RESULT_ERROR_INVALID_NULL_HANDLE, st)
    | Some e \<Rightarrow> if eventState e = 0 then Some (Inr ZE_RESULT_ERROR_INVALID_NULL_HANDLE, st)
        else l0_ok (appendCommand l (\<lambda>c. Inr (VPUEventWaitCommand_create (eventState e) (event_bo l e s))))
                 (wait_events l hs) st)" for s :: "('h, 'k) l0"
    by (intro steady_op_case_event steady_op_ok append_steady Cons.IH)
  then show ?case by (simp add: steady_op_def)
qed (simp add: steady_op_def)

lemma steady_op_cong: "(\<And>st. m st = m' st) \<Longrightarrow> steady_op l m' \<Longrightarrow> steady_op l m"
  by (simp add: steady_op_def)

lemma signal_steady: "steady_op l (appendSignalEvent env l h :: ('h, 'k, ze_result) l0_op)"
proof -
  have "steady_op l (\<lambda>st :: ('h, 'k) l0. case find_event st h of None \<Rightarrow> Some (Inr ZE_RESULT_ERROR_INVALID_NULL_HANDLE, st)
      | Some e \<Rightarrow> if eventState e = 0 then Some (Inr ZE_RESULT_ERROR_INVALID_NULL_HANDLE, st)
          else l0_ok (appendCommand l (\<lambda>c. Inr (VPUEventSignalCommand_create (eventState e) (event_bo l e s))))
                 (\<lambda>st1. Some (Inr ZE_RESULT_SUCCESS,
                    put_event (the h) (Some (associateJob (vpuJob (the_list st1 l)) e)) st1)) st)" for s :: "('h, 'k) l0"
    by (intro steady_op_case_event steady_op_ok append_steady put_event_op_steady)
  then have "steady_op l (\<lambda>st :: ('h, 'k) l0. case find_event st h of None \<Rightarrow> Some (Inr ZE_RESULT_ERROR_INVALID_NULL_HANDLE, st)
      | Some e \<Rightarrow> if eventState e = 0 then Some (Inr ZE_RESULT_ERROR_INVALID_NULL_HANDLE, st)
          else l0_ok (appendCommand l (\<lambda>c. Inr (VPUEventSignalCommand_create (eventState e) (event_bo l e st))))
                 (\<lambda>st1. Some (Inr ZE_RESULT_SUCCESS,
                    put_event (the h) (Some (associateJob (vpuJob (the_list st1 l)) e)) st1)) st)"
    unfolding steady_op_def by blast
  then show ?thesis unfolding appendSignalEvent_def by (intro steady_op_ok steady_op_when check_steady)
qed

lemma waits_steady: "steady_op l (append_waits env l n ws)"
  unfolding append_waits_def appendWaitOnEvents_def
  by (auto intro!: steady_op_ok steady_op_ret steady_op_when check_steady wait_events_steady split: option.split)

lemma finish_steady: "steady_op l (finish_append env l h)"
  unfolding finish_append_def by (intro steady_op_ok steady_op_if signal_steady steady_op_ret post_steady)

lemma with_events_steady: "steady_op l (appendCommandWithEvents env l sig n ws mk)"
  unfolding appendCommandWithEvents_def by (intro steady_op_ok check_steady waits_steady append_steady finish_steady)

lemma base_signal_steady: "steady_op l (CommandList_appendSignalEvent env l h :: ('h, 'k, ze_result) l0_op)"
proof -
  have "steady_op l (\<lambda>st1 :: ('h, 'k) l0. postAppend env l
      (put_event (the h) (Some (associateJob (vpuJob (the_list st1 l)) e)) st1))" for e
  proof (rule steady_opI)
    fix st :: "('h, 'k) l0" and x st'
    let ?st = "put_event (the h) (Some (associateJob (vpuJob (the_list st l)) e)) st"
    assume st: "wf_l0 st" "lists st l \<noteq> None" "postAppend env l ?st = Some (x, st')"
    have s: "steady st ?st" by (rule same_holders_steady) (rule same_holders_update)
    show "steady st st'" by (rule steady_then[OF s post_steady st])
  qed
  then show ?thesis
    unfolding CommandList_appendSignalEvent_def
    by (intro steady_op_ok check_steady steady_op_case_event append_steady)
qed

lemma base_waits_steady: "steady_op l (CommandList_appendWaitOnEvents env l n ws)"
  unfolding CommandList_appendWaitOnEvents_def
  by (auto intro!: steady_op_ok steady_op_ret check_steady base_wait_steady post_steady split: option.split)

section \<open>Copies and fills\<close>

lemma copy_steady: "steady_op l (appendMemoryCopy env l d s sz sig n ws)"
  by (rule steady_opI) (auto simp: appendMemoryCopy_def Let_def split: if_splits dest: steady_opD[OF with_events_steady])

lemma fill_loop_steady:
  "fill_loop env l p bo pat sig k n ws sizeLeft off st = Some (x, st') \<Longrightarrow> wf_l0 st \<Longrightarrow> lists st l \<noteq> None \<Longrightarrow> steady st st'"
proof (induction env l p bo pat sig k n ws sizeLeft off st rule: fill_loop.induct)
  case (1 env l p bo pat sig k n ws sizeLeft off st)
  let ?fill = "min sizeLeft FILL_SIZE_LIMIT"
  show ?case
  proof (cases "sizeLeft = 0")
    case True
    then show ?thesis using 1(2) by (subst (asm) fill_loop.simps) simp
  next
    case False
    then obtain y st1 where a: "appendCommandWithEvents (env_at k env) l (if sizeLeft \<le> FILL_SIZE_LIMIT then sig else None) n ws
        (\<lambda>c. Inr (VPUFillCommand_create (p + off) bo ?fill pat)) st = Some (y, st1)"
      using 1(2) by (subst (asm) fill_loop.simps) (auto simp: Let_def split: option.splits)
    have s1: "steady st st1" by (rule steady_opD[OF with_events_steady 1(3,4) a])
    show ?thesis
    proof (cases "y = Inr ZE_RESULT_SUCCESS")
      case True
      then have "fill_loop env l p bo pat sig (Suc k) 0 None (sizeLeft - ?fill) (off + ?fill) st1 = Some (x, st')"
        using 1(2) a False by (subst (asm) fill_loop.simps) (simp add: Let_def)
      then have "steady st1 st'"
        using 1(1)[OF False refl a refl True _ _ steady_live[OF s1 1(3,4)]] by simp
      then show ?thesis using s1 steady_trans by blast
    next
      case no: False
      then have "st' = st1" using 1(2) a False by (subst (asm) fill_loop.simps) (auto simp: Let_def split: sum.splits if_splits)
      then show ?thesis using s1 by simp
    qed
  qed
qed

lemma internal_bo_steady:
  assumes "\<And>bo. steady_op l (act bo)"
  shows "steady_op l (with_internal_bo sz ty err act)"
proof (rule steady_opI)
  fix st x st' assume st: "wf_l0 st" "lists st l \<noteq> None" "with_internal_bo sz ty err act st = Some (x, st')"
  obtain r c where c: "createUntrackedBufferObject (dctx st) sz ty = (r, c)" by force
  have s1: "steady st (st\<lparr>dctx := c\<rparr>)" by (intro same_holders_steady same_holders_update)
  have drop: "steady st2 (st2\<lparr>dctx := d\<rparr>)" for st2 :: "('a, 'b) l0" and d by (intro same_holders_steady same_holders_update)
  have act: "steady st st2" if "act bo (st\<lparr>dctx := c\<rparr>) = Some (y, st2)" for bo y st2
    by (rule steady_then[OF s1 assms st(1,2) that])
  have "st' = st\<lparr>dctx := c\<rparr> \<or> (\<exists>bo y st2 d. act bo (st\<lparr>dctx := c\<rparr>) = Some (y, st2) \<and> st' = st2\<lparr>dctx := d\<rparr>)"
    using st(3) c by (auto simp: with_internal_bo_def split: sum.splits option.splits)
  then show "steady st st'" using s1 act drop steady_trans by blast
qed

lemma steady_op_world: "steady_op l m \<Longrightarrow> steady_op l (\<lambda>st. m (st\<lparr>dctx := f st\<rparr>))"
  by (rule steady_opI, rule steady_then[OF same_holders_steady[OF same_holders_update(2)]])

lemma fill_cmd_steady: "steady_op l (appendMemoryFillCmd env l p pattern patternSize sz sig n ws)"
  by (rule steady_opI) (auto simp: appendMemoryFillCmd_def split: if_splits option.splits dest: fill_loop_steady)

lemma fill_copy_steady: "steady_op l (appendMemoryFillAsCopyCmd env l p pattern patternSize sz sig n ws)"
  unfolding appendMemoryFillAsCopyCmd_def
proof (intro steady_op_ok check_steady internal_bo_steady steady_opI)
  fix bo :: buffer_object and st :: "('a, 'b) l0" and x st'
  assume st: "wf_l0 st" "lists st l \<noteq> None"
  obtain ok w where f: "fillBuffer bo (Some (read_bytes (mem (ctx_world (dctx st))) pattern (unat patternSize))) patternSize
      (ctx_world (dctx st)) = (ok, w)" by force
  let ?st = "st\<lparr>dctx := (dctx st)\<lparr>ctx_world := w\<rparr>\<rparr>"
  have s1: "steady st ?st" by (intro same_holders_steady same_holders_update)
  assume "(case fillBuffer bo (Some (read_bytes (mem (ctx_world (dctx st))) pattern (unat patternSize))) patternSize
        (ctx_world (dctx st)) of
      (True, w) \<Rightarrow>
        let st1 = st\<lparr>dctx := (dctx st)\<lparr>ctx_world := w\<rparr>\<rparr>; fillBo = findBufferObject (dctx st1) p
        in appendCommandWithEvents env l sig n ws (\<lambda>c. VPUCopyCommand_create c (basePtr bo) (Some bo) p fillBo sz) st1
    | (False, w) \<Rightarrow> Some (Inr ZE_RESULT_ERROR_INVALID_SIZE, st\<lparr>dctx := (dctx st)\<lparr>ctx_world := w\<rparr>\<rparr>)) = Some (x, st')"
  then have "st' = ?st \<or> (\<exists>mk. appendCommandWithEvents env l sig n ws mk ?st = Some (x, st'))"
    using f by (cases ok) (auto simp: Let_def)
  then show "steady st st'" using s1 steady_then[OF s1 with_events_steady st] by blast
qed

lemma fill_steady: "steady_op l (appendMemoryFill env l p pattern patternSize sz sig n ws)"
  by (rule steady_opI)
    (auto simp: appendMemoryFill_def split: if_splits dest: steady_opD[OF fill_cmd_steady] steady_opD[OF fill_copy_steady])

lemma region_loop_steady:
  "steady_op l (region_loop env l dstptr dr dstPitch srcptr sr srcPitch sig n ws ys :: ('h, 'k, ze_result) l0_op)"
proof (induction ys)
  case (Cons y ys)
  have "steady_op l (l0_ok (appendCommandWithEvents (env_at y env) l sig n ws mk)
      (region_loop env l dstptr dr dstPitch srcptr sr srcPitch sig n ws ys) :: ('h, 'k, ze_result) l0_op)" for mk
    by (intro steady_op_ok with_events_steady Cons.IH)
  then show ?case unfolding steady_op_def region_loop.simps Let_def by blast
qed (simp add: steady_op_def)

lemma region_steady:
  "steady_op l (appendMemoryCopyRegion env l dstptr dstRegion dstPitch dstSlicePitch srcptr srcRegion srcPitch srcSlicePitch sig n ws)"
  unfolding appendMemoryCopyRegion_def
  by (auto intro!: steady_op_ret region_loop_steady split: option.split)

lemma timestamp_steady: "steady_op l (appendWriteGlobalTimestamp env l dstptr sig n ws :: ('h, 'k, ze_result) l0_op)"
proof (rule steady_opI)
  fix st :: "('h, 'k) l0" and x st' assume st: "wf_l0 st" "lists st l \<noteq> None"
    and a: "appendWriteGlobalTimestamp env l dstptr sig n ws st = Some (x, st')"
  show "steady st st'"
  proof (cases "dstptr = 0")
    case True
    then show ?thesis using a by (simp add: appendWriteGlobalTimestamp_def)
  next
    case ptr: False
    show ?thesis
    proof (cases "findBufferObject (dctx st) dstptr")
      case None
      then show ?thesis using a ptr by (simp add: appendWriteGlobalTimestamp_def)
    next
      case (Some dstBo)
      define m :: "('h, 'k, ze_result) l0_op" where "m = l0_ok (checkCommandAppendCondition env l)
        (with_internal_bo 8 CachedFw ZE_RESULT_ERROR_INVALID_NULL_POINTER (\<lambda>bo.
           l0_bind (on_ctx (\<lambda>c. ((), write_mem (basePtr bo) (replicate 8 0) c))) (\<lambda>_.
           l0_ok (append_waits env l n ws)
             (l0_ok (appendCommand l
                       (\<lambda>c. Inr (VPUTimeStampCommand_create (basePtr bo) (Some bo) (fwTimestampType (hwInfo c)))))
               (l0_ok (appendCommand l (\<lambda>c. VPUCopyCommand_create c (basePtr bo) (Some bo) dstptr (Some dstBo) 8))
                 (finish_append env l sig))))))"
      have "steady_op l m" unfolding m_def
        by (intro steady_op_ok check_steady internal_bo_steady steady_op_bind steady_op_on_ctx waits_steady append_steady
            finish_steady)
      moreover have "m st = Some (x, st')" using a Some ptr by (simp add: appendWriteGlobalTimestamp_def m_def)
      ultimately show ?thesis using steady_opD[of l m] st by blast
    qed
  qed
qed

section \<open>Graphs, events and metric queries\<close>

lemma push_graph_steady: "steady_op l (push_graph_command l alloc)"
  unfolding push_graph_command_def
  by (rule steady_op_bind) (auto intro: steady_op_on_ctx_throws steady_op_ret push_steady split: option.split)

lemma graph_init_steady: "steady_op l (appendGraphInitialize env l graph sig n ws)"
  unfolding appendGraphInitialize_def
  by (auto intro!: steady_op_ok check_steady waits_steady steady_op_ret push_graph_steady finish_steady split: option.split)

lemma record_steady: "steady_op l (l0_modify (record_command_id l newId))"
proof (rule steady_opI)
  fix st :: "('a, 'b) l0" and x st' assume "lists st l \<noteq> None" and m: "l0_modify (record_command_id l newId) st = Some (x, st')"
  then obtain cl where l: "lists st l = Some cl" by auto
  have "same_holders st (set_list l (cl\<lparr>commandIdMap := m\<rparr>) st)" for m
    using l by (rule same_holders_set_list) simp_all
  then have "same_holders st (record_command_id l newId st)" by (simp add: record_command_id_def Let_def l)
  then show "steady st st'" using m same_holders_steady by simp
qed

lemma graph_execute_steady: "steady_op l (appendGraphExecute env l graph query sig n ws)"
proof -
  have inner: "steady_op l (case graph of None \<Rightarrow> l0_ret ZE_RESULT_ERROR_INVALID_NULL_HANDLE
      | Some g \<Rightarrow> if has_profiling_output g \<and> query = None then l0_ret ZE_RESULT_ERROR_INVALID_NULL_HANDLE
          else l0_ok (push_graph_command l (allocateGraphExecuteCommand g (if has_profiling_output g then query else None)))
                 (finish_append env l sig))"
    by (auto intro!: steady_op_ok steady_op_ret push_graph_steady finish_steady split: option.split)
  have "steady_op l (l0_ok (append_waits env l n ws) (l0_bind (l0_modify (record_command_id l newId)) (\<lambda>_.
      case graph of None \<Rightarrow> l0_ret ZE_RESULT_ERROR_INVALID_NULL_HANDLE
      | Some g \<Rightarrow> if has_profiling_output g \<and> query = None then l0_ret ZE_RESULT_ERROR_INVALID_NULL_HANDLE
          else l0_ok (push_graph_command l (allocateGraphExecuteCommand g (if has_profiling_output g then query else None)))
                 (finish_append env l sig))))" for newId
    by (rule steady_op_ok[OF waits_steady steady_op_bind[OF record_steady inner]])
  then show ?thesis
    unfolding appendGraphExecute_def Let_def
    by (intro steady_op_ok[OF check_steady]) (unfold steady_op_def, blast)
qed

lemma event_reset_steady: "steady_op l (appendEventReset env l h)"
  unfolding appendEventReset_def
  by (intro steady_op_ok check_steady steady_op_case_event append_steady post_steady)

lemma query_begin_steady: "steady_op l (appendMetricQueryBegin env l active q)"
  unfolding appendMetricQueryBegin_def
  by (auto intro!: steady_op_ok check_steady steady_op_ret append_steady post_steady split: option.split)

lemma query_end_steady: "steady_op l (appendMetricQueryEnd env l active q sig n ws)"
  unfolding appendMetricQueryEnd_def
  by (auto intro!: steady_op_ret with_events_steady split: option.split)

end
