(* ===== verification/Api_Steps.thy ===== *)
theory Api_Steps
  imports Api_Steady
begin

text \<open>
  What an application can reach through the entry points for lists, queues, fences and events, and
  that in all of it every job has exactly the owners that its count says. A handle is null or names an
  object that the application created and did not destroy; the queue of an immediate list has no handle.
\<close>

definition owned :: "('h, 'k) l0 \<Rightarrow> bool" where
  "owned st \<longleftrightarrow> wf_l0 st \<and> refs_ok (\<lambda>_. 0) st"

lemma owned_steady: "owned st \<Longrightarrow> steady st st' \<Longrightarrow> owned st'"
  using steady_parts(6) by (auto simp: owned_def steady_def)

lemma refs_okD: "refs_ok e st \<Longrightarrow> job_refs st j = job_owners st j + e j"
  by (simp add: refs_ok_def)

lemma refs_ok_fresh: "refs_ok e st \<Longrightarrow> next_job st \<le> j \<Longrightarrow> job_refs st j = 0 \<and> job_owners st j = 0 \<and> e j = 0"
  using refs_okD[of e st j] unfolding refs_ok_def by (metis add_is_0)

section \<open>Lists\<close>

lemma close_steady: "steady_op l (CommandList_close env l)"
proof (rule steady_opI)
  fix st :: "('a, 'b) l0" and x st'
  assume st: "wf_l0 st" "lists st l \<noteq> None" "CommandList_close env l st = Some (x, st')"
  have "steady_op l (l0_bind (on_job_throws j (closeCommands (nop_tail env)))
      (\<lambda>ok. l0_ret (if ok then ZE_RESULT_SUCCESS else ZE_RESULT_ERROR_UNKNOWN)) :: ('a, 'b, ze_result) l0_op)" for j
    by (intro steady_op_bind steady_op_on_job_throws steady_op_ret)
  then show "steady st st'" using st by (auto simp: CommandList_close_def split: if_splits dest: steady_opD)
qed

lemma host_synchronize_steady: "steady_op l (l0_total (CommandList_hostSynchronize env l t))"
proof (rule steady_opI)
  fix st :: "('a, 'b) l0" and x st'
  assume wf: "wf_l0 st" and "lists st l \<noteq> None" and s: "l0_total (CommandList_hostSynchronize env l t) st = Some (x, st')"
  then obtain cl where l: "lists st l = Some cl" by auto
  show "steady st st'"
  proof (cases "pCommandQueue cl")
    case None
    then show ?thesis using s l by (simp add: l0_total_def CommandList_hostSynchronize_def)
  next
    case (Some q)
    obtain r st1 where q: "queue_synchronize env q t st = (r, st1)" by force
    have s1: "steady st st1" by (rule synchronize_steady[OF wf on_queue[OF wf l Some] q])
    obtain cl1 where "lists st1 l = Some cl1" using steady_parts(1)[OF s1, of l] l by auto
    then have "steady st (fresh_job l st1)" using fresh_job_steady steady_parts(6)[OF s1] wf s1 steady_trans by blast
    then show ?thesis using s l Some q s1 by (auto simp: l0_total_def CommandList_hostSynchronize_def split: if_splits)
  qed
qed

lemma reset_steady: "steady_op l (l0_total (CommandList_reset l))"
  by (rule steady_opI) (auto simp: l0_total_def CommandList_reset_def intro: fresh_job_steady)

lemma update_steady: "steady_op l (l0_throwing (updateMutableCommands l flags ds))"
  by (rule steady_op_same)
    (auto simp: l0_throwing_def updateMutableCommands_def Let_def same_holders_update split: if_splits sum.splits option.splits prod.splits)

lemma new_list_owned:
  assumes o: "owned st" and q: "\<forall>q. oq = Some q \<longrightarrow> queue_fences st q \<noteq> None \<and> (\<forall>l. list_queue st l \<noteq> Some q)"
    and n: "new_list mutable oq st = (l, st')"
  shows "owned st'"
proof -
  have wf: "wf_l0 st" and r: "refs_ok (\<lambda>_. 0) st" using o by (simp_all add: owned_def)
  have fresh: "lists st (next_list st) = None" using wf unfolding wf_l0_def by (metis less_irrefl)
  have l: "l = next_list st" and st': "next_list st' = Suc l" "queues st' = queues st" "next_queue st' = next_queue st"
    "job_refs st' = (job_refs st)(next_job st := 1)" "next_job st' = Suc (next_job st)"
    "lists st' = (lists st)(l \<mapsto> \<lparr>isMutable = mutable, vpuJob = next_job st, commandIdMap = Map.empty, pCommandQueue = oq\<rparr>)"
    using n by (auto simp: new_list_def Let_def)
  have "(\<Sum>k<l. list_owns (lists st' k) j) = (\<Sum>k<l. list_owns (lists st k) j)" for j
    by (rule sum.cong) (auto simp: st')
  then have own: "job_owners st' j = job_owners st j + of_bool (j = next_job st)" for j
    by (simp add: job_owners_def st' l) (simp add: list_owns_def)
  have "refs_ok (\<lambda>_. 0) st'"
    using refs_okD[OF r] refs_ok_fresh[OF r] by (auto simp: refs_ok_def own st')
  moreover have lq: "list_queue st' k = (if k = l then oq else list_queue st k)" for k
    by (simp add: list_queue_def st')
  have qf: "queue_fences st' = queue_fences st" by (simp add: queue_fences_def st' fun_eq_iff)
  have "wf_l0 st'"
    unfolding wf_l0_def lq qf st'(1,3)
    using wf q fresh l by (auto simp: wf_l0_def st' less_Suc_eq split: if_splits)
  ultimately show ?thesis by (simp add: owned_def)
qed

lemma list_create_owned: "owned st \<Longrightarrow> CommandList_create c d desc p st = (r, st') \<Longrightarrow> owned st'"
  by (auto simp: CommandList_create_def Let_def split: if_splits option.splits prod.splits dest: new_list_owned)

lemma queue_create_owned:
  assumes o: "owned st" and c: "CommandQueue_create c d desc p st = Some (x, st')"
  shows "owned st' \<and> (\<forall>r q. x = Inr (r, Some q) \<longrightarrow> queue_fences st' q \<noteq> None \<and> (\<forall>l. list_queue st' l \<noteq> Some q))"
proof -
  have wf: "wf_l0 st" and r: "refs_ok (\<lambda>_. 0) st" using o by (simp_all add: owned_def)
  have fresh: "queues st (next_queue st) = None" using wf unfolding wf_l0_def by (metis less_irrefl queue_live)
  have ctx: "owned (st\<lparr>dctx := k\<rparr>)" for k by (rule owned_steady[OF o same_holders_steady[OF same_holders_update(2)]])
  show ?thesis
  proof (cases "\<exists>q. x = Inr (ZE_RESULT_SUCCESS, Some q)")
    case False
    then show ?thesis using o c ctx by (auto simp: CommandQueue_create_def Let_def split: if_splits option.splits prod.splits)
  next
    case True
    define cq where "cq = the (queues st' (next_queue st))"
    have q: "x = Inr (ZE_RESULT_SUCCESS, Some (next_queue st))" "queueJobs cq = []" "fences cq = []"
      "lists st' = lists st" "next_list st' = next_list st" "queues st' = (queues st)(next_queue st \<mapsto> cq)"
      "next_queue st' = Suc (next_queue st)" "job_refs st' = job_refs st" "next_job st' = next_job st"
      using c True by (auto simp: CommandQueue_create_def Let_def cq_def split: if_splits option.splits prod.splits)
    have "(\<Sum>k<next_queue st. queue_owns (queues st' k) j) = (\<Sum>k<next_queue st. queue_owns (queues st k) j)" for j
      by (rule sum.cong) (auto simp: q)
    then have own: "job_owners st' = job_owners st"
      by (simp add: job_owners_def q fun_eq_iff) (simp add: queue_owns_def owned_jobs_def q)
    have "refs_ok (\<lambda>_. 0) st'" using r unfolding refs_ok_def q own .
    moreover have lq: "list_queue st' = list_queue st" by (simp add: list_queue_def q fun_eq_iff)
    have qf: "queue_fences st' k = (if k = next_queue st then Some ([], next_fence cq) else queue_fences st k)" for k
      by (simp add: queue_fences_def q)
    have "wf_l0 st'" unfolding wf_l0_def lq qf q(4,5,7) using wf by (auto simp: wf_l0_def less_Suc_eq)
    moreover have "list_queue st l \<noteq> Some (next_queue st)" for l
      using wf fresh unfolding wf_l0_def by (metis queue_live)
    ultimately show ?thesis using q(1) by (simp add: owned_def lq qf)
  qed
qed

lemma immediate_create_owned:
  assumes o: "owned st" and c: "ImmediateCommandList_create c d desc p st = Some (x, st')"
  shows "owned st'"
proof (cases "\<not> c \<or> \<not> d \<or> desc = None \<or> \<not> p")
  case True
  then show ?thesis using o c by (auto simp: ImmediateCommandList_create_def Let_def split: if_splits)
next
  case False
  then obtain y st1 where y: "CommandQueue_create c d desc True st = Some (y, st1)"
    using c by (auto simp: ImmediateCommandList_create_def Let_def l0_bind_def split: option.splits)
  note q = queue_create_owned[OF o y]
  show ?thesis
  proof (cases "\<exists>oq. y = Inr (ZE_RESULT_SUCCESS, oq)")
    case False
    then show ?thesis
      using c y q \<open>\<not> (\<not> c \<or> \<not> d \<or> desc = None \<or> \<not> p)\<close>
      by (auto simp: ImmediateCommandList_create_def Let_def l0_bind_def split: sum.splits prod.splits if_splits)
  next
    case True
    then obtain oq where oq: "y = Inr (ZE_RESULT_SUCCESS, oq)" by blast
    obtain l st2 where n: "new_list False oq st1 = (l, st2)" by force
    then have "st' = st2"
      using c y oq \<open>\<not> (\<not> c \<or> \<not> d \<or> desc = None \<or> \<not> p)\<close>
      by (auto simp: ImmediateCommandList_create_def Let_def l0_bind_def split: if_splits)
    then show ?thesis using new_list_owned[OF _ _ n] q oq by blast
  qed
qed

section \<open>Destruction\<close>

lemma owned_remove:
  assumes wf: "wf_l0 st"
    and l: "\<And>k. (lists st' k = None) = (lists st k = None \<or> k \<in> L)" "\<And>k. list_queue st' k = (if k \<in> L then None else list_queue st k)"
    and q: "\<And>k. queue_fences st' k = (if k \<in> Q then None else queue_fences st k)"
    and n: "next_list st' = next_list st" "next_queue st' = next_queue st"
    and LQ: "\<And>k q. list_queue st k = Some q \<Longrightarrow> q \<in> Q \<Longrightarrow> k \<in> L"
  shows "wf_l0 st'"
  using wf unfolding wf_l0_def l q n
  by (auto split: if_splits dest: LQ)

lemma queue_destroy_refs:
  assumes wf: "wf_l0 st" and q: "queues st q = Some cq" and d: "CommandQueue_destroy env q st = (r, st')"
  shows "\<exists>st1. steady st st1 \<and> lists st' = lists st1 \<and> queues st' = (queues st1)(q := None) \<and>
    next_list st' = next_list st1 \<and> next_queue st' = next_queue st1 \<and> (\<forall>e. refs_ok e st \<longrightarrow> refs_ok e st')"
proof -
  define st0 where "st0 = st\<lparr>dctx := removeExpiredInternalBuffers (dctx st)\<rparr>"
  have s0: "steady st st0" unfolding st0_def by (intro same_holders_steady same_holders_update)
  have wf0: "wf_l0 st0" "queues st0 q \<noteq> None" using wf q steady_parts(6)[OF s0] by (simp_all add: st0_def)
  obtain r1 st1 where y: "queue_synchronize env q 0 st0 = (r1, st1)" by force
  have s1: "steady st st1" using s0 synchronize_steady[OF wf0 y] steady_trans by blast
  obtain cq1 where q1: "queues st1 q = Some cq1" using steady_queue[OF s1, of q] q by auto
  have wf1: "wf_l0 st1" using steady_parts(6)[OF s1] wf by simp
  have st': "lists st' = lists st1" "queues st' = (queues st1)(q := None)" "next_list st' = next_list st1"
    "next_queue st' = next_queue st1" "next_job st' = next_job st1"
    "\<And>j. job_refs st' j = job_refs st1 j - count_list (owned_jobs cq1) j"
    using d y q1 by (auto simp: CommandQueue_destroy_def Let_def st0_def release_jobs_refs owned_jobs_def)
  have "job_owners st' j + count_list (owned_jobs cq1) j = job_owners st1 j" for j
    using owners_queue[OF wf_queue_bound[OF wf1 q1] st'(1,2,3,4), of j] q1 by (simp add: queue_owns_def)
  then have "refs_ok e st1 \<longrightarrow> refs_ok e st'" for e
    using refs_change[of e st1 st' "owned_jobs cq1" e] st'(5,6) by (simp add: add.commute add.left_commute)
  then show ?thesis using st' s1 by (metis steady_def)
qed

lemma queue_destroy_owned:
  assumes o: "owned st" and q: "queues st q \<noteq> None" and free: "\<And>l. list_queue st l \<noteq> Some q"
    and d: "CommandQueue_destroy env q st = (r, st')"
  shows "owned st'"
proof -
  have wf: "wf_l0 st" using o by (simp add: owned_def)
  obtain cq where cq: "queues st q = Some cq" using q by auto
  obtain st1 where st1: "steady st st1" "lists st' = lists st1" "queues st' = (queues st1)(q := None)"
    "next_list st' = next_list st1" "next_queue st' = next_queue st1" "\<And>e. refs_ok e st \<Longrightarrow> refs_ok e st'"
    using queue_destroy_refs[OF wf cq d] by blast
  have lq: "list_queue st' k = list_queue st1 k" for k by (simp add: list_queue_def st1(2))
  have qf: "queue_fences st' k = (if k \<in> {q} then None else queue_fences st1 k)" for k
    by (simp add: queue_fences_def st1(3))
  have wf1: "wf_l0 st1" using steady_parts(6)[OF st1(1)] wf by simp
  have free1: "list_queue st1 k \<noteq> Some q" for k using free steady_parts(2)[OF st1(1)] by simp
  have "wf_l0 st'"
    by (rule owned_remove[OF wf1, of st' "{}" "{q}"]) (use free1 in \<open>auto simp: st1(2,4,5) lq qf\<close>)
  then show ?thesis using o st1(6) by (simp add: owned_def)
qed

lemma list_destroy_owned:
  assumes o: "owned st" and l: "lists st l = Some cl" and d: "CommandList_destroy env l st = (r, st')"
  shows "owned st'"
proof -
  have wf: "wf_l0 st" and rf: "refs_ok (\<lambda>_. 0) st" using o by (simp_all add: owned_def)
  define Q where "Q = set_option (pCommandQueue cl)"
  define st2 where "st2 = (case pCommandQueue cl of None \<Rightarrow> st | Some q \<Rightarrow> snd (CommandQueue_destroy env q st))"
  have "\<exists>st1. steady st st1 \<and> lists st2 = lists st1 \<and> queues st2 = (\<lambda>k. if k \<in> Q then None else queues st1 k) \<and>
      next_list st2 = next_list st1 \<and> next_queue st2 = next_queue st1 \<and> refs_ok (\<lambda>_. 0) st2"
  proof (cases "pCommandQueue cl")
    case None
    then show ?thesis using rf by (intro exI[of _ st]) (simp add: st2_def Q_def)
  next
    case (Some q)
    then obtain cq where cq: "queues st q = Some cq" using on_queue[OF wf l Some] by auto
    obtain r1 st2' where d2: "CommandQueue_destroy env q st = (r1, st2')" by force
    then show ?thesis using queue_destroy_refs[OF wf cq d2] rf Some by (auto simp: st2_def Q_def fun_eq_iff)
  qed
  then obtain st1 where st1: "steady st st1" "lists st2 = lists st1" "queues st2 = (\<lambda>k. if k \<in> Q then None else queues st1 k)"
      "next_list st2 = next_list st1" "next_queue st2 = next_queue st1" and r2: "refs_ok (\<lambda>_. 0) st2" by blast
  obtain cl2 where l2: "lists st2 l = Some cl2" using steady_parts(1)[OF st1(1), of l] l st1(2) by auto
  have bound: "l < next_list st2" using steady_parts(4)[OF st1(1)] st1(4) wf_list_bound[OF wf l] by simp
  have st': "lists st' = (lists st2)(l := None)" "queues st' = queues st2" "next_list st' = next_list st2"
    "next_queue st' = next_queue st2" "next_job st' = next_job st2"
    "\<And>j. job_refs st' j = job_refs st2 j - count_list [vpuJob cl2] j"
    using d l l2 by (auto simp: CommandList_destroy_def Let_def st2_def[symmetric])
  have "job_owners st' j + 0 + count_list [vpuJob cl2] j = job_owners st2 j + 0" for j
    using owners_list[OF bound st'(2,1,3,4), of j] l2 by (cases "vpuJob cl2 = j") (simp_all add: list_owns_def)
  then have "refs_ok (\<lambda>_. 0) st'" by (rule refs_change[OF r2 st'(6) _ st'(5)])
  moreover have "wf_l0 st'"
  proof (rule owned_remove[of st1 st' "{l}" Q])
    show "wf_l0 st1" using steady_parts(6)[OF st1(1)] wf by simp
    show "k \<in> {l}" if "list_queue st1 k = Some q" "q \<in> Q" for k q
      using that wf l steady_parts(2)[OF st1(1)] by (auto simp: wf_l0_def Q_def list_queue_def)
    show "list_queue st' k = (if k \<in> {l} then None else list_queue st1 k)" for k
      by (simp add: list_queue_def st' st1)
    show "queue_fences st' k = (if k \<in> Q then None else queue_fences st1 k)" for k
      by (simp add: queue_fences_def st' st1)
  qed (auto simp: st' st1)
  ultimately show ?thesis by (simp add: owned_def)
qed

section \<open>Queues, fences and events\<close>

text \<open>The fences of one queue change.\<close>

lemma wf_refence:
  assumes wf: "wf_l0 st" and q: "queues st q = Some cq" and l: "lists st' = lists st" "next_list st' = next_list st"
    and n: "next_queue st' = next_queue st"
    and qf: "\<And>k. queue_fences st' k = (if k = q then Some (gs, m) else queue_fences st k)"
    and ok: "distinct gs" "\<forall>f\<in>set gs. f < m"
  shows "wf_l0 st'"
proof -
  have lq: "list_queue st' = list_queue st" by (simp add: list_queue_def l fun_eq_iff)
  have "queue_fences st q \<noteq> None" by (simp add: queue_fences_def q)
  then show ?thesis using wf ok unfolding wf_l0_def lq qf l n by (auto split: if_splits)
qed

lemma wf_queue_fences:
  "wf_l0 st \<Longrightarrow> queues st q = Some cq \<Longrightarrow> distinct (map fst (fences cq)) \<and> (\<forall>f\<in>set (map fst (fences cq)). f < next_fence cq)"
  unfolding wf_l0_def queue_fences_def by fastforce

lemma create_fence_owned:
  assumes o: "owned st" and q: "queues st q \<noteq> None" and c: "createFence q desc p st = (r, st')"
  shows "owned st'"
proof -
  obtain cq where cq: "queues st q = Some cq" using q by auto
  have wf: "wf_l0 st" and rf: "refs_ok (\<lambda>_. 0) st" using o by (simp_all add: owned_def)
  show ?thesis
  proof (cases "st' = st")
    case False
    then obtain sig where x: "st' = set_queue q (cq\<lparr>fences := fences cq @ [(next_fence cq, \<lparr>signaled = sig, fenceJobs = []\<rparr>)],
        next_fence := next_fence cq + 1\<rparr>) st"
      using c cq by (auto simp: createFence_def Let_def split: option.splits if_splits prod.splits)
    define fe where "fe = \<lparr>signaled = sig, fenceJobs = []\<rparr>"
    have st': "lists st' = lists st" "next_list st' = next_list st" "next_queue st' = next_queue st"
      "job_refs st' = job_refs st" "next_job st' = next_job st" and fe: "fenceJobs fe = []"
      "queues st' = (queues st)(q \<mapsto> cq\<lparr>fences := fences cq @ [(next_fence cq, fe)], next_fence := next_fence cq + 1\<rparr>)"
      by (simp_all add: x set_queue_def fe_def)
    have "job_owners st' j = job_owners st j" for j
      using owners_queue[OF wf_queue_bound[OF wf cq] st'(1) fe(2) st'(2,3), of j] cq fe(1)
      by (simp add: queue_owns_def owned_jobs_def)
    then have own: "job_owners st' = job_owners st" ..
    have "refs_ok (\<lambda>_. 0) st'" using rf unfolding refs_ok_def own st' .
    moreover have "wf_l0 st'"
    proof (rule wf_refence[OF wf cq st'(1-3)])
      show "queue_fences st' k = (if k = q then Some (map fst (fences cq) @ [next_fence cq], next_fence cq + 1)
          else queue_fences st k)" for k
        by (simp add: queue_fences_def fe)
    qed (use wf_queue_fences[OF wf cq] in \<open>auto simp: less_Suc_eq\<close>)
    ultimately show ?thesis by (simp add: owned_def)
  qed (use o in simp)
qed

lemma fence_removed:
  assumes "distinct (map fst fs)" "map_of fs f = Some fe"
  shows "count_list (concat (map (fenceJobs \<circ> snd) (filter (\<lambda>(i, _). i \<noteq> f) fs))) j + count_list (fenceJobs fe) j
    = count_list (concat (map (fenceJobs \<circ> snd) fs)) j"
  using assms
proof (induction fs)
  case (Cons p fs)
  obtain i x where p: "p = (i, x)" by force
  show ?case
  proof (cases "i = f")
    case True
    then have "filter (\<lambda>(i, _). i \<noteq> f) fs = fs" using Cons.prems(1) p by (intro filter_True) force
    then show ?thesis using Cons.prems True p by simp
  next
    case False
    then show ?thesis using Cons p by simp
  qed
qed simp

lemma destroy_fence_owned:
  assumes o: "owned st" and q: "queues st q = Some cq" and f: "f \<in> set (map fst (fences cq))"
    and d: "destroyFence q f st = (r, st')"
  shows "owned st'"
proof -
  have wf: "wf_l0 st" and rf: "refs_ok (\<lambda>_. 0) st" using o by (simp_all add: owned_def)
  obtain fe where fe: "map_of (fences cq) f = Some fe" using f by (metis list.set_map map_of_eq_None_iff not_None_eq)
  define cq' where "cq' = cq\<lparr>fences := filter (\<lambda>(i, _). i \<noteq> f) (fences cq)\<rparr>"
  have st': "lists st' = lists st" "next_list st' = next_list st" "next_queue st' = next_queue st"
    "next_job st' = next_job st" "queues st' = (queues st)(q \<mapsto> cq')"
    "\<And>j. job_refs st' j = job_refs st j - count_list (fenceJobs fe) j"
    using d q fe by (auto simp: destroyFence_def set_queue_def the_fence_def release_jobs_refs cq'_def)
  have "count_list (owned_jobs cq') j + count_list (fenceJobs fe) j = count_list (owned_jobs cq) j" for j
    using fence_removed[OF wf_fences[OF wf q] fe, of j] by (simp add: owned_jobs_def cq'_def)
  then have "job_owners st' j + 0 + count_list (fenceJobs fe) j = job_owners st j + 0" for j
    using owners_queue[OF wf_queue_bound[OF wf q] st'(1,5,2,3), of j] q
    by (simp add: queue_owns_def) (metis add.assoc add.commute add_right_cancel)
  then have "refs_ok (\<lambda>_. 0) st'" by (rule refs_change[OF rf st'(6) _ st'(4)])
  moreover have "wf_l0 st'"
  proof (rule wf_refence[OF wf q st'(1-3)])
    have "map fst (filter (\<lambda>(i, _). i \<noteq> f) xs) = filter (\<lambda>i. i \<noteq> f) (map fst xs)" for xs :: "(nat \<times> fence) list"
      by (induction xs) auto
    then show "queue_fences st' k = (if k = q then Some (filter (\<lambda>i. i \<noteq> f) (map fst (fences cq)), next_fence cq)
        else queue_fences st k)" for k
      by (simp add: queue_fences_def st' cq'_def)
  qed (use wf_queue_fences[OF wf q] in auto)
  ultimately show ?thesis by (simp add: owned_def)
qed

lemma fence_sync_steady:
  assumes "wf_l0 st" "queues st q = Some cq" "f \<in> set (map fst (fences cq))" "fence_synchronize env q f t st = (r, st')"
  shows "steady st st'"
proof -
  obtain fe where "map_of (fences cq) f = Some fe"
    using assms(3) by (metis list.set_map map_of_eq_None_iff not_None_eq)
  then show ?thesis
    using fence_wait_steady[OF assms(1,2)] assms(4) by (auto simp: fence_synchronize_def split: if_splits)
qed

lemma fence_reset_steady:
  assumes wf: "wf_l0 st" and q: "queues st q = Some cq" and f: "f \<in> set (map fst (fences cq))"
    and r: "fence_reset q f st = (r, st')"
  shows "steady st st'"
proof -
  obtain fe where fe: "map_of (fences cq) f = Some fe" using f by (metis list.set_map map_of_eq_None_iff not_None_eq)
  let ?cq = "cq\<lparr>fences := map (\<lambda>(i, x). if i = f then (i, fe\<lparr>signaled := False\<rparr>) else (i, x)) (fences cq)\<rparr>"
  have "count_list (owned_jobs ?cq) j = count_list (owned_jobs cq) j" for j
    using fence_owned[OF wf_fences[OF wf q] fe, of "fe\<lparr>signaled := False\<rparr>" j] by simp
  then show ?thesis
    by (intro queue_shrink_steady[OF wf q, where js = "[]" and cq' = ?cq])
      (use r q fe in \<open>auto simp: fence_reset_def the_fence_def set_fence_queues fence_names\<close>)
qed

lemma workload_steady: "queues st q = Some cq \<Longrightarrow> setWorkloadType q ty st = (r, st') \<Longrightarrow> steady st st'"
  by (rule same_holders_steady)
    (auto simp: setWorkloadType_def Let_def same_holders_def set_queue_def split: workload_type.splits prod.splits)

lemma pool_create_steady: "EventPool_create c d n ds p st = Some (x, st') \<Longrightarrow> steady st st'"
  by (rule same_holders_steady)
    (auto simp: EventPool_create_def Let_def same_holders_def split: if_splits option.splits sum.splits prod.splits)

lemma pool_destroy_steady: "EventPool_destroy p st = Some (x, st') \<Longrightarrow> steady st st'"
  by (rule same_holders_steady) (auto simp: EventPool_destroy_def Let_def same_holders_def split: option.splits)

lemma event_create_steady: "createEvent p d ph st = Some (x, st') \<Longrightarrow> steady st st'"
  by (rule same_holders_steady)
    (auto simp: createEvent_def Let_def same_holders_def put_event_def split: if_splits option.splits)

lemma event_destroy_steady: "event_destroy h st = Some (x, st') \<Longrightarrow> steady st st'"
  by (rule same_holders_steady)
    (auto simp: event_destroy_def Let_def same_holders_def put_event_def split: if_splits option.splits)

lemma on_event_steady: "on_event f h st = Some (x, st') \<Longrightarrow> steady st st'"
  by (rule same_holders_steady) (auto simp: on_event_def same_holders_update split: option.splits)

lemma wait_job_same: "same_holders st (fold (wait_job a t) js st)"
proof (induction js arbitrary: st)
  case (Cons j js)
  have "same_holders st (wait_job a t j st)" by (simp add: wait_job_def same_holders_update split: prod.split)
  then show ?case using Cons same_holders_trans by (simp, blast)
qed simp

lemma event_wait_steady:
  assumes "event_hostSynchronize env t h st = Some (x, st')"
  shows "steady st st'"
proof (cases "find_event st (Some h)")
  case (Some e)
  have "same_holders st ((fold (wait_job a tt) js (put_event h (Some e') st))\<lparr>dctx := c\<rparr>)" for a tt js e' c
    using wait_job_same same_holders_update(2,5) same_holders_trans by metis
  then show ?thesis
    using assms Some by (auto simp: event_hostSynchronize_def Let_def intro!: same_holders_steady)
qed (use assms in \<open>simp add: event_hostSynchronize_def\<close>)

section \<open>Calls of the application\<close>

definition live_list :: "('h, 'k) l0 \<Rightarrow> nat option \<Rightarrow> bool" where
  "live_list st h \<longleftrightarrow> (\<forall>l. h = Some l \<longrightarrow> lists st l \<noteq> None)"

definition live_queue :: "('h, 'k) l0 \<Rightarrow> nat option \<Rightarrow> bool" where
  "live_queue st h \<longleftrightarrow> (\<forall>q. h = Some q \<longrightarrow> queues st q \<noteq> None \<and> (\<forall>l. list_queue st l \<noteq> Some q))"

definition live_fence :: "('h, 'k) l0 \<Rightarrow> fence_handle option \<Rightarrow> bool" where
  "live_fence st h \<longleftrightarrow> (\<forall>q f. h = Some (q, f) \<longrightarrow> (\<exists>cq. queues st q = Some cq \<and> f \<in> set (map fst (fences cq))))"

text \<open>
  One call, or a call on memory, graphs or metrics: these know the context and not the other objects.
  Any descriptor, time and environment may come.
\<close>

inductive api_step :: "('h, 'k) l0 \<Rightarrow> ('h, 'k) l0 \<Rightarrow> bool" where
  close: "live_list st h \<Longrightarrow> zeCommandListClose env h st = Some (r, st') \<Longrightarrow> api_step st st'"
| reset: "live_list st h \<Longrightarrow> zeCommandListReset h st = Some (r, st') \<Longrightarrow> api_step st st'"
| barrier: "live_list st h \<Longrightarrow> zeCommandListAppendBarrier env h sig n ws st = Some (r, st') \<Longrightarrow> api_step st st'"
| copy: "live_list st h \<Longrightarrow> zeCommandListAppendMemoryCopy env h dst src sz sig n ws st = Some (r, st') \<Longrightarrow> api_step st st'"
| fill: "live_list st h \<Longrightarrow> zeCommandListAppendMemoryFill env h p pat psz sz sig n ws st = Some (r, st') \<Longrightarrow> api_step st st'"
| region: "live_list st h \<Longrightarrow> zeCommandListAppendMemoryCopyRegion env h dst dr dp dsp src sr sp ssp sig n ws st = Some (r, st') \<Longrightarrow> api_step st st'"
| timestamp: "live_list st h \<Longrightarrow> zeCommandListAppendWriteGlobalTimestamp env h dst sig n ws st = Some (r, st') \<Longrightarrow> api_step st st'"
| signal: "live_list st h \<Longrightarrow> zeCommandListAppendSignalEvent env h ev st = Some (r, st') \<Longrightarrow> api_step st st'"
| waits: "live_list st h \<Longrightarrow> zeCommandListAppendWaitOnEvents env h n ws st = Some (r, st') \<Longrightarrow> api_step st st'"
| event_reset_cmd: "live_list st h \<Longrightarrow> zeCommandListAppendEventReset env h ev st = Some (r, st') \<Longrightarrow> api_step st st'"
| query_begin: "live_list st h \<Longrightarrow> api_handle h (\<lambda>l. appendMetricQueryBegin env l active mq) st = Some (r, st') \<Longrightarrow> api_step st st'"
| query_end: "live_list st h \<Longrightarrow> api_handle h (\<lambda>l. appendMetricQueryEnd env l active mq sig n ws) st = Some (r, st') \<Longrightarrow> api_step st st'"
| list_sync: "live_list st h \<Longrightarrow> zeCommandListHostSynchronize env h t st = Some (r, st') \<Longrightarrow> api_step st st'"
| update: "live_list st (Some l) \<Longrightarrow> zeCommandListUpdateMutableCommandsExp l flags ds st = Some (r, st') \<Longrightarrow> api_step st st'"
| graph_init: "(\<And>l. h = Some l \<Longrightarrow> live_list st (Some (snd (tr_list ld l)))) \<Longrightarrow>
    zeAppendGraphInitialize ld env h g sig n ws st = Some (r, st') \<Longrightarrow> api_step st st'"
| graph_execute: "(\<And>l. h = Some l \<Longrightarrow> live_list st (Some (snd (tr_list ld l)))) \<Longrightarrow>
    zeAppendGraphExecute ld env h g query sig n ws st = Some (r, st') \<Longrightarrow> api_step st st'"
| list_create: "zeCommandListCreate c d desc p st = Some (ro, st') \<Longrightarrow> api_step st st'"
| list_immediate: "zeCommandListCreateImmediate c d qdesc p st = Some (ro, st') \<Longrightarrow> api_step st st'"
| list_destroy: "live_list st h \<Longrightarrow> zeCommandListDestroy env h st = Some (r, st') \<Longrightarrow> api_step st st'"
| queue_create: "zeCommandQueueCreate c d qdesc p st = Some (ro, st') \<Longrightarrow> api_step st st'"
| queue_destroy: "live_queue st h \<Longrightarrow> zeCommandQueueDestroy env h st = Some (r, st') \<Longrightarrow> api_step st st'"
| execute: "live_queue st h \<Longrightarrow>
    zeCommandQueueExecuteCommandLists env h hls hf st = Some (r, st') \<Longrightarrow> api_step st st'"
| queue_sync: "live_queue st h \<Longrightarrow> zeCommandQueueSynchronize env h t st = Some (r, st') \<Longrightarrow> api_step st st'"
| workload: "live_queue st h \<Longrightarrow> zeCommandQueueSetWorkloadType tr h ty st = Some (r, st') \<Longrightarrow> api_step st st'"
| fence_create: "live_queue st h \<Longrightarrow> zeFenceCreate h fdesc p st = Some (ro, st') \<Longrightarrow> api_step st st'"
| fence_destroy: "live_fence st hf' \<Longrightarrow> zeFenceDestroy hf' st = Some (r, st') \<Longrightarrow> api_step st st'"
| fence_sync: "live_fence st hf' \<Longrightarrow> zeFenceHostSynchronize env hf' t st = Some (r, st') \<Longrightarrow> api_step st st'"
| fence_query: "live_fence st hf' \<Longrightarrow> zeFenceQueryStatus env hf' st = Some (r, st') \<Longrightarrow> api_step st st'"
| fence_reset: "live_fence st hf' \<Longrightarrow> zeFenceReset hf' st = Some (r, st') \<Longrightarrow> api_step st st'"
| pool_create: "zeEventPoolCreate c pdesc n pds p st = Some (ro, st') \<Longrightarrow> api_step st st'"
| pool_destroy: "zeEventPoolDestroy hp st = Some (r, st') \<Longrightarrow> api_step st st'"
| event_create: "zeEventCreate hp edesc p st = Some (re, st') \<Longrightarrow> api_step st st'"
| event_destroy: "zeEventDestroy ev st = Some (r, st') \<Longrightarrow> api_step st st'"
| event_signal: "zeEventHostSignal ev st = Some (r, st') \<Longrightarrow> api_step st st'"
| event_sync: "zeEventHostSynchronize env ev t st = Some (r, st') \<Longrightarrow> api_step st st'"
| event_query: "zeEventQueryStatus env ev st = Some (r, st') \<Longrightarrow> api_step st st'"
| event_reset: "zeEventHostReset ev st = Some (r, st') \<Longrightarrow> api_step st st'"
| memory: "api_step st (st\<lparr>dctx := dc\<rparr>)"

inductive reachable_api :: "('h, 'k) l0 \<Rightarrow> bool" where
  start: "reachable_api (new_l0 c)"
| step: "reachable_api st \<Longrightarrow> api_step st st' \<Longrightarrow> reachable_api st'"

lemma api_handleE:
  assumes "api_handle h m st = Some (r, st')"
  obtains "st' = st" | x y where "h = Some x" "m x st = Some (y, st')"
  using assms by (auto simp: api_handle_def api_call_def split: option.splits)

lemma api_handle_outE:
  assumes "api_handle_out h m st = Some (r, st')"
  obtains "st' = st" | x y where "h = Some x" "m x st = Some (y, st')"
  using assms by (auto simp: api_handle_out_def api_call_def split: option.splits)

lemma api_callE:
  assumes "api_call u m st = Some (r, st')"
  obtains y where "m st = Some (y, st')"
  using assms by (auto simp: api_call_def)

lemma l0_totalD: "l0_total f st = Some (x, st') \<Longrightarrow> \<exists>r. f st = (r, st')"
  by (auto simp: l0_total_def split: prod.splits)

lemma list_call_owned:
  assumes "owned st" "live_list st h" "\<And>l. steady_op l (m l)" "api_handle h m st = Some (r, st')"
  shows "owned st'"
  using assms(4)
proof (cases rule: api_handleE)
  case (2 l y)
  then have "steady st st'" using assms(1,2) steady_opD[OF assms(3)] by (simp add: owned_def live_list_def)
  then show ?thesis using assms(1) owned_steady by blast
qed (use assms in simp)

lemma graph_call_owned:
  assumes "owned st" "\<And>l. h = Some l \<Longrightarrow> live_list st (Some (snd (tr_list ld l)))"
    "\<And>l. steady_op (snd (tr_list ld l)) (m l)" "api_handle h m st = Some (r, st')"
  shows "owned st'"
  using assms(4)
proof (cases rule: api_handleE)
  case (2 l y)
  then have "steady st st'" using assms(1,2) steady_opD[OF assms(3)] by (simp add: owned_def live_list_def)
  then show ?thesis using assms(1) owned_steady by blast
qed (use assms in simp)

lemma translated_steady:
  "steady_op (snd (tr_list ld l)) (api_appendGraphInitialize ld env l g sig n ws)"
  "steady_op (snd (tr_list ld l)) (api_appendGraphExecute ld env l g query sig n ws)"
  unfolding api_appendGraphInitialize_def api_appendGraphExecute_def
  by (auto intro: steady_op_ret graph_init_steady graph_execute_steady split: prod.split sum.split)

lemma steady_call_owned:
  assumes "owned st" "api_handle h m st = Some (r, st')"
    "\<And>x y. h = Some x \<Longrightarrow> m x st = Some (y, st') \<Longrightarrow> steady st st'"
  shows "owned st'"
  using assms(2) by (cases rule: api_handleE) (use assms(1,3) owned_steady in blast)+

lemma steady_out_owned:
  assumes "owned st" "api_handle_out h m st = Some (r, st')"
    "\<And>x y. h = Some x \<Longrightarrow> m x st = Some (y, st') \<Longrightarrow> steady st st'"
  shows "owned st'"
  using assms(2) by (cases rule: api_handle_outE) (use assms(1,3) owned_steady in blast)+

text \<open>A call keeps every job with its owners.\<close>

lemmas list_op_steady = close_steady reset_steady with_events_steady copy_steady fill_steady region_steady
  timestamp_steady base_signal_steady base_waits_steady event_reset_steady query_begin_steady query_end_steady
  host_synchronize_steady

lemma api_step_owned:
  assumes "api_step st st'" "owned st"
  shows "owned st'"
  using assms
proof cases
  case close
  then show ?thesis using assms(2) list_call_owned list_op_steady unfolding zeCommandListClose_def by metis
next
  case reset
  then show ?thesis using assms(2) list_call_owned list_op_steady unfolding zeCommandListReset_def by metis
next
  case barrier
  then show ?thesis using assms(2) list_call_owned list_op_steady
    unfolding zeCommandListAppendBarrier_def appendBarrier_def by metis
next
  case copy
  then show ?thesis using assms(2) list_call_owned list_op_steady unfolding zeCommandListAppendMemoryCopy_def by metis
next
  case fill
  then show ?thesis using assms(2) list_call_owned list_op_steady unfolding zeCommandListAppendMemoryFill_def by metis
next
  case region
  then show ?thesis using assms(2) list_call_owned list_op_steady unfolding zeCommandListAppendMemoryCopyRegion_def by metis
next
  case timestamp
  then show ?thesis using assms(2) list_call_owned list_op_steady unfolding zeCommandListAppendWriteGlobalTimestamp_def by metis
next
  case signal
  then show ?thesis using assms(2) list_call_owned list_op_steady unfolding zeCommandListAppendSignalEvent_def by metis
next
  case waits
  then show ?thesis using assms(2) list_call_owned list_op_steady unfolding zeCommandListAppendWaitOnEvents_def by metis
next
  case event_reset_cmd
  then show ?thesis using assms(2) list_call_owned list_op_steady unfolding zeCommandListAppendEventReset_def by metis
next
  case query_begin
  then show ?thesis using assms(2) list_call_owned list_op_steady by metis
next
  case query_end
  then show ?thesis using assms(2) list_call_owned list_op_steady by metis
next
  case list_sync
  then show ?thesis using assms(2) list_call_owned list_op_steady unfolding zeCommandListHostSynchronize_def by metis
next
  case (update l flags ds r)
  then obtain y where "l0_throwing (updateMutableCommands l flags ds) st = Some (y, st')"
    by (auto simp: zeCommandListUpdateMutableCommandsExp_def elim: api_callE)
  moreover have "wf_l0 st" "lists st l \<noteq> None" using update(1) assms(2) by (simp_all add: owned_def live_list_def)
  ultimately have "steady st st'" using steady_opD[OF update_steady] by blast
  then show ?thesis using assms(2) owned_steady by blast
next
  case graph_init
  then show ?thesis using assms(2) graph_call_owned translated_steady(1) unfolding zeAppendGraphInitialize_def by metis
next
  case graph_execute
  then show ?thesis using assms(2) graph_call_owned translated_steady(2) unfolding zeAppendGraphExecute_def by metis
next
  case list_create
  then show ?thesis using assms(2) list_create_owned
    by (auto simp: zeCommandListCreate_def elim!: api_callE dest!: l0_totalD)
next
  case list_immediate
  then show ?thesis using assms(2) immediate_create_owned by (auto simp: zeCommandListCreateImmediate_def elim!: api_callE)
next
  case list_destroy
  then show ?thesis using assms(2) list_destroy_owned
    by (auto simp: zeCommandListDestroy_def live_list_def elim!: api_handleE dest!: l0_totalD)
next
  case queue_create
  then show ?thesis
    by (auto simp: zeCommandQueueCreate_def elim!: api_callE dest: queue_create_owned[OF assms(2), THEN conjunct1])
next
  case (queue_destroy h env r)
  show ?thesis using queue_destroy(2)[unfolded zeCommandQueueDestroy_def]
  proof (cases rule: api_handleE)
    case (2 q y)
    then obtain r' where "CommandQueue_destroy env q st = (r', st')" using l0_totalD by blast
    then show ?thesis using queue_destroy_owned[OF assms(2)] queue_destroy(1) 2(1) unfolding live_queue_def by blast
  qed (use assms in simp)
next
  case (execute h env hls hf r)
  have "queues st q \<noteq> None" if "h = Some q" for q using execute(1) that by (simp add: live_queue_def)
  then show ?thesis
    using steady_call_owned[OF assms(2) execute(2)[unfolded zeCommandQueueExecuteCommandLists_def]] execute_steady assms(2)
    unfolding owned_def by blast
next
  case (queue_sync h env t r)
  have "queues st q \<noteq> None" if "h = Some q" for q using queue_sync(1) that by (simp add: live_queue_def)
  then show ?thesis
    using steady_call_owned[OF assms(2) queue_sync(2)[unfolded zeCommandQueueSynchronize_def]] synchronize_steady assms(2)
      l0_totalD unfolding owned_def by metis
next
  case (workload h tr ty r)
  have "queues st q \<noteq> None" if "h = Some q" for q using workload(1) that by (simp add: live_queue_def)
  then show ?thesis
    using workload(2) assms(2)
    by (auto simp: zeCommandQueueSetWorkloadType_def split: option.splits if_splits elim!: api_callE
        dest!: l0_totalD intro: owned_steady[OF assms(2) workload_steady])
next
  case (fence_create h fdesc p ro)
  have "queues st q \<noteq> None" if "h = Some q" for q using fence_create(1) that by (simp add: live_queue_def)
  then show ?thesis using fence_create(2) assms(2) create_fence_owned[OF assms(2)]
    by (auto simp: zeFenceCreate_def elim!: api_handle_outE dest!: l0_totalD)
next
  case (fence_destroy h r)
  show ?thesis using fence_destroy(2)[unfolded zeFenceDestroy_def]
  proof (cases rule: api_handleE)
    case (2 x y)
    then show ?thesis using destroy_fence_owned[OF assms(2)] fence_destroy(1)
      by (cases x) (auto simp: live_fence_def simp del: set_map dest!: l0_totalD)
  qed (use assms in simp)
next
  case (fence_sync h env t r)
  then show ?thesis using assms(2) fence_sync_steady
    by (intro steady_call_owned[OF assms(2) fence_sync(2)[unfolded zeFenceHostSynchronize_def]])
      (auto simp: live_fence_def owned_def simp del: set_map dest!: l0_totalD)
next
  case (fence_query h env r)
  then show ?thesis using assms(2) fence_sync_steady
    by (intro steady_call_owned[OF assms(2) fence_query(2)[unfolded zeFenceQueryStatus_def]])
      (auto simp: live_fence_def owned_def simp del: set_map dest!: l0_totalD)
next
  case (fence_reset h r)
  then show ?thesis using assms(2) fence_reset_steady
    by (intro steady_call_owned[OF assms(2) fence_reset(2)[unfolded zeFenceReset_def]])
      (auto simp: live_fence_def owned_def simp del: set_map dest!: l0_totalD)
next
  case pool_create
  then show ?thesis using assms(2)
    by (auto simp: zeEventPoolCreate_def split: if_splits elim!: api_callE
        intro: owned_steady[OF assms(2) pool_create_steady])
next
  case pool_destroy
  then show ?thesis using assms(2) steady_call_owned pool_destroy_steady unfolding zeEventPoolDestroy_def by metis
next
  case event_create
  then show ?thesis using assms(2) steady_out_owned event_create_steady unfolding zeEventCreate_def by metis
next
  case event_destroy
  then show ?thesis using assms(2) steady_call_owned event_destroy_steady unfolding zeEventDestroy_def by metis
next
  case event_signal
  then show ?thesis using assms(2) steady_call_owned on_event_steady unfolding zeEventHostSignal_def by metis
next
  case event_sync
  then show ?thesis using assms(2) steady_call_owned event_wait_steady unfolding zeEventHostSynchronize_def by metis
next
  case event_query
  then show ?thesis using assms(2) steady_call_owned on_event_steady unfolding zeEventQueryStatus_def by metis
next
  case event_reset
  then show ?thesis using assms(2) steady_call_owned on_event_steady unfolding zeEventHostReset_def by metis
next
  case memory
  then show ?thesis using owned_steady[OF assms(2) same_holders_steady[OF same_holders_update(2)]] by simp
qed

lemma new_l0_owned: "owned (new_l0 c)"
  by (simp add: owned_def new_l0_def wf_l0_def refs_ok_def job_owners_def list_queue_def queue_fences_def)

lemma reachable_owned: "reachable_api st \<Longrightarrow> owned st"
  by (induction rule: reachable_api.induct) (auto intro: new_l0_owned api_step_owned)

section \<open>What holds a job\<close>

lemma sum_positive:
  fixes f :: "nat \<Rightarrow> nat"
  shows "0 < sum f {..<n} \<longleftrightarrow> (\<exists>k<n. 0 < f k)"
  by (metis finite_lessThan lessThan_iff not_gr_zero sum_eq_0_iff)

lemma owners_positive:
  assumes wf: "wf_l0 st"
  shows "0 < job_owners st j \<longleftrightarrow>
    (\<exists>l cl. lists st l = Some cl \<and> vpuJob cl = j) \<or> (\<exists>q cq. queues st q = Some cq \<and> j \<in> set (owned_jobs cq))"
proof -
  have l: "0 < list_owns (lists st l) j \<longleftrightarrow> (\<exists>cl. lists st l = Some cl \<and> vpuJob cl = j)" for l
    by (auto simp: list_owns_def split: option.splits)
  have q: "0 < queue_owns (queues st q) j \<longleftrightarrow> (\<exists>cq. queues st q = Some cq \<and> j \<in> set (owned_jobs cq))" for q
  proof (cases "queues st q")
    case (Some cq)
    then show ?thesis using count_list_0_iff[of "owned_jobs cq" j] by (simp add: queue_owns_def) (metis not_gr_zero)
  qed (simp add: queue_owns_def)
  have "0 < job_owners st j \<longleftrightarrow>
      (\<exists>l<next_list st. 0 < list_owns (lists st l) j) \<or> (\<exists>q<next_queue st. 0 < queue_owns (queues st q) j)"
    by (simp only: job_owners_def add_gr_0 sum_positive)
  then show ?thesis unfolding l q using wf_list_bound[OF wf] wf_queue_bound[OF wf] by blast
qed

text \<open>C4: In every state that calls of the application can reach, the count of the shared pointer of a
  job is the number of its holders, and it is positive exactly when a living command list records it, a
  living queue tracks it, or a fence of a living queue does: no job is destroyed while something can
  reach it, and none outlives its last holder, whatever calls failed or threw on the way.\<close>

theorem jobs_owned_exactly:
  assumes "reachable_api st"
  shows "job_refs st j = job_owners st j \<and>
    (0 < job_refs st j \<longleftrightarrow>
       (\<exists>l cl. lists st l = Some cl \<and> vpuJob cl = j) \<or>
       (\<exists>q cq. queues st q = Some cq \<and> (j \<in> set (queueJobs cq) \<or> (\<exists>(f, fe) \<in> set (fences cq). j \<in> set (fenceJobs fe)))))"
proof -
  have o: "wf_l0 st" "job_refs st j = job_owners st j"
    using reachable_owned[OF assms] refs_okD[of "\<lambda>_. 0" st j] by (simp_all add: owned_def)
  have "j \<in> set (owned_jobs cq) \<longleftrightarrow> j \<in> set (queueJobs cq) \<or> (\<exists>(f, fe) \<in> set (fences cq). j \<in> set (fenceJobs fe))" for cq
    by (force simp: owned_jobs_def)
  then show ?thesis using owners_positive[OF o(1), of j] o(2) by simp
qed

text \<open>A list is created and reset: its second job has one owner, its first none.\<close>

definition owned_st1 :: "(unit, null_dev) l0" where
  "owned_st1 = snd (the (zeCommandListCreate True True (Some (0, True)) True (new_l0 demo_ctx)))"

definition owned_st :: "(unit, null_dev) l0" where
  "owned_st = snd (the (zeCommandListReset (Some 0) owned_st1))"

lemma owned_create:
  "zeCommandListCreate True True (Some (0, True)) True (new_l0 demo_ctx) = Some ((ZE_RESULT_SUCCESS, Some 0), owned_st1)"
  "lists owned_st1 = [0 \<mapsto> \<lparr>isMutable = True, vpuJob = 0, commandIdMap = Map.empty, pCommandQueue = None\<rparr>]"
  "next_job owned_st1 = 1" "job_refs owned_st1 = (\<lambda>_. 0)(0 := 1)"
  by (simp_all add: owned_st1_def zeCommandListCreate_def api_call_def l0_total_def CommandList_create_def
      getCommandQeueueGroupFlags_def new_list_def new_l0_def)

lemma owned_reset: "zeCommandListReset (Some 0) owned_st1 = Some (ZE_RESULT_SUCCESS, owned_st)"
  by (simp add: owned_st_def zeCommandListReset_def api_handle_def api_call_def l0_total_def CommandList_reset_def)

lemma owned_st_reachable: "reachable_api owned_st"
  by (rule reachable_api.step[OF reachable_api.step[OF reachable_api.start list_create[OF owned_create(1)]]
        reset[OF _ owned_reset]])
    (simp add: live_list_def owned_create)

lemma owned_st_list: "vpuJob (the (lists owned_st 0)) = 1" "lists owned_st 0 \<noteq> None"
  using owned_create(2,3)
  by (simp_all add: owned_st_def zeCommandListReset_def api_handle_def api_call_def l0_total_def CommandList_reset_def
      fresh_job_def Let_def set_list_def)

theorem jobs_owned_exactly_witness: "reachable_api owned_st \<and> 0 < job_refs owned_st 1"
  using jobs_owned_exactly[OF owned_st_reachable, of 1] owned_st_reachable owned_st_list by auto

end
