(* ===== verification/Enumeration.thy ===== *)
theory Enumeration
  imports L0_Base
begin

text \<open>
  The protocol of the calls that list objects: a call with the count zero stores how many there are,
  a call with a positive count stores at most that many, and the count is then what was stored. The
  calls of the API that follow it interpret the locale.
\<close>

locale enumeration =
  fixes enum :: "u32 \<Rightarrow> exn + ze_result \<times> u32 \<times> 'a list" and all :: "'a list"
  assumes ask: "enum 0 = Inr (ZE_RESULT_SUCCESS, of_nat (length all), [])"
    and fill: "n \<noteq> 0 \<Longrightarrow> enum n = Inr (ZE_RESULT_SUCCESS, min n (of_nat (length all)), take (unat n) all)"
    and fits: "length all < 2 ^ 32"
begin

lemma count_back: "unat (of_nat (length all) :: u32) = length all"
  using fits by (simp add: unat_of_nat take_bit_nat_eq_self)

text \<open>The two calls of an application.\<close>

lemma two_calls:
  assumes "all \<noteq> []" "enum 0 = Inr (r, n, ys)"
  shows "enum n = Inr (ZE_RESULT_SUCCESS, n, all)"
proof -
  have n: "n = of_nat (length all)" using assms(2) ask by simp
  moreover have "n \<noteq> 0" using count_back assms(1) n by (metis length_0_conv unat_0)
  ultimately show ?thesis using fill[of n] count_back by simp
qed

lemma stored:
  assumes "n \<noteq> 0" "enum n = Inr (r, m, ys)"
  shows "r = ZE_RESULT_SUCCESS" "length ys = unat m" "m \<le> n" "ys = take (unat n) all"
proof -
  have "m = min n (of_nat (length all))" "ys = take (unat n) all" "r = ZE_RESULT_SUCCESS"
    using fill[OF assms(1)] assms(2) by simp_all
  moreover have "unat (min n (of_nat (length all))) = min (unat n) (length all)"
    using count_back by (metis (mono_tags, lifting) min_def word_le_nat_alt)
  ultimately show "r = ZE_RESULT_SUCCESS" "length ys = unat m" "m \<le> n" "ys = take (unat n) all" by simp_all
qed

end

end
