(* ===== verification/L0_Device.thy ===== *)
theory L0_Device
  imports Api_Objects Enumeration Nested_Structs L0_Metric L0_Memory
begin

text \<open>
  \<open>Device\<close> (\<open>umd/level_zero_driver/source/device.cpp\<close>): what an application asks of a device. The
  pointer to a result is whether it is given, or for a structure with an input what it holds; the
  result of a call carries what it stores. A device is its \<open>VPUDevice\<close> with the path of its node,
  \<open>None\<close> where the source allows for a null pointer, and its groups of metrics. What the system
  answers (\<open>sysinfo\<close>, clocks, the link and the files of \<open>sysfs\<close>) are arguments.
\<close>

type_synonym vpu_node = "vpu_device \<times> string"

section \<open>Construction\<close>

text \<open>
  The constructor: whether metrics are on in the driver, and the compiler library it initialises,
  whose failure is only logged.
\<close>

definition new_metric_device :: "bool \<Rightarrow> vpu_device option \<Rightarrow> metric_device" where
  "new_metric_device metrics_on vd =
     (case (if metrics_on then vd else None) of
        None \<Rightarrow> \<lparr>metricsLoaded = False, metricGroups = [], activatedMetricGroups = []\<rparr>
      | Some v \<Rightarrow> \<lparr>metricsLoaded = True, metricGroups = loadMetricGroupsInfo (groupsInfo v), activatedMetricGroups = []\<rparr>)"

section \<open>Properties\<close>

definition INTEL_PCI_VENDOR_ID :: u32 where "INTEL_PCI_VENDOR_ID = 0x8086"
definition NS_IN_SEC :: u64 where "NS_IN_SEC = 1000000000"
definition ZE_MAX_DEVICE_NAME :: nat where "ZE_MAX_DEVICE_NAME = 256"
definition ZES_STRING_PROPERTY_SIZE :: nat where "ZES_STRING_PROPERTY_SIZE = 64"

text \<open>Flags of the headers of the extension, which is a submodule.\<close>

record npu_flags =
  FLAG_GRAPH_ARGUMENT_DEPRECATED :: u32
  FLAG_GRAPH_ARGUMENTS :: u32
  TYPE_FLAG_STANDARD_ALLOCATION :: u32

text \<open>The structures that may follow the properties: the IP version, and the flags of mutable lists.\<close>

datatype property_struct =
    Ip_version (ip_next: u64) u32
  | Mutable_list_properties (ml_next: u64) u32 u32
  | Other_properties u32

definition handleExtensionProperty ::
  "npu_flags \<Rightarrow> hw_info \<Rightarrow> u64 \<Rightarrow> (u64 \<Rightarrow> property_struct) \<Rightarrow> u64 option \<times> (u64 \<Rightarrow> property_struct)" where
  "handleExtensionProperty fl hw p structs =
     (case structs p of
        Ip_version q _ \<Rightarrow> (Some q, structs(p := Ip_version q (platformType hw)))
      | Mutable_list_properties q _ _ \<Rightarrow> (Some q, structs(p := Mutable_list_properties q 0 (FLAG_GRAPH_ARGUMENT_DEPRECATED fl OR FLAG_GRAPH_ARGUMENTS fl)))
      | Other_properties _ \<Rightarrow> (None, structs))"

definition getExtensionSpecificProperties ::
  "npu_flags \<Rightarrow> hw_info \<Rightarrow> u64 \<Rightarrow> (u64 \<Rightarrow> property_struct) \<Rightarrow> bool \<times> (u64 \<Rightarrow> property_struct)" where
  "getExtensionSpecificProperties fl hw pNext structs = handleNestedStructs (handleExtensionProperty fl hw) pNext structs"

datatype properties_stype = Device_properties | Device_properties_1_2 | Other_device_stype

record device_properties =
  dp_stype :: properties_stype
  dp_pNext :: u64
  dp_vendorId :: u32
  dp_deviceId :: u32
  dp_subdeviceId :: u32
  dp_coreClockRate :: u32
  dp_maxMemAllocSize :: u64
  dp_maxHardwareContexts :: u32
  dp_maxCommandQueuePriority :: u32
  dp_numThreadsPerEU :: u32
  dp_physicalEUSimdWidth :: u32
  dp_numEUsPerSubslice :: u32
  dp_numSubslicesPerSlice :: u32
  dp_numSlices :: u32
  dp_timerResolution :: u64
  dp_timestampValidBits :: u32
  dp_kernelTimestampValidBits :: u32
  dp_name :: string

definition popcount32 :: "u32 \<Rightarrow> u32" where
  "popcount32 v = of_nat (length (filter (bit v) [0..<32]))"

text \<open>
  The members that are written; the type (a VPU), the flags (integrated) and the UUID are constants of
  headers and left out. \<open>ram\<close>: the two factors that \<open>sysinfo\<close> gives, or its failure.
\<close>

definition fill_properties :: "hw_info \<Rightarrow> (u64 \<times> u32) option \<Rightarrow> device_properties \<Rightarrow> device_properties" where
  "fill_properties hw ram p = p\<lparr>
     dp_vendorId := INTEL_PCI_VENDOR_ID, dp_deviceId := deviceId hw, dp_subdeviceId := ucast (deviceRevision hw),
     dp_coreClockRate := coreClockRate hw,
     dp_maxMemAllocSize := (case ram of None \<Rightarrow> 0 | Some (ramTotal, unit) \<Rightarrow> ramTotal * ucast unit),
     dp_maxHardwareContexts := maxHardwareContexts hw, dp_maxCommandQueuePriority := maxCommandQueuePriority hw,
     dp_numThreadsPerEU := 1, dp_physicalEUSimdWidth := physicalEUSimdWidth hw,
     dp_numEUsPerSubslice := nExecUnits hw, dp_numSubslicesPerSlice := 1,
     dp_numSlices := popcount32 (tileConfig hw),
     dp_timerResolution :=
       (case dp_stype p of
          Device_properties_1_2 \<Rightarrow> timerResolution hw
        | Device_properties \<Rightarrow> NS_IN_SEC div timerResolution hw
        | Other_device_stype \<Rightarrow> dp_timerResolution p),
     dp_timestampValidBits := 64, dp_kernelTimestampValidBits := 0,
     dp_name := take (ZE_MAX_DEVICE_NAME - 1) (hw_name hw)\<rparr>"

definition getProperties ::
  "npu_flags \<Rightarrow> vpu_device option \<Rightarrow> (u64 \<times> u32) option \<Rightarrow> (u64 \<Rightarrow> property_struct) \<Rightarrow> device_properties option
     \<Rightarrow> ze_result \<times> device_properties option \<times> (u64 \<Rightarrow> property_struct)" where
  "getProperties fl vd ram structs pDeviceProperties =
     (case pDeviceProperties of
        None \<Rightarrow> (ZE_RESULT_ERROR_INVALID_NULL_POINTER, None, structs)
      | Some p \<Rightarrow>
          (case vd of
             None \<Rightarrow> (ZE_RESULT_ERROR_DEVICE_LOST, Some p, structs)
           | Some v \<Rightarrow>
               (case getExtensionSpecificProperties fl (dev_hwInfo v) (dp_pNext p) structs of
                  (ok, structs') \<Rightarrow>
                    (if ok then ZE_RESULT_SUCCESS else ZE_RESULT_ERROR_INVALID_ARGUMENT,
                     Some (fill_properties (dev_hwInfo v) ram p), structs'))))"

record zes_properties =
  zp_core :: device_properties
  zp_numSubdevices :: u32
  zp_serialNumber :: string
  zp_boardNumber :: string
  zp_brandName :: string
  zp_modelName :: string
  zp_vendorName :: string
  zp_driverVersion :: string

definition property_string :: "string \<Rightarrow> string" where
  "property_string s = take (ZES_STRING_PROPERTY_SIZE - 1) s"

definition zes_getProperties ::
  "npu_flags \<Rightarrow> vpu_device option \<Rightarrow> string \<Rightarrow> (u64 \<times> u32) option \<Rightarrow> (u64 \<Rightarrow> property_struct) \<Rightarrow> zes_properties option
     \<Rightarrow> ze_result \<times> zes_properties option \<times> (u64 \<Rightarrow> property_struct)" where
  "zes_getProperties fl vd vpu_drv_version_str ram structs pDeviceProperties =
     (case pDeviceProperties of
        None \<Rightarrow> (ZE_RESULT_ERROR_INVALID_NULL_POINTER, None, structs)
      | Some z \<Rightarrow>
          (case getProperties fl vd ram structs (Some (zp_core z)) of
             (r, core, structs') \<Rightarrow>
               let z1 = z\<lparr>zp_core := the core\<rparr> in
               if r \<noteq> ZE_RESULT_SUCCESS then (r, Some z1, structs')
               else (ZE_RESULT_SUCCESS,
                     Some (z1\<lparr>zp_numSubdevices := 0, zp_serialNumber := property_string ''unknown'',
                       zp_boardNumber := property_string ''unknown'', zp_brandName := property_string ''NPU'',
                       zp_modelName := property_string (platformName (dev_hwInfo (the vd))),
                       zp_vendorName := property_string ''INTEL'',
                       zp_driverVersion := property_string vpu_drv_version_str\<rparr>), structs')))"

text \<open>Whether the engine is on a subdevice, and which.\<close>

definition engineGetProperties :: "bool \<Rightarrow> ze_result \<times> (bool \<times> u32) option" where
  "engineGetProperties pEngineProperties =
     (if \<not> pEngineProperties then (ZE_RESULT_ERROR_INVALID_NULL_POINTER, None)
      else (ZE_RESULT_SUCCESS, Some (False, 0)))"

text \<open>\<open>getActiveTime\<close>: the contents of the file in the directory of the device.\<close>

definition getActiveTime ::
  "'k os_interface \<Rightarrow> string \<Rightarrow> string \<Rightarrow> (string \<Rightarrow> string) \<Rightarrow> 'k world \<Rightarrow> u64 option \<times> 'k world" where
  "getActiveTime os devPath devLink read_file w =
     (case openDriverApi os devPath w of
        (None, w1) \<Rightarrow> (None, w1)
      | (Some fd, w1) \<Rightarrow>
          (getActiveTime_of_file (read_file (''/sys/dev/char/'' @ devLink @ ''/../../'' @ ''npu_busy_time_us'')),
           destroyDriverApi os fd w1))"

text \<open>The active time and the time of the call, in microseconds.\<close>

definition engineGetActivity ::
  "'k os_interface \<Rightarrow> string \<Rightarrow> string \<Rightarrow> (string \<Rightarrow> string) \<Rightarrow> u64 \<Rightarrow> bool \<Rightarrow> 'k world
     \<Rightarrow> (ze_result \<times> (u64 \<times> u64) option) \<times> 'k world" where
  "engineGetActivity os devPath devLink read_file time_us pStats w =
     (if \<not> pStats then ((ZE_RESULT_ERROR_INVALID_NULL_POINTER, None), w)
      else (case getActiveTime os devPath devLink read_file w of
              (None, w1) \<Rightarrow> ((ZE_RESULT_ERROR_UNINITIALIZED, None), w1)
            | (Some t, w1) \<Rightarrow> ((ZE_RESULT_SUCCESS, Some (t, time_us)), w1)))"

definition getP2PProperties :: "bool \<Rightarrow> bool \<Rightarrow> ze_result \<times> u32 option" where
  "getP2PProperties hPeerDevice pP2PProperties =
     (if \<not> hPeerDevice then (ZE_RESULT_ERROR_INVALID_NULL_HANDLE, None)
      else if \<not> pP2PProperties then (ZE_RESULT_ERROR_INVALID_NULL_POINTER, None)
      else (ZE_RESULT_SUCCESS, Some 0))"

section \<open>Memory, images and groups of queues\<close>

definition getSubDevices :: "u32 option \<Rightarrow> ze_result \<times> u32 option" where
  "getSubDevices pCount =
     (case pCount of None \<Rightarrow> (ZE_RESULT_ERROR_INVALID_NULL_POINTER, None)
      | Some n \<Rightarrow> (ZE_RESULT_SUCCESS, Some (if n > 0 then 0 else n)))"

record memory_properties =
  mp_flags :: u32
  mp_maxClockRate :: u32
  mp_maxBusWidth :: u32
  mp_totalSize :: u64
  mp_name :: string

definition getDeviceMemoryName :: string where "getDeviceMemoryName = ''DDR''"

definition getMemoryProperties ::
  "bool \<Rightarrow> u32 option \<Rightarrow> bool \<Rightarrow> exn + ze_result \<times> u32 \<times> memory_properties list" where
  "getMemoryProperties hasDevice pCount pMemProperties =
     Inr (case pCount of None \<Rightarrow> (ZE_RESULT_ERROR_INVALID_NULL_POINTER, 0, [])
      | Some n \<Rightarrow>
          if n = 0 then (ZE_RESULT_SUCCESS, 1, [])
          else if \<not> hasDevice then (ZE_RESULT_ERROR_UNINITIALIZED, 1, [])
          else (ZE_RESULT_SUCCESS, 1,
                if pMemProperties
                then [\<lparr>mp_flags = 0, mp_maxClockRate = 0, mp_maxBusWidth = 0, mp_totalSize = 0,
                       mp_name = take (ZE_MAX_DEVICE_NAME - 1) getDeviceMemoryName\<rparr>]
                else []))"

text \<open>The import and the export types; the image types are zero.\<close>

definition getGetExternalMemoryProperties :: "npu_flags \<Rightarrow> vpu_device option \<Rightarrow> bool \<Rightarrow> ze_result \<times> (u32 \<times> u32 \<times> u32 \<times> u32) option" where
  "getGetExternalMemoryProperties fl vd pExternalMemoryProperties =
     (if \<not> pExternalMemoryProperties then (ZE_RESULT_ERROR_INVALID_NULL_POINTER, None)
      else (ZE_RESULT_SUCCESS,
            Some (ZE_EXTERNAL_MEMORY_TYPE_FLAG_DMA_BUF OR (if (case vd of None \<Rightarrow> False | Some v \<Rightarrow> userPtrCapability (dev_hwInfo v))
                        then TYPE_FLAG_STANDARD_ALLOCATION fl else 0), ZE_EXTERNAL_MEMORY_TYPE_FLAG_DMA_BUF, 0, 0)))"

text \<open>The capabilities of host, device and the three kinds of shared allocations.\<close>

definition getMemoryAccessProperties :: "bool \<Rightarrow> ze_result \<times> (u32 \<times> u32 \<times> u32 \<times> u32 \<times> u32) option" where
  "getMemoryAccessProperties pMemAccessProperties =
     (if \<not> pMemAccessProperties then (ZE_RESULT_ERROR_INVALID_NULL_POINTER, None)
      else (ZE_RESULT_SUCCESS, Some (1 OR 2, 1 OR 2, 0, 0, 0)))"

text \<open>All members of the two structures are zero: how many there are.\<close>

definition getDeviceImageProperties :: "bool \<Rightarrow> ze_result \<times> u32 list option" where
  "getDeviceImageProperties pDeviceImageProperties =
     (if \<not> pDeviceImageProperties then (ZE_RESULT_ERROR_INVALID_NULL_POINTER, None)
      else (ZE_RESULT_SUCCESS, Some (replicate 8 0)))"

definition getDeviceComputeProperties :: "bool \<Rightarrow> ze_result \<times> u32 list option" where
  "getDeviceComputeProperties pDeviceComputeProperties =
     (if \<not> pDeviceComputeProperties then (ZE_RESULT_ERROR_INVALID_NULL_POINTER, None)
      else (ZE_RESULT_SUCCESS, Some (replicate 9 0 @ replicate 8 0)))"

text \<open>The flags, the number of queues and the largest pattern of a fill.\<close>

definition getCommandQueueGroupProperties ::
  "u32 option \<Rightarrow> bool \<Rightarrow> exn + ze_result \<times> u32 \<times> (u32 \<times> u32 \<times> u64) list" where
  "getCommandQueueGroupProperties pCount pProperties =
     Inr (case pCount of None \<Rightarrow> (ZE_RESULT_ERROR_INVALID_NULL_POINTER, 0, [])
      | Some n \<Rightarrow>
          if n = 0 then (ZE_RESULT_SUCCESS, 1, [])
          else (ZE_RESULT_SUCCESS, if n > 1 then 1 else n,
                if pProperties then [(getCommandQeueueGroupFlags 0, 1, 4)] else []))"

section \<open>Status and address\<close>

definition Device_getStatus :: "'k os_interface \<Rightarrow> vpu_node option \<Rightarrow> 'k world \<Rightarrow> (ze_result \<times> 'k world) option" where
  "Device_getStatus os vd w =
     (case vd of None \<Rightarrow> Some (ZE_RESULT_ERROR_UNINITIALIZED, w)
      | Some (v, devPath) \<Rightarrow>
          map_option (\<lambda>(b, w1). (if b then ZE_RESULT_SUCCESS else ZE_RESULT_ERROR_DEVICE_LOST, w1))
            (isConnected os devPath w))"

definition getBDF ::
  "'k os_interface \<Rightarrow> string \<Rightarrow> string \<Rightarrow> u32 \<times> u32 \<times> u32 \<times> u32 \<Rightarrow> 'k world
     \<Rightarrow> (u32 \<times> u32 \<times> u32 \<times> u32) option \<times> 'k world" where
  "getBDF os devPath devLink old w =
     (case openDriverApi os devPath w of
        (None, w1) \<Rightarrow> (None, w1)
      | (Some fd, w1) \<Rightarrow> (getBDF_of_link devLink old, destroyDriverApi os fd w1))"

text \<open>The address; the speed is zero.\<close>

definition getPciProperties ::
  "'k os_interface \<Rightarrow> vpu_node option \<Rightarrow> bool \<Rightarrow> string \<Rightarrow> 'k world
     \<Rightarrow> (ze_result \<times> (u32 \<times> u32 \<times> u32 \<times> u32) option) \<times> 'k world" where
  "getPciProperties os vd hasDriver devLink w =
     (case (if hasDriver then vd else None) of
        None \<Rightarrow> ((ZE_RESULT_ERROR_UNINITIALIZED, None), w)
      | Some (v, devPath) \<Rightarrow>
          (case getBDF os devPath devLink (0, 0, 0, 0) w of
             (None, w1) \<Rightarrow> ((ZE_RESULT_ERROR_DEVICE_LOST, None), w1)
           | (Some a, w1) \<Rightarrow> ((ZE_RESULT_SUCCESS, Some a), w1)))"

section \<open>Groups of metrics\<close>

text \<open>The handles that are stored are the places of the groups.\<close>

definition metricGroupGet :: "hw_info \<Rightarrow> metric_device \<Rightarrow> u32 option \<Rightarrow> bool \<Rightarrow> exn + ze_result \<times> u32 \<times> nat list" where
  "metricGroupGet hw d pCount phMetricGroups =
     (let count_of = safe_cast_u32 (of_nat (length (metricGroups d))) in
      if \<not> metricStreamerCapability hw then Inr (ZE_RESULT_ERROR_UNSUPPORTED_FEATURE, 0, [])
      else if \<not> metricsLoaded d then Inr (ZE_RESULT_ERROR_UNINITIALIZED, 0, [])
      else (case pCount of None \<Rightarrow> Inr (ZE_RESULT_ERROR_INVALID_NULL_POINTER, 0, [])
       | Some n \<Rightarrow>
           if n = 0 then map_sum id (\<lambda>k. (ZE_RESULT_SUCCESS, k, [])) count_of
           else map_sum id (\<lambda>k. (ZE_RESULT_SUCCESS, k, if phMetricGroups then [0..<unat k] else []))
                  (if unat n > length (metricGroups d) then count_of else Inr n)))"

definition isMetricGroupAvailable :: "metric_device \<Rightarrow> nat \<Rightarrow> bool" where
  "isMetricGroupAvailable d g \<longleftrightarrow> g < length (metricGroups d)"

definition Device_activateMetricGroups ::
  "int \<Rightarrow> u32 \<Rightarrow> nat list option \<Rightarrow> metric_device \<Rightarrow> ze_result \<times> metric_device" where
  "Device_activateMetricGroups vpuFd cnt phMetricGroups d = activateMetricGroups vpuFd cnt phMetricGroups d"

section \<open>Timestamps\<close>

text \<open>
  \<open>createInternalJob\<close> after the context is made: a queue and a list in it. The handles are outputs,
  which stay null until they are made.
\<close>

definition internal_queue_desc :: queue_desc where
  "internal_queue_desc = \<lparr>qd_ordinal = 0, qd_synchronous = False, qd_priority = PRIORITY_NORMAL, qd_ext = None\<rparr>"

definition createInternalJob :: "('h, 'k, ze_result \<times> nat option \<times> nat option) l0_op" where
  "createInternalJob =
     l0_bind (CommandQueue_create True True (Some internal_queue_desc) True) (\<lambda>(r, oq).
       if r \<noteq> ZE_RESULT_SUCCESS then l0_ret (r, None, None)
       else l0_bind (l0_total (CommandList_create True True (Some (0, False)) True)) (\<lambda>(r, ol).
              l0_ret (r, oq, if r \<noteq> ZE_RESULT_SUCCESS then None else ol)))"

text \<open>The buffer is moved into the append, and released with it unless the list keeps it.\<close>

definition append_timestamp_of :: "l0_env \<Rightarrow> nat \<Rightarrow> ('h, 'k, ze_result \<times> u64) l0_op" where
  "append_timestamp_of env l st =
     (case createUntrackedBufferObject (dctx st) 8 CachedFw of
        (Inl e, c) \<Rightarrow> Some (Inl e, st\<lparr>dctx := c\<rparr>)
      | (Inr None, c) \<Rightarrow> Some (Inr (ZE_RESULT_ERROR_INVALID_NULL_POINTER, 0), st\<lparr>dctx := c\<rparr>)
      | (Inr (Some bo), c) \<Rightarrow>
          map_option (\<lambda>(x, st1). (map_sum id (\<lambda>r. (r, basePtr bo)) x, st1\<lparr>dctx := drop_ref bo (dctx st1)\<rparr>))
            (appendWriteGlobalTimestamp_bo env l bo None 0 None (st\<lparr>dctx := c\<rparr>)))"

text \<open>The body of \<open>getGlobalTimestamps\<close> in the new context: the device's time is read from the buffer.\<close>

definition internal_timestamp :: "l0_env \<Rightarrow> ('h, 'k, ze_result \<times> u64 option) l0_op" where
  "internal_timestamp env =
     l0_bind createInternalJob (\<lambda>(r, oq, ol).
       case (if r \<noteq> ZE_RESULT_SUCCESS then None else oq, ol) of
         (Some q, Some l) \<Rightarrow>
           l0_bind (append_timestamp_of env l) (\<lambda>(r, ts).
             if r \<noteq> ZE_RESULT_SUCCESS then l0_ret (r, None)
             else l0_bind
               (l0_ok (CommandList_close env l)
                 (l0_ok (executeCommandLists env q (Some [Some l]) None) (l0_total (queue_synchronize env q (- 1)))))
               (\<lambda>r. if r \<noteq> ZE_RESULT_SUCCESS then l0_ret (r, None)
                    else l0_query (\<lambda>st. (ZE_RESULT_SUCCESS, Some (read64 (mem (ctx_world (dctx st))) ts)))))
       | _ \<Rightarrow> l0_ret (r, None))"

text \<open>
  The result is the host's and the device's time. \<open>hostNs\<close> is the clock after the job; the destruction
  of the context at the end is left to its destructor. A null \<open>VPUDevice\<close> or driver is \<open>None\<close>.
\<close>

definition getGlobalTimestamps ::
  "'k os_interface \<Rightarrow> l0_env \<Rightarrow> u64 \<Rightarrow> vpu_node option \<Rightarrow> bool \<Rightarrow> 'k world
     \<Rightarrow> ((exn + ze_result \<times> (u64 \<times> u64) option) \<times> (('h, 'k) l0 + 'k world)) option" where
  "getGlobalTimestamps os env hostNs vd hasDriver w =
     (case (if hasDriver then vd else None) of
        None \<Rightarrow> Some (Inr (ZE_RESULT_ERROR_UNINITIALIZED, None), Inr w)
      | Some (v, devPath) \<Rightarrow>
          (case openDriverApi os devPath w of
             (None, w1) \<Rightarrow> Some (Inr (ZE_RESULT_ERROR_OUT_OF_DEVICE_MEMORY, None), Inr w1)
           | (Some fd, w1) \<Rightarrow>
               map_option (\<lambda>(x, st). (map_sum id (\<lambda>(r, t). (r, map_option (\<lambda>d. (hostNs, d)) t)) x, Inl st))
                 (internal_timestamp env (new_l0 (new_ctx (mk_drv_api os fd) w1 (dev_hwInfo v))))))"

section \<open>The calls that list what a device has\<close>

lemma safe_count:
  assumes "n < 2 ^ 32"
  shows "safe_cast_u32 (of_nat n) = Inr (of_nat n)"
proof -
  have n: "unat (of_nat n :: u64) = n" using assms by (intro unat_of_nat_64) simp
  have "uint (of_nat n :: u64) = int n" using n by (metis uint_nat)
  then show ?thesis using assms by (simp add: safe_cast_u32_def of_nat_numeral)
qed

interpretation memory_list: enumeration
  "\<lambda>n. getMemoryProperties True (Some n) True"
  "[\<lparr>mp_flags = 0, mp_maxClockRate = 0, mp_maxBusWidth = 0, mp_totalSize = 0, mp_name = ''DDR''\<rparr>]"
proof unfold_locales
  fix n :: u32 assume n: "n \<noteq> 0"
  then have "min n 1 = 1" by (metis min.absorb2 word_less_1 not_le)
  moreover have "\<exists>k. unat n = Suc k" using n by (metis not0_implies_Suc unat_eq_zero)
  ultimately show "getMemoryProperties True (Some n) True = Inr (ZE_RESULT_SUCCESS,
      min n (of_nat (length [\<lparr>mp_flags = 0, mp_maxClockRate = 0, mp_maxBusWidth = 0, mp_totalSize = 0, mp_name = ''DDR''\<rparr>])),
      take (unat n) [\<lparr>mp_flags = 0, mp_maxClockRate = 0, mp_maxBusWidth = 0, mp_totalSize = 0, mp_name = ''DDR''\<rparr>])"
    using n by (auto simp: getMemoryProperties_def getDeviceMemoryName_def ZE_MAX_DEVICE_NAME_def)
qed (simp_all add: getMemoryProperties_def)

interpretation queue_groups: enumeration
  "\<lambda>n. getCommandQueueGroupProperties (Some n) True" "[(getCommandQeueueGroupFlags 0, 1, 4)]"
proof unfold_locales
  fix n :: u32 assume n: "n \<noteq> 0"
  then have "n \<le> 1 \<Longrightarrow> n = 1" by (metis not_le word_less_1 word_le_less_eq)
  then have "(if n > 1 then 1 else n) = min n 1" by (auto simp: min_def not_le)
  moreover have "\<exists>k. unat n = Suc k" using n by (metis not0_implies_Suc unat_eq_zero)
  ultimately show "getCommandQueueGroupProperties (Some n) True = Inr (ZE_RESULT_SUCCESS,
      min n (of_nat (length [(getCommandQeueueGroupFlags 0, 1, 4)])), take (unat n) [(getCommandQeueueGroupFlags 0, 1, 4)])"
    using n by (auto simp: getCommandQueueGroupProperties_def)
qed (simp_all add: getCommandQueueGroupProperties_def)

text \<open>The groups of metrics, when they are loaded.\<close>

lemma metric_groups_listed:
  assumes "metricStreamerCapability hw" "metricsLoaded d" "length (metricGroups d) < 2 ^ 32"
  shows "enumeration (\<lambda>n. metricGroupGet hw d (Some n) True) [0..<length (metricGroups d)]"
proof
  let ?l = "length (metricGroups d)"
  have cnt_l: "unat (of_nat ?l :: u32) = ?l" using assms(3) by (simp add: unat_of_nat take_bit_nat_eq_self)
  show "metricGroupGet hw d (Some 0) True = Inr (ZE_RESULT_SUCCESS, of_nat (length [0..<?l]), [])"
    by (simp add: metricGroupGet_def assms(1,2) safe_count[OF assms(3)] Let_def)
  fix n :: u32 assume n: "n \<noteq> 0"
  show "metricGroupGet hw d (Some n) True = Inr (ZE_RESULT_SUCCESS, min n (of_nat (length [0..<?l])), take (unat n) [0..<?l])"
  proof (cases "unat n > ?l")
    case True
    then have "of_nat ?l \<le> n" using cnt_l by (simp add: word_le_nat_alt)
    then show ?thesis using True n cnt_l
      by (simp add: metricGroupGet_def assms(1,2) safe_count[OF assms(3)] Let_def min_absorb2)
  next
    case False
    then have "n \<le> of_nat ?l" using cnt_l by (simp add: word_le_nat_alt)
    then show ?thesis using False n
      by (simp add: metricGroupGet_def assms(1,2) Let_def min_absorb1 take_upt)
  qed
qed (use assms(3) in simp)

end
