(* ===== verification/L0_Driver.thy ===== *)
theory L0_Driver
  imports L0_Device Compiler Resource_Cleaner
begin

text \<open>
  \<open>Driver\<close> and \<open>DriverHandle\<close> (\<open>umd/level_zero_driver/source/driver.cpp\<close>, \<open>driver_handle.cpp\<close>), and
  the search for devices (\<open>umd/vpu_driver/source/os_interface/vpu_device_factory.cpp\<close>). The state is
  the only instance of \<open>Driver\<close>, with the world and the compiler library that its first
  initialisation changes. Logging is output; the environment of the process is a function. A call may
  not return (\<open>None\<close>).
\<close>

section \<open>Devices\<close>

definition devPrefix :: string where "devPrefix = ''/dev/accel/accel''"

text \<open>\<open>VPU::DeviceFactory::createDevices\<close>: \<open>vec\<close> is the buffer for the metrics of each device.\<close>

fun find_devices ::
  "'k os_interface \<Rightarrow> bool \<Rightarrow> (nat \<Rightarrow> u64) \<Rightarrow> nat list \<Rightarrow> 'k world \<Rightarrow> (vpu_node list \<times> 'k world) option" where
  "find_devices os enableMetrics vec [] w = Some ([], w)"
| "find_devices os enableMetrics vec (minor # minors) w =
     (case device_init os (devPrefix @ to_string minor) enableMetrics (vec minor) w of
        None \<Rightarrow> None
      | Some (None, w1) \<Rightarrow> find_devices os enableMetrics vec minors w1
      | Some (Some v, w1) \<Rightarrow>
          map_option (\<lambda>(vs, w2). ((v, devPrefix @ to_string minor) # vs, w2))
            (find_devices os enableMetrics vec minors w1))"

definition createDevices ::
  "'k os_interface \<Rightarrow> bool \<Rightarrow> (nat \<Rightarrow> u64) \<Rightarrow> 'k world \<Rightarrow> (vpu_node list \<times> 'k world) option" where
  "createDevices os enableMetrics vec w = find_devices os enableMetrics vec [0..<64] w"

record l0_device =
  ld_node :: vpu_node
  ld_metrics :: metric_device

record driver_handle =
  dh_devices :: "l0_device list"
  numDevices :: u32

text \<open>\<open>Device::Device\<close> for each device; the state of the compiler library goes through all of them.\<close>

fun new_devices :: "('c, 'p, 'q) vcl \<Rightarrow> bool \<Rightarrow> vpu_node list \<Rightarrow> compiler_state \<Rightarrow> l0_device list \<times> compiler_state" where
  "new_devices vcl metrics_on [] cs = ([], cs)"
| "new_devices vcl metrics_on (n # ns) cs =
     (let d = \<lparr>ld_node = n, ld_metrics = new_metric_device metrics_on (Some (fst n))\<rparr>;
          cs1 = snd (compilerInit vcl (dev_hwInfo (fst n)) cs)
      in case new_devices vcl metrics_on ns cs1 of (ds, cs2) \<Rightarrow> (d # ds, cs2))"

text \<open>\<open>DriverHandle::create\<close> and its constructor; the inner \<open>None\<close> is the null pointer.\<close>

definition DriverHandle_create ::
  "('c, 'p, 'q) vcl \<Rightarrow> bool \<Rightarrow> vpu_node list \<Rightarrow> compiler_state \<Rightarrow> (exn + driver_handle option) \<times> compiler_state" where
  "DriverHandle_create vcl metrics_on ns cs =
     (if ns = [] then (Inr None, cs)
      else (case new_devices vcl metrics_on ns cs of
              (ds, cs1) \<Rightarrow>
                (map_sum id (\<lambda>n. Some \<lparr>dh_devices = ds, numDevices = n\<rparr>) (safe_cast_u32 (of_nat (length ds))), cs1)))"

section \<open>The driver\<close>

record env_variables =
  affinityMask :: string
  env_metrics :: bool
  pciIdDeviceOrder :: bool
  sharedForceDeviceAlloc :: bool
  extensionValidation :: bool

record 'k driver =
  envVariables :: env_variables
  pGlobalDriverHandle :: "driver_handle option"
  osInfc :: "'k os_interface option"
  initStatus :: ze_result
  initDriverOnce :: bool
  drv_diskCache :: "disk_cache option"
  drv_compiler :: compiler_state
  drv_world :: "'k world"

definition new_driver :: "compiler_state \<Rightarrow> 'k world \<Rightarrow> 'k driver" where
  "new_driver cs w = \<lparr>envVariables = \<lparr>affinityMask = [], env_metrics = False, pciIdDeviceOrder = False,
       sharedForceDeviceAlloc = False, extensionValidation = False\<rparr>,
     pGlobalDriverHandle = None, osInfc = None, initStatus = ZE_RESULT_ERROR_UNINITIALIZED,
     initDriverOnce = False, drv_diskCache = None, drv_compiler = cs, drv_world = w\<rparr>"

text \<open>The environment: a flag is set when it is there, is not empty and does not start with a zero.\<close>

definition env_flag :: "string option \<Rightarrow> bool" where
  "env_flag env = (case env of None \<Rightarrow> False | Some [] \<Rightarrow> False | Some (ch # s) \<Rightarrow> ch \<noteq> CHR ''0'')"

definition initializeEnvVariables :: "(string \<Rightarrow> string option) \<Rightarrow> env_variables \<Rightarrow> env_variables" where
  "initializeEnvVariables getenv ev =
     (let ev1 = ev\<lparr>affinityMask := (case getenv ''ZE_AFFINITY_MASK'' of None \<Rightarrow> [] | Some s \<Rightarrow> s),
        env_metrics := env_flag (getenv ''ZET_ENABLE_METRICS''),
        pciIdDeviceOrder := env_flag (getenv ''ZE_ENABLE_PCI_ID_DEVICE_ORDER''),
        sharedForceDeviceAlloc := env_flag (getenv ''ZE_SHARED_FORCE_DEVICE_ALLOC'')\<rparr>
      in if env_flag (getenv ''ZE_ENABLE_VALIDATION_LAYER'')
         then ev1\<lparr>extensionValidation := env_flag (getenv ''ZE_ENABLE_PARAMETER_VALIDATION'')\<rparr> else ev1)"

text \<open>\<open>VPU::getOsInstance\<close>: the null device, where it is built in, or the real interface.\<close>

definition getOsInstance ::
  "(string \<Rightarrow> string option) \<Rightarrow> 'k os_interface option \<Rightarrow> 'k os_interface \<Rightarrow> 'k os_interface option" where
  "getOsInstance getenv nullOs realOs =
     (if getenv ''ZE_INTEL_NPU_PLATFORM_OVERRIDE'' \<noteq> None then nullOs else Some realOs)"

text \<open>
  What an initialisation meets: the environment, the interfaces, the compiler library, the working
  directory and whether the directory of the cache can be made, and the buffers for the metrics.
\<close>

record ('k, 'c, 'p, 'q) init_env =
  ie_getenv :: "string \<Rightarrow> string option"
  ie_nullOs :: "'k os_interface option"
  ie_realOs :: "'k os_interface"
  ie_vcl :: "('c, 'p, 'q) vcl"
  ie_cwd :: string
  ie_mkdir :: "string \<Rightarrow> bool"
  ie_vec :: "nat \<Rightarrow> u64"

text \<open>The function that is called once; an exception would leave it to the next call.\<close>

definition driver_init_body :: "('k, 'c, 'p, 'q) init_env \<Rightarrow> 'k driver \<Rightarrow> ((exn + unit) \<times> 'k driver) option" where
  "driver_init_body ie d =
     (let ev = initializeEnvVariables (ie_getenv ie) (envVariables d); d1 = d\<lparr>envVariables := ev\<rparr>;
          oi = (case osInfc d of None \<Rightarrow> getOsInstance (ie_getenv ie) (ie_nullOs ie) (ie_realOs ie) | Some os \<Rightarrow> Some os);
          d2 = d1\<lparr>osInfc := oi\<rparr>
      in case oi of
           None \<Rightarrow> Some (Inr (), d2)
         | Some os \<Rightarrow>
             let d3 = d2\<lparr>drv_diskCache := Some (new_disk_cache (ie_getenv ie) (ie_cwd ie) (ie_mkdir ie))\<rparr>
             in case createDevices os (env_metrics ev) (ie_vec ie) (drv_world d) of
                  None \<Rightarrow> None
                | Some (ns, w) \<Rightarrow>
                    let d4 = d3\<lparr>drv_world := w\<rparr> in
                    if ns = [] then Some (Inr (), d4)
                    else (case DriverHandle_create (ie_vcl ie) (env_metrics ev) ns (drv_compiler d) of
                            (Inl e, cs) \<Rightarrow> Some (Inl e, d4\<lparr>drv_compiler := cs\<rparr>)
                          | (Inr None, cs) \<Rightarrow> Some (Inr (), d4\<lparr>drv_compiler := cs\<rparr>)
                          | (Inr (Some h), cs) \<Rightarrow>
                              Some (Inr (), d4\<lparr>drv_compiler := cs, pGlobalDriverHandle := Some h,
                                initStatus := ZE_RESULT_SUCCESS\<rparr>)))"

definition driverInit :: "('k, 'c, 'p, 'q) init_env \<Rightarrow> 'k driver \<Rightarrow> ((exn + unit) \<times> 'k driver) option" where
  "driverInit ie d =
     (if initDriverOnce d then Some (Inr (), d)
      else map_option (\<lambda>(x, d'). (x, case x of Inl e \<Rightarrow> d' | Inr u \<Rightarrow> d'\<lparr>initDriverOnce := True\<rparr>)) (driver_init_body ie d))"

definition ZE_INIT_FLAG_VPU_ONLY :: u32 where "ZE_INIT_FLAG_VPU_ONLY = 2"

definition L0_init :: "('k, 'c, 'p, 'q) init_env \<Rightarrow> u32 \<Rightarrow> 'k driver \<Rightarrow> ((exn + ze_result) \<times> 'k driver) option" where
  "L0_init ie flags d =
     (if flags \<noteq> 0 \<and> flags AND ZE_INIT_FLAG_VPU_ONLY = 0 then Some (Inr ZE_RESULT_ERROR_UNINITIALIZED, d)
      else map_option (\<lambda>(x, d'). (map_sum id (\<lambda>u. initStatus d') x, d')) (driverInit ie d))"

text \<open>The handles that are stored: the one driver.\<close>

definition driverHandleGet ::
  "'k driver \<Rightarrow> u32 option \<Rightarrow> bool \<Rightarrow> exn + ze_result \<times> u32 \<times> driver_handle option list" where
  "driverHandleGet d pCount phDriverHandles =
     Inr (if initStatus d \<noteq> ZE_RESULT_SUCCESS then (ZE_RESULT_ERROR_UNINITIALIZED, 0, [])
      else (case pCount of None \<Rightarrow> (ZE_RESULT_ERROR_INVALID_NULL_POINTER, 0, [])
       | Some n \<Rightarrow>
           if n = 0 then (ZE_RESULT_SUCCESS, 1, [])
           else if phDriverHandles then (ZE_RESULT_SUCCESS, 1, [pGlobalDriverHandle d])
           else (ZE_RESULT_ERROR_INVALID_NULL_POINTER, n, [])))"

definition initDrivers ::
  "('k, 'c, 'p, 'q) init_env \<Rightarrow> u32 option \<Rightarrow> bool \<Rightarrow> u32 option \<Rightarrow> 'k driver
     \<Rightarrow> ((exn + ze_result \<times> u32 \<times> driver_handle option list) \<times> 'k driver) option" where
  "initDrivers ie pCount phDrivers desc d =
     (case desc of None \<Rightarrow> Some (Inr (ZE_RESULT_ERROR_INVALID_NULL_POINTER, 0, []), d)
      | Some flags \<Rightarrow>
          (case L0_init ie flags d of
             None \<Rightarrow> None
           | Some (Inl e, d1) \<Rightarrow> Some (Inl e, d1)
           | Some (Inr r, d1) \<Rightarrow>
               if r \<noteq> ZE_RESULT_SUCCESS then Some (Inr (r, 0, []), d1)
               else Some (driverHandleGet d1 pCount phDrivers, d1)))"

section \<open>The handle of the driver\<close>

definition getDevice :: "driver_handle \<Rightarrow> u32 option \<Rightarrow> bool \<Rightarrow> exn + ze_result \<times> u32 \<times> l0_device list" where
  "getDevice h pCount phDevices =
     Inr (case pCount of None \<Rightarrow> (ZE_RESULT_ERROR_INVALID_NULL_POINTER, 0, [])
      | Some n \<Rightarrow>
          if n = 0 then (ZE_RESULT_SUCCESS, numDevices h, [])
          else let k = (if n > numDevices h then numDevices h else n) in
               if \<not> phDevices then (ZE_RESULT_ERROR_INVALID_NULL_POINTER, k, [])
               else (ZE_RESULT_SUCCESS, k, map ((!) (dh_devices h)) [0..<unat k]))"

definition getPrimaryDevice :: "driver_handle \<Rightarrow> l0_device" where
  "getPrimaryDevice h = dh_devices h ! 0"

text \<open>The new context has the hardware of the primary device; \<open>n\<close> is the time of its creation.\<close>

definition createContext ::
  "'k os_interface \<Rightarrow> driver_handle \<Rightarrow> nat \<Rightarrow> bool \<Rightarrow> bool \<Rightarrow> 'k world
     \<Rightarrow> (ze_result \<times> 'k idle_context option) \<times> 'k world" where
  "createContext os h n desc phContext w =
     (if \<not> desc \<or> \<not> phContext then ((ZE_RESULT_ERROR_INVALID_NULL_POINTER, None), w)
      else (case ld_node (getPrimaryDevice h) of
              (v, devPath) \<Rightarrow>
                (case openDriverApi os devPath w of
                   (None, w1) \<Rightarrow> ((ZE_RESULT_ERROR_OUT_OF_DEVICE_MEMORY, None), w1)
                 | (Some fd, w1) \<Rightarrow>
                     ((ZE_RESULT_SUCCESS, Some (new_context (new_ctx (mk_drv_api os fd) w1 (dev_hwInfo v)) n)), w1))))"

definition Context_getStatus :: "'k os_interface \<Rightarrow> driver_handle \<Rightarrow> 'k world \<Rightarrow> (ze_result \<times> 'k world) option" where
  "Context_getStatus os h w =
     map_option (\<lambda>(b, w1). (if b then ZE_RESULT_SUCCESS else ZE_RESULT_ERROR_DEVICE_LOST, w1))
       (isConnected os (snd (ld_node (getPrimaryDevice h))) w)"

text \<open>Constants of headers that are not in the repository, and the versions of the extensions.\<close>

record ext_consts =
  API_VERSION_CURRENT :: u32
  DRIVER_VERSION :: u32
  GRAPH_EXT_NAME :: string
  GRAPH_EXT_VERSION_CURRENT :: u32
  PROFILING_DATA_EXT_NAME :: string
  PROFILING_DATA_EXT_VERSION :: u32
  MUTABLE_COMMAND_LIST_NAME :: string
  MUTABLE_COMMAND_LIST_VERSION_1_1 :: u32
  COMMAND_QUEUE_NPU_EXT_NAME :: string
  COMMAND_QUEUE_NPU_EXT_VERSION_1_0 :: u32
  COMMAND_QUEUE_NPU_EXT_VERSION_1_1 :: u32
  CONTEXT_NPU_EXT_NAME :: string
  CONTEXT_NPU_EXT_VERSION_CURRENT :: u32
  EXTERNAL_MEMORY_MAPPING_EXT_NAME :: string
  EXTERNAL_MEMMAP_SYSMEM_EXT_VERSION_1_0 :: u32
  GRAPH_EXT_VERSION_1 :: "nat \<Rightarrow> u32"

definition getApiVersion :: "ext_consts \<Rightarrow> bool \<Rightarrow> ze_result \<times> u32 option" where
  "getApiVersion k ver =
     (if \<not> ver then (ZE_RESULT_ERROR_INVALID_NULL_POINTER, None)
      else (ZE_RESULT_SUCCESS, Some (API_VERSION_CURRENT k)))"

text \<open>The version; the UUID is a constant.\<close>

definition DriverHandle_getProperties :: "ext_consts \<Rightarrow> bool \<Rightarrow> ze_result \<times> u32 option" where
  "DriverHandle_getProperties k pProperties =
     (if \<not> pProperties then (ZE_RESULT_ERROR_INVALID_NULL_POINTER, None)
      else (ZE_RESULT_SUCCESS, Some (DRIVER_VERSION k)))"

definition getIPCProperties :: "bool \<Rightarrow> ze_result \<times> u32 option" where
  "getIPCProperties pIPCProperties =
     (if \<not> pIPCProperties then (ZE_RESULT_ERROR_INVALID_NULL_POINTER, None) else (ZE_RESULT_SUCCESS, Some 1))"

definition DriverHandle_getMemAllocProperties :: "ze_result \<times> ze_memory_type" where
  "DriverHandle_getMemAllocProperties = (ZE_RESULT_SUCCESS, ZE_MEMORY_TYPE_UNKNOWN)"

abbreviation node_hw :: "l0_device \<Rightarrow> hw_info" where
  "node_hw d \<equiv> dev_hwInfo (fst (ld_node d))"

definition getSupportedCmdQueueExtVersion :: "ext_consts \<Rightarrow> l0_device list \<Rightarrow> u32" where
  "getSupportedCmdQueueExtVersion k ds =
     (if ds = [] then COMMAND_QUEUE_NPU_EXT_VERSION_1_0 k
      else if list_ex (\<lambda>d. \<not> cmdQueueCreationCapability (node_hw d)) ds then COMMAND_QUEUE_NPU_EXT_VERSION_1_0 k
      else COMMAND_QUEUE_NPU_EXT_VERSION_1_1 k)"

definition isUserPtrSupported :: "l0_device list \<Rightarrow> bool" where
  "isUserPtrSupported ds \<longleftrightarrow> list_all (\<lambda>d. userPtrCapability (node_hw d)) ds"

definition ZE_MAX_EXTENSION_NAME :: nat where "ZE_MAX_EXTENSION_NAME = 256"

definition extension :: "string \<Rightarrow> u32 \<Rightarrow> string \<times> u32" where
  "extension name ver = (take (ZE_MAX_EXTENSION_NAME - 1) name, ver)"

definition getSupportedExtensions :: "ext_consts \<Rightarrow> driver_handle \<Rightarrow> (string \<times> u32) list" where
  "getSupportedExtensions k h =
     [extension (GRAPH_EXT_NAME k) (GRAPH_EXT_VERSION_CURRENT k),
      extension (PROFILING_DATA_EXT_NAME k) (PROFILING_DATA_EXT_VERSION k),
      extension (MUTABLE_COMMAND_LIST_NAME k) (MUTABLE_COMMAND_LIST_VERSION_1_1 k),
      extension (COMMAND_QUEUE_NPU_EXT_NAME k) (getSupportedCmdQueueExtVersion k (dh_devices h)),
      extension (CONTEXT_NPU_EXT_NAME k) (CONTEXT_NPU_EXT_VERSION_CURRENT k)] @
     (if isUserPtrSupported (dh_devices h)
      then [extension (EXTERNAL_MEMORY_MAPPING_EXT_NAME k) (EXTERNAL_MEMMAP_SYSMEM_EXT_VERSION_1_0 k)] else []) @
     map (\<lambda>i. extension (''ZE_extension_graph_1_'' @ to_string i) (GRAPH_EXT_VERSION_1 k i)) [2..<9]"

end
