(* ===== verification/Api_Tables.thy ===== *)
theory Api_Tables
  imports L0_Base
begin

text \<open>
  The functions by which the loader gets the entry points (\<open>ze*Get*ProcAddrTable\<close> in the files of
  \<open>umd/level_zero_driver/api\<close>): each fills a table of function pointers, by the version that the loader
  asks for. A function pointer is the name of its function, \<open>None\<close> the null pointer; a table maps the
  names of its members to pointers, and a member that was not assigned keeps what it had. The numbers
  of the versions are constants of the headers of the loader and a parameter.
\<close>

section \<open>Tables\<close>

type_synonym fn_table = "string \<rightharpoonup> string option"

record api_versions =
  ZE_API_VERSION_1 :: "nat \<Rightarrow> u32"
  CURRENT_VERSION :: u32
  ZE_MAJOR_VERSION :: "u32 \<Rightarrow> u32"

text \<open>The members that a version brings, in the order of the assignments.\<close>

type_synonym version_members = "nat \<times> (string \<times> string option) list"

fun fill_table :: "api_versions \<Rightarrow> u32 \<Rightarrow> version_members list \<Rightarrow> fn_table \<Rightarrow> fn_table" where
  "fill_table av version [] t = t"
| "fill_table av version ((minor, ms) # gs) t =
     fill_table av version gs (if version \<ge> ZE_API_VERSION_1 av minor then foldl (\<lambda>t (m, p). t(m \<mapsto> p)) t ms else t)"

definition proc_addr_table ::
  "ze_result \<Rightarrow> version_members list \<Rightarrow> api_versions \<Rightarrow> u32 \<Rightarrow> fn_table option \<Rightarrow> ze_result \<times> fn_table option" where
  "proc_addr_table null_result gs av version pDdiTable =
     (case pDdiTable of None \<Rightarrow> (null_result, None)
      | Some t \<Rightarrow>
          if ZE_MAJOR_VERSION av (CURRENT_VERSION av) \<noteq> ZE_MAJOR_VERSION av version
          then (ZE_RESULT_ERROR_UNSUPPORTED_VERSION, Some t)
          else (ZE_RESULT_SUCCESS, Some (fill_table av version gs t)))"

type_synonym table_function = "api_versions \<Rightarrow> u32 \<Rightarrow> fn_table option \<Rightarrow> ze_result \<times> fn_table option"

section \<open>Tables of \<open>ze_cmdlist.cpp\<close>\<close>

definition zeGetCommandListProcAddrTable :: table_function where
  "zeGetCommandListProcAddrTable = proc_addr_table ZE_RESULT_ERROR_INVALID_ARGUMENT
     [(0, [
       (''pfnAppendBarrier'', Some ''zeCommandListAppendBarrier''),
       (''pfnAppendMemoryRangesBarrier'', Some ''zeCommandListAppendMemoryRangesBarrier''),
       (''pfnCreate'', Some ''zeCommandListCreate''),
       (''pfnCreateImmediate'', Some ''zeCommandListCreateImmediate''),
       (''pfnDestroy'', Some ''zeCommandListDestroy''), (''pfnClose'', Some ''zeCommandListClose''),
       (''pfnReset'', Some ''zeCommandListReset''),
       (''pfnAppendMemoryCopy'', Some ''zeCommandListAppendMemoryCopy''),
       (''pfnAppendMemoryCopyRegion'', Some ''zeCommandListAppendMemoryCopyRegion''),
       (''pfnAppendMemoryFill'', Some ''zeCommandListAppendMemoryFill''),
       (''pfnAppendImageCopy'', Some ''zeCommandListAppendImageCopy''),
       (''pfnAppendImageCopyRegion'', Some ''zeCommandListAppendImageCopyRegion''),
       (''pfnAppendImageCopyToMemory'', Some ''zeCommandListAppendImageCopyToMemory''),
       (''pfnAppendImageCopyFromMemory'', Some ''zeCommandListAppendImageCopyFromMemory''),
       (''pfnAppendMemoryPrefetch'', Some ''zeCommandListAppendMemoryPrefetch''),
       (''pfnAppendMemAdvise'', Some ''zeCommandListAppendMemAdvise''),
       (''pfnAppendSignalEvent'', Some ''zeCommandListAppendSignalEvent''),
       (''pfnAppendWaitOnEvents'', Some ''zeCommandListAppendWaitOnEvents''),
       (''pfnAppendEventReset'', Some ''zeCommandListAppendEventReset''),
       (''pfnAppendLaunchCooperativeKernel'', None), (''pfnAppendLaunchKernelIndirect'', None),
       (''pfnAppendLaunchMultipleKernelsIndirect'', None),
       (''pfnAppendWriteGlobalTimestamp'', Some ''zeCommandListAppendWriteGlobalTimestamp''),
       (''pfnAppendMemoryCopyFromContext'', Some ''zeCommandListAppendMemoryCopyFromContext''),
       (''pfnAppendQueryKernelTimestamps'', Some ''zeCommandListAppendQueryKernelTimestamps'')]),
      (6, [
       (''pfnHostSynchronize'', Some ''zeCommandListHostSynchronize'')]),
      (9, [
       (''pfnImmediateGetIndex'', Some ''zeCommandListImmediateGetIndex''),
       (''pfnIsImmediate'', Some ''zeCommandListIsImmediate'')])]"

definition zeGetCommandListExpProcAddrTable :: table_function where
  "zeGetCommandListExpProcAddrTable = proc_addr_table ZE_RESULT_ERROR_INVALID_ARGUMENT
     [(9, [
       (''pfnGetNextCommandIdExp'', Some ''zeCommandListGetNextCommandIdExp''),
       (''pfnUpdateMutableCommandsExp'', Some ''zeCommandListUpdateMutableCommandsExp'')])]"

section \<open>Tables of \<open>ze_cmdqueue.cpp\<close>\<close>

definition zeGetCommandQueueProcAddrTable :: table_function where
  "zeGetCommandQueueProcAddrTable = proc_addr_table ZE_RESULT_ERROR_INVALID_ARGUMENT
     [(0, [
       (''pfnCreate'', Some ''zeCommandQueueCreate''),
       (''pfnDestroy'', Some ''zeCommandQueueDestroy''),
       (''pfnExecuteCommandLists'', Some ''zeCommandQueueExecuteCommandLists''),
       (''pfnSynchronize'', Some ''zeCommandQueueSynchronize'')])]"

section \<open>Tables of \<open>ze_context.cpp\<close>\<close>

definition zeGetContextProcAddrTable :: table_function where
  "zeGetContextProcAddrTable = proc_addr_table ZE_RESULT_ERROR_INVALID_ARGUMENT
     [(0, [
       (''pfnCreate'', Some ''zeContextCreate''), (''pfnDestroy'', Some ''zeContextDestroy''),
       (''pfnGetStatus'', Some ''zeContextGetStatus''),
       (''pfnSystemBarrier'', Some ''zeContextSystemBarrier''),
       (''pfnMakeMemoryResident'', Some ''zeContextMakeMemoryResident''),
       (''pfnEvictMemory'', Some ''zeContextEvictMemory''),
       (''pfnMakeImageResident'', Some ''zeContextMakeImageResident''),
       (''pfnEvictImage'', Some ''zeContextEvictImage'')])]"

definition zeGetPhysicalMemProcAddrTable :: table_function where
  "zeGetPhysicalMemProcAddrTable = proc_addr_table ZE_RESULT_ERROR_INVALID_ARGUMENT
     [(0, [
       (''pfnCreate'', Some ''zePhysicalMemCreate''), (''pfnDestroy'', Some ''zePhysicalMemDestroy'')])]"

definition zeGetVirtualMemProcAddrTable :: table_function where
  "zeGetVirtualMemProcAddrTable = proc_addr_table ZE_RESULT_ERROR_INVALID_ARGUMENT
     [(0, [
       (''pfnReserve'', Some ''zeVirtualMemReserve''), (''pfnFree'', Some ''zeVirtualMemFree''),
       (''pfnQueryPageSize'', Some ''zeVirtualMemQueryPageSize''),
       (''pfnMap'', Some ''zeVirtualMemMap''), (''pfnUnmap'', Some ''zeVirtualMemUnmap''),
       (''pfnSetAccessAttribute'', Some ''zeVirtualMemSetAccessAttribute''),
       (''pfnGetAccessAttribute'', Some ''zeVirtualMemGetAccessAttribute'')])]"

section \<open>Tables of \<open>ze_device.cpp\<close>\<close>

definition zeGetDeviceProcAddrTable :: table_function where
  "zeGetDeviceProcAddrTable = proc_addr_table ZE_RESULT_ERROR_INVALID_ARGUMENT
     [(0, [
       (''pfnGet'', Some ''zeDeviceGet''),
       (''pfnGetCommandQueueGroupProperties'', Some ''zeDeviceGetCommandQueueGroupProperties''),
       (''pfnGetSubDevices'', Some ''zeDeviceGetSubDevices''),
       (''pfnGetProperties'', Some ''zeDeviceGetProperties''),
       (''pfnGetComputeProperties'', Some ''zeDeviceGetComputeProperties''),
       (''pfnGetModuleProperties'', Some ''zeDeviceGetModuleProperties''),
       (''pfnGetMemoryProperties'', Some ''zeDeviceGetMemoryProperties''),
       (''pfnGetMemoryAccessProperties'', Some ''zeDeviceGetMemoryAccessProperties''),
       (''pfnGetCacheProperties'', Some ''zeDeviceGetCacheProperties''),
       (''pfnGetImageProperties'', Some ''zeDeviceGetImageProperties''),
       (''pfnGetP2PProperties'', Some ''zeDeviceGetP2PProperties''),
       (''pfnCanAccessPeer'', Some ''zeDeviceCanAccessPeer''),
       (''pfnGetStatus'', Some ''zeDeviceGetStatus''),
       (''pfnGetExternalMemoryProperties'', Some ''zeDeviceGetExternalMemoryProperties'')]),
      (1, [
       (''pfnGetGlobalTimestamps'', Some ''zeDeviceGetGlobalTimestamps'')]),
      (3, [
       (''pfnPciGetPropertiesExt'', Some ''zeDevicePciGetPropertiesExt'')])]"

section \<open>Tables of \<open>ze_driver.cpp\<close>\<close>

definition zeGetGlobalProcAddrTable :: table_function where
  "zeGetGlobalProcAddrTable = proc_addr_table ZE_RESULT_ERROR_INVALID_ARGUMENT
     [(0, [
       (''pfnInit'', Some ''zeInit'')]),
      (10, [
       (''pfnInitDrivers'', Some ''zeInitDrivers'')])]"

definition zeGetDriverProcAddrTable :: table_function where
  "zeGetDriverProcAddrTable = proc_addr_table ZE_RESULT_ERROR_INVALID_ARGUMENT
     [(0, [
       (''pfnGet'', Some ''zeDriverGet''), (''pfnGetApiVersion'', Some ''zeDriverGetApiVersion''),
       (''pfnGetProperties'', Some ''zeDriverGetProperties''),
       (''pfnGetIpcProperties'', Some ''zeDriverGetIpcProperties''),
       (''pfnGetExtensionProperties'', Some ''zeDriverGetExtensionProperties'')]),
      (1, [
       (''pfnGetExtensionFunctionAddress'', Some ''zeDriverGetExtensionFunctionAddress'')])]"

section \<open>Tables of \<open>ze_event.cpp\<close>\<close>

definition zeGetEventPoolProcAddrTable :: table_function where
  "zeGetEventPoolProcAddrTable = proc_addr_table ZE_RESULT_ERROR_INVALID_ARGUMENT
     [(0, [
       (''pfnCreate'', Some ''zeEventPoolCreate''), (''pfnDestroy'', Some ''zeEventPoolDestroy''),
       (''pfnGetIpcHandle'', Some ''zeEventPoolGetIpcHandle''),
       (''pfnOpenIpcHandle'', Some ''zeEventPoolOpenIpcHandle''),
       (''pfnCloseIpcHandle'', Some ''zeEventPoolCloseIpcHandle'')])]"

definition zeGetEventProcAddrTable :: table_function where
  "zeGetEventProcAddrTable = proc_addr_table ZE_RESULT_ERROR_INVALID_ARGUMENT
     [(0, [
       (''pfnCreate'', Some ''zeEventCreate''), (''pfnDestroy'', Some ''zeEventDestroy''),
       (''pfnHostSignal'', Some ''zeEventHostSignal''),
       (''pfnHostSynchronize'', Some ''zeEventHostSynchronize''),
       (''pfnQueryStatus'', Some ''zeEventQueryStatus''),
       (''pfnHostReset'', Some ''zeEventHostReset''),
       (''pfnQueryKernelTimestamp'', Some ''zeEventQueryKernelTimestamp'')])]"

section \<open>Tables of \<open>ze_fence.cpp\<close>\<close>

definition zeGetFenceProcAddrTable :: table_function where
  "zeGetFenceProcAddrTable = proc_addr_table ZE_RESULT_ERROR_INVALID_ARGUMENT
     [(0, [
       (''pfnCreate'', Some ''zeFenceCreate''), (''pfnDestroy'', Some ''zeFenceDestroy''),
       (''pfnHostSynchronize'', Some ''zeFenceHostSynchronize''),
       (''pfnQueryStatus'', Some ''zeFenceQueryStatus''), (''pfnReset'', Some ''zeFenceReset'')])]"

section \<open>Tables of \<open>ze_memory.cpp\<close>\<close>

definition zeGetMemProcAddrTable :: table_function where
  "zeGetMemProcAddrTable = proc_addr_table ZE_RESULT_ERROR_INVALID_ARGUMENT
     [(0, [
       (''pfnAllocShared'', Some ''zeMemAllocShared''),
       (''pfnAllocDevice'', Some ''zeMemAllocDevice''), (''pfnAllocHost'', Some ''zeMemAllocHost''),
       (''pfnFree'', Some ''zeMemFree''),
       (''pfnGetAllocProperties'', Some ''zeMemGetAllocProperties''),
       (''pfnGetAddressRange'', Some ''zeMemGetAddressRange''),
       (''pfnGetIpcHandle'', Some ''zeMemGetIpcHandle''),
       (''pfnOpenIpcHandle'', Some ''zeMemOpenIpcHandle''),
       (''pfnCloseIpcHandle'', Some ''zeMemCloseIpcHandle'')])]"

section \<open>Tables of \<open>ze_misc.cpp\<close>\<close>

definition zeGetImageProcAddrTable :: table_function where
  "zeGetImageProcAddrTable = proc_addr_table ZE_RESULT_ERROR_INVALID_ARGUMENT
     [(0, [
       (''pfnGetProperties'', None), (''pfnCreate'', None), (''pfnDestroy'', None)])]"

definition zeGetModuleProcAddrTable :: table_function where
  "zeGetModuleProcAddrTable = proc_addr_table ZE_RESULT_ERROR_INVALID_ARGUMENT
     [(0, [
       (''pfnCreate'', None), (''pfnDestroy'', None), (''pfnDynamicLink'', None),
       (''pfnGetNativeBinary'', None), (''pfnGetGlobalPointer'', None), (''pfnGetKernelNames'', None),
       (''pfnGetFunctionPointer'', None), (''pfnGetProperties'', None)])]"

definition zeGetModuleBuildLogProcAddrTable :: table_function where
  "zeGetModuleBuildLogProcAddrTable = proc_addr_table ZE_RESULT_ERROR_INVALID_ARGUMENT
     [(0, [
       (''pfnDestroy'', None), (''pfnGetString'', None)])]"

definition zeGetKernelProcAddrTable :: table_function where
  "zeGetKernelProcAddrTable = proc_addr_table ZE_RESULT_ERROR_INVALID_ARGUMENT
     [(0, [
       (''pfnCreate'', None), (''pfnDestroy'', None), (''pfnSetGroupSize'', None),
       (''pfnSuggestGroupSize'', None), (''pfnSuggestMaxCooperativeGroupCount'', None),
       (''pfnSetArgumentValue'', None), (''pfnSetIndirectAccess'', None),
       (''pfnGetIndirectAccess'', None), (''pfnGetSourceAttributes'', None),
       (''pfnGetProperties'', None), (''pfnSetCacheConfig'', None), (''pfnGetName'', None)])]"

definition zeGetSamplerProcAddrTable :: table_function where
  "zeGetSamplerProcAddrTable = proc_addr_table ZE_RESULT_ERROR_INVALID_ARGUMENT
     [(0, [
       (''pfnCreate'', None), (''pfnDestroy'', None)])]"

definition zeGetRTASBuilderExpProcAddrTable :: table_function where
  "zeGetRTASBuilderExpProcAddrTable = proc_addr_table ZE_RESULT_ERROR_INVALID_ARGUMENT
     [(7, [
       (''pfnCreateExp'', None), (''pfnGetBuildPropertiesExp'', None), (''pfnBuildExp'', None),
       (''pfnDestroyExp'', None)])]"

definition zeGetRTASBuilderProcAddrTable :: table_function where
  "zeGetRTASBuilderProcAddrTable = proc_addr_table ZE_RESULT_ERROR_INVALID_ARGUMENT
     [(13, [
       (''pfnCreateExt'', None), (''pfnGetBuildPropertiesExt'', None), (''pfnBuildExt'', None),
       (''pfnCommandListAppendCopyExt'', None), (''pfnDestroyExt'', None)])]"

definition zeGetRTASParallelOperationExpProcAddrTable :: table_function where
  "zeGetRTASParallelOperationExpProcAddrTable = proc_addr_table ZE_RESULT_ERROR_INVALID_ARGUMENT
     [(7, [
       (''pfnCreateExp'', None), (''pfnGetPropertiesExp'', None), (''pfnJoinExp'', None),
       (''pfnDestroyExp'', None)])]"

definition zeGetRTASParallelOperationProcAddrTable :: table_function where
  "zeGetRTASParallelOperationProcAddrTable = proc_addr_table ZE_RESULT_ERROR_INVALID_ARGUMENT
     [(13, [
       (''pfnCreateExt'', None), (''pfnGetPropertiesExt'', None), (''pfnJoinExt'', None),
       (''pfnDestroyExt'', None)])]"

definition zeGetDriverExpProcAddrTable :: table_function where
  "zeGetDriverExpProcAddrTable = proc_addr_table ZE_RESULT_ERROR_INVALID_ARGUMENT
     [(7, [
       (''pfnRTASFormatCompatibilityCheckExp'', None)])]"

definition zeGetDeviceExpProcAddrTable :: table_function where
  "zeGetDeviceExpProcAddrTable = proc_addr_table ZE_RESULT_ERROR_INVALID_ARGUMENT
     [(4, [
       (''pfnGetFabricVertexExp'', None)])]"

definition zeGetEventExpProcAddrTable :: table_function where
  "zeGetEventExpProcAddrTable = proc_addr_table ZE_RESULT_ERROR_INVALID_ARGUMENT
     [(2, [
       (''pfnQueryTimestampsExp'', None)])]"

definition zeGetImageExpProcAddrTable :: table_function where
  "zeGetImageExpProcAddrTable = proc_addr_table ZE_RESULT_ERROR_INVALID_ARGUMENT
     [(2, [
       (''pfnGetMemoryPropertiesExp'', None), (''pfnViewCreateExp'', None)]),
      (9, [
       (''pfnGetDeviceOffsetExp'', None)])]"

definition zeGetKernelExpProcAddrTable :: table_function where
  "zeGetKernelExpProcAddrTable = proc_addr_table ZE_RESULT_ERROR_INVALID_ARGUMENT
     [(1, [
       (''pfnSetGlobalOffsetExp'', None)]),
      (2, [
       (''pfnSchedulingHintExp'', None)])]"

definition zeGetMemExpProcAddrTable :: table_function where
  "zeGetMemExpProcAddrTable = proc_addr_table ZE_RESULT_ERROR_INVALID_ARGUMENT
     [(6, [
       (''pfnGetIpcHandleFromFileDescriptorExp'', None),
       (''pfnGetFileDescriptorFromIpcHandleExp'', None)]),
      (7, [
       (''pfnSetAtomicAccessAttributeExp'', None), (''pfnGetAtomicAccessAttributeExp'', None)])]"

definition zeGetFabricEdgeExpProcAddrTable :: table_function where
  "zeGetFabricEdgeExpProcAddrTable = proc_addr_table ZE_RESULT_ERROR_INVALID_ARGUMENT
     [(4, [
       (''pfnGetExp'', None), (''pfnGetVerticesExp'', None), (''pfnGetPropertiesExp'', None)])]"

definition zeGetFabricVertexExpProcAddrTable :: table_function where
  "zeGetFabricVertexExpProcAddrTable = proc_addr_table ZE_RESULT_ERROR_INVALID_ARGUMENT
     [(4, [
       (''pfnGetExp'', None), (''pfnGetSubVerticesExp'', None), (''pfnGetPropertiesExp'', None),
       (''pfnGetDeviceExp'', None)])]"

section \<open>Tables of \<open>zes_device.cpp\<close>\<close>

definition zesGetDeviceProcAddrTable :: table_function where
  "zesGetDeviceProcAddrTable = proc_addr_table ZE_RESULT_ERROR_INVALID_NULL_POINTER
     [(0, [
       (''pfnGetProperties'', Some ''zesDeviceGetProperties''), (''pfnGetState'', None),
       (''pfnReset'', None), (''pfnProcessesGetState'', None), (''pfnPciGetProperties'', None),
       (''pfnPciGetState'', None), (''pfnPciGetBars'', None), (''pfnPciGetStats'', None),
       (''pfnEnumDiagnosticTestSuites'', None),
       (''pfnEnumEngineGroups'', Some ''zesDeviceEnumEngineGroups''), (''pfnEventRegister'', None),
       (''pfnEnumFabricPorts'', None), (''pfnEnumFans'', None), (''pfnEnumFirmwares'', None),
       (''pfnEnumFrequencyDomains'', None), (''pfnEnumLeds'', None), (''pfnEnumMemoryModules'', None),
       (''pfnEnumPerformanceFactorDomains'', None), (''pfnEnumPowerDomains'', None),
       (''pfnEnumPsus'', None), (''pfnEnumRasErrorSets'', None), (''pfnEnumSchedulers'', None),
       (''pfnEnumStandbyDomains'', None), (''pfnEnumTemperatureSensors'', None)]),
      (5, [
       (''pfnGet'', Some ''zesDeviceGet'')])]"

section \<open>Tables of \<open>zes_driver.cpp\<close>\<close>

definition zesGetGlobalProcAddrTable :: table_function where
  "zesGetGlobalProcAddrTable = proc_addr_table ZE_RESULT_ERROR_INVALID_ARGUMENT
     [(5, [
       (''pfnInit'', Some ''zesInit'')])]"

definition zesGetDriverProcAddrTable :: table_function where
  "zesGetDriverProcAddrTable = proc_addr_table ZE_RESULT_ERROR_INVALID_NULL_POINTER
     [(0, [
       (''pfnEventListen'', None)]),
      (1, [
       (''pfnEventListenEx'', None)]),
      (5, [
       (''pfnGet'', Some ''zesDriverGet'')])]"

section \<open>Tables of \<open>zes_engine.cpp\<close>\<close>

definition zesGetEngineProcAddrTable :: table_function where
  "zesGetEngineProcAddrTable = proc_addr_table ZE_RESULT_ERROR_INVALID_NULL_POINTER
     [(0, [
       (''pfnGetProperties'', Some ''zesEngineGetProperties'')]),
      (7, [
       (''pfnGetActivity'', Some ''zesEngineGetActivity''), (''pfnGetActivityExt'', None)])]"

section \<open>Tables of \<open>zes_misc.cpp\<close>\<close>

definition zesGetDiagnosticsProcAddrTable :: table_function where
  "zesGetDiagnosticsProcAddrTable = proc_addr_table ZE_RESULT_ERROR_INVALID_NULL_POINTER
     [(0, [
       (''pfnGetProperties'', None), (''pfnGetTests'', None), (''pfnRunTests'', None)])]"

definition zesGetFabricPortProcAddrTable :: table_function where
  "zesGetFabricPortProcAddrTable = proc_addr_table ZE_RESULT_ERROR_INVALID_NULL_POINTER
     [(0, [
       (''pfnGetProperties'', None), (''pfnGetLinkType'', None), (''pfnGetConfig'', None),
       (''pfnSetConfig'', None), (''pfnGetState'', None), (''pfnGetThroughput'', None)])]"

definition zesGetFanProcAddrTable :: table_function where
  "zesGetFanProcAddrTable = proc_addr_table ZE_RESULT_ERROR_INVALID_NULL_POINTER
     [(0, [
       (''pfnGetProperties'', None), (''pfnGetConfig'', None), (''pfnSetDefaultMode'', None),
       (''pfnSetFixedSpeedMode'', None), (''pfnSetSpeedTableMode'', None), (''pfnGetState'', None)])]"

definition zesGetFirmwareProcAddrTable :: table_function where
  "zesGetFirmwareProcAddrTable = proc_addr_table ZE_RESULT_ERROR_INVALID_NULL_POINTER
     [(0, [
       (''pfnGetProperties'', None), (''pfnFlash'', None)])]"

definition zesGetFrequencyProcAddrTable :: table_function where
  "zesGetFrequencyProcAddrTable = proc_addr_table ZE_RESULT_ERROR_INVALID_NULL_POINTER
     [(0, [
       (''pfnGetProperties'', None), (''pfnGetAvailableClocks'', None), (''pfnGetRange'', None),
       (''pfnSetRange'', None), (''pfnGetState'', None), (''pfnGetThrottleTime'', None),
       (''pfnOcGetCapabilities'', None), (''pfnOcGetFrequencyTarget'', None),
       (''pfnOcSetFrequencyTarget'', None), (''pfnOcGetVoltageTarget'', None),
       (''pfnOcSetVoltageTarget'', None), (''pfnOcSetMode'', None), (''pfnOcGetMode'', None),
       (''pfnOcGetIccMax'', None), (''pfnOcSetIccMax'', None), (''pfnOcGetTjMax'', None),
       (''pfnOcSetTjMax'', None)])]"

definition zesGetLedProcAddrTable :: table_function where
  "zesGetLedProcAddrTable = proc_addr_table ZE_RESULT_ERROR_INVALID_NULL_POINTER
     [(0, [
       (''pfnGetProperties'', None), (''pfnGetState'', None), (''pfnSetState'', None),
       (''pfnSetColor'', None)])]"

definition zesGetMemoryProcAddrTable :: table_function where
  "zesGetMemoryProcAddrTable = proc_addr_table ZE_RESULT_ERROR_INVALID_NULL_POINTER
     [(0, [
       (''pfnGetProperties'', None), (''pfnGetState'', None), (''pfnGetBandwidth'', None)])]"

definition zesGetPerformanceFactorProcAddrTable :: table_function where
  "zesGetPerformanceFactorProcAddrTable = proc_addr_table ZE_RESULT_ERROR_INVALID_NULL_POINTER
     [(0, [
       (''pfnGetProperties'', None), (''pfnGetConfig'', None), (''pfnSetConfig'', None)])]"

definition zesGetPowerProcAddrTable :: table_function where
  "zesGetPowerProcAddrTable = proc_addr_table ZE_RESULT_ERROR_INVALID_NULL_POINTER
     [(0, [
       (''pfnGetProperties'', None), (''pfnGetEnergyCounter'', None), (''pfnGetLimits'', None),
       (''pfnSetLimits'', None), (''pfnGetEnergyThreshold'', None), (''pfnSetEnergyThreshold'', None)])]"

definition zesGetPsuProcAddrTable :: table_function where
  "zesGetPsuProcAddrTable = proc_addr_table ZE_RESULT_ERROR_INVALID_NULL_POINTER
     [(0, [
       (''pfnGetProperties'', None), (''pfnGetState'', None)])]"

definition zesGetRasProcAddrTable :: table_function where
  "zesGetRasProcAddrTable = proc_addr_table ZE_RESULT_ERROR_INVALID_NULL_POINTER
     [(0, [
       (''pfnGetProperties'', None), (''pfnGetConfig'', None), (''pfnSetConfig'', None),
       (''pfnGetState'', None)])]"

definition zesGetSchedulerProcAddrTable :: table_function where
  "zesGetSchedulerProcAddrTable = proc_addr_table ZE_RESULT_ERROR_INVALID_NULL_POINTER
     [(0, [
       (''pfnGetProperties'', None), (''pfnGetCurrentMode'', None),
       (''pfnGetTimeoutModeProperties'', None), (''pfnGetTimesliceModeProperties'', None),
       (''pfnSetTimeoutMode'', None), (''pfnSetTimesliceMode'', None), (''pfnSetExclusiveMode'', None),
       (''pfnSetComputeUnitDebugMode'', None)])]"

definition zesGetStandbyProcAddrTable :: table_function where
  "zesGetStandbyProcAddrTable = proc_addr_table ZE_RESULT_ERROR_INVALID_NULL_POINTER
     [(0, [
       (''pfnGetProperties'', None), (''pfnGetMode'', None), (''pfnSetMode'', None)])]"

definition zesGetTemperatureProcAddrTable :: table_function where
  "zesGetTemperatureProcAddrTable = proc_addr_table ZE_RESULT_ERROR_INVALID_NULL_POINTER
     [(0, [
       (''pfnGetProperties'', None), (''pfnGetConfig'', None), (''pfnSetConfig'', None),
       (''pfnGetState'', None)])]"

definition zesGetDeviceExpProcAddrTable :: table_function where
  "zesGetDeviceExpProcAddrTable = proc_addr_table ZE_RESULT_ERROR_INVALID_ARGUMENT
     [(9, [
       (''pfnGetSubDevicePropertiesExp'', None), (''pfnEnumActiveVFExp'', None)]),
      (11, [
       (''pfnEnumEnabledVFExp'', None)])]"

definition zesGetDriverExpProcAddrTable :: table_function where
  "zesGetDriverExpProcAddrTable = proc_addr_table ZE_RESULT_ERROR_INVALID_ARGUMENT
     [(9, [
       (''pfnGetDeviceByUuidExp'', None)])]"

definition zesGetFirmwareExpProcAddrTable :: table_function where
  "zesGetFirmwareExpProcAddrTable = proc_addr_table ZE_RESULT_ERROR_INVALID_ARGUMENT
     [(9, [
       (''pfnGetSecurityVersionExp'', None), (''pfnSetSecurityVersionExp'', None)])]"

definition zesGetRasExpProcAddrTable :: table_function where
  "zesGetRasExpProcAddrTable = proc_addr_table ZE_RESULT_ERROR_INVALID_ARGUMENT
     [(7, [
       (''pfnGetStateExp'', None), (''pfnClearStateExp'', None)])]"

definition zesGetVFManagementExpProcAddrTable :: table_function where
  "zesGetVFManagementExpProcAddrTable = proc_addr_table ZE_RESULT_ERROR_INVALID_ARGUMENT
     [(9, [
       (''pfnGetVFPropertiesExp'', None), (''pfnGetVFMemoryUtilizationExp'', None),
       (''pfnGetVFEngineUtilizationExp'', None), (''pfnSetVFTelemetryModeExp'', None),
       (''pfnSetVFTelemetrySamplingIntervalExp'', None)]),
      (11, [
       (''pfnGetVFCapabilitiesExp'', None), (''pfnGetVFMemoryUtilizationExp2'', None),
       (''pfnGetVFEngineUtilizationExp2'', None)])]"

definition zesGetOverclockProcAddrTable :: table_function where
  "zesGetOverclockProcAddrTable = proc_addr_table ZE_RESULT_ERROR_INVALID_ARGUMENT
     [(5, [
       (''pfnGetDomainProperties'', None), (''pfnGetDomainVFProperties'', None),
       (''pfnGetDomainControlProperties'', None), (''pfnGetControlCurrentValue'', None),
       (''pfnGetControlPendingValue'', None), (''pfnSetControlUserValue'', None),
       (''pfnGetControlState'', None), (''pfnGetVFPointValues'', None), (''pfnSetVFPointValues'', None)])]"

section \<open>Tables of \<open>zet_metric.cpp\<close>\<close>

definition zetGetContextProcAddrTable :: table_function where
  "zetGetContextProcAddrTable = proc_addr_table ZE_RESULT_ERROR_INVALID_NULL_POINTER
     [(0, [
       (''pfnActivateMetricGroups'', Some ''zetContextActivateMetricGroups'')])]"

definition zetGetCommandListExpProcAddrTable :: table_function where
  "zetGetCommandListExpProcAddrTable = proc_addr_table ZE_RESULT_ERROR_INVALID_NULL_POINTER
     [(13, [
       (''pfnAppendMarkerExp'', None)])]"

definition zetGetCommandListProcAddrTable :: table_function where
  "zetGetCommandListProcAddrTable = proc_addr_table ZE_RESULT_ERROR_INVALID_NULL_POINTER
     [(0, [
       (''pfnAppendMetricStreamerMarker'', Some ''zetCommandListAppendMetricStreamerMarker''),
       (''pfnAppendMetricQueryBegin'', Some ''zetCommandListAppendMetricQueryBegin''),
       (''pfnAppendMetricQueryEnd'', Some ''zetCommandListAppendMetricQueryEnd''),
       (''pfnAppendMetricMemoryBarrier'', Some ''zetCommandListAppendMetricMemoryBarrier'')])]"

definition zetGetMetricProcAddrTable :: table_function where
  "zetGetMetricProcAddrTable = proc_addr_table ZE_RESULT_ERROR_INVALID_NULL_POINTER
     [(0, [
       (''pfnGet'', Some ''zetMetricGet''), (''pfnGetProperties'', Some ''zetMetricGetProperties'')])]"

definition zetGetMetricGroupProcAddrTable :: table_function where
  "zetGetMetricGroupProcAddrTable = proc_addr_table ZE_RESULT_ERROR_INVALID_NULL_POINTER
     [(0, [
       (''pfnGet'', Some ''zetMetricGroupGet''),
       (''pfnGetProperties'', Some ''zetMetricGroupGetProperties''),
       (''pfnCalculateMetricValues'', Some ''zetMetricGroupCalculateMetricValues'')])]"

definition zetGetMetricQueryProcAddrTable :: table_function where
  "zetGetMetricQueryProcAddrTable = proc_addr_table ZE_RESULT_ERROR_INVALID_NULL_POINTER
     [(0, [
       (''pfnCreate'', Some ''zetMetricQueryCreate''),
       (''pfnDestroy'', Some ''zetMetricQueryDestroy''), (''pfnReset'', Some ''zetMetricQueryReset''),
       (''pfnGetData'', Some ''zetMetricQueryGetData'')])]"

definition zetGetMetricQueryPoolProcAddrTable :: table_function where
  "zetGetMetricQueryPoolProcAddrTable = proc_addr_table ZE_RESULT_ERROR_INVALID_NULL_POINTER
     [(0, [
       (''pfnCreate'', Some ''zetMetricQueryPoolCreate''),
       (''pfnDestroy'', Some ''zetMetricQueryPoolDestroy'')])]"

definition zetGetMetricStreamerProcAddrTable :: table_function where
  "zetGetMetricStreamerProcAddrTable = proc_addr_table ZE_RESULT_ERROR_INVALID_NULL_POINTER
     [(0, [
       (''pfnOpen'', Some ''zetMetricStreamerOpen''), (''pfnClose'', Some ''zetMetricStreamerClose''),
       (''pfnReadData'', Some ''zetMetricStreamerReadData'')])]"

section \<open>Tables of \<open>zet_misc.cpp\<close>\<close>

definition zetGetDeviceProcAddrTable :: table_function where
  "zetGetDeviceProcAddrTable = proc_addr_table ZE_RESULT_ERROR_INVALID_NULL_POINTER
     [(0, [
       (''pfnGetDebugProperties'', None)])]"

definition zetGetKernelProcAddrTable :: table_function where
  "zetGetKernelProcAddrTable = proc_addr_table ZE_RESULT_ERROR_INVALID_NULL_POINTER
     [(0, [
       (''pfnGetProfileInfo'', None)])]"

definition zetGetModuleProcAddrTable :: table_function where
  "zetGetModuleProcAddrTable = proc_addr_table ZE_RESULT_ERROR_INVALID_NULL_POINTER
     [(0, [
       (''pfnGetDebugInfo'', None)])]"

definition zetGetDebugProcAddrTable :: table_function where
  "zetGetDebugProcAddrTable = proc_addr_table ZE_RESULT_ERROR_INVALID_NULL_POINTER
     [(0, [
       (''pfnAttach'', None), (''pfnDetach'', None), (''pfnReadEvent'', None),
       (''pfnAcknowledgeEvent'', None), (''pfnInterrupt'', None), (''pfnResume'', None),
       (''pfnReadMemory'', None), (''pfnWriteMemory'', None), (''pfnGetRegisterSetProperties'', None),
       (''pfnReadRegisters'', None), (''pfnWriteRegisters'', None)])]"

definition zetGetTracerExpProcAddrTable :: table_function where
  "zetGetTracerExpProcAddrTable = proc_addr_table ZE_RESULT_ERROR_INVALID_NULL_POINTER
     [(0, [
       (''pfnCreate'', None), (''pfnDestroy'', None), (''pfnSetPrologues'', None),
       (''pfnSetEpilogues'', None), (''pfnSetEnabled'', None)])]"

definition zetGetMetricDecoderExpProcAddrTable :: table_function where
  "zetGetMetricDecoderExpProcAddrTable = proc_addr_table ZE_RESULT_ERROR_INVALID_ARGUMENT
     [(11, [
       (''pfnCreateExp'', None), (''pfnDestroyExp'', None), (''pfnGetDecodableMetricsExp'', None)])]"

definition zetGetMetricTracerExpProcAddrTable :: table_function where
  "zetGetMetricTracerExpProcAddrTable = proc_addr_table ZE_RESULT_ERROR_INVALID_ARGUMENT
     [(11, [
       (''pfnCreateExp'', None), (''pfnDestroyExp'', None), (''pfnEnableExp'', None),
       (''pfnDisableExp'', None), (''pfnReadDataExp'', None), (''pfnDecodeExp'', None)])]"

definition zetGetMetricProgrammableExpProcAddrTable :: table_function where
  "zetGetMetricProgrammableExpProcAddrTable = proc_addr_table ZE_RESULT_ERROR_INVALID_ARGUMENT
     [(9, [
       (''pfnGetExp'', None), (''pfnGetPropertiesExp'', None), (''pfnGetParamInfoExp'', None),
       (''pfnGetParamValueInfoExp'', None)])]"

definition zetGetDeviceExpProcAddrTable :: table_function where
  "zetGetDeviceExpProcAddrTable = proc_addr_table ZE_RESULT_ERROR_INVALID_ARGUMENT
     [(11, [
       (''pfnGetConcurrentMetricGroupsExp'', None), (''pfnCreateMetricGroupsFromMetricsExp'', None)])]"

definition zetGetMetricExpProcAddrTable :: table_function where
  "zetGetMetricExpProcAddrTable = proc_addr_table ZE_RESULT_ERROR_INVALID_ARGUMENT
     [(9, [
       (''pfnCreateFromProgrammableExp'', None), (''pfnDestroyExp'', None)]),
      (12, [
       (''pfnCreateFromProgrammableExp2'', None)])]"

definition zetGetMetricGroupExpProcAddrTable :: table_function where
  "zetGetMetricGroupExpProcAddrTable = proc_addr_table ZE_RESULT_ERROR_INVALID_ARGUMENT
     [(5, [
       (''pfnCalculateMultipleMetricValuesExp'', None), (''pfnGetGlobalTimestampsExp'', None)]),
      (6, [
       (''pfnGetExportDataExp'', None), (''pfnCalculateMetricExportDataExp'', None)]),
      (9, [
       (''pfnCreateExp'', None), (''pfnAddMetricExp'', None), (''pfnRemoveMetricExp'', None),
       (''pfnCloseExp'', None), (''pfnDestroyExp'', None)])]"

section \<open>Every table\<close>

text \<open>All the functions, with the prefix of the names of their entry points.\<close>

definition api_tables :: "(string \<times> table_function) list" where
  "api_tables = [
     (''zeCommandList'', zeGetCommandListProcAddrTable),
     (''zeCommandList'', zeGetCommandListExpProcAddrTable),
     (''zeCommandQueue'', zeGetCommandQueueProcAddrTable), (''zeContext'', zeGetContextProcAddrTable),
     (''zePhysicalMem'', zeGetPhysicalMemProcAddrTable),
     (''zeVirtualMem'', zeGetVirtualMemProcAddrTable), (''zeDevice'', zeGetDeviceProcAddrTable),
     (''ze'', zeGetGlobalProcAddrTable), (''zeDriver'', zeGetDriverProcAddrTable),
     (''zeEventPool'', zeGetEventPoolProcAddrTable), (''zeEvent'', zeGetEventProcAddrTable),
     (''zeFence'', zeGetFenceProcAddrTable), (''zeMem'', zeGetMemProcAddrTable),
     (''zeImage'', zeGetImageProcAddrTable), (''zeModule'', zeGetModuleProcAddrTable),
     (''zeModuleBuildLog'', zeGetModuleBuildLogProcAddrTable),
     (''zeKernel'', zeGetKernelProcAddrTable), (''zeSampler'', zeGetSamplerProcAddrTable),
     (''zeRTASBuilder'', zeGetRTASBuilderExpProcAddrTable),
     (''zeRTASBuilder'', zeGetRTASBuilderProcAddrTable),
     (''zeRTASParallelOperation'', zeGetRTASParallelOperationExpProcAddrTable),
     (''zeRTASParallelOperation'', zeGetRTASParallelOperationProcAddrTable),
     (''zeDriver'', zeGetDriverExpProcAddrTable), (''zeDevice'', zeGetDeviceExpProcAddrTable),
     (''zeEvent'', zeGetEventExpProcAddrTable), (''zeImage'', zeGetImageExpProcAddrTable),
     (''zeKernel'', zeGetKernelExpProcAddrTable), (''zeMem'', zeGetMemExpProcAddrTable),
     (''zeFabricEdge'', zeGetFabricEdgeExpProcAddrTable),
     (''zeFabricVertex'', zeGetFabricVertexExpProcAddrTable),
     (''zesDevice'', zesGetDeviceProcAddrTable), (''zes'', zesGetGlobalProcAddrTable),
     (''zesDriver'', zesGetDriverProcAddrTable), (''zesEngine'', zesGetEngineProcAddrTable),
     (''zesDiagnostics'', zesGetDiagnosticsProcAddrTable),
     (''zesFabricPort'', zesGetFabricPortProcAddrTable), (''zesFan'', zesGetFanProcAddrTable),
     (''zesFirmware'', zesGetFirmwareProcAddrTable), (''zesFrequency'', zesGetFrequencyProcAddrTable),
     (''zesLed'', zesGetLedProcAddrTable), (''zesMemory'', zesGetMemoryProcAddrTable),
     (''zesPerformanceFactor'', zesGetPerformanceFactorProcAddrTable),
     (''zesPower'', zesGetPowerProcAddrTable), (''zesPsu'', zesGetPsuProcAddrTable),
     (''zesRas'', zesGetRasProcAddrTable), (''zesScheduler'', zesGetSchedulerProcAddrTable),
     (''zesStandby'', zesGetStandbyProcAddrTable),
     (''zesTemperature'', zesGetTemperatureProcAddrTable),
     (''zesDevice'', zesGetDeviceExpProcAddrTable), (''zesDriver'', zesGetDriverExpProcAddrTable),
     (''zesFirmware'', zesGetFirmwareExpProcAddrTable), (''zesRas'', zesGetRasExpProcAddrTable),
     (''zesVFManagement'', zesGetVFManagementExpProcAddrTable),
     (''zesOverclock'', zesGetOverclockProcAddrTable), (''zetContext'', zetGetContextProcAddrTable),
     (''zetCommandList'', zetGetCommandListExpProcAddrTable),
     (''zetCommandList'', zetGetCommandListProcAddrTable), (''zetMetric'', zetGetMetricProcAddrTable),
     (''zetMetricGroup'', zetGetMetricGroupProcAddrTable),
     (''zetMetricQuery'', zetGetMetricQueryProcAddrTable),
     (''zetMetricQueryPool'', zetGetMetricQueryPoolProcAddrTable),
     (''zetMetricStreamer'', zetGetMetricStreamerProcAddrTable),
     (''zetDevice'', zetGetDeviceProcAddrTable), (''zetKernel'', zetGetKernelProcAddrTable),
     (''zetModule'', zetGetModuleProcAddrTable), (''zetDebug'', zetGetDebugProcAddrTable),
     (''zetTracer'', zetGetTracerExpProcAddrTable),
     (''zetMetricDecoder'', zetGetMetricDecoderExpProcAddrTable),
     (''zetMetricTracer'', zetGetMetricTracerExpProcAddrTable),
     (''zetMetricProgrammable'', zetGetMetricProgrammableExpProcAddrTable),
     (''zetDevice'', zetGetDeviceExpProcAddrTable), (''zetMetric'', zetGetMetricExpProcAddrTable),
     (''zetMetricGroup'', zetGetMetricGroupExpProcAddrTable)]"

lemmas table_defs =
  zeGetCommandListProcAddrTable_def zeGetCommandListExpProcAddrTable_def
  zeGetCommandQueueProcAddrTable_def zeGetContextProcAddrTable_def zeGetPhysicalMemProcAddrTable_def
  zeGetVirtualMemProcAddrTable_def zeGetDeviceProcAddrTable_def zeGetGlobalProcAddrTable_def
  zeGetDriverProcAddrTable_def zeGetEventPoolProcAddrTable_def zeGetEventProcAddrTable_def
  zeGetFenceProcAddrTable_def zeGetMemProcAddrTable_def zeGetImageProcAddrTable_def
  zeGetModuleProcAddrTable_def zeGetModuleBuildLogProcAddrTable_def zeGetKernelProcAddrTable_def
  zeGetSamplerProcAddrTable_def zeGetRTASBuilderExpProcAddrTable_def zeGetRTASBuilderProcAddrTable_def
  zeGetRTASParallelOperationExpProcAddrTable_def zeGetRTASParallelOperationProcAddrTable_def
  zeGetDriverExpProcAddrTable_def zeGetDeviceExpProcAddrTable_def zeGetEventExpProcAddrTable_def
  zeGetImageExpProcAddrTable_def zeGetKernelExpProcAddrTable_def zeGetMemExpProcAddrTable_def
  zeGetFabricEdgeExpProcAddrTable_def zeGetFabricVertexExpProcAddrTable_def
  zesGetDeviceProcAddrTable_def zesGetGlobalProcAddrTable_def zesGetDriverProcAddrTable_def
  zesGetEngineProcAddrTable_def zesGetDiagnosticsProcAddrTable_def zesGetFabricPortProcAddrTable_def
  zesGetFanProcAddrTable_def zesGetFirmwareProcAddrTable_def zesGetFrequencyProcAddrTable_def
  zesGetLedProcAddrTable_def zesGetMemoryProcAddrTable_def zesGetPerformanceFactorProcAddrTable_def
  zesGetPowerProcAddrTable_def zesGetPsuProcAddrTable_def zesGetRasProcAddrTable_def
  zesGetSchedulerProcAddrTable_def zesGetStandbyProcAddrTable_def zesGetTemperatureProcAddrTable_def
  zesGetDeviceExpProcAddrTable_def zesGetDriverExpProcAddrTable_def zesGetFirmwareExpProcAddrTable_def
  zesGetRasExpProcAddrTable_def zesGetVFManagementExpProcAddrTable_def zesGetOverclockProcAddrTable_def
  zetGetContextProcAddrTable_def zetGetCommandListExpProcAddrTable_def
  zetGetCommandListProcAddrTable_def zetGetMetricProcAddrTable_def zetGetMetricGroupProcAddrTable_def
  zetGetMetricQueryProcAddrTable_def zetGetMetricQueryPoolProcAddrTable_def
  zetGetMetricStreamerProcAddrTable_def zetGetDeviceProcAddrTable_def zetGetKernelProcAddrTable_def
  zetGetModuleProcAddrTable_def zetGetDebugProcAddrTable_def zetGetTracerExpProcAddrTable_def
  zetGetMetricDecoderExpProcAddrTable_def zetGetMetricTracerExpProcAddrTable_def
  zetGetMetricProgrammableExpProcAddrTable_def zetGetDeviceExpProcAddrTable_def
  zetGetMetricExpProcAddrTable_def zetGetMetricGroupExpProcAddrTable_def

section \<open>Wiring\<close>

text \<open>Each pointer of a table is null or the entry point that the name of its member says.\<close>

definition members_wired :: "string \<Rightarrow> (string \<times> string option) list \<Rightarrow> bool" where
  "members_wired pre ms \<longleftrightarrow>
     list_all (\<lambda>(m, p). take 3 m = ''pfn'' \<and> (case p of None \<Rightarrow> True | Some f \<Rightarrow> f = pre @ drop 3 m)) ms"

definition wired :: "string \<Rightarrow> version_members list \<Rightarrow> bool" where
  "wired pre gs \<longleftrightarrow> list_all (\<lambda>(minor, ms). members_wired pre ms) gs \<and> distinct (concat (map (map fst \<circ> snd) gs))"

definition wired_table :: "string \<Rightarrow> table_function \<Rightarrow> bool" where
  "wired_table pre f \<longleftrightarrow> (\<exists>r gs. f = proc_addr_table r gs \<and> wired pre gs)"

lemma wired_tableI: "f = proc_addr_table r gs \<Longrightarrow> wired pre gs \<Longrightarrow> wired_table pre f"
  by (auto simp: wired_table_def)

lemma tables_wired: "list_all (\<lambda>(pre, f). wired_table pre f) api_tables"
  unfolding api_tables_def list.pred_inject prod.case
  by (intro conjI) ((rule wired_tableI, rule table_defs, code_simp)+, simp)

text \<open>What a version of a table holds.\<close>

lemma assigned_members:
  "foldl (\<lambda>t (m, p). t(m \<mapsto> p)) t ms m = Some p \<Longrightarrow> (m, p) \<in> set ms \<or> t m = Some p"
proof (induction ms arbitrary: t)
  case (Cons a ms)
  obtain k q where a: "a = (k, q)" by force
  then have "(m, p) \<in> set ms \<or> (t(k \<mapsto> q)) m = Some p" using Cons.IH[of "t(k \<mapsto> q)"] Cons.prems by simp
  then show ?case using a by (cases "m = k") auto
qed simp

lemma assigned_other: "m \<notin> fst ` set ms \<Longrightarrow> foldl (\<lambda>t (m, p). t(m \<mapsto> p)) t ms m = t m"
  by (induction ms arbitrary: t) auto

lemma assigned_distinct:
  "distinct (map fst ms) \<Longrightarrow> (m, p) \<in> set ms \<Longrightarrow> foldl (\<lambda>t (m, p). t(m \<mapsto> p)) t ms m = Some p"
  by (induction ms arbitrary: t) (auto simp: assigned_other)

lemma filled_members:
  "fill_table av v gs t m = Some p \<Longrightarrow>
     (\<exists>minor ms. (minor, ms) \<in> set gs \<and> ZE_API_VERSION_1 av minor \<le> v \<and> (m, p) \<in> set ms) \<or> t m = Some p"
proof (induction gs arbitrary: t)
  case (Cons g gs)
  obtain minor ms where g: "g = (minor, ms)" by force
  let ?t = "if v \<ge> ZE_API_VERSION_1 av minor then foldl (\<lambda>t (m, p). t(m \<mapsto> p)) t ms else t"
  have "fill_table av v gs ?t m = Some p" using Cons.prems by (simp add: g)
  from Cons.IH[OF this] show ?case
  proof
    assume "?t m = Some p"
    then have "ZE_API_VERSION_1 av minor \<le> v \<and> (m, p) \<in> set ms \<or> t m = Some p"
      using assigned_members[of t ms m p] by (auto split: if_splits)
    then show ?case using g by auto
  qed (use g in auto)
qed simp

lemma filled_other: "m \<notin> set (concat (map (map fst \<circ> snd) gs)) \<Longrightarrow> fill_table av v gs t m = t m"
  by (induction gs arbitrary: t) (auto simp: assigned_other)

lemma filled_distinct:
  assumes "distinct (concat (map (map fst \<circ> snd) gs))" "(minor, ms) \<in> set gs" "ZE_API_VERSION_1 av minor \<le> v" "(m, p) \<in> set ms"
  shows "fill_table av v gs t m = Some p"
  using assms(1,2)
proof (induction gs arbitrary: t)
  case (Cons g gs)
  show ?case
  proof (cases "g = (minor, ms)")
    case True
    have "m \<in> fst ` set ms" using assms(4) by force
    then have "m \<notin> set (concat (map (map fst \<circ> snd) gs))" using Cons.prems(1) True by auto
    then show ?thesis using True Cons.prems(1) assms(3,4) by (simp add: filled_other assigned_distinct)
  next
    case False
    then show ?thesis using Cons by (cases g) auto
  qed
qed simp

text \<open>C22: The loader gets the right entry points: in every table that one of the functions fills for a version of the
  driver's major version, a member is a null pointer or the entry point of the same name, and a newer
  version only adds members to those of an older one.\<close>

theorem entry_points_wired:
  assumes "(pre, f) \<in> set api_tables" "ZE_MAJOR_VERSION av v = ZE_MAJOR_VERSION av (CURRENT_VERSION av)"
  shows "\<exists>t. f av v (Some Map.empty) = (ZE_RESULT_SUCCESS, Some t) \<and>
    (\<forall>m fn. t m = Some (Some fn) \<longrightarrow> (\<exists>nm. m = ''pfn'' @ nm \<and> fn = pre @ nm)) \<and>
    (\<forall>v'. v \<le> v' \<and> ZE_MAJOR_VERSION av v' = ZE_MAJOR_VERSION av (CURRENT_VERSION av) \<longrightarrow>
       (\<exists>t'. f av v' (Some Map.empty) = (ZE_RESULT_SUCCESS, Some t') \<and> t \<subseteq>\<^sub>m t'))"
proof -
  obtain r gs where f: "f = proc_addr_table r gs" and w: "wired pre gs"
    using tables_wired assms(1) by (auto simp: list_all_iff wired_table_def)
  let ?t = "\<lambda>v. fill_table av v gs Map.empty"
  have fill: "f av v' (Some Map.empty) = (ZE_RESULT_SUCCESS, Some (?t v'))"
    if "ZE_MAJOR_VERSION av v' = ZE_MAJOR_VERSION av (CURRENT_VERSION av)" for v'
    using that by (simp add: f proc_addr_table_def)
  have named: "\<exists>nm. m = ''pfn'' @ nm \<and> fn = pre @ nm" if m: "?t v m = Some (Some fn)" for m fn
  proof -
    obtain minor ms where "(minor, ms) \<in> set gs" "(m, Some fn) \<in> set ms" using filled_members m by fastforce
    moreover from this have "members_wired pre ms" using w by (auto simp: wired_def list_all_iff)
    ultimately have "take 3 m = ''pfn'' \<and> fn = pre @ drop 3 m" by (auto simp: members_wired_def list_all_iff)
    then show ?thesis by (metis append_take_drop_id)
  qed
  have later: "?t v \<subseteq>\<^sub>m ?t v'" if "v \<le> v'" for v'
  proof (unfold map_le_def, intro ballI)
    fix m assume "m \<in> dom (?t v)"
    then obtain p where p: "?t v m = Some p" by auto
    then obtain minor ms where ms: "(minor, ms) \<in> set gs" "ZE_API_VERSION_1 av minor \<le> v" "(m, p) \<in> set ms"
      using filled_members by fastforce
    have "?t v' m = Some p"
      by (rule filled_distinct[OF _ ms(1) order_trans[OF ms(2) that] ms(3)]) (use w in \<open>simp add: wired_def\<close>)
    then show "?t v m = ?t v' m" using p by simp
  qed
  show ?thesis
  proof (rule exI[of _ "?t v"], intro conjI allI impI)
    show "f av v (Some Map.empty) = (ZE_RESULT_SUCCESS, Some (?t v))" by (rule fill[OF assms(2)])
    fix v' assume "v \<le> v' \<and> ZE_MAJOR_VERSION av v' = ZE_MAJOR_VERSION av (CURRENT_VERSION av)"
    then show "\<exists>t'. f av v' (Some Map.empty) = (ZE_RESULT_SUCCESS, Some t') \<and> ?t v \<subseteq>\<^sub>m t'"
      using fill later by (intro exI[of _ "?t v'"]) simp
  qed (rule named)
qed

definition demo_versions :: api_versions where
  "demo_versions = \<lparr>ZE_API_VERSION_1 = (\<lambda>k. 0x10000 + of_nat k), CURRENT_VERSION = 0x1000D, ZE_MAJOR_VERSION = drop_bit 16\<rparr>"

lemma entry_points_wired_witness:
  "\<exists>t. zeGetGlobalProcAddrTable demo_versions 0x10000 (Some Map.empty) = (ZE_RESULT_SUCCESS, Some t) \<and>
    t ''pfnInit'' = Some (Some ''zeInit'')"
proof -
  have "(''ze'', zeGetGlobalProcAddrTable) \<in> set api_tables" by (simp add: api_tables_def)
  moreover have "ZE_MAJOR_VERSION demo_versions 0x10000 = ZE_MAJOR_VERSION demo_versions (CURRENT_VERSION demo_versions)"
    unfolding demo_versions_def by code_simp
  ultimately obtain t where t: "zeGetGlobalProcAddrTable demo_versions 0x10000 (Some Map.empty) = (ZE_RESULT_SUCCESS, Some t)"
    using entry_points_wired by blast
  moreover have "(0x1000A :: u32) \<le> 0x10000 \<longleftrightarrow> False" by code_simp
  ultimately have "t ''pfnInit'' = Some (Some ''zeInit'')"
    by (auto simp: zeGetGlobalProcAddrTable_def proc_addr_table_def demo_versions_def split: if_splits)
  then show ?thesis using t by blast
qed

end
