(* ===== verification/Api_Driver.thy ===== *)
theory Api_Driver
  imports L0_Driver Api_Graph Api_Tables
begin

text \<open>
  The entry points of the API for drivers, devices, contexts and engines
  (\<open>umd/level_zero_driver/api/ze_driver.cpp\<close>, \<open>ze_device.cpp\<close>, \<open>ze_context.cpp\<close>, \<open>zes_driver.cpp\<close>,
  \<open>zes_device.cpp\<close>, \<open>zes_engine.cpp\<close>, \<open>ext/ze_context.cpp\<close>, \<open>prv/zex_driver.cpp\<close>) and those for
  metrics (\<open>zet_metric.cpp\<close>). A handle is the object it stands for, \<open>None\<close> the null handle; an output
  pointer is whether there is one. The traces around a call are left out.
\<close>

section \<open>Drivers\<close>

text \<open>\<open>vpu_loaded\<close>: the older library of the driver is in the process.\<close>

definition zeInit :: "bool \<Rightarrow> ('k, 'c, 'p, 'q) init_env \<Rightarrow> u32 \<Rightarrow> 'k driver \<Rightarrow> (ze_result \<times> 'k driver) option" where
  "zeInit vpu_loaded ie flags d =
     (if vpu_loaded then Some (ZE_RESULT_ERROR_UNINITIALIZED, d)
      else map_option (\<lambda>(x, d'). (caught ZE_RESULT_ERROR_UNKNOWN x, d')) (L0_init ie flags d))"

definition zeDriverGet :: "'k driver \<Rightarrow> u32 option \<Rightarrow> bool \<Rightarrow> ze_result \<times> u32 \<times> driver_handle option list" where
  "zeDriverGet d pCount phDrivers = caught (ZE_RESULT_ERROR_UNKNOWN, 0, []) (driverHandleGet d pCount phDrivers)"

definition zeInitDrivers ::
  "('k, 'c, 'p, 'q) init_env \<Rightarrow> u32 option \<Rightarrow> bool \<Rightarrow> u32 option \<Rightarrow> 'k driver
     \<Rightarrow> ((ze_result \<times> u32 \<times> driver_handle option list) \<times> 'k driver) option" where
  "zeInitDrivers ie pCount phDrivers desc d =
     map_option (\<lambda>(x, d'). (caught (ZE_RESULT_ERROR_UNKNOWN, 0, []) x, d')) (initDrivers ie pCount phDrivers desc d)"

definition zesInit :: "('k, 'c, 'p, 'q) init_env \<Rightarrow> u32 \<Rightarrow> 'k driver \<Rightarrow> (ze_result \<times> 'k driver) option" where
  "zesInit ie flags d = map_option (\<lambda>(x, d'). (caught ZE_RESULT_ERROR_UNKNOWN x, d')) (L0_init ie flags d)"

definition zesDriverGet :: "'k driver \<Rightarrow> u32 option \<Rightarrow> bool \<Rightarrow> ze_result \<times> u32 \<times> driver_handle option list" where
  "zesDriverGet d pCount phDrivers =
     (if pCount = None then (ZE_RESULT_ERROR_INVALID_NULL_HANDLE, 0, [])
      else caught (ZE_RESULT_ERROR_UNKNOWN, 0, []) (driverHandleGet d pCount phDrivers))"

text \<open>A null handle, before the call of the object.\<close>

definition on_handle :: "'r \<Rightarrow> 'x option \<Rightarrow> ('x \<Rightarrow> 'r) \<Rightarrow> 'r" where
  "on_handle null_handle h f = (case h of None \<Rightarrow> null_handle | Some x \<Rightarrow> f x)"

definition zeDriverGetProperties :: "ext_consts \<Rightarrow> driver_handle option \<Rightarrow> bool \<Rightarrow> ze_result \<times> u32 option" where
  "zeDriverGetProperties k hDriver pProperties =
     on_handle (ZE_RESULT_ERROR_INVALID_NULL_HANDLE, None) hDriver (\<lambda>h. DriverHandle_getProperties k pProperties)"

definition zeDriverGetApiVersion :: "ext_consts \<Rightarrow> driver_handle option \<Rightarrow> bool \<Rightarrow> ze_result \<times> u32 option" where
  "zeDriverGetApiVersion k hDriver version =
     on_handle (ZE_RESULT_ERROR_INVALID_NULL_HANDLE, None) hDriver (\<lambda>h. getApiVersion k version)"

definition zeDriverGetIpcProperties :: "driver_handle option \<Rightarrow> bool \<Rightarrow> ze_result \<times> u32 option" where
  "zeDriverGetIpcProperties hDriver pIPCProperties =
     on_handle (ZE_RESULT_ERROR_INVALID_NULL_HANDLE, None) hDriver (\<lambda>h. getIPCProperties pIPCProperties)"

text \<open>The result, the count and the extensions that are stored.\<close>

definition zeDriverGetExtensionProperties ::
  "ext_consts \<Rightarrow> driver_handle option \<Rightarrow> u32 option \<Rightarrow> bool \<Rightarrow> ze_result \<times> u32 \<times> (string \<times> u32) list" where
  "zeDriverGetExtensionProperties k hDriver pCount pExtProps =
     on_handle (ZE_RESULT_ERROR_INVALID_NULL_HANDLE, 0, []) hDriver (\<lambda>h.
       case pCount of
         None \<Rightarrow> (ZE_RESULT_ERROR_INVALID_NULL_POINTER, 0, [])
       | Some n \<Rightarrow>
           let exts = getSupportedExtensions k h in
           if n = 0 then (ZE_RESULT_SUCCESS, of_nat (length exts), [])
           else let m = min n (of_nat (length exts)) in
                if \<not> pExtProps then (ZE_RESULT_ERROR_INVALID_NULL_POINTER, m, [])
                else (ZE_RESULT_SUCCESS, m, map ((!) exts) [0..<unat m]))"

section \<open>Functions of extensions\<close>

text \<open>
  The address is one of four tables, each with the members and their functions, or one of the private
  functions.
\<close>

datatype ext_address = Ext_table "(string \<times> string) list" | Private_function string

definition profiling_table :: "(string \<times> string) list" where
  "profiling_table =
     [(''pfnProfilingPoolCreate'', ''zeGraphProfilingPoolCreate''),
      (''pfnProfilingPoolDestroy'', ''zeGraphProfilingPoolDestroy''),
      (''pfnProfilingQueryCreate'', ''zeGraphProfilingQueryCreate''),
      (''pfnProfilingQueryDestroy'', ''zeGraphProfilingQueryDestroy''),
      (''pfnProfilingQueryGetData'', ''zeGraphProfilingQueryGetData''),
      (''pfnDeviceGetProfilingDataProperties'', ''zeDeviceGetProfilingDataProperties''),
      (''pfnProfilingLogGetString'', ''zeGraphProfilingLogGetString'')]"

definition command_queue_table :: "(string \<times> string) list" where
  "command_queue_table = [(''pfnSetWorkloadType'', ''zeCommandQueueSetWorkloadType'')]"

definition context_table :: "(string \<times> string) list" where
  "context_table = [(''pfnSetProperties'', ''zeContextSetProperties''), (''pfnReleaseMemory'', ''zeContextReleaseMemory'')]"

definition graph_table :: "(string \<times> string) list" where
  "graph_table =
     [(''pfnCreate'', ''zeGraphCreate''), (''pfnDestroy'', ''zeGraphDestroy''),
      (''pfnGetNativeBinary'', ''zeGraphGetNativeBinary''), (''pfnGetProperties'', ''zeGraphGetProperties''),
      (''pfnGetArgumentProperties'', ''zeGraphGetArgumentProperties''),
      (''pfnSetArgumentValue'', ''zeGraphSetArgumentValue''),
      (''pfnAppendGraphInitialize'', ''zeAppendGraphInitialize''),
      (''pfnAppendGraphExecute'', ''zeAppendGraphExecute''),
      (''pfnDeviceGetGraphProperties'', ''zeDeviceGetGraphProperties''),
      (''pfnGraphGetArgumentMetadata'', ''zeGraphGetArgumentMetadata''),
      (''pfnGetArgumentProperties2'', ''zeGraphGetArgumentProperties2''),
      (''pfnGetArgumentProperties3'', ''zeGraphGetArgumentProperties3''),
      (''pfnQueryNetworkCreate'', ''zeGraphQueryNetworkCreate''),
      (''pfnQueryNetworkDestroy'', ''zeGraphQueryNetworkDestroy''),
      (''pfnQueryNetworkGetSupportedLayers'', ''zeGraphQueryNetworkGetSupportedLayers''),
      (''pfnBuildLogGetString'', ''zeGraphBuildLogGetString''),
      (''pfnCreate2'', ''zeGraphCreate2''), (''pfnQueryNetworkCreate2'', ''zeGraphQueryNetworkCreate2''),
      (''pfnQueryContextMemory'', ''zeGraphQueryContextMemory''),
      (''pfnDeviceGetGraphProperties2'', ''zeDeviceGetGraphProperties2''),
      (''pfnGetNativeBinary2'', ''zeGraphGetNativeBinary2''),
      (''pfnGetProperties2'', ''zeGraphGetProperties2''), (''pfnGraphInitialize'', ''zeGraphInitialize''),
      (''pfnCompilerGetSupportedOptions'', ''zeGraphCompilerGetSupportedOptions''),
      (''pfnCompilerIsOptionSupported'', ''zeGraphCompilerIsOptionSupported''),
      (''pfnCreate3'', ''zeGraphCreate3''), (''pfnGetProperties3'', ''zeGraphGetProperties3''),
      (''pfnBuildLogGetString2'', ''zeGraphBuildLogGetString2''),
      (''pfnBuildLogDestroy'', ''zeGraphBuildLogDestroy''),
      (''pfnSetArgumentValue2'', ''zeGraphSetArgumentValue2''), (''pfnEvict'', ''zeGraphEvict'')]"

definition private_functions :: "string list" where
  "private_functions = [''zexDiskCacheSetSize'', ''zexDiskCacheGetSize'', ''zexDiskCacheGetDirectory'',
     ''zexContextSetIdlePruningTimeout'']"

text \<open>\<open>strstr\<close>.\<close>

definition contains_string :: "string \<Rightarrow> string \<Rightarrow> bool" where
  "contains_string s part \<longleftrightarrow> list_ex (\<lambda>i. take (length part) (drop i s) = part) [0..<Suc (length s)]"

definition zeDriverGetExtensionFunctionAddress ::
  "ext_consts \<Rightarrow> driver_handle option \<Rightarrow> string option \<Rightarrow> bool \<Rightarrow> ze_result \<times> ext_address option" where
  "zeDriverGetExtensionFunctionAddress k hDriver name ppFunctionAddress =
     on_handle (ZE_RESULT_ERROR_INVALID_NULL_HANDLE, None) hDriver (\<lambda>h.
       case (if ppFunctionAddress then name else None) of
         None \<Rightarrow> (ZE_RESULT_ERROR_INVALID_NULL_POINTER, None)
       | Some nm \<Rightarrow>
           if nm = PROFILING_DATA_EXT_NAME k then (ZE_RESULT_SUCCESS, Some (Ext_table profiling_table))
           else if nm = COMMAND_QUEUE_NPU_EXT_NAME k then (ZE_RESULT_SUCCESS, Some (Ext_table command_queue_table))
           else if nm = CONTEXT_NPU_EXT_NAME k then (ZE_RESULT_SUCCESS, Some (Ext_table context_table))
           else if contains_string nm (GRAPH_EXT_NAME k) then (ZE_RESULT_SUCCESS, Some (Ext_table graph_table))
           else if nm \<in> set private_functions then (ZE_RESULT_SUCCESS, Some (Private_function nm))
           else (ZE_RESULT_ERROR_INVALID_ARGUMENT, None))"

section \<open>The private functions\<close>

definition zexDiskCacheSetSize :: "u64 \<Rightarrow> disk_cache \<Rightarrow> ze_result \<times> disk_cache" where
  "zexDiskCacheSetSize sz dc = (ZE_RESULT_SUCCESS, dc\<lparr>maxSize := sz\<rparr>)"

definition zexDiskCacheGetSize :: "disk_cache \<Rightarrow> bool \<Rightarrow> ze_result \<times> u64 option" where
  "zexDiskCacheGetSize dc sz =
     (if \<not> sz then (ZE_RESULT_ERROR_INVALID_NULL_POINTER, None) else (ZE_RESULT_SUCCESS, Some (maxSize dc)))"

text \<open>
  \<open>std::string::copy\<close> writes at most the given number of characters. The result has all that is written
  from \<open>path\<close> upwards, and the new length.
\<close>

definition zexDiskCacheGetDirectory :: "disk_cache \<Rightarrow> bool \<Rightarrow> u64 option \<Rightarrow> ze_result \<times> (string \<times> u64) option" where
  "zexDiskCacheGetDirectory dc path len =
     (case (if path then len else None) of
        None \<Rightarrow> (ZE_RESULT_ERROR_INVALID_NULL_POINTER, None)
      | Some n \<Rightarrow>
          let copied = take (unat (n - 1)) (cachePath dc) in
          (ZE_RESULT_SUCCESS, Some (copied @ [CHR 0x00], of_nat (length copied))))"

text \<open>\<open>translated\<close> is the answer of the loader; the timeout is one below \<open>2^63\<close>, which the duration can hold.\<close>

definition zexContextSetIdlePruningTimeout ::
  "ze_result \<Rightarrow> 'k idle_context option \<Rightarrow> u64 \<Rightarrow> ze_result \<times> 'k idle_context option" where
  "zexContextSetIdlePruningTimeout translated hContext timeoutMs =
     on_handle (ZE_RESULT_ERROR_INVALID_NULL_HANDLE, None) hContext (\<lambda>x.
       if translated \<noteq> ZE_RESULT_SUCCESS then (translated, Some x)
       else (ZE_RESULT_SUCCESS, Some (setIdlePruningTimeout (unat timeoutMs) x)))"

section \<open>Contexts\<close>

definition zeContextCreate ::
  "'k os_interface \<Rightarrow> driver_handle option \<Rightarrow> nat \<Rightarrow> bool \<Rightarrow> bool \<Rightarrow> 'k world
     \<Rightarrow> (ze_result \<times> 'k idle_context option) \<times> 'k world" where
  "zeContextCreate os hDriver n desc phContext w =
     on_handle ((ZE_RESULT_ERROR_INVALID_NULL_HANDLE, None), w) hDriver (\<lambda>h. createContext os h n desc phContext w)"

definition zeContextGetStatus ::
  "'k os_interface \<Rightarrow> driver_handle option \<Rightarrow> 'k world \<Rightarrow> (ze_result \<times> 'k world) option" where
  "zeContextGetStatus os hContext w =
     on_handle (Some (ZE_RESULT_ERROR_INVALID_NULL_HANDLE, w)) hContext (\<lambda>h. Context_getStatus os h w)"

text \<open>The properties are whether the option of the idle optimisations is set.\<close>

definition zeContextSetProperties ::
  "ze_result \<Rightarrow> 'k idle_context option \<Rightarrow> bool option \<Rightarrow> nat \<Rightarrow> ze_result \<times> 'k idle_context option" where
  "zeContextSetProperties translated hContext pContextProperties n =
     (if translated \<noteq> ZE_RESULT_SUCCESS then (translated, hContext)
      else on_handle (ZE_RESULT_ERROR_INVALID_NULL_HANDLE, None) hContext (\<lambda>x.
        case pContextProperties of
          None \<Rightarrow> (ZE_RESULT_ERROR_INVALID_NULL_POINTER, Some x)
        | Some enable \<Rightarrow> map_prod id Some (setProperties enable n x)))"

definition zeContextReleaseMemory :: "ze_result \<Rightarrow> 'k dev_ctx option \<Rightarrow> ze_result \<times> 'k dev_ctx option" where
  "zeContextReleaseMemory translated hContext =
     (if translated \<noteq> ZE_RESULT_SUCCESS then (translated, hContext)
      else on_handle (ZE_RESULT_ERROR_INVALID_NULL_HANDLE, None) hContext (\<lambda>c.
        (ZE_RESULT_SUCCESS, Some (scratchCachePrune (- 1) (preemptionCachePrune c)))))"

text \<open>What the driver does not support.\<close>

definition zeVirtualMemReserve :: ze_result where "zeVirtualMemReserve = ZE_RESULT_ERROR_UNSUPPORTED_FEATURE"
definition zeVirtualMemFree :: ze_result where "zeVirtualMemFree = ZE_RESULT_ERROR_UNSUPPORTED_FEATURE"
definition zeVirtualMemQueryPageSize :: ze_result where "zeVirtualMemQueryPageSize = ZE_RESULT_ERROR_UNSUPPORTED_FEATURE"
definition zePhysicalMemCreate :: ze_result where "zePhysicalMemCreate = ZE_RESULT_ERROR_UNSUPPORTED_FEATURE"
definition zePhysicalMemDestroy :: ze_result where "zePhysicalMemDestroy = ZE_RESULT_ERROR_UNSUPPORTED_FEATURE"
definition zeVirtualMemMap :: ze_result where "zeVirtualMemMap = ZE_RESULT_ERROR_UNSUPPORTED_FEATURE"
definition zeVirtualMemUnmap :: ze_result where "zeVirtualMemUnmap = ZE_RESULT_ERROR_UNSUPPORTED_FEATURE"
definition zeVirtualMemSetAccessAttribute :: ze_result where
  "zeVirtualMemSetAccessAttribute = ZE_RESULT_ERROR_UNSUPPORTED_FEATURE"
definition zeVirtualMemGetAccessAttribute :: ze_result where
  "zeVirtualMemGetAccessAttribute = ZE_RESULT_ERROR_UNSUPPORTED_FEATURE"
definition zeContextSystemBarrier :: ze_result where "zeContextSystemBarrier = ZE_RESULT_ERROR_UNSUPPORTED_FEATURE"
definition zeContextMakeMemoryResident :: ze_result where
  "zeContextMakeMemoryResident = ZE_RESULT_ERROR_UNSUPPORTED_FEATURE"
definition zeContextEvictMemory :: ze_result where "zeContextEvictMemory = ZE_RESULT_ERROR_UNSUPPORTED_FEATURE"
definition zeContextMakeImageResident :: ze_result where
  "zeContextMakeImageResident = ZE_RESULT_ERROR_UNSUPPORTED_FEATURE"
definition zeContextEvictImage :: ze_result where "zeContextEvictImage = ZE_RESULT_ERROR_UNSUPPORTED_FEATURE"

section \<open>Devices\<close>

definition zeDeviceGet :: "driver_handle option \<Rightarrow> u32 option \<Rightarrow> bool \<Rightarrow> ze_result \<times> u32 \<times> l0_device list" where
  "zeDeviceGet hDriver pCount phDevices =
     on_handle (ZE_RESULT_ERROR_INVALID_NULL_HANDLE, 0, []) hDriver (\<lambda>h.
       caught (ZE_RESULT_ERROR_UNKNOWN, 0, []) (getDevice h pCount phDevices))"

definition zeDeviceGetSubDevices :: "l0_device option \<Rightarrow> u32 option \<Rightarrow> ze_result \<times> u32 option" where
  "zeDeviceGetSubDevices hDevice pCount =
     on_handle (ZE_RESULT_ERROR_INVALID_NULL_HANDLE, pCount) hDevice (\<lambda>d. getSubDevices pCount)"

definition zeDeviceGetProperties ::
  "npu_flags \<Rightarrow> (u64 \<times> u32) option \<Rightarrow> (u64 \<Rightarrow> property_struct) \<Rightarrow> l0_device option \<Rightarrow> device_properties option
     \<Rightarrow> ze_result \<times> device_properties option \<times> (u64 \<Rightarrow> property_struct)" where
  "zeDeviceGetProperties fl ram structs hDevice pDeviceProperties =
     on_handle (ZE_RESULT_ERROR_INVALID_NULL_HANDLE, pDeviceProperties, structs) hDevice (\<lambda>d.
       L0_Device.getProperties fl (Some (fst (ld_node d))) ram structs pDeviceProperties)"

definition zeDeviceGetComputeProperties :: "l0_device option \<Rightarrow> bool \<Rightarrow> ze_result \<times> u32 list option" where
  "zeDeviceGetComputeProperties hDevice pComputeProperties =
     on_handle (ZE_RESULT_ERROR_INVALID_NULL_HANDLE, None) hDevice (\<lambda>d. getDeviceComputeProperties pComputeProperties)"

definition zeDeviceGetModuleProperties :: ze_result where
  "zeDeviceGetModuleProperties = ZE_RESULT_ERROR_UNSUPPORTED_FEATURE"

definition zeDeviceGetMemoryProperties ::
  "l0_device option \<Rightarrow> u32 option \<Rightarrow> bool \<Rightarrow> ze_result \<times> u32 \<times> memory_properties list" where
  "zeDeviceGetMemoryProperties hDevice pCount pMemProperties =
     on_handle (ZE_RESULT_ERROR_INVALID_NULL_HANDLE, 0, []) hDevice (\<lambda>d.
       caught (ZE_RESULT_ERROR_UNKNOWN, 0, []) (getMemoryProperties True pCount pMemProperties))"

definition zeDeviceGetExternalMemoryProperties ::
  "npu_flags \<Rightarrow> l0_device option \<Rightarrow> bool \<Rightarrow> ze_result \<times> (u32 \<times> u32 \<times> u32 \<times> u32) option" where
  "zeDeviceGetExternalMemoryProperties fl hDevice pExternalMemoryProperties =
     on_handle (ZE_RESULT_ERROR_INVALID_NULL_HANDLE, None) hDevice (\<lambda>d.
       getGetExternalMemoryProperties fl (Some (fst (ld_node d))) pExternalMemoryProperties)"

definition zeDeviceGetMemoryAccessProperties ::
  "l0_device option \<Rightarrow> bool \<Rightarrow> ze_result \<times> (u32 \<times> u32 \<times> u32 \<times> u32 \<times> u32) option" where
  "zeDeviceGetMemoryAccessProperties hDevice pMemAccessProperties =
     on_handle (ZE_RESULT_ERROR_INVALID_NULL_HANDLE, None) hDevice (\<lambda>d. getMemoryAccessProperties pMemAccessProperties)"

definition zeDeviceGetCacheProperties :: ze_result where
  "zeDeviceGetCacheProperties = ZE_RESULT_ERROR_UNSUPPORTED_FEATURE"

definition zeDeviceGetImageProperties :: "l0_device option \<Rightarrow> bool \<Rightarrow> ze_result \<times> u32 list option" where
  "zeDeviceGetImageProperties hDevice pImageProperties =
     on_handle (ZE_RESULT_ERROR_INVALID_NULL_HANDLE, None) hDevice (\<lambda>d. getDeviceImageProperties pImageProperties)"

definition zeDeviceGetP2PProperties :: "l0_device option \<Rightarrow> bool \<Rightarrow> bool \<Rightarrow> ze_result \<times> u32 option" where
  "zeDeviceGetP2PProperties hDevice hPeerDevice pP2PProperties =
     on_handle (ZE_RESULT_ERROR_INVALID_NULL_HANDLE, None) hDevice (\<lambda>d. getP2PProperties hPeerDevice pP2PProperties)"

definition zeDeviceCanAccessPeer :: ze_result where "zeDeviceCanAccessPeer = ZE_RESULT_ERROR_UNSUPPORTED_FEATURE"

definition zeDeviceGetCommandQueueGroupProperties ::
  "l0_device option \<Rightarrow> u32 option \<Rightarrow> bool \<Rightarrow> ze_result \<times> u32 \<times> (u32 \<times> u32 \<times> u64) list" where
  "zeDeviceGetCommandQueueGroupProperties hDevice pCount pProperties =
     on_handle (ZE_RESULT_ERROR_INVALID_NULL_HANDLE, 0, []) hDevice (\<lambda>d.
       caught (ZE_RESULT_ERROR_UNKNOWN, 0, []) (getCommandQueueGroupProperties pCount pProperties))"

definition zeDeviceGetStatus :: "'k os_interface \<Rightarrow> l0_device option \<Rightarrow> 'k world \<Rightarrow> (ze_result \<times> 'k world) option" where
  "zeDeviceGetStatus os hDevice w =
     on_handle (Some (ZE_RESULT_ERROR_INVALID_NULL_HANDLE, w)) hDevice (\<lambda>d. Device_getStatus os (Some (ld_node d)) w)"

definition zeDeviceGetGlobalTimestamps ::
  "'k os_interface \<Rightarrow> l0_env \<Rightarrow> u64 \<Rightarrow> l0_device option \<Rightarrow> bool \<Rightarrow> 'k world
     \<Rightarrow> ((ze_result \<times> (u64 \<times> u64) option) \<times> (('h, 'k) l0 + 'k world)) option" where
  "zeDeviceGetGlobalTimestamps os env hostNs hDevice hasDriver w =
     on_handle (Some ((ZE_RESULT_ERROR_INVALID_NULL_HANDLE, None), Inr w)) hDevice (\<lambda>d.
       map_option (\<lambda>(x, s). (caught (ZE_RESULT_ERROR_UNKNOWN, None) x, s))
         (getGlobalTimestamps os env hostNs (Some (ld_node d)) hasDriver w))"

text \<open>The structure of the application is written without a test for null.\<close>

definition zeDevicePciGetPropertiesExt ::
  "'k os_interface \<Rightarrow> l0_device option \<Rightarrow> bool \<Rightarrow> string \<Rightarrow> bool \<Rightarrow> 'k world
     \<Rightarrow> ((ze_result \<times> (u32 \<times> u32 \<times> u32 \<times> u32) option) \<times> 'k world) option" where
  "zeDevicePciGetPropertiesExt os hDevice hasDriver devLink pPciProperties w =
     on_handle (Some ((ZE_RESULT_ERROR_INVALID_NULL_HANDLE, None), w)) hDevice (\<lambda>d.
       case getPciProperties os (Some (ld_node d)) hasDriver devLink w of
         ((r, a), w') \<Rightarrow> if r = ZE_RESULT_SUCCESS \<and> \<not> pPciProperties then None else Some ((r, a), w'))"

section \<open>System management\<close>

definition zesDeviceGet :: "driver_handle option \<Rightarrow> u32 option \<Rightarrow> bool \<Rightarrow> ze_result \<times> u32 \<times> l0_device list" where
  "zesDeviceGet hDriver pCount phDevices =
     on_handle (ZE_RESULT_ERROR_INVALID_NULL_HANDLE, 0, []) (if pCount = None then None else hDriver) (\<lambda>h.
       caught (ZE_RESULT_ERROR_UNKNOWN, 0, []) (getDevice h pCount phDevices))"

definition zesDeviceGetProperties ::
  "npu_flags \<Rightarrow> string \<Rightarrow> (u64 \<times> u32) option \<Rightarrow> (u64 \<Rightarrow> property_struct) \<Rightarrow> l0_device option \<Rightarrow> zes_properties option
     \<Rightarrow> ze_result \<times> zes_properties option \<times> (u64 \<Rightarrow> property_struct)" where
  "zesDeviceGetProperties fl ver ram structs hDevice pProperties =
     on_handle (ZE_RESULT_ERROR_INVALID_NULL_HANDLE, pProperties, structs) hDevice (\<lambda>d.
       zes_getProperties fl (Some (fst (ld_node d))) ver ram structs pProperties)"

text \<open>The one engine of a device is the device; the count is one, whatever it was.\<close>

definition zesDeviceEnumEngineGroups ::
  "l0_device option \<Rightarrow> u32 option \<Rightarrow> bool \<Rightarrow> ze_result \<times> u32 \<times> l0_device list" where
  "zesDeviceEnumEngineGroups hDevice pCount phEngine =
     (case (hDevice, pCount) of
        (Some d, Some n) \<Rightarrow>
          if n = 0 then (ZE_RESULT_SUCCESS, 1, [])
          else if \<not> phEngine then (ZE_RESULT_ERROR_INVALID_NULL_HANDLE, n, [])
          else (ZE_RESULT_SUCCESS, 1, [d])
      | _ \<Rightarrow> (ZE_RESULT_ERROR_INVALID_NULL_HANDLE, 0, []))"

definition zesEngineGetProperties :: "l0_device option \<Rightarrow> bool \<Rightarrow> ze_result \<times> (bool \<times> u32) option" where
  "zesEngineGetProperties hEngine pProperties =
     on_handle (ZE_RESULT_ERROR_INVALID_NULL_HANDLE, None) hEngine (\<lambda>d. engineGetProperties pProperties)"

definition zesEngineGetActivity ::
  "'k os_interface \<Rightarrow> string \<Rightarrow> (string \<Rightarrow> string) \<Rightarrow> u64 \<Rightarrow> l0_device option \<Rightarrow> bool \<Rightarrow> 'k world
     \<Rightarrow> (ze_result \<times> (u64 \<times> u64) option) \<times> 'k world" where
  "zesEngineGetActivity os devLink read_file time_us hEngine pStats w =
     on_handle ((ZE_RESULT_ERROR_INVALID_NULL_HANDLE, None), w) hEngine (\<lambda>d.
       engineGetActivity os (snd (ld_node d)) devLink read_file time_us pStats w)"

section \<open>Metrics\<close>

definition zetMetricGroupGet :: "l0_device option \<Rightarrow> u32 option \<Rightarrow> bool \<Rightarrow> ze_result \<times> u32 \<times> nat list" where
  "zetMetricGroupGet hDevice pCount phMetricGroups =
     on_handle (ZE_RESULT_ERROR_INVALID_NULL_HANDLE, 0, []) hDevice (\<lambda>d.
       caught (ZE_RESULT_ERROR_UNKNOWN, 0, []) (metricGroupGet (node_hw d) (ld_metrics d) pCount phMetricGroups))"

definition zetMetricGet :: "metric_group option \<Rightarrow> u32 option \<Rightarrow> bool \<Rightarrow> ze_result \<times> u32 \<times> nat list" where
  "zetMetricGet hMetricGroup pCount phMetrics =
     on_handle (ZE_RESULT_ERROR_INVALID_NULL_HANDLE, 0, []) hMetricGroup (\<lambda>g.
       caught (ZE_RESULT_ERROR_UNKNOWN, 0, []) (getMetric g pCount phMetrics))"

definition zetMetricGroupCalculateMetricValues ::
  "metric_group option \<Rightarrow> calculation_type \<Rightarrow> u64 \<Rightarrow> memory \<Rightarrow> u64 \<Rightarrow> u32 option \<Rightarrow> typed_value list
     \<Rightarrow> (ze_result \<times> u32 \<times> typed_value list) option" where
  "zetMetricGroupCalculateMetricValues hMetricGroup ty rawDataSize m pRawData pCount vals =
     on_handle (Some (ZE_RESULT_ERROR_INVALID_NULL_HANDLE, 0, vals)) hMetricGroup (\<lambda>g.
       map_option (caught (ZE_RESULT_ERROR_UNKNOWN, 0, vals))
         (calculateMetricValues_typed g ty rawDataSize m pRawData pCount vals))"

text \<open>\<open>Context::activateMetricGroups\<close> is the inner test; the context is its descriptor.\<close>

definition zetContextActivateMetricGroups ::
  "int option \<Rightarrow> bool \<Rightarrow> u32 \<Rightarrow> nat list option \<Rightarrow> metric_device \<Rightarrow> ze_result \<times> metric_device" where
  "zetContextActivateMetricGroups hContext hDevice cnt phMetricGroups d =
     on_handle (ZE_RESULT_ERROR_INVALID_NULL_HANDLE, d) hContext (\<lambda>fd.
       if \<not> hDevice then (ZE_RESULT_ERROR_INVALID_NULL_HANDLE, d)
       else Device_activateMetricGroups fd cnt phMetricGroups d)"

definition zetMetricStreamerOpen ::
  "metric_device \<Rightarrow> 'k dev_ctx option \<Rightarrow> bool \<Rightarrow> nat option \<Rightarrow> (u32 \<times> u32) option \<Rightarrow> event_obj option \<Rightarrow> bool
     \<Rightarrow> (ze_result \<times> metric_streamer option \<times> event_obj option) \<times> 'k dev_ctx option" where
  "zetMetricStreamerOpen md hContext hDevice hMetricGroup pDesc hNotificationEvent phMetricStreamer =
     on_handle ((ZE_RESULT_ERROR_INVALID_NULL_HANDLE, None, hNotificationEvent), None) hContext (\<lambda>c.
       map_prod id Some (metricStreamerOpen md hDevice hMetricGroup pDesc hNotificationEvent phMetricStreamer c))"

definition zetMetricStreamerClose ::
  "metric_device \<Rightarrow> metric_streamer option \<Rightarrow> 'k dev_ctx \<Rightarrow> ze_result \<times> 'k dev_ctx" where
  "zetMetricStreamerClose md hMetricStreamer c =
     on_handle (ZE_RESULT_ERROR_INVALID_NULL_HANDLE, c) hMetricStreamer (\<lambda>ms. metricStreamerClose md ms c)"

definition zetMetricStreamerReadData ::
  "metric_device \<Rightarrow> metric_streamer option \<Rightarrow> u32 \<Rightarrow> u64 option \<Rightarrow> u64 \<Rightarrow> 'k dev_ctx
     \<Rightarrow> (ze_result \<times> u64 \<times> metric_streamer option) \<times> 'k dev_ctx" where
  "zetMetricStreamerReadData md hMetricStreamer maxReportCount pRawDataSize pRawData c =
     on_handle ((ZE_RESULT_ERROR_INVALID_NULL_HANDLE, 0, None), c) hMetricStreamer (\<lambda>ms.
       case metricStreamerReadData md maxReportCount pRawDataSize pRawData ms c of
         ((r, n, ms'), c') \<Rightarrow> ((r, n, Some ms'), c'))"

definition zetCommandListAppendMetricStreamerMarker :: ze_result where
  "zetCommandListAppendMetricStreamerMarker = ZE_RESULT_ERROR_UNSUPPORTED_FEATURE"

definition zetMetricQueryPoolCreate ::
  "metric_device \<Rightarrow> 'k dev_ctx option \<Rightarrow> bool \<Rightarrow> nat option \<Rightarrow> (bool \<times> u32) option \<Rightarrow> bool
     \<Rightarrow> (ze_result \<times> metric_query_pool option) \<times> 'k dev_ctx option" where
  "zetMetricQueryPoolCreate md hContext hDevice hMetricGroup desc phMetricQueryPool =
     on_handle ((ZE_RESULT_ERROR_INVALID_NULL_HANDLE, None), None) hContext (\<lambda>c.
       map_prod (caught (ZE_RESULT_ERROR_UNKNOWN, None)) Some
         (createMetricQueryPool md hDevice hMetricGroup desc phMetricQueryPool c))"

definition zetMetricQueryPoolDestroy ::
  "metric_query_pool option \<Rightarrow> 'k dev_ctx \<Rightarrow> (ze_result \<times> metric_query_pool option) \<times> 'k dev_ctx" where
  "zetMetricQueryPoolDestroy hMetricQueryPool c =
     on_handle ((ZE_RESULT_ERROR_INVALID_NULL_HANDLE, None), c) hMetricQueryPool (\<lambda>p. MetricQueryPool_destroy p c)"

definition zetMetricQueryCreate ::
  "metric_device \<Rightarrow> metric_query_pool option \<Rightarrow> u32 \<Rightarrow> bool \<Rightarrow> 'k dev_ctx
     \<Rightarrow> (ze_result \<times> metric_query_pool option) \<times> 'k dev_ctx" where
  "zetMetricQueryCreate md hMetricQueryPool index phMetricQuery c =
     on_handle ((ZE_RESULT_ERROR_INVALID_NULL_HANDLE, None), c) hMetricQueryPool (\<lambda>p.
       case createMetricQuery md index phMetricQuery p c of ((r, p'), c') \<Rightarrow> ((r, Some p'), c'))"

text \<open>A query is its place in its pool, or the query itself where it only reads the pool.\<close>

definition zetMetricQueryDestroy ::
  "nat option \<Rightarrow> metric_query_pool \<Rightarrow> 'k dev_ctx \<Rightarrow> (ze_result \<times> metric_query_pool) \<times> 'k dev_ctx" where
  "zetMetricQueryDestroy hMetricQuery p c =
     on_handle ((ZE_RESULT_ERROR_INVALID_NULL_HANDLE, p), c) hMetricQuery (\<lambda>i. MetricQuery_destroy i p c)"

definition zetMetricQueryReset :: "metric_device \<Rightarrow> metric_query option \<Rightarrow> 'k dev_ctx \<Rightarrow> ze_result \<times> 'k dev_ctx" where
  "zetMetricQueryReset md hMetricQuery c =
     on_handle (ZE_RESULT_ERROR_INVALID_NULL_HANDLE, c) hMetricQuery (\<lambda>q. MetricQuery_reset md q c)"

definition zetMetricQueryGetData ::
  "metric_device \<Rightarrow> metric_query option \<Rightarrow> u64 option \<Rightarrow> u64 \<Rightarrow> 'k dev_ctx \<Rightarrow> (ze_result \<times> u64) \<times> 'k dev_ctx" where
  "zetMetricQueryGetData md hMetricQuery pRawDataSize pRawData c =
     on_handle ((ZE_RESULT_ERROR_INVALID_NULL_HANDLE, 0), c) hMetricQuery (\<lambda>q.
       MetricQuery_getData md q pRawDataSize pRawData c)"

definition zetCommandListAppendMetricQueryBegin ::
  "l0_env \<Rightarrow> nat option \<Rightarrow> bool \<Rightarrow> metric_query option \<Rightarrow> ('h, 'k, ze_result) api_op" where
  "zetCommandListAppendMetricQueryBegin env hCommandList active hMetricQuery =
     api_handle hCommandList (\<lambda>l. appendMetricQueryBegin env l active hMetricQuery)"

definition zetCommandListAppendMetricQueryEnd ::
  "l0_env \<Rightarrow> nat option \<Rightarrow> bool \<Rightarrow> metric_query option \<Rightarrow> event_handle option \<Rightarrow> u32 \<Rightarrow> events_arg \<Rightarrow> ('h, 'k, ze_result) api_op" where
  "zetCommandListAppendMetricQueryEnd env hCommandList active hMetricQuery hSignalEvent numWaitEvents phWaitEvents =
     api_handle hCommandList (\<lambda>l. appendMetricQueryEnd env l active hMetricQuery hSignalEvent numWaitEvents phWaitEvents)"

definition zetCommandListAppendMetricMemoryBarrier :: ze_result where
  "zetCommandListAppendMetricMemoryBarrier = ZE_RESULT_ERROR_UNSUPPORTED_FEATURE"

section \<open>What the entry points keep to\<close>

lemma min_count: "(if n > of_nat k then of_nat k else n) = min n (of_nat k :: u32)"
  by (auto simp: min_def not_less)

lemma extensions_few: "getSupportedExtensions k h \<noteq> []" "length (getSupportedExtensions k h) < 2 ^ 32"
  by (simp_all add: getSupportedExtensions_def)

text \<open>The extensions are listed by the protocol that the other lists follow.\<close>

interpretation extension_list: enumeration
  "\<lambda>n. Inr (zeDriverGetExtensionProperties k (Some h) (Some n) True)" "getSupportedExtensions k h" for k h
proof
  let ?es = "getSupportedExtensions k h"
  show "length ?es < 2 ^ 32" by (rule extensions_few)
  show "Inr (zeDriverGetExtensionProperties k (Some h) (Some 0) True) = Inr (ZE_RESULT_SUCCESS, of_nat (length ?es), [])"
    by (simp add: zeDriverGetExtensionProperties_def on_handle_def Let_def)
  fix n :: u32 assume n: "n \<noteq> 0"
  have u: "unat (of_nat (length ?es) :: u32) = length ?es"
    using extensions_few(2) by (simp add: unat_of_nat take_bit_nat_eq_self)
  have "unat (min n (of_nat (length ?es))) = min (unat n) (length ?es)"
    using u by (metis (mono_tags, lifting) min_def word_le_nat_alt)
  moreover have "map ((!) ?es) [0..<min (unat n) (length ?es)] = take (unat n) ?es"
    by (intro nth_equalityI) auto
  ultimately show "Inr (zeDriverGetExtensionProperties k (Some h) (Some n) True) =
      Inr (ZE_RESULT_SUCCESS, min n (of_nat (length ?es)), take (unat n) ?es)"
    using n by (simp add: zeDriverGetExtensionProperties_def on_handle_def Let_def)
qed

text \<open>
  Every extension that the driver lists and that has functions is found by its name, if the name of the
  graph extension is the common part of those of its versions.
\<close>

lemma contains_prefix: "take (length part) s = part \<Longrightarrow> contains_string s part"
  unfolding contains_string_def list_ex_iff by (intro bexI[of _ 0]) auto

lemma extension_found:
  "name \<in> {PROFILING_DATA_EXT_NAME k, COMMAND_QUEUE_NPU_EXT_NAME k, CONTEXT_NPU_EXT_NAME k} \<or>
     contains_string name (GRAPH_EXT_NAME k) \<Longrightarrow>
   fst (zeDriverGetExtensionFunctionAddress k (Some h) (Some name) True) = ZE_RESULT_SUCCESS"
  by (auto simp: zeDriverGetExtensionFunctionAddress_def on_handle_def)

theorem listed_functions_found:
  assumes "GRAPH_EXT_NAME k = ''ZE_extension_graph''"
    and "\<forall>name \<in> {PROFILING_DATA_EXT_NAME k, COMMAND_QUEUE_NPU_EXT_NAME k, CONTEXT_NPU_EXT_NAME k}. length name < 256"
    and "(name, v) \<in> set (getSupportedExtensions k h)"
    and "name \<noteq> take 255 (MUTABLE_COMMAND_LIST_NAME k)" "name \<noteq> take 255 (EXTERNAL_MEMORY_MAPPING_EXT_NAME k)"
  shows "fst (zeDriverGetExtensionFunctionAddress k (Some h) (Some name) True) = ZE_RESULT_SUCCESS"
proof -
  have short: "take 255 (''ZE_extension_graph_1_'' @ to_string i) = ''ZE_extension_graph_1_'' @ to_string i" if "i < 9" for i
    using that by (simp add: to_string_def)
  have "name = ''ZE_extension_graph'' \<or>
      name \<in> {PROFILING_DATA_EXT_NAME k, COMMAND_QUEUE_NPU_EXT_NAME k, CONTEXT_NPU_EXT_NAME k} \<or>
      (\<exists>i < 9. name = ''ZE_extension_graph_1_'' @ to_string i)"
    using assms(1-3) assms(4,5) short unfolding getSupportedExtensions_def set_append set_map
    by (auto simp: extension_def ZE_MAX_EXTENSION_NAME_def simp del: upt_rec_numeral split: if_splits)
  then show ?thesis
    using assms(1) by (intro extension_found) (auto intro!: contains_prefix)
qed

text \<open>C37: What zexDiskCacheGetDirectory writes, the path and its terminator, stays within the length that the
  caller gives for its buffer, unless that length is zero: then the length of the copy wraps around, and
  the whole path is written.\<close>

theorem cache_directory_fits:
  assumes "zexDiskCacheGetDirectory dc path (Some len) = (ZE_RESULT_SUCCESS, Some (written, n))"
    and "length (cachePath dc) < 2 ^ 64 - 1"
  shows "(length written \<le> unat len \<longleftrightarrow> len \<noteq> 0) \<and> unat n + 1 = length written \<and>
    written = take (unat n) (cachePath dc) @ [CHR 0x00] \<and> (len = 0 \<longrightarrow> unat n = length (cachePath dc))"
proof -
  let ?c = "take (unat (len - 1)) (cachePath dc)"
  have w: "written = ?c @ [CHR 0x00]" "n = of_nat (length ?c)"
    using assms(1) by (auto simp: zexDiskCacheGetDirectory_def Let_def split: if_splits)
  have n: "unat n = length ?c" using assms(2) w(2) by (simp add: unat_of_nat_64)
  show ?thesis
  proof (cases "len = 0")
    case True
    then have "unat (len - 1) = 2 ^ 64 - 1" by (simp add: unsigned_minus_1_eq_mask mask_eq_exp_minus_1)
    then show ?thesis using True w n assms(2) by simp
  next
    case False
    then have "unat (len - 1) = unat len - 1" by (simp add: unat_minus_one)
    then show ?thesis using False w n unat_gt_0[of len] by (auto simp: min_def)
  qed
qed

lemma cache_directory_fits_witness:
  "zexDiskCacheGetDirectory \<lparr>cachePath = ''/c'', maxSize = 0\<rparr> True (Some 2) = (ZE_RESULT_SUCCESS, Some (''/'' @ [CHR 0x00], 1)) \<and>
   length (''/'' @ [CHR 0x00]) \<le> unat (2 :: u64)"
  using cache_directory_fits[of "\<lparr>cachePath = ''/c'', maxSize = 0\<rparr>" True 2 "''/'' @ [CHR 0x00]" 1]
  by (simp add: zexDiskCacheGetDirectory_def)

end
