(* ===== verification/L0_Driver_Props.thy ===== *)
theory L0_Driver_Props
  imports L0_Driver "HOL-Library.Sublist"
begin

text \<open>
  The initialisation of the driver: what it finds, that it happens once, and that the handle it makes
  is well-formed, and the lists of drivers and devices.
\<close>

section \<open>The search for devices\<close>

text \<open>The name of a node determines its number.\<close>

lemma to_string_value:
  "foldl (\<lambda>v ch. v * 10 + Null_Device.digit_value ch) 0 (to_string_aux n acc)
     = foldl (\<lambda>v ch. v * 10 + Null_Device.digit_value ch) n acc"
proof (induction n acc rule: to_string_aux.induct)
  case (1 n acc)
  have d: "Null_Device.digit_value (char_of (48 + n mod 10)) = n mod 10"
    by (simp add: Null_Device.digit_value_def of_char_of Let_def)
  have "foldl (\<lambda>v ch. v * 10 + Null_Device.digit_value ch) (n div 10) (char_of (48 + n mod 10) # acc)
      = foldl (\<lambda>v ch. v * 10 + Null_Device.digit_value ch) n acc"
    by (simp add: d)
  then show ?case using 1 d by (cases "n < 10") (simp_all add: Let_def del: to_string_aux.simps add: to_string_aux.simps[of n])
qed

lemma to_string_inj: "to_string m = to_string n \<longleftrightarrow> m = n"
  using to_string_value[of m "[]"] to_string_value[of n "[]"] by (auto simp: to_string_def)

definition node_path :: "nat \<Rightarrow> string" where
  "node_path minor = devPrefix @ to_string minor"

lemma node_path_inj: "inj node_path"
  by (simp add: inj_def node_path_def to_string_inj)

lemma find_devices_paths:
  "find_devices os ms vec minors w = Some (ns, w') \<Longrightarrow> subseq (map snd ns) (map node_path minors)"
proof (induction minors arbitrary: ns w)
  case (Cons m minors)
  obtain r w1 where i: "device_init os (devPrefix @ to_string m) ms (vec m) w = Some (r, w1)"
    using Cons.prems by (auto split: option.splits)
  show ?case
  proof (cases r)
    case None
    then show ?thesis using Cons.prems Cons.IH i by auto
  next
    case (Some v)
    then obtain vs where "find_devices os ms vec minors w1 = Some (vs, w')" "ns = (v, devPrefix @ to_string m) # vs"
      using Cons.prems i by auto
    then show ?thesis using Cons.IH by (auto simp: node_path_def)
  qed
qed simp

text \<open>Every device that is found was initialised at its node, in a world that the search reached.\<close>

lemma find_devices_initialised:
  assumes "find_devices os ms vec minors w = Some (ns, w')" "(v, p) \<in> set ns"
  shows "\<exists>minor w1 w2. minor \<in> set minors \<and> p = node_path minor \<and> device_init os p ms (vec minor) w1 = Some (Some v, w2)"
  using assms
proof (induction minors arbitrary: ns w)
  case (Cons m minors)
  obtain r w1 where i: "device_init os (devPrefix @ to_string m) ms (vec m) w = Some (r, w1)"
    using Cons.prems by (auto split: option.splits)
  show ?case
  proof (cases r)
    case None
    then show ?thesis using Cons i by (metis (no_types, lifting) case_prod_conv find_devices.simps(2) list.set_intros(2) option.simps(4,5))
  next
    case (Some u)
    then obtain vs where vs: "find_devices os ms vec minors w1 = Some (vs, w')" "ns = (u, devPrefix @ to_string m) # vs"
      using Cons.prems(1) i by auto
    show ?thesis
    proof (cases "(v, p) \<in> set vs")
      case True
      then show ?thesis using Cons.IH[OF vs(1)] by auto
    next
      case False
      then have "v = u" "p = node_path m" using Cons.prems(2) vs(2) by (auto simp: node_path_def)
      then show ?thesis using i Some by (auto simp: node_path_def)
    qed
  qed
qed simp

lemma subseq_distinct: "distinct ys \<Longrightarrow> subseq xs ys \<Longrightarrow> distinct xs"
  by (auto simp: subseq_conv_nths)

lemma createDevices_found:
  assumes "createDevices os ms vec w = Some (ns, w')"
  shows "distinct (map snd ns)" "length ns \<le> 64"
proof -
  have s: "subseq (map snd ns) (map node_path [0..<64])"
    using find_devices_paths assms unfolding createDevices_def by blast
  have "distinct (map node_path [0..<64])"
    using node_path_inj by (simp add: distinct_map inj_on_def)
  then show "distinct (map snd ns)" using s by (rule subseq_distinct)
  show "length ns \<le> 64" using list_emb_length[OF s] by simp
qed

section \<open>Initialisation\<close>

lemma new_devices_nodes: "new_devices vcl b ns cs = (ds, cs') \<Longrightarrow> map ld_node ds = ns"
  by (induction ns arbitrary: cs ds) (auto simp: Let_def split: prod.splits)

text \<open>A handle of the driver that is well-formed: it has devices, and counts them.\<close>

definition handle_ok :: "driver_handle \<Rightarrow> bool" where
  "handle_ok h \<longleftrightarrow> dh_devices h \<noteq> [] \<and> length (dh_devices h) \<le> 64 \<and> numDevices h = of_nat (length (dh_devices h)) \<and>
     distinct (map (snd \<circ> ld_node) (dh_devices h))"

lemma handle_created:
  assumes "createDevices os ms vec w = Some (ns, w')" "ns \<noteq> []"
  shows "\<exists>h cs'. DriverHandle_create vcl b ns cs = (Inr (Some h), cs') \<and> handle_ok h \<and> map ld_node (dh_devices h) = ns"
proof -
  obtain ds cs1 where d: "new_devices vcl b ns cs = (ds, cs1)" by force
  have n: "map ld_node ds = ns" using new_devices_nodes[OF d] .
  then have l: "length ds = length ns" by auto
  have "length ds \<le> 64" using createDevices_found[OF assms(1)] l by simp
  moreover have "safe_cast_u32 (of_nat (length ds)) = Inr (of_nat (length ds))"
    using calculation by (intro safe_count) simp
  moreover have "map (snd \<circ> ld_node) ds = map snd ns" using n by (metis map_map)
  moreover have "ds \<noteq> []" using l assms(2) by auto
  ultimately show ?thesis
    using createDevices_found(1)[OF assms(1)] assms(2) d n by (simp add: DriverHandle_create_def handle_ok_def)
qed

definition driver_ok :: "'k driver \<Rightarrow> bool" where
  "driver_ok d \<longleftrightarrow>
     (if initDriverOnce d
      then (case pGlobalDriverHandle d of
              None \<Rightarrow> initStatus d = ZE_RESULT_ERROR_UNINITIALIZED
            | Some h \<Rightarrow> initStatus d = ZE_RESULT_SUCCESS \<and> handle_ok h)
      else initStatus d = ZE_RESULT_ERROR_UNINITIALIZED \<and> pGlobalDriverHandle d = None)"

lemma driver_init_result:
  assumes "driver_ok d" "driverInit ie d = Some (x, d')"
  shows "x = Inr () \<and> driver_ok d' \<and> initDriverOnce d'"
proof (cases "initDriverOnce d")
  case True
  then show ?thesis using assms by (simp add: driverInit_def)
next
  case False
  then obtain d1 where b: "driver_init_body ie d = Some (x, d1)" and d': "d' = (case x of Inl e \<Rightarrow> d1 | Inr u \<Rightarrow> d1\<lparr>initDriverOnce := True\<rparr>)"
    using assms(2) by (auto simp: driverInit_def)
  have d: "initStatus d = ZE_RESULT_ERROR_UNINITIALIZED" "pGlobalDriverHandle d = None"
    using assms(1) False by (simp_all add: driver_ok_def)
  define oi where "oi = (case osInfc d of None \<Rightarrow> getOsInstance (ie_getenv ie) (ie_nullOs ie) (ie_realOs ie) | Some os \<Rightarrow> Some os)"
  show ?thesis
  proof (cases oi)
    case None
    then show ?thesis using b d' d by (auto simp: driver_init_body_def Let_def oi_def[symmetric] driver_ok_def)
  next
    case (Some os)
    let ?m = "env_metrics (initializeEnvVariables (ie_getenv ie) (envVariables d))"
    obtain ns w where c: "createDevices os ?m (ie_vec ie) (drv_world d) = Some (ns, w)"
      using b Some by (auto simp: driver_init_body_def Let_def oi_def[symmetric] split: option.splits)
    show ?thesis
    proof (cases "ns = []")
      case True
      then show ?thesis using b d' d c Some
        by (auto simp: driver_init_body_def Let_def oi_def[symmetric] driver_ok_def)
    next
      case False
      obtain h cs' where "DriverHandle_create (ie_vcl ie) ?m ns (drv_compiler d) = (Inr (Some h), cs')" "handle_ok h"
        using handle_created[OF c False] by blast
      then show ?thesis using b d' d c Some False
        by (auto simp: driver_init_body_def Let_def oi_def[symmetric] driver_ok_def)
    qed
  qed
qed

text \<open>Any calls of \<open>zeInit\<close>, with any flags and in any environment, on one compiler library.\<close>

inductive reachable_driver :: "('c, 'p, 'q) vcl \<Rightarrow> 'k driver \<Rightarrow> bool" for vcl where
  start: "reachable_driver vcl (new_driver cs w)"
| init: "reachable_driver vcl d \<Longrightarrow> ie_vcl ie = vcl \<Longrightarrow> L0_init ie flags d = Some (x, d') \<Longrightarrow> reachable_driver vcl d'"

lemma reachable_driver_ok: "reachable_driver vcl d \<Longrightarrow> driver_ok d"
proof (induction rule: reachable_driver.induct)
  case (init d ie flags x d')
  then show ?case using driver_init_result[OF init.IH] by (auto simp: L0_init_def split: if_splits)
qed (simp add: new_driver_def driver_ok_def)

lemma map_sum_status: "map_sum id (\<lambda>u. r) x = Inr r' \<Longrightarrow> r = r'"
  by (cases x) auto

lemma init_status: "L0_init ie flags d = Some (Inr ZE_RESULT_SUCCESS, d') \<Longrightarrow> initStatus d' = ZE_RESULT_SUCCESS"
  by (auto simp: L0_init_def split: if_splits dest: map_sum_status)

lemma init_again:
  "initDriverOnce d \<Longrightarrow> flags = 0 \<or> flags AND ZE_INIT_FLAG_VPU_ONLY \<noteq> 0 \<Longrightarrow> L0_init ie flags d = Some (Inr (initStatus d), d)"
  by (auto simp: L0_init_def driverInit_def)

text \<open>C6: The driver is initialised once: after any earlier calls, a call of zeInit with flags that admit the NPU
  either finds a well-formed handle, with 1 to 64 devices at distinct nodes and their exact count, and
  reports success, or finds none and reports that the driver is not initialised; and every later call,
  in whatever environment, gives the same answer and leaves the driver as it is.\<close>

theorem driver_initialised_once:
  assumes "reachable_driver vcl d" "L0_init ie flags d = Some (x, d')"
    and "flags = 0 \<or> flags AND ZE_INIT_FLAG_VPU_ONLY \<noteq> 0" "flags' = 0 \<or> flags' AND ZE_INIT_FLAG_VPU_ONLY \<noteq> 0"
  shows "(case pGlobalDriverHandle d' of
            None \<Rightarrow> x = Inr ZE_RESULT_ERROR_UNINITIALIZED
          | Some h \<Rightarrow> x = Inr ZE_RESULT_SUCCESS \<and> 1 \<le> length (dh_devices h) \<and> length (dh_devices h) \<le> 64 \<and>
              unat (numDevices h) = length (dh_devices h) \<and> distinct (map (snd \<circ> ld_node) (dh_devices h))) \<and>
         L0_init ie' flags' d' = Some (x, d')"
proof -
  obtain y where i: "driverInit ie d = Some (y, d')" and x: "x = map_sum id (\<lambda>u. initStatus d') y"
    using assms(2,3) by (auto simp: L0_init_def)
  have y: "y = Inr ()" "driver_ok d'" "initDriverOnce d'"
    using driver_init_result[OF reachable_driver_ok[OF assms(1)] i] by simp_all
  have "unat (numDevices h) = length (dh_devices h)" if "handle_ok h" for h
    using that by (auto simp: handle_ok_def unat_of_nat take_bit_nat_eq_self)
  then show ?thesis
    using x y init_again[OF y(3) assms(4), of ie'] by (auto simp: driver_ok_def handle_ok_def Suc_le_eq split: option.splits)
qed

section \<open>The lists\<close>

lemma devices_listed:
  assumes "handle_ok h"
  shows "enumeration (\<lambda>n. getDevice h (Some n) True) (dh_devices h)"
proof
  let ?ds = "dh_devices h"
  have l: "length ?ds \<le> 64" "numDevices h = of_nat (length ?ds)" using assms by (simp_all add: handle_ok_def)
  then have u: "unat (numDevices h) = length ?ds" by (simp add: unat_of_nat take_bit_nat_eq_self)
  show "length ?ds < 2 ^ 32" using l by simp
  show "getDevice h (Some 0) True = Inr (ZE_RESULT_SUCCESS, of_nat (length ?ds), [])" by (simp add: getDevice_def l)
  fix n :: u32 assume n: "n \<noteq> 0"
  have "map ((!) ?ds) [0..<min (unat n) (length ?ds)] = take (unat n) ?ds"
    by (intro nth_equalityI) auto
  moreover have "unat (min n (numDevices h)) = min (unat n) (length ?ds)"
    using u by (metis (mono_tags, lifting) min_def word_le_nat_alt)
  moreover have "(if n > numDevices h then numDevices h else n) = min n (numDevices h)" by (auto simp: min_def not_less)
  ultimately show "getDevice h (Some n) True = Inr (ZE_RESULT_SUCCESS, min n (of_nat (length ?ds)), take (unat n) ?ds)"
    using n by (simp add: getDevice_def Let_def l(2)[symmetric])
qed

lemma driver_listed:
  assumes "driver_ok d" "initStatus d = ZE_RESULT_SUCCESS"
  shows "enumeration (\<lambda>n. driverHandleGet d (Some n) True) [pGlobalDriverHandle d]"
proof
  fix n :: u32 assume n: "n \<noteq> 0"
  then obtain k where "unat n = Suc k" by (metis not0_implies_Suc unat_eq_zero)
  moreover have "min n 1 = 1" using n by (metis min_def order_antisym word_less_1 not_le)
  ultimately show "driverHandleGet d (Some n) True =
      Inr (ZE_RESULT_SUCCESS, min n (of_nat (length [pGlobalDriverHandle d])), take (unat n) [pGlobalDriverHandle d])"
    using n assms(2) by (simp add: driverHandleGet_def)
qed (use assms(2) in \<open>simp_all add: driverHandleGet_def\<close>)

text \<open>C36: An application reaches every device exactly once by the calls that list: after a successful
  initialisation the two calls of zeDriverGet give the one driver, and the two calls of zeDeviceGet on
  it give all its devices, at least one, no two at the same node.\<close>

theorem devices_enumerated:
  assumes "reachable_driver vcl d" "L0_init ie flags d = Some (Inr ZE_RESULT_SUCCESS, d')"
    and "driverHandleGet d' (Some 0) True = Inr (r0, n0, hs0)"
  shows "\<exists>h. driverHandleGet d' (Some n0) True = Inr (ZE_RESULT_SUCCESS, n0, [Some h]) \<and>
    (\<exists>n. getDevice h (Some 0) True = Inr (ZE_RESULT_SUCCESS, n, []) \<and>
       getDevice h (Some n) True = Inr (ZE_RESULT_SUCCESS, n, dh_devices h) \<and>
       dh_devices h \<noteq> [] \<and> distinct (map (snd \<circ> ld_node) (dh_devices h)))"
proof -
  obtain y where i: "driverInit ie d = Some (y, d')"
    using assms(2) by (auto simp: L0_init_def split: if_splits)
  have ok: "driver_ok d'" using driver_init_result[OF reachable_driver_ok[OF assms(1)] i] by simp
  note s = init_status[OF assms(2)]
  then obtain h where h: "pGlobalDriverHandle d' = Some h" "handle_ok h" using ok by (auto simp: driver_ok_def split: if_splits option.splits)
  note dev = devices_listed[OF h(2)]
  show ?thesis
    using enumeration.two_calls[OF driver_listed[OF ok s] _ assms(3)] enumeration.ask[OF dev] h
      enumeration.two_calls[OF dev _ enumeration.ask[OF dev]] by (auto simp: handle_ok_def)
qed

end
