(* ===== verification/Null_Driver.thy ===== *)
theory Null_Driver
  imports L0_Driver_Props
begin

text \<open>
  The driver on the null device: from the variables of the environment that describe the device, over
  the ioctls that the null interface answers, to what the driver finds and an application reads.
\<close>

section \<open>The answers of the null interface\<close>

lemma null_once: "0 \<le> fd \<Longrightarrow> doIoctl null_os fd (Some a) w = Some (null_ioctl fd (Some a) w)"
  using null_os.doIoctl_once[of fd a w] by (simp add: null_os_def)

lemma null_param:
  "0 \<le> fd \<Longrightarrow> getDeviceParam null_os fd p i ign w =
     (case getParamValue \<lparr>param = p, param_index = i, param_value = 0\<rparr> w of
        (r, p', w') \<Rightarrow> Some (if r \<noteq> 0 then (if ign then (Inr 0, w') else (Inl Runtime_error, w')) else (Inr (param_value p'), w')))"
  by (simp add: getDeviceParam_def null_once split: prod.split)

lemma null_capability:
  "0 \<le> fd \<Longrightarrow> checkDeviceCapability null_os fd i w = Some (i = DRM_IVPU_CAP_DMA_MEMORY_RANGE, w)"
  by (simp add: checkDeviceCapability_def null_once getParamValue_def Let_def drm_params)

lemma null_prime: "0 \<le> fd \<Longrightarrow> checkPrimeBuffersCapability null_os fd w = Some (False, fail_EINVAL w)"
  by (simp add: checkPrimeBuffersCapability_def null_once)

lemma null_is_vpu: "0 \<le> fd \<Longrightarrow> isVpuDevice null_os fd w = Some (True, w)"
  by (simp add: isVpuDevice_def null_once empty_version_def umdIoctlVersionMajor_def
      umdIoctlDeviceName1_def umdIoctlDeviceName2_def strncpy_def Let_def)

lemma kern_EINVAL [simp]: "kern (fail_EINVAL w) = kern w"
  by (simp add: fail_EINVAL_def)

lemma ucast_back: "(ucast (ucast (v :: u32) :: u64) :: u32) = v" "(ucast (ucast (x :: u16) :: u64) :: u16) = x"
  by (simp_all add: bit_eq_iff bit_simps)

lemma narrow_small: "uint v < 2 ^ bits \<Longrightarrow> narrow_param bits (Inr v) = Inr v"
  by (simp add: narrow_param_def)

lemma narrow_ucast32: "narrow_param 32 (Inr (ucast (v :: u32))) = Inr (ucast v)"
  by (rule narrow_small) (use uint_bounded[of v] in \<open>simp add: uint_up_ucast is_up\<close>)

lemma narrow_ucast16: "narrow_param 16 (Inr (ucast (v :: u16))) = Inr (ucast v)"
  by (rule narrow_small) (use uint_bounded[of v] in \<open>simp add: uint_up_ucast is_up\<close>)

text \<open>What the driver takes over from the table of the null device.\<close>

definition null_version :: "hw_info \<Rightarrow> u32 \<Rightarrow> u64" where
  "null_version hw i = (if i = fwMappedInferenceIndex hw then fwMappedInferenceVersion hw else 0)"

definition null_reported :: "hw_info \<Rightarrow> hw_info \<Rightarrow> hw_info" where
  "null_reported hw table = table\<lparr>deviceId := deviceId hw, deviceRevision := deviceRevision hw,
     maxHardwareContexts := 64, coreClockRate := 0, platformType := 0,
     fwMappedInferenceVersion := null_version hw (fwMappedInferenceIndex table),
     fwJsmCmdApiVersion := null_version hw (fwJsmCmdApiVerIndex table),
     fwJsmApiVersion := null_version hw (fwJsmApiVerIndex table),
     tileConfig := NOT (tileConfig hw) AND tileFuseMask table, fwPreemptBufSize := 0\<rparr>"

lemma null_narrow:
  "0 \<le> fd \<Longrightarrow> narrow_device_param 32 null_os fd DRM_IVPU_PARAM_DEVICE_ID w = Some (Inr (ucast (deviceId (nullHwInfo (kern w)))), w)"
  "0 \<le> fd \<Longrightarrow> narrow_device_param 16 null_os fd DRM_IVPU_PARAM_DEVICE_REVISION w = Some (Inr (ucast (deviceRevision (nullHwInfo (kern w)))), w)"
  "0 \<le> fd \<Longrightarrow> narrow_device_param 32 null_os fd DRM_IVPU_PARAM_NUM_CONTEXTS w = Some (Inr 64, w)"
  "0 \<le> fd \<Longrightarrow> narrow_device_param 32 null_os fd DRM_IVPU_PARAM_CORE_CLOCK_RATE w = Some (Inr 0, w)"
  "0 \<le> fd \<Longrightarrow> narrow_device_param 32 null_os fd DRM_IVPU_PARAM_PLATFORM_TYPE w = Some (Inr 0, w)"
  "0 \<le> fd \<Longrightarrow> narrow_device_param 32 null_os fd DRM_IVPU_PARAM_TILE_CONFIG w = Some (Inr (ucast (tileConfig (nullHwInfo (kern w)))), w)"
  "0 \<le> fd \<Longrightarrow> device_param null_os fd DRM_IVPU_PARAM_FW_API_VERSION i False w = Some (Inr (null_version (nullHwInfo (kern w)) i), w)"
  "0 \<le> fd \<Longrightarrow> device_param null_os fd DRM_IVPU_PARAM_PREEMPT_BUFFER_SIZE 0 True w = Some (Inr 0, fail_EINVAL w)"
  by (simp_all add: narrow_device_param_def device_param_def dev_bind_def dev_pure_def null_param getParamValue_def Let_def
      drm_params narrow_ucast32 narrow_ucast16 narrow_small null_version_def)

lemma dev_bind_step: "m w = Some (Inr x, w') \<Longrightarrow> dev_bind m f w = f x w'"
  by (simp add: dev_bind_def)

lemma null_read_caps:
  assumes "0 \<le> fd" "getHwInfoByDeviceId (deviceId (nullHwInfo (kern w))) = Inr table"
  shows "read_caps null_os fd w = Some (Inr (null_reported (nullHwInfo (kern w)) table), fail_EINVAL w)"
  unfolding read_caps_def
  by (simp add: dev_bind_step[OF null_narrow(1)] dev_bind_step[OF null_narrow(2)] dev_bind_step[OF null_narrow(3)]
      dev_bind_step[OF null_narrow(4)] dev_bind_step[OF null_narrow(5)] dev_bind_step[OF null_narrow(6)]
      dev_bind_step[OF null_narrow(7)] dev_bind_step[OF null_narrow(8)] dev_bind_def[of "dev_pure _"] dev_pure_def assms
      ucast_back dev_return_def null_reported_def)

lemma null_caps:
  assumes "0 \<le> fd" "getHwInfoByDeviceId (deviceId (nullHwInfo (kern w))) = Inr table"
  shows "\<exists>vs w'. initializeCaps null_os fd w =
      Some (Some ((null_reported (nullHwInfo (kern w)) table)\<lparr>dmaMemoryRangeCapability := True\<rparr>, vs), w')"
proof -
  let ?hw = "null_reported (nullHwInfo (kern w)) table" and ?w = "fail_EINVAL w"
  have c: "read_capabilities null_os fd ?hw ?w = Some (Inr (?hw\<lparr>dmaMemoryRangeCapability := True\<rparr>), fail_EINVAL ?w)"
    unfolding read_capabilities_def dev_bind_def dev_call_def
    by (simp add: null_prime null_capability assms(1) dev_return_def drm_params)
  have v: "\<exists>s w'. getFWComponentVersion null_os fd i u = Some (s, w')" for i u
    using null_os.getDeviceParam_returns by (auto simp: getFWComponentVersion_def split: option.splits)
  obtain s1 w1 where 1: "getFWComponentVersion null_os fd (fwJsmApiVerIndex ?hw) (fail_EINVAL ?w) = Some (s1, w1)" using v by blast
  obtain s2 w2 where 2: "getFWComponentVersion null_os fd (fwJsmCmdApiVerIndex ?hw) w1 = Some (s2, w2)" using v by blast
  obtain s3 w3 where 3: "getFWComponentVersion null_os fd (fwMappedInferenceIndex ?hw) w2 = Some (s3, w3)" using v by blast
  show ?thesis
    by (rule exI[of _ "(s1, s2, s3)"], rule exI[of _ w3])
      (simp add: initializeCaps_def null_read_caps[OF assms] c dev_call_def dev_bind_def 1 2 3 dev_return_def)
qed

lemma null_init:
  assumes "0 \<le> devnull_fd (kern w)" "getHwInfoByDeviceId (deviceId (nullHwInfo (kern w))) = Inr table"
    "\<not> metricStreamerCapability table"
  shows "\<exists>v w'. device_init null_os ''/dev/accel/accel0'' ms vec w = Some (Some v, w') \<and>
    dev_hwInfo v = (null_reported (nullHwInfo (kern w)) table)\<lparr>dmaMemoryRangeCapability := True\<rparr> \<and> groupsInfo v = []"
proof -
  let ?fd = "devnull_fd (kern w)"
  have o: "openDriverApi null_os ''/dev/accel/accel0'' w = (Some ?fd, w)"
    using assms(1) by (simp add: openDriverApi_def openDevice_def null_os_def null_open_def)
  obtain s1 s2 s3 w' where c: "initializeCaps null_os ?fd w =
      Some (Some ((null_reported (nullHwInfo (kern w)) table)\<lparr>dmaMemoryRangeCapability := True\<rparr>, s1, s2, s3), w')"
    using null_caps[OF assms(1,2)] by (metis prod.exhaust)
  show ?thesis
    using assms(3) by (simp add: device_init_def o init_opened_def null_is_vpu[OF assms(1)] c Let_def null_reported_def)
qed

lemma char_zero [simp]: "char_of (48 :: nat) = CHR ''0''"
  by code_simp

lemma null_absent:
  assumes "minor \<noteq> 0"
  shows "device_init null_os (node_path minor) ms vec w = Some (None, w)"
proof -
  have "to_string 0 = ''0''" by (simp add: to_string_def)
  then have "to_string minor \<noteq> ''0''" using to_string_inj[of minor 0] assms by metis
  then have "node_path minor \<noteq> ''/dev/accel/accel0''" by (simp add: node_path_def devPrefix_def)
  then show ?thesis
    by (simp add: device_init_def openDriverApi_def openDevice_def null_os_def null_open_def)
qed

lemma null_none: "0 \<notin> set minors \<Longrightarrow> find_devices null_os ms vec minors w = Some ([], w)"
  by (induction minors) (use null_absent in \<open>auto simp: node_path_def\<close>)

lemma null_found:
  assumes "0 \<le> devnull_fd (kern w)" "getHwInfoByDeviceId (deviceId (nullHwInfo (kern w))) = Inr table"
    "\<not> metricStreamerCapability table"
  shows "\<exists>v w'. createDevices null_os ms vec w = Some ([(v, ''/dev/accel/accel0'')], w') \<and>
    dev_hwInfo v = (null_reported (nullHwInfo (kern w)) table)\<lparr>dmaMemoryRangeCapability := True\<rparr> \<and> groupsInfo v = []"
proof -
  obtain v w' where i: "device_init null_os ''/dev/accel/accel0'' ms (vec 0) w = Some (Some v, w')"
    "dev_hwInfo v = (null_reported (nullHwInfo (kern w)) table)\<lparr>dmaMemoryRangeCapability := True\<rparr>" "groupsInfo v = []"
    using null_init[OF assms] by blast
  have "[0..<64] = 0 # [1..<64]" by (simp add: upt_conv_Cons)
  moreover have "devPrefix @ to_string 0 = ''/dev/accel/accel0''" by (simp add: devPrefix_def to_string_def)
  moreover have "find_devices null_os ms vec [1..<64] w' = Some ([], w')" by (rule null_none) simp
  ultimately show ?thesis using i by (simp add: createDevices_def del: upt_rec_numeral)
qed

section \<open>Tiles\<close>

text \<open>The fuse masks are the low bits, and the bits above the disabled tiles remain.\<close>

lemma table_of:
  assumes "platform_of_name env = Some devId"
  shows "\<exists>table. getHwInfoByDeviceId devId = Inr table \<and> tileFuseMask table \<in> {0x1, 0x3, 0x7, 0x3F} \<and>
    \<not> metricStreamerCapability table \<and> deviceRevision table = UINT16_MAX \<and> tileConfig table = 0"
  using assms
  by (auto simp: platform_of_name_def getHwInfoByDeviceId_def pci_ids getHwInfo37xx_def getHwInfo40xx_def getHwInfo50xx_def
      default_hw_info_def Let_def split: if_splits)

lemma enabled_tiles:
  fixes mask :: u32
  assumes "mask \<in> {0x1, 0x3, 0x7, 0x3F}" "0 < n" "n \<le> bit_count mask"
  shows "popcount32 (NOT (if bit_count mask - n \<noteq> 0 then push_bit (bit_count mask - n) 1 - 1 else 0) AND mask) = of_nat n"
proof -
  have b: "bit_count 0x1 = 1" "bit_count 0x3 = 2" "bit_count 0x7 = 3" "bit_count 0x3F = 6" by code_simp+
  have all: "list_all (\<lambda>n. popcount32 (NOT (if k - n \<noteq> 0 then push_bit (k - n) 1 - 1 else 0) AND mask) = of_nat n) [1..<Suc k]"
    if "(mask, k) \<in> {(0x1, 1), (0x3, 2), (0x7, 3), (0x3F, 6)}" for mask :: u32 and k
    using that by (elim insertE) (simp_all only: prod.inject, code_simp+)
  have "(mask, bit_count mask) \<in> {(0x1, 1), (0x3, 2), (0x7, 3), (0x3F, 6)}" using assms(1) b by auto
  then have "list_all (\<lambda>n. popcount32 (NOT (if bit_count mask - n \<noteq> 0 then push_bit (bit_count mask - n) 1 - 1 else 0) AND mask) = of_nat n)
      [1..<Suc (bit_count mask)]" by (rule all)
  moreover have "n \<in> set [1..<Suc (bit_count mask)]" using assms(2,3) by auto
  ultimately show ?thesis unfolding list_all_iff by blast
qed

section \<open>From the environment to the application\<close>

lemma configured:
  assumes "getenv ''ZE_INTEL_NPU_PLATFORM_OVERRIDE'' = Some env" "platform_of_name env = Some devId"
    and "getenv ''ZE_INTEL_NPU_REVISION_OVERRIDE'' = None" "getenv ''ZE_INTEL_NPU_DISABLED_TILE_OVERRIDE'' = None"
    and "getenv ''ZE_INTEL_NPU_TILE_COUNT_OVERRIDE'' = Some s" "parse_whole 0 s = Some n"
    and "configureNullDevice getenv st0 = Some st"
    and "getHwInfoByDeviceId devId = Inr table" "tileConfig table = 0"
  shows "deviceId (nullHwInfo st) = devId" "devnull_fd st = devnull_fd st0"
    "0 < n" "unat n \<le> bit_count (tileFuseMask table)"
    "tileConfig (nullHwInfo st) =
       (if bit_count (tileFuseMask table) - unat n \<noteq> 0 then push_bit (bit_count (tileFuseMask table) - unat n) 1 - 1 else 0)"
  using assms
  by (auto simp: configureNullDevice_def override_revision_def override_disabled_tiles_def override_tile_count_def
      Let_def word_gt_0 split: if_splits)

lemma handle_of_one:
  "\<exists>cs'. DriverHandle_create vcl m [nd] cs =
     (Inr (Some \<lparr>dh_devices = [\<lparr>ld_node = nd, ld_metrics = new_metric_device m (Some (fst nd))\<rparr>], numDevices = 1\<rparr>), cs')"
  using safe_count[of 1] by (simp add: DriverHandle_create_def Let_def)

lemma one_device: "getDevice \<lparr>dh_devices = [l], numDevices = 1\<rparr> (Some 1) True = Inr (ZE_RESULT_SUCCESS, 1, [l])"
  by (simp add: getDevice_def Let_def)

lemma null_initialised:
  fixes w :: "null_dev world"
  assumes "ie_getenv ie ''ZE_INTEL_NPU_PLATFORM_OVERRIDE'' = Some env" "ie_nullOs ie = Some null_os"
    and "0 \<le> devnull_fd (kern w)" "getHwInfoByDeviceId (deviceId (nullHwInfo (kern w))) = Inr table" "\<not> metricStreamerCapability table"
  shows "\<exists>d' l. L0_init ie 0 (new_driver cs w) = Some (Inr ZE_RESULT_SUCCESS, d') \<and>
    pGlobalDriverHandle d' = Some \<lparr>dh_devices = [l], numDevices = 1\<rparr> \<and>
    node_hw l = (null_reported (nullHwInfo (kern w)) table)\<lparr>dmaMemoryRangeCapability := True\<rparr>"
proof -
  let ?m = "env_metrics (initializeEnvVariables (ie_getenv ie) (envVariables (new_driver cs w)))"
  obtain v w' where v: "createDevices null_os ?m (ie_vec ie) w = Some ([(v, ''/dev/accel/accel0'')], w')"
    "dev_hwInfo v = (null_reported (nullHwInfo (kern w)) table)\<lparr>dmaMemoryRangeCapability := True\<rparr>"
    using null_found[OF assms(3-5)] by blast
  let ?l = "\<lparr>ld_node = (v, ''/dev/accel/accel0''), ld_metrics = new_metric_device ?m (Some v)\<rparr>"
  obtain cs' where h: "DriverHandle_create (ie_vcl ie) ?m [(v, ''/dev/accel/accel0'')] cs =
      (Inr (Some \<lparr>dh_devices = [?l], numDevices = 1\<rparr>), cs')"
    using handle_of_one[of "ie_vcl ie" ?m "(v, ''/dev/accel/accel0'')" cs] by auto
  have "\<exists>d'. L0_init ie 0 (new_driver cs w) = Some (Inr ZE_RESULT_SUCCESS, d') \<and>
      pGlobalDriverHandle d' = Some \<lparr>dh_devices = [?l], numDevices = 1\<rparr>"
    using v(1) h assms(1,2) by (simp add: L0_init_def driverInit_def driver_init_body_def new_driver_def getOsInstance_def Let_def)
  then show ?thesis using v(2) by (metis fst_conv l0_device.select_convs(1))
qed

text \<open>C5: On the null device, an application finds exactly the platform that the environment selects: the driver
  initialises, has one device with the PCI identifier of the platform, and that device reports as many
  slices as the tile count of the environment asks for, whatever the fuses of the platform.\<close>

theorem null_platform_reported:
  fixes w :: "null_dev world"
  assumes "ie_getenv ie ''ZE_INTEL_NPU_PLATFORM_OVERRIDE'' = Some env" "platform_of_name env = Some devId"
    and "ie_getenv ie ''ZE_INTEL_NPU_REVISION_OVERRIDE'' = None" "ie_getenv ie ''ZE_INTEL_NPU_DISABLED_TILE_OVERRIDE'' = None"
    and "ie_getenv ie ''ZE_INTEL_NPU_TILE_COUNT_OVERRIDE'' = Some s" "parse_whole 0 s = Some n"
    and "ie_nullOs ie = Some null_os" "configureNullDevice (ie_getenv ie) st0 = Some (kern w)" "0 \<le> devnull_fd st0"
  shows "\<exists>d' h l. L0_init ie 0 (new_driver cs w) = Some (Inr ZE_RESULT_SUCCESS, d') \<and> pGlobalDriverHandle d' = Some h \<and>
    getDevice h (Some 1) True = Inr (ZE_RESULT_SUCCESS, 1, [l]) \<and> numDevices h = 1 \<and>
    dp_deviceId (fill_properties (node_hw l) ram p) = devId \<and>
    dp_numSlices (fill_properties (node_hw l) ram p) = ucast n"
proof -
  obtain table where t: "getHwInfoByDeviceId devId = Inr table" "tileFuseMask table \<in> {0x1, 0x3, 0x7, 0x3F}"
    "\<not> metricStreamerCapability table" "tileConfig table = 0"
    using table_of[OF assms(2)] by blast
  note c = configured[OF assms(1-6,8) t(1,4)]
  obtain d' l where d: "L0_init ie 0 (new_driver cs w) = Some (Inr ZE_RESULT_SUCCESS, d')"
    "pGlobalDriverHandle d' = Some \<lparr>dh_devices = [l], numDevices = 1\<rparr>"
    and l: "node_hw l = (null_reported (nullHwInfo (kern w)) table)\<lparr>dmaMemoryRangeCapability := True\<rparr>"
    using null_initialised[OF assms(1,7)] c(1,2) t(1,3) assms(9) by metis
  have "popcount32 (tileConfig (node_hw l)) = ucast n"
    using enabled_tiles[of "tileFuseMask table" "unat n", OF t(2)] c(3-5) l
    by (simp add: null_reported_def unat_gt_0 word_gt_0 split del: if_split)
  then have "dp_deviceId (fill_properties (node_hw l) ram p) = devId \<and> dp_numSlices (fill_properties (node_hw l) ram p) = ucast n"
    using l c(1) by (simp add: fill_properties_def null_reported_def)
  then show ?thesis using d one_device by (metis driver_handle.select_convs(2))
qed

text \<open>A Meteor Lake device with one of its two tiles.\<close>

definition null_env :: "string \<Rightarrow> string option" where
  "null_env = [''ZE_INTEL_NPU_PLATFORM_OVERRIDE'' \<mapsto> ''METEORLAKE'', ''ZE_INTEL_NPU_TILE_COUNT_OVERRIDE'' \<mapsto> ''1'']"

definition null_start :: null_dev where
  "null_start = \<lparr>nullHwInfo = default_hw_info, unique_id = 0, deviceAddress = 0, devnull_fd = 3, heap_top = 0x1000\<rparr>"

definition null_init_env :: "('c, 'p, 'q) vcl \<Rightarrow> (null_dev, 'c, 'p, 'q) init_env" where
  "null_init_env vcl = \<lparr>ie_getenv = null_env, ie_nullOs = Some null_os, ie_realOs = null_os, ie_vcl = vcl,
     ie_cwd = ''/'', ie_mkdir = (\<lambda>s. True), ie_vec = (\<lambda>i. 0)\<rparr>"

definition null_meteorlake :: null_dev where
  "null_meteorlake = null_start\<lparr>deviceAddress := 0xc0000000,
     nullHwInfo := getHwInfo37xx\<lparr>deviceId := PCI_DEVICE_ID_MTL, tileConfig := 1\<rparr>\<rparr>"

lemma null_start_configured:
  "parse_whole 0 ''1'' = Some 1" "platform_of_name ''METEORLAKE'' = Some PCI_DEVICE_ID_MTL"
  "configureNullDevice null_env null_start = Some null_meteorlake"
proof -
  show n: "parse_whole 0 ''1'' = Some 1"
    by (simp add: parse_whole_def stoul_def is_space_def detect_base_def Null_Device.digit_value_def digits_value_def Let_def)
  show m: "platform_of_name ''METEORLAKE'' = Some PCI_DEVICE_ID_MTL" by (simp add: platform_of_name_def)
  have h: "getHwInfoByDeviceId PCI_DEVICE_ID_MTL = Inr getHwInfo37xx" "tileFuseMask getHwInfo37xx = 0x3"
    by (simp_all add: getHwInfoByDeviceId_def getHwInfo37xx_def)
  have b: "bit_count 0x3 = 2" by code_simp
  show "configureNullDevice null_env null_start = Some null_meteorlake"
    by (simp add: configureNullDevice_def null_env_def m h n b override_revision_def override_disabled_tiles_def
        override_tile_count_def null_meteorlake_def Let_def)
qed

lemma null_platform_reported_witness:
  "\<forall>vcl w cs p. \<exists>d' h l. L0_init (null_init_env vcl) 0 (new_driver cs (w\<lparr>kern := null_meteorlake\<rparr>)) = Some (Inr ZE_RESULT_SUCCESS, d') \<and>
      pGlobalDriverHandle d' = Some h \<and>
      getDevice h (Some 1) True = Inr (ZE_RESULT_SUCCESS, 1, [l]) \<and> numDevices h = 1 \<and>
      dp_deviceId (fill_properties (node_hw l) None p) = PCI_DEVICE_ID_MTL \<and>
      dp_numSlices (fill_properties (node_hw l) None p) = 1"
proof (intro allI, goal_cases)
  case (1 vcl w cs p)
  have e: "ie_getenv (null_init_env vcl) = null_env" "ie_nullOs (null_init_env vcl) = Some null_os"
    by (simp_all add: null_init_env_def)
  have n: "null_env ''ZE_INTEL_NPU_PLATFORM_OVERRIDE'' = Some ''METEORLAKE''" "null_env ''ZE_INTEL_NPU_REVISION_OVERRIDE'' = None"
    "null_env ''ZE_INTEL_NPU_DISABLED_TILE_OVERRIDE'' = None" "null_env ''ZE_INTEL_NPU_TILE_COUNT_OVERRIDE'' = Some ''1''"
    by (simp_all add: null_env_def)
  show ?case
    using null_platform_reported[of "null_init_env vcl" "''METEORLAKE''" PCI_DEVICE_ID_MTL "''1''" 1 null_start
        "w\<lparr>kern := null_meteorlake\<rparr>" cs None p] null_start_configured
    by (simp add: e n null_start_def)
qed

section \<open>Initialisation and lists on the null device\<close>

lemma null_meteorlake_initialised:
  fixes w :: "null_dev world"
  shows "\<exists>d' l. L0_init (null_init_env vcl) 0 (new_driver cs (w\<lparr>kern := null_meteorlake\<rparr>)) = Some (Inr ZE_RESULT_SUCCESS, d') \<and>
    pGlobalDriverHandle d' = Some \<lparr>dh_devices = [l], numDevices = 1\<rparr>"
proof -
  have "getHwInfoByDeviceId PCI_DEVICE_ID_MTL = Inr getHwInfo37xx" "\<not> metricStreamerCapability getHwInfo37xx"
    by (simp_all add: getHwInfoByDeviceId_def getHwInfo37xx_def default_hw_info_def)
  then show ?thesis
    using null_initialised[of "null_init_env vcl" "''METEORLAKE''" "w\<lparr>kern := null_meteorlake\<rparr>" getHwInfo37xx cs]
    by (auto simp: null_init_env_def null_env_def null_meteorlake_def null_start_def)
qed

lemma driver_initialised_once_witness:
  "\<forall>vcl w cs. \<exists>d' :: null_dev driver. pGlobalDriverHandle d' \<noteq> None \<and>
     L0_init (null_init_env vcl) 0 (new_driver cs (w\<lparr>kern := null_meteorlake\<rparr>)) = Some (Inr ZE_RESULT_SUCCESS, d') \<and>
     L0_init ((null_init_env vcl)\<lparr>ie_getenv := (\<lambda>s. None)\<rparr>) 2 d' = Some (Inr ZE_RESULT_SUCCESS, d')"
proof (intro allI, goal_cases)
  case (1 vcl w cs)
  obtain d' l where "L0_init (null_init_env vcl) 0 (new_driver cs (w\<lparr>kern := null_meteorlake\<rparr>)) = Some (Inr ZE_RESULT_SUCCESS, d')"
    "pGlobalDriverHandle d' = Some \<lparr>dh_devices = [l], numDevices = 1\<rparr>"
    using null_meteorlake_initialised by blast
  note d = this
  have f: "(2 :: u32) = 0 \<or> 2 AND ZE_INIT_FLAG_VPU_ONLY \<noteq> 0" by (simp add: ZE_INIT_FLAG_VPU_ONLY_def)
  show ?case
    using driver_initialised_once[OF reachable_driver.start d(1) disjI1[OF refl] f,
        of "(null_init_env vcl)\<lparr>ie_getenv := (\<lambda>s. None)\<rparr>"] d
    by (intro exI[of _ d']) simp
qed

lemma devices_enumerated_witness:
  "\<forall>vcl w cs. \<exists>(d' :: null_dev driver) h.
     L0_init (null_init_env vcl) 0 (new_driver cs (w\<lparr>kern := null_meteorlake\<rparr>)) = Some (Inr ZE_RESULT_SUCCESS, d') \<and>
     driverHandleGet d' (Some 1) True = Inr (ZE_RESULT_SUCCESS, 1, [Some h]) \<and>
     (\<exists>n. getDevice h (Some 0) True = Inr (ZE_RESULT_SUCCESS, n, []) \<and>
        getDevice h (Some n) True = Inr (ZE_RESULT_SUCCESS, n, dh_devices h) \<and> dh_devices h \<noteq> [])"
proof (intro allI, goal_cases)
  case (1 vcl w cs)
  obtain d' l where d: "L0_init (null_init_env vcl) 0 (new_driver cs (w\<lparr>kern := null_meteorlake\<rparr>)) = Some (Inr ZE_RESULT_SUCCESS, d')"
    "pGlobalDriverHandle d' = Some \<lparr>dh_devices = [l], numDevices = 1\<rparr>"
    using null_meteorlake_initialised by blast
  have "driverHandleGet d' (Some 0) True = Inr (ZE_RESULT_SUCCESS, 1, [])"
    using init_status[OF d(1)] by (simp add: driverHandleGet_def)
  then show ?case
    using devices_enumerated[OF reachable_driver.start d(1)] d(1) by blast
qed

end
