(* ===== verification/Spec2Isabelle.thy ===== *)
theory Spec2Isabelle
  imports Device_Queue_Props Umd_Props Vpu_Device_Props L0_Metric_Props L0_Execute_Props Disk_Cache_Props L0_Memory_Props Resource_Cleaner Elf_Props L0_Graph_Props Api_Steps Api_Driver Null_Driver
begin

text \<open>
  A model of the user mode driver of the Intel NPU (\<open>src/umd\<close>), and what makes it correct.

  \<^bold>\<open>The program.\<close> An application calls the Level Zero API (\<open>src/umd/level_zero_driver\<close>). A context
  (\<open>context.cpp\<close>, \<open>memory.cpp\<close>) gives it memory; a graph (\<open>ext/graph.cpp\<close>) is made from a compiled blob,
  from a model that the compiler library compiles, or from the cache of compiled blobs on the disk; command
  lists (\<open>cmdlist.cpp\<close>, \<open>immediate_cmdlist.cpp\<close>) record commands, with events (\<open>event.cpp\<close>) before and
  after them; command queues (\<open>cmdqueue.cpp\<close>) execute lists and signal fences (\<open>fence.cpp\<close>). Below it,
  \<open>src/umd/vpu_driver\<close> turns a list into a job (\<open>command/job.cpp\<close>): a sequence of command buffers
  (\<open>command/command_buffer.cpp\<close>) with the bytes that the firmware reads (\<open>command/*.cpp\<close>), in buffer
  objects (\<open>memory/vpu_buffer_object.cpp\<close>) that a device context (\<open>device/vpu_device_context.cpp\<close>) finds by
  address, caches and releases. The queues of the device (\<open>device/vpu_command_queue.cpp\<close>) hand the buffers
  to the kernel through the ioctl wrappers (\<open>os_interface/vpu_driver_api.cpp\<close>).

  \<^bold>\<open>The theories\<close>, from the kernel up. A theory whose name ends in \<open>_Props\<close> holds the properties of the
  theory it is named after; a definition has the name of the function that it models.

  \<^item> \<open>Umd_Prelude\<close>: bytes, words and their encodings, \<open>ALIGN\<close>, \<open>safe_cast\<close> (\<open>umd_common.hpp\<close>), the
    hint collections \<open>byte_simps\<close> and \<open>umd_defs\<close>. \<open>Ptr_Map\<close>: \<open>std::map\<close> with descending keys and its
    \<open>lower_bound\<close>, under the locale \<open>ordered_map\<close>.
  \<^item> \<open>Os_Interface\<close>, \<open>Driver_Api\<close>: the interface of the operating system as a record of functions on a
    world (the memory of the process, \<open>errno\<close>, the statistics, and a state \<open>'k\<close> of the kernel), and each
    ioctl wrapper. The locales \<open>posix_os\<close> and \<open>driver_contract\<close> say what the wrappers rely on, and what a
    device context relies on in the wrappers.
  \<^item> \<open>Null_Device\<close>: the software device of the source, which is the instance of both locales.
  \<^item> \<open>Hw_Info\<close>: the tables of the device generations and the version tests.
  \<^item> \<open>Buffer_Object\<close>, \<open>Device_Context\<close>: buffer objects; the tracked buffers, the untracked ones, the
    scratch and preemption caches. \<open>Context_Invariant\<close> and \<open>Context_Steps\<close> state the invariant of a
    context (the ranges of the objects are mapped, disjoint and counted) and that every step keeps it.
  \<^item> \<open>Commands\<close>, \<open>Command_Buffer\<close>, \<open>Command_Buffer_Layout\<close>, \<open>Command_Buffer_Sync\<close>, \<open>Job\<close>: the commands
    with their firmware structures, the buffer with header, commands and descriptors, the synchronisation
    with fences, and jobs. The layout theory describes the image of a buffer as pieces.
  \<^item> \<open>Device_Queue\<close>: the two kinds of queue, submission with the polling of a full queue, priorities. The
    locale \<open>device_queue_class\<close> is the virtual interface of \<open>VPUDeviceQueue\<close>; \<open>cmdq_kernel\<close> and
    \<open>submission_log\<close> describe kernels with queues.
  \<^item> \<open>Vpu_Device\<close>: parameters and capabilities of the device, the walk over the firmware's metric
    descriptors, the PCI address. \<open>Umd_Props\<close>: facts about the small functions of the lower layer.
  \<^item> \<open>L0_Base\<close>: results, and operations as functions on the state \<open>l0\<close> of all objects of a context, with
    \<open>None\<close> for a run that does not return or leaves the memory it may touch. \<open>L0_Event\<close>, \<open>L0_Metric\<close>,
    \<open>L0_Command_Queue\<close>, \<open>L0_Command_List\<close>: the objects of the same names; their properties are in
    \<open>L0_Event_Props\<close>, \<open>L0_Metric_Props\<close>, \<open>L0_Command_List_Props\<close>, \<open>L0_Copy_Props\<close> and \<open>L0_Execute_Props\<close>.
  \<^item> \<open>L0_Memory\<close>: the memory calls of a context and of the API (\<open>memory.cpp\<close>, \<open>api/ze_memory.cpp\<close>).
    \<open>Resource_Cleaner\<close>: the thread that releases the memory of an idle context, as a step relation of the
    thread, its callers, the other users of the context and the clock.
  \<^item> \<open>Os_Files\<close>: files with locks and mappings over a file system. \<open>Disk_Cache\<close>: the cache of compiled
    blobs (\<open>ext/disk_cache.cpp\<close>).
  \<^item> \<open>Compiler\<close>: the calls of the compiler library (\<open>ext/compiler.cpp\<close>, \<open>ext/query_network.cpp\<close>).
    \<open>Build_Flags\<close>: the merge of the options of the application with those of the environment.
  \<^item> \<open>Elf_Buffers\<close>, \<open>Elf_Parser\<close>, \<open>Elf_Arguments\<close>, \<open>Elf_Props\<close>: the memory that the ELF loader gets, the
    pool of parsed inferences and the commands made from it, and the properties of the arguments
    (\<open>ext/elf_parser.cpp\<close>).
  \<^item> \<open>Graph_Profiling\<close>, \<open>L0_Graph\<close>: profiling pools and queries (\<open>ext/profiling_data.cpp\<close>), and graphs.
    \<open>Nested_Structs\<close>: chains of structures behind \<open>pNext\<close> (\<open>nested_structs_handler.hpp\<close>).
  \<^item> \<open>L0_Device\<close>, \<open>L0_Driver\<close>: devices (\<open>device.cpp\<close>), the driver and its handle (\<open>driver.cpp\<close>,
    \<open>driver_handle.cpp\<close>) with the search for devices (\<open>vpu_device_factory.cpp\<close>). \<open>Enumeration\<close> is the locale
    of the calls that list objects; the lists of devices, drivers, metric groups, queue groups, memories and
    extensions are its instances. \<open>L0_Driver_Props\<close> treats initialisation, \<open>Null_Driver\<close> the driver on the null
    device, from the environment to the properties that an application reads.
  \<^item> \<open>Api_Objects\<close>, \<open>Api_Graph\<close>, \<open>Api_Driver\<close>: the entry points of the API (\<open>level_zero_driver/api\<close>) for
    lists, queues, fences and events, for graphs with their validation, and for drivers, devices, contexts,
    engines and metrics. \<open>Api_Tables\<close>: the functions that hand the entry points to the loader.
  \<^item> \<open>Job_Owners\<close>, \<open>Api_Steady\<close>, \<open>Api_Steps\<close>: the shared pointers of jobs. The first defines who holds a job
    and what keeps the counts, the second shows it of every operation, and the third has a step relation of
    all entry points on one context and its reachable states.

  \<^bold>\<open>Conventions.\<close> Integers keep their width: a \<open>uint64_t\<close>, a \<open>size_t\<close> and a pointer are \<open>64 word\<close>s, so
  sums wrap as they do in the code. A thrown exception is the left part of a sum; \<open>DriverError\<close> carries its
  result. A result \<open>None\<close> of an operation is undefined behaviour or a run that does not return: a null
  pointer that is dereferenced, or an access outside of a mapping. A \<open>shared_ptr\<close> of a buffer object is a
  reference in the table of counts of the context, keyed by an identity that the model gives to the object;
  \<open>take_ref\<close> and \<open>drop_ref\<close> stand where the code copies and destroys such a pointer, and the last one
  releases the object.

  \<^bold>\<open>What is shown.\<close>

  \<^item> Bytes: an allocated command buffer is walked by \<open>printCommandBuffer\<close> as the list of commands that was
    put into it (C1), an in-order job waits for and signals the right fences (C2), closing a job loses no
    command (C10), and the copy descriptors move exactly the requested bytes (C9).
  \<^item> Memory: in every reachable context the lookup by address is exact (C7), caches hand out no buffer that
    is in use (C28), and the calls of the API refine a specification in which a context is a set of disjoint
    allocations (C3). Jobs are counted exactly whatever calls fail (C4). Idle memory is released after a whole
    idle period only, by a thread that always ends (C19, C32).
  \<^item> Queues: the kernel gets the buffers of a job in order, each once (C8), no queue of the kernel leaks
    (C20), submission returns on a clock that advances (C21).
  \<^item> Lists: what an append leaves in a list (C23), what execution tracks (C24), and that a fill covers its
    region (C25). Queries of events end (C29). Metric groups are exclusive, and the walk over the firmware's
    descriptors inverts their encoding (C26, C27).
  \<^item> The driver: it is initialised once (C6), lists each device once (C36), finds on the null device what the
    environment asks for (C5), and hands the loader the entry point that each member of a table names (C22);
    C37 bounds what the directory of the cache writes.
  \<^item> Graphs: creation succeeds exactly with a well-formed graph (C11), the argument slots refine one list of
    cells (C12), the cache changes no blob (C13), gives back only what carries its checksum (C14), evicts the
    oldest files (C15) and keeps its limit (C16). No pointer reaches the loader without room behind it (C17),
    no parsed inference has two users (C18), the metadata of a blob overruns no array (C33), a chain of
    structures is followed at most twenty times (C34), but for ever by the validation of the API when it leads
    back into itself (C35); profiling slots are apart (C30), and the options of the environment win (C31).
    The handles of the compiler balance (C39). C38 is a call that validation always refuses, and C40 states
    that the memory of a profiling pool outlives the pool.

  Theorems of the \<open>_Props\<close> theories that have no number are proved as well: among them what an immediate list
  refuses, where timeouts and ranges wrap around, and what fails without a trace.

  \<^bold>\<open>Bounds.\<close> The loops over lists are structural; the splits of a fill, the closing of a job and the parsing
  of options recur on the length of what is left. \<open>NESTED_STRUCTS_LIMIT\<close> is the constant of the source. The
  loops without a bound of their own are \<open>partial_function (option)\<close>, so that a run that does not return is
  \<open>None\<close>: the repeated ioctl, the polling of a full queue and of a metric event, and the walks over the
  bytes of command buffers and descriptors. No fuel is used. The polling loops end at a deadline; their
  clock is a function from the number of its readings to a time, and C21 and C29 show that they return when
  the clock advances; C1 and C27 show that the walks return, and C35 when the loop over \<open>pNext\<close> does. The loop over the metric maxima has an index of
  8 bits and may run for ever (\<open>max_values_return_iff\<close>).

  \<^bold>\<open>Parameters.\<close> What is not under \<open>src/\<close> is an argument of the definitions: the operating system and the
  kernel (\<open>os_interface\<close>, with the laws of the two locales), the ELF loader (\<open>hpi_lib\<close> and \<open>read_hpi\<close>, with no
  law but totality), the compiler library (\<open>vcl\<close>, no law), CityHash (\<open>city\<close>, no law), the file system's
  permissions and clock (\<open>fs_env\<close>), the constants of the Level Zero headers where a computation depends on
  them (\<open>graph_codes\<close>, \<open>elf_flags\<close>, \<open>ze_limits\<close>, \<open>npu_flags\<close>, \<open>ext_consts\<close>, \<open>api_versions\<close>), the translation of
  handles by the loader (\<open>loader\<close>, \<open>tr_context\<close>, \<open>tr_device\<close>), the environment of the process, and the order in which an unordered map is iterated
  (\<open>iteration\<close>).

  \<^bold>\<open>Not modelled.\<close>

  \<^item> Locks, except in \<open>Resource_Cleaner\<close>: each operation is one step, which is what the mutexes of a context
    and of a queue give; unlocked accesses are outside of the model.
  \<^item> The busy wait on the time stamp counter, which only reads; the bytes behind a NOP command, which the
    code copies from beyond its structure, are a parameter of that command.
  \<^item> The names and descriptions of metrics, which are copied; the display of the versions of components.
  \<^item> The printers of the arguments of entry points (\<open>api/trace\<close>), which are generated and only write, and the
    lookup of symbols in the libraries of the loader and of the compiler.
  \<^item> The destruction of a context as a whole; the objects that it owns are destroyed by their own calls.
  \<^item> Logging, tracing and statistics files (pure output), the search for the compiler library, tools, tests
    and vendored code.
\<close>

end
